(* ===== verification/Prelude.thy ===== *)
theory Prelude
  imports Main "HOL-Library.Word" "HOL-Library.Char_ord" "HOL-Library.List_Lexorder"
begin

text \<open>
  Shared vocabulary of the development: results and state-passing actions, saturating
  machine arithmetic, Rust strings, ordered maps (the model of \<^verbatim>\<open>BTreeMap\<close>), the selection
  idioms \<^verbatim>\<open>find\<close> and \<^verbatim>\<open>max_by_key\<close>, and the two contracts every stateful component is
  verified against: an invariant kept by every step and a preorder every step moves along.
\<close>

named_theorems fabric_simps \<open>unfolding equations of the fabric helpers\<close>
named_theorems frame_simps \<open>which part of the state an operation leaves alone\<close>

section \<open>Results and actions\<close>

text \<open>
  A Rust \<^verbatim>\<open>Result<T, E>\<close> is \<open>'e + 't\<close> (\<^term>\<open>Inl\<close> is \<^verbatim>\<open>Err\<close>). A function on
  \<^verbatim>\<open>&mut S\<close> returning a \<^verbatim>\<open>Result\<close> is an action: it gives back the result and the state as it
  is left, also when the result is an error (the mutations made before an early return stay).
\<close>

type_synonym ('s, 'e, 'a) action = "'s \<Rightarrow> ('e + 'a) \<times> 's"

type_synonym u64 = "64 word"
type_synonym u32 = "32 word"

text \<open>A byte string; a Rust \<^verbatim>\<open>String\<close> is its UTF-8 bytes.\<close>

type_synonym bytes = "char list"

text \<open>The \<^verbatim>\<open>?\<close> operator on a read-only check, and on an action.\<close>

definition bindR :: "'e + 'a \<Rightarrow> ('a \<Rightarrow> 'e + 'b) \<Rightarrow> 'e + 'b" where
  "bindR r k = (case r of Inl e \<Rightarrow> Inl e | Inr x \<Rightarrow> k x)"

definition check :: "'e + 'a \<Rightarrow> ('a \<Rightarrow> ('s, 'e, 'b) action) \<Rightarrow> ('s, 'e, 'b) action" where
  "check r k s = (case r of Inl e \<Rightarrow> (Inl e, s) | Inr x \<Rightarrow> k x s)"

definition andThen :: "('s, 'e, 'a) action \<Rightarrow> ('a \<Rightarrow> ('s, 'e, 'b) action) \<Rightarrow> ('s, 'e, 'b) action" where
  "andThen f k s = (case f s of (Inl e, t) \<Rightarrow> (Inl e, t) | (Inr x, t) \<Rightarrow> k x t)"

text \<open>\<^verbatim>\<open>if cond { return Err(e) }\<close> and \<^verbatim>\<open>opt.ok_or_else(|| e)\<close>.\<close>

definition reject_if :: "bool \<Rightarrow> 'e \<Rightarrow> 'e + unit" where
  "reject_if c e = (if c then Inl e else Inr ())"

definition ok_or :: "'a option \<Rightarrow> 'e \<Rightarrow> 'e + 'a" where
  "ok_or x e = (case x of None \<Rightarrow> Inl e | Some a \<Rightarrow> Inr a)"

definition map_err :: "('d \<Rightarrow> 'e) \<Rightarrow> 'd + 'a \<Rightarrow> 'e + 'a" where
  "map_err f r = (case r of Inl d \<Rightarrow> Inl (f d) | Inr a \<Rightarrow> Inr a)"

lemma bindR_Inl [simp]: "bindR (Inl e) k = Inl e"
  by (simp add: bindR_def)

lemma bindR_Inr [simp]: "bindR (Inr x) k = k x"
  by (simp add: bindR_def)

lemma bindR_eq_Inr: "bindR r k = Inr y \<longleftrightarrow> (\<exists>x. r = Inr x \<and> k x = Inr y)"
  by (cases r) (simp_all add: bindR_def)

lemma bindR_eq_Inl: "bindR r k = Inl e \<longleftrightarrow> r = Inl e \<or> (\<exists>x. r = Inr x \<and> k x = Inl e)"
  by (cases r) (simp_all add: bindR_def)

lemma check_Inl [simp]: "check (Inl e) k s = (Inl e, s)"
  by (simp add: check_def)

lemma check_Inr [simp]: "check (Inr x) k s = k x s"
  by (simp add: check_def)

lemma check_eq_Inr: "check r k s = (Inr y, t) \<longleftrightarrow> (\<exists>x. r = Inr x \<and> k x s = (Inr y, t))"
  by (cases r) (simp_all add: check_def)

lemma andThen_eq_Inr:
  "andThen f k s = (Inr y, t) \<longleftrightarrow> (\<exists>x u. f s = (Inr x, u) \<and> k x u = (Inr y, t))"
  by (cases "f s"; cases "fst (f s)") (auto simp: andThen_def)

lemma reject_if_eq [simp]: "reject_if c e = Inr u \<longleftrightarrow> \<not> c" "reject_if c e = Inl d \<longleftrightarrow> c \<and> d = e"
  by (auto simp: reject_if_def)

lemma reject_if_simps [simp]: "reject_if True e = Inl e" "reject_if False e = Inr ()"
  by (simp_all add: reject_if_def)

lemma ok_or_simps [simp]: "ok_or (Some a) e = Inr a" "ok_or None e = Inl e"
  by (simp_all add: ok_or_def)

lemma ok_or_eq_Inr [simp]: "ok_or x e = Inr a \<longleftrightarrow> x = Some a"
  by (cases x) (simp_all add: ok_or_def)

lemma map_err_simps [simp]: "map_err f (Inl d) = Inl (f d)" "map_err f (Inr a) = Inr a"
  by (simp_all add: map_err_def)

lemma map_err_eq_Inr [simp]: "map_err f r = Inr a \<longleftrightarrow> r = Inr a"
  by (cases r) simp_all

lemma if_Inl_eq_Inr [simp]:
  "(if b then (Inl d, u) else p) = (Inr y, t) \<longleftrightarrow> \<not> b \<and> p = (Inr y, t)"
  by simp

lemma write_eq_Inr:
  "(case p of ((a, b), c) \<Rightarrow> (Inr (f a b), c)) = (Inr r, t) \<longleftrightarrow> (\<exists>a b. p = ((a, b), t) \<and> f a b = r)"
  by (auto split: prod.splits)

lemma write_one_eq_Inr:
  "(case p of (a, c) \<Rightarrow> (Inr a, c)) = (Inr r, t) \<longleftrightarrow> p = (r, t)"
  by (auto split: prod.splits)

lemmas result_simps = bindR_eq_Inr check_eq_Inr andThen_eq_Inr

text \<open>
  An action that leaves the state alone when it fails, and one whose final state satisfies a
  predicate whatever its result. Both pass through the combinators, so a component proves them
  for its own write only.
\<close>

definition keeps :: "('s \<Rightarrow> bool) \<Rightarrow> ('s, 'e, 'a) action \<Rightarrow> bool" where
  "keeps P f \<longleftrightarrow> (\<forall>s. P s \<longrightarrow> P (snd (f s)))"

definition atomic :: "('s, 'e, 'a) action \<Rightarrow> bool" where
  "atomic f \<longleftrightarrow> (\<forall>s e t. f s = (Inl e, t) \<longrightarrow> t = s)"

lemma atomicD: "atomic f \<Longrightarrow> f s = (Inl e, t) \<Longrightarrow> t = s"
  by (auto simp: atomic_def)

lemma snd_check: "snd (check r k s) = (case r of Inl _ \<Rightarrow> s | Inr x \<Rightarrow> snd (k x s))"
  by (cases r) simp_all

lemma check_pred:
  assumes "P s" and "\<And>x. r = Inr x \<Longrightarrow> P (snd (k x s))"
  shows "P (snd (check r k s))"
  using assms by (cases r) simp_all

lemma andThen_pred:
  assumes "P (snd (f s))" and "\<And>x t. f s = (Inr x, t) \<Longrightarrow> P (snd (k x t))"
  shows "P (snd (andThen f k s))"
  using assms by (cases "f s"; cases "fst (f s)") (auto simp: andThen_def)

section \<open>Saturating machine arithmetic\<close>

definition sat_add :: "'a::len word \<Rightarrow> 'a word \<Rightarrow> 'a word" where
  "sat_add a b = (if unat a + unat b < 2 ^ LENGTH('a) then a + b else - 1)"

definition sat_sub :: "'a::len word \<Rightarrow> 'a word \<Rightarrow> 'a word" where
  "sat_sub a b = (if a < b then 0 else a - b)"

lemma unat_max_word: "unat (- 1 :: 'a::len word) = 2 ^ LENGTH('a) - 1"
  by transfer (simp add: mask_eq_exp_minus_1 nat_diff_distrib nat_power_eq)

lemma unat_le_max: "unat (a :: 'a::len word) \<le> 2 ^ LENGTH('a) - 1"
proof -
  have "unat a < 2 ^ LENGTH('a)" by simp
  then show ?thesis by linarith
qed

lemma unat_sat_add:
  "unat (sat_add a (b :: 'a::len word)) = min (unat a + unat b) (2 ^ LENGTH('a) - 1)"
proof (cases "unat a + unat b < 2 ^ LENGTH('a)")
  case True
  then show ?thesis by (simp add: sat_add_def unat_word_ariths)
next
  case False
  then show ?thesis by (simp add: sat_add_def unat_max_word)
qed

lemma word_le_max: "(a :: 'a::len word) \<le> - 1"
  by (rule word_order.extremum)

lemma sat_add_ge: "(a :: 'a::len word) \<le> sat_add a b"
proof -
  have "unat a \<le> 2 ^ LENGTH('a) - 1"
    by (rule unat_le_max)
  then show ?thesis by (simp add: word_le_nat_alt unat_sat_add)
qed

lemma sat_add_one_gt: "(a :: 'a::len word) \<noteq> - 1 \<Longrightarrow> a < sat_add a 1"
proof -
  assume a: "a \<noteq> - 1"
  have "unat a \<noteq> 2 ^ LENGTH('a) - 1"
    using a by (metis unat_max_word word_unat_eq_iff)
  moreover have "unat a < 2 ^ LENGTH('a)"
    by simp
  ultimately have "unat a + 1 \<le> 2 ^ LENGTH('a) - 1" by linarith
  then show ?thesis by (simp add: word_less_nat_alt unat_sat_add)
qed

lemma sat_add_one_pos: "0 < sat_add (a :: 'a::len word) 1"
proof -
  have "(1::nat) \<le> 2 ^ LENGTH('a) - 1"
    by (metis One_nat_def Suc_leI len_gt_0 nat_zero_less_power_iff one_less_numeral_iff
        one_less_power semiring_norm(76) zero_less_diff)
  then have "0 < unat (sat_add a 1)" by (simp add: unat_sat_add)
  then show ?thesis by (simp add: word_less_nat_alt)
qed

lemma sat_sub_eq: "unat (sat_sub a b) = unat a - unat b"
  by (simp add: sat_sub_def word_less_nat_alt unat_sub word_le_nat_alt)

text \<open>An executable form that does not compute the bound.\<close>

lemma sat_add_code [code]: "sat_add a b = (let c = a + b in if c < a then - 1 else c)"
proof (cases "unat a + unat b < 2 ^ LENGTH('a)")
  case True
  then have "unat (a + b) = unat a + unat b" by (simp add: unat_word_ariths)
  with True show ?thesis by (simp add: sat_add_def Let_def word_less_nat_alt)
next
  case False
  let ?m = "2 ^ LENGTH('a) :: nat"
  have a: "unat a < ?m" and b: "unat b < ?m" by simp_all
  have "unat (a + b) = (unat a + unat b) mod ?m" by (rule unat_word_ariths(1))
  also have "\<dots> = (unat a + unat b - ?m) mod ?m" using False by (simp only: le_mod_geq not_less)
  also have "\<dots> = unat a + unat b - ?m" using a b by (intro mod_less) linarith
  finally have "unat (a + b) < unat a" using False b by linarith
  with False show ?thesis by (simp add: sat_add_def Let_def word_less_nat_alt)
qed

section \<open>Rust strings\<close>

text \<open>
  Decimal rendering of an unsigned integer (\<^verbatim>\<open>format!("{n}")\<close>). The digits contain no
  colon, which is what makes the colon-separated ids of the fabric readable from the right.
\<close>

definition digit :: "nat \<Rightarrow> char" where
  "digit d = char_of (48 + d)"

fun show_nat :: "nat \<Rightarrow> string" where
  "show_nat n = (if n < 10 then [digit n] else show_nat (n div 10) @ [digit (n mod 10)])"

declare show_nat.simps [simp del]

definition show_word :: "'a::len word \<Rightarrow> string" where
  "show_word w = show_nat (unat w)"

lemma digit_inj: "d < 10 \<Longrightarrow> e < 10 \<Longrightarrow> digit d = digit e \<longleftrightarrow> d = e"
  unfolding digit_def using char_of_eq_iff by simp

lemma digit_not_colon: "d < 10 \<Longrightarrow> digit d \<noteq> CHR '':''"
proof
  assume d: "d < 10" and eq: "digit d = CHR '':''"
  have "(of_char (digit d) :: nat) = 48 + d"
    using d by (simp add: digit_def)
  with eq have "48 + d = 58" by simp
  with d show False by simp
qed

lemma show_nat_no_colon: "CHR '':'' \<notin> set (show_nat n)"
proof (induction n rule: show_nat.induct)
  case (1 n)
  show ?case
  proof (cases "n < 10")
    case True
    then show ?thesis using digit_not_colon [of n] by (simp add: show_nat.simps [of n])
  next
    case False
    with "1.IH" show ?thesis
      using digit_not_colon [of "n mod 10"] by (simp add: show_nat.simps [of n])
  qed
qed

lemma show_nat_nonempty: "show_nat n \<noteq> []"
  by (simp add: show_nat.simps [of n])

lemma show_nat_inj: "show_nat m = show_nat n \<Longrightarrow> m = n"
proof (induction m arbitrary: n rule: show_nat.induct)
  case (1 m)
  show ?case
  proof (cases "m < 10")
    case True
    then have m: "show_nat m = [digit m]" by (simp add: show_nat.simps [of m])
    have n: "n < 10"
    proof (rule ccontr)
      assume "\<not> n < 10"
      then have "show_nat n = show_nat (n div 10) @ [digit (n mod 10)]"
        by (simp add: show_nat.simps [of n])
      then show False using m "1.prems" by (simp add: show_nat_nonempty)
    qed
    then have "show_nat n = [digit n]" by (simp add: show_nat.simps [of n])
    then show ?thesis using m "1.prems" True n by (simp add: digit_inj)
  next
    case m: False
    then have sm: "show_nat m = show_nat (m div 10) @ [digit (m mod 10)]"
      by (simp add: show_nat.simps [of m])
    have n: "\<not> n < 10"
    proof
      assume "n < 10"
      then have "show_nat n = [digit n]" by (simp add: show_nat.simps [of n])
      then show False using sm "1.prems" show_nat_nonempty [of "m div 10"] by simp
    qed
    then have sn: "show_nat n = show_nat (n div 10) @ [digit (n mod 10)]"
      by (simp add: show_nat.simps [of n])
    from sm sn "1.prems" have d: "show_nat (m div 10) = show_nat (n div 10)"
      and r: "digit (m mod 10) = digit (n mod 10)" by auto
    have "m div 10 = n div 10" using "1.IH" [OF m d] .
    moreover have "m mod 10 = n mod 10" using r by (simp add: digit_inj)
    ultimately show ?thesis by (metis div_mult_mod_eq)
  qed
qed

lemma show_word_inj: "show_word a = show_word b \<Longrightarrow> a = b"
  unfolding show_word_def by (drule show_nat_inj) (simp add: word_unat_eq_iff)

lemma show_word_no_colon: "CHR '':'' \<notin> set (show_word w)"
  by (simp add: show_word_def show_nat_no_colon)

lemma split_last_sep:
  assumes "x \<notin> set b" and "x \<notin> set d" and "a @ x # b = c @ x # d"
  shows "a = c \<and> b = d"
proof -
  have "takeWhile (\<lambda>y. y \<noteq> x) (rev (a @ x # b)) = rev b"
    using assms(1) by (auto simp: takeWhile_append)
  moreover have "takeWhile (\<lambda>y. y \<noteq> x) (rev (c @ x # d)) = rev d"
    using assms(2) by (auto simp: takeWhile_append)
  ultimately have "b = d" using assms(3) by (metis rev_rev_ident)
  with assms(3) show ?thesis by simp
qed

text \<open>
  \<^verbatim>\<open>str::trim().is_empty()\<close>: the string holds only characters with the Unicode property
  White\_Space, recognised here on their UTF-8 bytes.
\<close>

definition ws1 :: "nat \<Rightarrow> bool" where
  "ws1 a \<longleftrightarrow> 9 \<le> a \<and> a \<le> 13 \<or> a = 32"

definition ws2 :: "nat \<Rightarrow> nat \<Rightarrow> bool" where
  "ws2 a b \<longleftrightarrow> a = 0xC2 \<and> (b = 0x85 \<or> b = 0xA0)"

definition ws3 :: "nat \<Rightarrow> nat \<Rightarrow> nat \<Rightarrow> bool" where
  "ws3 a b c \<longleftrightarrow> a = 0xE1 \<and> b = 0x9A \<and> c = 0x80
     \<or> a = 0xE2 \<and> b = 0x80 \<and> (0x80 \<le> c \<and> c \<le> 0x8A \<or> c = 0xA8 \<or> c = 0xA9 \<or> c = 0xAF)
     \<or> a = 0xE2 \<and> b = 0x81 \<and> c = 0x9F
     \<or> a = 0xE3 \<and> b = 0x80 \<and> c = 0x80"

fun blank :: "string \<Rightarrow> bool" where
  "blank [] = True"
| "blank [a] = ws1 (of_char a)"
| "blank [a, b] = (if ws1 (of_char a) then blank [b] else ws2 (of_char a) (of_char b))"
| "blank (a # b # c # s) =
     (if ws1 (of_char a) then blank (b # c # s)
      else if ws2 (of_char a) (of_char b) then blank (c # s)
      else ws3 (of_char a) (of_char b) (of_char c) \<and> blank s)"

definition ascii_hexdigit :: "char \<Rightarrow> bool" where
  "ascii_hexdigit c = (let n = (of_char c :: nat) in
     48 \<le> n \<and> n \<le> 57 \<or> 65 \<le> n \<and> n \<le> 70 \<or> 97 \<le> n \<and> n \<le> 102)"

text \<open>\<^verbatim>\<open>str::strip_prefix\<close>.\<close>

fun strip_prefix :: "string \<Rightarrow> string \<Rightarrow> string option" where
  "strip_prefix [] s = Some s"
| "strip_prefix (p # ps) [] = None"
| "strip_prefix (p # ps) (c # s) = (if p = c then strip_prefix ps s else None)"

lemma strip_prefix_Some: "strip_prefix p s = Some r \<longleftrightarrow> s = p @ r"
  by (induction p s rule: strip_prefix.induct) auto

section \<open>Ordered maps\<close>

text \<open>
  A \<^verbatim>\<open>BTreeMap<String, V>\<close> is its list of entries in ascending key order, so that iteration
  (\<^verbatim>\<open>values()\<close>, \<^verbatim>\<open>find\<close>, \<^verbatim>\<open>max_by_key\<close>) visits the rows in the order the program does.
\<close>

type_synonym 'v btree = "(string \<times> 'v) list"

definition bt_get :: "'v btree \<Rightarrow> string \<Rightarrow> 'v option" where
  "bt_get m k = map_of m k"

fun bt_insert :: "string \<Rightarrow> 'v \<Rightarrow> 'v btree \<Rightarrow> 'v btree" where
  "bt_insert k v [] = [(k, v)]"
| "bt_insert k v ((k', v') # m) =
     (if k < k' then (k, v) # (k', v') # m
      else if k = k' then (k, v) # m
      else (k', v') # bt_insert k v m)"

definition bt_remove :: "string \<Rightarrow> 'v btree \<Rightarrow> 'v btree" where
  "bt_remove k m = filter (\<lambda>e. fst e \<noteq> k) m"

definition bt_values :: "'v btree \<Rightarrow> 'v list" where
  "bt_values m = map snd m"

definition bt_contains :: "'v btree \<Rightarrow> string \<Rightarrow> bool" where
  "bt_contains m k \<longleftrightarrow> bt_get m k \<noteq> None"

text \<open>\<^verbatim>\<open>if let Some(v) = m.get_mut(k) { *v = f(*v) }\<close>.\<close>

definition bt_modify :: "string \<Rightarrow> ('v \<Rightarrow> 'v) \<Rightarrow> 'v btree \<Rightarrow> 'v btree" where
  "bt_modify k f m = (case bt_get m k of None \<Rightarrow> m | Some v \<Rightarrow> bt_insert k (f v) m)"

definition bt_ok :: "'v btree \<Rightarrow> bool" where
  "bt_ok m \<longleftrightarrow> sorted_wrt (<) (map fst m)"

lemma bt_get_insert [simp]: "bt_get (bt_insert k v m) j = (if j = k then Some v else bt_get m j)"
  unfolding bt_get_def by (induction k v m rule: bt_insert.induct) auto

lemma bt_get_Nil [simp]: "bt_get [] k = None"
  by (simp add: bt_get_def)

lemma bt_get_remove [simp]: "bt_get (bt_remove k m) j = (if j = k then None else bt_get m j)"
  unfolding bt_get_def bt_remove_def by (induction m) auto

lemma fst_set_bt_insert: "fst ` set (bt_insert k v m) = insert k (fst ` set m)"
  by (induction k v m rule: bt_insert.induct) auto

lemma bt_ok_Nil [simp]: "bt_ok []"
  by (simp add: bt_ok_def)

lemma bt_ok_insert [simp]: "bt_ok m \<Longrightarrow> bt_ok (bt_insert k v m)"
  unfolding bt_ok_def
proof (induction k v m rule: bt_insert.induct)
  case (2 k v k' v' m)
  have "fst ` set (bt_insert k v m) = insert k (fst ` set m)" by (rule fst_set_bt_insert)
  with 2 show ?case by auto
qed simp

lemma bt_ok_remove [simp]: "bt_ok m \<Longrightarrow> bt_ok (bt_remove k m)"
  unfolding bt_ok_def bt_remove_def by (induction m) auto

lemma bt_values_get: "bt_ok m \<Longrightarrow> v \<in> set (bt_values m) \<longleftrightarrow> (\<exists>k. bt_get m k = Some v)"
proof -
  assume ok: "bt_ok m"
  then have "distinct (map fst m)"
    unfolding bt_ok_def by (metis strict_sorted_iff)
  then show ?thesis
    unfolding bt_values_def bt_get_def by (force simp: image_iff dest: map_of_SomeD)
qed

lemma bt_modify_get [simp]:
  "bt_get (bt_modify k f m) j = (if j = k then map_option f (bt_get m k) else bt_get m j)"
  by (simp add: bt_modify_def split: option.splits)

lemma bt_ok_modify [simp]: "bt_ok m \<Longrightarrow> bt_ok (bt_modify k f m)"
  by (simp add: bt_modify_def split: option.splits)

text \<open>
  A keyed table: every row is stored under its own id, as all tables of the fabric are.
\<close>

definition bt_keyed :: "('v \<Rightarrow> string) \<Rightarrow> 'v btree \<Rightarrow> bool" where
  "bt_keyed key m \<longleftrightarrow> bt_ok m \<and> (\<forall>k v. bt_get m k = Some v \<longrightarrow> key v = k)"

lemma bt_keyed_Nil [simp]: "bt_keyed key []"
  by (simp add: bt_keyed_def)

lemma bt_keyed_insert: "bt_keyed key m \<Longrightarrow> key v = k \<Longrightarrow> bt_keyed key (bt_insert k v m)"
  by (auto simp: bt_keyed_def)

lemma bt_keyed_modify:
  "bt_keyed key m \<Longrightarrow> (\<And>v. key (f v) = key v) \<Longrightarrow> bt_keyed key (bt_modify k f m)"
  by (auto simp: bt_keyed_def split: if_splits)

lemma bt_keyed_vals: "bt_keyed key m \<Longrightarrow> v \<in> set (bt_values m) \<longleftrightarrow> bt_get m (key v) = Some v"
  unfolding bt_keyed_def by (auto simp: bt_values_get)

lemma bt_keyed_keys:
  assumes "bt_keyed key m"
  shows "map key (bt_values m) = map fst m" and "distinct (map key (bt_values m))"
proof -
  have sorted: "distinct (map fst m)"
    using assms unfolding bt_keyed_def bt_ok_def by (metis strict_sorted_iff)
  have "key v = k" if "(k, v) \<in> set m" for k v
    using that assms sorted by (simp add: bt_keyed_def bt_get_def)
  then show keys: "map key (bt_values m) = map fst m" by (auto simp: bt_values_def)
  then show "distinct (map key (bt_values m))" using sorted by simp
qed

lemma at_most_one_filter:
  assumes "distinct xs" and "\<And>x y. x \<in> set xs \<Longrightarrow> y \<in> set xs \<Longrightarrow> P x \<Longrightarrow> P y \<Longrightarrow> x = y"
  shows "length (filter P xs) \<le> 1"
  using assms
proof (induction xs)
  case (Cons x xs)
  show ?case
  proof (cases "P x")
    case True
    then have "filter P xs = []" using Cons.prems by (auto simp: filter_empty_conv)
    then show ?thesis using True by simp
  next
    case False
    then show ?thesis using Cons by simp
  qed
qed simp

locale keyed_table =
  fixes ok :: "'m \<Rightarrow> bool"
    and get :: "'m \<Rightarrow> string \<Rightarrow> 'v option"
    and ins :: "string \<Rightarrow> 'v \<Rightarrow> 'm \<Rightarrow> 'm"
    and vals :: "'m \<Rightarrow> 'v list"
    and key :: "'v \<Rightarrow> string"
  assumes ok_ins: "ok m \<Longrightarrow> key v = k \<Longrightarrow> ok (ins k v m)"
    and get_ins: "get (ins k v m) j = (if j = k then Some v else get m j)"
    and vals_get: "ok m \<Longrightarrow> v \<in> set (vals m) \<longleftrightarrow> get m (key v) = Some v"
    and get_key: "ok m \<Longrightarrow> get m k = Some v \<Longrightarrow> key v = k"
begin

lemma get_vals: "ok m \<Longrightarrow> get m k = Some v \<Longrightarrow> v \<in> set (vals m)"
  using get_key vals_get by auto

lemma vals_inj: "ok m \<Longrightarrow> v \<in> set (vals m) \<Longrightarrow> w \<in> set (vals m) \<Longrightarrow> key v = key w \<Longrightarrow> v = w"
  by (metis option.inject vals_get)

lemma vals_ins:
  assumes "ok m"
  shows "set (vals (ins (key v) v m)) = insert v {w \<in> set (vals m). key w \<noteq> key v}"
proof -
  have ok: "ok (ins (key v) v m)" using assms by (simp add: ok_ins)
  show ?thesis
    using vals_get [OF ok] vals_get [OF assms] by (auto simp: get_ins split: if_splits)
qed

lemma vals_ins_cases:
  assumes "ok m" and "w \<in> set (vals (ins (key v) v m))"
  obtains "w = v" | "w \<in> set (vals m)" "key w \<noteq> key v"
  using assms vals_ins [of m v] by auto

lemma vals_ins_fresh:
  assumes "ok m" and "get m (key v) = None"
  shows "set (vals (ins (key v) v m)) = insert v (set (vals m))"
proof -
  have "key w \<noteq> key v" if "w \<in> set (vals m)" for w
    using that assms by (metis option.distinct(1) vals_get)
  then show ?thesis using vals_ins [OF assms(1), of v] by auto
qed

lemma find_row:
  assumes "ok m" and "List.find P (vals m) = Some v"
  shows "P v" and "get m (key v) = Some v"
proof -
  from assms(2) have "P v \<and> v \<in> set (vals m)"
    by (auto simp: find_Some_iff)
  then show "P v" and "get m (key v) = Some v" using assms(1) vals_get by auto
qed

end

interpretation bt: keyed_table "bt_keyed key" bt_get bt_insert bt_values key for key
  by unfold_locales (auto simp: bt_keyed_insert bt_keyed_vals, auto simp: bt_keyed_def)

text \<open>A table that has only gained rows.\<close>

definition bt_extends :: "'v btree \<Rightarrow> 'v btree \<Rightarrow> bool" where
  "bt_extends m m' \<longleftrightarrow> (\<forall>k v. bt_get m k = Some v \<longrightarrow> bt_get m' k = Some v)"

lemma bt_extends_refl [simp]: "bt_extends m m"
  by (simp add: bt_extends_def)

lemma bt_extends_trans: "bt_extends m m' \<Longrightarrow> bt_extends m' m'' \<Longrightarrow> bt_extends m m''"
  by (simp add: bt_extends_def)

lemma bt_extends_insert: "bt_get m k = None \<Longrightarrow> bt_extends m (bt_insert k v m)"
  by (simp add: bt_extends_def)

lemma bt_extendsD: "bt_extends m m' \<Longrightarrow> bt_get m k = Some v \<Longrightarrow> bt_get m' k = Some v"
  by (simp add: bt_extends_def)

section \<open>Selections over rows\<close>

lemma find_SomeD: "List.find P xs = Some x \<Longrightarrow> x \<in> set xs \<and> P x"
  by (auto simp: find_Some_iff)

text \<open>\<^verbatim>\<open>Iterator::max_by_key\<close>: the last of the rows with the greatest key.\<close>

fun max_by_key :: "('a \<Rightarrow> 'k::linorder) \<Rightarrow> 'a list \<Rightarrow> 'a option" where
  "max_by_key f [] = None"
| "max_by_key f (x # xs) =
     (case max_by_key f xs of None \<Rightarrow> Some x | Some y \<Rightarrow> Some (if f y < f x then x else y))"

text \<open>\<^verbatim>\<open>sort_by_key\<close> (stable) followed by \<^verbatim>\<open>last()\<close>.\<close>

definition last_by_key :: "('a \<Rightarrow> 'k::linorder) \<Rightarrow> 'a list \<Rightarrow> 'a option" where
  "last_by_key f xs = (case sort_key f xs of [] \<Rightarrow> None | ys \<Rightarrow> Some (last ys))"

lemma max_by_key_None [simp]: "max_by_key f xs = None \<longleftrightarrow> xs = []"
  by (cases xs) (auto split: option.splits)

lemma max_by_key_Some:
  "max_by_key f xs = Some x \<Longrightarrow> x \<in> set xs \<and> (\<forall>y \<in> set xs. f y \<le> f x)"
  by (induction xs arbitrary: x) (fastforce split: option.splits if_splits)+

lemma last_insort_key:
  "last (insort_key f x ys) = (if ys = [] \<or> f (last ys) < f x then x else last ys)"
  if "sorted (map f ys)"
  using that
proof (induction ys)
  case (Cons y ys)
  show ?case
  proof (cases "ys = []")
    case False
    then have "f y \<le> f (last ys)" using Cons.prems by simp
    then have "f x \<le> f y \<Longrightarrow> \<not> f (last ys) < f x" by auto
    with False Cons show ?thesis by (auto simp: insort_not_Nil)
  qed auto
qed simp

lemma last_by_key_max: "last_by_key f xs = max_by_key f xs"
proof -
  have "sort_key f xs \<noteq> [] \<longrightarrow> max_by_key f xs = Some (last (sort_key f xs))"
  proof (induction xs)
    case (Cons x xs)
    have s: "sorted (map f (sort_key f xs))" by (rule sorted_sort_key)
    have ne: "sort_key f xs = [] \<longleftrightarrow> xs = []" by (metis length_0_conv length_sort)
    show ?case using Cons last_insort_key [OF s, of x]
      by (cases "xs = []") (auto simp: ne)
  qed simp
  moreover have "sort_key f xs = [] \<longleftrightarrow> xs = []" by (metis length_0_conv length_sort)
  ultimately show ?thesis
    by (cases "sort_key f xs") (auto simp: last_by_key_def)
qed

section \<open>Contracts of a stateful component\<close>

text \<open>
  A step relation with an invariant, and a preorder that every step from a good state moves
  along (an append-only log, a generation that never goes back). A component proves the law for
  one step and gets the theorem for every run.
\<close>

locale invariant_system =
  fixes init :: "'s \<Rightarrow> bool"
    and step :: "'s \<Rightarrow> 's \<Rightarrow> bool"
    and inv :: "'s \<Rightarrow> bool"
  assumes init_inv: "init s \<Longrightarrow> inv s"
    and step_inv: "inv s \<Longrightarrow> step s t \<Longrightarrow> inv t"
begin

lemma run_inv: "step\<^sup>*\<^sup>* s t \<Longrightarrow> inv s \<Longrightarrow> inv t"
  by (induction rule: rtranclp_induct) (auto intro: step_inv)

lemma reachable_inv: "init s \<Longrightarrow> step\<^sup>*\<^sup>* s t \<Longrightarrow> inv t"
  using init_inv run_inv by blast

end

locale monotone_system = invariant_system +
  fixes rel :: "'s \<Rightarrow> 's \<Rightarrow> bool"
  assumes rel_refl: "rel s s"
    and rel_trans: "rel s t \<Longrightarrow> rel t u \<Longrightarrow> rel s u"
    and step_rel: "inv s \<Longrightarrow> step s t \<Longrightarrow> rel s t"
begin

lemma run_rel: "step\<^sup>*\<^sup>* s t \<Longrightarrow> inv s \<Longrightarrow> rel s t"
proof (induction rule: rtranclp_induct)
  case base
  show ?case by (rule rel_refl)
next
  case (step t u)
  then have "inv t" using run_inv by blast
  with step show ?case using rel_trans step_rel by blast
qed

end

end
