(* ===== verification/Fabric_Error.thy ===== *)
theory Fabric_Error
  imports Prelude
begin

text \<open>
  The structured error of the Remote Node Fabric and the two ways the crate builds it
  (\<^verbatim>\<open>crates/firm-fabric/src/protocol.rs\<close>, \<^verbatim>\<open>FabricError\<close>), plus the revision-conflict
  error of \<^verbatim>\<open>control_plane.rs\<close>. Enum constructors carry a prefix naming their type, since
  the source reuses names across enums.
\<close>

datatype EffectCertainty = EffectNone | EffectNotApplied | EffectUnknown | EffectApplied

datatype FabricErrorCode =
    EnrollmentInvalid
  | EnrollmentExpired
  | EnrollmentConsumed
  | EnrollmentRevoked
  | WrongCompany
  | NodeRevoked
  | NodeStaleGeneration
  | ControlPlaneStaleGeneration
  | LeaseConflict
  | ProtocolIncompatible
  | SchemaIncompatible
  | FeatureIncompatible
  | UnauthorizedActor
  | SourceMismatch
  | TargetOffline
  | TargetNotPlaced
  | ExpectedRevisionConflict
  | IdempotencyConflict
  | InvalidPayload
  | ArtifactInvalid
  | ArtifactTampered
  | CapabilityInvalid
  | CapabilityExpired
  | CapabilityConsumed
  | OperationExpired
  | OperationUnknown
  | QueueCapacity
  | RateLimited
  | StoreUnavailable
  | RecoveryRequired

record FabricError =
  err_code :: FabricErrorCode
  err_message :: string
  err_retryable :: bool
  err_effect :: EffectCertainty
  err_operation_id :: "string option"
  err_expected_revision :: "u64 option"
  err_actual_revision :: "u64 option"
  err_retry_after_ms :: "u64 option"
  err_details :: "string btree"

definition FabricError_none :: "FabricErrorCode \<Rightarrow> string \<Rightarrow> FabricError" where
  "FabricError_none code message =
     \<lparr>err_code = code, err_message = message, err_retryable = False, err_effect = EffectNone,
      err_operation_id = None, err_expected_revision = None, err_actual_revision = None,
      err_retry_after_ms = None, err_details = []\<rparr>"

definition FabricError_unknown :: "string \<Rightarrow> string \<Rightarrow> FabricError" where
  "FabricError_unknown operation_id message =
     \<lparr>err_code = RecoveryRequired, err_message = message, err_retryable = False,
      err_effect = EffectUnknown, err_operation_id = Some operation_id,
      err_expected_revision = None, err_actual_revision = None,
      err_retry_after_ms = None, err_details = []\<rparr>"

definition revision_conflict :: "string \<Rightarrow> u64 \<Rightarrow> u64 \<Rightarrow> FabricError" where
  "revision_conflict message expected actual =
     (FabricError_none ExpectedRevisionConflict message)
       \<lparr>err_expected_revision := Some expected, err_actual_revision := Some actual\<rparr>"

lemma err_code_simps [simp]:
  "err_code (FabricError_none c m) = c"
  "err_code (FabricError_unknown i m) = RecoveryRequired"
  "err_code (revision_conflict m x y) = ExpectedRevisionConflict"
  by (simp_all add: FabricError_none_def FabricError_unknown_def revision_conflict_def)

lemma err_effect_simps [simp]:
  "err_effect (FabricError_none c m) = EffectNone"
  "err_effect (FabricError_unknown i m) = EffectUnknown"
  "err_effect (revision_conflict m x y) = EffectNone"
  by (simp_all add: FabricError_none_def FabricError_unknown_def revision_conflict_def)

lemma err_retryable_simps [simp]:
  "\<not> err_retryable (FabricError_none c m)" "\<not> err_retryable (FabricError_unknown i m)"
  by (simp_all add: FabricError_none_def FabricError_unknown_def)

text \<open>A result with the fabric's error, and an action of a component with state \<open>'s\<close>.\<close>

type_synonym 'a result = "FabricError + 'a"
type_synonym ('s, 'a) fabric_action = "('s, FabricError, 'a) action"

text \<open>The error code of a failed result, which is what callers and tests match on.\<close>

definition fails_with :: "'a result \<Rightarrow> FabricErrorCode \<Rightarrow> bool" where
  "fails_with r c \<longleftrightarrow> (case r of Inl e \<Rightarrow> err_code e = c | Inr _ \<Rightarrow> False)"

lemma fails_with_simps [simp]:
  "fails_with (Inl e) c \<longleftrightarrow> err_code e = c" "\<not> fails_with (Inr x) c"
  by (simp_all add: fails_with_def)

end
