(* ===== verification/Canonical_Json.thy ===== *)
theory Canonical_Json
  imports Fabric_Error "HOL-Library.Multiset"
begin

text \<open>
  Canonical JSON and digests (\<^verbatim>\<open>crates/firm-fabric/src/lib.rs\<close>). A \<^verbatim>\<open>serde_json::Value\<close> is
  a tree whose objects are lists of entries with distinct keys; the crate sorts the keys before
  it hashes. The JSON encoder and SHA-256 are other packages' code: they are the fields of the
  record \<open>crypto\<close>, passed to every definition that uses them.
\<close>

text \<open>A \<^verbatim>\<open>serde_json::Number\<close>: an unsigned, a negative or a floating-point number (its bits).\<close>

datatype json_number = PosInt u64 | NegInt u64 | Float u64

datatype json =
    JNull
  | JBool bool
  | JNumber json_number
  | JString string
  | JArray "json list"
  | JObject "(string \<times> json) list"

fun collect :: "('e + 'a) list \<Rightarrow> 'e + 'a list" where
  "collect [] = Inr []"
| "collect (r # rs) = bindR r (\<lambda>x. bindR (collect rs) (\<lambda>xs. Inr (x # xs)))"

lemma collect_cong [fundef_cong]: "xs = ys \<Longrightarrow> collect xs = collect ys"
  by simp

definition float_forbidden :: FabricError where
  "float_forbidden =
     FabricError_none InvalidPayload ''canonical Fabric JSON forbids floating-point numbers''"

lemma json_entry_size: "e \<in> set es \<Longrightarrow> size (snd e) < size (JObject es)"
  by (induction es) (auto simp: less_Suc_eq_le trans_le_add1 trans_le_add2)

function canonicalize_json :: "json \<Rightarrow> json result" where
  "canonicalize_json (JObject entries) =
     bindR (collect (map (\<lambda>e. bindR (canonicalize_json (snd e)) (\<lambda>v. Inr (fst e, v)))
              (sort_key fst entries)))
       (\<lambda>es. Inr (JObject es))"
| "canonicalize_json (JArray values) =
     bindR (collect (map canonicalize_json values)) (\<lambda>vs. Inr (JArray vs))"
| "canonicalize_json (JNumber (Float f)) = Inl float_forbidden"
| "canonicalize_json (JNumber (PosInt n)) = Inr (JNumber (PosInt n))"
| "canonicalize_json (JNumber (NegInt n)) = Inr (JNumber (NegInt n))"
| "canonicalize_json JNull = Inr JNull"
| "canonicalize_json (JBool b) = Inr (JBool b)"
| "canonicalize_json (JString s) = Inr (JString s)"
  by pat_completeness auto
termination
proof (relation "measure size", goal_cases)
  case (2 es e)
  then show ?case using json_entry_size [of e es] by simp
next
  case (3 vs v)
  then show ?case by (simp add: less_Suc_eq_le size_list_estimation')
qed simp

text \<open>The packages the digests call: SHA-256 (32 bytes out) and the JSON encoder.\<close>

record crypto =
  sha256 :: "bytes \<Rightarrow> bytes"
  json_to_vec :: "json \<Rightarrow> string + bytes"

definition hex_digit :: "nat \<Rightarrow> char" where
  "hex_digit d = char_of (if d < 10 then 48 + d else 87 + d)"

definition bytes_to_hex :: "bytes \<Rightarrow> string" where
  "bytes_to_hex bs =
     concat (map (\<lambda>b. [hex_digit (of_char b div 16), hex_digit (of_char b mod 16)]) bs)"

definition sha256_hex :: "('z) crypto_scheme \<Rightarrow> bytes \<Rightarrow> string" where
  "sha256_hex cr bs = bytes_to_hex (sha256 cr bs)"

text \<open>The argument is what \<^verbatim>\<open>serde_json::to_value\<close> made of the value to be hashed.\<close>

definition canonical_json_bytes :: "('z) crypto_scheme \<Rightarrow> string + json \<Rightarrow> bytes result" where
  "canonical_json_bytes cr to_value =
     bindR (map_err (\<lambda>error. FabricError_none InvalidPayload
              (''canonical JSON conversion failed: '' @ error)) to_value) (\<lambda>value.
     bindR (canonicalize_json value) (\<lambda>canonical.
     map_err (\<lambda>error. FabricError_none InvalidPayload
              (''canonical JSON encoding failed: '' @ error)) (json_to_vec cr canonical)))"

definition canonical_digest :: "('z) crypto_scheme \<Rightarrow> string + json \<Rightarrow> string result" where
  "canonical_digest cr to_value =
     bindR (canonical_json_bytes cr to_value) (\<lambda>bytes. Inr (sha256_hex cr bytes))"

definition json_digest :: "('z) crypto_scheme \<Rightarrow> string + json \<Rightarrow> string result" where
  "json_digest cr to_value = canonical_digest cr to_value"

section \<open>Canonical form\<close>

text \<open>
  Equality of JSON values up to the order of object entries at any depth, and the shape every
  \<^verbatim>\<open>serde_json::Map\<close> has (no key twice).
\<close>

inductive json_eq :: "json \<Rightarrow> json \<Rightarrow> bool" where
  same: "json_eq v v"
| array: "list_all2 json_eq vs ws \<Longrightarrow> json_eq (JArray vs) (JArray ws)"
| object: "list_all2 (\<lambda>e f. fst e = fst f \<and> json_eq (snd e) (snd f)) es fs \<Longrightarrow>
     mset gs = mset fs \<Longrightarrow> json_eq (JObject es) (JObject gs)"

function json_wf :: "json \<Rightarrow> bool" where
  "json_wf (JObject es) \<longleftrightarrow> distinct (map fst es) \<and> (\<forall>e \<in> set es. json_wf (snd e))"
| "json_wf (JArray vs) \<longleftrightarrow> (\<forall>v \<in> set vs. json_wf v)"
| "json_wf JNull = True"
| "json_wf (JBool b) = True"
| "json_wf (JNumber n) = True"
| "json_wf (JString s) = True"
  by pat_completeness auto
termination
proof (relation "measure size", goal_cases)
  case (2 es e)
  then show ?case using json_entry_size [of e es] by simp
next
  case (3 vs v)
  then show ?case by (simp add: less_Suc_eq_le size_list_estimation')
qed simp

lemma collect_Inr: "collect (map f xs) = Inr ys \<longleftrightarrow> list_all2 (\<lambda>x y. f x = Inr y) xs ys"
  by (induction xs arbitrary: ys) (auto simp: bindR_eq_Inr list_all2_Cons1)

lemma list_all2_insort_key:
  assumes "list_all2 R xs ys" and "R x y" and "\<And>a b. R a b \<Longrightarrow> k a = k b"
  shows "list_all2 R (insort_key k x xs) (insort_key k y ys)"
  using assms by (induction rule: list_all2_induct) auto

lemma list_all2_sort_key:
  assumes "list_all2 R xs ys" and "\<And>a b. R a b \<Longrightarrow> k a = k b"
  shows "list_all2 R (sort_key k xs) (sort_key k ys)"
  using assms by (induction rule: list_all2_induct) (auto intro: list_all2_insort_key)

lemma sort_key_mset_eq:
  assumes "mset xs = mset ys" and "distinct (map k xs)"
  shows "sort_key k xs = sort_key k ys"
proof (rule sort_key_inj_key_eq)
  show "inj_on k (set xs)" using assms(2) by (simp add: distinct_map)
qed (simp_all add: assms(1))

lemma json_eq_canonical:
  assumes "json_eq v w" and "json_wf v"
  shows "canonicalize_json v = canonicalize_json w"
  using assms
proof (induction rule: json_eq.induct)
  case (array vs ws)
  then have "map canonicalize_json vs = map canonicalize_json ws"
    by (auto simp: list_all2_conv_all_nth intro!: nth_equalityI)
  then show ?case by simp
next
  case (object es fs gs)
  let ?c = "\<lambda>e. bindR (canonicalize_json (snd e)) (\<lambda>v. Inr (fst e, v))"
  let ?R = "\<lambda>e f. fst e = fst f \<and> canonicalize_json (snd e) = canonicalize_json (snd f)"
  have R: "list_all2 ?R es fs"
    using object.IH object.prems by (auto simp: list_all2_conv_all_nth)
  have "map fst es = map fst fs"
    using R by (auto simp: list_all2_conv_all_nth intro!: nth_equalityI)
  then have d: "distinct (map fst fs)" using object.prems by simp
  have "list_all2 ?R (sort_key fst es) (sort_key fst fs)"
    by (rule list_all2_sort_key [OF R]) simp
  then have "map ?c (sort_key fst es) = map ?c (sort_key fst fs)"
    by (auto simp: list_all2_conv_all_nth intro!: nth_equalityI)
  also have "sort_key fst fs = sort_key fst gs"
    by (rule sort_key_mset_eq) (simp_all add: object.hyps d)
  finally show ?case by simp
qed simp

lemma canonical_json_eq: "canonicalize_json v = Inr w \<Longrightarrow> json_eq v w"
proof (induction v arbitrary: w rule: canonicalize_json.induct)
  case (1 entries)
  let ?R = "\<lambda>e f. fst e = fst f \<and> json_eq (snd e) (snd f)"
  from "1.prems" obtain es where w: "w = JObject es"
    and c: "list_all2 (\<lambda>e f. bindR (canonicalize_json (snd e)) (\<lambda>v. Inr (fst e, v)) = Inr f)
              (sort_key fst entries) es"
    by (auto simp: bindR_eq_Inr collect_Inr)
  have "list_all2 ?R (sort_key fst entries) es"
    using c by (rule list.rel_mono_strong) (auto simp: bindR_eq_Inr intro: "1.IH")
  then obtain fs where "list_all2 ?R entries fs" and "mset fs = mset es"
    using list_all2_reorder_left_invariance [of ?R "sort_key fst entries" es entries] by auto
  then show ?case unfolding w by (intro json_eq.object [of entries fs es]) auto
next
  case (2 vs)
  then obtain ws where w: "w = JArray ws"
    and c: "list_all2 (\<lambda>v x. canonicalize_json v = Inr x) vs ws"
    by (auto simp: bindR_eq_Inr collect_Inr)
  have "list_all2 json_eq vs ws"
    using c by (rule list.rel_mono_strong) (auto intro: "2.IH")
  then show ?case unfolding w by (rule json_eq.array)
qed (auto intro: json_eq.same)

text \<open>
  A canonical form exists exactly when no floating-point number occurs.
\<close>

function json_float_free :: "json \<Rightarrow> bool" where
  "json_float_free (JObject es) \<longleftrightarrow> (\<forall>e \<in> set es. json_float_free (snd e))"
| "json_float_free (JArray vs) \<longleftrightarrow> (\<forall>v \<in> set vs. json_float_free v)"
| "json_float_free (JNumber n) \<longleftrightarrow> (case n of Float _ \<Rightarrow> False | _ \<Rightarrow> True)"
| "json_float_free JNull = True"
| "json_float_free (JBool b) = True"
| "json_float_free (JString s) = True"
  by pat_completeness auto
termination
proof (relation "measure size", goal_cases)
  case (2 es e)
  then show ?case using json_entry_size [of e es] by simp
next
  case (3 vs v)
  then show ?case by (simp add: less_Suc_eq_le size_list_estimation')
qed simp

lemma collect_total: "(\<exists>ys. collect (map f xs) = Inr ys) \<longleftrightarrow> (\<forall>x \<in> set xs. \<exists>y. f x = Inr y)"
  by (induction xs) (auto simp: bindR_eq_Inr)

lemma canonicalize_total: "(\<exists>w. canonicalize_json v = Inr w) \<longleftrightarrow> json_float_free v"
proof (induction v rule: canonicalize_json.induct)
  case (1 es)
  then show ?case
    using collect_total [of "\<lambda>e. bindR (canonicalize_json (snd e)) (\<lambda>v. Inr (fst e, v))" "sort_key fst es"]
    by (simp add: bindR_eq_Inr)
next
  case (2 vs)
  then show ?case using collect_total [of canonicalize_json vs] by (simp add: bindR_eq_Inr)
qed simp_all

section \<open>Hexadecimal digests\<close>

lemma hex_digit_inj: "d < 16 \<Longrightarrow> e < 16 \<Longrightarrow> hex_digit d = hex_digit e \<longleftrightarrow> d = e"
  unfolding hex_digit_def using char_of_eq_iff by (auto split: if_splits)

lemma hex_digit_ascii: "d < 16 \<Longrightarrow> ascii_hexdigit (hex_digit d)"
  by (auto simp: hex_digit_def ascii_hexdigit_def Let_def)

lemma length_bytes_to_hex: "length (bytes_to_hex bs) = 2 * length bs"
  by (induction bs) (auto simp: bytes_to_hex_def)

lemma byte_halves: "of_char (b :: char) div 16 < (16 :: nat)" "of_char (b :: char) mod 16 < (16 :: nat)"
  by (simp_all add: less_mult_imp_div_less)

lemma bytes_to_hex_inj: "bytes_to_hex xs = bytes_to_hex ys \<Longrightarrow> xs = ys"
proof (induction xs arbitrary: ys)
  case Nil
  then show ?case using length_bytes_to_hex [of ys] by (cases ys) (simp_all add: bytes_to_hex_def)
next
  case (Cons x xs)
  then obtain y zs where ys: "ys = y # zs"
    by (cases ys) (auto simp: bytes_to_hex_def)
  from Cons.prems have "hex_digit (of_char x div 16) = hex_digit (of_char y div 16)"
    and "hex_digit (of_char x mod 16) = hex_digit (of_char y mod 16)"
    and rest: "bytes_to_hex xs = bytes_to_hex zs"
    by (simp_all add: ys bytes_to_hex_def)
  then have "of_char x div 16 = (of_char y div 16 :: nat)" and "of_char x mod 16 = (of_char y mod 16 :: nat)"
    using byte_halves [of x] byte_halves [of y] by (simp_all add: hex_digit_inj)
  then have "of_char x = (of_char y :: nat)" by (metis div_mult_mod_eq)
  then have "x = y" by simp
  with Cons.IH [OF rest] ys show ?case by simp
qed

lemma bytes_to_hex_ascii: "c \<in> set (bytes_to_hex bs) \<Longrightarrow> ascii_hexdigit c"
  by (auto simp: bytes_to_hex_def hex_digit_ascii byte_halves)

text \<open>An executable form on the bits of a byte, for evaluation.\<close>

definition hex4 :: "bool \<Rightarrow> bool \<Rightarrow> bool \<Rightarrow> bool \<Rightarrow> char" where
  "hex4 a b c d = (if a then
     (if b then (if c then (if d then CHR ''f'' else CHR ''e'') else (if d then CHR ''d'' else CHR ''c''))
      else (if c then (if d then CHR ''b'' else CHR ''a'') else (if d then CHR ''9'' else CHR ''8'')))
   else
     (if b then (if c then (if d then CHR ''7'' else CHR ''6'') else (if d then CHR ''5'' else CHR ''4''))
      else (if c then (if d then CHR ''3'' else CHR ''2'') else (if d then CHR ''1'' else CHR ''0''))))"

lemma hex4_digit: "hex_digit (of_bool d + 2 * (of_bool c + 2 * (of_bool b + 2 * of_bool a))) = hex4 a b c d"
  by (cases a; cases b; cases c; cases d) (simp_all add: hex_digit_def hex4_def char_of_eq_iff take_bit_eq_mod)

lemma char_halves:
  "of_char (Char b0 b1 b2 b3 b4 b5 b6 b7) div 16 = (of_bool b4 + 2 * (of_bool b5 + 2 * (of_bool b6 + 2 * of_bool b7)) :: nat)"
  "of_char (Char b0 b1 b2 b3 b4 b5 b6 b7) mod 16 = (of_bool b0 + 2 * (of_bool b1 + 2 * (of_bool b2 + 2 * of_bool b3)) :: nat)"
  by (cases b0; cases b1; cases b2; cases b3; cases b4; cases b5; cases b6; cases b7; simp add: of_char_def)+

lemma bytes_to_hex_code [code]:
  "bytes_to_hex [] = []"
  "bytes_to_hex (Char b0 b1 b2 b3 b4 b5 b6 b7 # bs) = hex4 b7 b6 b5 b4 # hex4 b3 b2 b1 b0 # bytes_to_hex bs"
  by (simp_all only: bytes_to_hex_def list.map concat.simps char_halves hex4_digit append.simps)
end
