(* ===== verification/Protocol.thy ===== *)
theory Protocol
  imports Canonical_Json
begin

text \<open>
  The wire and store vocabulary of the Remote Node Fabric
  (\<^verbatim>\<open>crates/firm-fabric/src/protocol.rs\<close>): actors, Nodes, enrollments, leases, certificates,
  routed operations with their closed bodies, route attempts, receipts and frames, and the checks
  the file defines on them. A field of a struct keeps its name behind a prefix naming the
  struct, since Isabelle record selectors share one name space.
\<close>

definition FABRIC_PROTOCOL_VERSION :: u32 where
  "FABRIC_PROTOCOL_VERSION = 1"

definition FABRIC_SCHEMA_VERSION :: string where
  "FABRIC_SCHEMA_VERSION = ''agentfirm.remote_fabric.v1''"

definition FABRIC_CANONICALIZATION_VERSION :: string where
  "FABRIC_CANONICALIZATION_VERSION = ''agentfirm.canonical-json.v1''"

datatype OperationSourceAuthority = SourceNode | SourceControlPlane

datatype ActorKind = ActorHuman | ActorAgentMember | ActorService

record AuthenticatedActor =
  act_company_id :: string
  act_actor_id :: string
  act_actor_kind :: ActorKind
  act_role_bindings :: "string set"
  act_session_id :: string
  act_issued_at_unix_ms :: u64
  act_expires_at_unix_ms :: u64

definition require_company_and_role ::
    "AuthenticatedActor \<Rightarrow> string \<Rightarrow> string \<Rightarrow> u64 \<Rightarrow> unit result" where
  "require_company_and_role actor company_id role now_unix_ms =
     (if act_company_id actor \<noteq> company_id then
        Inl (FabricError_none WrongCompany ''authenticated actor belongs to another Company'')
      else if act_expires_at_unix_ms actor \<le> now_unix_ms then
        Inl (FabricError_none UnauthorizedActor ''authenticated actor session expired'')
      else if role \<notin> act_role_bindings actor then
        Inl (FabricError_none UnauthorizedActor
               (''authenticated actor lacks required role '' @ role))
      else Inr ())"

datatype NodeAdministrativeStatus = NodeActive | NodeDraining | NodeIsRevoked

datatype NodeConnectionStatus = Online | Offline | Stale

record CompanyNode =
  node_id :: string
  node_company_id :: string
  node_display_name :: string
  node_public_key_fingerprint :: string
  node_certificate_serial :: string
  node_allowed_capabilities :: "string set"
  node_administrative_status :: NodeAdministrativeStatus
  node_revision :: u64
  node_enrolled_at_unix_ms :: u64
  node_last_seen_at_unix_ms :: "u64 option"
  node_revoked_at_unix_ms :: "u64 option"
  node_revoke_reason :: "string option"
  node_protocol_min :: u32
  node_protocol_max :: u32
  node_schema_bundle_digest :: string
  node_schema_version :: string
  node_created_at_unix_ms :: u64
  node_updated_at_unix_ms :: u64

datatype EnrollmentStatus =
  EnrollmentIsPending | EnrollmentIsConsumed | EnrollmentIsExpired | EnrollmentIsRevoked

record NodeEnrollment =
  enr_id :: string
  enr_company_id :: string
  enr_token_digest :: string
  enr_requested_name :: string
  enr_allowed_capabilities :: "string set"
  enr_authorized_node_daemon_id :: string
  enr_authorized_node_daemon_generation :: u64
  enr_created_by :: string
  enr_expires_at_unix_ms :: u64
  enr_consumed_at_unix_ms :: "u64 option"
  enr_consumed_by_node_id :: "string option"
  enr_status :: EnrollmentStatus
  enr_revision :: u64
  enr_schema_version :: string
  enr_created_at_unix_ms :: u64
  enr_updated_at_unix_ms :: u64

record CompanyControlPlaneLease =
  cpl_company_id :: string
  cpl_lease_id :: string
  cpl_instance_id :: string
  cpl_control_plane_generation :: u64
  cpl_revision :: u64
  cpl_acquired_at_unix_ms :: u64
  cpl_expires_at_unix_ms :: u64
  cpl_last_heartbeat_at_unix_ms :: u64
  cpl_schema_version :: string

record NodeGatewayLease =
  gwl_company_id :: string
  gwl_node_id :: string
  gwl_lease_id :: string
  gwl_gateway_generation :: u64
  gwl_instance_id :: string
  gwl_node_daemon_id :: string
  gwl_node_daemon_generation :: u64
  gwl_certificate_serial :: string
  gwl_revision :: u64
  gwl_control_plane_generation :: u64
  gwl_acquired_at_unix_ms :: u64
  gwl_expires_at_unix_ms :: u64
  gwl_last_heartbeat_at_unix_ms :: u64
  gwl_protocol_version :: u32
  gwl_build_sha :: string
  gwl_schema_bundle_digest :: string
  gwl_schema_version :: string

definition connection_status ::
    "CompanyNode \<Rightarrow> NodeGatewayLease option \<Rightarrow> u64 \<Rightarrow> u64 \<Rightarrow> NodeConnectionStatus" where
  "connection_status node lease current_control_plane_generation now_unix_ms =
     (case lease of
        Some l \<Rightarrow>
          if gwl_expires_at_unix_ms l > now_unix_ms
             \<and> gwl_control_plane_generation l = current_control_plane_generation
          then Online else Stale
      | None \<Rightarrow> Offline)"

record NodeCertificate =
  cert_serial :: string
  cert_company_id :: string
  cert_node_id :: string
  cert_public_key_fingerprint :: string
  cert_node_daemon_id :: string
  cert_node_daemon_generation :: u64
  cert_issued_at_unix_ms :: u64
  cert_expires_at_unix_ms :: u64
  cert_revoked_at_unix_ms :: "u64 option"
  cert_proof_of_possession_digest :: string
  cert_schema_version :: string

record EnrollmentProof =
  prf_public_key :: bytes
  prf_signature :: bytes
  prf_challenge :: string

record NodeHello =
  hello_company_id :: string
  hello_node_id :: string
  hello_instance_id :: string
  hello_node_daemon_id :: string
  hello_node_daemon_generation :: u64
  hello_protocol_min :: u32
  hello_protocol_max :: u32
  hello_schema_bundle_digest :: string
  hello_features :: "string set"
  hello_build_sha :: string
  hello_last_persisted_route_seq :: u64
  hello_unresolved_operation_ids :: "string set"
  hello_certificate_serial :: string
  hello_public_key_fingerprint :: string

record NodeHelloProof =
  hprf_public_key :: bytes
  hprf_signature :: bytes
  hprf_challenge :: string

record NodeWelcome =
  wel_company_id :: string
  wel_node_id :: string
  wel_accepted_protocol_version :: u32
  wel_lease_id :: string
  wel_gateway_generation :: u64
  wel_node_daemon_id :: string
  wel_node_daemon_generation :: u64
  wel_control_plane_generation :: u64
  wel_next_route_seq :: u64
  wel_required_reconcile_ids :: "string set"
  wel_schema_version :: string

datatype OperationPriority = PriorityNormal | PriorityControl

section \<open>Routed operations and their closed bodies\<close>

definition PROBE_OPERATION_KIND :: string where
  "PROBE_OPERATION_KIND = ''fabric.probe.v1''"
definition RECONCILE_PROBE_OPERATION_KIND :: string where
  "RECONCILE_PROBE_OPERATION_KIND = ''fabric.reconcile_probe.v1''"
definition RUNTIME_COMMAND_REFERENCE_KIND :: string where
  "RUNTIME_COMMAND_REFERENCE_KIND = ''runtime_command.reference.v1''"
definition MESSAGE_REFERENCE_KIND :: string where
  "MESSAGE_REFERENCE_KIND = ''message.reference.v1''"
definition DELIVERY_INTENT_REFERENCE_KIND :: string where
  "DELIVERY_INTENT_REFERENCE_KIND = ''delivery_intent.reference.v1''"
definition ARTIFACT_REFERENCE_KIND :: string where
  "ARTIFACT_REFERENCE_KIND = ''artifact.reference.v1''"
definition COLLABORATION_BUSINESS_OPERATION_KIND :: string where
  "COLLABORATION_BUSINESS_OPERATION_KIND = ''collaboration.business.v1''"

definition PROBE_BODY_SCHEMA :: string where
  "PROBE_BODY_SCHEMA = ''agentfirm.remote_fabric.probe.v1''"
definition RECONCILE_PROBE_BODY_SCHEMA :: string where
  "RECONCILE_PROBE_BODY_SCHEMA = ''agentfirm.remote_fabric.reconcile_probe.v1''"
definition RUNTIME_COMMAND_REFERENCE_SCHEMA :: string where
  "RUNTIME_COMMAND_REFERENCE_SCHEMA = ''agentfirm.remote_fabric.runtime_command_reference.v1''"
definition MESSAGE_REFERENCE_SCHEMA :: string where
  "MESSAGE_REFERENCE_SCHEMA = ''agentfirm.remote_fabric.message_reference.v1''"
definition DELIVERY_INTENT_REFERENCE_SCHEMA :: string where
  "DELIVERY_INTENT_REFERENCE_SCHEMA = ''agentfirm.remote_fabric.delivery_intent_reference.v1''"
definition ARTIFACT_REFERENCE_SCHEMA :: string where
  "ARTIFACT_REFERENCE_SCHEMA = ''agentfirm.remote_fabric.artifact_reference.v1''"
definition COLLABORATION_BUSINESS_OPERATION_SCHEMA :: string where
  "COLLABORATION_BUSINESS_OPERATION_SCHEMA = ''agentfirm.collaboration.routed_business_operation.v1''"

datatype ArtifactCapabilityPurpose = PurposeUpload | PurposeDownload

record ArtifactCapability =
  cap_token :: string
  cap_company_id :: string
  cap_node_id :: string
  cap_artifact_id :: string
  cap_artifact_digest :: string
  cap_purpose :: ArtifactCapabilityPurpose
  cap_issued_to :: string
  cap_issued_at_unix_ms :: u64
  cap_expires_at_unix_ms :: u64
  cap_one_use :: bool

record FabricProbeBody =
  probe :: string

record RuntimeCommandIntent =
  rci_id :: string
  rci_target_execution_space_id :: string
  rci_command :: string
  rci_idempotency_key :: string
  rci_expected_version :: u64
  rci_expires_unix_ms :: u64
  rci_payload :: json
  rci_payload_fingerprint :: string
  rci_issued_at :: string

record RuntimeCommandReference =
  rcr_runtime_command_id :: string
  rcr_intent_fingerprint :: string
  rcr_target_execution_space_id :: string
  rcr_canonical_command_intent :: RuntimeCommandIntent

record MessageObjectReference =
  mor_artifact_id :: string
  mor_object_digest :: string
  mor_read_capability :: ArtifactCapability

record MessageReference =
  msg_message_id :: string
  msg_body_digest :: string
  msg_canonical_message_envelope :: "json option"
  msg_message_object_ref :: "MessageObjectReference option"

record DeliveryIntentReference =
  dir_delivery_id :: string
  dir_message_id :: string
  dir_message_body_digest :: string
  dir_recipient_agent_member_id :: string
  dir_target_execution_space_id :: string

record ArtifactReference =
  arf_artifact_id :: string
  arf_artifact_digest :: string

record CollaborationBusinessReference =
  cbr_business_kind :: string
  cbr_required_capability :: string
  cbr_business_actor_kind :: string
  cbr_business_actor_id :: string
  cbr_target_team_id :: string
  cbr_target_team_revision :: u64
  cbr_placement_generation :: u64
  cbr_expected_revision :: u64
  cbr_payload_digest :: string
  cbr_payload :: json

datatype ClosedOperationBody =
    BodyProbe FabricProbeBody
  | BodyReconcileProbe FabricProbeBody
  | BodyRuntimeCommand RuntimeCommandReference
  | BodyMessage MessageReference
  | BodyDeliveryIntent DeliveryIntentReference
  | BodyArtifact ArtifactReference
  | BodyCollaborationBusiness CollaborationBusinessReference

record RoutedOperation =
  op_id :: string
  op_company_id :: string
  op_kind :: string
  op_source_authority :: OperationSourceAuthority
  op_source_node_id :: "string option"
  op_target_node_id :: string
  op_source_gateway_generation :: "u64 option"
  op_source_node_daemon_id :: "string option"
  op_source_node_daemon_generation :: "u64 option"
  op_control_plane_generation :: u64
  op_source_execution_space_id :: "string option"
  op_target_execution_space_id :: "string option"
  op_actor :: AuthenticatedActor
  op_actor_runtime_generation :: "u64 option"
  op_authorization_context :: "string btree"
  op_idempotency_key :: string
  op_ordering_key :: string
  op_correlation_id :: string
  op_causation_id :: "string option"
  op_expected_target_revision :: "u64 option"
  op_body_schema :: string
  op_body :: json
  op_body_digest :: string
  op_priority :: OperationPriority
  op_created_at_unix_ms :: u64
  op_expires_at_unix_ms :: u64
  op_protocol_version :: u32
  op_schema_version :: string
  op_canonicalization_version :: string

text \<open>
  What the crate takes from its serialization and signature packages: the derived
  \<^verbatim>\<open>Serialize\<close>/\<^verbatim>\<open>Deserialize\<close> of each type it hashes, measures or decodes, and Ed25519.
\<close>

record codec = crypto +
  operation_to_value :: "RoutedOperation \<Rightarrow> string + json"
  operation_to_vec :: "RoutedOperation \<Rightarrow> string + bytes"
  decode_probe :: "json \<Rightarrow> string + FabricProbeBody"
  decode_runtime_command :: "json \<Rightarrow> string + RuntimeCommandReference"
  decode_message :: "json \<Rightarrow> string + MessageReference"
  decode_delivery_intent :: "json \<Rightarrow> string + DeliveryIntentReference"
  decode_artifact :: "json \<Rightarrow> string + ArtifactReference"
  decode_collaboration :: "json \<Rightarrow> string + CollaborationBusinessReference"
  hello_to_value :: "NodeHello \<Rightarrow> string + json"
  error_to_value :: "FabricError \<Rightarrow> string + json"
  decode_error :: "json \<Rightarrow> string + FabricError"
  ed25519_key :: "bytes \<Rightarrow> bool"
  ed25519_verify :: "bytes \<Rightarrow> bytes \<Rightarrow> bytes \<Rightarrow> bool"

definition operation_digest :: "codec \<Rightarrow> RoutedOperation \<Rightarrow> string result" where
  "operation_digest cd operation = canonical_digest cd (operation_to_value cd operation)"

definition validate_digest :: "codec \<Rightarrow> RoutedOperation \<Rightarrow> unit result" where
  "validate_digest cd operation =
     bindR (canonical_digest cd (Inr (op_body operation))) (\<lambda>actual.
     reject_if (actual \<noteq> op_body_digest operation)
       (FabricError_none InvalidPayload ''RoutedOperation body digest mismatch''))"

definition non_empty :: "string \<Rightarrow> bool" where
  "non_empty value \<longleftrightarrow> \<not> blank value"

definition is_digest :: "string \<Rightarrow> bool" where
  "is_digest value \<longleftrightarrow> length value = 64 \<and> list_all ascii_hexdigit value"

definition is_fingerprint :: "string \<Rightarrow> bool" where
  "is_fingerprint value =
     (case strip_prefix ''sha256:'' value of None \<Rightarrow> False | Some d \<Rightarrow> is_digest d)"

definition json_get :: "json \<Rightarrow> string \<Rightarrow> json option" where
  "json_get v k = (case v of JObject es \<Rightarrow> map_of es k | _ \<Rightarrow> None)"

definition json_str :: "json option \<Rightarrow> string option" where
  "json_str v = (case v of Some (JString s) \<Rightarrow> Some s | _ \<Rightarrow> None)"

definition runtime_command_body_valid :: "RoutedOperation \<Rightarrow> RuntimeCommandReference \<Rightarrow> bool" where
  "runtime_command_body_valid operation body =
     (let intent = rcr_canonical_command_intent body in
      non_empty (rcr_runtime_command_id body)
      \<and> is_fingerprint (rcr_intent_fingerprint body)
      \<and> non_empty (rcr_target_execution_space_id body)
      \<and> op_target_execution_space_id operation = Some (rcr_target_execution_space_id body)
      \<and> rcr_runtime_command_id body = rci_id intent
      \<and> rcr_target_execution_space_id body = rci_target_execution_space_id intent
      \<and> rci_command intent \<in> {''author_message'', ''start_session'', ''stop_session'',
           ''resume_session'', ''dispatch_provider'', ''cancel_provider_turn''}
      \<and> non_empty (rci_idempotency_key intent)
      \<and> rci_expires_unix_ms intent > 0
      \<and> is_fingerprint (rci_payload_fingerprint intent)
      \<and> non_empty (rci_issued_at intent))"

definition message_embedded :: "codec \<Rightarrow> MessageReference \<Rightarrow> bool" where
  "message_embedded cd body =
     (case msg_canonical_message_envelope body of
        None \<Rightarrow> False
      | Some envelope \<Rightarrow>
          json_str (json_get envelope ''id'') = Some (msg_message_id body)
          \<and> json_str (json_get envelope ''body_digest'') = Some (msg_body_digest body)
          \<and> map_option (\<lambda>message_body. ''sha256:'' @ sha256_hex cd message_body)
               (json_str (json_get envelope ''body'')) = Some (msg_body_digest body))"

definition message_referenced :: "RoutedOperation \<Rightarrow> MessageReference \<Rightarrow> bool" where
  "message_referenced operation body =
     (case msg_message_object_ref body of
        None \<Rightarrow> False
      | Some reference \<Rightarrow>
          (let capability = mor_read_capability reference in
           non_empty (mor_artifact_id reference)
           \<and> is_digest (mor_object_digest reference)
           \<and> cap_artifact_id capability = mor_artifact_id reference
           \<and> cap_artifact_digest capability = mor_object_digest reference
           \<and> cap_company_id capability = op_company_id operation
           \<and> cap_node_id capability = op_target_node_id operation
           \<and> cap_purpose capability = PurposeDownload
           \<and> cap_expires_at_unix_ms capability > op_created_at_unix_ms operation))"

definition COLLABORATION_KINDS :: "(string \<times> string) list" where
  "COLLABORATION_KINDS =
     [(''delegation_propose'', ''collaboration.delegation_propose''),
      (''delegation_decide'', ''collaboration.delegation_decide''),
      (''target_work_create'', ''collaboration.target_work_create''),
      (''delegation_cancel_request'', ''collaboration.delegation_cancel_request''),
      (''delegation_cancel_decide'', ''collaboration.delegation_cancel_decide''),
      (''peer_message_deliver'', ''collaboration.peer_message_deliver''),
      (''team_message_deliver'', ''collaboration.team_message_deliver''),
      (''remote_fact_publish'', ''collaboration.remote_fact_publish''),
      (''artifact_grant'', ''collaboration.artifact_grant''),
      (''native_session_read'', ''collaboration.native_session_read'')]"

definition collaboration_body_valid ::
    "codec \<Rightarrow> RoutedOperation \<Rightarrow> CollaborationBusinessReference \<Rightarrow> bool" where
  "collaboration_body_valid cd operation body =
     (let ctx = bt_get (op_authorization_context operation) in
      (cbr_business_kind body, cbr_required_capability body) \<in> set COLLABORATION_KINDS
      \<and> cbr_business_actor_kind body \<in> {''human'', ''agent_member'', ''service''}
      \<and> non_empty (cbr_business_actor_id body)
      \<and> non_empty (cbr_target_team_id body)
      \<and> cbr_target_team_revision body > 0
      \<and> cbr_placement_generation body = 1
      \<and> is_fingerprint (cbr_payload_digest body)
      \<and> (case canonical_digest cd (Inr (cbr_payload body)) of
           Inl _ \<Rightarrow> False | Inr d \<Rightarrow> ''sha256:'' @ d = cbr_payload_digest body)
      \<and> op_expected_target_revision operation = Some (cbr_expected_revision body)
      \<and> ctx ''target_team_id'' = Some (cbr_target_team_id body)
      \<and> ctx ''target_team_revision'' = Some (show_word (cbr_target_team_revision body))
      \<and> ctx ''placement_generation'' = Some (show_word (cbr_placement_generation body))
      \<and> ctx ''required_capability'' = Some (cbr_required_capability body)
      \<and> ctx ''business_actor_kind'' = Some (cbr_business_actor_kind body)
      \<and> ctx ''business_actor_id'' = Some (cbr_business_actor_id body)
      \<and> (cbr_business_kind body \<noteq> ''peer_message_deliver''
         \<or> (act_actor_kind (op_actor operation) = ActorService
             \<and> cbr_business_actor_kind body = ''agent_member''
             \<and> (case op_actor_runtime_generation operation of None \<Rightarrow> 0 | Some g \<Rightarrow> g) > 0
             \<and> (case ctx ''business_actor_session_id'' of
                  None \<Rightarrow> False | Some session_id \<Rightarrow> non_empty session_id))))"

definition validate_closed_body ::
    "codec \<Rightarrow> RoutedOperation \<Rightarrow> ClosedOperationBody \<Rightarrow> unit result" where
  "validate_closed_body cd operation body =
     (let valid =
        (case body of
           BodyProbe b \<Rightarrow> non_empty (probe b)
         | BodyReconcileProbe b \<Rightarrow> non_empty (probe b)
         | BodyRuntimeCommand b \<Rightarrow> runtime_command_body_valid operation b
         | BodyMessage b \<Rightarrow>
             non_empty (msg_message_id b) \<and> is_fingerprint (msg_body_digest b)
             \<and> (message_embedded cd b \<noteq> message_referenced operation b)
         | BodyDeliveryIntent b \<Rightarrow>
             non_empty (dir_delivery_id b) \<and> non_empty (dir_message_id b)
             \<and> is_fingerprint (dir_message_body_digest b)
             \<and> non_empty (dir_recipient_agent_member_id b)
             \<and> op_target_execution_space_id operation = Some (dir_target_execution_space_id b)
         | BodyArtifact b \<Rightarrow>
             non_empty (arf_artifact_id b) \<and> is_digest (arf_artifact_digest b)
         | BodyCollaborationBusiness b \<Rightarrow> collaboration_body_valid cd operation b)
      in reject_if (\<not> valid)
           (FabricError_none InvalidPayload
              ''closed operation body is empty, malformed, or disagrees with the routed scope''))"

definition decode_body :: "string \<Rightarrow> string + 'b \<Rightarrow> 'b result" where
  "decode_body kind r =
     map_err (\<lambda>error. FabricError_none InvalidPayload
       (kind @ '' body does not match its closed schema: '' @ error)) r"

definition closed_body :: "codec \<Rightarrow> RoutedOperation \<Rightarrow> ClosedOperationBody result" where
  "closed_body cd operation =
     (let kind = op_kind operation; schema = op_body_schema operation; body = op_body operation in
      bindR
       (if kind = PROBE_OPERATION_KIND \<and> schema = PROBE_BODY_SCHEMA then
          bindR (decode_body kind (decode_probe cd body)) (\<lambda>b. Inr (BodyProbe b))
        else if kind = RECONCILE_PROBE_OPERATION_KIND \<and> schema = RECONCILE_PROBE_BODY_SCHEMA then
          bindR (decode_body kind (decode_probe cd body)) (\<lambda>b. Inr (BodyReconcileProbe b))
        else if kind = RUNTIME_COMMAND_REFERENCE_KIND \<and> schema = RUNTIME_COMMAND_REFERENCE_SCHEMA then
          bindR (decode_body kind (decode_runtime_command cd body)) (\<lambda>b. Inr (BodyRuntimeCommand b))
        else if kind = MESSAGE_REFERENCE_KIND \<and> schema = MESSAGE_REFERENCE_SCHEMA then
          bindR (decode_body kind (decode_message cd body)) (\<lambda>b. Inr (BodyMessage b))
        else if kind = DELIVERY_INTENT_REFERENCE_KIND \<and> schema = DELIVERY_INTENT_REFERENCE_SCHEMA then
          bindR (decode_body kind (decode_delivery_intent cd body)) (\<lambda>b. Inr (BodyDeliveryIntent b))
        else if kind = ARTIFACT_REFERENCE_KIND \<and> schema = ARTIFACT_REFERENCE_SCHEMA then
          bindR (decode_body kind (decode_artifact cd body)) (\<lambda>b. Inr (BodyArtifact b))
        else if kind = COLLABORATION_BUSINESS_OPERATION_KIND
             \<and> schema = COLLABORATION_BUSINESS_OPERATION_SCHEMA then
          bindR (decode_body kind (decode_collaboration cd body)) (\<lambda>b. Inr (BodyCollaborationBusiness b))
        else Inl (FabricError_none SchemaIncompatible
               ''operation kind/body_schema pair is not in the frozen registry''))
       (\<lambda>body. bindR (validate_closed_body cd operation body) (\<lambda>_. Inr body)))"

section \<open>Route attempts, receipts and local boxes\<close>

datatype RouteAttemptState = AttemptQueued | AttemptSent | AttemptTargetPersisted | AttemptEnded

record RouteAttempt =
  att_id :: string
  att_company_id :: string
  att_operation_id :: string
  att_attempt_no :: u32
  att_target_node_id :: string
  att_target_gateway_generation :: u64
  att_control_plane_generation :: u64
  att_route_seq :: u64
  att_ordering_seq :: u64
  att_state :: RouteAttemptState
  att_error_code :: "FabricErrorCode option"
  att_effect :: EffectCertainty
  att_started_at_unix_ms :: u64
  att_ended_at_unix_ms :: "u64 option"
  att_schema_version :: string

record FabricRateWindow =
  win_company_id :: string
  win_source_authority_key :: string
  win_actor_id :: string
  win_window_started_at_unix_ms :: u64
  win_accepted_count :: u32
  win_schema_version :: string

datatype ReceiptKind =
    ControlPlaneAccepted | TargetPersisted | ReceiptRecoveryRequired
  | OperationApplied | OperationRejected

record RouteReceipt =
  rcp_id :: string
  rcp_company_id :: string
  rcp_operation_id :: string
  rcp_target_node_id :: string
  rcp_target_gateway_generation :: u64
  rcp_control_plane_generation :: u64
  rcp_route_seq :: u64
  rcp_kind :: ReceiptKind
  rcp_application_effect :: "EffectCertainty option"
  rcp_result_schema :: "string option"
  rcp_result :: "json option"
  rcp_result_digest :: "string option"
  rcp_error :: "FabricError option"
  rcp_created_at_unix_ms :: u64
  rcp_schema_version :: string

datatype LocalOutboxState =
    OutboxPending | OutboxQueuedForControlPlane | OutboxSubmitted | OutboxAccepted
  | OutboxTerminal | OutboxReconcileRequired

record LocalRemoteOutbox =
  out_company_id :: string
  out_node_id :: string
  out_operation_id :: string
  out_request_digest :: string
  out_local_state :: LocalOutboxState
  out_gateway_generation :: u64
  out_control_plane_generation :: u64
  out_attempt_count :: u32
  out_last_attempt_at_unix_ms :: "u64 option"
  out_terminal_receipt_ref :: "string option"
  out_operation :: "RoutedOperation option"
  out_schema_version :: string

datatype LocalInboxState =
    InboxPersisted | InboxClaimed | InboxApplied | InboxRejected | InboxRecoveryRequired

record LocalRemoteInbox =
  inb_company_id :: string
  inb_node_id :: string
  inb_operation_id :: string
  inb_route_seq :: u64
  inb_request_digest :: string
  inb_state :: LocalInboxState
  inb_gateway_generation :: u64
  inb_control_plane_generation :: u64
  inb_attempt_count :: u32
  inb_claim_generation :: "u64 option"
  inb_result_digest :: "string option"
  inb_schema_version :: string

datatype ArtifactClassification = CompanyInternal | Sensitive

record RemoteArtifactManifest =
  art_id :: string
  art_company_id :: string
  art_source_node_id :: string
  art_source_team_id :: "string option"
  art_source_work_id :: "string option"
  art_operation_id :: "string option"
  art_media_type :: string
  art_size_bytes :: u64
  art_sha256 :: string
  art_classification :: ArtifactClassification
  art_initiator :: string
  art_authorized_readers :: "string set"
  art_created_by :: string
  art_created_at_unix_ms :: u64
  art_expires_at_unix_ms :: "u64 option"
  art_completed_at_unix_ms :: "u64 option"
  art_deleted_at_unix_ms :: "u64 option"
  art_revision :: u64
  art_schema_version :: string

end
