(* ===== verification/Fabric_State.thy ===== *)
theory Fabric_State
  imports Protocol
begin

text \<open>
  The durable state of the Control Plane and its limits
  (\<^verbatim>\<open>crates/firm-fabric/src/store.rs\<close>, \<^verbatim>\<open>FabricState\<close>, \<^verbatim>\<open>FabricStoreLimits\<close>). Every table is
  an ordered map; a set of strings that is only ever asked for membership is a set.
\<close>

record FabricStoreLimits =
  max_queued_operations_per_node :: nat
  max_queued_bytes_per_node :: u64
  max_artifact_bytes :: u64
  max_operation_artifact_bytes :: u64
  max_operations_per_minute_per_source_actor :: u32

definition default_limits :: FabricStoreLimits where
  "default_limits =
     \<lparr>max_queued_operations_per_node = 10000,
      max_queued_bytes_per_node = 1024 * 1024 * 1024,
      max_artifact_bytes = 64 * 1024 * 1024,
      max_operation_artifact_bytes = 256 * 1024 * 1024,
      max_operations_per_minute_per_source_actor = 600\<rparr>"

record EncryptedArtifact =
  enc_nonce :: bytes
  enc_ciphertext :: bytes

record FabricState =
  revision :: u64
  authority_company_id :: "string option"
  control_plane_leases :: "CompanyControlPlaneLease btree"
  enrollments :: "NodeEnrollment btree"
  nodes :: "CompanyNode btree"
  certificates :: "NodeCertificate btree"
  revoked_certificate_serials :: "string set"
  gateway_leases :: "NodeGatewayLease btree"
  operations :: "RoutedOperation btree"
  operation_idempotency :: "string btree"
  attempts :: "RouteAttempt btree"
  receipts :: "RouteReceipt btree"
  route_sequences :: "u64 btree"
  ordering_sequences :: "u64 btree"
  rate_windows :: "FabricRateWindow btree"
  artifacts :: "RemoteArtifactManifest btree"
  encrypted_artifacts :: "EncryptedArtifact btree"
  consumed_capabilities :: "string set"

definition default_state :: FabricState where
  "default_state =
     \<lparr>revision = 0, authority_company_id = None, control_plane_leases = [], enrollments = [],
      nodes = [], certificates = [], revoked_certificate_serials = {}, gateway_leases = [],
      operations = [], operation_idempotency = [], attempts = [], receipts = [],
      route_sequences = [], ordering_sequences = [], rate_windows = [], artifacts = [],
      encrypted_artifacts = [], consumed_capabilities = {}\<rparr>"

text \<open>The counter a sequence table holds for a key: \<^verbatim>\<open>get(k).copied().unwrap_or(0)\<close>.\<close>

definition counter :: "u64 btree \<Rightarrow> string \<Rightarrow> u64" where
  "counter m k = (case bt_get m k of None \<Rightarrow> 0 | Some n \<Rightarrow> n)"

lemma counter_insert [simp]: "counter (bt_insert k n m) j = (if j = k then n else counter m j)"
  by (simp add: counter_def)

lemma counter_Nil [simp]: "counter [] k = 0"
  by (simp add: counter_def)

end
