(* ===== verification/Gateway_Fence.thy ===== *)
theory Gateway_Fence
  imports Fabric_State
begin

text \<open>
  The generation fence of a Node gateway and its heartbeat
  (\<^verbatim>\<open>crates/firm-fabric/src/node_gateway.rs\<close>, \<^verbatim>\<open>require_current_gateway\<close>, \<^verbatim>\<open>heartbeat\<close>).
\<close>

definition gateway_lease_stale ::
    "NodeGatewayLease \<Rightarrow> string \<Rightarrow> u64 \<Rightarrow> u64 \<Rightarrow> string \<Rightarrow> u64 \<Rightarrow> u64 \<Rightarrow> bool" where
  "gateway_lease_stale lease company_id control_plane_generation gateway_generation
      node_daemon_id node_daemon_generation now_unix_ms \<longleftrightarrow>
     gwl_company_id lease \<noteq> company_id
     \<or> gwl_control_plane_generation lease \<noteq> control_plane_generation
     \<or> gwl_gateway_generation lease \<noteq> gateway_generation
     \<or> gwl_node_daemon_id lease \<noteq> node_daemon_id
     \<or> gwl_node_daemon_generation lease \<noteq> node_daemon_generation
     \<or> gwl_expires_at_unix_ms lease \<le> now_unix_ms"

definition require_current_gateway ::
    "FabricState \<Rightarrow> string \<Rightarrow> u64 \<Rightarrow> string \<Rightarrow> u64 \<Rightarrow> string \<Rightarrow> u64 \<Rightarrow> u64 \<Rightarrow> NodeGatewayLease result" where
  "require_current_gateway state company_id control_plane_generation nid gateway_generation
      node_daemon_id node_daemon_generation now_unix_ms =
     (case bt_get (gateway_leases state) nid of
        None \<Rightarrow> Inl (FabricError_none NodeStaleGeneration ''Node has no current gateway lease'')
      | Some lease \<Rightarrow>
          if gateway_lease_stale lease company_id control_plane_generation gateway_generation
               node_daemon_id node_daemon_generation now_unix_ms
          then Inl (FabricError_none NodeStaleGeneration
                      ''gateway or Control Plane generation is stale'')
          else Inr lease)"

text \<open>\<^verbatim>\<open>last_seen_at\<close> and \<^verbatim>\<open>updated_at\<close> of a Node that was just heard from.\<close>

definition touch_node :: "u64 \<Rightarrow> CompanyNode \<Rightarrow> CompanyNode" where
  "touch_node now_unix_ms n =
     n\<lparr>node_last_seen_at_unix_ms := Some now_unix_ms, node_updated_at_unix_ms := now_unix_ms\<rparr>"

definition heartbeat ::
    "string \<Rightarrow> u64 \<Rightarrow> string \<Rightarrow> u64 \<Rightarrow> string \<Rightarrow> u64 \<Rightarrow> u64 \<Rightarrow> u64
      \<Rightarrow> (FabricState, NodeGatewayLease) fabric_action" where
  "heartbeat company_id control_plane_generation nid gateway_generation node_daemon_id
      node_daemon_generation expected_revision now_unix_ms state =
     (case bt_get (gateway_leases state) nid of
        None \<Rightarrow> (Inl (FabricError_none NodeStaleGeneration ''Node has no gateway lease''), state)
      | Some lease \<Rightarrow>
          if gateway_lease_stale lease company_id control_plane_generation gateway_generation
               node_daemon_id node_daemon_generation now_unix_ms
          then (Inl (FabricError_none NodeStaleGeneration ''gateway generation is stale''), state)
          else if gwl_revision lease \<noteq> expected_revision
          then (Inl (revision_conflict ''gateway lease revision mismatch'' expected_revision
                       (gwl_revision lease)), state)
          else (case bt_get (nodes state) nid of
             None \<Rightarrow> (Inl (FabricError_none SourceMismatch ''Node does not exist''), state)
           | Some node \<Rightarrow>
               if node_administrative_status node = NodeIsRevoked
               then (Inl (FabricError_none NodeRevoked ''revoked Node cannot heartbeat''), state)
               else (let next_lease =
                       lease\<lparr>gwl_revision := sat_add (gwl_revision lease) 1,
                             gwl_last_heartbeat_at_unix_ms := now_unix_ms,
                             gwl_expires_at_unix_ms := sat_add now_unix_ms 30000\<rparr>
                     in (Inr next_lease,
                         state\<lparr>gateway_leases := bt_insert nid next_lease (gateway_leases state),
                               nodes := bt_modify nid (touch_node now_unix_ms) (nodes state)\<rparr>))))"

lemma require_current_gateway_Inr:
  "require_current_gateway state c g n gg d dg now = Inr lease \<longleftrightarrow>
     bt_get (gateway_leases state) n = Some lease
     \<and> gwl_company_id lease = c \<and> gwl_control_plane_generation lease = g
     \<and> gwl_gateway_generation lease = gg \<and> gwl_node_daemon_id lease = d
     \<and> gwl_node_daemon_generation lease = dg \<and> now < gwl_expires_at_unix_ms lease"
  by (auto simp: require_current_gateway_def gateway_lease_stale_def not_le split: option.splits if_splits)

lemma require_current_gateway_Inl:
  "require_current_gateway state c g n gg d dg now = Inl e \<Longrightarrow> err_code e = NodeStaleGeneration"
  by (auto simp: require_current_gateway_def split: option.splits if_splits)

end
