(* ===== verification/Router.thy ===== *)
theory Router
  imports Gateway_Fence
begin

text \<open>
  Durable routing (\<^verbatim>\<open>crates/firm-fabric/src/router.rs\<close>): admission of an operation into the
  per-Node queue, retry towards a successor gateway, the receipts a target reports, and the expiry
  of work a dead gateway never persisted. Long functions are split where the source moves from
  one phase to the next.
\<close>

definition operation_source_key :: "RoutedOperation \<Rightarrow> string" where
  "operation_source_key operation =
     (case op_source_authority operation of
        SourceNode \<Rightarrow> ''node:'' @
          (case op_source_node_id operation of None \<Rightarrow> ''missing'' | Some n \<Rightarrow> n)
      | SourceControlPlane \<Rightarrow> ''control_plane'')"

definition queue_capacity_exceeded :: "nat \<Rightarrow> u64 \<Rightarrow> u64 \<Rightarrow> FabricStoreLimits \<Rightarrow> bool" where
  "queue_capacity_exceeded queued_operations queued_bytes operation_bytes limits \<longleftrightarrow>
     queued_operations \<ge> max_queued_operations_per_node limits
     \<or> sat_add queued_bytes operation_bytes > max_queued_bytes_per_node limits"

text \<open>\<^verbatim>\<open>{kind:?}\<close>: the derived \<^verbatim>\<open>Debug\<close> name of a receipt kind.\<close>

fun show_receipt_kind :: "ReceiptKind \<Rightarrow> string" where
  "show_receipt_kind ControlPlaneAccepted = ''ControlPlaneAccepted''"
| "show_receipt_kind TargetPersisted = ''TargetPersisted''"
| "show_receipt_kind ReceiptRecoveryRequired = ''RecoveryRequired''"
| "show_receipt_kind OperationApplied = ''OperationApplied''"
| "show_receipt_kind OperationRejected = ''OperationRejected''"

definition receipt_id :: "string \<Rightarrow> ReceiptKind \<Rightarrow> u64 \<Rightarrow> string" where
  "receipt_id operation_id kind gateway_generation =
     ''receipt:'' @ operation_id @ '':'' @ show_receipt_kind kind @ '':'' @ show_word gateway_generation"

definition attempt_id :: "string \<Rightarrow> u32 \<Rightarrow> string" where
  "attempt_id operation_id attempt_no = ''route-attempt:'' @ operation_id @ '':'' @ show_word attempt_no"

definition receipt_for :: "FabricState \<Rightarrow> string \<Rightarrow> ReceiptKind \<Rightarrow> u64 \<Rightarrow> RouteReceipt result" where
  "receipt_for state operation_id kind gateway_generation =
     ok_or (bt_get (receipts state) (receipt_id operation_id kind gateway_generation))
       (FabricError_none StoreUnavailable ''durable receipt is missing'')"

definition is_terminal_kind :: "ReceiptKind \<Rightarrow> bool" where
  "is_terminal_kind kind \<longleftrightarrow> kind = OperationApplied \<or> kind = OperationRejected"

definition is_settled_kind :: "ReceiptKind \<Rightarrow> bool" where
  "is_settled_kind kind \<longleftrightarrow> kind = TargetPersisted \<or> kind = ReceiptRecoveryRequired
     \<or> kind = OperationApplied \<or> kind = OperationRejected"

definition in_flight :: "RouteAttemptState \<Rightarrow> bool" where
  "in_flight s \<longleftrightarrow> s = AttemptQueued \<or> s = AttemptSent"

section \<open>Validation\<close>

definition required_capability :: "string \<Rightarrow> string option" where
  "required_capability kind =
     (if kind = PROBE_OPERATION_KIND \<or> kind = RECONCILE_PROBE_OPERATION_KIND then Some ''durable-routing''
      else if kind = RUNTIME_COMMAND_REFERENCE_KIND then Some ''remote-runtime''
      else if kind = MESSAGE_REFERENCE_KIND \<or> kind = DELIVERY_INTENT_REFERENCE_KIND
        then Some ''remote-message''
      else if kind = ARTIFACT_REFERENCE_KIND then Some ''artifact-transfer''
      else if kind = COLLABORATION_BUSINESS_OPERATION_KIND then Some ''cross-team-collaboration''
      else None)"

text \<open>The Nodes an operation involves: its target, and its source when a Node submits it.\<close>

definition operation_nodes :: "RoutedOperation \<Rightarrow> string list result" where
  "operation_nodes operation =
     (case op_source_authority operation of
        SourceNode \<Rightarrow>
          bindR (ok_or (op_source_node_id operation)
                   (FabricError_none SourceMismatch
                      ''node-authority operation requires source_node_id'')) (\<lambda>source_node_id.
          bindR (reject_if (op_source_gateway_generation operation = None)
                   (FabricError_none SourceMismatch
                      ''node-authority operation requires source gateway generation'')) (\<lambda>_.
          bindR (reject_if (op_source_node_daemon_id operation = None
                            \<or> op_source_node_daemon_generation operation = None)
                   (FabricError_none SourceMismatch
                      ''node-authority operation requires exact NodeDaemon id and generation'')) (\<lambda>_.
          Inr [op_target_node_id operation, source_node_id])))
      | SourceControlPlane \<Rightarrow>
          bindR (reject_if (op_source_node_id operation \<noteq> None
                            \<or> op_source_gateway_generation operation \<noteq> None
                            \<or> op_source_node_daemon_id operation \<noteq> None
                            \<or> op_source_node_daemon_generation operation \<noteq> None
                            \<or> op_source_execution_space_id operation \<noteq> None)
                   (FabricError_none SourceMismatch
                      ''Control Plane operation cannot claim Node source authority'')) (\<lambda>_.
          Inr [op_target_node_id operation]))"

fun validate_nodes :: "FabricState \<Rightarrow> string \<Rightarrow> string \<Rightarrow> string list \<Rightarrow> unit result" where
  "validate_nodes state company_id capability [] = Inr ()"
| "validate_nodes state company_id capability (nid # rest) =
     bindR (ok_or (bt_get (nodes state) nid)
              (FabricError_none TargetNotPlaced (''operation Node '' @ nid @ '' is not enrolled'')))
       (\<lambda>node.
     bindR (reject_if (node_company_id node \<noteq> company_id
                       \<or> node_administrative_status node = NodeIsRevoked)
              (FabricError_none NodeRevoked
                 ''operation source or target Node is revoked or foreign'')) (\<lambda>_.
     bindR (reject_if (capability \<notin> node_allowed_capabilities node)
              (FabricError_none FeatureIncompatible
                 (''operation Node '' @ nid @ '' lacks '' @ capability @ '' capability''))) (\<lambda>_.
     validate_nodes state company_id capability rest)))"

text \<open>
  The scope checks up to the operation registry (lines 808--868), then the Node checks
  (869--963). The registry match and the capability match list the same kinds, so the
  \<^verbatim>\<open>unreachable!\<close> arm is the \<^term>\<open>None\<close> that the registry has already refused.
\<close>

definition validate_operation_scope ::
    "codec \<Rightarrow> FabricState \<Rightarrow> string \<Rightarrow> RoutedOperation \<Rightarrow> u64 \<Rightarrow> string result" where
  "validate_operation_scope cd state company_id operation now_unix_ms =
     bindR (reject_if (op_company_id operation \<noteq> company_id
                       \<or> act_company_id (op_actor operation) \<noteq> company_id)
              (FabricError_none WrongCompany ''operation or actor belongs to another Company'')) (\<lambda>_.
     bindR (require_company_and_role (op_actor operation) company_id ''fabric_submit'' now_unix_ms) (\<lambda>_.
     bindR (reject_if (op_protocol_version operation \<noteq> FABRIC_PROTOCOL_VERSION
                       \<or> op_schema_version operation \<noteq> FABRIC_SCHEMA_VERSION
                       \<or> op_canonicalization_version operation \<noteq> FABRIC_CANONICALIZATION_VERSION)
              (FabricError_none ProtocolIncompatible
                 ''operation protocol or schema is incompatible'')) (\<lambda>_.
     bindR (validate_digest cd operation) (\<lambda>_.
     bindR (closed_body cd operation) (\<lambda>_.
     bindR (reject_if (op_control_plane_generation operation \<noteq>
                         (case bt_get (control_plane_leases state) company_id of
                            None \<Rightarrow> 0 | Some lease \<Rightarrow> cpl_control_plane_generation lease))
              (FabricError_none ControlPlaneStaleGeneration
                 ''operation was created for a stale Control Plane generation'')) (\<lambda>_.
     bindR (reject_if (op_expires_at_unix_ms operation \<le> now_unix_ms)
              (FabricError_none OperationExpired ''operation expired before acceptance'')) (\<lambda>_.
     ok_or (required_capability (op_kind operation))
       (FabricError_none UnauthorizedActor
          ''operation kind is not in the versioned Remote Fabric registry''))))))))"

definition validate_operation ::
    "codec \<Rightarrow> FabricState \<Rightarrow> string \<Rightarrow> RoutedOperation \<Rightarrow> u64 \<Rightarrow> unit result" where
  "validate_operation cd state company_id operation now_unix_ms =
     bindR (validate_operation_scope cd state company_id operation now_unix_ms) (\<lambda>capability.
     bindR (operation_nodes operation) (\<lambda>node_ids.
     bindR (validate_nodes state company_id capability node_ids) (\<lambda>_.
     bindR (reject_if (case bt_get (nodes state) (op_target_node_id operation) of
                         None \<Rightarrow> False
                       | Some node \<Rightarrow> node_administrative_status node = NodeDraining)
              (FabricError_none TargetNotPlaced
                 ''draining Node does not accept new routed operations'')) (\<lambda>_.
     case op_source_authority operation of
       SourceControlPlane \<Rightarrow> Inr ()
     | SourceNode \<Rightarrow>
         bindR (require_current_gateway state company_id (op_control_plane_generation operation)
                  (the (op_source_node_id operation))
                  (the (op_source_gateway_generation operation))
                  (the (op_source_node_daemon_id operation))
                  (the (op_source_node_daemon_generation operation)) now_unix_ms) (\<lambda>_. Inr ())))))"

section \<open>Admission\<close>

definition idempotency_index :: "string \<Rightarrow> RoutedOperation \<Rightarrow> string" where
  "idempotency_index company_id operation =
     company_id @ '':'' @ operation_source_key operation @ '':'' @ op_idempotency_key operation"

definition rate_key :: "string \<Rightarrow> RoutedOperation \<Rightarrow> string" where
  "rate_key company_id operation =
     company_id @ '':'' @ operation_source_key operation @ '':'' @ act_actor_id (op_actor operation)"

definition ordering_index :: "RoutedOperation \<Rightarrow> string" where
  "ordering_index operation = op_target_node_id operation @ '':'' @ op_ordering_key operation"

definition window_start :: "u64 \<Rightarrow> u64" where
  "window_start now_unix_ms = now_unix_ms - (now_unix_ms mod 60000)"

text \<open>The replay branch of \<^verbatim>\<open>accept_and_enqueue\<close>: the index already knows the key.\<close>

definition replay_accepted ::
    "codec \<Rightarrow> FabricState \<Rightarrow> string \<Rightarrow> string
      \<Rightarrow> (RoutedOperation \<times> RouteAttempt \<times> RouteReceipt \<times> bool) result" where
  "replay_accepted cd state existing_id request_digest =
     bindR (ok_or (bt_get (operations state) existing_id)
              (FabricError_none StoreUnavailable
                 ''idempotency index references a missing operation'')) (\<lambda>existing.
     bindR (operation_digest cd existing) (\<lambda>existing_digest.
     bindR (reject_if (existing_digest \<noteq> request_digest)
              (FabricError_none IdempotencyConflict
                 ''same idempotency key was reused with a different request'')) (\<lambda>_.
     bindR (ok_or (List.find (\<lambda>attempt. att_operation_id attempt = op_id existing)
                     (bt_values (attempts state)))
              (FabricError_none StoreUnavailable
                 ''replayed operation has no durable route attempt'')) (\<lambda>attempt.
     bindR (receipt_for state (op_id existing) ControlPlaneAccepted
              (att_target_gateway_generation attempt)) (\<lambda>receipt.
     Inr (existing, attempt, receipt, True))))))"

text \<open>Rows waiting for a Node, their number and their size (a \<^verbatim>\<open>u64\<close> sum, which wraps).\<close>

definition queued_attempts :: "FabricState \<Rightarrow> string \<Rightarrow> RouteAttempt list" where
  "queued_attempts state nid =
     filter (\<lambda>a. att_target_node_id a = nid \<and> att_state a \<noteq> AttemptEnded) (bt_values (attempts state))"

definition operation_size :: "codec \<Rightarrow> RoutedOperation \<Rightarrow> u64" where
  "operation_size cd operation =
     (case operation_to_vec cd operation of Inl _ \<Rightarrow> - 1 | Inr bs \<Rightarrow> of_nat (length bs))"

definition queued_bytes :: "codec \<Rightarrow> FabricState \<Rightarrow> string \<Rightarrow> u64" where
  "queued_bytes cd state nid =
     sum_list (map (operation_size cd)
       (List.map_filter (\<lambda>a. bt_get (operations state) (att_operation_id a)) (queued_attempts state nid)))"

definition rate_limited_error :: "u64 \<Rightarrow> FabricError" where
  "rate_limited_error now_unix_ms =
     (FabricError_none RateLimited
        ''source Node and actor exceeded the durable per-minute operation limit'')
       \<lparr>err_retryable := True,
        err_retry_after_ms := Some (sat_add (window_start now_unix_ms) 60000 - now_unix_ms)\<rparr>"

text \<open>The admission checks of a new operation: id, rate window, live target gateway, capacity.\<close>

definition admit_new ::
    "codec \<Rightarrow> FabricState \<Rightarrow> string \<Rightarrow> u64 \<Rightarrow> RoutedOperation \<Rightarrow> FabricStoreLimits \<Rightarrow> u64
      \<Rightarrow> NodeGatewayLease result" where
  "admit_new cd state company_id control_plane_generation operation limits now_unix_ms =
     bindR (reject_if (bt_contains (operations state) (op_id operation))
              (FabricError_none IdempotencyConflict ''operation id already exists'')) (\<lambda>_.
     bindR (reject_if (case bt_get (rate_windows state) (rate_key company_id operation) of
                         None \<Rightarrow> False
                       | Some window \<Rightarrow>
                           win_window_started_at_unix_ms window = window_start now_unix_ms
                           \<and> win_accepted_count window \<ge> max_operations_per_minute_per_source_actor limits)
              (rate_limited_error now_unix_ms)) (\<lambda>_.
     bindR (ok_or (bt_get (gateway_leases state) (op_target_node_id operation))
              (FabricError_none TargetOffline ''target Node has no gateway lease'')) (\<lambda>gateway.
     bindR (reject_if (gwl_company_id gateway \<noteq> company_id
                       \<or> gwl_control_plane_generation gateway \<noteq> control_plane_generation
                       \<or> gwl_expires_at_unix_ms gateway \<le> now_unix_ms)
              (FabricError_none TargetOffline ''target Node gateway is offline or stale'')) (\<lambda>_.
     bindR (map_err (\<lambda>error. FabricError_none InvalidPayload (''operation encoding failed: '' @ error))
              (operation_to_vec cd operation)) (\<lambda>encoded.
     bindR (reject_if (queue_capacity_exceeded
                         (length (queued_attempts state (op_target_node_id operation)))
                         (queued_bytes cd state (op_target_node_id operation))
                         (of_nat (length encoded)) limits)
              (FabricError_none QueueCapacity
                 ''target Node queue capacity reached; operation was not accepted'')) (\<lambda>_.
     Inr gateway))))))"

definition new_attempt ::
    "string \<Rightarrow> string \<Rightarrow> u32 \<Rightarrow> string \<Rightarrow> u64 \<Rightarrow> u64 \<Rightarrow> u64 \<Rightarrow> u64 \<Rightarrow> u64 \<Rightarrow> RouteAttempt" where
  "new_attempt company_id operation_id attempt_no target_node_id gateway_generation
      control_plane_generation route_seq ordering_seq now_unix_ms =
     \<lparr>att_id = attempt_id operation_id attempt_no,
      att_company_id = company_id,
      att_operation_id = operation_id,
      att_attempt_no = attempt_no,
      att_target_node_id = target_node_id,
      att_target_gateway_generation = gateway_generation,
      att_control_plane_generation = control_plane_generation,
      att_route_seq = route_seq,
      att_ordering_seq = ordering_seq,
      att_state = AttemptQueued,
      att_error_code = None,
      att_effect = EffectNone,
      att_started_at_unix_ms = now_unix_ms,
      att_ended_at_unix_ms = None,
      att_schema_version = FABRIC_SCHEMA_VERSION\<rparr>"

text \<open>A transport receipt: no application effect, no result.\<close>

definition transport_receipt ::
    "string \<Rightarrow> string \<Rightarrow> ReceiptKind \<Rightarrow> string \<Rightarrow> u64 \<Rightarrow> u64 \<Rightarrow> u64 \<Rightarrow> u64 \<Rightarrow> RouteReceipt" where
  "transport_receipt company_id operation_id kind target_node_id gateway_generation
      control_plane_generation route_seq now_unix_ms =
     \<lparr>rcp_id = receipt_id operation_id kind gateway_generation,
      rcp_company_id = company_id,
      rcp_operation_id = operation_id,
      rcp_target_node_id = target_node_id,
      rcp_target_gateway_generation = gateway_generation,
      rcp_control_plane_generation = control_plane_generation,
      rcp_route_seq = route_seq,
      rcp_kind = kind,
      rcp_application_effect = None,
      rcp_result_schema = None,
      rcp_result = None,
      rcp_result_digest = None,
      rcp_error = None,
      rcp_created_at_unix_ms = now_unix_ms,
      rcp_schema_version = FABRIC_SCHEMA_VERSION\<rparr>"

text \<open>The rate window after one more accepted operation.\<close>

definition count_accepted ::
    "string \<Rightarrow> RoutedOperation \<Rightarrow> u64 \<Rightarrow> FabricRateWindow option \<Rightarrow> FabricRateWindow" where
  "count_accepted company_id operation now_unix_ms entry =
     (let started = window_start now_unix_ms;
          window = (case entry of
             Some w \<Rightarrow> w
           | None \<Rightarrow> \<lparr>win_company_id = company_id,
                      win_source_authority_key = operation_source_key operation,
                      win_actor_id = act_actor_id (op_actor operation),
                      win_window_started_at_unix_ms = started,
                      win_accepted_count = 0,
                      win_schema_version = FABRIC_SCHEMA_VERSION\<rparr>);
          window = (if win_window_started_at_unix_ms window \<noteq> started
             then window\<lparr>win_window_started_at_unix_ms := started, win_accepted_count := 0\<rparr>
             else window)
      in window\<lparr>win_accepted_count := sat_add (win_accepted_count window) 1\<rparr>)"

text \<open>The durable write of an admitted operation: sequences, operation, attempt, receipt, window.\<close>

definition enqueue ::
    "string \<Rightarrow> u64 \<Rightarrow> RoutedOperation \<Rightarrow> NodeGatewayLease \<Rightarrow> u64 \<Rightarrow> FabricState
      \<Rightarrow> (RouteAttempt \<times> RouteReceipt) \<times> FabricState" where
  "enqueue company_id control_plane_generation operation gateway now_unix_ms state =
     (let target = op_target_node_id operation;
          route_seq = sat_add (counter (route_sequences state) target) 1;
          ordering_seq = sat_add (counter (ordering_sequences state) (ordering_index operation)) 1;
          attempt = new_attempt company_id (op_id operation) 1 target (gwl_gateway_generation gateway)
                      control_plane_generation route_seq ordering_seq now_unix_ms;
          receipt = transport_receipt company_id (op_id operation) ControlPlaneAccepted target
                      (gwl_gateway_generation gateway) control_plane_generation route_seq now_unix_ms
      in ((attempt, receipt),
          state\<lparr>operation_idempotency := bt_insert (idempotency_index company_id operation)
                  (op_id operation) (operation_idempotency state),
                route_sequences := bt_insert target route_seq (route_sequences state),
                ordering_sequences := bt_insert (ordering_index operation) ordering_seq
                  (ordering_sequences state),
                operations := bt_insert (op_id operation) operation (operations state),
                attempts := bt_insert (att_id attempt) attempt (attempts state),
                receipts := bt_insert (rcp_id receipt) receipt (receipts state),
                rate_windows := bt_insert (rate_key company_id operation)
                  (count_accepted company_id operation now_unix_ms
                     (bt_get (rate_windows state) (rate_key company_id operation)))
                  (rate_windows state)\<rparr>))"

definition accept_and_enqueue ::
    "codec \<Rightarrow> string \<Rightarrow> u64 \<Rightarrow> RoutedOperation \<Rightarrow> FabricStoreLimits \<Rightarrow> u64
      \<Rightarrow> (FabricState, RoutedOperation \<times> RouteAttempt \<times> RouteReceipt \<times> bool) fabric_action" where
  "accept_and_enqueue cd company_id control_plane_generation operation limits now_unix_ms state =
     check (validate_operation cd state company_id operation now_unix_ms) (\<lambda>_.
     check (operation_digest cd operation) (\<lambda>request_digest state.
     case bt_get (operation_idempotency state) (idempotency_index company_id operation) of
       Some existing_id \<Rightarrow>
         (replay_accepted cd state existing_id request_digest, state)
     | None \<Rightarrow>
         check (admit_new cd state company_id control_plane_generation operation limits now_unix_ms)
           (\<lambda>gateway state.
              (case enqueue company_id control_plane_generation operation gateway now_unix_ms state of
                 ((attempt, receipt), state') \<Rightarrow> (Inr (operation, attempt, receipt, False), state')))
           state)) state"

section \<open>Retry towards a successor gateway\<close>

definition operation_attempts :: "FabricState \<Rightarrow> string \<Rightarrow> RouteAttempt list" where
  "operation_attempts state operation_id =
     filter (\<lambda>attempt. att_operation_id attempt = operation_id) (bt_values (attempts state))"

definition has_receipt :: "FabricState \<Rightarrow> string \<Rightarrow> (ReceiptKind \<Rightarrow> bool) \<Rightarrow> bool" where
  "has_receipt state operation_id P \<longleftrightarrow>
     list_ex (\<lambda>receipt. rcp_operation_id receipt = operation_id \<and> P (rcp_kind receipt))
       (bt_values (receipts state))"

text \<open>The refusals of \<^verbatim>\<open>retry_operation\<close>: what it hands on is the operation, its live gateway and
  the latest attempt.\<close>

definition retry_admission ::
    "FabricState \<Rightarrow> string \<Rightarrow> u64 \<Rightarrow> string \<Rightarrow> u64
      \<Rightarrow> (RoutedOperation \<times> NodeGatewayLease \<times> RouteAttempt) result" where
  "retry_admission state company_id control_plane_generation operation_id now_unix_ms =
     bindR (ok_or (bt_get (operations state) operation_id)
              (FabricError_none OperationUnknown ''routed operation does not exist'')) (\<lambda>operation.
     bindR (reject_if (op_company_id operation \<noteq> company_id)
              (FabricError_none WrongCompany ''routed operation belongs to another Company'')) (\<lambda>_.
     bindR (reject_if (op_expires_at_unix_ms operation \<le> now_unix_ms)
              (FabricError_none OperationExpired ''routed operation expired before retry'')) (\<lambda>_.
     bindR (reject_if (has_receipt state operation_id is_terminal_kind)
              (FabricError_none IdempotencyConflict ''terminal operation cannot be retried'')) (\<lambda>_.
     bindR (reject_if (has_receipt state operation_id (\<lambda>kind. kind = TargetPersisted))
              (FabricError_unknown operation_id
                 ''target already persisted the operation; reconcile instead of blind retry'')) (\<lambda>_.
     bindR (ok_or (bt_get (gateway_leases state) (op_target_node_id operation))
              (FabricError_none TargetOffline ''target Node has no gateway lease'')) (\<lambda>gateway.
     bindR (reject_if (gwl_company_id gateway \<noteq> company_id
                       \<or> gwl_control_plane_generation gateway \<noteq> control_plane_generation
                       \<or> gwl_expires_at_unix_ms gateway \<le> now_unix_ms)
              (FabricError_none TargetOffline ''target Node gateway is offline or stale'')) (\<lambda>_.
     bindR (ok_or (last_by_key att_attempt_no (operation_attempts state operation_id))
              (FabricError_none StoreUnavailable ''routed operation has no prior attempt'')) (\<lambda>prior.
     Inr (operation, gateway, prior)))))))))"

definition end_superseded :: "u64 \<Rightarrow> RouteAttempt \<Rightarrow> RouteAttempt" where
  "end_superseded now_unix_ms a =
     a\<lparr>att_state := AttemptEnded, att_error_code := Some NodeStaleGeneration,
       att_ended_at_unix_ms := Some now_unix_ms\<rparr>"

definition retry_write ::
    "string \<Rightarrow> u64 \<Rightarrow> string \<Rightarrow> string \<Rightarrow> NodeGatewayLease \<Rightarrow> RouteAttempt \<Rightarrow> u64 \<Rightarrow> FabricState
      \<Rightarrow> (RouteAttempt \<times> RouteReceipt) \<times> FabricState" where
  "retry_write company_id control_plane_generation operation_id target gateway prior now_unix_ms state =
     (let state = state\<lparr>attempts := bt_modify (att_id prior) (end_superseded now_unix_ms) (attempts state)\<rparr>;
          route_seq = sat_add (counter (route_sequences state) target) 1;
          attempt = new_attempt company_id operation_id (sat_add (att_attempt_no prior) 1) target
                      (gwl_gateway_generation gateway) control_plane_generation route_seq
                      (att_ordering_seq prior) now_unix_ms;
          receipt = transport_receipt company_id operation_id ControlPlaneAccepted target
                      (gwl_gateway_generation gateway) control_plane_generation route_seq now_unix_ms
      in ((attempt, receipt),
          state\<lparr>route_sequences := bt_insert target route_seq (route_sequences state),
                attempts := bt_insert (att_id attempt) attempt (attempts state),
                receipts := bt_insert (rcp_id receipt) receipt (receipts state)\<rparr>))"

definition retry_operation ::
    "string \<Rightarrow> u64 \<Rightarrow> string \<Rightarrow> u64 \<Rightarrow> (FabricState, RouteAttempt \<times> RouteReceipt \<times> bool) fabric_action" where
  "retry_operation company_id control_plane_generation operation_id now_unix_ms state =
     check (retry_admission state company_id control_plane_generation operation_id now_unix_ms)
       (\<lambda>(operation, gateway, prior) state.
          if att_target_gateway_generation prior = gwl_gateway_generation gateway then
            (bindR (receipt_for state operation_id ControlPlaneAccepted (gwl_gateway_generation gateway))
               (\<lambda>receipt. Inr (prior, receipt, True)), state)
          else if att_effect prior \<noteq> EffectNone \<or> \<not> in_flight (att_state prior) then
            (Inl (FabricError_unknown operation_id
               ''prior route attempt may have produced an effect; reconcile is required''), state)
          else
            (case retry_write company_id control_plane_generation operation_id (op_target_node_id operation)
                    gateway prior now_unix_ms state of
               ((attempt, receipt), state') \<Rightarrow> (Inr (attempt, receipt, False), state')))
       state"

section \<open>Receipts reported by the target\<close>

definition record_target_persisted ::
    "codec \<Rightarrow> string \<Rightarrow> u64 \<Rightarrow> string \<Rightarrow> u64 \<Rightarrow> string \<Rightarrow> u64 \<Rightarrow> string \<Rightarrow> string \<Rightarrow> u64 \<Rightarrow> u64
      \<Rightarrow> (FabricState, RouteAttempt \<times> RouteReceipt \<times> bool) fabric_action" where
  "record_target_persisted cd company_id control_plane_generation nid gateway_generation
      node_daemon_id node_daemon_generation operation_id request_digest route_seq now_unix_ms state =
     check (require_current_gateway state company_id control_plane_generation nid gateway_generation
              node_daemon_id node_daemon_generation now_unix_ms) (\<lambda>_.
     check (ok_or (bt_get (operations state) operation_id)
              (FabricError_none OperationUnknown
                 ''target persisted receipt references an unknown operation'')) (\<lambda>operation.
     check (if op_company_id operation \<noteq> company_id \<or> op_target_node_id operation \<noteq> nid
            then Inl (FabricError_none SourceMismatch
                   ''target persisted receipt does not match the routed operation'')
            else bindR (operation_digest cd operation) (\<lambda>digest.
                   reject_if (digest \<noteq> request_digest)
                     (FabricError_none SourceMismatch
                        ''target persisted receipt does not match the routed operation''))) (\<lambda>_.
     check (ok_or (List.find (\<lambda>attempt. att_operation_id attempt = operation_id
                        \<and> att_route_seq attempt = route_seq
                        \<and> att_target_gateway_generation attempt = gateway_generation
                        \<and> att_control_plane_generation attempt = control_plane_generation)
                     (bt_values (attempts state)))
              (FabricError_none NodeStaleGeneration
                 ''target persisted receipt has no matching route attempt'')) (\<lambda>found.
     case bt_get (receipts state) (receipt_id operation_id TargetPersisted gateway_generation) of
       Some receipt \<Rightarrow>
         check (ok_or (bt_get (attempts state) (att_id found))
                  (FabricError_none StoreUnavailable ''persisted receipt has no route attempt''))
           (\<lambda>attempt state. (Inr (attempt, receipt, True), state))
     | None \<Rightarrow>
         check (ok_or (bt_get (attempts state) (att_id found))
                  (FabricError_none StoreUnavailable ''target persisted attempt disappeared'')) (\<lambda>attempt.
         check (reject_if (\<not> in_flight (att_state attempt))
                  (FabricError_none IdempotencyConflict
                     ''target persisted receipt cannot regress route attempt state'')) (\<lambda>_ state.
           let attempt = attempt\<lparr>att_state := AttemptTargetPersisted\<rparr>;
               receipt = transport_receipt company_id operation_id TargetPersisted nid gateway_generation
                           control_plane_generation route_seq now_unix_ms
           in (Inr (attempt, receipt, False),
               state\<lparr>attempts := bt_insert (att_id found) attempt (attempts state),
                     receipts := bt_insert (rcp_id receipt) receipt (receipts state)\<rparr>))))))) state"

fun receipt_kind_of :: "EffectCertainty \<Rightarrow> ReceiptKind result" where
  "receipt_kind_of EffectApplied = Inr OperationApplied"
| "receipt_kind_of EffectNotApplied = Inr OperationRejected"
| "receipt_kind_of EffectUnknown = Inr ReceiptRecoveryRequired"
| "receipt_kind_of EffectNone = Inl (FabricError_none InvalidPayload
     ''target result must prove applied, not_applied, or unknown'')"

definition EXPIRED_RESULT_SCHEMA :: string where
  "EXPIRED_RESULT_SCHEMA = ''agentfirm.remote_fabric.expired.v1''"

definition expired_not_applied ::
    "codec \<Rightarrow> EffectCertainty \<Rightarrow> RoutedOperation \<Rightarrow> RouteAttempt \<Rightarrow> string \<Rightarrow> json \<Rightarrow> u64 \<Rightarrow> bool" where
  "expired_not_applied cd effect operation attempt result_schema result now_unix_ms \<longleftrightarrow>
     effect = EffectNotApplied
     \<and> op_expires_at_unix_ms operation \<le> now_unix_ms
     \<and> in_flight (att_state attempt)
     \<and> result_schema = EXPIRED_RESULT_SCHEMA
     \<and> (case decode_error cd result of Inl _ \<Rightarrow> False | Inr error \<Rightarrow> err_code error = OperationExpired)"

text \<open>The replay branch (lines 549--574) and the write (611--644) of
  \<^verbatim>\<open>record_application_receipt\<close>.\<close>

definition replay_application ::
    "FabricState \<Rightarrow> RouteReceipt \<Rightarrow> string \<Rightarrow> u64 \<Rightarrow> string \<Rightarrow> string \<Rightarrow> EffectCertainty
      \<Rightarrow> (RouteAttempt \<times> RouteReceipt \<times> bool) result" where
  "replay_application state receipt operation_id gateway_generation result_digest result_schema effect =
     bindR (reject_if (rcp_result_digest receipt \<noteq> Some result_digest
                       \<or> rcp_result_schema receipt \<noteq> Some result_schema
                       \<or> rcp_application_effect receipt \<noteq> Some effect)
              (FabricError_none IdempotencyConflict
                 ''application receipt replay changed its fingerprint'')) (\<lambda>_.
     bindR (ok_or (List.find (\<lambda>attempt. att_operation_id attempt = operation_id
                        \<and> att_target_gateway_generation attempt = gateway_generation)
                     (bt_values (attempts state)))
              (FabricError_none StoreUnavailable ''terminal receipt has no route attempt'')) (\<lambda>attempt.
     Inr (attempt, receipt, True)))"

definition settle_attempt :: "EffectCertainty \<Rightarrow> u64 \<Rightarrow> RouteAttempt \<Rightarrow> RouteAttempt" where
  "settle_attempt effect now_unix_ms attempt =
     attempt\<lparr>att_state := (if effect = EffectUnknown then AttemptTargetPersisted else AttemptEnded),
             att_effect := EffectNone,
             att_ended_at_unix_ms := (if effect \<noteq> EffectUnknown then Some now_unix_ms else None)\<rparr>"

definition application_receipt ::
    "string \<Rightarrow> string \<Rightarrow> ReceiptKind \<Rightarrow> string \<Rightarrow> u64 \<Rightarrow> u64 \<Rightarrow> u64 \<Rightarrow> EffectCertainty \<Rightarrow> string \<Rightarrow> json
      \<Rightarrow> string \<Rightarrow> FabricError option \<Rightarrow> u64 \<Rightarrow> RouteReceipt" where
  "application_receipt company_id operation_id kind nid gateway_generation control_plane_generation
      route_seq effect result_schema result result_digest error now_unix_ms =
     \<lparr>rcp_id = receipt_id operation_id kind gateway_generation,
      rcp_company_id = company_id,
      rcp_operation_id = operation_id,
      rcp_target_node_id = nid,
      rcp_target_gateway_generation = gateway_generation,
      rcp_control_plane_generation = control_plane_generation,
      rcp_route_seq = route_seq,
      rcp_kind = kind,
      rcp_application_effect = Some effect,
      rcp_result_schema = Some result_schema,
      rcp_result = Some result,
      rcp_result_digest = Some result_digest,
      rcp_error = error,
      rcp_created_at_unix_ms = now_unix_ms,
      rcp_schema_version = FABRIC_SCHEMA_VERSION\<rparr>"

definition record_application_receipt ::
    "codec \<Rightarrow> string \<Rightarrow> u64 \<Rightarrow> string \<Rightarrow> u64 \<Rightarrow> string \<Rightarrow> u64 \<Rightarrow> string \<Rightarrow> string \<Rightarrow> json \<Rightarrow> EffectCertainty \<Rightarrow> u64
      \<Rightarrow> (FabricState, RouteAttempt \<times> RouteReceipt \<times> bool) fabric_action" where
  "record_application_receipt cd company_id control_plane_generation nid gateway_generation
      node_daemon_id node_daemon_generation operation_id result_schema result effect now_unix_ms state =
     check (require_current_gateway state company_id control_plane_generation nid gateway_generation
              node_daemon_id node_daemon_generation now_unix_ms) (\<lambda>_.
     check (ok_or (bt_get (operations state) operation_id)
              (FabricError_none OperationUnknown
                 ''application receipt references an unknown operation'')) (\<lambda>operation.
     check (reject_if (op_company_id operation \<noteq> company_id \<or> op_target_node_id operation \<noteq> nid)
              (FabricError_none SourceMismatch
                 ''application receipt does not match operation target authority'')) (\<lambda>_.
     check (canonical_digest cd (Inr result)) (\<lambda>result_digest.
     check (receipt_kind_of effect) (\<lambda>kind state.
     case bt_get (receipts state) (receipt_id operation_id kind gateway_generation) of
       Some receipt \<Rightarrow>
         (replay_application state receipt operation_id gateway_generation result_digest result_schema effect,
          state)
     | None \<Rightarrow>
         check (ok_or (List.find (\<lambda>attempt. att_operation_id attempt = operation_id
                            \<and> att_target_gateway_generation attempt = gateway_generation
                            \<and> att_control_plane_generation attempt = control_plane_generation)
                         (bt_values (attempts state)))
                  (FabricError_none NodeStaleGeneration
                     ''application receipt has no matching route attempt'')) (\<lambda>found.
         check (ok_or (bt_get (attempts state) (att_id found))
                  (FabricError_none StoreUnavailable
                     ''application receipt attempt disappeared'')) (\<lambda>attempt state.
           let expired = expired_not_applied cd effect operation attempt result_schema result now_unix_ms in
           if att_state attempt \<noteq> AttemptTargetPersisted \<and> \<not> expired then
             (Inl (FabricError_none ExpectedRevisionConflict
                ''application receipt requires prior target_persisted or exact expired NotApplied proof''),
              state)
           else
             (let attempt = settle_attempt effect now_unix_ms attempt;
                  receipt = application_receipt company_id operation_id kind nid gateway_generation
                    control_plane_generation (att_route_seq attempt) effect result_schema result
                    result_digest
                    (if expired then Some (FabricError_none OperationExpired
                       ''routed operation expired before target inbox persistence'') else None)
                    now_unix_ms
              in (Inr (attempt, receipt, False),
                  state\<lparr>attempts := bt_insert (att_id found) attempt (attempts state),
                        receipts := bt_insert (rcp_id receipt) receipt (receipts state)\<rparr>)))) state))))) state"

definition latest_attempt :: "FabricState \<Rightarrow> string \<Rightarrow> RouteAttempt option" where
  "latest_attempt state operation_id = max_by_key att_attempt_no (operation_attempts state operation_id)"

definition mark_unknown :: "string \<Rightarrow> string \<Rightarrow> (FabricState, unit) fabric_action" where
  "mark_unknown company_id operation_id state =
     check (ok_or (bt_get (operations state) operation_id)
              (FabricError_none OperationUnknown ''operation does not exist'')) (\<lambda>operation.
     check (reject_if (op_company_id operation \<noteq> company_id)
              (FabricError_none WrongCompany ''operation belongs to another Company'')) (\<lambda>_ state.
     if has_receipt state operation_id is_terminal_kind then (Inr (), state)
     else
       check (ok_or (latest_attempt state operation_id)
                (FabricError_none OperationUnknown ''operation has no route attempt'')) (\<lambda>latest.
       check (ok_or (bt_get (attempts state) (att_id latest))
                (FabricError_none StoreUnavailable
                   ''route attempt disappeared before recovery marking'')) (\<lambda>attempt state.
         (Inr (), state\<lparr>attempts := bt_insert (att_id latest)
                     (attempt\<lparr>att_effect := EffectUnknown\<rparr>) (attempts state)\<rparr>))) state)) state"

section \<open>Expiry at a successor gateway\<close>

definition expirable_operations :: "FabricState \<Rightarrow> string \<Rightarrow> string \<Rightarrow> u64 \<Rightarrow> string list" where
  "expirable_operations state company_id nid now_unix_ms =
     map op_id (filter (\<lambda>operation.
         op_company_id operation = company_id
         \<and> op_target_node_id operation = nid
         \<and> op_expires_at_unix_ms operation \<le> now_unix_ms
         \<and> (case latest_attempt state (op_id operation) of
              None \<Rightarrow> False
            | Some latest \<Rightarrow>
                att_effect latest = EffectNone \<and> in_flight (att_state latest)
                \<and> \<not> has_receipt state (op_id operation) is_settled_kind))
       (bt_values (operations state)))"

definition expire_attempt :: "u64 \<Rightarrow> RouteAttempt \<Rightarrow> RouteAttempt" where
  "expire_attempt now_unix_ms attempt =
     attempt\<lparr>att_state := AttemptEnded, att_error_code := Some OperationExpired,
             att_effect := EffectNone, att_ended_at_unix_ms := Some now_unix_ms\<rparr>"

definition offline_expired_error :: FabricError where
  "offline_expired_error = FabricError_none OperationExpired
     ''offline routed operation expired before target persistence''"

text \<open>One iteration of the loop. The attempt is ended before the receipt is encoded, so an encoding
  failure leaves it ended.\<close>

definition expire_one ::
    "codec \<Rightarrow> string \<Rightarrow> u64 \<Rightarrow> string \<Rightarrow> u64 \<Rightarrow> u64 \<Rightarrow> string \<Rightarrow> (FabricState, RouteReceipt) fabric_action" where
  "expire_one cd company_id control_plane_generation nid successor_gateway_generation now_unix_ms
      operation_id state =
     check (ok_or (latest_attempt state operation_id)
              (FabricError_none OperationUnknown ''expired operation has no route attempt'')) (\<lambda>latest.
     check (ok_or (bt_get (attempts state) (att_id latest))
              (FabricError_none StoreUnavailable ''expired route attempt disappeared'')) (\<lambda>attempt state.
       let attempt = expire_attempt now_unix_ms attempt;
           state = state\<lparr>attempts := bt_insert (att_id latest) attempt (attempts state)\<rparr>
       in check (map_err (\<lambda>error. FabricError_none StoreUnavailable
                    (''expired operation receipt could not be encoded: '' @ error))
                    (error_to_value cd offline_expired_error)) (\<lambda>result.
          check (canonical_digest cd (Inr result)) (\<lambda>result_digest state.
            let receipt = application_receipt company_id operation_id OperationRejected nid
                  successor_gateway_generation control_plane_generation (att_route_seq attempt)
                  EffectNotApplied EXPIRED_RESULT_SCHEMA result result_digest
                  (Some offline_expired_error) now_unix_ms
            in (Inr receipt, state\<lparr>receipts := bt_insert (rcp_id receipt) receipt (receipts state)\<rparr>)))
          state)) state"

fun expire_all ::
    "codec \<Rightarrow> string \<Rightarrow> u64 \<Rightarrow> string \<Rightarrow> u64 \<Rightarrow> u64 \<Rightarrow> string list
      \<Rightarrow> (FabricState, RouteReceipt list) fabric_action" where
  "expire_all cd company_id control_plane_generation nid successor now_unix_ms [] state = (Inr [], state)"
| "expire_all cd company_id control_plane_generation nid successor now_unix_ms (operation_id # rest) state =
     andThen (expire_one cd company_id control_plane_generation nid successor now_unix_ms operation_id)
       (\<lambda>receipt. andThen
          (expire_all cd company_id control_plane_generation nid successor now_unix_ms rest)
          (\<lambda>receipts state. (Inr (receipt # receipts), state))) state"

definition expire_unapplied_for_successor ::
    "codec \<Rightarrow> string \<Rightarrow> u64 \<Rightarrow> string \<Rightarrow> u64 \<Rightarrow> u64 \<Rightarrow> (FabricState, RouteReceipt list) fabric_action" where
  "expire_unapplied_for_successor cd company_id control_plane_generation nid
      successor_gateway_generation now_unix_ms state =
     expire_all cd company_id control_plane_generation nid successor_gateway_generation now_unix_ms
       (expirable_operations state company_id nid now_unix_ms) state"

end
