(* ===== verification/Transport.thy ===== *)
theory Transport
  imports Protocol
begin

text \<open>
  The authenticated transport (\<^verbatim>\<open>crates/firm-fabric/src/transport.rs\<close> and the frame of
  \<^verbatim>\<open>protocol.rs\<close>): the mTLS peer against its NodeHello, the Node's connection config, the frame
  with its payload digest, the session fence, and the bounded wire encoding. Sockets and TLS
  themselves are outside; serde's byte encoding of a frame is a parameter.
\<close>

definition MAX_FABRIC_FRAME_BYTES :: nat where
  "MAX_FABRIC_FRAME_BYTES = 256 * 1024"

definition FABRIC_WEBSOCKET_SUBPROTOCOL :: string where
  "FABRIC_WEBSOCKET_SUBPROTOCOL = ''agentfirm.node.v1''"

definition FABRIC_GATEWAY_PATH :: string where
  "FABRIC_GATEWAY_PATH = ''/v1/node-gateway/connect''"

definition GATEWAY_LEASE_DURATION_MS :: u64 where
  "GATEWAY_LEASE_DURATION_MS = 30000"

section \<open>The verified peer\<close>

record VerifiedMtlsPeer =
  peer_company_id :: string
  peer_node_id :: string
  peer_certificate_serial :: string
  peer_public_key_fingerprint :: string
  peer_tls_version :: string
  peer_websocket_subprotocol :: string

definition validate_node_hello :: "VerifiedMtlsPeer \<Rightarrow> NodeHello \<Rightarrow> unit result" where
  "validate_node_hello peer hello =
     (if peer_tls_version peer \<noteq> ''TLS1.3''
         \<or> peer_websocket_subprotocol peer \<noteq> FABRIC_WEBSOCKET_SUBPROTOCOL
      then Inl (FabricError_none ProtocolIncompatible
                  ''Remote Fabric requires verified mutual TLS 1.3 and agentfirm.node.v1'')
      else if peer_company_id peer \<noteq> hello_company_id hello
         \<or> peer_node_id peer \<noteq> hello_node_id hello
         \<or> peer_certificate_serial peer \<noteq> hello_certificate_serial hello
         \<or> peer_public_key_fingerprint peer \<noteq> hello_public_key_fingerprint hello
      then Inl (FabricError_none UnauthorizedActor
                  ''NodeHello identity does not match the verified mTLS peer certificate'')
      else Inr ())"

lemma validate_node_hello_Inr:
  "validate_node_hello peer hello = Inr u \<longleftrightarrow>
     peer_tls_version peer = ''TLS1.3''
     \<and> peer_websocket_subprotocol peer = FABRIC_WEBSOCKET_SUBPROTOCOL
     \<and> peer_company_id peer = hello_company_id hello
     \<and> peer_node_id peer = hello_node_id hello
     \<and> peer_certificate_serial peer = hello_certificate_serial hello
     \<and> peer_public_key_fingerprint peer = hello_public_key_fingerprint hello"
  by (auto simp: validate_node_hello_def)

section \<open>Connection config\<close>

record NodeFabricConfig =
  cfg_company_id :: string
  cfg_node_id :: string
  cfg_control_plane_url :: string
  cfg_reconnect_floor_ms :: u64
  cfg_reconnect_ceiling_ms :: u64

definition ends_with :: "string \<Rightarrow> string \<Rightarrow> bool" where
  "ends_with s suffix \<longleftrightarrow> strip_prefix (rev suffix) (rev s) \<noteq> None"

definition config_validate :: "NodeFabricConfig \<Rightarrow> unit result" where
  "config_validate config =
     (if blank (cfg_company_id config) \<or> blank (cfg_node_id config)
      then Inl (FabricError_none InvalidPayload
                  ''Remote Fabric config requires exact Company and Node identity'')
      else bindR (ok_or (strip_prefix ''wss://'' (cfg_control_plane_url config))
             (FabricError_none ProtocolIncompatible
                ''Node Fabric permits outbound wss:// Control Plane connections only'')) (\<lambda>endpoint.
           bindR (reject_if (endpoint = [] \<or> hd endpoint = CHR ''/''
                             \<or> CHR ''@'' \<in> set endpoint \<or> CHR ''#'' \<in> set endpoint
                             \<or> CHR ''?'' \<in> set endpoint)
             (FabricError_none InvalidPayload
                ''Control Plane endpoint must be an authority/path without credentials, query, or fragment'')) (\<lambda>_.
           bindR (reject_if (\<not> ends_with endpoint FABRIC_GATEWAY_PATH)
             (FabricError_none ProtocolIncompatible
                ''Control Plane endpoint must use the frozen /v1/node-gateway/connect path'')) (\<lambda>_.
           reject_if (cfg_reconnect_floor_ms config = 0
                      \<or> cfg_reconnect_ceiling_ms config < cfg_reconnect_floor_ms config
                      \<or> cfg_reconnect_ceiling_ms config > GATEWAY_LEASE_DURATION_MS)
             (FabricError_none InvalidPayload
                ''reconnect backoff must be bounded within the gateway lease duration'')))))"

section \<open>Frames\<close>

record RoutedOperationDelivery =
  rod_operation :: RoutedOperation
  rod_attempt :: RouteAttempt

record TargetPersistedClaim =
  tpc_operation_id :: string
  tpc_request_digest :: string
  tpc_route_seq :: u64

record TargetApplicationResult =
  tar_operation_id :: string
  tar_result_schema :: string
  tar_result :: json
  tar_effect :: EffectCertainty

record ArtifactCapabilityRequest =
  acr_artifact_id :: string
  acr_purpose :: ArtifactCapabilityPurpose

record ArtifactDownloadRequest =
  adr_capability :: ArtifactCapability

record ArtifactDownloadChunk =
  adc_artifact_id :: string
  adc_artifact_digest :: string
  adc_offset :: u64
  adc_total_size :: u64
  adc_bytes :: bytes
  adc_terminal :: bool

datatype FabricPayload =
    PayloadHello NodeHello
  | PayloadWelcome NodeWelcome
  | PayloadOperationSubmit RoutedOperation
  | PayloadRoutedOperation RoutedOperationDelivery
  | PayloadTargetPersisted TargetPersistedClaim
  | PayloadOperationResult TargetApplicationResult
  | PayloadReceipt RouteReceipt
  | PayloadHeartbeat u64
  | PayloadHeartbeatAck u64
  | PayloadPendingBatchComplete u64
  | PayloadReconcileRequest "string set"
  | PayloadReconcileResult "RouteReceipt list"
  | PayloadArtifactCapabilityRequest ArtifactCapabilityRequest
  | PayloadArtifactCapabilityResponse ArtifactCapability
  | PayloadArtifactDownloadRequest ArtifactDownloadRequest
  | PayloadArtifactDownloadChunk ArtifactDownloadChunk
  | PayloadLeaseFence string
  | PayloadDrain string
  | PayloadProtocolShutdown string

record FabricFrame =
  frm_frame_id :: string
  frm_protocol_version :: u32
  frm_schema_version :: string
  frm_canonicalization_version :: string
  frm_company_id :: string
  frm_node_id :: string
  frm_gateway_generation :: u64
  frm_node_daemon_id :: string
  frm_node_daemon_generation :: u64
  frm_control_plane_generation :: u64
  frm_sent_at_unix_ms :: u64
  frm_correlation_id :: string
  frm_payload :: FabricPayload
  frm_payload_digest :: string

text \<open>serde's encoding of payloads and frames.\<close>

record wire = codec +
  payload_to_value :: "FabricPayload \<Rightarrow> string + json"
  frame_to_vec :: "FabricFrame \<Rightarrow> string + bytes"
  frame_from_slice :: "bytes \<Rightarrow> string + FabricFrame"

definition payload_digest :: "wire \<Rightarrow> FabricPayload \<Rightarrow> string result" where
  "payload_digest w payload = canonical_digest w (payload_to_value w payload)"

definition FabricFrame_new ::
    "wire \<Rightarrow> string \<Rightarrow> string \<Rightarrow> string \<Rightarrow> u64 \<Rightarrow> string \<Rightarrow> u64 \<Rightarrow> u64 \<Rightarrow> u64 \<Rightarrow> string \<Rightarrow> FabricPayload
      \<Rightarrow> FabricFrame result" where
  "FabricFrame_new w frame_id company_id nid gateway_generation node_daemon_id
      node_daemon_generation control_plane_generation sent_at_unix_ms correlation_id payload =
     bindR (payload_digest w payload) (\<lambda>digest.
     Inr \<lparr>frm_frame_id = frame_id,
          frm_protocol_version = FABRIC_PROTOCOL_VERSION,
          frm_schema_version = FABRIC_SCHEMA_VERSION,
          frm_canonicalization_version = FABRIC_CANONICALIZATION_VERSION,
          frm_company_id = company_id,
          frm_node_id = nid,
          frm_gateway_generation = gateway_generation,
          frm_node_daemon_id = node_daemon_id,
          frm_node_daemon_generation = node_daemon_generation,
          frm_control_plane_generation = control_plane_generation,
          frm_sent_at_unix_ms = sent_at_unix_ms,
          frm_correlation_id = correlation_id,
          frm_payload = payload,
          frm_payload_digest = digest\<rparr>)"

definition is_hello :: "FabricPayload \<Rightarrow> bool" where
  "is_hello p = (case p of PayloadHello _ \<Rightarrow> True | _ \<Rightarrow> False)"

definition frame_identity_invalid :: "FabricFrame \<Rightarrow> bool" where
  "frame_identity_invalid frame \<longleftrightarrow>
     (let pre_lease_hello = is_hello (frm_payload frame) in
      blank (frm_frame_id frame) \<or> blank (frm_company_id frame) \<or> blank (frm_node_id frame)
      \<or> blank (frm_correlation_id frame) \<or> blank (frm_node_daemon_id frame)
      \<or> frm_node_daemon_generation frame = 0
      \<or> (\<not> pre_lease_hello
           \<and> (frm_gateway_generation frame = 0 \<or> frm_control_plane_generation frame = 0))
      \<or> (pre_lease_hello
           \<and> (frm_gateway_generation frame \<noteq> 0 \<or> frm_control_plane_generation frame \<noteq> 0)))"

definition frame_validate :: "wire \<Rightarrow> FabricFrame \<Rightarrow> unit result" where
  "frame_validate w frame =
     bindR (reject_if (frame_identity_invalid frame)
              (FabricError_none InvalidPayload
                 ''FabricFrame requires non-empty identity and non-zero authority generations'')) (\<lambda>_.
     bindR (reject_if (frm_protocol_version frame \<noteq> FABRIC_PROTOCOL_VERSION)
              (FabricError_none ProtocolIncompatible ''fabric protocol major mismatch'')) (\<lambda>_.
     bindR (reject_if (frm_schema_version frame \<noteq> FABRIC_SCHEMA_VERSION)
              (FabricError_none SchemaIncompatible ''fabric schema version mismatch'')) (\<lambda>_.
     bindR (reject_if (frm_canonicalization_version frame \<noteq> FABRIC_CANONICALIZATION_VERSION)
              (FabricError_none SchemaIncompatible ''Fabric canonicalization version mismatch'')) (\<lambda>_.
     bindR (payload_digest w (frm_payload frame)) (\<lambda>digest.
     reject_if (digest \<noteq> frm_payload_digest frame)
       (FabricError_none InvalidPayload ''FabricFrame payload digest mismatch''))))))"

record FabricSessionFence =
  fen_company_id :: string
  fen_node_id :: string
  fen_gateway_generation :: u64
  fen_node_daemon_id :: string
  fen_node_daemon_generation :: u64
  fen_control_plane_generation :: u64

definition validate_frame :: "wire \<Rightarrow> FabricSessionFence \<Rightarrow> FabricFrame \<Rightarrow> unit result" where
  "validate_frame w fence frame =
     bindR (frame_validate w frame) (\<lambda>_.
     reject_if (frm_company_id frame \<noteq> fen_company_id fence
                \<or> frm_node_id frame \<noteq> fen_node_id fence
                \<or> frm_gateway_generation frame \<noteq> fen_gateway_generation fence
                \<or> frm_node_daemon_id frame \<noteq> fen_node_daemon_id fence
                \<or> frm_node_daemon_generation frame \<noteq> fen_node_daemon_generation fence
                \<or> frm_control_plane_generation frame \<noteq> fen_control_plane_generation fence)
       (FabricError_none NodeStaleGeneration
          ''FabricFrame does not match the authenticated session fence''))"

definition encode_frame :: "wire \<Rightarrow> FabricFrame \<Rightarrow> bytes result" where
  "encode_frame w frame =
     bindR (frame_validate w frame) (\<lambda>_.
     bindR (map_err (\<lambda>error. FabricError_none InvalidPayload
                       (''FabricFrame encoding failed: '' @ error)) (frame_to_vec w frame)) (\<lambda>encoded.
     if length encoded > MAX_FABRIC_FRAME_BYTES
     then Inl (FabricError_none InvalidPayload
                 ''FabricFrame exceeds the 256 KiB wire limit; use an artifact capability'')
     else Inr encoded))"

definition decode_frame :: "wire \<Rightarrow> bytes \<Rightarrow> FabricFrame result" where
  "decode_frame w bs =
     (if bs = [] \<or> length bs > MAX_FABRIC_FRAME_BYTES
      then Inl (FabricError_none InvalidPayload
                  ''FabricFrame is empty or exceeds the 256 KiB wire limit'')
      else bindR (map_err (\<lambda>error. FabricError_none InvalidPayload
                     (''FabricFrame is not valid closed-contract JSON: '' @ error))
                     (frame_from_slice w bs)) (\<lambda>frame.
           bindR (frame_validate w frame) (\<lambda>_. Inr frame)))"

text \<open>
  What the wire relies on: decoding serde's bytes for a frame gives that frame, and they are not
  empty (a frame is a JSON object).
\<close>

definition frame_codec :: "wire \<Rightarrow> bool" where
  "frame_codec w \<longleftrightarrow>
     (\<forall>f bs. frame_to_vec w f = Inr bs \<longrightarrow> frame_from_slice w bs = Inr f \<and> bs \<noteq> [])"

lemma encode_frame_Inr:
  "encode_frame w frame = Inr bs \<longleftrightarrow>
     frame_validate w frame = Inr () \<and> frame_to_vec w frame = Inr bs
     \<and> length bs \<le> MAX_FABRIC_FRAME_BYTES"
  by (auto simp: encode_frame_def bindR_eq_Inr not_less split: if_splits)

lemma decode_frame_Inr:
  "decode_frame w bs = Inr frame \<longleftrightarrow>
     bs \<noteq> [] \<and> length bs \<le> MAX_FABRIC_FRAME_BYTES \<and> frame_from_slice w bs = Inr frame
     \<and> frame_validate w frame = Inr ()"
  by (auto simp: decode_frame_def bindR_eq_Inr not_less split: if_splits)

lemma encode_decode_frame:
  "frame_codec w \<Longrightarrow> encode_frame w frame = Inr bs \<Longrightarrow> decode_frame w bs = Inr frame"
  by (auto simp: encode_frame_Inr decode_frame_Inr frame_codec_def)

lemma frame_new_payload_digest:
  assumes "FabricFrame_new w i c n g d dg cg now corr p = Inr frame"
  shows "payload_digest w (frm_payload frame) = Inr (frm_payload_digest frame)"
    and "frm_payload frame = p"
  using assms by (auto simp: FabricFrame_new_def bindR_eq_Inr)

end
