(* ===== verification/Node_Gateway.thy ===== *)
theory Node_Gateway
  imports Router Transport
begin

text \<open>
  A Node's gateway session (\<^verbatim>\<open>crates/firm-fabric/src/node_gateway.rs\<close>): the signed hello, the
  checks of a connection, the successor generation, and the work handed from the dead generation
  to the new one. The fence and the heartbeat are in \<^verbatim>\<open>Gateway_Fence\<close>.
\<close>

section \<open>Proof of possession\<close>

definition node_hello_challenge :: "codec \<Rightarrow> string \<Rightarrow> u64 \<Rightarrow> NodeHello \<Rightarrow> string result" where
  "node_hello_challenge cd company_id control_plane_generation hello =
     bindR (json_digest cd (hello_to_value cd hello)) (\<lambda>digest.
     Inr (''agentfirm.remote_fabric.v1:hello:'' @ company_id @ '':''
            @ show_word control_plane_generation @ '':'' @ digest))"

definition verify_hello_proof ::
    "codec \<Rightarrow> string \<Rightarrow> u64 \<Rightarrow> NodeHello \<Rightarrow> NodeHelloProof \<Rightarrow> unit result" where
  "verify_hello_proof cd company_id control_plane_generation hello proof =
     bindR (node_hello_challenge cd company_id control_plane_generation hello) (\<lambda>expected.
     bindR (reject_if (hprf_challenge proof \<noteq> expected)
              (FabricError_none UnauthorizedActor
                 ''NodeHello proof does not bind the exact connection challenge'')) (\<lambda>_.
     bindR (reject_if (length (hprf_public_key proof) \<noteq> 32)
              (FabricError_none UnauthorizedActor
                 ''NodeHello Ed25519 public key must contain exactly 32 bytes'')) (\<lambda>_.
     bindR (reject_if (length (hprf_signature proof) \<noteq> 64)
              (FabricError_none UnauthorizedActor
                 ''NodeHello Ed25519 signature must contain exactly 64 bytes'')) (\<lambda>_.
     bindR (reject_if (sha256_hex cd (hprf_public_key proof) \<noteq> hello_public_key_fingerprint hello)
              (FabricError_none UnauthorizedActor
                 ''NodeHello public key does not match its certificate fingerprint'')) (\<lambda>_.
     reject_if (\<not> (ed25519_key cd (hprf_public_key proof)
                   \<and> ed25519_verify cd (hprf_public_key proof) expected (hprf_signature proof)))
       (FabricError_none UnauthorizedActor
          ''NodeHello proof-of-possession signature is invalid''))))))"

section \<open>Admission of a connection\<close>

text \<open>Lines 52--129: peer, identity, protocol, node, capabilities and certificate.\<close>

definition certificate_claim_invalid :: "NodeCertificate \<Rightarrow> string \<Rightarrow> CompanyNode \<Rightarrow> NodeHello \<Rightarrow> u64 \<Rightarrow> bool" where
  "certificate_claim_invalid certificate company_id node hello now_unix_ms \<longleftrightarrow>
     cert_company_id certificate \<noteq> company_id
     \<or> cert_node_id certificate \<noteq> node_id node
     \<or> cert_public_key_fingerprint certificate \<noteq> hello_public_key_fingerprint hello
     \<or> cert_node_daemon_id certificate \<noteq> hello_node_daemon_id hello
     \<or> cert_node_daemon_generation certificate \<noteq> hello_node_daemon_generation hello
     \<or> cert_expires_at_unix_ms certificate \<le> now_unix_ms
     \<or> cert_revoked_at_unix_ms certificate \<noteq> None"

definition authenticate_hello ::
    "FabricState \<Rightarrow> string \<Rightarrow> VerifiedMtlsPeer \<Rightarrow> NodeHello \<Rightarrow> u64 \<Rightarrow> CompanyNode result" where
  "authenticate_hello state company_id peer hello now_unix_ms =
     bindR (validate_node_hello peer hello) (\<lambda>_.
     bindR (reject_if (hello_company_id hello \<noteq> company_id)
              (FabricError_none WrongCompany ''NodeHello belongs to another Company'')) (\<lambda>_.
     bindR (reject_if (blank (hello_node_daemon_id hello) \<or> hello_node_daemon_generation hello = 0)
              (FabricError_none NodeStaleGeneration
                 ''NodeGateway requires an exact current NodeDaemon parent generation'')) (\<lambda>_.
     bindR (reject_if (hello_protocol_min hello > FABRIC_PROTOCOL_VERSION
                       \<or> hello_protocol_max hello < FABRIC_PROTOCOL_VERSION)
              (FabricError_none ProtocolIncompatible
                 ''Node and Control Plane have no common protocol major'')) (\<lambda>_.
     bindR (ok_or (bt_get (nodes state) (hello_node_id hello))
              (FabricError_none SourceMismatch ''Node is not enrolled'')) (\<lambda>node.
     bindR (reject_if (node_company_id node \<noteq> company_id)
              (FabricError_none WrongCompany ''Node belongs to another Company'')) (\<lambda>_.
     bindR (reject_if (node_administrative_status node = NodeIsRevoked)
              (FabricError_none NodeRevoked ''revoked Node cannot connect'')) (\<lambda>_.
     bindR (reject_if (node_schema_bundle_digest node \<noteq> hello_schema_bundle_digest hello)
              (FabricError_none SchemaIncompatible
                 ''Node schema bundle does not match enrolled contract'')) (\<lambda>_.
     bindR (reject_if (\<not> hello_features hello \<subseteq> node_allowed_capabilities node)
              (FabricError_none FeatureIncompatible
                 ''NodeHello advertises capabilities that enrollment did not authorize'')) (\<lambda>_.
     bindR (reject_if (node_certificate_serial node \<noteq> hello_certificate_serial hello
                       \<or> node_public_key_fingerprint node \<noteq> hello_public_key_fingerprint hello
                       \<or> hello_certificate_serial hello \<in> revoked_certificate_serials state)
              (FabricError_none UnauthorizedActor
                 ''mTLS certificate binding is invalid or revoked'')) (\<lambda>_.
     bindR (ok_or (bt_get (certificates state) (hello_certificate_serial hello))
              (FabricError_none UnauthorizedActor ''mTLS certificate is unknown'')) (\<lambda>certificate.
     bindR (reject_if (certificate_claim_invalid certificate company_id node hello now_unix_ms)
              (FabricError_none UnauthorizedActor
                 ''mTLS certificate claim or lifetime is invalid'')) (\<lambda>_.
     Inr node))))))))))))"

text \<open>Lines 130--149: a live lease excludes a second session, and an expired one admits only a
  successor NodeDaemon generation under the same Control Plane generation.\<close>

definition successor_admission ::
    "NodeGatewayLease option \<Rightarrow> u64 \<Rightarrow> NodeHello \<Rightarrow> u64 \<Rightarrow> unit result" where
  "successor_admission prior control_plane_generation hello now_unix_ms =
     (case prior of
        None \<Rightarrow> Inr ()
      | Some lease \<Rightarrow>
          if gwl_expires_at_unix_ms lease > now_unix_ms
             \<and> gwl_control_plane_generation lease = control_plane_generation
          then Inl (FabricError_none LeaseConflict ''Node already has an active gateway generation'')
          else if gwl_control_plane_generation lease = control_plane_generation
             \<and> gwl_expires_at_unix_ms lease \<le> now_unix_ms
             \<and> hello_node_daemon_generation hello \<le> gwl_node_daemon_generation lease
          then Inl (FabricError_none NodeStaleGeneration
                 ''expired Gateway authority can reconnect only under a successor NodeDaemon generation'')
          else Inr ())"

definition successor_generation :: "NodeGatewayLease option \<Rightarrow> u64" where
  "successor_generation prior =
     (case prior of None \<Rightarrow> 1 | Some lease \<Rightarrow> sat_add (gwl_gateway_generation lease) 1)"

definition successor_lease ::
    "NodeGatewayLease option \<Rightarrow> string \<Rightarrow> u64 \<Rightarrow> NodeHello \<Rightarrow> u64 \<Rightarrow> NodeGatewayLease" where
  "successor_lease prior company_id control_plane_generation hello now_unix_ms =
     \<lparr>gwl_company_id = company_id,
      gwl_node_id = hello_node_id hello,
      gwl_lease_id = ''gateway-lease:'' @ hello_node_id hello @ '':''
                       @ show_word (successor_generation prior),
      gwl_gateway_generation = successor_generation prior,
      gwl_instance_id = hello_instance_id hello,
      gwl_node_daemon_id = hello_node_daemon_id hello,
      gwl_node_daemon_generation = hello_node_daemon_generation hello,
      gwl_certificate_serial = hello_certificate_serial hello,
      gwl_revision = (case prior of None \<Rightarrow> 1 | Some lease \<Rightarrow> sat_add (gwl_revision lease) 1),
      gwl_control_plane_generation = control_plane_generation,
      gwl_acquired_at_unix_ms = now_unix_ms,
      gwl_expires_at_unix_ms = sat_add now_unix_ms 30000,
      gwl_last_heartbeat_at_unix_ms = now_unix_ms,
      gwl_protocol_version = FABRIC_PROTOCOL_VERSION,
      gwl_build_sha = hello_build_sha hello,
      gwl_schema_bundle_digest = hello_schema_bundle_digest hello,
      gwl_schema_version = FABRIC_SCHEMA_VERSION\<rparr>"

section \<open>Handing queued work to the successor\<close>

definition rebindable_operations ::
    "FabricState \<Rightarrow> string \<Rightarrow> string \<Rightarrow> u64 \<Rightarrow> u64 \<Rightarrow> string list" where
  "rebindable_operations state company_id nid gateway_generation now_unix_ms =
     map op_id (filter (\<lambda>operation.
         op_company_id operation = company_id
         \<and> op_target_node_id operation = nid
         \<and> op_expires_at_unix_ms operation > now_unix_ms
         \<and> (case last_by_key att_attempt_no (operation_attempts state (op_id operation)) of
              None \<Rightarrow> False
            | Some latest \<Rightarrow>
                att_target_gateway_generation latest \<noteq> gateway_generation
                \<and> att_effect latest = EffectNone
                \<and> in_flight (att_state latest)
                \<and> \<not> has_receipt state (op_id operation) is_settled_kind))
       (bt_values (operations state)))"

fun retry_all :: "string \<Rightarrow> u64 \<Rightarrow> u64 \<Rightarrow> string list \<Rightarrow> (FabricState, unit) fabric_action" where
  "retry_all company_id control_plane_generation now_unix_ms [] state = (Inr (), state)"
| "retry_all company_id control_plane_generation now_unix_ms (operation_id # rest) state =
     andThen (retry_operation company_id control_plane_generation operation_id now_unix_ms)
       (\<lambda>_. retry_all company_id control_plane_generation now_unix_ms rest) state"

definition rebind_effect_none_attempts_to_successor ::
    "string \<Rightarrow> u64 \<Rightarrow> string \<Rightarrow> u64 \<Rightarrow> u64 \<Rightarrow> (FabricState, unit) fabric_action" where
  "rebind_effect_none_attempts_to_successor company_id control_plane_generation nid
      gateway_generation now_unix_ms state =
     retry_all company_id control_plane_generation now_unix_ms
       (rebindable_operations state company_id nid gateway_generation now_unix_ms) state"

section \<open>Connecting\<close>

definition gateway_welcome ::
    "FabricState \<Rightarrow> string \<Rightarrow> u64 \<Rightarrow> NodeHello \<Rightarrow> NodeGatewayLease \<Rightarrow> NodeWelcome" where
  "gateway_welcome state company_id control_plane_generation hello lease =
     \<lparr>wel_company_id = company_id,
      wel_node_id = hello_node_id hello,
      wel_accepted_protocol_version = FABRIC_PROTOCOL_VERSION,
      wel_lease_id = gwl_lease_id lease,
      wel_gateway_generation = gwl_gateway_generation lease,
      wel_node_daemon_id = hello_node_daemon_id hello,
      wel_node_daemon_generation = hello_node_daemon_generation hello,
      wel_control_plane_generation = control_plane_generation,
      wel_next_route_seq = sat_add (counter (route_sequences state) (hello_node_id hello)) 1,
      wel_required_reconcile_ids = hello_unresolved_operation_ids hello,
      wel_schema_version = FABRIC_SCHEMA_VERSION\<rparr>"

definition connect_verified ::
    "codec \<Rightarrow> string \<Rightarrow> u64 \<Rightarrow> VerifiedMtlsPeer \<Rightarrow> NodeHello \<Rightarrow> u64
      \<Rightarrow> (FabricState, NodeWelcome) fabric_action" where
  "connect_verified cd company_id control_plane_generation peer hello now_unix_ms state =
     check (authenticate_hello state company_id peer hello now_unix_ms) (\<lambda>_ state.
     let nid = hello_node_id hello;
         prior = bt_get (gateway_leases state) nid;
         lease = successor_lease prior company_id control_plane_generation hello now_unix_ms
     in check (successor_admission prior control_plane_generation hello now_unix_ms) (\<lambda>_ state.
        andThen (expire_unapplied_for_successor cd company_id control_plane_generation nid
                   (gwl_gateway_generation lease) now_unix_ms) (\<lambda>_.
        andThen (rebind_effect_none_attempts_to_successor company_id control_plane_generation nid
                   (gwl_gateway_generation lease) now_unix_ms) (\<lambda>_ state.
          let state = state\<lparr>nodes := bt_modify nid (touch_node now_unix_ms) (nodes state)\<rparr>
          in (Inr (gateway_welcome state company_id control_plane_generation hello lease), state)))
        (state\<lparr>gateway_leases := bt_insert nid lease (gateway_leases state)\<rparr>)) state) state"

definition connect ::
    "codec \<Rightarrow> string \<Rightarrow> u64 \<Rightarrow> VerifiedMtlsPeer \<Rightarrow> NodeHello \<Rightarrow> NodeHelloProof \<Rightarrow> u64
      \<Rightarrow> (FabricState, NodeWelcome) fabric_action" where
  "connect cd company_id control_plane_generation peer hello proof now_unix_ms =
     check (verify_hello_proof cd company_id control_plane_generation hello proof) (\<lambda>_.
     connect_verified cd company_id control_plane_generation peer hello now_unix_ms)"

definition connect_mtls ::
    "codec \<Rightarrow> string \<Rightarrow> u64 \<Rightarrow> VerifiedMtlsPeer \<Rightarrow> NodeHello \<Rightarrow> u64
      \<Rightarrow> (FabricState, NodeWelcome) fabric_action" where
  "connect_mtls cd company_id control_plane_generation peer hello now_unix_ms =
     connect_verified cd company_id control_plane_generation peer hello now_unix_ms"

end
