(* ===== verification/Reconcile.thy ===== *)
theory Reconcile
  imports Router
begin

text \<open>
  What a reconnected Node may learn about operations it does not know the outcome of
  (\<^verbatim>\<open>crates/firm-fabric/src/reconcile.rs\<close>). The operation ids are a \<^verbatim>\<open>BTreeSet\<close>, visited in
  ascending order: here an ordered list.
\<close>

definition is_outcome_kind :: "ReceiptKind \<Rightarrow> bool" where
  "is_outcome_kind kind \<longleftrightarrow> kind = ReceiptRecoveryRequired \<or> kind = OperationApplied
     \<or> kind = OperationRejected"

definition operation_receipts :: "FabricState \<Rightarrow> string \<Rightarrow> RouteReceipt list" where
  "operation_receipts state operation_id =
     filter (\<lambda>receipt. rcp_operation_id receipt = operation_id) (bt_values (receipts state))"

definition reconcile_one :: "FabricState \<Rightarrow> string \<Rightarrow> string \<Rightarrow> string \<Rightarrow> RouteReceipt list result" where
  "reconcile_one state company_id nid operation_id =
     (case bt_get (operations state) operation_id of
        None \<Rightarrow> Inr []
      | Some operation \<Rightarrow>
          let owns_route = op_target_node_id operation = nid \<or> op_source_node_id operation = Some nid;
              all_receipts = operation_receipts state operation_id;
              terminal = filter (\<lambda>receipt. is_outcome_kind (rcp_kind receipt)) all_receipts
          in if op_company_id operation \<noteq> company_id \<or> \<not> owns_route
             then Inl (FabricError_none SourceMismatch
                    ''reconcile request does not own the operation source or target'')
             else if terminal = [] then
               (if list_ex (\<lambda>attempt. att_operation_id attempt = operation_id
                      \<and> att_target_node_id attempt = nid \<and> att_effect attempt = EffectUnknown)
                     (bt_values (attempts state))
                then Inl (FabricError_unknown operation_id
                       ''application effect is unknown; blind replay is forbidden'')
                else Inr all_receipts)
             else Inr terminal)"

fun reconcile_all :: "FabricState \<Rightarrow> string \<Rightarrow> string \<Rightarrow> string list \<Rightarrow> RouteReceipt list result" where
  "reconcile_all state company_id nid [] = Inr []"
| "reconcile_all state company_id nid (operation_id # rest) =
     bindR (reconcile_one state company_id nid operation_id) (\<lambda>receipts.
     bindR (reconcile_all state company_id nid rest) (\<lambda>more. Inr (receipts @ more)))"

definition reconcile ::
    "string \<Rightarrow> u64 \<Rightarrow> string \<Rightarrow> u64 \<Rightarrow> string \<Rightarrow> u64 \<Rightarrow> string list \<Rightarrow> u64
      \<Rightarrow> (FabricState, RouteReceipt list) fabric_action" where
  "reconcile company_id control_plane_generation nid gateway_generation node_daemon_id
      node_daemon_generation operation_ids now_unix_ms state =
     check (require_current_gateway state company_id control_plane_generation nid gateway_generation
              node_daemon_id node_daemon_generation now_unix_ms) (\<lambda>_ state.
     (reconcile_all state company_id nid operation_ids, state)) state"

lemma reconcile_state: "snd (reconcile c g n gg d dg ids now state) = state"
  by (simp add: reconcile_def snd_check split: sum.splits)

lemma reconcile_one_outcome:
  assumes "reconcile_one state company_id nid i = Inr rs" and "r \<in> set rs"
    and "has_receipt state i is_outcome_kind"
  shows "is_outcome_kind (rcp_kind r)"
proof -
  have "filter (\<lambda>receipt. is_outcome_kind (rcp_kind receipt)) (operation_receipts state i) \<noteq> []"
    using assms(3) unfolding has_receipt_def operation_receipts_def
    by (auto simp: list_ex_iff filter_empty_conv)
  with assms(1,2) show ?thesis
    by (auto simp: reconcile_one_def Let_def split: option.splits if_splits)
qed

lemma reconcile_one_stored:
  "reconcile_one state company_id nid i = Inr rs \<Longrightarrow> set rs \<subseteq> set (operation_receipts state i)"
  by (auto simp: reconcile_one_def Let_def split: option.splits if_splits)

lemma reconcile_all_mem:
  "reconcile_all state company_id nid ids = Inr rs \<Longrightarrow>
     r \<in> set rs \<longleftrightarrow> (\<exists>i \<in> set ids. \<exists>qs. reconcile_one state company_id nid i = Inr qs \<and> r \<in> set qs)"
  by (induction ids arbitrary: rs) (fastforce simp: bindR_eq_Inr)+

lemma reconcile_all_each:
  "reconcile_all state company_id nid ids = Inr rs \<Longrightarrow> i \<in> set ids \<Longrightarrow>
     \<exists>qs. reconcile_one state company_id nid i = Inr qs"
  by (induction ids arbitrary: rs) (auto simp: bindR_eq_Inr)

end
