(* ===== verification/Enrollment.thy ===== *)
theory Enrollment
  imports Fabric_State
begin

text \<open>
  Enrollment of Nodes and rotation of their certificates
  (\<^verbatim>\<open>crates/firm-fabric/src/enrollment.rs\<close>): one-use tokens, the two ways to consume one (a
  signed challenge, or a CSR verified beforehand by \<^verbatim>\<open>pki.rs\<close>), revocation, and rotation.
\<close>

definition ENROLLMENT_LIFETIME_MAX_MS :: u64 where
  "ENROLLMENT_LIFETIME_MAX_MS = 10 * 60 * 1000"

definition NODE_CERTIFICATE_LIFETIME_MAX_MS :: u64 where
  "NODE_CERTIFICATE_LIFETIME_MAX_MS = 30 * 24 * 60 * 60 * 1000"

section \<open>Issuing a token\<close>

definition create_enrollment ::
    "codec \<Rightarrow> AuthenticatedActor \<Rightarrow> string \<Rightarrow> string \<Rightarrow> string \<Rightarrow> string \<Rightarrow> string set \<Rightarrow> string \<Rightarrow> u64
      \<Rightarrow> u64 \<Rightarrow> u64 \<Rightarrow> (FabricState, NodeEnrollment) fabric_action" where
  "create_enrollment cd actor company_id enrollment_id raw_token requested_name allowed_capabilities
      authorized_node_daemon_id authorized_node_daemon_generation expires_at_unix_ms now_unix_ms state =
     check (require_company_and_role actor company_id ''company_host'' now_unix_ms) (\<lambda>_.
     check (reject_if (length raw_token < 32 \<or> expires_at_unix_ms \<le> now_unix_ms
                       \<or> authorized_node_daemon_generation = 0)
              (FabricError_none EnrollmentInvalid
                 ''enrollment token must be strong and have a future expiry'')) (\<lambda>_.
     check (reject_if (sat_sub expires_at_unix_ms now_unix_ms > ENROLLMENT_LIFETIME_MAX_MS)
              (FabricError_none EnrollmentInvalid
                 ''enrollment token lifetime exceeds 10 minutes'')) (\<lambda>_.
     check (reject_if (bt_contains (enrollments state) enrollment_id)
              (FabricError_none IdempotencyConflict ''enrollment id already exists'')) (\<lambda>_ state.
     let digest = sha256_hex cd raw_token in
     check (reject_if (list_ex (\<lambda>e. enr_token_digest e = digest) (bt_values (enrollments state)))
              (FabricError_none IdempotencyConflict
                 ''enrollment token was already issued'')) (\<lambda>_ state.
     let enrollment =
       \<lparr>enr_id = enrollment_id,
        enr_company_id = company_id,
        enr_token_digest = digest,
        enr_requested_name = requested_name,
        enr_allowed_capabilities = allowed_capabilities,
        enr_authorized_node_daemon_id = authorized_node_daemon_id,
        enr_authorized_node_daemon_generation = authorized_node_daemon_generation,
        enr_created_by = act_actor_id actor,
        enr_expires_at_unix_ms = expires_at_unix_ms,
        enr_consumed_at_unix_ms = None,
        enr_consumed_by_node_id = None,
        enr_status = EnrollmentIsPending,
        enr_revision = 1,
        enr_schema_version = FABRIC_SCHEMA_VERSION,
        enr_created_at_unix_ms = now_unix_ms,
        enr_updated_at_unix_ms = now_unix_ms\<rparr>
     in (Inr enrollment,
         state\<lparr>enrollments := bt_insert enrollment_id enrollment (enrollments state)\<rparr>)) state)))) state"

section \<open>Consuming a token\<close>

definition certificate_lifetime_invalid :: "u64 \<Rightarrow> u64 \<Rightarrow> bool" where
  "certificate_lifetime_invalid expires_at_unix_ms now_unix_ms \<longleftrightarrow>
     expires_at_unix_ms \<le> now_unix_ms
     \<or> sat_sub expires_at_unix_ms now_unix_ms > NODE_CERTIFICATE_LIFETIME_MAX_MS"

fun require_pending :: "EnrollmentStatus \<Rightarrow> unit result" where
  "require_pending EnrollmentIsConsumed =
     Inl (FabricError_none EnrollmentConsumed ''enrollment token was already consumed'')"
| "require_pending EnrollmentIsRevoked =
     Inl (FabricError_none EnrollmentRevoked ''enrollment token was revoked'')"
| "require_pending EnrollmentIsExpired =
     Inl (FabricError_none EnrollmentExpired ''enrollment token expired'')"
| "require_pending EnrollmentIsPending = Inr ()"

text \<open>
  The part both consumers share: find the token's enrollment, check company and status, and mark
  it expired when its time is over. The \<^verbatim>\<open>expect\<close> on the row just found cannot fail in a keyed
  table; its panic is the \<^term>\<open>None\<close> case.
\<close>

definition claim_enrollment :: "string \<Rightarrow> string \<Rightarrow> u64 \<Rightarrow> (FabricState, string \<times> NodeEnrollment) fabric_action" where
  "claim_enrollment company_id token_digest now_unix_ms state =
     check (ok_or (List.find (\<lambda>e. enr_token_digest e = token_digest) (bt_values (enrollments state)))
              (FabricError_none EnrollmentInvalid ''enrollment token is invalid'')) (\<lambda>found.
     check (ok_or (bt_get (enrollments state) (enr_id found))
              (FabricError_none StoreUnavailable ''selected enrollment exists'')) (\<lambda>enrollment.
     check (reject_if (enr_company_id enrollment \<noteq> company_id)
              (FabricError_none WrongCompany ''enrollment token belongs to another Company'')) (\<lambda>_.
     check (require_pending (enr_status enrollment)) (\<lambda>_ state.
     if enr_expires_at_unix_ms enrollment \<le> now_unix_ms then
       (Inl (FabricError_none EnrollmentExpired ''enrollment token expired''),
        state\<lparr>enrollments := bt_insert (enr_id found)
          (enrollment\<lparr>enr_status := EnrollmentIsExpired, enr_updated_at_unix_ms := now_unix_ms\<rparr>)
          (enrollments state)\<rparr>)
     else (Inr (enr_id found, enrollment), state))))) state"

definition enrollment_challenge :: "string \<Rightarrow> string \<Rightarrow> string \<Rightarrow> string \<Rightarrow> string \<Rightarrow> string" where
  "enrollment_challenge company_id enrollment_id nid certificate_serial schema_bundle_digest =
     ''agentfirm.remote_fabric.v1:enroll:'' @ company_id @ '':'' @ enrollment_id @ '':'' @ nid @ '':''
       @ certificate_serial @ '':'' @ schema_bundle_digest"

definition verify_enrollment_proof :: "codec \<Rightarrow> EnrollmentProof \<Rightarrow> string \<Rightarrow> unit result" where
  "verify_enrollment_proof cd proof expected_challenge =
     bindR (reject_if (prf_challenge proof \<noteq> expected_challenge)
              (FabricError_none EnrollmentInvalid
                 ''enrollment proof challenge does not match the exact Node and certificate scope'')) (\<lambda>_.
     bindR (reject_if (length (prf_public_key proof) \<noteq> 32)
              (FabricError_none EnrollmentInvalid
                 ''Ed25519 public key must contain exactly 32 bytes'')) (\<lambda>_.
     bindR (reject_if (length (prf_signature proof) \<noteq> 64)
              (FabricError_none EnrollmentInvalid
                 ''Ed25519 proof signature must contain exactly 64 bytes'')) (\<lambda>_.
     bindR (reject_if (\<not> ed25519_key cd (prf_public_key proof))
              (FabricError_none EnrollmentInvalid ''Ed25519 public key is invalid'')) (\<lambda>_.
     reject_if (\<not> ed25519_verify cd (prf_public_key proof) expected_challenge (prf_signature proof))
       (FabricError_none EnrollmentInvalid
          ''enrollment proof-of-possession signature is invalid'')))))"

definition consumed_by :: "string \<Rightarrow> u64 \<Rightarrow> NodeEnrollment \<Rightarrow> NodeEnrollment" where
  "consumed_by nid now_unix_ms e =
     e\<lparr>enr_status := EnrollmentIsConsumed,
       enr_revision := sat_add (enr_revision e) 1,
       enr_consumed_at_unix_ms := Some now_unix_ms,
       enr_consumed_by_node_id := Some nid,
       enr_updated_at_unix_ms := now_unix_ms\<rparr>"

definition enrolled_node ::
    "string \<Rightarrow> string \<Rightarrow> string \<Rightarrow> string \<Rightarrow> string \<Rightarrow> string set \<Rightarrow> CompanyNode option \<Rightarrow> string \<Rightarrow> u64
      \<Rightarrow> CompanyNode" where
  "enrolled_node nid company_id display_name public_key_fingerprint certificate_serial
      allowed_capabilities existing_node schema_bundle_digest now_unix_ms =
     \<lparr>node_id = nid,
      node_company_id = company_id,
      node_display_name = display_name,
      node_public_key_fingerprint = public_key_fingerprint,
      node_certificate_serial = certificate_serial,
      node_allowed_capabilities = allowed_capabilities,
      node_administrative_status = NodeActive,
      node_revision = (case existing_node of None \<Rightarrow> 1 | Some n \<Rightarrow> sat_add (node_revision n) 1),
      node_enrolled_at_unix_ms =
        (case existing_node of None \<Rightarrow> now_unix_ms | Some n \<Rightarrow> node_enrolled_at_unix_ms n),
      node_last_seen_at_unix_ms = None,
      node_revoked_at_unix_ms = None,
      node_revoke_reason = None,
      node_protocol_min = FABRIC_PROTOCOL_VERSION,
      node_protocol_max = FABRIC_PROTOCOL_VERSION,
      node_schema_bundle_digest = schema_bundle_digest,
      node_schema_version = FABRIC_SCHEMA_VERSION,
      node_created_at_unix_ms =
        (case existing_node of None \<Rightarrow> now_unix_ms | Some n \<Rightarrow> node_created_at_unix_ms n),
      node_updated_at_unix_ms = now_unix_ms\<rparr>"

definition issued_certificate ::
    "string \<Rightarrow> string \<Rightarrow> string \<Rightarrow> string \<Rightarrow> string \<Rightarrow> u64 \<Rightarrow> u64 \<Rightarrow> string \<Rightarrow> u64 \<Rightarrow> NodeCertificate" where
  "issued_certificate serial company_id nid public_key_fingerprint node_daemon_id
      node_daemon_generation expires_at_unix_ms proof_digest now_unix_ms =
     \<lparr>cert_serial = serial,
      cert_company_id = company_id,
      cert_node_id = nid,
      cert_public_key_fingerprint = public_key_fingerprint,
      cert_node_daemon_id = node_daemon_id,
      cert_node_daemon_generation = node_daemon_generation,
      cert_issued_at_unix_ms = now_unix_ms,
      cert_expires_at_unix_ms = expires_at_unix_ms,
      cert_revoked_at_unix_ms = None,
      cert_proof_of_possession_digest = proof_digest,
      cert_schema_version = FABRIC_SCHEMA_VERSION\<rparr>"

definition enrolled_daemon_id :: "string \<Rightarrow> NodeEnrollment \<Rightarrow> string" where
  "enrolled_daemon_id nid e =
     (if enr_authorized_node_daemon_id e = [] then ''node-daemon:'' @ nid
      else enr_authorized_node_daemon_id e)"

definition consume_enrollment ::
    "codec \<Rightarrow> string \<Rightarrow> string \<Rightarrow> string \<Rightarrow> string \<Rightarrow> EnrollmentProof \<Rightarrow> string \<Rightarrow> u64 \<Rightarrow> string \<Rightarrow> u64
      \<Rightarrow> (FabricState, CompanyNode \<times> NodeCertificate) fabric_action" where
  "consume_enrollment cd company_id raw_token nid display_name proof certificate_serial
      certificate_expires_at_unix_ms schema_bundle_digest now_unix_ms =
     check (reject_if (certificate_lifetime_invalid certificate_expires_at_unix_ms now_unix_ms)
              (FabricError_none EnrollmentInvalid
                 ''Node certificate lifetime must be positive and no longer than 30 days'')) (\<lambda>_.
     andThen (claim_enrollment company_id (sha256_hex cd raw_token) now_unix_ms) (\<lambda>(enrollment_id, enrollment).
     check (verify_enrollment_proof cd proof
              (enrollment_challenge company_id enrollment_id nid certificate_serial
                 schema_bundle_digest)) (\<lambda>_ state.
     check (reject_if (bt_contains (nodes state) nid
                       \<or> bt_contains (certificates state) certificate_serial)
              (FabricError_none EnrollmentInvalid
                 ''node identity, certificate, or proof of possession is invalid'')) (\<lambda>_ state.
     let fingerprint = sha256_hex cd (prf_public_key proof);
         node = enrolled_node nid company_id display_name fingerprint certificate_serial
                  (enr_allowed_capabilities enrollment) None schema_bundle_digest now_unix_ms;
         certificate = issued_certificate certificate_serial company_id nid fingerprint
                  (enrolled_daemon_id nid enrollment)
                  (enr_authorized_node_daemon_generation enrollment)
                  certificate_expires_at_unix_ms (sha256_hex cd (prf_signature proof)) now_unix_ms
     in (Inr (node, certificate),
         state\<lparr>enrollments := bt_insert enrollment_id (consumed_by nid now_unix_ms enrollment)
                 (enrollments state),
               nodes := bt_insert nid node (nodes state),
               certificates := bt_insert certificate_serial certificate (certificates state)\<rparr>)) state)))"

text \<open>Recovery of an existing Node by a new enrollment (lines 341--373).\<close>

definition recovery_admission ::
    "FabricState \<Rightarrow> string \<Rightarrow> string \<Rightarrow> CompanyNode \<Rightarrow> NodeEnrollment \<Rightarrow> u64 \<Rightarrow> unit result" where
  "recovery_admission state company_id nid existing enrollment now_unix_ms =
     bindR (reject_if (node_company_id existing \<noteq> company_id
                       \<or> node_administrative_status existing \<noteq> NodeActive
                       \<or> (case bt_get (gateway_leases state) nid of
                            None \<Rightarrow> False
                          | Some lease \<Rightarrow> gwl_expires_at_unix_ms lease > now_unix_ms
                              \<and> gwl_certificate_serial lease = node_certificate_serial existing))
              (FabricError_none EnrollmentInvalid
                 ''existing Node recovery requires the same active Company Node and no live predecessor Gateway'')) (\<lambda>_.
     bindR (ok_or (bt_get (certificates state) (node_certificate_serial existing))
              (FabricError_none StoreUnavailable
                 ''existing Node recovery lost its current certificate authority'')) (\<lambda>prior_certificate.
     reject_if (enr_authorized_node_daemon_id enrollment \<noteq> cert_node_daemon_id prior_certificate
                \<or> enr_authorized_node_daemon_generation enrollment
                    \<le> cert_node_daemon_generation prior_certificate)
       (FabricError_none NodeStaleGeneration
          ''existing Node recovery must bind a strict successor NodeDaemon generation'')))"

definition revoke_cert :: "u64 \<Rightarrow> NodeCertificate \<Rightarrow> NodeCertificate" where
  "revoke_cert now_unix_ms c = c\<lparr>cert_revoked_at_unix_ms := Some now_unix_ms\<rparr>"

definition retire_predecessor :: "string \<Rightarrow> u64 \<Rightarrow> CompanyNode option \<Rightarrow> FabricState \<Rightarrow> FabricState" where
  "retire_predecessor nid now_unix_ms existing_node state =
     (case existing_node of
        None \<Rightarrow> state
      | Some existing \<Rightarrow>
          state\<lparr>revoked_certificate_serials :=
                  insert (node_certificate_serial existing) (revoked_certificate_serials state),
                certificates := bt_modify (node_certificate_serial existing) (revoke_cert now_unix_ms)
                  (certificates state),
                gateway_leases := bt_modify nid
                  (\<lambda>gateway. gateway\<lparr>gwl_expires_at_unix_ms := now_unix_ms\<rparr>) (gateway_leases state)\<rparr>)"

definition consume_enrollment_csr ::
    "codec \<Rightarrow> string \<Rightarrow> string \<Rightarrow> string \<Rightarrow> string \<Rightarrow> string \<Rightarrow> string \<Rightarrow> string \<Rightarrow> u64 \<Rightarrow> string \<Rightarrow> u64
      \<Rightarrow> (FabricState, CompanyNode \<times> NodeCertificate) fabric_action" where
  "consume_enrollment_csr cd company_id raw_token nid display_name public_key_fingerprint csr_digest
      certificate_serial certificate_expires_at_unix_ms schema_bundle_digest now_unix_ms =
     check (reject_if (certificate_lifetime_invalid certificate_expires_at_unix_ms now_unix_ms
                       \<or> length public_key_fingerprint \<noteq> 64 \<or> length csr_digest \<noteq> 64)
              (FabricError_none EnrollmentInvalid
                 ''CSR enrollment certificate lifetime or proof is invalid'')) (\<lambda>_.
     andThen (claim_enrollment company_id (sha256_hex cd raw_token) now_unix_ms) (\<lambda>(enrollment_id, enrollment) state.
     check (reject_if (bt_contains (certificates state) certificate_serial)
              (FabricError_none EnrollmentInvalid ''certificate already exists'')) (\<lambda>_ state.
     let existing_node = bt_get (nodes state) nid in
     check (case existing_node of
              None \<Rightarrow> Inr ()
            | Some existing \<Rightarrow>
                recovery_admission state company_id nid existing enrollment now_unix_ms) (\<lambda>_ state.
     let node = enrolled_node nid company_id display_name public_key_fingerprint certificate_serial
                  (enr_allowed_capabilities enrollment) existing_node schema_bundle_digest now_unix_ms;
         certificate = issued_certificate certificate_serial company_id nid public_key_fingerprint
                  (enrolled_daemon_id nid enrollment)
                  (enr_authorized_node_daemon_generation enrollment)
                  certificate_expires_at_unix_ms csr_digest now_unix_ms;
         state = retire_predecessor nid now_unix_ms existing_node
                   (state\<lparr>enrollments := bt_insert enrollment_id
                      (consumed_by nid now_unix_ms enrollment) (enrollments state)\<rparr>)
     in (Inr (node, certificate),
         state\<lparr>nodes := bt_insert nid node (nodes state),
               certificates := bt_insert certificate_serial certificate (certificates state)\<rparr>))
       state) state))"

section \<open>Revoking a token\<close>

definition revoke_enrollment ::
    "AuthenticatedActor \<Rightarrow> string \<Rightarrow> string \<Rightarrow> u64 \<Rightarrow> u64 \<Rightarrow> (FabricState, NodeEnrollment) fabric_action" where
  "revoke_enrollment actor company_id enrollment_id expected_revision now_unix_ms state =
     check (require_company_and_role actor company_id ''company_host'' now_unix_ms) (\<lambda>_.
     check (ok_or (bt_get (enrollments state) enrollment_id)
              (FabricError_none EnrollmentInvalid ''enrollment does not exist'')) (\<lambda>enrollment.
     check (reject_if (enr_company_id enrollment \<noteq> company_id)
              (FabricError_none WrongCompany ''enrollment belongs to another Company'')) (\<lambda>_.
     check (reject_if (enr_revision enrollment \<noteq> expected_revision)
              (revision_conflict ''enrollment revision mismatch'' expected_revision
                 (enr_revision enrollment))) (\<lambda>_.
     check (reject_if (enr_status enrollment \<noteq> EnrollmentIsPending)
              (FabricError_none EnrollmentInvalid
                 ''only a pending enrollment can be revoked'')) (\<lambda>_ state.
     let next_enrollment = enrollment\<lparr>enr_status := EnrollmentIsRevoked,
                enr_revision := sat_add (enr_revision enrollment) 1,
                enr_updated_at_unix_ms := now_unix_ms\<rparr>
     in (Inr next_enrollment,
         state\<lparr>enrollments := bt_insert enrollment_id next_enrollment (enrollments state)\<rparr>)))))) state"

section \<open>Rotation\<close>

definition certificate_rotation_challenge ::
    "string \<Rightarrow> string \<Rightarrow> string \<Rightarrow> string \<Rightarrow> u64 \<Rightarrow> string \<Rightarrow> string" where
  "certificate_rotation_challenge company_id nid prior_certificate_serial next_certificate_serial
      expected_node_revision schema_bundle_digest =
     ''agentfirm.remote_fabric.v1:rotate:'' @ company_id @ '':'' @ nid @ '':''
       @ prior_certificate_serial @ '':'' @ next_certificate_serial @ '':''
       @ show_word expected_node_revision @ '':'' @ schema_bundle_digest"

definition rotation_node ::
    "FabricState \<Rightarrow> string \<Rightarrow> string \<Rightarrow> u64 \<Rightarrow> CompanyNode result" where
  "rotation_node state company_id nid expected_node_revision =
     bindR (ok_or (bt_get (nodes state) nid)
              (FabricError_none SourceMismatch ''Node does not exist'')) (\<lambda>node.
     bindR (reject_if (node_company_id node \<noteq> company_id)
              (FabricError_none WrongCompany ''Node belongs to another Company'')) (\<lambda>_.
     bindR (reject_if (node_administrative_status node = NodeIsRevoked)
              (FabricError_none NodeRevoked ''revoked Node cannot rotate a certificate'')) (\<lambda>_.
     bindR (reject_if (node_revision node \<noteq> expected_node_revision)
              (revision_conflict ''Node revision changed before certificate rotation''
                 expected_node_revision (node_revision node))) (\<lambda>_.
     Inr node))))"

definition rotation_binding_invalid ::
    "FabricState \<Rightarrow> CompanyNode \<Rightarrow> string \<Rightarrow> string \<Rightarrow> u64 \<Rightarrow> u64 \<Rightarrow> bool" where
  "rotation_binding_invalid state node current_serial next_serial expires_at_unix_ms now_unix_ms \<longleftrightarrow>
     node_certificate_serial node \<noteq> current_serial
     \<or> current_serial \<in> revoked_certificate_serials state
     \<or> bt_contains (certificates state) next_serial
     \<or> certificate_lifetime_invalid expires_at_unix_ms now_unix_ms"

definition verify_rotation_proof :: "codec \<Rightarrow> EnrollmentProof \<Rightarrow> string \<Rightarrow> unit result" where
  "verify_rotation_proof cd proof challenge =
     bindR (reject_if (prf_challenge proof \<noteq> challenge)
              (FabricError_none EnrollmentInvalid
                 ''certificate rotation proof has the wrong scope'')) (\<lambda>_.
     bindR (reject_if (length (prf_public_key proof) \<noteq> 32)
              (FabricError_none EnrollmentInvalid
                 ''Ed25519 public key must contain exactly 32 bytes'')) (\<lambda>_.
     bindR (reject_if (length (prf_signature proof) \<noteq> 64)
              (FabricError_none EnrollmentInvalid
                 ''Ed25519 proof signature must contain exactly 64 bytes'')) (\<lambda>_.
     reject_if (\<not> (ed25519_key cd (prf_public_key proof)
                   \<and> ed25519_verify cd (prf_public_key proof) challenge (prf_signature proof)))
       (FabricError_none EnrollmentInvalid
          ''certificate rotation proof-of-possession signature is invalid''))))"

text \<open>The write both rotations end with (lines 598--629 and 706--738).\<close>

definition rotate_write ::
    "string \<Rightarrow> string \<Rightarrow> CompanyNode \<Rightarrow> string \<Rightarrow> string \<Rightarrow> string \<Rightarrow> string \<Rightarrow> NodeCertificate \<Rightarrow> u64 \<Rightarrow> u64
      \<Rightarrow> FabricState \<Rightarrow> (CompanyNode \<times> NodeCertificate) \<times> FabricState" where
  "rotate_write company_id nid node current_serial next_serial fingerprint proof_digest
      prior_certificate expires_at_unix_ms now_unix_ms state =
     (let certificate = issued_certificate next_serial company_id nid fingerprint
            (cert_node_daemon_id prior_certificate)
            (sat_add (cert_node_daemon_generation prior_certificate) 1)
            expires_at_unix_ms proof_digest now_unix_ms;
          next_node = node\<lparr>node_certificate_serial := next_serial,
            node_public_key_fingerprint := fingerprint,
            node_revision := sat_add (node_revision node) 1,
            node_updated_at_unix_ms := now_unix_ms\<rparr>
      in ((next_node, certificate),
          state\<lparr>revoked_certificate_serials := insert current_serial (revoked_certificate_serials state),
                certificates := bt_insert next_serial certificate
                  (bt_modify current_serial (revoke_cert now_unix_ms) (certificates state)),
                gateway_leases := bt_modify nid
                  (\<lambda>lease. lease\<lparr>gwl_expires_at_unix_ms := now_unix_ms,
                                 gwl_revision := sat_add (gwl_revision lease) 1\<rparr>)
                  (gateway_leases state),
                nodes := bt_insert nid next_node (nodes state)\<rparr>))"

definition rotate_certificate ::
    "codec \<Rightarrow> string \<Rightarrow> string \<Rightarrow> string \<Rightarrow> string \<Rightarrow> u64 \<Rightarrow> EnrollmentProof \<Rightarrow> u64 \<Rightarrow> u64
      \<Rightarrow> (FabricState, CompanyNode \<times> NodeCertificate) fabric_action" where
  "rotate_certificate cd company_id nid current_serial next_serial expected_node_revision proof
      expires_at_unix_ms now_unix_ms state =
     check (rotation_node state company_id nid expected_node_revision) (\<lambda>node.
     check (reject_if (rotation_binding_invalid state node current_serial next_serial
                         expires_at_unix_ms now_unix_ms)
              (FabricError_none EnrollmentInvalid
                 ''certificate rotation serial, lifetime, or current binding is invalid'')) (\<lambda>_.
     check (verify_rotation_proof cd proof
              (certificate_rotation_challenge company_id nid current_serial next_serial
                 expected_node_revision (node_schema_bundle_digest node))) (\<lambda>_.
     check (ok_or (bt_get (certificates state) current_serial)
              (FabricError_none EnrollmentInvalid
                 ''current certificate authority record is missing'')) (\<lambda>prior_certificate state.
     case rotate_write company_id nid node current_serial next_serial
            (sha256_hex cd (prf_public_key proof)) (sha256_hex cd (prf_signature proof))
            prior_certificate expires_at_unix_ms now_unix_ms state of
       (r, state') \<Rightarrow> (Inr r, state'))))) state"

definition rotate_certificate_csr ::
    "string \<Rightarrow> string \<Rightarrow> string \<Rightarrow> string \<Rightarrow> u64 \<Rightarrow> string \<Rightarrow> string \<Rightarrow> u64 \<Rightarrow> u64
      \<Rightarrow> (FabricState, CompanyNode \<times> NodeCertificate) fabric_action" where
  "rotate_certificate_csr company_id nid current_serial next_serial expected_node_revision
      next_public_key_fingerprint csr_digest expires_at_unix_ms now_unix_ms state =
     check (rotation_node state company_id nid expected_node_revision) (\<lambda>node.
     check (reject_if (rotation_binding_invalid state node current_serial next_serial
                         expires_at_unix_ms now_unix_ms
                       \<or> blank next_public_key_fingerprint \<or> blank csr_digest)
              (FabricError_none EnrollmentInvalid
                 ''certificate rotation CSR, serial, lifetime, or current binding is invalid'')) (\<lambda>_.
     check (ok_or (bt_get (certificates state) current_serial)
              (FabricError_none EnrollmentInvalid
                 ''current certificate authority record is missing'')) (\<lambda>prior_certificate state.
     case rotate_write company_id nid node current_serial next_serial next_public_key_fingerprint
            csr_digest prior_certificate expires_at_unix_ms now_unix_ms state of
       (r, state') \<Rightarrow> (Inr r, state')))) state"

end
