(* ===== verification/Control_Plane.thy ===== *)
theory Control_Plane
  imports Node_Gateway Reconcile Enrollment
begin

text \<open>
  The public operations of the Control Plane (\<^verbatim>\<open>crates/firm-fabric/src/control_plane.rs\<close>). Each
  runs a component's transition inside a store transaction, behind the lease of the calling
  instance. The transaction is \<^verbatim>\<open>FabricStore::transact\<close> on the state it holds: a failed
  operation works on a copy that is dropped, a successful one advances the revision. The file the
  transaction is appended to is the subject of \<^verbatim>\<open>Fabric_Journal\<close>.
\<close>

definition transact :: "(FabricState, 'a) fabric_action \<Rightarrow> (FabricState, 'a) fabric_action" where
  "transact operation state =
     (case operation state of
        (Inl e, _) \<Rightarrow> (Inl e, state)
      | (Inr x, next_state) \<Rightarrow>
          (Inr x, next_state\<lparr>revision := sat_add (revision state) 1\<rparr>))"

record ControlPlane =
  cp_company_id :: string
  cp_instance_id :: string

definition require_active_control_plane ::
    "FabricState \<Rightarrow> string \<Rightarrow> string \<Rightarrow> u64 \<Rightarrow> u64 \<Rightarrow> CompanyControlPlaneLease result" where
  "require_active_control_plane state company_id instance_id generation now_unix_ms =
     (case bt_get (control_plane_leases state) company_id of
        None \<Rightarrow> Inl (FabricError_none ControlPlaneStaleGeneration ''Company has no Control Plane lease'')
      | Some lease \<Rightarrow>
          if cpl_instance_id lease \<noteq> instance_id
             \<or> cpl_control_plane_generation lease \<noteq> generation
             \<or> cpl_expires_at_unix_ms lease \<le> now_unix_ms
          then Inl (FabricError_none ControlPlaneStaleGeneration
                      ''Control Plane generation is not current'')
          else Inr lease)"

text \<open>The prologue every gated operation opens its transaction with.\<close>

definition gated ::
    "ControlPlane \<Rightarrow> u64 \<Rightarrow> u64 \<Rightarrow> (FabricState, 'a) fabric_action \<Rightarrow> (FabricState, 'a) fabric_action" where
  "gated cp generation now_unix_ms operation =
     transact (\<lambda>state.
       check (require_active_control_plane state (cp_company_id cp) (cp_instance_id cp) generation
                now_unix_ms) (\<lambda>_. operation) state)"

section \<open>Lease of the Control Plane\<close>

definition acquire_lease ::
    "ControlPlane \<Rightarrow> string \<Rightarrow> u64 \<Rightarrow> u64 \<Rightarrow> (FabricState, CompanyControlPlaneLease) fabric_action" where
  "acquire_lease cp lease_id expected_revision now_unix_ms =
     transact (\<lambda>state.
       check (reject_if (case authority_company_id state of
                           None \<Rightarrow> False | Some authority \<Rightarrow> authority \<noteq> cp_company_id cp)
                (FabricError_none WrongCompany
                   ''FabricStore is durably bound to another Company'')) (\<lambda>_ state.
       let prior = bt_get (control_plane_leases state) (cp_company_id cp) in
       check (case prior of
                Some p \<Rightarrow>
                  if cpl_revision p \<noteq> expected_revision
                  then Inl (revision_conflict ''Control Plane lease revision mismatch''
                              expected_revision (cpl_revision p))
                  else if cpl_expires_at_unix_ms p > now_unix_ms
                  then Inl (FabricError_none LeaseConflict
                         ''a Control Plane generation is still active; instance labels cannot bypass the lease'')
                  else Inr ()
              | None \<Rightarrow>
                  if expected_revision \<noteq> 0
                  then Inl (revision_conflict ''Control Plane lease does not exist'' expected_revision 0)
                  else Inr ()) (\<lambda>_ state.
       let lease =
         \<lparr>cpl_company_id = cp_company_id cp,
          cpl_lease_id = lease_id,
          cpl_instance_id = cp_instance_id cp,
          cpl_control_plane_generation =
            (case prior of None \<Rightarrow> 1 | Some p \<Rightarrow> sat_add (cpl_control_plane_generation p) 1),
          cpl_revision = (case prior of None \<Rightarrow> 1 | Some p \<Rightarrow> sat_add (cpl_revision p) 1),
          cpl_acquired_at_unix_ms = now_unix_ms,
          cpl_expires_at_unix_ms = sat_add now_unix_ms 30000,
          cpl_last_heartbeat_at_unix_ms = now_unix_ms,
          cpl_schema_version = FABRIC_SCHEMA_VERSION\<rparr>
       in (Inr lease,
           state\<lparr>authority_company_id := Some (cp_company_id cp),
                 control_plane_leases :=
                   bt_insert (cp_company_id cp) lease (control_plane_leases state)\<rparr>)) state) state)"

definition heartbeat_lease ::
    "ControlPlane \<Rightarrow> u64 \<Rightarrow> u64 \<Rightarrow> u64 \<Rightarrow> (FabricState, CompanyControlPlaneLease) fabric_action" where
  "heartbeat_lease cp generation expected_revision now_unix_ms =
     transact (\<lambda>state.
       check (require_active_control_plane state (cp_company_id cp) (cp_instance_id cp) generation
                now_unix_ms) (\<lambda>lease.
       check (reject_if (cpl_revision lease \<noteq> expected_revision)
                (revision_conflict ''Control Plane heartbeat revision mismatch'' expected_revision
                   (cpl_revision lease))) (\<lambda>_ state.
       let next_lease = lease\<lparr>cpl_revision := sat_add (cpl_revision lease) 1,
                              cpl_last_heartbeat_at_unix_ms := now_unix_ms,
                              cpl_expires_at_unix_ms := sat_add now_unix_ms 30000\<rparr>
       in (Inr next_lease,
           state\<lparr>control_plane_leases :=
                   bt_insert (cp_company_id cp) next_lease (control_plane_leases state)\<rparr>))) state)"

section \<open>Enrollment\<close>

definition create_enrollment_bound ::
    "codec \<Rightarrow> ControlPlane \<Rightarrow> AuthenticatedActor \<Rightarrow> u64 \<Rightarrow> string \<Rightarrow> string \<Rightarrow> string \<Rightarrow> string set \<Rightarrow> string
      \<Rightarrow> u64 \<Rightarrow> u64 \<Rightarrow> u64 \<Rightarrow> (FabricState, NodeEnrollment) fabric_action" where
  "create_enrollment_bound cd cp actor generation enrollment_id raw_token requested_name
      allowed_capabilities node_daemon_id node_daemon_generation expires_at_unix_ms now_unix_ms =
     gated cp generation now_unix_ms
       (Enrollment.create_enrollment cd actor (cp_company_id cp) enrollment_id raw_token requested_name
          allowed_capabilities node_daemon_id node_daemon_generation expires_at_unix_ms now_unix_ms)"

definition cp_create_enrollment ::
    "codec \<Rightarrow> ControlPlane \<Rightarrow> AuthenticatedActor \<Rightarrow> u64 \<Rightarrow> string \<Rightarrow> string \<Rightarrow> string \<Rightarrow> string set \<Rightarrow> u64
      \<Rightarrow> u64 \<Rightarrow> (FabricState, NodeEnrollment) fabric_action" where
  "cp_create_enrollment cd cp actor generation enrollment_id raw_token requested_name
      allowed_capabilities expires_at_unix_ms now_unix_ms =
     create_enrollment_bound cd cp actor generation enrollment_id raw_token requested_name
       allowed_capabilities [] 1 expires_at_unix_ms now_unix_ms"

definition cp_consume_enrollment ::
    "codec \<Rightarrow> ControlPlane \<Rightarrow> u64 \<Rightarrow> string \<Rightarrow> string \<Rightarrow> string \<Rightarrow> EnrollmentProof \<Rightarrow> string \<Rightarrow> u64 \<Rightarrow> string \<Rightarrow> u64
      \<Rightarrow> (FabricState, CompanyNode \<times> NodeCertificate) fabric_action" where
  "cp_consume_enrollment cd cp generation raw_token nid display_name proof certificate_serial
      certificate_expires_at_unix_ms schema_bundle_digest now_unix_ms =
     gated cp generation now_unix_ms
       (consume_enrollment cd (cp_company_id cp) raw_token nid display_name proof certificate_serial
          certificate_expires_at_unix_ms schema_bundle_digest now_unix_ms)"

text \<open>\<^verbatim>\<open>pki.rs\<close> verifies the CSR with a third-party parser: a parameter giving the fingerprint.\<close>

type_synonym csr_verifier = "string \<Rightarrow> string \<Rightarrow> string \<Rightarrow> string result"

definition cp_consume_enrollment_csr ::
    "codec \<Rightarrow> csr_verifier \<Rightarrow> ControlPlane \<Rightarrow> u64 \<Rightarrow> string \<Rightarrow> string \<Rightarrow> string \<Rightarrow> string \<Rightarrow> string \<Rightarrow> u64 \<Rightarrow> string
      \<Rightarrow> u64 \<Rightarrow> (FabricState, CompanyNode \<times> NodeCertificate) fabric_action" where
  "cp_consume_enrollment_csr cd verify_node_csr cp generation raw_token nid display_name csr_pem
      certificate_serial certificate_expires_at_unix_ms schema_bundle_digest now_unix_ms =
     check (verify_node_csr csr_pem (cp_company_id cp) nid) (\<lambda>public_key_fingerprint.
     gated cp generation now_unix_ms
       (consume_enrollment_csr cd (cp_company_id cp) raw_token nid display_name public_key_fingerprint
          (sha256_hex cd csr_pem) certificate_serial certificate_expires_at_unix_ms
          schema_bundle_digest now_unix_ms))"

definition cp_revoke_enrollment ::
    "ControlPlane \<Rightarrow> AuthenticatedActor \<Rightarrow> u64 \<Rightarrow> string \<Rightarrow> u64 \<Rightarrow> u64
      \<Rightarrow> (FabricState, NodeEnrollment) fabric_action" where
  "cp_revoke_enrollment cp actor generation enrollment_id expected_revision now_unix_ms =
     gated cp generation now_unix_ms
       (revoke_enrollment actor (cp_company_id cp) enrollment_id expected_revision now_unix_ms)"

section \<open>Gateways\<close>

definition connect_gateway ::
    "codec \<Rightarrow> ControlPlane \<Rightarrow> u64 \<Rightarrow> VerifiedMtlsPeer \<Rightarrow> NodeHello \<Rightarrow> NodeHelloProof \<Rightarrow> u64
      \<Rightarrow> (FabricState, NodeWelcome) fabric_action" where
  "connect_gateway cd cp generation peer hello proof now_unix_ms =
     gated cp generation now_unix_ms
       (connect cd (cp_company_id cp) generation peer hello proof now_unix_ms)"

definition connect_gateway_mtls ::
    "codec \<Rightarrow> ControlPlane \<Rightarrow> u64 \<Rightarrow> VerifiedMtlsPeer \<Rightarrow> NodeHello \<Rightarrow> u64
      \<Rightarrow> (FabricState, NodeWelcome) fabric_action" where
  "connect_gateway_mtls cd cp generation peer hello now_unix_ms =
     gated cp generation now_unix_ms
       (connect_mtls cd (cp_company_id cp) generation peer hello now_unix_ms)"

definition heartbeat_gateway ::
    "ControlPlane \<Rightarrow> u64 \<Rightarrow> string \<Rightarrow> u64 \<Rightarrow> string \<Rightarrow> u64 \<Rightarrow> u64 \<Rightarrow> u64
      \<Rightarrow> (FabricState, NodeGatewayLease) fabric_action" where
  "heartbeat_gateway cp generation nid gateway_generation node_daemon_id node_daemon_generation
      expected_revision now_unix_ms =
     gated cp generation now_unix_ms
       (heartbeat (cp_company_id cp) generation nid gateway_generation node_daemon_id
          node_daemon_generation expected_revision now_unix_ms)"

definition rotate_node_certificate ::
    "codec \<Rightarrow> ControlPlane \<Rightarrow> u64 \<Rightarrow> string \<Rightarrow> u64 \<Rightarrow> string \<Rightarrow> u64 \<Rightarrow> string \<Rightarrow> string \<Rightarrow> u64 \<Rightarrow> EnrollmentProof
      \<Rightarrow> u64 \<Rightarrow> u64 \<Rightarrow> (FabricState, CompanyNode \<times> NodeCertificate) fabric_action" where
  "rotate_node_certificate cd cp generation nid gateway_generation node_daemon_id
      node_daemon_generation current_serial next_serial expected_node_revision proof
      expires_at_unix_ms now_unix_ms =
     gated cp generation now_unix_ms (\<lambda>state.
       check (require_current_gateway state (cp_company_id cp) generation nid gateway_generation
                node_daemon_id node_daemon_generation now_unix_ms) (\<lambda>_.
       rotate_certificate cd (cp_company_id cp) nid current_serial next_serial expected_node_revision
         proof expires_at_unix_ms now_unix_ms) state)"

definition rotate_node_certificate_csr ::
    "codec \<Rightarrow> csr_verifier \<Rightarrow> ControlPlane \<Rightarrow> u64 \<Rightarrow> string \<Rightarrow> u64 \<Rightarrow> string \<Rightarrow> u64 \<Rightarrow> string \<Rightarrow> string \<Rightarrow> u64
      \<Rightarrow> string \<Rightarrow> u64 \<Rightarrow> u64 \<Rightarrow> (FabricState, CompanyNode \<times> NodeCertificate) fabric_action" where
  "rotate_node_certificate_csr cd verify_node_csr cp generation nid gateway_generation node_daemon_id
      node_daemon_generation current_serial next_serial expected_node_revision csr_pem
      expires_at_unix_ms now_unix_ms =
     check (verify_node_csr csr_pem (cp_company_id cp) nid) (\<lambda>public_key_fingerprint.
     gated cp generation now_unix_ms (\<lambda>state.
       check (require_current_gateway state (cp_company_id cp) generation nid gateway_generation
                node_daemon_id node_daemon_generation now_unix_ms) (\<lambda>_.
       rotate_certificate_csr (cp_company_id cp) nid current_serial next_serial
         expected_node_revision public_key_fingerprint (sha256_hex cd csr_pem)
         expires_at_unix_ms now_unix_ms) state))"

section \<open>Routing\<close>

definition accept_operation ::
    "codec \<Rightarrow> FabricStoreLimits \<Rightarrow> ControlPlane \<Rightarrow> u64 \<Rightarrow> FabricSessionFence \<Rightarrow> AuthenticatedActor
      \<Rightarrow> RoutedOperation \<Rightarrow> u64
      \<Rightarrow> (FabricState, RoutedOperation \<times> RouteAttempt \<times> RouteReceipt \<times> bool) fabric_action" where
  "accept_operation cd limits cp generation source_session authenticated_actor operation now_unix_ms =
     check (reject_if (op_source_authority operation \<noteq> SourceNode)
              (FabricError_none SourceMismatch
                 ''Node gateway may submit only node-authority operations'')) (\<lambda>_.
     check (reject_if (fen_company_id source_session \<noteq> cp_company_id cp
                       \<or> op_source_node_id operation \<noteq> Some (fen_node_id source_session))
              (FabricError_none SourceMismatch
                 ''authenticated source session does not own the routed operation source'')) (\<lambda>_.
     check (reject_if (op_source_gateway_generation operation \<noteq> Some (fen_gateway_generation source_session)
                       \<or> op_source_node_daemon_id operation \<noteq> Some (fen_node_daemon_id source_session)
                       \<or> op_source_node_daemon_generation operation
                            \<noteq> Some (fen_node_daemon_generation source_session)
                       \<or> fen_control_plane_generation source_session \<noteq> generation
                       \<or> op_control_plane_generation operation \<noteq> generation)
              (FabricError_none NodeStaleGeneration
                 ''routed operation does not match the authenticated source generation'')) (\<lambda>_.
     gated cp generation now_unix_ms
       (accept_and_enqueue cd (cp_company_id cp) generation
          (operation\<lparr>op_actor := authenticated_actor\<rparr>) limits now_unix_ms))))"

definition accept_control_plane_operation ::
    "codec \<Rightarrow> FabricStoreLimits \<Rightarrow> ControlPlane \<Rightarrow> u64 \<Rightarrow> AuthenticatedActor \<Rightarrow> RoutedOperation \<Rightarrow> u64
      \<Rightarrow> (FabricState, RoutedOperation \<times> RouteAttempt \<times> RouteReceipt \<times> bool) fabric_action" where
  "accept_control_plane_operation cd limits cp generation authenticated_actor operation now_unix_ms =
     check (reject_if (op_source_authority operation \<noteq> SourceControlPlane
                       \<or> op_source_node_id operation \<noteq> None
                       \<or> op_source_gateway_generation operation \<noteq> None
                       \<or> op_source_node_daemon_id operation \<noteq> None
                       \<or> op_source_node_daemon_generation operation \<noteq> None
                       \<or> op_source_execution_space_id operation \<noteq> None)
              (FabricError_none SourceMismatch
                 ''Control Plane operation must not claim Node source authority'')) (\<lambda>_.
     check (reject_if (op_control_plane_generation operation \<noteq> generation)
              (FabricError_none ControlPlaneStaleGeneration
                 ''Control Plane operation was built for another generation'')) (\<lambda>_.
     gated cp generation now_unix_ms
       (accept_and_enqueue cd (cp_company_id cp) generation
          (operation\<lparr>op_actor := authenticated_actor\<rparr>) limits now_unix_ms)))"

definition cp_retry_operation ::
    "ControlPlane \<Rightarrow> u64 \<Rightarrow> string \<Rightarrow> u64 \<Rightarrow> (FabricState, RouteAttempt \<times> RouteReceipt \<times> bool) fabric_action" where
  "cp_retry_operation cp generation operation_id now_unix_ms =
     gated cp generation now_unix_ms
       (retry_operation (cp_company_id cp) generation operation_id now_unix_ms)"

definition cp_record_target_persisted ::
    "codec \<Rightarrow> ControlPlane \<Rightarrow> u64 \<Rightarrow> string \<Rightarrow> u64 \<Rightarrow> string \<Rightarrow> u64 \<Rightarrow> string \<Rightarrow> string \<Rightarrow> u64 \<Rightarrow> u64
      \<Rightarrow> (FabricState, RouteAttempt \<times> RouteReceipt \<times> bool) fabric_action" where
  "cp_record_target_persisted cd cp generation nid gateway_generation node_daemon_id
      node_daemon_generation operation_id request_digest route_seq now_unix_ms =
     gated cp generation now_unix_ms
       (record_target_persisted cd (cp_company_id cp) generation nid gateway_generation node_daemon_id
          node_daemon_generation operation_id request_digest route_seq now_unix_ms)"

definition cp_record_application_receipt ::
    "codec \<Rightarrow> ControlPlane \<Rightarrow> u64 \<Rightarrow> string \<Rightarrow> u64 \<Rightarrow> string \<Rightarrow> u64 \<Rightarrow> string \<Rightarrow> string \<Rightarrow> json
      \<Rightarrow> EffectCertainty \<Rightarrow> u64 \<Rightarrow> (FabricState, RouteAttempt \<times> RouteReceipt \<times> bool) fabric_action" where
  "cp_record_application_receipt cd cp generation nid gateway_generation node_daemon_id
      node_daemon_generation operation_id result_schema result effect now_unix_ms =
     gated cp generation now_unix_ms
       (record_application_receipt cd (cp_company_id cp) generation nid gateway_generation
          node_daemon_id node_daemon_generation operation_id result_schema result effect now_unix_ms)"

definition cp_mark_unknown :: "ControlPlane \<Rightarrow> u64 \<Rightarrow> string \<Rightarrow> u64 \<Rightarrow> (FabricState, unit) fabric_action" where
  "cp_mark_unknown cp generation operation_id now_unix_ms =
     gated cp generation now_unix_ms (mark_unknown (cp_company_id cp) operation_id)"

definition cp_reconcile ::
    "ControlPlane \<Rightarrow> u64 \<Rightarrow> string \<Rightarrow> u64 \<Rightarrow> string \<Rightarrow> u64 \<Rightarrow> string list \<Rightarrow> u64
      \<Rightarrow> (FabricState, RouteReceipt list) fabric_action" where
  "cp_reconcile cp generation nid gateway_generation node_daemon_id node_daemon_generation
      operation_ids now_unix_ms =
     gated cp generation now_unix_ms
       (reconcile (cp_company_id cp) generation nid gateway_generation node_daemon_id
          node_daemon_generation operation_ids now_unix_ms)"

section \<open>Node administration\<close>

definition administered_node ::
    "FabricState \<Rightarrow> ControlPlane \<Rightarrow> AuthenticatedActor \<Rightarrow> string \<Rightarrow> u64 \<Rightarrow> CompanyNode result" where
  "administered_node state cp actor nid now_unix_ms =
     bindR (require_company_and_role actor (cp_company_id cp) ''company_host'' now_unix_ms) (\<lambda>_.
     bindR (ok_or (bt_get (nodes state) nid)
              (FabricError_none SourceMismatch ''Node does not exist'')) (\<lambda>node.
     bindR (reject_if (node_company_id node \<noteq> cp_company_id cp)
              (FabricError_none WrongCompany ''Node belongs to another Company'')) (\<lambda>_.
     Inr node)))"

definition revoked_node :: "string \<Rightarrow> u64 \<Rightarrow> CompanyNode \<Rightarrow> CompanyNode" where
  "revoked_node reason now_unix_ms n =
     n\<lparr>node_administrative_status := NodeIsRevoked,
       node_revision := sat_add (node_revision n) 1,
       node_revoked_at_unix_ms := Some now_unix_ms,
       node_revoke_reason := Some reason,
       node_updated_at_unix_ms := now_unix_ms\<rparr>"

definition revoke_node ::
    "ControlPlane \<Rightarrow> AuthenticatedActor \<Rightarrow> u64 \<Rightarrow> string \<Rightarrow> u64 \<Rightarrow> string \<Rightarrow> u64
      \<Rightarrow> (FabricState, CompanyNode) fabric_action" where
  "revoke_node cp actor generation nid expected_revision reason now_unix_ms =
     gated cp generation now_unix_ms (\<lambda>state.
       check (administered_node state cp actor nid now_unix_ms) (\<lambda>node.
       check (reject_if (node_revision node \<noteq> expected_revision)
                (revision_conflict ''Node revision mismatch'' expected_revision (node_revision node)))
         (\<lambda>_ state.
       let next_node = revoked_node reason now_unix_ms node;
           serial = node_certificate_serial next_node
       in (Inr next_node,
           state\<lparr>revoked_certificate_serials := insert serial (revoked_certificate_serials state),
                 certificates := bt_modify serial (revoke_cert now_unix_ms) (certificates state),
                 gateway_leases := bt_remove nid (gateway_leases state),
                 nodes := bt_insert nid next_node (nodes state)\<rparr>))) state)"

definition set_node_administrative_status ::
    "ControlPlane \<Rightarrow> AuthenticatedActor \<Rightarrow> u64 \<Rightarrow> string \<Rightarrow> u64 \<Rightarrow> NodeAdministrativeStatus \<Rightarrow> u64
      \<Rightarrow> (FabricState, CompanyNode) fabric_action" where
  "set_node_administrative_status cp actor generation nid expected_revision status now_unix_ms =
     check (reject_if (status = NodeIsRevoked)
              (FabricError_none InvalidPayload
                 ''revocation requires the irreversible revoke_node operation'')) (\<lambda>_.
     gated cp generation now_unix_ms (\<lambda>state.
       check (administered_node state cp actor nid now_unix_ms) (\<lambda>node.
       check (reject_if (node_administrative_status node = NodeIsRevoked)
                (FabricError_none NodeRevoked ''revoked Node cannot be reactivated'')) (\<lambda>_.
       check (reject_if (node_revision node \<noteq> expected_revision)
                (revision_conflict ''Node revision mismatch'' expected_revision (node_revision node)))
         (\<lambda>_ state.
       let next_node = node\<lparr>node_administrative_status := status,
                            node_revision := sat_add (node_revision node) 1,
                            node_updated_at_unix_ms := now_unix_ms\<rparr>
       in (Inr next_node,
           state\<lparr>nodes := bt_insert nid next_node (nodes state)\<rparr>)))) state))"

end
