(* ===== verification/Route_Invariant.thy ===== *)
theory Route_Invariant
  imports Node_Gateway
begin

text \<open>
  The invariant of the routing tables and the proof that every router transition keeps it. The
  invariant is stated on the rows (sets of attempts and receipts); the transitions of
  \<^verbatim>\<open>Router\<close> and \<^verbatim>\<open>Node_Gateway\<close> are compositions of four row updates, each with one lemma.
\<close>

section \<open>Ids\<close>

lemma show_receipt_kind_inj: "show_receipt_kind a = show_receipt_kind b \<Longrightarrow> a = b"
  by (cases a; cases b) simp_all

lemma show_receipt_kind_no_colon: "CHR '':'' \<notin> set (show_receipt_kind k)"
  by (cases k) simp_all

lemma receipt_id_split:
  "receipt_id i k g = ''receipt:'' @ (i @ CHR '':'' # show_receipt_kind k) @ CHR '':'' # show_word g"
  by (simp add: receipt_id_def)

lemma receipt_id_inj:
  "receipt_id i k g = receipt_id j l h \<longleftrightarrow> i = j \<and> k = l \<and> g = h"
proof
  assume "receipt_id i k g = receipt_id j l h"
  then have "(i @ CHR '':'' # show_receipt_kind k) @ CHR '':'' # show_word g
           = (j @ CHR '':'' # show_receipt_kind l) @ CHR '':'' # show_word h"
    unfolding receipt_id_split by (simp only: same_append_eq)
  then have g: "i @ CHR '':'' # show_receipt_kind k = j @ CHR '':'' # show_receipt_kind l
           \<and> show_word g = show_word h"
    by (rule split_last_sep [OF show_word_no_colon show_word_no_colon])
  then have "i = j \<and> show_receipt_kind k = show_receipt_kind l"
    by (intro split_last_sep [OF show_receipt_kind_no_colon show_receipt_kind_no_colon]) (rule conjunct1)
  with g show "i = j \<and> k = l \<and> g = h"
    by (simp add: show_receipt_kind_inj show_word_inj)
qed simp

lemma attempt_id_inj: "attempt_id i m = attempt_id j n \<longleftrightarrow> i = j \<and> m = n"
proof
  assume "attempt_id i m = attempt_id j n"
  then have "i @ CHR '':'' # show_word m = j @ CHR '':'' # show_word n"
    by (simp add: attempt_id_def)
  then have "i = j \<and> show_word m = show_word n"
    using split_last_sep [OF show_word_no_colon show_word_no_colon] by blast
  then show "i = j \<and> m = n" using show_word_inj by blast
qed simp

section \<open>The rows\<close>

text \<open>
  An attempt's slot is what no transition rewrites. Of two attempts of one operation the later has
  the greater generation and only it may still be open; a terminal receipt closes all of them and
  is unique; route sequence numbers per target are distinct until the counter saturates.
\<close>

definition att_slot :: "RouteAttempt \<Rightarrow> string \<times> string \<times> u32 \<times> string \<times> u64 \<times> u64" where
  "att_slot a = (att_id a, att_operation_id a, att_attempt_no a, att_target_node_id a,
     att_target_gateway_generation a, att_route_seq a)"

definition attempt_row ::
    "(string \<Rightarrow> RoutedOperation option) \<Rightarrow> (string \<Rightarrow> u64 \<Rightarrow> bool) \<Rightarrow> (string \<Rightarrow> u64) \<Rightarrow> RouteAttempt \<Rightarrow> bool" where
  "attempt_row ops bound seq a \<longleftrightarrow>
     att_id a = attempt_id (att_operation_id a) (att_attempt_no a)
     \<and> (\<exists>operation. ops (att_operation_id a) = Some operation
          \<and> op_target_node_id operation = att_target_node_id a)
     \<and> bound (att_target_node_id a) (att_target_gateway_generation a)
     \<and> att_route_seq a \<le> seq (att_target_node_id a)"

definition attempt_order :: "(string \<Rightarrow> u64) \<Rightarrow> RouteAttempt \<Rightarrow> RouteAttempt \<Rightarrow> bool" where
  "attempt_order seq a b \<longleftrightarrow>
     (att_operation_id a = att_operation_id b \<longrightarrow> att_attempt_no a \<le> att_attempt_no b \<longrightarrow>
        att_target_gateway_generation a \<le> att_target_gateway_generation b
        \<and> (a \<noteq> b \<longrightarrow> att_state a = AttemptEnded))
     \<and> (a \<noteq> b \<longrightarrow> att_target_node_id a = att_target_node_id b \<longrightarrow> seq (att_target_node_id a) \<noteq> - 1 \<longrightarrow>
        att_route_seq a \<noteq> att_route_seq b)"

definition receipt_row ::
    "(string \<Rightarrow> RoutedOperation option) \<Rightarrow> RouteAttempt set \<Rightarrow> RouteReceipt \<Rightarrow> bool" where
  "receipt_row ops A r \<longleftrightarrow>
     rcp_id r = receipt_id (rcp_operation_id r) (rcp_kind r) (rcp_target_gateway_generation r)
     \<and> ops (rcp_operation_id r) \<noteq> None
     \<and> (rcp_kind r = ControlPlaneAccepted \<longrightarrow>
          (\<exists>a \<in> A. att_operation_id a = rcp_operation_id r
             \<and> rcp_target_gateway_generation r \<le> att_target_gateway_generation a))
     \<and> (is_terminal_kind (rcp_kind r) \<longrightarrow>
          (\<forall>a \<in> A. att_operation_id a = rcp_operation_id r \<longrightarrow> att_state a = AttemptEnded))"

definition route_rows ::
    "(string \<Rightarrow> RoutedOperation option) \<Rightarrow> RouteAttempt set \<Rightarrow> RouteReceipt set
      \<Rightarrow> (string \<Rightarrow> u64 \<Rightarrow> bool) \<Rightarrow> (string \<Rightarrow> u64) \<Rightarrow> bool" where
  "route_rows ops A R bound seq \<longleftrightarrow>
     (\<forall>a \<in> A. attempt_row ops bound seq a)
     \<and> (\<forall>a \<in> A. \<forall>b \<in> A. attempt_order seq a b)
     \<and> (\<forall>r \<in> R. receipt_row ops A r)
     \<and> (\<forall>r \<in> R. \<forall>q \<in> R. is_terminal_kind (rcp_kind r) \<longrightarrow> is_terminal_kind (rcp_kind q) \<longrightarrow>
          rcp_operation_id r = rcp_operation_id q \<longrightarrow> r = q)"

lemma att_slot_eq:
  "att_slot a = att_slot b \<longleftrightarrow> att_id a = att_id b \<and> att_operation_id a = att_operation_id b
     \<and> att_attempt_no a = att_attempt_no b \<and> att_target_node_id a = att_target_node_id b
     \<and> att_target_gateway_generation a = att_target_gateway_generation b
     \<and> att_route_seq a = att_route_seq b"
  by (auto simp: att_slot_def)

lemma att_slot_upd [simp]:
  "att_slot (a\<lparr>att_state := s\<rparr>) = att_slot a"
  "att_slot (a\<lparr>att_effect := e\<rparr>) = att_slot a"
  "att_slot (settle_attempt f now a) = att_slot a"
  "att_slot (expire_attempt now a) = att_slot a"
  "att_slot (end_superseded now a) = att_slot a"
  by (simp_all add: att_slot_def settle_attempt_def expire_attempt_def end_superseded_def)

lemma attempt_row_slot:
  "att_slot a = att_slot b \<Longrightarrow> attempt_row ops bound seq a = attempt_row ops bound seq b"
  by (simp add: attempt_row_def att_slot_eq)

text \<open>Update 1: a row is rewritten inside its slot, and an ended attempt stays ended.\<close>

lemma rows_replace:
  assumes rows: "route_rows ops A R bound seq" and mem: "a \<in> A" and slot: "att_slot b = att_slot a"
    and ended: "att_state a = AttemptEnded \<Longrightarrow> att_state b = AttemptEnded"
    and inj: "\<And>c. c \<in> A \<Longrightarrow> att_id c = att_id a \<Longrightarrow> c = a"
  shows "route_rows ops (insert b {c \<in> A. att_id c \<noteq> att_id b}) R bound seq"
proof -
  let ?A = "insert b {c \<in> A. att_id c \<noteq> att_id b}"
  have eqs: "att_id b = att_id a" "att_operation_id b = att_operation_id a"
    "att_attempt_no b = att_attempt_no a" "att_target_node_id b = att_target_node_id a"
    "att_target_gateway_generation b = att_target_gateway_generation a"
    "att_route_seq b = att_route_seq a"
    using slot by (simp_all add: att_slot_eq)
  have A: "?A = insert b (A - {a})" using inj eqs mem by auto
  have order: "attempt_order seq c d" if "c \<in> A" "d \<in> A" for c d
    using rows that by (auto simp: route_rows_def)
  have "attempt_order seq c d" if "c \<in> insert b (A - {a})" "d \<in> insert b (A - {a})" for c d
  proof -
    have "attempt_order seq b d" if "d \<in> A" "d \<noteq> a" for d
      using order [OF mem that(1)] that ended by (auto simp: attempt_order_def eqs)
    moreover have "attempt_order seq d b" if "d \<in> A" "d \<noteq> a" for d
      using order [OF that(1) mem] that by (auto simp: attempt_order_def eqs)
    moreover have "attempt_order seq b b" by (simp add: attempt_order_def)
    ultimately show ?thesis using that order by blast
  qed
  moreover have "attempt_row ops bound seq c" if "c \<in> insert b (A - {a})" for c
    using that rows mem attempt_row_slot [OF slot] by (auto simp: route_rows_def)
  moreover have "receipt_row ops (insert b (A - {a})) r" if "r \<in> R" for r
  proof -
    have "receipt_row ops A r" using rows that by (simp add: route_rows_def)
    then show ?thesis using mem ended eqs unfolding receipt_row_def by (metis Diff_iff insert_iff singletonD)
  qed
  ultimately show ?thesis using rows unfolding A route_rows_def by blast
qed

text \<open>Update 2: a receipt is added.\<close>

lemma rows_receipt:
  assumes rows: "route_rows ops A R bound seq" and row: "receipt_row ops A r"
    and one: "\<And>q. is_terminal_kind (rcp_kind r) \<Longrightarrow> q \<in> R \<Longrightarrow> is_terminal_kind (rcp_kind q)
                \<Longrightarrow> rcp_operation_id q \<noteq> rcp_operation_id r"
  shows "route_rows ops A (insert r {q \<in> R. rcp_id q \<noteq> rcp_id r}) bound seq"
  using assms unfolding route_rows_def by (auto; metis)

text \<open>Update 3: an attempt newer than every other of its operation is added.\<close>

lemma rows_attempt:
  assumes rows: "route_rows ops A R bound seq" and row: "attempt_row ops bound seq' a"
    and older: "\<And>b. b \<in> A \<Longrightarrow> att_operation_id b = att_operation_id a \<Longrightarrow>
       att_attempt_no b \<le> att_attempt_no a \<and> att_state b = AttemptEnded
       \<and> att_target_gateway_generation b \<le> att_target_gateway_generation a"
    and same: "\<And>b. b \<in> A \<Longrightarrow> att_operation_id b = att_operation_id a
       \<Longrightarrow> att_attempt_no b = att_attempt_no a \<Longrightarrow> att_id b = att_id a"
    and live: "\<And>r. r \<in> R \<Longrightarrow> rcp_operation_id r = att_operation_id a \<Longrightarrow> \<not> is_terminal_kind (rcp_kind r)"
    and seq: "seq' = seq(att_target_node_id a := att_route_seq a)"
    and step: "att_route_seq a = sat_add (seq (att_target_node_id a)) 1"
  shows "route_rows ops (insert a {c \<in> A. att_id c \<noteq> att_id a}) R bound seq'"
proof -
  let ?A = "insert a {c \<in> A. att_id c \<noteq> att_id a}"
  have up: "seq n \<le> seq' n" for n by (simp add: seq step sat_add_ge)
  have arow: "attempt_row ops bound seq c" if "c \<in> A" for c using rows that by (simp add: route_rows_def)
  have order: "attempt_order seq c d" if "c \<in> A" "d \<in> A" for c d
    using rows that by (auto simp: route_rows_def)
  have row': "attempt_row ops bound seq' c" if "c \<in> ?A" for c
    using that row arow up order_trans unfolding attempt_row_def by blast
  have fresh: "att_route_seq c \<noteq> att_route_seq a"
    if c: "c \<in> A" "att_target_node_id c = att_target_node_id a" "seq' (att_target_node_id a) \<noteq> - 1" for c
  proof -
    have "seq (att_target_node_id a) \<noteq> - 1"
    proof
      assume "seq (att_target_node_id a) = - 1"
      then have "seq' (att_target_node_id a) = - 1"
        using sat_add_ge [of "- 1 :: u64" 1] by (simp add: seq step word_order.extremum_unique)
      with c(3) show False by simp
    qed
    then have "seq (att_target_node_id a) < att_route_seq a" by (simp add: step sat_add_one_gt)
    moreover have "att_route_seq c \<le> seq (att_target_node_id a)"
      using arow [OF c(1)] c(2) by (simp add: attempt_row_def)
    ultimately show ?thesis by simp
  qed
  have old: "attempt_order seq' c d" if "c \<in> A" "d \<in> A" for c d
  proof -
    have "seq' n \<noteq> - 1 \<Longrightarrow> seq n \<noteq> - 1" for n
      using up [of n] by (metis word_order.extremum_unique)
    then show ?thesis using order [OF that] by (auto simp: attempt_order_def)
  qed
  have "attempt_order seq' c d" if "c \<in> ?A" "d \<in> ?A" for c d
  proof -
    have "attempt_order seq' c a" if "c \<in> A" "att_id c \<noteq> att_id a" for c
      using that older fresh by (auto simp: attempt_order_def)
    moreover have "attempt_order seq' a c" if "c \<in> A" "att_id c \<noteq> att_id a" for c
      using that older [OF that(1)] same [OF that(1)] fresh [OF that(1)]
      by (auto simp: attempt_order_def dest: order.antisym)
    moreover have "attempt_order seq' a a" by (simp add: attempt_order_def)
    ultimately show ?thesis using that old by blast
  qed
  moreover have "receipt_row ops ?A r" if r: "r \<in> R" for r
  proof -
    have rr: "receipt_row ops A r" using rows r by (simp add: route_rows_def)
    have cpa: "\<exists>b \<in> ?A. att_operation_id b = rcp_operation_id r
        \<and> rcp_target_gateway_generation r \<le> att_target_gateway_generation b"
      if k: "rcp_kind r = ControlPlaneAccepted"
    proof -
      obtain b where b: "b \<in> A" "att_operation_id b = rcp_operation_id r"
        "rcp_target_gateway_generation r \<le> att_target_gateway_generation b"
        using rr k by (auto simp: receipt_row_def)
      show ?thesis
      proof (cases "att_operation_id b = att_operation_id a")
        case True
        then show ?thesis using older [OF b(1)] b by force
      next
        case False
        then have "att_id b \<noteq> att_id a"
          using arow [OF b(1)] row by (auto simp: attempt_row_def attempt_id_inj)
        then show ?thesis using b by blast
      qed
    qed
    show ?thesis using rr cpa live [OF r] unfolding receipt_row_def by auto
  qed
  ultimately show ?thesis using rows row' unfolding route_rows_def by blast
qed

text \<open>Update 4: an operation id that nothing refers to yet is registered, and the generations a
  Node has reached only grow.\<close>

lemma rows_weaken:
  assumes rows: "route_rows ops A R bound seq"
    and ops: "\<And>i operation. ops i = Some operation \<Longrightarrow> ops' i = Some operation"
    and bound: "\<And>a. a \<in> A \<Longrightarrow> bound (att_target_node_id a) (att_target_gateway_generation a)
                  \<Longrightarrow> bound' (att_target_node_id a) (att_target_gateway_generation a)"
  shows "route_rows ops' A R bound' seq"
proof -
  have "receipt_row ops A r \<Longrightarrow> receipt_row ops' A r" for r
    using ops unfolding receipt_row_def by (metis option.exhaust)
  moreover have "a \<in> A \<Longrightarrow> attempt_row ops bound seq a \<Longrightarrow> attempt_row ops' bound' seq a" for a
    using ops bound unfolding attempt_row_def by blast
  ultimately show ?thesis using rows unfolding route_rows_def by blast
qed

section \<open>The state\<close>

definition gateway_bound :: "FabricState \<Rightarrow> string \<Rightarrow> u64 \<Rightarrow> bool" where
  "gateway_bound s n g \<longleftrightarrow>
     (case bt_get (gateway_leases s) n of
        Some lease \<Rightarrow> g \<le> gwl_gateway_generation lease
      | None \<Rightarrow> (case bt_get (nodes s) n of
           Some node \<Rightarrow> node_administrative_status node = NodeIsRevoked
         | None \<Rightarrow> False))"

definition route_inv :: "FabricState \<Rightarrow> bool" where
  "route_inv s \<longleftrightarrow>
     bt_keyed op_id (operations s) \<and> bt_keyed att_id (attempts s) \<and> bt_keyed rcp_id (receipts s)
     \<and> route_rows (bt_get (operations s)) (set (bt_values (attempts s))) (set (bt_values (receipts s)))
         (gateway_bound s) (counter (route_sequences s))"

text \<open>The history a run may only extend.\<close>

definition history_ext :: "FabricState \<Rightarrow> FabricState \<Rightarrow> bool" where
  "history_ext s t \<longleftrightarrow>
     bt_extends (operations s) (operations t) \<and> bt_extends (receipts s) (receipts t)
     \<and> bt_extends (operation_idempotency s) (operation_idempotency t)
     \<and> (\<forall>n. counter (route_sequences s) n \<le> counter (route_sequences t) n)"

lemma history_ext_refl [simp]: "history_ext s s"
  by (simp add: history_ext_def)

lemma history_ext_trans: "history_ext s t \<Longrightarrow> history_ext t u \<Longrightarrow> history_ext s u"
  unfolding history_ext_def by (auto intro: bt_extends_trans order_trans)

lemma route_inv_default [simp]: "route_inv default_state"
  by (simp add: route_inv_def default_state_def route_rows_def bt_values_def)

text \<open>What the invariant does not look at.\<close>

lemma route_inv_frame:
  assumes "route_inv s" and "operations t = operations s" and "attempts t = attempts s"
    and "receipts t = receipts s" and "route_sequences t = route_sequences s"
    and "\<And>n g. gateway_bound s n g \<Longrightarrow> gateway_bound t n g"
  shows "route_inv t"
proof -
  have rows: "route_rows (bt_get (operations s)) (set (bt_values (attempts s)))
      (set (bt_values (receipts s))) (gateway_bound s) (counter (route_sequences s))"
    using assms(1) by (simp add: route_inv_def)
  have "route_rows (bt_get (operations s)) (set (bt_values (attempts s)))
      (set (bt_values (receipts s))) (gateway_bound t) (counter (route_sequences s))"
    by (rule rows_weaken [OF rows]) (simp_all add: assms(6))
  then show ?thesis using assms by (simp add: route_inv_def)
qed

lemma history_ext_frame:
  assumes "operations t = operations s" and "receipts t = receipts s"
    and "operation_idempotency t = operation_idempotency s" and "route_sequences t = route_sequences s"
  shows "history_ext s t"
  using assms by (simp add: history_ext_def)

lemma gateway_bound_cong:
  "gateway_leases t = gateway_leases s \<Longrightarrow> nodes t = nodes s \<Longrightarrow> gateway_bound t = gateway_bound s"
  by (auto simp: gateway_bound_def fun_eq_iff split: option.split)

lemma gateway_bound_upd [simp]:
  "gateway_bound (s\<lparr>attempts := x1\<rparr>) = gateway_bound s"
  "gateway_bound (s\<lparr>receipts := x2\<rparr>) = gateway_bound s"
  "gateway_bound (s\<lparr>operations := x3\<rparr>) = gateway_bound s"
  "gateway_bound (s\<lparr>route_sequences := x4\<rparr>) = gateway_bound s"
  "gateway_bound (s\<lparr>ordering_sequences := x4\<rparr>) = gateway_bound s"
  "gateway_bound (s\<lparr>operation_idempotency := x5\<rparr>) = gateway_bound s"
  "gateway_bound (s\<lparr>rate_windows := x6\<rparr>) = gateway_bound s"
  "gateway_bound (s\<lparr>revision := x7\<rparr>) = gateway_bound s"
  by (rule gateway_bound_cong; simp)+

lemma route_attempt_mem:
  assumes "route_inv s" and "bt_get (attempts s) k = Some a"
  shows "a \<in> set (bt_values (attempts s))" and "att_id a = k"
  using assms bt.get_vals [of att_id "attempts s"] bt.get_key [of att_id "attempts s"]
  by (simp_all add: route_inv_def)

lemma route_attempt_row:
  "route_inv s \<Longrightarrow> a \<in> set (bt_values (attempts s)) \<Longrightarrow>
     attempt_row (bt_get (operations s)) (gateway_bound s) (counter (route_sequences s)) a"
  by (simp add: route_inv_def route_rows_def)

lemma route_attempt_order:
  "route_inv s \<Longrightarrow> a \<in> set (bt_values (attempts s)) \<Longrightarrow> b \<in> set (bt_values (attempts s)) \<Longrightarrow>
     attempt_order (counter (route_sequences s)) a b"
  by (simp add: route_inv_def route_rows_def)

lemma route_receipt_row:
  "route_inv s \<Longrightarrow> r \<in> set (bt_values (receipts s)) \<Longrightarrow>
     receipt_row (bt_get (operations s)) (set (bt_values (attempts s))) r"
  by (simp add: route_inv_def route_rows_def)

lemma route_same_attempt:
  assumes "route_inv s" and "a \<in> set (bt_values (attempts s))" and "b \<in> set (bt_values (attempts s))"
    and "att_id a = att_id b"
  shows "a = b"
  using assms bt.vals_inj [of att_id "attempts s"] by (simp add: route_inv_def)

lemma route_inv_replace:
  assumes inv: "route_inv s" and get: "bt_get (attempts s) k = Some a" and slot: "att_slot b = att_slot a"
    and ended: "att_state a = AttemptEnded \<Longrightarrow> att_state b = AttemptEnded"
  shows "route_inv (s\<lparr>attempts := bt_insert k b (attempts s)\<rparr>)"
proof -
  have keyed: "bt_keyed att_id (attempts s)" using inv by (simp add: route_inv_def)
  have mem: "a \<in> set (bt_values (attempts s))" and k: "att_id a = k"
    using route_attempt_mem [OF inv get] by auto
  have b: "att_id b = k" using slot k by (simp add: att_slot_eq)
  have vals: "set (bt_values (bt_insert k b (attempts s)))
      = insert b {c \<in> set (bt_values (attempts s)). att_id c \<noteq> att_id b}"
    using bt.vals_ins [OF keyed, of b] b by simp
  have "route_rows (bt_get (operations s)) (insert b {c \<in> set (bt_values (attempts s)). att_id c \<noteq> att_id b})
      (set (bt_values (receipts s))) (gateway_bound s) (counter (route_sequences s))"
    using inv route_same_attempt [OF inv]
    by (intro rows_replace [OF _ mem slot ended]) (auto simp: route_inv_def mem)
  then show ?thesis using inv b bt_keyed_insert [OF keyed b] by (simp add: route_inv_def vals)
qed

lemma route_inv_receipt:
  assumes inv: "route_inv s"
    and row: "receipt_row (bt_get (operations s)) (set (bt_values (attempts s))) r"
    and one: "is_terminal_kind (rcp_kind r) \<Longrightarrow> \<not> has_receipt s (rcp_operation_id r) is_terminal_kind"
  shows "route_inv (s\<lparr>receipts := bt_insert (rcp_id r) r (receipts s)\<rparr>)"
proof -
  have keyed: "bt_keyed rcp_id (receipts s)" using inv by (simp add: route_inv_def)
  have "route_rows (bt_get (operations s)) (set (bt_values (attempts s)))
      (insert r {q \<in> set (bt_values (receipts s)). rcp_id q \<noteq> rcp_id r})
      (gateway_bound s) (counter (route_sequences s))"
    using inv row one by (intro rows_receipt) (auto simp: route_inv_def has_receipt_def list_ex_iff)
  then show ?thesis
    using inv bt_keyed_insert [OF keyed, of r] bt.vals_ins [OF keyed, of r] by (simp add: route_inv_def)
qed

text \<open>The latest attempt is the only one that may be open.\<close>

lemma operation_attempts_mem:
  "a \<in> set (operation_attempts s i) \<longleftrightarrow> a \<in> set (bt_values (attempts s)) \<and> att_operation_id a = i"
  by (auto simp: operation_attempts_def)

lemma latest_attempt_eq: "last_by_key att_attempt_no (operation_attempts s i) = latest_attempt s i"
  by (simp add: latest_attempt_def last_by_key_max)

lemma latest_attempt_Some:
  assumes inv: "route_inv s" and latest: "latest_attempt s i = Some a"
  shows "a \<in> set (bt_values (attempts s))" and "att_operation_id a = i"
    and "bt_get (attempts s) (att_id a) = Some a"
    and "b \<in> set (bt_values (attempts s)) \<Longrightarrow> att_operation_id b = i \<Longrightarrow>
           att_attempt_no b \<le> att_attempt_no a
           \<and> att_target_gateway_generation b \<le> att_target_gateway_generation a
           \<and> (b \<noteq> a \<longrightarrow> att_state b = AttemptEnded)"
proof -
  have mem: "a \<in> set (operation_attempts s i)"
    and max: "\<forall>b \<in> set (operation_attempts s i). att_attempt_no b \<le> att_attempt_no a"
    using max_by_key_Some [of att_attempt_no "operation_attempts s i" a] latest
    by (auto simp: latest_attempt_def)
  then show m: "a \<in> set (bt_values (attempts s))" and i: "att_operation_id a = i"
    by (auto simp: operation_attempts_mem)
  show "bt_get (attempts s) (att_id a) = Some a"
    using m inv bt_keyed_vals [of att_id "attempts s"] by (simp add: route_inv_def)
  show "att_attempt_no b \<le> att_attempt_no a
      \<and> att_target_gateway_generation b \<le> att_target_gateway_generation a
      \<and> (b \<noteq> a \<longrightarrow> att_state b = AttemptEnded)"
    if "b \<in> set (bt_values (attempts s))" "att_operation_id b = i"
    using route_attempt_order [OF inv that(1) m] that max i
    by (auto simp: operation_attempts_mem attempt_order_def)
qed

lemma has_receipt_terminal_closed:
  assumes "route_inv s" and "has_receipt s i is_terminal_kind"
    and "a \<in> set (bt_values (attempts s))" and "att_operation_id a = i"
  shows "att_state a = AttemptEnded"
  using assms route_receipt_row unfolding has_receipt_def list_ex_iff receipt_row_def by metis

lemma no_receipt_get:
  assumes inv: "route_inv s" and none: "\<not> has_receipt s i P" and k: "P k"
  shows "bt_get (receipts s) (receipt_id i k g) = None"
proof (rule ccontr)
  assume "bt_get (receipts s) (receipt_id i k g) \<noteq> None"
  then obtain r where r: "bt_get (receipts s) (receipt_id i k g) = Some r" by blast
  have mem: "r \<in> set (bt_values (receipts s))" and key: "rcp_id r = receipt_id i k g"
    using inv r bt.get_vals [of rcp_id "receipts s"] bt.get_key [of rcp_id "receipts s"]
    by (simp_all add: route_inv_def)
  have "rcp_operation_id r = i \<and> rcp_kind r = k"
    using route_receipt_row [OF inv mem] key by (simp add: receipt_row_def receipt_id_inj)
  with mem none k show False unfolding has_receipt_def list_ex_iff by blast
qed

end
