(* ===== verification/Authority.thy ===== *)
theory Authority
  imports Control_Plane Route_Invariant
begin

text \<open>
  What the authority tables (Control Plane lease, enrollments, Nodes, certificates, gateway leases)
  promise. The invariant: every table is keyed, tokens are unique, and a certificate is unrevoked
  exactly when it is the current one of a Node that is not revoked. The order: revocation and
  consumption are permanent and generations never go back.
\<close>

section \<open>Invariant and order\<close>

definition current_certificate :: "FabricState \<Rightarrow> NodeCertificate \<Rightarrow> bool" where
  "current_certificate s c \<longleftrightarrow>
     (\<exists>node. bt_get (nodes s) (cert_node_id c) = Some node
        \<and> node_certificate_serial node = cert_serial c
        \<and> node_administrative_status node \<noteq> NodeIsRevoked)"

definition certificates_inv :: "FabricState \<Rightarrow> bool" where
  "certificates_inv s \<longleftrightarrow>
     bt_keyed node_id (nodes s) \<and> bt_keyed cert_serial (certificates s)
     \<and> (\<forall>k c. bt_get (certificates s) k = Some c \<longrightarrow>
          (cert_revoked_at_unix_ms c = None \<longleftrightarrow> current_certificate s c)
          \<and> (k \<in> revoked_certificate_serials s \<longleftrightarrow> cert_revoked_at_unix_ms c \<noteq> None))
     \<and> (\<forall>n node. bt_get (nodes s) n = Some node \<longrightarrow>
          (\<exists>c. bt_get (certificates s) (node_certificate_serial node) = Some c \<and> cert_node_id c = n))
     \<and> (\<forall>k \<in> revoked_certificate_serials s. bt_get (certificates s) k \<noteq> None)"

definition enrollments_inv :: "FabricState \<Rightarrow> bool" where
  "enrollments_inv s \<longleftrightarrow>
     bt_keyed enr_id (enrollments s)
     \<and> (\<forall>d \<in> set (bt_values (enrollments s)). \<forall>e \<in> set (bt_values (enrollments s)).
          enr_token_digest d = enr_token_digest e \<longrightarrow> d = e)"

definition company_inv :: "FabricState \<Rightarrow> bool" where
  "company_inv s \<longleftrightarrow>
     (\<forall>k lease. bt_get (control_plane_leases s) k = Some lease \<longrightarrow>
        authority_company_id s = Some k \<and> cpl_company_id lease = k)"

definition authority_inv :: "FabricState \<Rightarrow> bool" where
  "authority_inv s \<longleftrightarrow> certificates_inv s \<and> enrollments_inv s \<and> company_inv s"

definition nodes_ext :: "FabricState \<Rightarrow> FabricState \<Rightarrow> bool" where
  "nodes_ext s t \<longleftrightarrow>
     (\<forall>n node. bt_get (nodes s) n = Some node \<longrightarrow>
        (\<exists>node'. bt_get (nodes t) n = Some node'
           \<and> (node_administrative_status node = NodeIsRevoked \<longrightarrow>
                node_administrative_status node' = NodeIsRevoked)))
     \<and> revoked_certificate_serials s \<subseteq> revoked_certificate_serials t
     \<and> (\<forall>n g. gateway_bound s n g \<longrightarrow> gateway_bound t n g)"

definition enrollments_ext :: "FabricState \<Rightarrow> FabricState \<Rightarrow> bool" where
  "enrollments_ext s t \<longleftrightarrow>
     (\<forall>i e. bt_get (enrollments s) i = Some e \<longrightarrow>
        (\<exists>e'. bt_get (enrollments t) i = Some e' \<and> enr_token_digest e' = enr_token_digest e
           \<and> (enr_status e \<noteq> EnrollmentIsPending \<longrightarrow> e' = e)))"

definition company_ext :: "FabricState \<Rightarrow> FabricState \<Rightarrow> bool" where
  "company_ext s t \<longleftrightarrow>
     (\<forall>k lease. bt_get (control_plane_leases s) k = Some lease \<longrightarrow>
        (\<exists>lease'. bt_get (control_plane_leases t) k = Some lease'
           \<and> cpl_control_plane_generation lease \<le> cpl_control_plane_generation lease'
           \<and> cpl_revision lease \<le> cpl_revision lease'))
     \<and> (authority_company_id s \<noteq> None \<longrightarrow> authority_company_id t = authority_company_id s)"

definition authority_ext :: "FabricState \<Rightarrow> FabricState \<Rightarrow> bool" where
  "authority_ext s t \<longleftrightarrow> nodes_ext s t \<and> enrollments_ext s t \<and> company_ext s t"

definition authority_good :: "FabricState \<Rightarrow> FabricState \<Rightarrow> bool" where
  "authority_good s t \<longleftrightarrow> authority_inv t \<and> authority_ext s t"

lemma nodes_ext_refl [simp]: "nodes_ext s s"
  by (simp add: nodes_ext_def)

lemma enrollments_ext_refl [simp]: "enrollments_ext s s"
  by (simp add: enrollments_ext_def)

lemma company_ext_refl [simp]: "company_ext s s"
  by (simp add: company_ext_def)

lemma authority_ext_refl [simp]: "authority_ext s s"
  by (simp add: authority_ext_def)

lemma nodes_ext_trans: "nodes_ext s t \<Longrightarrow> nodes_ext t u \<Longrightarrow> nodes_ext s u"
  unfolding nodes_ext_def by (meson subset_trans)

lemma enrollments_ext_trans: "enrollments_ext s t \<Longrightarrow> enrollments_ext t u \<Longrightarrow> enrollments_ext s u"
  unfolding enrollments_ext_def by (metis (no_types, lifting))

lemma company_ext_trans: "company_ext s t \<Longrightarrow> company_ext t u \<Longrightarrow> company_ext s u"
proof -
  assume st: "company_ext s t" and tu: "company_ext t u"
  have "\<exists>lease''. bt_get (control_plane_leases u) k = Some lease''
      \<and> cpl_control_plane_generation lease \<le> cpl_control_plane_generation lease''
      \<and> cpl_revision lease \<le> cpl_revision lease''"
    if k: "bt_get (control_plane_leases s) k = Some lease" for k lease
  proof -
    obtain m where m: "bt_get (control_plane_leases t) k = Some m"
      "cpl_control_plane_generation lease \<le> cpl_control_plane_generation m"
      "cpl_revision lease \<le> cpl_revision m"
      using st k unfolding company_ext_def by blast
    then show ?thesis using tu unfolding company_ext_def by (meson order_trans)
  qed
  then show "company_ext s u" using st tu unfolding company_ext_def by auto
qed

lemma authority_ext_trans: "authority_ext s t \<Longrightarrow> authority_ext t u \<Longrightarrow> authority_ext s u"
  by (auto simp: authority_ext_def intro: nodes_ext_trans enrollments_ext_trans company_ext_trans)

lemma authority_inv_default [simp]: "authority_inv default_state"
  by (simp add: authority_inv_def certificates_inv_def enrollments_inv_def company_inv_def
      default_state_def bt_values_def)

section \<open>Frames\<close>

definition same_authority :: "FabricState \<Rightarrow> FabricState \<Rightarrow> bool" where
  "same_authority s t \<longleftrightarrow>
     authority_company_id t = authority_company_id s \<and> control_plane_leases t = control_plane_leases s
     \<and> enrollments t = enrollments s \<and> nodes t = nodes s \<and> certificates t = certificates s
     \<and> revoked_certificate_serials t = revoked_certificate_serials s
     \<and> gateway_leases t = gateway_leases s"

lemma nodes_frame:
  assumes "nodes t = nodes s" and "certificates t = certificates s"
    and "revoked_certificate_serials t = revoked_certificate_serials s"
    and "gateway_leases t = gateway_leases s"
  shows "nodes_ext s t" and "certificates_inv s \<Longrightarrow> certificates_inv t"
proof -
  show "nodes_ext s t" using assms gateway_bound_cong [of t s] by (simp add: nodes_ext_def)
  have "current_certificate t = current_certificate s"
    by (simp add: current_certificate_def fun_eq_iff assms)
  then show "certificates_inv s \<Longrightarrow> certificates_inv t"
    unfolding certificates_inv_def assms by (elim conjE) (intro conjI; assumption?; simp only: simp_thms)
qed

lemma enrollments_frame:
  assumes "enrollments t = enrollments s"
  shows "enrollments_ext s t" and "enrollments_inv s \<Longrightarrow> enrollments_inv t"
  using assms by (simp_all add: enrollments_ext_def enrollments_inv_def)

lemma company_frame:
  assumes "control_plane_leases t = control_plane_leases s"
    and "authority_company_id t = authority_company_id s"
  shows "company_ext s t" and "company_inv s \<Longrightarrow> company_inv t"
  using assms by (simp_all add: company_ext_def company_inv_def)

lemma same_authority_good:
  assumes "authority_inv s" and "same_authority s t"
  shows "authority_good s t"
  using assms nodes_frame [of t s] enrollments_frame [of t s] company_frame [of t s]
  by (simp add: same_authority_def authority_good_def authority_inv_def authority_ext_def)

section \<open>Enrollments\<close>

lemma enrollments_update:
  assumes inv: "enrollments_inv s" and get: "bt_get (enrollments s) i = Some e"
    and id: "enr_id e' = i" and digest: "enr_token_digest e' = enr_token_digest e"
    and pending: "enr_status e = EnrollmentIsPending"
    and t: "enrollments t = bt_insert i e' (enrollments s)"
  shows "enrollments_inv t" and "enrollments_ext s t"
proof -
  have keyed: "bt_keyed enr_id (enrollments s)" using inv by (simp add: enrollments_inv_def)
  have e: "enr_id e = i" "e \<in> set (bt_values (enrollments s))"
    using bt.get_key [OF keyed get] bt.get_vals [OF keyed get] by auto
  have uniq: "d \<in> set (bt_values (enrollments s)) \<Longrightarrow> enr_token_digest d = enr_token_digest e \<Longrightarrow> d = e" for d
    using inv e(2) by (simp add: enrollments_inv_def)
  have vals: "set (bt_values (enrollments t)) = insert e' {d \<in> set (bt_values (enrollments s)). enr_id d \<noteq> i}"
    using bt.vals_ins [OF keyed, of e'] id t by simp
  have "bt_keyed enr_id (enrollments t)" using bt_keyed_insert [OF keyed id] t by simp
  then show "enrollments_inv t"
    using inv uniq digest e unfolding enrollments_inv_def vals by auto
  show "enrollments_ext s t" using get digest pending by (auto simp: enrollments_ext_def t)
qed

lemma enrollments_create:
  assumes inv: "enrollments_inv s" and new: "bt_get (enrollments s) (enr_id e) = None"
    and digest: "\<not> list_ex (\<lambda>d. enr_token_digest d = enr_token_digest e) (bt_values (enrollments s))"
    and t: "enrollments t = bt_insert (enr_id e) e (enrollments s)"
  shows "enrollments_inv t" and "enrollments_ext s t"
proof -
  have keyed: "bt_keyed enr_id (enrollments s)" using inv by (simp add: enrollments_inv_def)
  have vals: "set (bt_values (enrollments t)) = insert e (set (bt_values (enrollments s)))"
    using bt.vals_ins_fresh [OF keyed new] t by simp
  have "bt_keyed enr_id (enrollments t)" using bt_keyed_insert [OF keyed, of e] t by simp
  then show "enrollments_inv t"
    using inv digest unfolding enrollments_inv_def vals by (auto simp: list_ex_iff)
  show "enrollments_ext s t" using new by (auto simp: enrollments_ext_def t)
qed

lemma create_enrollment_good:
  assumes inv: "authority_inv s"
    and f: "Enrollment.create_enrollment cd actor c i tok nm caps d dg ex now s = (Inr e, t)"
  shows "authority_good s t"
proof -
  have 1: "bt_get (enrollments s) (enr_id e) = None"
    "\<not> list_ex (\<lambda>d. enr_token_digest d = enr_token_digest e) (bt_values (enrollments s))"
    "t = s\<lparr>enrollments := bt_insert (enr_id e) e (enrollments s)\<rparr>"
    using f by (auto simp: create_enrollment_def check_eq_Inr Let_def bt_contains_def)
  have "enrollments_inv t" "enrollments_ext s t"
    using enrollments_create [OF _ 1(1,2), of t] inv by (simp_all add: 1(3) authority_inv_def)
  then show ?thesis
    using inv nodes_frame [of t s] company_frame [of t s]
    by (simp add: authority_good_def authority_inv_def authority_ext_def 1(3))
qed

lemma revoke_enrollment_good:
  assumes inv: "authority_inv s" and f: "revoke_enrollment actor c i rv now s = (Inr e', t)"
  shows "authority_good s t"
proof -
  obtain e where 1: "bt_get (enrollments s) i = Some e" "enr_status e = EnrollmentIsPending"
    "e' = e\<lparr>enr_status := EnrollmentIsRevoked, enr_revision := sat_add (enr_revision e) 1,
            enr_updated_at_unix_ms := now\<rparr>"
    "t = s\<lparr>enrollments := bt_insert i e' (enrollments s)\<rparr>"
    using f by (auto simp: revoke_enrollment_def check_eq_Inr Let_def)
  have "enr_id e = i" using bt.get_key 1(1) inv by (auto simp: authority_inv_def enrollments_inv_def)
  then have "enrollments_inv t" "enrollments_ext s t"
    using enrollments_update [OF _ 1(1) _ _ 1(2), of e' t] inv by (simp_all add: 1(3,4) authority_inv_def)
  then show ?thesis
    using inv nodes_frame [of t s] company_frame [of t s]
    by (simp add: authority_good_def authority_inv_def authority_ext_def 1(4))
qed

section \<open>Certificates\<close>

lemma certificates_invD:
  assumes "certificates_inv s"
  shows "bt_keyed node_id (nodes s)" and "bt_keyed cert_serial (certificates s)"
    and "bt_get (certificates s) k = Some c \<Longrightarrow> cert_serial c = k"
    and "bt_get (certificates s) k = Some c \<Longrightarrow>
           cert_revoked_at_unix_ms c = None \<longleftrightarrow> current_certificate s c"
    and "bt_get (certificates s) k = Some c \<Longrightarrow>
           k \<in> revoked_certificate_serials s \<longleftrightarrow> cert_revoked_at_unix_ms c \<noteq> None"
    and "bt_get (nodes s) n = Some node \<Longrightarrow>
           \<exists>c. bt_get (certificates s) (node_certificate_serial node) = Some c \<and> cert_node_id c = n"
    and "k \<in> revoked_certificate_serials s \<Longrightarrow> \<exists>c. bt_get (certificates s) k = Some c"
  using assms bt.get_key [of cert_serial "certificates s" k] unfolding certificates_inv_def by blast+

lemma revoke_cert_sel [simp]:
  "cert_serial (revoke_cert now c) = cert_serial c" "cert_node_id (revoke_cert now c) = cert_node_id c"
  "cert_revoked_at_unix_ms (revoke_cert now c) = Some now"
  by (simp_all add: revoke_cert_def)

text \<open>
  A Node's row is replaced while its current certificate is retired; then, unless the Node is now
  revoked, a new current certificate is issued.
\<close>

lemma certificates_retire:
  assumes inv: "certificates_inv s" and get: "bt_get (nodes s) n = Some node"
    and node': "node_id node' = n" "node_certificate_serial node' = node_certificate_serial node"
      "node_administrative_status node' = NodeIsRevoked"
    and t: "nodes t = bt_insert n node' (nodes s)"
      "certificates t = bt_modify (node_certificate_serial node) (revoke_cert now) (certificates s)"
      "revoked_certificate_serials t = insert (node_certificate_serial node) (revoked_certificate_serials s)"
  shows "certificates_inv t"
proof -
  note I = certificates_invD [OF inv]
  let ?k = "node_certificate_serial node"
  obtain c where c: "bt_get (certificates s) ?k = Some c" "cert_node_id c = n" using I(6) [OF get] by auto
  have cur: "current_certificate t d \<longleftrightarrow> current_certificate s d \<and> k \<noteq> ?k"
    if "bt_get (certificates s) k = Some d" for k d
    using that I(3) [OF that] c get node' by (cases "cert_node_id d = n") (auto simp: current_certificate_def t)
  have "(cert_revoked_at_unix_ms d = None \<longleftrightarrow> current_certificate t d)
      \<and> (k \<in> revoked_certificate_serials t \<longleftrightarrow> cert_revoked_at_unix_ms d \<noteq> None)"
    if d: "bt_get (certificates t) k = Some d" for k d
  proof (cases "k = ?k")
    case True
    then have "d = revoke_cert now c" using d c by (simp add: t)
    moreover have "\<not> current_certificate t (revoke_cert now c)"
      using c node' by (simp add: current_certificate_def t)
    ultimately show ?thesis using True by (simp add: t)
  next
    case False
    then have "bt_get (certificates s) k = Some d" using d by (simp add: t)
    then show ?thesis using False cur I(4,5) by (auto simp: t)
  qed
  moreover have "\<exists>d. bt_get (certificates t) (node_certificate_serial m) = Some d \<and> cert_node_id d = j"
    if "bt_get (nodes t) j = Some m" for j m
    using that I(6) [of j m] c node' by (auto simp: t split: if_split_asm)
  moreover have "bt_get (certificates t) k \<noteq> None" if "k \<in> revoked_certificate_serials t" for k
    using that I(7) [of k] c by (auto simp: t)
  moreover have "bt_keyed node_id (nodes t)" "bt_keyed cert_serial (certificates t)"
    using bt_keyed_insert [OF I(1) node'(1)] bt_keyed_modify [OF I(2), of "revoke_cert now"] by (simp_all add: t)
  ultimately show ?thesis unfolding certificates_inv_def by blast
qed

lemma certificates_issue:
  assumes inv: "certificates_inv s"
    and old: "\<And>c. bt_get (certificates s) k' = Some c \<Longrightarrow> False"
    and retired: "\<And>node. bt_get (nodes s) n = Some node \<Longrightarrow> node_administrative_status node = NodeIsRevoked"
    and node': "node_id node' = n" "node_certificate_serial node' = k'"
      "node_administrative_status node' \<noteq> NodeIsRevoked"
    and c': "cert_serial c' = k'" "cert_node_id c' = n" "cert_revoked_at_unix_ms c' = None"
    and t: "nodes t = bt_insert n node' (nodes s)" "certificates t = bt_insert k' c' (certificates s)"
      "revoked_certificate_serials t = revoked_certificate_serials s"
  shows "certificates_inv t"
proof -
  note I = certificates_invD [OF inv]
  have k': "k' \<notin> revoked_certificate_serials s" using I(7) old by blast
  have cur: "current_certificate t d \<longleftrightarrow> current_certificate s d"
    if "bt_get (certificates s) k = Some d" for k d
    using that I(3) [OF that] old node' retired
    by (cases "cert_node_id d = n") (auto simp: current_certificate_def t)
  have "(cert_revoked_at_unix_ms d = None \<longleftrightarrow> current_certificate t d)
      \<and> (k \<in> revoked_certificate_serials t \<longleftrightarrow> cert_revoked_at_unix_ms d \<noteq> None)"
    if d: "bt_get (certificates t) k = Some d" for k d
  proof (cases "k = k'")
    case True
    then have "d = c'" using d by (simp add: t)
    moreover have "current_certificate t c'" using c' node' by (simp add: current_certificate_def t)
    ultimately show ?thesis using True k' c' by (simp add: t)
  next
    case False
    then have "bt_get (certificates s) k = Some d" using d by (simp add: t)
    then show ?thesis using cur I(4,5) by (auto simp: t)
  qed
  moreover have "\<exists>d. bt_get (certificates t) (node_certificate_serial m) = Some d \<and> cert_node_id d = j"
    if "bt_get (nodes t) j = Some m" for j m
    using that I(6) [of j m] c' node' old by (auto simp: t split: if_split_asm)
  moreover have "bt_get (certificates t) k \<noteq> None" if "k \<in> revoked_certificate_serials t" for k
    using that I(7) [of k] by (auto simp: t)
  moreover have "bt_keyed node_id (nodes t)" "bt_keyed cert_serial (certificates t)"
    using bt_keyed_insert [OF I(1) node'(1)] bt_keyed_insert [OF I(2) c'(1)] by (simp_all add: t)
  ultimately show ?thesis unfolding certificates_inv_def by blast
qed

lemma certificates_renew:
  assumes inv: "certificates_inv s" and get: "bt_get (nodes s) n = Some node"
    and old: "bt_get (certificates s) k' = None"
    and node': "node_id node' = n" "node_certificate_serial node' = k'"
      "node_administrative_status node' \<noteq> NodeIsRevoked"
    and c': "cert_serial c' = k'" "cert_node_id c' = n" "cert_revoked_at_unix_ms c' = None"
    and t: "nodes t = bt_insert n node' (nodes s)"
      "certificates t = bt_insert k' c'
         (bt_modify (node_certificate_serial node) (revoke_cert now) (certificates s))"
      "revoked_certificate_serials t = insert (node_certificate_serial node) (revoked_certificate_serials s)"
  shows "certificates_inv t"
proof -
  let ?u = "s\<lparr>nodes := bt_insert n (node\<lparr>node_id := n, node_administrative_status := NodeIsRevoked\<rparr>) (nodes s),
              certificates := bt_modify (node_certificate_serial node) (revoke_cert now) (certificates s),
              revoked_certificate_serials := insert (node_certificate_serial node) (revoked_certificate_serials s)\<rparr>"
  have u: "certificates_inv ?u"
    by (rule certificates_retire [OF inv get]) simp_all
  obtain c where "bt_get (certificates s) (node_certificate_serial node) = Some c"
    using certificates_invD(6) [OF inv get] by auto
  then have "node_certificate_serial node \<noteq> k'" using old by auto
  have twice: "bt_insert n node' (bt_insert n x m) = bt_insert n node' m" for x and m :: "CompanyNode btree"
    by (induction n x m rule: bt_insert.induct) auto
  show ?thesis
    by (rule certificates_issue [OF u _ _ node' c']) 
      (use old \<open>node_certificate_serial node \<noteq> k'\<close> in \<open>auto simp: t twice split: if_split_asm\<close>)
qed

lemma certificates_touch:
  assumes inv: "certificates_inv s" and get: "bt_get (nodes s) n = Some node"
    and node': "node_id node' = n" "node_certificate_serial node' = node_certificate_serial node"
      "node_administrative_status node' = NodeIsRevoked \<longleftrightarrow> node_administrative_status node = NodeIsRevoked"
    and t: "nodes t = bt_insert n node' (nodes s)" "certificates t = certificates s"
      "revoked_certificate_serials t = revoked_certificate_serials s"
  shows "certificates_inv t"
proof -
  note I = certificates_invD [OF inv]
  have cur: "current_certificate t d \<longleftrightarrow> current_certificate s d" for d
    using get node' by (cases "cert_node_id d = n") (auto simp: current_certificate_def t)
  have "\<exists>d. bt_get (certificates s) (node_certificate_serial m) = Some d \<and> cert_node_id d = j"
    if "bt_get (nodes t) j = Some m" for j m
    using that I(6) [of j m] I(6) [OF get] node' by (auto simp: t split: if_split_asm)
  moreover have "bt_keyed node_id (nodes t)" using bt_keyed_insert [OF I(1) node'(1)] by (simp add: t)
  ultimately show ?thesis using inv cur unfolding certificates_inv_def t(2,3) by blast
qed

section \<open>Operations on Nodes\<close>

text \<open>Gateway leases may change everything but their generation, which only grows.\<close>

lemma bound_same_generation:
  assumes leases: "\<And>n. map_option gwl_gateway_generation (bt_get (gateway_leases t) n)
                     = map_option gwl_gateway_generation (bt_get (gateway_leases s) n)"
    and revoked: "\<And>n node. bt_get (nodes s) n = Some node
                     \<Longrightarrow> node_administrative_status node = NodeIsRevoked
                     \<Longrightarrow> \<exists>node'. bt_get (nodes t) n = Some node' \<and> node_administrative_status node' = NodeIsRevoked"
    and b: "gateway_bound s n g"
  shows "gateway_bound t n g"
proof (cases "bt_get (gateway_leases s) n")
  case None
  then have "bt_get (gateway_leases t) n = None" using leases [of n] by simp
  then show ?thesis using b None revoked [of n] by (auto simp: gateway_bound_def split: option.splits)
next
  case (Some l)
  then obtain l' where "bt_get (gateway_leases t) n = Some l'" "gwl_gateway_generation l' = gwl_gateway_generation l"
    using leases [of n] by (cases "bt_get (gateway_leases t) n") auto
  then show ?thesis using b Some by (simp add: gateway_bound_def)
qed

lemma nodes_ext_update:
  assumes t: "nodes t = bt_insert n node' (nodes s)"
      "revoked_certificate_serials s \<subseteq> revoked_certificate_serials t"
    and leases: "\<And>m. map_option gwl_gateway_generation (bt_get (gateway_leases t) m)
                     = map_option gwl_gateway_generation (bt_get (gateway_leases s) m)"
    and keep: "\<And>node. bt_get (nodes s) n = Some node \<Longrightarrow> node_administrative_status node = NodeIsRevoked
                \<Longrightarrow> node_administrative_status node' = NodeIsRevoked"
  shows "nodes_ext s t"
proof -
  have "gateway_bound t m g" if "gateway_bound s m g" for m g
    by (rule bound_same_generation [OF leases _ that]) (use keep t in auto)
  then show ?thesis using keep t by (auto simp: nodes_ext_def)
qed

lemma require_pending_Inr [simp]: "require_pending st = Inr u \<longleftrightarrow> st = EnrollmentIsPending"
  by (cases st) simp_all

lemma claim_enrollment_Inr:
  assumes inv: "enrollments_inv s" and f: "claim_enrollment c d now s = (Inr (i, e), t)"
  shows "t = s" and "bt_get (enrollments s) i = Some e" and "enr_id e = i"
    and "enr_status e = EnrollmentIsPending" and "enr_token_digest e = d"
    and "now < enr_expires_at_unix_ms e"
proof -
  obtain found where found: "List.find (\<lambda>e. enr_token_digest e = d) (bt_values (enrollments s)) = Some found"
    and rest: "bt_get (enrollments s) (enr_id found) = Some e" "i = enr_id found"
      "enr_status e = EnrollmentIsPending" "now < enr_expires_at_unix_ms e" "t = s"
    using f by (auto simp: claim_enrollment_def check_eq_Inr not_le)
  have keyed: "bt_keyed enr_id (enrollments s)" using inv by (simp add: enrollments_inv_def)
  have "enr_token_digest found = d" "found = e"
    using bt.find_row [OF keyed found] rest(1) by auto
  then show "t = s" "bt_get (enrollments s) i = Some e" "enr_id e = i" "enr_token_digest e = d"
    "now < enr_expires_at_unix_ms e" "enr_status e = EnrollmentIsPending"
    using rest by simp_all
qed

lemma consumed_by_sel [simp]:
  "enr_id (consumed_by n now e) = enr_id e" "enr_token_digest (consumed_by n now e) = enr_token_digest e"
  "enr_status (consumed_by n now e) = EnrollmentIsConsumed"
  by (simp_all add: consumed_by_def)

lemma enrolled_node_sel [simp]:
  "node_id (enrolled_node n c dn fp ser caps ex sb now) = n"
  "node_certificate_serial (enrolled_node n c dn fp ser caps ex sb now) = ser"
  "node_administrative_status (enrolled_node n c dn fp ser caps ex sb now) = NodeActive"
  "node_company_id (enrolled_node n c dn fp ser caps ex sb now) = c"
  by (simp_all add: enrolled_node_def)

lemma issued_certificate_sel [simp]:
  "cert_serial (issued_certificate ser c n fp d dg ex pd now) = ser"
  "cert_node_id (issued_certificate ser c n fp d dg ex pd now) = n"
  "cert_revoked_at_unix_ms (issued_certificate ser c n fp d dg ex pd now) = None"
  "cert_node_daemon_generation (issued_certificate ser c n fp d dg ex pd now) = dg"
  by (simp_all add: issued_certificate_def)

lemma consume_enrollment_good:
  assumes inv: "authority_inv s"
    and f: "consume_enrollment cd c tok n dn proof ser ex sb now s = (Inr (node, cert), t)"
  shows "authority_good s t"
    and "\<exists>i e. bt_get (enrollments s) i = Some e \<and> enr_token_digest e = sha256_hex cd tok
           \<and> enr_status e = EnrollmentIsPending \<and> bt_get (enrollments t) i = Some (consumed_by n now e)"
proof -
  have einv: "enrollments_inv s" using inv by (simp add: authority_inv_def)
  obtain i e s' where claim: "claim_enrollment c (sha256_hex cd tok) now s = (Inr (i, e), s')"
    and new: "bt_get (nodes s') n = None" "bt_get (certificates s') ser = None"
    and node: "node_id node = n" "node_certificate_serial node = ser"
      "node_administrative_status node \<noteq> NodeIsRevoked"
    and cert: "cert_serial cert = ser" "cert_node_id cert = n" "cert_revoked_at_unix_ms cert = None"
    and t: "t = s'\<lparr>enrollments := bt_insert i (consumed_by n now e) (enrollments s'),
               nodes := bt_insert n node (nodes s'),
               certificates := bt_insert ser cert (certificates s')\<rparr>"
    using f by (auto simp: consume_enrollment_def check_eq_Inr andThen_eq_Inr Let_def bt_contains_def)
  note C = claim_enrollment_Inr [OF einv claim]
  note new = new [unfolded C(1)] and t = t [unfolded C(1)]
  have e: "enrollments_inv t" "enrollments_ext s t"
    using enrollments_update [OF einv C(2) _ _ C(4), of "consumed_by n now e" t] C(3) by (simp_all add: t)
  have "certificates_inv t"
    by (rule certificates_issue [OF _ _ _ node cert]) (use inv new in \<open>auto simp: t authority_inv_def\<close>)
  moreover have "nodes_ext s t" by (rule nodes_ext_update [of _ n node]) (use new in \<open>auto simp: t\<close>)
  ultimately show "authority_good s t"
    using e inv company_frame [of t s] by (simp add: authority_good_def authority_inv_def authority_ext_def t)
  show "\<exists>i e. bt_get (enrollments s) i = Some e \<and> enr_token_digest e = sha256_hex cd tok
           \<and> enr_status e = EnrollmentIsPending \<and> bt_get (enrollments t) i = Some (consumed_by n now e)"
    using C by (auto simp: t)
qed

lemma consume_csr_good:
  assumes inv: "authority_inv s"
    and f: "consume_enrollment_csr cd c tok n dn fp csr ser ex sb now s = (Inr (node, cert), t)"
  shows "authority_good s t"
    and "\<exists>i e. bt_get (enrollments s) i = Some e \<and> enr_token_digest e = sha256_hex cd tok
           \<and> enr_status e = EnrollmentIsPending \<and> bt_get (enrollments t) i = Some (consumed_by n now e)"
proof -
  have einv: "enrollments_inv s" and cinv: "certificates_inv s" using inv by (simp_all add: authority_inv_def)
  obtain i e s' where claim: "claim_enrollment c (sha256_hex cd tok) now s = (Inr (i, e), s')"
    and new: "bt_get (certificates s') ser = None"
    and adm: "\<And>old. bt_get (nodes s') n = Some old \<Longrightarrow> recovery_admission s' c n old e now = Inr ()"
    and node: "node_id node = n" "node_certificate_serial node = ser"
      "node_administrative_status node \<noteq> NodeIsRevoked"
    and cert: "cert_serial cert = ser" "cert_node_id cert = n" "cert_revoked_at_unix_ms cert = None"
    and t: "t = (retire_predecessor n now (bt_get (nodes s') n)
               (s'\<lparr>enrollments := bt_insert i (consumed_by n now e) (enrollments s')\<rparr>))
               \<lparr>nodes := bt_insert n node (nodes s'), certificates := bt_insert ser cert
                  (certificates (retire_predecessor n now (bt_get (nodes s') n)
                     (s'\<lparr>enrollments := bt_insert i (consumed_by n now e) (enrollments s')\<rparr>)))\<rparr>"
    using f by (auto simp: consume_enrollment_csr_def check_eq_Inr andThen_eq_Inr Let_def bt_contains_def
        retire_predecessor_def split: option.split_asm)
  note C = claim_enrollment_Inr [OF einv claim]
  note new = new [unfolded C(1)] and adm = adm [unfolded C(1)] and t = t [unfolded C(1)]
  have te: "enrollments t = bt_insert i (consumed_by n now e) (enrollments s)"
    "control_plane_leases t = control_plane_leases s" "authority_company_id t = authority_company_id s"
    by (simp_all add: t retire_predecessor_def split: option.split)
  have e: "enrollments_inv t" "enrollments_ext s t"
    using enrollments_update [OF einv C(2) _ _ C(4), of "consumed_by n now e" t] C(3) te by simp_all
  have "certificates_inv t \<and> nodes_ext s t"
  proof (cases "bt_get (nodes s) n")
    case None
    have "certificates_inv t"
      by (rule certificates_issue [OF cinv _ _ node cert]) (use new None in \<open>auto simp: t retire_predecessor_def\<close>)
    moreover have "nodes_ext s t"
      by (rule nodes_ext_update [of _ n node]) (use None in \<open>auto simp: t retire_predecessor_def\<close>)
    ultimately show ?thesis by blast
  next
    case (Some old)
    have active: "node_administrative_status old = NodeActive"
      using adm [OF Some] by (auto simp: recovery_admission_def bindR_eq_Inr)
    have "certificates_inv t"
      by (rule certificates_renew [OF cinv Some new node cert])
        (use Some in \<open>auto simp: t retire_predecessor_def\<close>)
    moreover have "nodes_ext s t"
      by (rule nodes_ext_update [of _ n node])
        (use Some active in \<open>auto simp: t retire_predecessor_def option.map_comp o_def\<close>)
    ultimately show ?thesis by blast
  qed
  then show "authority_good s t"
    using e inv company_frame [of t s] te by (simp add: authority_good_def authority_inv_def authority_ext_def)
  show "\<exists>i e. bt_get (enrollments s) i = Some e \<and> enr_token_digest e = sha256_hex cd tok
           \<and> enr_status e = EnrollmentIsPending \<and> bt_get (enrollments t) i = Some (consumed_by n now e)"
    using C te(1) by auto
qed

lemma rotation_node_Inr:
  "rotation_node s c n rv = Inr node \<longleftrightarrow>
     bt_get (nodes s) n = Some node \<and> node_company_id node = c
     \<and> node_administrative_status node \<noteq> NodeIsRevoked \<and> node_revision node = rv"
  by (auto simp: rotation_node_def bindR_eq_Inr)

lemma rotate_write_good:
  assumes inv: "authority_inv s" and get: "bt_get (nodes s) n = Some node"
    and active: "node_administrative_status node \<noteq> NodeIsRevoked"
    and valid: "\<not> rotation_binding_invalid s node cur nxt ex now"
    and wr: "rotate_write c n node cur nxt fp pd prior ex now s = (r, t)"
  shows "authority_good s t"
proof -
  let ?node = "node\<lparr>node_certificate_serial := nxt, node_public_key_fingerprint := fp,
        node_revision := sat_add (node_revision node) 1, node_updated_at_unix_ms := now\<rparr>"
  let ?cert = "issued_certificate nxt c n fp (cert_node_daemon_id prior)
        (sat_add (cert_node_daemon_generation prior) 1) ex pd now"
  have cinv: "certificates_inv s" using inv by (simp add: authority_inv_def)
  have cur: "node_certificate_serial node = cur" "bt_get (certificates s) nxt = None"
    using valid by (auto simp: rotation_binding_invalid_def bt_contains_def)
  have n: "node_id node = n"
    using bt.get_key [OF certificates_invD(1) [OF cinv] get] by simp
  have t: "nodes t = bt_insert n ?node (nodes s)" "enrollments t = enrollments s"
    "certificates t = bt_insert nxt ?cert (bt_modify cur (revoke_cert now) (certificates s))"
    "revoked_certificate_serials t = insert cur (revoked_certificate_serials s)"
    "control_plane_leases t = control_plane_leases s" "authority_company_id t = authority_company_id s"
    "gateway_leases t = bt_modify n (\<lambda>lease. lease\<lparr>gwl_expires_at_unix_ms := now,
        gwl_revision := sat_add (gwl_revision lease) 1\<rparr>) (gateway_leases s)"
    using wr by (auto simp: rotate_write_def Let_def)
  have "certificates_inv t"
    by (rule certificates_renew [OF cinv get cur(2), where node' = ?node and c' = ?cert])
      (use n active cur in \<open>simp_all add: t\<close>)
  moreover have "nodes_ext s t"
    by (rule nodes_ext_update [OF t(1)]) (use get active in \<open>auto simp: t option.map_comp o_def\<close>)
  ultimately show ?thesis
    using inv enrollments_frame [OF t(2)] company_frame [OF t(5,6)]
    by (simp add: authority_good_def authority_inv_def authority_ext_def)
qed

lemma rotate_good:
  assumes inv: "authority_inv s" and f: "rotate_certificate cd c n cur nxt rv proof ex now s = (Inr r, t)"
  shows "authority_good s t"
proof -
  obtain node prior where 1: "rotation_node s c n rv = Inr node"
    "\<not> rotation_binding_invalid s node cur nxt ex now"
    "rotate_write c n node cur nxt (sha256_hex cd (prf_public_key proof)) (sha256_hex cd (prf_signature proof))
       prior ex now s = (r, t)"
    using f by (auto simp: rotate_certificate_def check_eq_Inr write_one_eq_Inr)
  show ?thesis
    by (rule rotate_write_good [OF inv _ _ 1(2,3)]) (use 1(1) in \<open>simp_all add: rotation_node_Inr\<close>)
qed

lemma rotate_csr_good:
  assumes inv: "authority_inv s" and f: "rotate_certificate_csr c n cur nxt rv fp csr ex now s = (Inr r, t)"
  shows "authority_good s t"
proof -
  obtain node prior where 1: "rotation_node s c n rv = Inr node"
    "\<not> rotation_binding_invalid s node cur nxt ex now"
    "rotate_write c n node cur nxt fp csr prior ex now s = (r, t)"
    using f by (auto simp: rotate_certificate_csr_def check_eq_Inr write_one_eq_Inr)
  show ?thesis
    by (rule rotate_write_good [OF inv _ _ 1(2,3)]) (use 1(1) in \<open>simp_all add: rotation_node_Inr\<close>)
qed

section \<open>Gateways and administration\<close>

lemma node_row_touch:
  assumes inv: "authority_inv s" and get: "bt_get (nodes s) n = Some node"
    and node': "node_id node' = node_id node" "node_certificate_serial node' = node_certificate_serial node"
      "node_administrative_status node' = NodeIsRevoked \<longleftrightarrow> node_administrative_status node = NodeIsRevoked"
    and t: "nodes t = bt_insert n node' (nodes s)" "certificates t = certificates s"
      "revoked_certificate_serials t = revoked_certificate_serials s"
      "enrollments t = enrollments s" "control_plane_leases t = control_plane_leases s"
      "authority_company_id t = authority_company_id s"
    and bound: "\<And>m g. gateway_bound s m g \<Longrightarrow> gateway_bound t m g"
  shows "authority_good s t"
proof -
  have cinv: "certificates_inv s" using inv by (simp add: authority_inv_def)
  have n: "node_id node = n" using bt.get_key [OF certificates_invD(1) [OF cinv] get] .
  have "certificates_inv t"
    by (rule certificates_touch [OF cinv get _ node'(2,3) t(1,2,3)]) (simp add: node' n)
  moreover have "nodes_ext s t"
    using get node'(3) bound by (auto simp: nodes_ext_def t)
  ultimately show ?thesis
    using inv enrollments_frame [OF t(4)] company_frame [OF t(5,6)]
    by (simp add: authority_good_def authority_inv_def authority_ext_def)
qed

lemma administered_node_Inr:
  "administered_node s cp actor n now = Inr node \<longleftrightarrow>
     require_company_and_role actor (cp_company_id cp) ''company_host'' now = Inr ()
     \<and> bt_get (nodes s) n = Some node \<and> node_company_id node = cp_company_id cp"
  by (auto simp: administered_node_def bindR_eq_Inr)

lemma revoked_node_sel [simp]:
  "node_id (revoked_node r now n) = node_id n"
  "node_certificate_serial (revoked_node r now n) = node_certificate_serial n"
  "node_administrative_status (revoked_node r now n) = NodeIsRevoked"
  by (simp_all add: revoked_node_def)

lemma revoke_write_good:
  assumes inv: "authority_inv s" and get: "bt_get (nodes s) n = Some node"
    and t: "t = s\<lparr>revoked_certificate_serials :=
               insert (node_certificate_serial node) (revoked_certificate_serials s),
             certificates := bt_modify (node_certificate_serial node) (revoke_cert now) (certificates s),
             gateway_leases := bt_remove n (gateway_leases s),
             nodes := bt_insert n (revoked_node reason now node) (nodes s)\<rparr>"
  shows "authority_good s t"
proof -
  have cinv: "certificates_inv s" using inv by (simp add: authority_inv_def)
  have n: "node_id node = n" using bt.get_key [OF certificates_invD(1) [OF cinv] get] .
  have "certificates_inv t"
    by (rule certificates_retire [OF cinv get, where node' = "revoked_node reason now node"]) (simp_all add: t n)
  moreover have "nodes_ext s t"
    using get by (auto simp: nodes_ext_def t gateway_bound_def split: option.splits if_split_asm)
  ultimately show ?thesis
    using inv enrollments_frame [of t s] company_frame [of t s]
    by (simp add: authority_good_def authority_inv_def authority_ext_def t)
qed

lemma company_insert:
  assumes inv: "company_inv s"
    and auth: "authority_company_id s = None \<or> authority_company_id s = Some k"
    and lease: "cpl_company_id lease = k"
    and grow: "\<And>prior. bt_get (control_plane_leases s) k = Some prior \<Longrightarrow>
       cpl_control_plane_generation prior \<le> cpl_control_plane_generation lease
       \<and> cpl_revision prior \<le> cpl_revision lease"
    and t: "control_plane_leases t = bt_insert k lease (control_plane_leases s)"
      "authority_company_id t = Some k"
  shows "company_inv t" and "company_ext s t"
proof -
  have "bt_get (control_plane_leases s) j = None" if "j \<noteq> k" for j
    using inv auth that by (cases "bt_get (control_plane_leases s) j") (auto simp: company_inv_def)
  then show "company_inv t" using lease by (auto simp: company_inv_def t split: if_split_asm)
  show "company_ext s t" using auth grow by (auto simp: company_ext_def t)
qed

end
