(* ===== verification/Route_Steps.thy ===== *)
theory Route_Steps
  imports Route_Invariant
begin

text \<open>
  Every transition of the router and of the gateway, when it succeeds, keeps the routing invariant
  and only extends the history: operations, receipts and the idempotency index gain rows, and no
  route counter goes back.
\<close>

definition route_good :: "FabricState \<Rightarrow> FabricState \<Rightarrow> bool" where
  "route_good s t \<longleftrightarrow> route_inv t \<and> history_ext s t"

lemma route_goodI: "route_inv t \<Longrightarrow> history_ext s t \<Longrightarrow> route_good s t"
  by (simp add: route_good_def)

lemma route_good_refl: "route_inv s \<Longrightarrow> route_good s s"
  by (simp add: route_good_def)

lemma route_good_trans: "route_good s t \<Longrightarrow> route_good t u \<Longrightarrow> route_good s u"
  by (auto simp: route_good_def intro: history_ext_trans)

section \<open>A new attempt\<close>

lemma route_inv_attempt:
  assumes inv: "route_inv s" and n: "n = att_target_node_id a"
    and step: "att_route_seq a = sat_add (counter (route_sequences s) n) 1"
    and id: "att_id a = attempt_id (att_operation_id a) (att_attempt_no a)"
    and op: "bt_get (operations s) (att_operation_id a) = Some operation"
      "op_target_node_id operation = n"
    and bound: "gateway_bound s n (att_target_gateway_generation a)"
    and older: "\<And>b. b \<in> set (bt_values (attempts s)) \<Longrightarrow> att_operation_id b = att_operation_id a \<Longrightarrow>
       att_attempt_no b \<le> att_attempt_no a \<and> att_state b = AttemptEnded
       \<and> att_target_gateway_generation b \<le> att_target_gateway_generation a"
    and live: "\<not> has_receipt s (att_operation_id a) is_terminal_kind"
  shows "route_inv (s\<lparr>route_sequences := bt_insert n (att_route_seq a) (route_sequences s),
                      attempts := bt_insert (att_id a) a (attempts s)\<rparr>)"
proof -
  let ?seq = "counter (route_sequences s)" and ?A = "set (bt_values (attempts s))"
  let ?seq' = "?seq(att_target_node_id a := att_route_seq a)"
  have keyed: "bt_keyed att_id (attempts s)" and rows: "route_rows (bt_get (operations s)) ?A
      (set (bt_values (receipts s))) (gateway_bound s) ?seq"
    using inv by (simp_all add: route_inv_def)
  have row: "attempt_row (bt_get (operations s)) (gateway_bound s) ?seq' a"
    using id op bound n by (simp add: attempt_row_def)
  have same: "att_id b = att_id a" if "b \<in> ?A" "att_operation_id b = att_operation_id a"
    "att_attempt_no b = att_attempt_no a" for b
    using route_attempt_row [OF inv that(1)] that id by (simp add: attempt_row_def)
  have live': "\<not> is_terminal_kind (rcp_kind r)"
    if "r \<in> set (bt_values (receipts s))" "rcp_operation_id r = att_operation_id a" for r
    using live that by (auto simp: has_receipt_def list_ex_iff)
  have "route_rows (bt_get (operations s)) (insert a {c \<in> ?A. att_id c \<noteq> att_id a})
      (set (bt_values (receipts s))) (gateway_bound s) ?seq'"
    by (rule rows_attempt [OF rows row older same live' refl]) (simp_all add: step n)
  moreover have "counter (bt_insert n (att_route_seq a) (route_sequences s)) = ?seq'"
    by (simp add: fun_eq_iff n)
  ultimately show ?thesis
    using inv bt_keyed_insert [OF keyed, of a] bt.vals_ins [OF keyed, of a]
    by (simp add: route_inv_def)
qed

lemma has_receipt_upd [simp]:
  "has_receipt (s\<lparr>attempts := x1\<rparr>) i P = has_receipt s i P"
  "has_receipt (s\<lparr>operations := x2\<rparr>) i P = has_receipt s i P"
  "has_receipt (s\<lparr>route_sequences := x3\<rparr>) i P = has_receipt s i P"
  by (simp_all add: has_receipt_def)

lemma transport_receipt_sel [simp]:
  "rcp_id (transport_receipt c i k n g cg seq now) = receipt_id i k g"
  "rcp_operation_id (transport_receipt c i k n g cg seq now) = i"
  "rcp_kind (transport_receipt c i k n g cg seq now) = k"
  "rcp_target_gateway_generation (transport_receipt c i k n g cg seq now) = g"
  "rcp_route_seq (transport_receipt c i k n g cg seq now) = seq"
  by (simp_all add: transport_receipt_def)

lemma application_receipt_sel [simp]:
  "rcp_id (application_receipt c i k n g cg seq e sch res d er now) = receipt_id i k g"
  "rcp_operation_id (application_receipt c i k n g cg seq e sch res d er now) = i"
  "rcp_kind (application_receipt c i k n g cg seq e sch res d er now) = k"
  "rcp_target_gateway_generation (application_receipt c i k n g cg seq e sch res d er now) = g"
  "rcp_application_effect (application_receipt c i k n g cg seq e sch res d er now) = Some e"
  "rcp_result_digest (application_receipt c i k n g cg seq e sch res d er now) = Some d"
  "rcp_result_schema (application_receipt c i k n g cg seq e sch res d er now) = Some sch"
  by (simp_all add: application_receipt_def)

lemma new_attempt_sel [simp]:
  "att_id (new_attempt c i m n g cg seq oseq now) = attempt_id i m"
  "att_operation_id (new_attempt c i m n g cg seq oseq now) = i"
  "att_attempt_no (new_attempt c i m n g cg seq oseq now) = m"
  "att_target_node_id (new_attempt c i m n g cg seq oseq now) = n"
  "att_target_gateway_generation (new_attempt c i m n g cg seq oseq now) = g"
  "att_control_plane_generation (new_attempt c i m n g cg seq oseq now) = cg"
  "att_route_seq (new_attempt c i m n g cg seq oseq now) = seq"
  "att_ordering_seq (new_attempt c i m n g cg seq oseq now) = oseq"
  "att_state (new_attempt c i m n g cg seq oseq now) = AttemptQueued"
  "att_effect (new_attempt c i m n g cg seq oseq now) = EffectNone"
  by (simp_all add: new_attempt_def)

section \<open>Admission\<close>

lemma fresh_operation:
  assumes inv: "route_inv s" and new: "bt_get (operations s) i = None"
  shows "a \<in> set (bt_values (attempts s)) \<Longrightarrow> att_operation_id a \<noteq> i"
    and "\<not> has_receipt s i P"
  using route_attempt_row [OF inv, of a] route_receipt_row [OF inv] new
  by (auto simp: attempt_row_def receipt_row_def has_receipt_def list_ex_iff) fastforce

lemma route_inv_register:
  assumes inv: "route_inv s" and new: "bt_get (operations s) (op_id operation) = None"
  shows "route_inv (s\<lparr>operations := bt_insert (op_id operation) operation (operations s)\<rparr>)"
proof -
  have keyed: "bt_keyed op_id (operations s)" and rows: "route_rows (bt_get (operations s))
      (set (bt_values (attempts s))) (set (bt_values (receipts s))) (gateway_bound s)
      (counter (route_sequences s))"
    using inv by (simp_all add: route_inv_def)
  have "route_rows (bt_get (bt_insert (op_id operation) operation (operations s)))
      (set (bt_values (attempts s))) (set (bt_values (receipts s))) (gateway_bound s)
      (counter (route_sequences s))"
    by (rule rows_weaken [OF rows]) (use new in auto)
  then show ?thesis using inv bt_keyed_insert [OF keyed, of operation] by (simp add: route_inv_def)
qed

lemma admit_new_Inr:
  assumes "admit_new cd s c g operation limits now = Inr gateway"
  shows "bt_get (operations s) (op_id operation) = None"
    and "bt_get (gateway_leases s) (op_target_node_id operation) = Some gateway"
  using assms by (auto simp: admit_new_def bindR_eq_Inr bt_contains_def)

lemma accepted_receipt_row:
  assumes "a \<in> A" and "att_operation_id a = i" and "att_target_gateway_generation a = g"
    and "ops i = Some operation"
  shows "receipt_row ops A (transport_receipt c i ControlPlaneAccepted n g cg seq now)"
  using assms by (auto simp: receipt_row_def is_terminal_kind_def)

lemma enqueue_good:
  assumes inv: "route_inv s"
    and new: "bt_get (operations s) (op_id operation) = None"
    and gw: "bt_get (gateway_leases s) (op_target_node_id operation) = Some gateway"
    and idx: "bt_get (operation_idempotency s) (idempotency_index c operation) = None"
    and enq: "enqueue c g operation gateway now s = (r, t)"
  shows "route_good s t"
proof -
  let ?n = "op_target_node_id operation" and ?i = "op_id operation"
  let ?seq = "sat_add (counter (route_sequences s) ?n) 1"
  let ?a = "new_attempt c ?i 1 ?n (gwl_gateway_generation gateway) g ?seq
              (sat_add (counter (ordering_sequences s) (ordering_index operation)) 1) now"
  let ?r = "transport_receipt c ?i ControlPlaneAccepted ?n (gwl_gateway_generation gateway) g ?seq now"
  let ?s1 = "s\<lparr>operations := bt_insert ?i operation (operations s)\<rparr>"
  let ?s2 = "?s1\<lparr>route_sequences := bt_insert ?n (att_route_seq ?a) (route_sequences ?s1),
                 attempts := bt_insert (att_id ?a) ?a (attempts ?s1)\<rparr>"
  let ?s3 = "?s2\<lparr>receipts := bt_insert (rcp_id ?r) ?r (receipts ?s2)\<rparr>"
  have fresh: "\<not> has_receipt s ?i P" "b \<in> set (bt_values (attempts s)) \<Longrightarrow> att_operation_id b \<noteq> ?i" for b P
    using fresh_operation [OF inv new] by blast+
  have "route_inv ?s1" by (rule route_inv_register [OF inv new])
  then have i2: "route_inv ?s2"
    by (rule route_inv_attempt [where operation = operation])
      (use gw fresh in \<open>auto simp: gateway_bound_def\<close>)
  have "?a \<in> set (bt_values (attempts ?s2))"
    using route_attempt_mem [OF i2, of "att_id ?a" ?a] by simp
  then have i3: "route_inv ?s3"
    by (intro route_inv_receipt [OF i2] accepted_receipt_row [of ?a])
      (simp_all add: is_terminal_kind_def)
  have t: "operations t = operations ?s3" "attempts t = attempts ?s3"
    "receipts t = receipts ?s3" "route_sequences t = route_sequences ?s3"
    "gateway_leases t = gateway_leases s" "nodes t = nodes s"
    "operation_idempotency t = bt_insert (idempotency_index c operation) ?i (operation_idempotency s)"
    using enq by (auto simp: enqueue_def Let_def)
  have "gateway_bound t = gateway_bound s" by (rule gateway_bound_cong) (simp_all only: t)
  then have "route_inv t"
    by (intro route_inv_frame [OF i3]) (simp_all only: t gateway_bound_upd)
  moreover have "history_ext s t"
    using no_receipt_get [OF inv fresh(1), of _ ControlPlaneAccepted] new idx
    by (auto simp: history_ext_def t bt_extends_insert sat_add_ge)
  ultimately show ?thesis by (rule route_goodI)
qed

lemma accept_cases:
  assumes "accept_and_enqueue cd c g operation limits now s = (Inr r, t)"
  obtains (replay) existing_id digest where "operation_digest cd operation = Inr digest"
      "bt_get (operation_idempotency s) (idempotency_index c operation) = Some existing_id"
      "replay_accepted cd s existing_id digest = Inr r" "t = s"
  | (new) gateway attempt receipt where
      "validate_operation cd s c operation now = Inr ()"
      "bt_get (operation_idempotency s) (idempotency_index c operation) = None"
      "admit_new cd s c g operation limits now = Inr gateway"
      "enqueue c g operation gateway now s = ((attempt, receipt), t)"
      "r = (operation, attempt, receipt, False)"
  using assms that
  by (cases "bt_get (operation_idempotency s) (idempotency_index c operation)")
    (auto simp: accept_and_enqueue_def check_eq_Inr write_eq_Inr)

lemma accept_good:
  assumes "route_inv s" and "accept_and_enqueue cd c g operation limits now s = (Inr r, t)"
  shows "route_good s t"
  using assms(2)
proof (cases rule: accept_cases)
  case replay
  then show ?thesis using assms(1) by (simp add: route_good_refl)
next
  case new
  show ?thesis
    by (rule enqueue_good [OF assms(1) admit_new_Inr [OF new(3)] new(2) new(4)])
qed

section \<open>Retry\<close>

lemma retry_admission_Inr:
  assumes "retry_admission s c g i now = Inr (operation, gateway, prior)"
  shows "bt_get (operations s) i = Some operation"
    and "bt_get (gateway_leases s) (op_target_node_id operation) = Some gateway"
    and "latest_attempt s i = Some prior"
    and "\<not> has_receipt s i is_terminal_kind"
    and "\<not> has_receipt s i (\<lambda>kind. kind = TargetPersisted)"
    and "op_company_id operation = c" and "now < op_expires_at_unix_ms operation"
    and "gwl_control_plane_generation gateway = g"
  using assms by (auto simp: retry_admission_def bindR_eq_Inr latest_attempt_eq not_le)

lemma retry_cases:
  assumes "retry_operation c g i now s = (Inr r, t)"
  obtains (replay) operation gateway prior receipt where
      "retry_admission s c g i now = Inr (operation, gateway, prior)"
      "att_target_gateway_generation prior = gwl_gateway_generation gateway"
      "receipt_for s i ControlPlaneAccepted (gwl_gateway_generation gateway) = Inr receipt"
      "r = (prior, receipt, True)" "t = s"
  | (new) operation gateway prior attempt receipt where
      "retry_admission s c g i now = Inr (operation, gateway, prior)"
      "att_target_gateway_generation prior \<noteq> gwl_gateway_generation gateway"
      "att_effect prior = EffectNone" "in_flight (att_state prior)"
      "retry_write c g i (op_target_node_id operation) gateway prior now s = ((attempt, receipt), t)"
      "r = (attempt, receipt, False)"
proof -
  obtain operation gateway prior where
    adm: "retry_admission s c g i now = Inr (operation, gateway, prior)"
    using assms by (auto simp: retry_operation_def check_eq_Inr)
  show thesis
  proof (cases "att_target_gateway_generation prior = gwl_gateway_generation gateway")
    case True
    with adm assms show ?thesis
      by (auto simp: retry_operation_def bindR_eq_Inr intro: replay)
  next
    case False
    with adm assms show ?thesis
      by (auto simp: retry_operation_def write_eq_Inr split: if_split_asm intro: new)
  qed
qed

lemma latest_below_lease:
  assumes inv: "route_inv s" and latest: "latest_attempt s i = Some prior"
    and op: "bt_get (operations s) i = Some operation"
    and gw: "bt_get (gateway_leases s) (op_target_node_id operation) = Some gateway"
  shows "att_target_gateway_generation prior \<le> gwl_gateway_generation gateway"
    and "att_target_node_id prior = op_target_node_id operation"
proof -
  have "att_operation_id prior = i" "prior \<in> set (bt_values (attempts s))"
    using latest_attempt_Some [OF inv latest] by auto
  with route_attempt_row [OF inv, of prior] op
  have n: "att_target_node_id prior = op_target_node_id operation"
    and b: "gateway_bound s (att_target_node_id prior) (att_target_gateway_generation prior)"
    by (auto simp: attempt_row_def)
  then show "att_target_node_id prior = op_target_node_id operation"
    and "att_target_gateway_generation prior \<le> gwl_gateway_generation gateway"
    using gw by (simp_all add: gateway_bound_def)
qed

lemma newer_generation_unreceipted:
  assumes inv: "route_inv s" and latest: "latest_attempt s i = Some prior"
    and newer: "att_target_gateway_generation prior < g"
  shows "bt_get (receipts s) (receipt_id i ControlPlaneAccepted g) = None"
proof (rule ccontr)
  assume "bt_get (receipts s) (receipt_id i ControlPlaneAccepted g) \<noteq> None"
  then obtain r where r: "bt_get (receipts s) (receipt_id i ControlPlaneAccepted g) = Some r" by blast
  have mem: "r \<in> set (bt_values (receipts s))" and key: "rcp_id r = receipt_id i ControlPlaneAccepted g"
    using inv r bt.get_vals [of rcp_id "receipts s"] bt.get_key [of rcp_id "receipts s"]
    by (simp_all add: route_inv_def)
  then have "rcp_operation_id r = i" "rcp_kind r = ControlPlaneAccepted"
      "rcp_target_gateway_generation r = g"
    using route_receipt_row [OF inv mem] by (auto simp: receipt_row_def receipt_id_inj)
  then obtain a where "a \<in> set (bt_values (attempts s))" "att_operation_id a = i"
      "g \<le> att_target_gateway_generation a"
    using route_receipt_row [OF inv mem] by (auto simp: receipt_row_def)
  then show False using latest_attempt_Some(4) [OF inv latest] newer by fastforce
qed

lemma retry_write_good:
  assumes inv: "route_inv s"
    and op: "bt_get (operations s) i = Some operation"
    and gw: "bt_get (gateway_leases s) (op_target_node_id operation) = Some gateway"
    and latest: "latest_attempt s i = Some prior"
    and live: "\<not> has_receipt s i is_terminal_kind"
    and gen: "att_target_gateway_generation prior \<noteq> gwl_gateway_generation gateway"
    and wr: "retry_write c g i (op_target_node_id operation) gateway prior now s = (r, t)"
  shows "route_good s t"
proof -
  let ?n = "op_target_node_id operation"
  let ?seq = "sat_add (counter (route_sequences s) ?n) 1"
  let ?a = "new_attempt c i (sat_add (att_attempt_no prior) 1) ?n (gwl_gateway_generation gateway) g ?seq
              (att_ordering_seq prior) now"
  let ?r = "transport_receipt c i ControlPlaneAccepted ?n (gwl_gateway_generation gateway) g ?seq now"
  let ?s1 = "s\<lparr>attempts := bt_insert (att_id prior) (end_superseded now prior) (attempts s)\<rparr>"
  let ?s2 = "?s1\<lparr>route_sequences := bt_insert ?n (att_route_seq ?a) (route_sequences ?s1),
                 attempts := bt_insert (att_id ?a) ?a (attempts ?s1)\<rparr>"
  let ?s3 = "?s2\<lparr>receipts := bt_insert (rcp_id ?r) ?r (receipts ?s2)\<rparr>"
  note prior = latest_attempt_Some [OF inv latest]
  have below: "att_target_gateway_generation prior < gwl_gateway_generation gateway"
    using latest_below_lease(1) [OF inv latest op gw] gen by simp
  have i1: "route_inv ?s1"
    by (rule route_inv_replace [OF inv prior(3)]) (simp, simp add: end_superseded_def)
  have vals1: "set (bt_values (attempts ?s1)) = insert (end_superseded now prior)
      {w \<in> set (bt_values (attempts s)). att_id w \<noteq> att_id prior}"
    using bt.vals_ins [of att_id "attempts s" "end_superseded now prior"] inv
    by (simp add: route_inv_def end_superseded_def)
  have older: "att_attempt_no b \<le> att_attempt_no ?a \<and> att_state b = AttemptEnded
      \<and> att_target_gateway_generation b \<le> att_target_gateway_generation ?a"
    if b: "b \<in> set (bt_values (attempts ?s1))" "att_operation_id b = att_operation_id ?a" for b
  proof (cases "b = end_superseded now prior")
    case True
    then show ?thesis using below sat_add_ge [of "att_attempt_no prior" 1]
      by (simp add: end_superseded_def)
  next
    case False
    then have "b \<in> set (bt_values (attempts s))" "b \<noteq> prior" using b vals1 by auto
    moreover have "att_operation_id b = i" using b by simp
    ultimately have "att_attempt_no b \<le> att_attempt_no prior \<and> att_state b = AttemptEnded
        \<and> att_target_gateway_generation b \<le> att_target_gateway_generation prior"
      using prior(4) by blast
    then show ?thesis using below sat_add_ge [of "att_attempt_no prior" 1] by auto
  qed
  have i2: "route_inv ?s2"
    by (rule route_inv_attempt [OF i1 _ _ _ _ _ _ older, where operation = operation])
      (use op gw live in \<open>auto simp: gateway_bound_def\<close>)
  have "?a \<in> set (bt_values (attempts ?s2))"
    using route_attempt_mem [OF i2, of "att_id ?a" ?a] by simp
  then have "route_inv ?s3"
    using op by (intro route_inv_receipt [OF i2] accepted_receipt_row [of ?a])
      (simp_all add: is_terminal_kind_def)
  moreover have t: "t = ?s3"
    using wr prior(3) by (auto simp: retry_write_def Let_def bt_modify_def)
  moreover have "history_ext s ?s3"
    using newer_generation_unreceipted [OF inv latest below]
    by (simp add: history_ext_def bt_extends_insert sat_add_ge)
  ultimately show ?thesis by (simp only: route_goodI)
qed

lemma retry_good:
  assumes inv: "route_inv s" and "retry_operation c g i now s = (Inr r, t)"
  shows "route_good s t"
  using assms(2)
proof (cases rule: retry_cases)
  case replay
  then show ?thesis using inv by (simp add: route_good_refl)
next
  case new
  then show ?thesis
    using retry_write_good [OF inv retry_admission_Inr(1,2,3,4) [OF new(1)] new(2) new(5)] by simp
qed

section \<open>Receipts reported by the target\<close>

lemma target_persisted_cases:
  assumes "record_target_persisted cd c g n gg d dg i rd seq now s = (Inr r, t)"
  obtains (replay) attempt receipt where
      "bt_get (receipts s) (receipt_id i TargetPersisted gg) = Some receipt"
      "r = (attempt, receipt, True)" "t = s"
  | (new) operation found attempt receipt where
      "bt_get (operations s) i = Some operation" "op_target_node_id operation = n"
      "found \<in> set (bt_values (attempts s))" "att_operation_id found = i"
      "att_route_seq found = seq" "att_target_gateway_generation found = gg"
      "bt_get (receipts s) (receipt_id i TargetPersisted gg) = None"
      "bt_get (attempts s) (att_id found) = Some attempt" "in_flight (att_state attempt)"
      "receipt = transport_receipt c i TargetPersisted n gg g seq now"
      "r = (attempt\<lparr>att_state := AttemptTargetPersisted\<rparr>, receipt, False)"
      "t = s\<lparr>attempts := bt_insert (att_id found) (attempt\<lparr>att_state := AttemptTargetPersisted\<rparr>)
                 (attempts s),
              receipts := bt_insert (rcp_id receipt) receipt (receipts s)\<rparr>"
proof (cases "bt_get (receipts s) (receipt_id i TargetPersisted gg)")
  case None
  with assms show ?thesis
    by (auto simp: record_target_persisted_def check_eq_Inr bindR_eq_Inr Let_def split: if_split_asm
        dest!: find_SomeD intro: new)
next
  case (Some receipt)
  with assms show ?thesis
    by (auto simp: record_target_persisted_def check_eq_Inr intro: replay)
qed

lemma settle_good:
  assumes inv: "route_inv s" and get: "bt_get (attempts s) k = Some a"
    and slot: "att_slot b = att_slot a" and open_: "att_state a \<noteq> AttemptEnded"
    and i: "att_operation_id a = i" and kind: "rcp_kind r \<noteq> ControlPlaneAccepted"
    and r: "rcp_id r = receipt_id i (rcp_kind r) (rcp_target_gateway_generation r)" "rcp_operation_id r = i"
    and closed: "is_terminal_kind (rcp_kind r) \<Longrightarrow> att_state b = AttemptEnded"
    and fresh: "bt_get (receipts s) (rcp_id r) = None"
  shows "route_good s (s\<lparr>attempts := bt_insert k b (attempts s), receipts := bt_insert (rcp_id r) r (receipts s)\<rparr>)"
proof -
  let ?s1 = "s\<lparr>attempts := bt_insert k b (attempts s)\<rparr>"
  have mem: "a \<in> set (bt_values (attempts s))" and k: "att_id a = k"
    using route_attempt_mem [OF inv get] by auto
  have i1: "route_inv ?s1" using route_inv_replace [OF inv get slot] open_ by simp
  have live: "\<not> has_receipt s i is_terminal_kind"
    using has_receipt_terminal_closed [OF inv _ mem i] open_ by blast
  have vals: "set (bt_values (attempts ?s1)) = insert b {w \<in> set (bt_values (attempts s)). att_id w \<noteq> k}"
    using bt.vals_ins [of att_id "attempts s" b] inv slot k by (simp add: route_inv_def att_slot_eq)
  have others: "att_state w = AttemptEnded"
    if "w \<in> set (bt_values (attempts s))" "att_operation_id w = i" "att_id w \<noteq> k" for w
    using route_attempt_order [OF inv that(1) mem] route_attempt_order [OF inv mem that(1)] that k i open_
    by (auto simp: attempt_order_def)
  have row: "receipt_row (bt_get (operations ?s1)) (set (bt_values (attempts ?s1))) r"
    using route_attempt_row [OF inv mem] others closed kind i r unfolding vals
    by (auto simp: receipt_row_def attempt_row_def)
  have "route_inv (?s1\<lparr>receipts := bt_insert (rcp_id r) r (receipts ?s1)\<rparr>)"
    by (rule route_inv_receipt [OF i1 row]) (simp add: r live)
  then show ?thesis
    using fresh by (simp add: route_good_def history_ext_def bt_extends_insert)
qed

lemma target_persisted_good:
  assumes inv: "route_inv s"
    and "record_target_persisted cd c g n gg d dg i rd seq now s = (Inr r, t)"
  shows "route_good s t"
  using assms(2)
proof (cases rule: target_persisted_cases)
  case replay
  then show ?thesis using inv by (simp add: route_good_refl)
next
  case (new operation found attempt receipt)
  have "attempt = found" using new(3,8) inv route_attempt_mem route_same_attempt by metis
  then show ?thesis unfolding new(12)
    by (intro settle_good [OF inv new(8), where i = i])
      (use new in \<open>auto simp: in_flight_def is_terminal_kind_def\<close>)
qed

lemma application_cases:
  assumes "record_application_receipt cd c g n gg d dg i rs res eff now s = (Inr r, t)"
  obtains (replay) receipt kind digest where "receipt_kind_of eff = Inr kind"
      "bt_get (receipts s) (receipt_id i kind gg) = Some receipt"
      "replay_application s receipt i gg digest rs eff = Inr r" "t = s"
  | (new) operation kind digest found attempt expired receipt where
      "bt_get (operations s) i = Some operation" "receipt_kind_of eff = Inr kind"
      "canonical_digest cd (Inr res) = Inr digest"
      "bt_get (receipts s) (receipt_id i kind gg) = None"
      "found \<in> set (bt_values (attempts s))" "att_operation_id found = i"
      "att_target_gateway_generation found = gg"
      "bt_get (attempts s) (att_id found) = Some attempt"
      "expired = expired_not_applied cd eff operation attempt rs res now"
      "att_state attempt = AttemptTargetPersisted \<or> expired"
      "receipt = application_receipt c i kind n gg g (att_route_seq attempt) eff rs res digest
         (if expired then Some (FabricError_none OperationExpired
            ''routed operation expired before target inbox persistence'') else None) now"
      "r = (settle_attempt eff now attempt, receipt, False)"
      "t = s\<lparr>attempts := bt_insert (att_id found) (settle_attempt eff now attempt) (attempts s),
              receipts := bt_insert (rcp_id receipt) receipt (receipts s)\<rparr>"
proof -
  obtain operation kind digest where op: "bt_get (operations s) i = Some operation"
    and kind: "receipt_kind_of eff = Inr kind" and digest: "canonical_digest cd (Inr res) = Inr digest"
    using assms by (auto simp: record_application_receipt_def check_eq_Inr)
  show thesis
  proof (cases "bt_get (receipts s) (receipt_id i kind gg)")
    case None
    with assms op kind digest show ?thesis
      by (auto simp: record_application_receipt_def check_eq_Inr Let_def settle_attempt_def
          split: if_split_asm dest!: find_SomeD intro: new)
  next
    case (Some receipt)
    with assms op kind digest show ?thesis
      by (auto simp: record_application_receipt_def check_eq_Inr intro: replay)
  qed
qed

lemma att_state_settle:
  "att_state (settle_attempt eff now a) = (if eff = EffectUnknown then AttemptTargetPersisted else AttemptEnded)"
  by (simp add: settle_attempt_def)

lemma application_good:
  assumes inv: "route_inv s"
    and "record_application_receipt cd c g n gg d dg i rs res eff now s = (Inr r, t)"
  shows "route_good s t"
  using assms(2)
proof (cases rule: application_cases)
  case replay
  then show ?thesis using inv by (simp add: route_good_refl)
next
  case (new operation kind digest found attempt expired receipt)
  have "attempt = found" using new(5,8) inv route_attempt_mem route_same_attempt by metis
  moreover have "att_state attempt \<noteq> AttemptEnded"
    using new(9,10) by (auto simp: expired_not_applied_def in_flight_def)
  moreover have "kind \<noteq> ControlPlaneAccepted" "is_terminal_kind kind \<Longrightarrow> eff \<noteq> EffectUnknown"
    using new(2) by (cases eff; auto simp: is_terminal_kind_def)+
  ultimately show ?thesis unfolding new(13)
    by (intro settle_good [OF inv new(8), where i = i])
      (use new(4,6,7) in \<open>simp_all add: new(11) att_state_settle\<close>)
qed

lemma mark_unknown_good:
  assumes inv: "route_inv s" and f: "mark_unknown c i s = (Inr r, t)"
  shows "route_good s t"
proof (cases "has_receipt s i is_terminal_kind")
  case True
  then have "t = s" using f by (auto simp: mark_unknown_def check_eq_Inr)
  then show ?thesis using inv by (simp add: route_good_refl)
next
  case False
  then obtain latest :: RouteAttempt and a where get: "bt_get (attempts s) (att_id latest) = Some a"
    and t: "t = s\<lparr>attempts := bt_insert (att_id latest) (a\<lparr>att_effect := EffectUnknown\<rparr>) (attempts s)\<rparr>"
    using f by (auto simp: mark_unknown_def check_eq_Inr)
  have "route_inv t" unfolding t by (rule route_inv_replace [OF inv get]) simp_all
  then show ?thesis unfolding t by (simp add: route_good_def history_ext_def)
qed

section \<open>Expiry at a successor gateway\<close>

lemma expire_one_Inr:
  assumes "expire_one cd c g n gg now i s = (Inr r, t)"
  obtains latest attempt res digest where "latest_attempt s i = Some latest"
    "bt_get (attempts s) (att_id latest) = Some attempt"
    "r = application_receipt c i OperationRejected n gg g (att_route_seq (expire_attempt now attempt))
           EffectNotApplied EXPIRED_RESULT_SCHEMA res digest (Some offline_expired_error) now"
    "t = s\<lparr>attempts := bt_insert (att_id latest) (expire_attempt now attempt) (attempts s),
            receipts := bt_insert (rcp_id r) r (receipts s)\<rparr>"
  using assms by (auto simp: expire_one_def check_eq_Inr Let_def)

definition open_for_expiry :: "FabricState \<Rightarrow> string \<Rightarrow> bool" where
  "open_for_expiry s i \<longleftrightarrow> (\<exists>latest. latest_attempt s i = Some latest \<and> att_state latest \<noteq> AttemptEnded)"

lemma expire_one_good:
  assumes inv: "route_inv s" and ok: "open_for_expiry s i"
    and f: "expire_one cd c g n gg now i s = (Inr r, t)"
  shows "route_good s t"
  using f
proof (cases rule: expire_one_Inr)
  case (1 latest attempt res digest)
  note latest = latest_attempt_Some [OF inv 1(1)]
  have a: "attempt = latest" using 1(2) latest(3) by simp
  have open_: "att_state attempt \<noteq> AttemptEnded" using ok 1(1) a by (simp add: open_for_expiry_def)
  then have "\<not> has_receipt s i is_terminal_kind"
    using has_receipt_terminal_closed [OF inv _ latest(1,2)] a by blast
  then have "bt_get (receipts s) (receipt_id i OperationRejected gg) = None"
    using no_receipt_get [OF inv] by (simp add: is_terminal_kind_def)
  then show ?thesis unfolding 1(4)
    by (intro settle_good [OF inv 1(2), where i = i])
      (use open_ latest(2) a in \<open>auto simp: 1(3) expire_attempt_def att_slot_def\<close>)
qed

lemma operation_attempts_insert_other:
  assumes "bt_keyed att_id (attempts s)" and "bt_get (attempts s) k = Some a"
    and "att_slot b = att_slot a" and "att_operation_id a \<noteq> i"
  shows "latest_attempt (s\<lparr>attempts := bt_insert k b (attempts s), receipts := x\<rparr>) i = latest_attempt s i"
proof -
  have k: "att_operation_id b \<noteq> i" using assms by (simp add: att_slot_eq)
  have "filter (\<lambda>a. att_operation_id a = i) (map snd (bt_insert k b m)) =
        filter (\<lambda>a. att_operation_id a = i) (map snd m)"
    if "bt_ok m" "map_of m k = Some a" for m
    using that assms(4) k
    by (induction k b m rule: bt_insert.induct) (auto simp: bt_ok_def split: if_split_asm)
  with assms(1,2) show ?thesis
    by (simp add: latest_attempt_def operation_attempts_def bt_keyed_def bt_values_def bt_get_def)
qed

lemma expire_all_good:
  assumes "route_inv s" and "distinct ids" and "\<forall>i \<in> set ids. open_for_expiry s i"
    and "expire_all cd c g n gg now ids s = (Inr rs, t)"
  shows "route_good s t \<and> gateway_leases t = gateway_leases s \<and> nodes t = nodes s"
  using assms
proof (induction ids arbitrary: s rs)
  case Nil
  then show ?case by (simp add: route_good_refl)
next
  case (Cons i ids)
  obtain r u rs' where one: "expire_one cd c g n gg now i s = (Inr r, u)"
    and rest: "expire_all cd c g n gg now ids u = (Inr rs', t)"
    using Cons.prems(4) by (auto simp: andThen_eq_Inr)
  have good: "route_good s u" using expire_one_good [OF Cons.prems(1) _ one] Cons.prems(3) by simp
  obtain latest attempt where latest: "latest_attempt s i = Some latest"
      "bt_get (attempts s) (att_id latest) = Some attempt"
    and u: "u = s\<lparr>attempts := bt_insert (att_id latest) (expire_attempt now attempt) (attempts s),
            receipts := bt_insert (rcp_id r) r (receipts s)\<rparr>"
    using one by (cases rule: expire_one_Inr) auto
  have a: "attempt = latest" "att_operation_id latest = i"
    using latest_attempt_Some [OF Cons.prems(1) latest(1)] latest(2) by auto
  have "open_for_expiry u j" if "j \<in> set ids" for j
  proof -
    have "latest_attempt u j = latest_attempt s j" unfolding u
      by (rule operation_attempts_insert_other [OF _ latest(2)])
        (use Cons.prems(1,2) a that in \<open>auto simp: route_inv_def\<close>)
    then show ?thesis using Cons.prems(3) that by (simp add: open_for_expiry_def)
  qed
  then have "route_good u t \<and> gateway_leases t = gateway_leases u \<and> nodes t = nodes u"
    using Cons.IH [OF _ _ _ rest] good Cons.prems(2) by (simp add: route_good_def)
  then show ?case using good by (auto simp: u intro: route_good_trans)
qed

lemma expirable_distinct:
  assumes "route_inv s"
  shows "distinct (map op_id (filter P (bt_values (operations s))))"
proof -
  have "distinct (map op_id (bt_values (operations s)))"
    using assms bt_keyed_keys(2) by (auto simp: route_inv_def)
  then show ?thesis by (rule distinct_map_filter)
qed

lemma expire_unapplied_good:
  assumes inv: "route_inv s"
    and f: "expire_unapplied_for_successor cd c g n gg now s = (Inr rs, t)"
  shows "route_good s t \<and> gateway_leases t = gateway_leases s \<and> nodes t = nodes s"
proof (rule expire_all_good [OF inv])
  show "distinct (expirable_operations s c n now)"
    unfolding expirable_operations_def by (rule expirable_distinct [OF inv])
  show "\<forall>i \<in> set (expirable_operations s c n now). open_for_expiry s i"
    by (auto simp: expirable_operations_def open_for_expiry_def in_flight_def split: option.splits)
  show "expire_all cd c g n gg now (expirable_operations s c n now) s = (Inr rs, t)"
    using f by (simp add: expire_unapplied_for_successor_def)
qed

section \<open>Handing over to the successor\<close>

lemma retry_frame:
  assumes "retry_operation c g i now s = (Inr r, t)"
  shows "gateway_leases t = gateway_leases s \<and> nodes t = nodes s"
  using assms
proof (cases rule: retry_cases)
  case new
  then show ?thesis by (auto simp: retry_write_def Let_def)
qed simp

lemma retry_all_good:
  assumes "route_inv s" and "retry_all c g now ids s = (Inr u, t)"
  shows "route_good s t \<and> gateway_leases t = gateway_leases s \<and> nodes t = nodes s"
  using assms
proof (induction ids arbitrary: s)
  case Nil
  then show ?case by (simp add: route_good_refl)
next
  case (Cons i ids)
  obtain r v where one: "retry_operation c g i now s = (Inr r, v)" and rest: "retry_all c g now ids v = (Inr u, t)"
    using Cons.prems(2) by (auto simp: andThen_eq_Inr)
  have good: "route_good s v" by (rule retry_good [OF Cons.prems(1) one])
  then have "route_good v t \<and> gateway_leases t = gateway_leases v \<and> nodes t = nodes v"
    using Cons.IH [OF _ rest] by (simp add: route_good_def)
  then show ?case using good retry_frame [OF one] by (auto intro: route_good_trans)
qed

lemma touch_node_sel [simp]:
  "node_administrative_status (touch_node now n) = node_administrative_status n"
  "node_id (touch_node now n) = node_id n"
  "node_certificate_serial (touch_node now n) = node_certificate_serial n"
  "node_revision (touch_node now n) = node_revision n"
  by (simp_all add: touch_node_def)

lemma gateway_bound_touch:
  "nodes t = bt_modify n (touch_node now) (nodes s) \<Longrightarrow> gateway_leases t = gateway_leases s \<Longrightarrow>
     gateway_bound t = gateway_bound s"
  by (auto simp: gateway_bound_def fun_eq_iff split: option.splits)

lemma authenticate_hello_Inr:
  assumes "authenticate_hello s c peer hello now = Inr node"
  shows "bt_get (nodes s) (hello_node_id hello) = Some node"
    and "node_administrative_status node \<noteq> NodeIsRevoked"
    and "node_company_id node = c" and "hello_company_id hello = c"
    and "node_certificate_serial node = hello_certificate_serial hello"
    and "hello_certificate_serial hello \<notin> revoked_certificate_serials s"
    and "hello_features hello \<subseteq> node_allowed_capabilities node"
    and "\<exists>certificate. bt_get (certificates s) (hello_certificate_serial hello) = Some certificate
           \<and> now < cert_expires_at_unix_ms certificate \<and> cert_revoked_at_unix_ms certificate = None
           \<and> cert_node_daemon_generation certificate = hello_node_daemon_generation hello
           \<and> cert_node_id certificate = node_id node"
    and "peer_node_id peer = hello_node_id hello"
  using assms
  by (auto simp: authenticate_hello_def bindR_eq_Inr validate_node_hello_Inr
      certificate_claim_invalid_def not_le)

lemma connect_verified_Inr:
  assumes "connect_verified cd c g peer hello now s = (Inr w, t)"
  obtains node u v rs lease where "authenticate_hello s c peer hello now = Inr node"
    "lease = successor_lease (bt_get (gateway_leases s) (hello_node_id hello)) c g hello now"
    "successor_admission (bt_get (gateway_leases s) (hello_node_id hello)) g hello now = Inr ()"
    "expire_unapplied_for_successor cd c g (hello_node_id hello) (gwl_gateway_generation lease) now
       (s\<lparr>gateway_leases := bt_insert (hello_node_id hello) lease (gateway_leases s)\<rparr>) = (Inr rs, u)"
    "retry_all c g now (rebindable_operations u c (hello_node_id hello) (gwl_gateway_generation lease) now) u
       = (Inr (), v)"
    "t = v\<lparr>nodes := bt_modify (hello_node_id hello) (touch_node now) (nodes v)\<rparr>"
    "w = gateway_welcome t c g hello lease"
  using assms
  by (auto simp: connect_verified_def check_eq_Inr Let_def andThen_eq_Inr
      rebind_effect_none_attempts_to_successor_def)

lemma gwl_successor [simp]:
  "gwl_gateway_generation (successor_lease p c g hello now) = successor_generation p"
  by (simp add: successor_lease_def)

text \<open>The state after the new lease is in place and the expired work is closed.\<close>

lemma connect_expired_inv:
  assumes inv: "route_inv s" and auth: "authenticate_hello s c peer hello now = Inr node"
    and lease: "lease = successor_lease (bt_get (gateway_leases s) (hello_node_id hello)) c g hello now"
    and exp: "expire_unapplied_for_successor cd c g (hello_node_id hello) (gwl_gateway_generation lease) now
       (s\<lparr>gateway_leases := bt_insert (hello_node_id hello) lease (gateway_leases s)\<rparr>) = (Inr rs, u)"
  shows "route_inv u" and "history_ext s u" and "bt_get (gateway_leases u) (hello_node_id hello) = Some lease"
proof -
  let ?n = "hello_node_id hello"
  let ?s1 = "s\<lparr>gateway_leases := bt_insert ?n lease (gateway_leases s)\<rparr>"
  note auth = authenticate_hello_Inr [OF auth]
  have "gateway_bound ?s1 n h" if "gateway_bound s n h" for n h
  proof (cases "bt_get (gateway_leases s) ?n")
    case None
    then show ?thesis using that auth(1,2) by (auto simp: gateway_bound_def split: option.splits)
  next
    case (Some p)
    have "gwl_gateway_generation p \<le> gwl_gateway_generation lease"
      by (simp add: lease Some successor_generation_def sat_add_ge)
    then show ?thesis using that Some by (auto simp: gateway_bound_def split: option.splits)
  qed
  then have "route_inv ?s1" by (intro route_inv_frame [OF inv]) simp_all
  then have "route_good ?s1 u" "gateway_leases u = gateway_leases ?s1"
    using expire_unapplied_good [OF _ exp] by auto
  moreover have "history_ext s ?s1" by (simp add: history_ext_def)
  ultimately show "route_inv u" "history_ext s u" "bt_get (gateway_leases u) ?n = Some lease"
    by (auto simp: route_good_def intro: history_ext_trans)
qed

lemma connect_good:
  assumes inv: "route_inv s" and f: "connect_verified cd c g peer hello now s = (Inr w, t)"
  shows "route_good s t"
  using f
proof (cases rule: connect_verified_Inr)
  case (1 node u v rs lease)
  note e = connect_expired_inv [OF inv 1(1,2,4)]
  have r: "route_good u v" using retry_all_good [OF e(1) 1(5)] by simp
  have gb: "gateway_bound t = gateway_bound v" by (rule gateway_bound_touch) (simp_all add: 1(6))
  have "route_inv t"
    by (rule route_inv_frame [of v]) (use r gb in \<open>simp_all add: route_good_def 1(6)\<close>)
  moreover have "history_ext v t" by (simp add: history_ext_def 1(6))
  ultimately show ?thesis using e(2) r unfolding route_good_def by (blast intro: history_ext_trans)
qed

lemma heartbeat_Inr:
  assumes "heartbeat c g n gg d dg rv now s = (Inr l, t)"
  obtains lease node where "bt_get (gateway_leases s) n = Some lease" "bt_get (nodes s) n = Some node"
    "node_administrative_status node \<noteq> NodeIsRevoked" "gwl_revision lease = rv"
    "\<not> gateway_lease_stale lease c g gg d dg now"
    "l = lease\<lparr>gwl_revision := sat_add (gwl_revision lease) 1, gwl_last_heartbeat_at_unix_ms := now,
             gwl_expires_at_unix_ms := sat_add now 30000\<rparr>"
    "t = s\<lparr>gateway_leases := bt_insert n l (gateway_leases s), nodes := bt_modify n (touch_node now) (nodes s)\<rparr>"
  using assms by (auto simp: heartbeat_def Let_def split: option.split_asm if_split_asm)

lemma heartbeat_good:
  assumes inv: "route_inv s" and f: "heartbeat c g n gg d dg rv now s = (Inr l, t)"
  shows "route_good s t"
  using f
proof (cases rule: heartbeat_Inr)
  case (1 lease node)
  have "gateway_bound t m h" if "gateway_bound s m h" for m h
    using that 1 by (auto simp: gateway_bound_def split: option.splits if_split_asm)
  then have "route_inv t" by (intro route_inv_frame [OF inv]) (simp_all add: 1)
  then show ?thesis by (simp add: route_good_def history_ext_def 1)
qed

end
