(* ===== verification/Rust_Text.thy ===== *)
theory Rust_Text
  imports Prelude
begin

text \<open>
  Text as the code handles it: \<^verbatim>\<open>trim\<close> on UTF-8 bytes, ASCII case, and signed integers written and
  read in decimal.
\<close>

section \<open>Trimming\<close>

text \<open>A white-space character at the front is dropped with all of its bytes.\<close>

fun trim_start :: "string \<Rightarrow> string" where
  "trim_start [] = []"
| "trim_start [a] = (if ws1 (of_char a) then [] else [a])"
| "trim_start [a, b] =
     (if ws1 (of_char a) then trim_start [b] else if ws2 (of_char a) (of_char b) then [] else [a, b])"
| "trim_start (a # b # c # s) =
     (if ws1 (of_char a) then trim_start (b # c # s)
      else if ws2 (of_char a) (of_char b) then trim_start (c # s)
      else if ws3 (of_char a) (of_char b) (of_char c) then trim_start s
      else a # b # c # s)"

text \<open>The shortest prefix that is followed by white space only.\<close>

fun trim_end :: "string \<Rightarrow> string" where
  "trim_end [] = []"
| "trim_end (c # s) = (if blank (c # s) then [] else c # trim_end s)"

definition trim :: "string \<Rightarrow> string" where
  "trim s = trim_end (trim_start s)"

text \<open>A text that begins with a white-space character.\<close>

fun leading_space :: "string \<Rightarrow> bool" where
  "leading_space [] = False"
| "leading_space [a] = ws1 (of_char a)"
| "leading_space [a, b] \<longleftrightarrow> ws1 (of_char a) \<or> ws2 (of_char a) (of_char b)"
| "leading_space (a # b # c # s) \<longleftrightarrow>
     ws1 (of_char a) \<or> ws2 (of_char a) (of_char b) \<or> ws3 (of_char a) (of_char b) (of_char c)"

lemma trim_start_no_space: "\<not> leading_space (trim_start s)"
  by (induction s rule: trim_start.induct) auto

lemma trim_start_id: "\<not> leading_space s \<Longrightarrow> trim_start s = s"
  by (induction s rule: leading_space.induct) auto

lemma leading_space_append: "leading_space s \<Longrightarrow> leading_space (s @ t)"
proof (induction s rule: leading_space.induct)
  case (2 a)
  then show ?case by (cases "[a] @ t" rule: leading_space.cases) auto
next
  case (3 a b)
  then show ?case by (cases "[a, b] @ t" rule: leading_space.cases) auto
qed simp_all

lemma trim_end_prefix: "\<exists>t. s = trim_end s @ t \<and> blank t"
  by (induction s) auto

lemma trim_start_of_end: "trim_start (trim_end (trim_start s)) = trim_end (trim_start s)"
proof (rule trim_start_id)
  show "\<not> leading_space (trim_end (trim_start s))"
    using trim_end_prefix [of "trim_start s"] leading_space_append trim_start_no_space by metis
qed

lemma blank_append: "blank s \<Longrightarrow> blank t \<Longrightarrow> blank (s @ t)"
proof (induction s rule: blank.induct)
  case (2 a)
  then show ?case by (cases t rule: blank.cases) auto
next
  case (3 a b)
  then show ?case by (cases t) (auto split: if_splits)
qed (auto split: if_splits)

lemma trim_end_trim_end: "trim_end (trim_end s) = trim_end s"
proof (induction s)
  case (Cons c s)
  have "blank (c # s)" if "blank (c # trim_end s)"
    using trim_end_prefix [of s] blank_append [OF that] by (metis append_Cons)
  then show ?case using Cons by auto
qed simp

lemma trim_trim [simp]: "trim (trim s) = trim s"
  by (simp add: trim_def trim_start_of_end trim_end_trim_end)

lemma trim_blank: "trim s = [] \<longleftrightarrow> blank s"
proof -
  have "blank (trim_start s) \<longleftrightarrow> blank s" by (induction s rule: trim_start.induct) auto
  moreover have "trim_end t = [] \<longleftrightarrow> blank t" for t by (cases t) auto
  ultimately show ?thesis by (simp add: trim_def)
qed

section \<open>ASCII case\<close>

definition ascii_lower :: "char \<Rightarrow> char" where
  "ascii_lower c = (let n = (of_char c :: nat) in if 65 \<le> n \<and> n \<le> 90 then char_of (n + 32) else c)"

definition to_ascii_lowercase :: "string \<Rightarrow> string" where
  "to_ascii_lowercase s = map ascii_lower s"

section \<open>Signed integers\<close>

text \<open>An \<^verbatim>\<open>i64\<close> is a 64-bit word read with its sign.\<close>

type_synonym i64 = "64 word"

definition show_i64 :: "i64 \<Rightarrow> string" where
  "show_i64 w = (if sint w < 0 then CHR ''-'' # show_nat (nat (- sint w)) else show_nat (nat (sint w)))"

definition digit_value :: "char \<Rightarrow> nat option" where
  "digit_value c = (let n = (of_char c :: nat) in if 48 \<le> n \<and> n \<le> 57 then Some (n - 48) else None)"

fun parse_digits :: "nat \<Rightarrow> string \<Rightarrow> nat option" where
  "parse_digits acc [] = Some acc"
| "parse_digits acc (c # s) =
     (case digit_value c of None \<Rightarrow> None | Some d \<Rightarrow> parse_digits (10 * acc + d) s)"

definition parse_nat :: "string \<Rightarrow> nat option" where
  "parse_nat s = (if s = [] then None else parse_digits 0 s)"

text \<open>
  \<^verbatim>\<open>str::parse::<i64>\<close>: an optional sign, at least one digit, and no overflow. Only its success is
  used.
\<close>

definition parse_i64 :: "string \<Rightarrow> i64 option" where
  "parse_i64 s =
     (let (negative, digits) =
            (case s of
               [] \<Rightarrow> (False, [])
             | c # rest \<Rightarrow> if c = CHR ''-'' then (True, rest) else if c = CHR ''+'' then (False, rest) else (False, s)) in
      case parse_nat digits of
        None \<Rightarrow> None
      | Some n \<Rightarrow>
          let v = (if negative then - int n else int n) in
          if - (2 ^ 63) \<le> v \<and> v < 2 ^ 63 then Some (word_of_int v) else None)"

lemma digit_value_digit: "d < 10 \<Longrightarrow> digit_value (digit d) = Some d"
  by (simp add: digit_value_def digit_def Let_def)

lemma parse_digits_append:
  "parse_digits acc (s @ t) = (case parse_digits acc s of None \<Rightarrow> None | Some m \<Rightarrow> parse_digits m t)"
  by (induction acc s rule: parse_digits.induct) (auto split: option.split)

lemma parse_digits_show: "parse_digits 0 (show_nat n) = Some n"
proof (induction n rule: show_nat.induct)
  case (1 n)
  show ?case
  proof (cases "n < 10")
    case False
    then have "parse_digits 0 (show_nat n) = Some (10 * (n div 10) + n mod 10)"
      using 1 by (simp add: show_nat.simps [of n] parse_digits_append digit_value_digit)
    then show ?thesis by simp
  qed (simp add: show_nat.simps [of n] digit_value_digit)
qed

lemma parse_nat_show: "parse_nat (show_nat n) = Some n"
  by (simp add: parse_nat_def show_nat_nonempty parse_digits_show)

lemma show_nat_head: "\<exists>d r. d < 10 \<and> show_nat n = digit d # r"
proof (induction n rule: show_nat.induct)
  case (1 n)
  show ?case
  proof (cases "n < 10")
    case True
    then show ?thesis by (auto simp: show_nat.simps [of n])
  next
    case False
    then obtain d r where "d < 10" "show_nat (n div 10) = digit d # r" using 1 by blast
    then show ?thesis using False by (auto simp: show_nat.simps [of n])
  qed
qed

lemma digit_not_sign: "d < 10 \<Longrightarrow> digit d \<noteq> CHR ''-'' \<and> digit d \<noteq> CHR ''+''"
  using digit_value_digit [of d] by (auto simp: digit_value_def)

lemma parse_show_i64: "parse_i64 (show_i64 w) = Some w"
proof -
  have range: "- (2 ^ 63) \<le> sint w" "sint w < 2 ^ 63" using sint_ge [of w] sint_lt [of w] by simp_all
  show ?thesis
  proof (cases "sint w < 0")
    case True
    then show ?thesis using range by (simp add: show_i64_def parse_i64_def parse_nat_show)
  next
    case False
    obtain d r where dr: "d < 10" "show_nat (nat (sint w)) = digit d # r" using show_nat_head by blast
    then have "parse_i64 (show_i64 w) =
        (let v = sint w in if - (2 ^ 63) \<le> v \<and> v < 2 ^ 63 then Some (word_of_int v) else None)"
      using False digit_not_sign [of d] parse_nat_show [of "nat (sint w)"]
      by (simp add: show_i64_def parse_i64_def)
    then show ?thesis using range by simp
  qed
qed

lemma show_i64_no_colon: "CHR '':'' \<notin> set (show_i64 w)"
  by (simp add: show_i64_def show_nat_no_colon)

lemma show_i64_not_dash: "show_i64 w \<noteq> ''-''"
  using parse_show_i64 [of w] by (auto simp: parse_i64_def parse_nat_def)

end
