(* ===== verification/Artifacts.thy ===== *)
theory Artifacts
  imports Control_Plane Rust_Text
begin

text \<open>
  Artifacts of the Control Plane (\<^verbatim>\<open>crates/firm-fabric/src/artifacts.rs\<close>): manifests, the upload
  and download capabilities with their token, and the encrypted object store. HMAC-SHA-256 and
  ChaCha20-Poly1305 are other packages' code and the key backend is a trait of the embedding
  program: they are the fields of the record \<open>vault\<close>, passed to every definition that uses them.
\<close>

section \<open>Keys and ciphers\<close>

record vault =
  capability_signing_key :: bytes
  mac_new :: "bytes \<Rightarrow> (bytes \<Rightarrow> bytes) option"
  key_for_company :: "string \<Rightarrow> bytes result"
  cipher_encrypt :: "bytes \<Rightarrow> bytes \<Rightarrow> bytes \<Rightarrow> bytes option"
  cipher_decrypt :: "bytes \<Rightarrow> bytes \<Rightarrow> bytes \<Rightarrow> bytes option"

text \<open>The key backend that comes with the crate.\<close>

definition in_memory_insert :: "string \<Rightarrow> bytes \<Rightarrow> bytes btree \<Rightarrow> bytes btree" where
  "in_memory_insert company_id key keys = bt_insert company_id key keys"

definition in_memory_key_for_company :: "bytes btree \<Rightarrow> string \<Rightarrow> bytes result" where
  "in_memory_key_for_company keys company_id =
     ok_or (bt_get keys company_id)
       (FabricError_none StoreUnavailable ''artifact encryption key is unavailable'')"

text \<open>
  An operation that may panic. A panic inside a transaction unwinds with the store's mutex held, so
  it is an outcome of its own: nothing is committed and no error value is returned.
\<close>

datatype abort = Panicked | Failed FabricError

type_synonym 'a abort_action = "(FabricState, abort, 'a) action"

definition guarded :: "ControlPlane \<Rightarrow> u64 \<Rightarrow> u64 \<Rightarrow> 'a abort_action \<Rightarrow> 'a abort_action" where
  "guarded cp generation now_unix_ms operation state =
     (case check (map_err Failed (require_active_control_plane state (cp_company_id cp) (cp_instance_id cp)
             generation now_unix_ms)) (\<lambda>_. operation) state of
        (Inl e, _) \<Rightarrow> (Inl e, state)
      | (Inr x, next_state) \<Rightarrow> (Inr x, next_state\<lparr>revision := sat_add (revision state) 1\<rparr>))"

section \<open>Text\<close>

fun contains :: "string \<Rightarrow> string \<Rightarrow> bool" where
  "contains pattern [] \<longleftrightarrow> pattern = []"
| "contains pattern (c # s) \<longleftrightarrow> strip_prefix pattern (c # s) \<noteq> None \<or> contains pattern s"

text \<open>\<^verbatim>\<open>str::split_once\<close> with a character.\<close>

fun split_once :: "char \<Rightarrow> string \<Rightarrow> (string \<times> string) option" where
  "split_once sep [] = None"
| "split_once sep (c # s) =
     (if c = sep then Some ([], s) else map_option (\<lambda>(before, after). (c # before, after)) (split_once sep s))"

text \<open>
  \<^verbatim>\<open>u8::from_str_radix(s, 16)\<close> on two bytes: hexadecimal digits of either case, or a plus sign and
  one digit.
\<close>

definition hex_value :: "char \<Rightarrow> nat option" where
  "hex_value c =
     (let n = (of_char c :: nat) in
      if 48 \<le> n \<and> n \<le> 57 then Some (n - 48)
      else if 65 \<le> n \<and> n \<le> 70 then Some (n - 55)
      else if 97 \<le> n \<and> n \<le> 102 then Some (n - 87)
      else None)"

definition radix_pair :: "char \<Rightarrow> char \<Rightarrow> char option" where
  "radix_pair a b =
     (case hex_value b of
        None \<Rightarrow> None
      | Some low \<Rightarrow>
          if a = CHR ''+'' then Some (char_of low)
          else map_option (\<lambda>high. char_of (16 * high + low)) (hex_value a))"

text \<open>A byte that continues a character of UTF-8: no slice of a \<^verbatim>\<open>str\<close> may start or end before it.\<close>

definition continuation_byte :: "char \<Rightarrow> bool" where
  "continuation_byte c \<longleftrightarrow> (let n = (of_char c :: nat) in 128 \<le> n \<and> n < 192)"

text \<open>
  The loop of \<^verbatim>\<open>decode_hex\<close> over two-byte slices. It stops at the first pair that is not
  hexadecimal; slicing off a character boundary panics.
\<close>

fun decode_pairs :: "string \<Rightarrow> abort + bytes option" where
  "decode_pairs (a # b # rest) =
     (if rest \<noteq> [] \<and> continuation_byte (hd rest) then Inl Panicked
      else (case radix_pair a b of
              None \<Rightarrow> Inr None
            | Some byte \<Rightarrow> bindR (decode_pairs rest) (\<lambda>bytes. Inr (map_option (\<lambda>bs. byte # bs) bytes))))"
| "decode_pairs _ = Inr (Some [])"

definition decode_hex :: "string \<Rightarrow> abort + bytes option" where
  "decode_hex value = (if length value mod 2 \<noteq> 0 then Inr None else decode_pairs value)"

definition allowed_media_type :: "string \<Rightarrow> bool" where
  "allowed_media_type media_type \<longleftrightarrow>
     media_type \<in> {''application/json'', ''application/octet-stream'', ''text/plain'', ''image/png'',
       ''image/jpeg'', ''image/webp''}"

text \<open>
  The lossy decoding of the bytes replaces what is not UTF-8 by a character that is not ASCII and
  drops nothing, so an ASCII marker occurs in it exactly when it occurs in the bytes.
\<close>

definition contains_forbidden_payload :: "bytes \<Rightarrow> bool" where
  "contains_forbidden_payload bytes \<longleftrightarrow>
     list_ex (\<lambda>marker. contains marker (map ascii_lower bytes))
       [''-----begin private key-----'', ''-----begin rsa private key-----'', ''api_key='', ''api-key:'',
        ''authorization: bearer '', ''chain_of_thought'', ''provider transcript'', ''.git/objects/'']"

section \<open>Capabilities\<close>

fun purpose_text :: "ArtifactCapabilityPurpose \<Rightarrow> string" where
  "purpose_text PurposeUpload = ''upload''"
| "purpose_text PurposeDownload = ''download''"

text \<open>The claims a token signs, as serde renders the local struct \<^verbatim>\<open>Claims\<close>.\<close>

definition claims_value ::
    "string \<Rightarrow> string \<Rightarrow> string \<Rightarrow> string \<Rightarrow> ArtifactCapabilityPurpose \<Rightarrow> string \<Rightarrow> u64 \<Rightarrow> u64 \<Rightarrow> bool \<Rightarrow> json" where
  "claims_value company_id nid artifact_id artifact_digest purpose issued_to issued_at_unix_ms
      expires_at_unix_ms one_use =
     JObject [(''company_id'', JString company_id), (''node_id'', JString nid),
       (''artifact_id'', JString artifact_id), (''artifact_digest'', JString artifact_digest),
       (''purpose'', JString (purpose_text purpose)), (''issued_to'', JString issued_to),
       (''issued_at_unix_ms'', JNumber (PosInt issued_at_unix_ms)),
       (''expires_at_unix_ms'', JNumber (PosInt expires_at_unix_ms)), (''one_use'', JBool one_use)]"

definition signing_mac :: "vault \<Rightarrow> (bytes \<Rightarrow> bytes) result" where
  "signing_mac v =
     ok_or (mac_new v (capability_signing_key v))
       (FabricError_none StoreUnavailable ''capability signing key is invalid'')"

definition issue_capability ::
    "codec \<Rightarrow> vault \<Rightarrow> RemoteArtifactManifest \<Rightarrow> string \<Rightarrow> ArtifactCapabilityPurpose \<Rightarrow> string \<Rightarrow> u64 \<Rightarrow> bool
      \<Rightarrow> ArtifactCapability result" where
  "issue_capability cd v manifest nid purpose issued_to now_unix_ms one_use =
     (let expires_at_unix_ms = sat_add now_unix_ms (5 * 60 * 1000) in
      bindR (canonical_digest cd (Inr (claims_value (art_company_id manifest) nid (art_id manifest)
               (art_sha256 manifest) purpose issued_to now_unix_ms expires_at_unix_ms one_use))) (\<lambda>claims_digest.
      bindR (signing_mac v) (\<lambda>mac.
      Inr \<lparr>cap_token = claims_digest @ ''.'' @ bytes_to_hex (mac claims_digest),
           cap_company_id = art_company_id manifest,
           cap_node_id = nid,
           cap_artifact_id = art_id manifest,
           cap_artifact_digest = art_sha256 manifest,
           cap_purpose = purpose,
           cap_issued_to = issued_to,
           cap_issued_at_unix_ms = now_unix_ms,
           cap_expires_at_unix_ms = expires_at_unix_ms,
           cap_one_use = one_use\<rparr>)))"

definition capability_claims :: "ArtifactCapability \<Rightarrow> json" where
  "capability_claims capability =
     claims_value (cap_company_id capability) (cap_node_id capability) (cap_artifact_id capability)
       (cap_artifact_digest capability) (cap_purpose capability) (cap_issued_to capability)
       (cap_issued_at_unix_ms capability) (cap_expires_at_unix_ms capability) (cap_one_use capability)"

definition verify_capability ::
    "codec \<Rightarrow> vault \<Rightarrow> FabricState \<Rightarrow> ArtifactCapability \<Rightarrow> ArtifactCapabilityPurpose \<Rightarrow> u64 \<Rightarrow> abort + unit" where
  "verify_capability cd v state capability purpose now_unix_ms =
     bindR (map_err Failed (reject_if (cap_purpose capability \<noteq> purpose)
              (FabricError_none CapabilityInvalid ''artifact capability purpose mismatch''))) (\<lambda>_.
     bindR (map_err Failed (reject_if (cap_expires_at_unix_ms capability \<le> now_unix_ms)
              (FabricError_none CapabilityExpired ''artifact capability expired''))) (\<lambda>_.
     bindR (map_err Failed (reject_if (sha256_hex cd (cap_token capability) \<in> consumed_capabilities state)
              (FabricError_none CapabilityConsumed ''artifact capability was already consumed''))) (\<lambda>_.
     bindR (map_err Failed (ok_or (split_once (CHR ''.'') (cap_token capability))
              (FabricError_none CapabilityInvalid ''artifact capability token is malformed'')))
       (\<lambda>(claims_digest, signature_hex).
     bindR (map_err Failed (canonical_digest cd (Inr (capability_claims capability)))) (\<lambda>expected_claims.
     bindR (map_err Failed (reject_if (claims_digest \<noteq> expected_claims)
              (FabricError_none CapabilityInvalid ''artifact capability claims were modified''))) (\<lambda>_.
     bindR (decode_hex signature_hex) (\<lambda>decoded.
     bindR (map_err Failed (ok_or decoded
              (FabricError_none CapabilityInvalid ''artifact capability signature is malformed''))) (\<lambda>signature.
     bindR (map_err Failed (signing_mac v)) (\<lambda>mac.
     map_err Failed (reject_if (signature \<noteq> mac claims_digest)
       (FabricError_none CapabilityInvalid ''artifact capability signature is invalid'')))))))))))"

definition consume_capability :: "codec \<Rightarrow> ArtifactCapability \<Rightarrow> FabricState \<Rightarrow> FabricState" where
  "consume_capability cd capability state =
     (if cap_one_use capability \<or> cap_purpose capability = PurposeUpload
      then state\<lparr>consumed_capabilities :=
             insert (sha256_hex cd (cap_token capability)) (consumed_capabilities state)\<rparr>
      else state)"

definition artifact_nonce :: "codec \<Rightarrow> RemoteArtifactManifest \<Rightarrow> bytes" where
  "artifact_nonce cd manifest =
     take 12 (sha256 cd (art_company_id manifest @ '':'' @ art_id manifest @ '':'' @ art_sha256 manifest))"

section \<open>Manifests\<close>

definition artifact_manifest :: "FabricState \<Rightarrow> string \<Rightarrow> RemoteArtifactManifest option" where
  "artifact_manifest state artifact_id = bt_get (artifacts state) artifact_id"

definition require_manifest :: "FabricState \<Rightarrow> string \<Rightarrow> RemoteArtifactManifest result" where
  "require_manifest state artifact_id =
     ok_or (artifact_manifest state artifact_id)
       (FabricError_none ArtifactInvalid ''artifact manifest does not exist'')"

definition retention_closed :: "RemoteArtifactManifest \<Rightarrow> u64 \<Rightarrow> bool" where
  "retention_closed manifest now_unix_ms \<longleftrightarrow>
     (case art_expires_at_unix_ms manifest of None \<Rightarrow> False | Some expires \<Rightarrow> expires \<le> now_unix_ms)"

definition replay_collaboration_upload_capability ::
    "codec \<Rightarrow> vault \<Rightarrow> ControlPlane \<Rightarrow> AuthenticatedActor \<Rightarrow> u64 \<Rightarrow> string \<Rightarrow> u64
      \<Rightarrow> (FabricState, RemoteArtifactManifest \<times> ArtifactCapability) fabric_action" where
  "replay_collaboration_upload_capability cd v cp actor generation artifact_id now_unix_ms =
     gated cp generation now_unix_ms (\<lambda>state.
       check (require_company_and_role actor (cp_company_id cp) ''artifact_write'' now_unix_ms) (\<lambda>_.
       check (require_manifest state artifact_id) (\<lambda>manifest.
       check (reject_if (art_initiator manifest \<noteq> act_actor_id actor
                         \<or> art_source_team_id manifest = None \<or> art_source_work_id manifest = None
                         \<or> art_completed_at_unix_ms manifest \<noteq> None
                         \<or> art_deleted_at_unix_ms manifest \<noteq> None)
                (FabricError_none ArtifactInvalid ''collaboration upload is not replayable'')) (\<lambda>_.
       check (issue_capability cd v manifest (art_source_node_id manifest) PurposeUpload (act_actor_id actor)
                (art_created_at_unix_ms manifest) True) (\<lambda>capability state.
       (Inr (manifest, capability), state))))) state)"

text \<open>The bytes already declared for an operation; \<^verbatim>\<open>sum::<u64>()\<close> wraps in a release build.\<close>

definition operation_artifact_bytes :: "FabricState \<Rightarrow> string \<Rightarrow> u64" where
  "operation_artifact_bytes state operation_id =
     sum_list (map art_size_bytes
       (filter (\<lambda>artifact. art_operation_id artifact = Some operation_id) (bt_values (artifacts state))))"

definition new_manifest ::
    "string \<Rightarrow> AuthenticatedActor \<Rightarrow> string \<Rightarrow> string \<Rightarrow> (string \<times> string) option \<Rightarrow> string option \<Rightarrow> string
      \<Rightarrow> u64 \<Rightarrow> string \<Rightarrow> ArtifactClassification \<Rightarrow> string set \<Rightarrow> u64 \<Rightarrow> RemoteArtifactManifest" where
  "new_manifest company_id actor artifact_id source_node_id collaboration_scope operation_id media_type
      size_bytes sha classification authorized_readers now_unix_ms =
     \<lparr>art_id = artifact_id,
      art_company_id = company_id,
      art_source_node_id = source_node_id,
      art_source_team_id = map_option fst collaboration_scope,
      art_source_work_id = map_option snd collaboration_scope,
      art_operation_id = operation_id,
      art_media_type = media_type,
      art_size_bytes = size_bytes,
      art_sha256 = sha,
      art_classification = classification,
      art_initiator = act_actor_id actor,
      art_authorized_readers = authorized_readers,
      art_created_by = act_actor_id actor,
      art_created_at_unix_ms = now_unix_ms,
      art_expires_at_unix_ms = None,
      art_completed_at_unix_ms = None,
      art_deleted_at_unix_ms = None,
      art_revision = 1,
      art_schema_version = FABRIC_SCHEMA_VERSION\<rparr>"

text \<open>
  The second comparison of the generation (lines 205--210) repeats what the lease check decides.
\<close>

definition initiate_artifact_internal ::
    "codec \<Rightarrow> vault \<Rightarrow> FabricStoreLimits \<Rightarrow> ControlPlane \<Rightarrow> AuthenticatedActor \<Rightarrow> u64 \<Rightarrow> string \<Rightarrow> string
      \<Rightarrow> (string \<times> string) option \<Rightarrow> string option \<Rightarrow> string \<Rightarrow> u64 \<Rightarrow> string \<Rightarrow> ArtifactClassification
      \<Rightarrow> string set \<Rightarrow> u64 \<Rightarrow> (FabricState, RemoteArtifactManifest \<times> ArtifactCapability) fabric_action" where
  "initiate_artifact_internal cd v limits cp actor generation artifact_id source_node_id collaboration_scope
      operation_id media_type size_bytes sha classification authorized_readers now_unix_ms =
     gated cp generation now_unix_ms (\<lambda>state.
       check (require_active_control_plane state (cp_company_id cp) (cp_instance_id cp) generation
                now_unix_ms) (\<lambda>lease.
       check (reject_if (cpl_control_plane_generation lease \<noteq> generation)
                (FabricError_none ControlPlaneStaleGeneration ''Control Plane generation is stale'')) (\<lambda>_.
       check (require_company_and_role actor (cp_company_id cp) ''artifact_write'' now_unix_ms) (\<lambda>_.
       check (ok_or (bt_get (nodes state) source_node_id)
                (FabricError_none SourceMismatch ''artifact source Node does not exist'')) (\<lambda>node.
       check (reject_if (node_company_id node \<noteq> cp_company_id cp
                         \<or> node_administrative_status node = NodeIsRevoked)
                (FabricError_none NodeRevoked ''artifact source Node is foreign or revoked'')) (\<lambda>_.
       check (reject_if (''artifact-transfer'' \<notin> node_allowed_capabilities node)
                (FabricError_none FeatureIncompatible
                   ''artifact source Node lacks artifact-transfer capability'')) (\<lambda>_.
       check (reject_if (bt_contains (artifacts state) artifact_id
                         \<or> size_bytes > max_artifact_bytes limits
                         \<or> length sha \<noteq> 64
                         \<or> authorized_readers = {}
                         \<or> \<not> allowed_media_type media_type)
                (FabricError_none ArtifactInvalid
                   ''artifact manifest is duplicate, oversized, or incomplete'')) (\<lambda>_.
       check (reject_if (case operation_id of
                           None \<Rightarrow> False
                         | Some i \<Rightarrow> sat_add (operation_artifact_bytes state i) size_bytes
                                       > max_operation_artifact_bytes limits)
                (FabricError_none ArtifactInvalid ''operation artifact total exceeds 256 MiB'')) (\<lambda>_.
       let manifest = new_manifest (cp_company_id cp) actor artifact_id source_node_id collaboration_scope
             operation_id media_type size_bytes sha classification authorized_readers now_unix_ms in
       check (issue_capability cd v manifest source_node_id PurposeUpload (act_actor_id actor) now_unix_ms
                True) (\<lambda>capability state.
       (Inr (manifest, capability),
        state\<lparr>artifacts := bt_insert (art_id manifest) manifest (artifacts state)\<rparr>)))))))))) state)"

definition initiate_artifact ::
    "codec \<Rightarrow> vault \<Rightarrow> FabricStoreLimits \<Rightarrow> ControlPlane \<Rightarrow> AuthenticatedActor \<Rightarrow> u64 \<Rightarrow> string \<Rightarrow> string
      \<Rightarrow> string option \<Rightarrow> string \<Rightarrow> u64 \<Rightarrow> string \<Rightarrow> ArtifactClassification \<Rightarrow> string set \<Rightarrow> u64
      \<Rightarrow> (FabricState, RemoteArtifactManifest \<times> ArtifactCapability) fabric_action" where
  "initiate_artifact cd v limits cp actor generation artifact_id source_node_id operation_id media_type
      size_bytes sha classification authorized_readers now_unix_ms =
     initiate_artifact_internal cd v limits cp actor generation artifact_id source_node_id None operation_id
       media_type size_bytes sha classification authorized_readers now_unix_ms"

definition initiate_collaboration_artifact ::
    "codec \<Rightarrow> vault \<Rightarrow> FabricStoreLimits \<Rightarrow> ControlPlane \<Rightarrow> AuthenticatedActor \<Rightarrow> u64 \<Rightarrow> string \<Rightarrow> string
      \<Rightarrow> string \<Rightarrow> string \<Rightarrow> string option \<Rightarrow> string \<Rightarrow> u64 \<Rightarrow> string \<Rightarrow> ArtifactClassification \<Rightarrow> string set
      \<Rightarrow> u64 \<Rightarrow> (FabricState, RemoteArtifactManifest \<times> ArtifactCapability) fabric_action" where
  "initiate_collaboration_artifact cd v limits cp actor generation artifact_id source_node_id source_team_id
      source_work_id operation_id media_type size_bytes sha classification authorized_readers now_unix_ms =
     check (reject_if (blank source_team_id \<or> blank source_work_id)
              (FabricError_none ArtifactInvalid
                 ''collaboration artifact requires exact source Team and Work'')) (\<lambda>_.
     initiate_artifact_internal cd v limits cp actor generation artifact_id source_node_id
       (Some (source_team_id, source_work_id)) operation_id media_type size_bytes sha classification
       authorized_readers now_unix_ms)"

definition upload_mismatch ::
    "codec \<Rightarrow> string \<Rightarrow> ArtifactCapability \<Rightarrow> RemoteArtifactManifest \<Rightarrow> bytes \<Rightarrow> bool" where
  "upload_mismatch cd company_id capability manifest bytes \<longleftrightarrow>
     art_completed_at_unix_ms manifest \<noteq> None
     \<or> art_deleted_at_unix_ms manifest \<noteq> None
     \<or> art_company_id manifest \<noteq> company_id
     \<or> art_source_node_id manifest \<noteq> cap_node_id capability
     \<or> art_sha256 manifest \<noteq> cap_artifact_digest capability
     \<or> art_size_bytes manifest \<noteq> of_nat (length bytes)
     \<or> sha256_hex cd bytes \<noteq> art_sha256 manifest
     \<or> contains_forbidden_payload bytes"

definition complete_artifact ::
    "codec \<Rightarrow> vault \<Rightarrow> ControlPlane \<Rightarrow> u64 \<Rightarrow> ArtifactCapability \<Rightarrow> bytes \<Rightarrow> u64
      \<Rightarrow> RemoteArtifactManifest abort_action" where
  "complete_artifact cd v cp generation capability bytes now_unix_ms =
     check (map_err Failed (key_for_company v (cp_company_id cp))) (\<lambda>encryption_key.
     guarded cp generation now_unix_ms (\<lambda>state.
       check (verify_capability cd v state capability PurposeUpload now_unix_ms) (\<lambda>_.
       check (map_err Failed (require_manifest state (cap_artifact_id capability))) (\<lambda>manifest.
       check (map_err Failed (reject_if (upload_mismatch cd (cp_company_id cp) capability manifest bytes)
                (FabricError_none ArtifactTampered
                   ''artifact bytes, digest, size, scope, or lifecycle do not match''))) (\<lambda>_.
       let nonce_bytes = artifact_nonce cd manifest in
       check (map_err Failed (ok_or (cipher_encrypt v encryption_key nonce_bytes bytes)
                (FabricError_none StoreUnavailable ''artifact encryption failed''))) (\<lambda>ciphertext state.
       let next_manifest = manifest\<lparr>art_completed_at_unix_ms := Some now_unix_ms,
                                    art_revision := sat_add (art_revision manifest) 1\<rparr>
       in (Inr next_manifest,
           consume_capability cd capability
             (state\<lparr>encrypted_artifacts := bt_insert (art_id next_manifest)
                      \<lparr>enc_nonce = nonce_bytes, enc_ciphertext = ciphertext\<rparr> (encrypted_artifacts state),
                    artifacts := bt_insert (art_id next_manifest) next_manifest (artifacts state)\<rparr>)))))) state))"

definition bind_collaboration_artifact_scope ::
    "ControlPlane \<Rightarrow> AuthenticatedActor \<Rightarrow> u64 \<Rightarrow> string \<Rightarrow> u64 \<Rightarrow> string \<Rightarrow> string \<Rightarrow> string set \<Rightarrow> u64
      \<Rightarrow> (FabricState, RemoteArtifactManifest) fabric_action" where
  "bind_collaboration_artifact_scope cp actor generation artifact_id expected_revision source_team_id
      source_work_id authorized_readers now_unix_ms =
     gated cp generation now_unix_ms (\<lambda>state.
       check (require_company_and_role actor (cp_company_id cp) ''artifact_write'' now_unix_ms) (\<lambda>_.
       check (require_manifest state artifact_id) (\<lambda>manifest.
       check (reject_if (art_revision manifest \<noteq> expected_revision
                         \<or> art_initiator manifest \<noteq> act_actor_id actor
                         \<or> art_completed_at_unix_ms manifest \<noteq> None
                         \<or> art_deleted_at_unix_ms manifest \<noteq> None
                         \<or> art_source_team_id manifest \<noteq> None
                         \<or> art_source_work_id manifest \<noteq> None
                         \<or> blank source_team_id \<or> blank source_work_id \<or> authorized_readers = {})
                (FabricError_none ArtifactInvalid
                   ''collaboration artifact scope is stale, incomplete, or already bound'')) (\<lambda>_ state.
       let next_manifest = manifest\<lparr>art_source_team_id := Some source_team_id,
                                    art_source_work_id := Some source_work_id,
                                    art_authorized_readers := authorized_readers,
                                    art_revision := sat_add (art_revision manifest) 1\<rparr>
       in (Inr next_manifest,
           state\<lparr>artifacts := bt_insert (art_id next_manifest) next_manifest (artifacts state)\<rparr>)))) state)"

definition schedule_collaboration_artifact_retention ::
    "ControlPlane \<Rightarrow> AuthenticatedActor \<Rightarrow> u64 \<Rightarrow> string \<Rightarrow> u64 \<Rightarrow> u64 \<Rightarrow> u64
      \<Rightarrow> (FabricState, RemoteArtifactManifest) fabric_action" where
  "schedule_collaboration_artifact_retention cp actor generation artifact_id expected_revision
      retain_until_unix_ms now_unix_ms =
     gated cp generation now_unix_ms (\<lambda>state.
       check (require_company_and_role actor (cp_company_id cp) ''artifact_write'' now_unix_ms) (\<lambda>_.
       check (require_manifest state artifact_id) (\<lambda>manifest state.
       if art_initiator manifest = act_actor_id actor
          \<and> art_revision manifest = sat_add expected_revision 1
          \<and> art_expires_at_unix_ms manifest = Some retain_until_unix_ms
       then (Inr manifest, state)
       else
         check (reject_if (art_revision manifest \<noteq> expected_revision
                           \<or> art_initiator manifest \<noteq> act_actor_id actor
                           \<or> art_source_team_id manifest = None
                           \<or> art_source_work_id manifest = None
                           \<or> art_completed_at_unix_ms manifest = None
                           \<or> art_deleted_at_unix_ms manifest \<noteq> None
                           \<or> art_expires_at_unix_ms manifest \<noteq> None
                           \<or> retain_until_unix_ms \<le> now_unix_ms)
                  (FabricError_none ArtifactInvalid
                     ''artifact retention requires a complete scoped manifest and future safe anchor'')) (\<lambda>_ state.
         let next_manifest = manifest\<lparr>art_expires_at_unix_ms := Some retain_until_unix_ms,
                                      art_revision := sat_add (art_revision manifest) 1\<rparr>
         in (Inr next_manifest,
             state\<lparr>artifacts := bt_insert (art_id next_manifest) next_manifest (artifacts state)\<rparr>)) state)) state)"

section \<open>Downloads\<close>

definition issue_download_capability_from_state ::
    "codec \<Rightarrow> vault \<Rightarrow> FabricState \<Rightarrow> string \<Rightarrow> AuthenticatedActor \<Rightarrow> string \<Rightarrow> string \<Rightarrow> u64
      \<Rightarrow> ArtifactCapability result" where
  "issue_download_capability_from_state cd v state company_id actor artifact_id nid now_unix_ms =
     bindR (require_company_and_role actor company_id ''artifact_read'' now_unix_ms) (\<lambda>_.
     bindR (require_manifest state artifact_id) (\<lambda>manifest.
     bindR (reject_if (art_completed_at_unix_ms manifest = None
                       \<or> art_deleted_at_unix_ms manifest \<noteq> None
                       \<or> retention_closed manifest now_unix_ms
                       \<or> act_actor_id actor \<notin> art_authorized_readers manifest)
              (FabricError_none UnauthorizedActor
                 ''actor is not an authorized reader of a complete artifact'')) (\<lambda>_.
     bindR (ok_or (bt_get (nodes state) nid)
              (FabricError_none TargetNotPlaced ''artifact target Node is not enrolled'')) (\<lambda>target.
     bindR (reject_if (node_company_id target \<noteq> company_id
                       \<or> node_administrative_status target = NodeIsRevoked)
              (FabricError_none NodeRevoked ''artifact target Node is foreign or revoked'')) (\<lambda>_.
     bindR (reject_if (''artifact-transfer'' \<notin> node_allowed_capabilities target)
              (FabricError_none FeatureIncompatible
                 ''artifact target Node lacks artifact-transfer capability'')) (\<lambda>_.
     issue_capability cd v manifest nid PurposeDownload (act_actor_id actor) now_unix_ms True))))))"

definition issue_download_capability ::
    "codec \<Rightarrow> vault \<Rightarrow> ControlPlane \<Rightarrow> AuthenticatedActor \<Rightarrow> u64 \<Rightarrow> string \<Rightarrow> string \<Rightarrow> u64
      \<Rightarrow> (FabricState, ArtifactCapability) fabric_action" where
  "issue_download_capability cd v cp actor generation artifact_id nid now_unix_ms =
     gated cp generation now_unix_ms (\<lambda>state.
       (issue_download_capability_from_state cd v state (cp_company_id cp) actor artifact_id nid now_unix_ms,
        state))"

definition issue_delegated_download_capability ::
    "codec \<Rightarrow> vault \<Rightarrow> ControlPlane \<Rightarrow> AuthenticatedActor \<Rightarrow> u64 \<Rightarrow> string \<Rightarrow> string \<Rightarrow> string \<Rightarrow> u64
      \<Rightarrow> (FabricState, ArtifactCapability) fabric_action" where
  "issue_delegated_download_capability cd v cp grantor generation artifact_id authorized_reader_id nid
      now_unix_ms =
     gated cp generation now_unix_ms (\<lambda>state.
       check (require_company_and_role grantor (cp_company_id cp) ''artifact_write'' now_unix_ms) (\<lambda>_.
       check (require_manifest state artifact_id) (\<lambda>manifest.
       check (reject_if (art_initiator manifest \<noteq> act_actor_id grantor
                         \<or> art_completed_at_unix_ms manifest = None
                         \<or> art_deleted_at_unix_ms manifest \<noteq> None
                         \<or> retention_closed manifest now_unix_ms
                         \<or> authorized_reader_id \<notin> art_authorized_readers manifest)
                (FabricError_none UnauthorizedActor
                   ''artifact grantor, reader, or lifecycle is not authorized'')) (\<lambda>_.
       check (ok_or (bt_get (nodes state) nid)
                (FabricError_none TargetNotPlaced ''artifact target Node is not enrolled'')) (\<lambda>target.
       check (reject_if (node_company_id target \<noteq> cp_company_id cp
                         \<or> node_administrative_status target = NodeIsRevoked
                         \<or> ''artifact-transfer'' \<notin> node_allowed_capabilities target)
                (FabricError_none NodeRevoked
                   ''artifact target Node is foreign, revoked, or incapable'')) (\<lambda>_.
       check (issue_capability cd v manifest nid PurposeDownload authorized_reader_id now_unix_ms True)
         (\<lambda>capability state. (Inr capability, state))))))) state)"

definition issue_gateway_download_capability ::
    "codec \<Rightarrow> vault \<Rightarrow> ControlPlane \<Rightarrow> AuthenticatedActor \<Rightarrow> u64 \<Rightarrow> u64 \<Rightarrow> string \<Rightarrow> u64 \<Rightarrow> string \<Rightarrow> string
      \<Rightarrow> u64 \<Rightarrow> (FabricState, ArtifactCapability) fabric_action" where
  "issue_gateway_download_capability cd v cp actor generation gateway_generation node_daemon_id
      node_daemon_generation artifact_id nid now_unix_ms =
     gated cp generation now_unix_ms (\<lambda>state.
       check (require_current_gateway state (cp_company_id cp) generation nid gateway_generation
                node_daemon_id node_daemon_generation now_unix_ms) (\<lambda>_ state.
       (issue_download_capability_from_state cd v state (cp_company_id cp) actor artifact_id nid now_unix_ms,
        state)) state)"

definition download_artifact ::
    "codec \<Rightarrow> vault \<Rightarrow> ControlPlane \<Rightarrow> u64 \<Rightarrow> ArtifactCapability \<Rightarrow> u64 \<Rightarrow> bytes abort_action" where
  "download_artifact cd v cp generation capability now_unix_ms =
     check (map_err Failed (key_for_company v (cp_company_id cp))) (\<lambda>encryption_key.
     guarded cp generation now_unix_ms (\<lambda>state.
       check (verify_capability cd v state capability PurposeDownload now_unix_ms) (\<lambda>_.
       check (map_err Failed (require_manifest state (cap_artifact_id capability))) (\<lambda>manifest.
       check (map_err Failed (reject_if (art_deleted_at_unix_ms manifest \<noteq> None
                                         \<or> retention_closed manifest now_unix_ms)
                (FabricError_none ArtifactInvalid ''artifact retention window is closed''))) (\<lambda>_.
       check (map_err Failed (ok_or (bt_get (encrypted_artifacts state) (cap_artifact_id capability))
                (FabricError_none ArtifactInvalid ''artifact ciphertext does not exist''))) (\<lambda>encrypted.
       check (map_err Failed (ok_or (cipher_decrypt v encryption_key (enc_nonce encrypted)
                                       (enc_ciphertext encrypted))
                (FabricError_none ArtifactTampered
                   ''artifact ciphertext authentication failed''))) (\<lambda>plaintext.
       check (map_err Failed (reject_if (sha256_hex cd plaintext \<noteq> art_sha256 manifest)
                (FabricError_none ArtifactTampered ''decrypted artifact digest mismatch''))) (\<lambda>_ state.
       (Inr plaintext, consume_capability cd capability state))))))) state))"

end
