(* ===== verification/Artifact_Steps.thy ===== *)
theory Artifact_Steps
  imports Artifacts
begin

text \<open>
  The artifact operations as steps. They leave every other table alone; manifests are keyed by their
  id, an encrypted object exists exactly for a completed manifest, and what a completed manifest
  names never changes.
\<close>

section \<open>Invariant and order\<close>

definition objects_of ::
    "FabricState \<Rightarrow> RemoteArtifactManifest btree \<times> EncryptedArtifact btree \<times> string set" where
  "objects_of s = (artifacts s, encrypted_artifacts s, consumed_capabilities s)"

definition completed :: "FabricState \<Rightarrow> string \<Rightarrow> bool" where
  "completed s i \<longleftrightarrow> (\<exists>m. bt_get (artifacts s) i = Some m \<and> art_completed_at_unix_ms m \<noteq> None)"

definition object_inv :: "FabricState \<Rightarrow> bool" where
  "object_inv s \<longleftrightarrow> bt_keyed art_id (artifacts s)
     \<and> (\<forall>i. bt_get (encrypted_artifacts s) i \<noteq> None \<longleftrightarrow> completed s i)"

definition manifest_ext :: "RemoteArtifactManifest \<Rightarrow> RemoteArtifactManifest \<Rightarrow> bool" where
  "manifest_ext m m' \<longleftrightarrow>
     art_company_id m' = art_company_id m \<and> art_source_node_id m' = art_source_node_id m
     \<and> art_sha256 m' = art_sha256 m \<and> art_size_bytes m' = art_size_bytes m
     \<and> art_initiator m' = art_initiator m \<and> art_revision m \<le> art_revision m'
     \<and> (art_completed_at_unix_ms m \<noteq> None \<longrightarrow>
          art_completed_at_unix_ms m' = art_completed_at_unix_ms m
          \<and> art_authorized_readers m' = art_authorized_readers m)"

definition object_ext :: "FabricState \<Rightarrow> FabricState \<Rightarrow> bool" where
  "object_ext s t \<longleftrightarrow>
     (\<forall>i m. bt_get (artifacts s) i = Some m \<longrightarrow>
        (\<exists>m'. bt_get (artifacts t) i = Some m' \<and> manifest_ext m m'))
     \<and> (\<forall>i e. bt_get (encrypted_artifacts s) i = Some e \<longrightarrow> bt_get (encrypted_artifacts t) i = Some e)
     \<and> consumed_capabilities s \<subseteq> consumed_capabilities t"

definition object_good :: "FabricState \<Rightarrow> FabricState \<Rightarrow> bool" where
  "object_good s t \<longleftrightarrow> object_inv t \<and> object_ext s t"

lemma manifest_ext_refl [simp]: "manifest_ext m m"
  by (simp add: manifest_ext_def)

lemma manifest_ext_trans: "manifest_ext m m' \<Longrightarrow> manifest_ext m' m'' \<Longrightarrow> manifest_ext m m''"
  by (auto simp: manifest_ext_def)

lemma object_ext_refl [simp]: "object_ext s s"
  by (simp add: object_ext_def)

lemma object_ext_trans: "object_ext s t \<Longrightarrow> object_ext t u \<Longrightarrow> object_ext s u"
  unfolding object_ext_def by (meson manifest_ext_trans order_trans)

lemma object_inv_default [simp]: "object_inv default_state"
  by (simp add: object_inv_def completed_def default_state_def)

lemma object_frame:
  "object_inv s \<Longrightarrow> objects_of t = objects_of s \<Longrightarrow> object_good s t"
  by (simp add: object_good_def object_inv_def object_ext_def completed_def objects_of_def)

text \<open>A manifest is replaced by one that extends it, with or without its object.\<close>

lemma object_manifest:
  assumes inv: "object_inv s"
    and m: "bt_get (artifacts s) i = Some m" "manifest_ext m m'" "art_id m' = art_id m"
      "art_completed_at_unix_ms m' = art_completed_at_unix_ms m"
    and t: "artifacts t = bt_insert (art_id m') m' (artifacts s)" "encrypted_artifacts t = encrypted_artifacts s"
      "consumed_capabilities t = consumed_capabilities s"
  shows "object_good s t"
proof -
  have i: "art_id m = i" using inv m(1) by (simp add: object_inv_def bt_keyed_def)
  have "bt_keyed art_id (artifacts t)" using inv by (simp add: t object_inv_def bt_keyed_insert)
  moreover have "completed t j \<longleftrightarrow> completed s j" for j using m i by (auto simp: completed_def t)
  ultimately have "object_inv t" using inv by (simp add: object_inv_def t)
  moreover have "object_ext s t" using m i by (auto simp: object_ext_def t)
  ultimately show ?thesis by (simp add: object_good_def)
qed

lemma object_initiate:
  assumes inv: "object_inv s" and new: "bt_get (artifacts s) (art_id m) = None" "art_completed_at_unix_ms m = None"
    and t: "artifacts t = bt_insert (art_id m) m (artifacts s)" "encrypted_artifacts t = encrypted_artifacts s"
      "consumed_capabilities t = consumed_capabilities s"
  shows "object_good s t"
proof -
  have "bt_keyed art_id (artifacts t)" using inv by (simp add: t object_inv_def bt_keyed_insert)
  moreover have "completed t j \<longleftrightarrow> completed s j" for j using new by (auto simp: completed_def t)
  ultimately have "object_inv t" using inv by (simp add: object_inv_def t)
  moreover have "object_ext s t" using new by (auto simp: object_ext_def t)
  ultimately show ?thesis by (simp add: object_good_def)
qed

lemma object_complete:
  assumes inv: "object_inv s"
    and m: "bt_get (artifacts s) i = Some m" "art_completed_at_unix_ms m = None" "manifest_ext m m'"
      "art_id m' = art_id m" "art_completed_at_unix_ms m' \<noteq> None"
    and t: "artifacts t = bt_insert (art_id m') m' (artifacts s)"
      "encrypted_artifacts t = bt_insert (art_id m') e (encrypted_artifacts s)"
      "consumed_capabilities s \<subseteq> consumed_capabilities t"
  shows "object_good s t"
proof -
  have i: "art_id m = i" using inv m(1) by (simp add: object_inv_def bt_keyed_def)
  have none: "bt_get (encrypted_artifacts s) i = None"
    using inv m(1,2) unfolding object_inv_def completed_def by force
  have "bt_keyed art_id (artifacts t)" using inv by (simp add: t object_inv_def bt_keyed_insert)
  moreover have "completed t j \<longleftrightarrow> j = i \<or> completed s j" for j using m i by (auto simp: completed_def t)
  ultimately have "object_inv t" using inv m(4) i by (simp add: object_inv_def t)
  moreover have "object_ext s t" using m i none t(3) by (auto simp: object_ext_def t(1,2))
  ultimately show ?thesis by (simp add: object_good_def)
qed

section \<open>What an operation changes\<close>

lemma require_manifest_Inr [simp]: "require_manifest s i = Inr m \<longleftrightarrow> bt_get (artifacts s) i = Some m"
  by (simp add: require_manifest_def artifact_manifest_def)

lemma transact_Inr:
  "transact f s = (Inr x, t) \<longleftrightarrow> (\<exists>u. f s = (Inr x, u) \<and> t = u\<lparr>revision := sat_add (revision s) 1\<rparr>)"
  by (auto simp: transact_def split: prod.splits sum.splits)

lemma gated_Inr:
  "gated cp g now f s = (Inr x, t) \<longleftrightarrow>
     (\<exists>lease u. require_active_control_plane s (cp_company_id cp) (cp_instance_id cp) g now = Inr lease
        \<and> f s = (Inr x, u) \<and> t = u\<lparr>revision := sat_add (revision s) 1\<rparr>)"
  by (auto simp: gated_def transact_Inr check_eq_Inr)

lemma guarded_Inr:
  "guarded cp g now f s = (Inr x, t) \<longleftrightarrow>
     (\<exists>lease u. require_active_control_plane s (cp_company_id cp) (cp_instance_id cp) g now = Inr lease
        \<and> f s = (Inr x, u) \<and> t = u\<lparr>revision := sat_add (revision s) 1\<rparr>)"
  by (auto simp: guarded_def check_def split: prod.splits sum.splits)

lemma consume_capability_fields [simp]:
  "artifacts (consume_capability cd c s) = artifacts s"
  "encrypted_artifacts (consume_capability cd c s) = encrypted_artifacts s"
  "consumed_capabilities s \<subseteq> consumed_capabilities (consume_capability cd c s)"
  by (auto simp: consume_capability_def)

text \<open>A state that differs in the object store and the revision at most.\<close>

definition objects_only :: "FabricState \<Rightarrow> FabricState \<Rightarrow> bool" where
  "objects_only s t \<longleftrightarrow>
     (\<exists>r a e c. revision s \<le> r
        \<and> t = s\<lparr>revision := r, artifacts := a, encrypted_artifacts := e, consumed_capabilities := c\<rparr>)"

inductive artifact_step :: "codec \<Rightarrow> vault \<Rightarrow> FabricStoreLimits \<Rightarrow> FabricState \<Rightarrow> FabricState \<Rightarrow> bool"
  for cd v limits where
  replay: "replay_collaboration_upload_capability cd v cp actor g i now s = (Inr r, t)
    \<Longrightarrow> artifact_step cd v limits s t"
| initiate: "initiate_artifact cd v limits cp actor g i n op mt sz sha cl rd now s = (Inr r, t)
    \<Longrightarrow> artifact_step cd v limits s t"
| initiate_collaboration:
    "initiate_collaboration_artifact cd v limits cp actor g i n tm wk op mt sz sha cl rd now s = (Inr r, t)
    \<Longrightarrow> artifact_step cd v limits s t"
| complete: "complete_artifact cd v cp g cap bs now s = (Inr m, t) \<Longrightarrow> artifact_step cd v limits s t"
| bind_scope: "bind_collaboration_artifact_scope cp actor g i rv tm wk rd now s = (Inr m, t)
    \<Longrightarrow> artifact_step cd v limits s t"
| retain: "schedule_collaboration_artifact_retention cp actor g i rv until now s = (Inr m, t)
    \<Longrightarrow> artifact_step cd v limits s t"
| issue: "issue_download_capability cd v cp actor g i n now s = (Inr c, t) \<Longrightarrow> artifact_step cd v limits s t"
| issue_delegated: "issue_delegated_download_capability cd v cp actor g i rdr n now s = (Inr c, t)
    \<Longrightarrow> artifact_step cd v limits s t"
| issue_gateway: "issue_gateway_download_capability cd v cp actor g gg d dg i n now s = (Inr c, t)
    \<Longrightarrow> artifact_step cd v limits s t"
| download: "download_artifact cd v cp g cap now s = (Inr bs, t) \<Longrightarrow> artifact_step cd v limits s t"

text \<open>An operation that only advances the revision.\<close>

definition only_revision :: "FabricState \<Rightarrow> FabricState \<Rightarrow> bool" where
  "only_revision s t \<longleftrightarrow> t = s\<lparr>revision := sat_add (revision s) 1\<rparr>"

lemma replay_state:
  "replay_collaboration_upload_capability cd v cp actor g i now s = (Inr r, t) \<Longrightarrow> only_revision s t"
  by (auto simp: replay_collaboration_upload_capability_def gated_Inr check_eq_Inr only_revision_def)

lemma issue_state:
  "issue_download_capability cd v cp actor g i n now s = (Inr c, t) \<Longrightarrow> only_revision s t"
  by (auto simp: issue_download_capability_def gated_Inr only_revision_def)

lemma issue_delegated_state:
  "issue_delegated_download_capability cd v cp actor g i rdr n now s = (Inr c, t) \<Longrightarrow> only_revision s t"
  by (auto simp: issue_delegated_download_capability_def gated_Inr check_eq_Inr only_revision_def)

lemma issue_gateway_state:
  "issue_gateway_download_capability cd v cp actor g gg d dg i n now s = (Inr c, t) \<Longrightarrow> only_revision s t"
  by (auto simp: issue_gateway_download_capability_def gated_Inr check_eq_Inr only_revision_def)

lemma initiate_internal_Inr:
  assumes "initiate_artifact_internal cd v limits cp actor g i n scope op mt sz sha cl rd now s = (Inr r, t)"
  shows "\<exists>m. r = (m, snd r) \<and> art_id m = i \<and> bt_get (artifacts s) i = None \<and> art_completed_at_unix_ms m = None
    \<and> t = s\<lparr>artifacts := bt_insert i m (artifacts s), revision := sat_add (revision s) 1\<rparr>"
  using assms
  by (auto simp: initiate_artifact_internal_def gated_Inr check_eq_Inr Let_def bt_contains_def new_manifest_def)

lemma initiate_collaboration_Inr:
  "initiate_collaboration_artifact cd v limits cp actor g i n tm wk op mt sz sha cl rd now s = (Inr r, t)
     \<Longrightarrow> initiate_artifact_internal cd v limits cp actor g i n (Some (tm, wk)) op mt sz sha cl rd now s = (Inr r, t)"
  by (simp add: initiate_collaboration_artifact_def check_eq_Inr)

lemma complete_artifact_Inr:
  assumes "complete_artifact cd v cp g cap bs now s = (Inr m', t)"
  obtains k m c where
    "key_for_company v (cp_company_id cp) = Inr k"
    "bt_get (artifacts s) (cap_artifact_id cap) = Some m"
    "\<not> upload_mismatch cd (cp_company_id cp) cap m bs"
    "cipher_encrypt v k (artifact_nonce cd m) bs = Some c"
    "m' = m\<lparr>art_completed_at_unix_ms := Some now, art_revision := sat_add (art_revision m) 1\<rparr>"
    "t = (consume_capability cd cap
           (s\<lparr>encrypted_artifacts := bt_insert (art_id m') \<lparr>enc_nonce = artifact_nonce cd m, enc_ciphertext = c\<rparr>
                (encrypted_artifacts s),
              artifacts := bt_insert (art_id m') m' (artifacts s)\<rparr>))\<lparr>revision := sat_add (revision s) 1\<rparr>"
  using assms by (auto simp: complete_artifact_def guarded_Inr check_eq_Inr Let_def)

lemma bind_scope_Inr:
  assumes "bind_collaboration_artifact_scope cp actor g i rv tm wk rd now s = (Inr m', t)"
  obtains m where "bt_get (artifacts s) i = Some m" "art_completed_at_unix_ms m = None"
    "m' = m\<lparr>art_source_team_id := Some tm, art_source_work_id := Some wk, art_authorized_readers := rd,
            art_revision := sat_add (art_revision m) 1\<rparr>"
    "t = s\<lparr>artifacts := bt_insert (art_id m') m' (artifacts s), revision := sat_add (revision s) 1\<rparr>"
  using assms by (auto simp: bind_collaboration_artifact_scope_def gated_Inr check_eq_Inr Let_def)

lemma retain_Inr:
  assumes "schedule_collaboration_artifact_retention cp actor g i rv until now s = (Inr m', t)"
  obtains (replayed) "bt_get (artifacts s) i = Some m'" "only_revision s t"
  | (scheduled) m where "bt_get (artifacts s) i = Some m" "art_completed_at_unix_ms m \<noteq> None"
    "m' = m\<lparr>art_expires_at_unix_ms := Some until, art_revision := sat_add (art_revision m) 1\<rparr>"
    "t = s\<lparr>artifacts := bt_insert (art_id m') m' (artifacts s), revision := sat_add (revision s) 1\<rparr>"
  using assms
  by (auto simp: schedule_collaboration_artifact_retention_def gated_Inr check_eq_Inr Let_def only_revision_def
      split: if_split_asm)

lemma download_artifact_Inr:
  assumes "download_artifact cd v cp g cap now s = (Inr bs, t)"
  obtains k m e where
    "key_for_company v (cp_company_id cp) = Inr k"
    "verify_capability cd v s cap PurposeDownload now = Inr ()"
    "bt_get (artifacts s) (cap_artifact_id cap) = Some m"
    "art_deleted_at_unix_ms m = None" "\<not> retention_closed m now"
    "bt_get (encrypted_artifacts s) (cap_artifact_id cap) = Some e"
    "cipher_decrypt v k (enc_nonce e) (enc_ciphertext e) = Some bs"
    "sha256_hex cd bs = art_sha256 m"
    "t = (consume_capability cd cap s)\<lparr>revision := sat_add (revision s) 1\<rparr>"
  using assms by (auto simp: download_artifact_def guarded_Inr check_eq_Inr)

section \<open>Steps\<close>

lemma only_revision_good:
  "object_inv s \<Longrightarrow> only_revision s t \<Longrightarrow> object_good s t"
  by (rule object_frame) (simp_all add: only_revision_def objects_of_def)

lemma initiate_internal_good:
  assumes "object_inv s"
    and "initiate_artifact_internal cd v limits cp actor g i n scope op mt sz sha cl rd now s = (Inr r, t)"
  shows "object_good s t"
proof -
  obtain m where "art_id m = i" "bt_get (artifacts s) i = None" "art_completed_at_unix_ms m = None"
    "t = s\<lparr>artifacts := bt_insert i m (artifacts s), revision := sat_add (revision s) 1\<rparr>"
    using initiate_internal_Inr [OF assms(2)] by blast
  then show ?thesis by (intro object_initiate [OF assms(1), of m]) simp_all
qed

lemma complete_good:
  assumes "object_inv s" and "complete_artifact cd v cp g cap bs now s = (Inr m', t)"
  shows "object_good s t"
  using assms(2)
proof (cases rule: complete_artifact_Inr)
  case (1 k m c)
  have "art_completed_at_unix_ms m = None" using 1(3) by (simp add: upload_mismatch_def)
  moreover have "consumed_capabilities s \<subseteq> consumed_capabilities t" by (auto simp: 1(6) consume_capability_def)
  ultimately show ?thesis
    by (intro object_complete [OF assms(1) 1(2), of m']) (simp_all add: 1(5,6) manifest_ext_def sat_add_ge)
qed

lemma bind_scope_good:
  assumes "object_inv s" and "bind_collaboration_artifact_scope cp actor g i rv tm wk rd now s = (Inr m', t)"
  shows "object_good s t"
  using assms(2)
proof (cases rule: bind_scope_Inr)
  case (1 m)
  then show ?thesis
    by (intro object_manifest [OF assms(1) 1(1), of m']) (simp_all add: manifest_ext_def sat_add_ge)
qed

lemma retain_good:
  assumes "object_inv s" and "schedule_collaboration_artifact_retention cp actor g i rv until now s = (Inr m', t)"
  shows "object_good s t"
  using assms(2)
proof (cases rule: retain_Inr)
  case replayed
  then show ?thesis using assms(1) only_revision_good by blast
next
  case (scheduled m)
  then show ?thesis
    by (intro object_manifest [OF assms(1) scheduled(1), of m']) (simp_all add: manifest_ext_def sat_add_ge)
qed

lemma download_good:
  assumes "object_inv s" and "download_artifact cd v cp g cap now s = (Inr bs, t)"
  shows "object_good s t"
  using assms(2)
proof (cases rule: download_artifact_Inr)
  case (1 k m e)
  have "completed t i \<longleftrightarrow> completed s i" for i by (simp add: completed_def 1(9))
  then show ?thesis using assms(1) consume_capability_fields(3)
    by (simp add: object_good_def object_inv_def object_ext_def 1(9))
qed

lemma artifact_step_good:
  assumes inv: "object_inv s" and step: "artifact_step cd v limits s t"
  shows "object_good s t"
  using step
proof cases
  case initiate
  then show ?thesis by (simp add: initiate_artifact_def initiate_internal_good [OF inv])
next
  case initiate_collaboration
  then show ?thesis by (rule initiate_internal_good [OF inv initiate_collaboration_Inr])
qed (fact only_revision_good [OF inv replay_state] complete_good [OF inv] bind_scope_good [OF inv]
      retain_good [OF inv] only_revision_good [OF inv issue_state] only_revision_good [OF inv issue_delegated_state]
      only_revision_good [OF inv issue_gateway_state] download_good [OF inv])+

lemma objects_onlyI:
  assumes "revision s \<le> revision t"
    and "t = s\<lparr>revision := revision t, artifacts := artifacts t, encrypted_artifacts := encrypted_artifacts t,
            consumed_capabilities := consumed_capabilities t\<rparr>"
  shows "objects_only s t"
  unfolding objects_only_def using assms by blast

lemma only_revision_objects: "only_revision s t \<Longrightarrow> objects_only s t"
  by (intro objects_onlyI) (simp_all add: only_revision_def sat_add_ge)

lemma initiate_internal_objects:
  "initiate_artifact_internal cd v limits cp actor g i n scope op mt sz sha cl rd now s = (Inr r, t)
     \<Longrightarrow> objects_only s t"
  by (drule initiate_internal_Inr, elim exE conjE, intro objects_onlyI) (simp_all add: sat_add_ge)

lemma complete_objects: "complete_artifact cd v cp g cap bs now s = (Inr m, t) \<Longrightarrow> objects_only s t"
  by (cases rule: complete_artifact_Inr, assumption, intro objects_onlyI)
    (simp_all add: consume_capability_def sat_add_ge)

lemma bind_scope_objects:
  "bind_collaboration_artifact_scope cp actor g i rv tm wk rd now s = (Inr m, t) \<Longrightarrow> objects_only s t"
  by (cases rule: bind_scope_Inr, assumption, intro objects_onlyI) (simp_all add: sat_add_ge)

lemma retain_objects:
  assumes "schedule_collaboration_artifact_retention cp actor g i rv until now s = (Inr m, t)"
  shows "objects_only s t"
  using assms
proof (cases rule: retain_Inr)
  case (scheduled m0)
  then show ?thesis by (intro objects_onlyI) (simp_all add: sat_add_ge)
qed (rule only_revision_objects)

lemma download_objects: "download_artifact cd v cp g cap now s = (Inr bs, t) \<Longrightarrow> objects_only s t"
  by (cases rule: download_artifact_Inr, assumption, intro objects_onlyI)
    (simp_all add: consume_capability_def sat_add_ge)

lemma artifact_step_objects:
  assumes "artifact_step cd v limits s t"
  shows "objects_only s t"
  using assms
proof cases
  case initiate
  then show ?thesis by (simp add: initiate_artifact_def initiate_internal_objects)
next
  case initiate_collaboration
  then show ?thesis by (rule initiate_internal_objects [OF initiate_collaboration_Inr])
qed (fact only_revision_objects [OF replay_state] complete_objects bind_scope_objects retain_objects
      only_revision_objects [OF issue_state] only_revision_objects [OF issue_delegated_state]
      only_revision_objects [OF issue_gateway_state] download_objects)+

end
