(* ===== verification/Fabric_Run.thy ===== *)
theory Fabric_Run
  imports Authority Route_Steps Artifact_Steps
begin

text \<open>
  Runs of the Control Plane. A step is one public operation of \<^verbatim>\<open>ControlPlane\<close> that commits, by
  any instance of any Company, at any clock value; a failed operation leaves the store as it is and
  is not a step. Reachable states satisfy the routing and authority invariants, and a run only
  extends the history.
\<close>

section \<open>Transactions\<close>

lemma transact_atomic: "atomic (transact f)"
  by (auto simp: atomic_def transact_def split: prod.splits sum.splits)

lemma gated_stale:
  assumes "require_active_control_plane s (cp_company_id cp) (cp_instance_id cp) g now = Inl e"
  shows "gated cp g now f s = (Inl e, s)"
  using assms by (simp add: gated_def transact_def)

lemma require_active_Inr:
  "require_active_control_plane s c i g now = Inr lease \<longleftrightarrow>
     bt_get (control_plane_leases s) c = Some lease \<and> cpl_instance_id lease = i
     \<and> cpl_control_plane_generation lease = g \<and> now < cpl_expires_at_unix_ms lease"
  by (auto simp: require_active_control_plane_def not_le split: option.splits if_splits)

lemma require_active_Inl:
  "require_active_control_plane s c i g now = Inl e \<Longrightarrow> err_code e = ControlPlaneStaleGeneration"
  by (auto simp: require_active_control_plane_def split: option.splits if_splits)

section \<open>Invariant and order of a run\<close>

definition fabric_inv :: "FabricState \<Rightarrow> bool" where
  "fabric_inv s \<longleftrightarrow> route_inv s \<and> authority_inv s \<and> object_inv s"

definition fabric_ext :: "FabricState \<Rightarrow> FabricState \<Rightarrow> bool" where
  "fabric_ext s t \<longleftrightarrow> history_ext s t \<and> authority_ext s t \<and> object_ext s t \<and> revision s \<le> revision t"

definition fabric_good :: "FabricState \<Rightarrow> FabricState \<Rightarrow> bool" where
  "fabric_good s t \<longleftrightarrow> fabric_inv t \<and> history_ext s t \<and> authority_ext s t \<and> object_ext s t"

lemma fabric_ext_refl: "fabric_ext s s"
  by (simp add: fabric_ext_def)

lemma fabric_ext_trans: "fabric_ext s t \<Longrightarrow> fabric_ext t u \<Longrightarrow> fabric_ext s u"
  by (auto simp: fabric_ext_def intro: history_ext_trans authority_ext_trans object_ext_trans order_trans)

lemma fabric_good_revision:
  assumes "fabric_good s u"
  shows "fabric_good s (u\<lparr>revision := x\<rparr>)"
proof -
  have "same_authority u (u\<lparr>revision := x\<rparr>)" by (simp add: same_authority_def)
  then have "authority_good u (u\<lparr>revision := x\<rparr>)"
    using assms same_authority_good by (simp add: fabric_good_def fabric_inv_def)
  moreover have "route_inv (u\<lparr>revision := x\<rparr>)"
    by (rule route_inv_frame [of u]) (use assms in \<open>simp_all add: fabric_good_def fabric_inv_def\<close>)
  moreover have "history_ext u (u\<lparr>revision := x\<rparr>)" by (simp add: history_ext_def)
  moreover have "object_good u (u\<lparr>revision := x\<rparr>)"
    by (rule object_frame) (use assms in \<open>simp_all add: fabric_good_def fabric_inv_def objects_of_def\<close>)
  ultimately show ?thesis
    using assms by (auto simp: fabric_good_def fabric_inv_def authority_good_def object_good_def
        intro: history_ext_trans authority_ext_trans object_ext_trans)
qed

lemma transact_good:
  assumes "transact f s = (Inr x, t)" and "\<And>u. f s = (Inr x, u) \<Longrightarrow> fabric_good s u"
  shows "fabric_inv t \<and> fabric_ext s t"
proof -
  obtain u where u: "f s = (Inr x, u)" "t = u\<lparr>revision := sat_add (revision s) 1\<rparr>"
    using assms(1) by (auto simp: transact_Inr)
  have "fabric_good s t" unfolding u(2) by (rule fabric_good_revision [OF assms(2) [OF u(1)]])
  then show ?thesis by (simp add: fabric_good_def fabric_ext_def u(2) sat_add_ge)
qed

lemma gated_good:
  assumes f: "gated cp g now f s = (Inr x, t)" and good: "\<And>u. f s = (Inr x, u) \<Longrightarrow> fabric_good s u"
  shows "fabric_inv t \<and> fabric_ext s t"
proof -
  have "fabric_good s u" if "check (require_active_control_plane s (cp_company_id cp) (cp_instance_id cp) g now)
      (\<lambda>_. f) s = (Inr x, u)" for u
    using that good by (auto simp: check_eq_Inr)
  with f show ?thesis unfolding gated_def by (rule transact_good)
qed

text \<open>
  Routing leaves the authority tables and the objects alone, and enrollment leaves the routing
  tables and the objects alone.
\<close>

definition same_rest :: "FabricState \<Rightarrow> FabricState \<Rightarrow> bool" where
  "same_rest s t \<longleftrightarrow> same_authority s t \<and> objects_of t = objects_of s"

lemma route_fabric:
  assumes "fabric_inv s" and "route_good s t" and "same_rest s t"
  shows "fabric_good s t"
  using assms same_authority_good [of s t] object_frame [of s t]
  by (simp add: fabric_inv_def fabric_good_def route_good_def authority_good_def object_good_def same_rest_def)

definition routes_of :: "FabricState \<Rightarrow> RoutedOperation btree \<times> RouteAttempt btree \<times> RouteReceipt btree
    \<times> u64 btree \<times> string btree" where
  "routes_of s = (operations s, attempts s, receipts s, route_sequences s, operation_idempotency s)"

definition data_of where
  "data_of s = (routes_of s, objects_of s)"

lemma authority_fabric:
  assumes inv: "fabric_inv s" and good: "authority_good s t" and t: "data_of t = data_of s"
  shows "fabric_good s t"
proof -
  have "route_inv t"
    by (rule route_inv_frame [of s])
      (use inv good t in \<open>auto simp: fabric_inv_def authority_good_def authority_ext_def nodes_ext_def
        data_of_def routes_of_def\<close>)
  moreover have "object_good s t" using inv t by (simp add: fabric_inv_def data_of_def object_frame)
  ultimately show ?thesis
    using good t by (simp add: fabric_good_def fabric_inv_def authority_good_def object_good_def history_ext_frame
        data_of_def routes_of_def)
qed

section \<open>What each operation leaves alone\<close>

lemma same_rest_refl [simp]: "same_rest s s"
  by (simp add: same_rest_def same_authority_def objects_of_def)

lemma same_rest_trans: "same_rest s t \<Longrightarrow> same_rest t u \<Longrightarrow> same_rest s u"
  by (simp add: same_rest_def same_authority_def objects_of_def)

lemma accept_same:
  assumes "accept_and_enqueue cd c g operation limits now s = (Inr r, t)"
  shows "same_rest s t"
  using assms
proof (cases rule: accept_cases)
  case new
  then show ?thesis by (auto simp: enqueue_def Let_def same_rest_def same_authority_def objects_of_def)
qed simp

lemma retry_same:
  assumes "retry_operation c g i now s = (Inr r, t)"
  shows "same_rest s t"
  using assms
proof (cases rule: retry_cases)
  case new
  then show ?thesis by (auto simp: retry_write_def Let_def same_rest_def same_authority_def objects_of_def)
qed simp

lemma persisted_same:
  assumes "record_target_persisted cd c g n gg d dg i rd seq now s = (Inr r, t)"
  shows "same_rest s t"
  using assms
  by (cases rule: target_persisted_cases) (simp_all add: same_rest_def same_authority_def objects_of_def)

lemma application_same:
  assumes "record_application_receipt cd c g n gg d dg i rs res eff now s = (Inr r, t)"
  shows "same_rest s t"
  using assms
  by (cases rule: application_cases) (simp_all add: same_rest_def same_authority_def objects_of_def)

lemma unknown_same:
  assumes "mark_unknown c i s = (Inr r, t)"
  shows "same_rest s t"
  using assms
  by (cases "has_receipt s i is_terminal_kind")
    (auto simp: mark_unknown_def check_eq_Inr same_rest_def same_authority_def objects_of_def)

lemma expire_all_same:
  "expire_all cd c g n gg now ids s = (Inr rs, t) \<Longrightarrow> same_rest s t"
proof (induction ids arbitrary: s rs)
  case (Cons i ids)
  then obtain r u rs' where one: "expire_one cd c g n gg now i s = (Inr r, u)"
    and rest: "expire_all cd c g n gg now ids u = (Inr rs', t)"
    by (auto simp: andThen_eq_Inr)
  have "same_rest s u" using one by (cases rule: expire_one_Inr) (simp add: same_rest_def same_authority_def objects_of_def)
  with Cons.IH [OF rest] show ?case by (simp add: same_rest_trans)
qed simp

lemma retry_all_same: "retry_all c g now ids s = (Inr u, t) \<Longrightarrow> same_rest s t"
proof (induction ids arbitrary: s)
  case (Cons i ids)
  then obtain r v where one: "retry_operation c g i now s = (Inr r, v)"
    and rest: "retry_all c g now ids v = (Inr u, t)"
    by (auto simp: andThen_eq_Inr)
  have "same_rest s v" by (rule retry_same [OF one])
  moreover have "same_rest v t" by (rule Cons.IH [OF rest])
  ultimately show ?case by (rule same_rest_trans)
qed simp

lemma connect_authority:
  assumes inv: "authority_inv s" and f: "connect_verified cd c g peer hello now s = (Inr w, t)"
  shows "authority_good s t"
  using f
proof (cases rule: connect_verified_Inr)
  case (1 node u v rs lease)
  let ?n = "hello_node_id hello"
  let ?s1 = "s\<lparr>gateway_leases := bt_insert ?n lease (gateway_leases s)\<rparr>"
  note auth = authenticate_hello_Inr [OF 1(1)]
  have "same_rest ?s1 u" using 1(4) expire_all_same by (auto simp: expire_unapplied_for_successor_def)
  moreover have "same_rest u v" using 1(5) by (rule retry_all_same)
  ultimately have v: "same_rest ?s1 v" by (rule same_rest_trans)
  have t: "nodes t = bt_insert ?n (touch_node now node) (nodes s)"
    "gateway_leases t = bt_insert ?n lease (gateway_leases s)"
    "certificates t = certificates s" "revoked_certificate_serials t = revoked_certificate_serials s"
    "enrollments t = enrollments s" "control_plane_leases t = control_plane_leases s"
    "authority_company_id t = authority_company_id s"
    using v auth(1) by (simp_all add: 1(6) same_rest_def same_authority_def objects_of_def bt_modify_def)
  have up: "gwl_gateway_generation p \<le> gwl_gateway_generation lease"
    if "bt_get (gateway_leases s) ?n = Some p" for p
    by (simp add: 1(2) that successor_generation_def sat_add_ge)
  show ?thesis
    by (rule node_row_touch [OF inv auth(1) _ _ _ t(1) t(3) t(4) t(5) t(6) t(7)])
      (use up auth(1,2) in \<open>fastforce simp: gateway_bound_def t split: option.splits if_split_asm\<close>)+
qed

lemma heartbeat_authority:
  assumes inv: "authority_inv s" and f: "heartbeat c g n gg d dg rv now s = (Inr l, t)"
  shows "authority_good s t"
  using f
proof (cases rule: heartbeat_Inr)
  case (1 lease node)
  have "gateway_bound t m h" if "gateway_bound s m h" for m h
    using that 1 by (auto simp: gateway_bound_def split: option.splits if_split_asm)
  then show ?thesis
    by (intro node_row_touch [OF inv 1(2), where node' = "touch_node now node"])
      (use 1(2) in \<open>simp_all add: 1(7) bt_modify_def\<close>)
qed

section \<open>Steps\<close>

inductive fabric_step :: "codec \<Rightarrow> csr_verifier \<Rightarrow> FabricStoreLimits \<Rightarrow> FabricState \<Rightarrow> FabricState \<Rightarrow> bool"
  for cd csr limits where
  acquire: "acquire_lease cp l rv now s = (Inr r, t) \<Longrightarrow> fabric_step cd csr limits s t"
| renew: "heartbeat_lease cp g rv now s = (Inr r, t) \<Longrightarrow> fabric_step cd csr limits s t"
| enroll: "create_enrollment_bound cd cp actor g i tok nm caps d dg ex now s = (Inr r, t)
    \<Longrightarrow> fabric_step cd csr limits s t"
| consume: "cp_consume_enrollment cd cp g tok n dn pf ser ex sb now s = (Inr r, t)
    \<Longrightarrow> fabric_step cd csr limits s t"
| consume_csr: "cp_consume_enrollment_csr cd csr cp g tok n dn pem ser ex sb now s = (Inr r, t)
    \<Longrightarrow> fabric_step cd csr limits s t"
| revoke_token: "cp_revoke_enrollment cp actor g i rv now s = (Inr r, t) \<Longrightarrow> fabric_step cd csr limits s t"
| connect: "connect_gateway cd cp g peer hello hprf now s = (Inr r, t) \<Longrightarrow> fabric_step cd csr limits s t"
| connect_mtls: "connect_gateway_mtls cd cp g peer hello now s = (Inr r, t) \<Longrightarrow> fabric_step cd csr limits s t"
| beat: "heartbeat_gateway cp g n gg d dg rv now s = (Inr r, t) \<Longrightarrow> fabric_step cd csr limits s t"
| rotate: "rotate_node_certificate cd cp g n gg d dg cur nxt rv pf ex now s = (Inr r, t)
    \<Longrightarrow> fabric_step cd csr limits s t"
| rotate_csr: "rotate_node_certificate_csr cd csr cp g n gg d dg cur nxt rv pem ex now s = (Inr r, t)
    \<Longrightarrow> fabric_step cd csr limits s t"
| accept: "accept_operation cd limits cp g fence actor operation now s = (Inr r, t)
    \<Longrightarrow> fabric_step cd csr limits s t"
| accept_cp: "accept_control_plane_operation cd limits cp g actor operation now s = (Inr r, t)
    \<Longrightarrow> fabric_step cd csr limits s t"
| retry: "cp_retry_operation cp g i now s = (Inr r, t) \<Longrightarrow> fabric_step cd csr limits s t"
| persisted: "cp_record_target_persisted cd cp g n gg d dg i rd seq now s = (Inr r, t)
    \<Longrightarrow> fabric_step cd csr limits s t"
| applied: "cp_record_application_receipt cd cp g n gg d dg i rs res eff now s = (Inr r, t)
    \<Longrightarrow> fabric_step cd csr limits s t"
| unknown: "cp_mark_unknown cp g i now s = (Inr r, t) \<Longrightarrow> fabric_step cd csr limits s t"
| reconciled: "cp_reconcile cp g n gg d dg ids now s = (Inr r, t) \<Longrightarrow> fabric_step cd csr limits s t"
| revoke: "revoke_node cp actor g n rv reason now s = (Inr r, t) \<Longrightarrow> fabric_step cd csr limits s t"
| administer: "set_node_administrative_status cp actor g n rv st now s = (Inr r, t)
    \<Longrightarrow> fabric_step cd csr limits s t"
| artifact: "artifact_step cd v limits s t \<Longrightarrow> fabric_step cd csr limits s t"

definition fabric_run :: "codec \<Rightarrow> csr_verifier \<Rightarrow> FabricStoreLimits \<Rightarrow> FabricState \<Rightarrow> FabricState \<Rightarrow> bool" where
  "fabric_run cd csr limits = (fabric_step cd csr limits)\<^sup>*\<^sup>*"

definition reachable :: "codec \<Rightarrow> csr_verifier \<Rightarrow> FabricStoreLimits \<Rightarrow> FabricState \<Rightarrow> bool" where
  "reachable cd csr limits s \<longleftrightarrow> fabric_run cd csr limits default_state s"

lemma acquire_lease_Inr:
  assumes "acquire_lease cp l rv now s = (Inr r, t)"
  shows "authority_company_id s = None \<or> authority_company_id s = Some (cp_company_id cp)"
    and "cpl_company_id r = cp_company_id cp" and "cpl_instance_id r = cp_instance_id cp"
    and "bt_get (control_plane_leases s) (cp_company_id cp) = Some prior \<Longrightarrow>
           cpl_expires_at_unix_ms prior \<le> now \<and> cpl_revision prior = rv
           \<and> cpl_control_plane_generation r = sat_add (cpl_control_plane_generation prior) 1
           \<and> cpl_revision r = sat_add (cpl_revision prior) 1"
    and "t = s\<lparr>authority_company_id := Some (cp_company_id cp),
               control_plane_leases := bt_insert (cp_company_id cp) r (control_plane_leases s),
               revision := sat_add (revision s) 1\<rparr>"
  using assms
  by (auto simp: acquire_lease_def transact_Inr check_eq_Inr Let_def split: option.splits if_split_asm)

lemma heartbeat_lease_Inr:
  assumes "heartbeat_lease cp g rv now s = (Inr r, t)"
  shows "\<exists>prior. bt_get (control_plane_leases s) (cp_company_id cp) = Some prior
           \<and> now < cpl_expires_at_unix_ms prior \<and> cpl_company_id r = cpl_company_id prior
           \<and> cpl_control_plane_generation r = cpl_control_plane_generation prior
           \<and> cpl_revision r = sat_add (cpl_revision prior) 1"
    and "t = s\<lparr>control_plane_leases := bt_insert (cp_company_id cp) r (control_plane_leases s),
               revision := sat_add (revision s) 1\<rparr>"
  using assms
  by (auto simp: heartbeat_lease_def transact_Inr check_eq_Inr Let_def require_active_Inr)

lemma lease_good:
  assumes inv: "fabric_inv s"
    and auth: "authority_company_id s = None \<or> authority_company_id s = Some k"
    and lease: "cpl_company_id lease = k"
    and grow: "\<And>prior. bt_get (control_plane_leases s) k = Some prior \<Longrightarrow>
       cpl_control_plane_generation prior \<le> cpl_control_plane_generation lease
       \<and> cpl_revision prior \<le> cpl_revision lease"
    and t: "t = s\<lparr>authority_company_id := Some k,
               control_plane_leases := bt_insert k lease (control_plane_leases s),
               revision := sat_add (revision s) 1\<rparr>"
  shows "fabric_inv t \<and> fabric_ext s t"
proof -
  have "company_inv s" using inv by (simp add: fabric_inv_def authority_inv_def)
  then have "company_inv t" "company_ext s t"
    using company_insert [OF _ auth lease grow, of t] by (simp_all add: t)
  then have "authority_good s t"
    using inv nodes_frame [of t s] enrollments_frame [of t s]
    by (simp add: fabric_inv_def authority_good_def authority_inv_def authority_ext_def t)
  then have "fabric_good s t" by (rule authority_fabric [OF inv]) (simp add: t data_of_def routes_of_def objects_of_def)
  then show ?thesis by (simp add: fabric_good_def fabric_ext_def t sat_add_ge)
qed

lemma acquire_good:
  assumes inv: "fabric_inv s" and f: "acquire_lease cp l rv now s = (Inr r, t)"
  shows "fabric_inv t \<and> fabric_ext s t"
  by (rule lease_good [OF inv acquire_lease_Inr(1,2) [OF f] _ acquire_lease_Inr(5) [OF f]])
    (use acquire_lease_Inr(4) [OF f] sat_add_ge in auto)

lemma renew_good:
  assumes inv: "fabric_inv s" and f: "heartbeat_lease cp g rv now s = (Inr r, t)"
  shows "fabric_inv t \<and> fabric_ext s t"
proof -
  obtain prior where prior: "bt_get (control_plane_leases s) (cp_company_id cp) = Some prior"
    "cpl_company_id r = cpl_company_id prior" "cpl_control_plane_generation r = cpl_control_plane_generation prior"
    "cpl_revision r = sat_add (cpl_revision prior) 1"
    using heartbeat_lease_Inr(1) [OF f] by blast
  have c: "authority_company_id s = Some (cp_company_id cp)" "cpl_company_id prior = cp_company_id cp"
    using inv prior(1) by (auto simp: fabric_inv_def authority_inv_def company_inv_def)
  show ?thesis
    by (rule lease_good [OF inv, of "cp_company_id cp" r])
      (use prior c heartbeat_lease_Inr(2) [OF f] sat_add_ge in \<open>auto simp: prior\<close>)
qed

lemma claim_routes:
  "claim_enrollment c d now s = (Inr x, t) \<Longrightarrow> t = s"
  by (auto simp: claim_enrollment_def check_eq_Inr)

lemma consume_routes:
  "consume_enrollment cd c tok n dn pf ser ex sb now s = (Inr r, t) \<Longrightarrow> data_of t = data_of s"
  by (auto simp: consume_enrollment_def check_eq_Inr andThen_eq_Inr Let_def data_of_def routes_of_def objects_of_def dest!: claim_routes)

lemma consume_csr_routes:
  "consume_enrollment_csr cd c tok n dn fp csr ser ex sb now s = (Inr r, t) \<Longrightarrow> data_of t = data_of s"
  by (auto simp: consume_enrollment_csr_def check_eq_Inr andThen_eq_Inr Let_def data_of_def routes_of_def objects_of_def
      retire_predecessor_def split: option.split_asm dest!: claim_routes)

lemma create_routes:
  "Enrollment.create_enrollment cd actor c i tok nm caps d dg ex now s = (Inr e, t) \<Longrightarrow> data_of t = data_of s"
  by (auto simp: create_enrollment_def check_eq_Inr Let_def data_of_def routes_of_def objects_of_def)

lemma revoke_enrollment_routes:
  "revoke_enrollment actor c i rv now s = (Inr e, t) \<Longrightarrow> data_of t = data_of s"
  by (auto simp: revoke_enrollment_def check_eq_Inr Let_def data_of_def routes_of_def objects_of_def)

lemma rotate_write_routes:
  "rotate_write c n node cur nxt fp pd prior ex now s = (r, t) \<Longrightarrow> data_of t = data_of s"
  by (auto simp: rotate_write_def Let_def data_of_def routes_of_def objects_of_def)

lemma rotate_routes:
  "rotate_certificate cd c n cur nxt rv pf ex now s = (Inr r, t) \<Longrightarrow> data_of t = data_of s"
  by (simp add: rotate_certificate_def check_eq_Inr write_one_eq_Inr) (blast intro: rotate_write_routes)

lemma rotate_csr_routes:
  "rotate_certificate_csr c n cur nxt rv fp pd ex now s = (Inr r, t) \<Longrightarrow> data_of t = data_of s"
  by (simp add: rotate_certificate_csr_def check_eq_Inr write_one_eq_Inr) (blast intro: rotate_write_routes)

lemma heartbeat_routes:
  "heartbeat c g n gg d dg rv now s = (Inr l, t) \<Longrightarrow> data_of t = data_of s"
  by (erule heartbeat_Inr) (simp add: data_of_def routes_of_def objects_of_def)

lemma connect_objects:
  assumes "connect_verified cd c g peer hello now s = (Inr w, t)"
  shows "objects_of t = objects_of s"
  using assms
proof (cases rule: connect_verified_Inr)
  case (1 node u v rs lease)
  have "same_rest (s\<lparr>gateway_leases := bt_insert (hello_node_id hello) lease (gateway_leases s)\<rparr>) u"
    using 1(4) expire_all_same by (auto simp: expire_unapplied_for_successor_def)
  moreover have "same_rest u v" using 1(5) by (rule retry_all_same)
  ultimately show ?thesis by (simp add: 1(6) same_rest_def objects_of_def)
qed

lemma connect_fabric:
  assumes "fabric_inv s" and "connect_verified cd c g peer hello now s = (Inr w, t)"
  shows "fabric_good s t"
proof -
  have "object_good s t" using assms connect_objects object_frame by (simp add: fabric_inv_def)
  then show ?thesis
    using assms connect_good [of s] connect_authority [of s]
    by (auto simp: fabric_inv_def fabric_good_def route_good_def authority_good_def object_good_def)
qed

lemma revoke_node_Inr:
  assumes "revoke_node cp actor g n rv reason now s = (Inr r, t)"
  obtains node u where "bt_get (nodes s) n = Some node" "r = revoked_node reason now node"
    "u = s\<lparr>revoked_certificate_serials :=
               insert (node_certificate_serial node) (revoked_certificate_serials s),
             certificates := bt_modify (node_certificate_serial node) (revoke_cert now) (certificates s),
             gateway_leases := bt_remove n (gateway_leases s),
             nodes := bt_insert n (revoked_node reason now node) (nodes s)\<rparr>"
    "t = u\<lparr>revision := sat_add (revision s) 1\<rparr>"
  using assms by (auto simp: revoke_node_def gated_Inr check_eq_Inr Let_def administered_node_Inr)

lemma revoke_good:
  assumes inv: "fabric_inv s" and f: "revoke_node cp actor g n rv reason now s = (Inr r, t)"
  shows "fabric_inv t \<and> fabric_ext s t"
  using f
proof (cases rule: revoke_node_Inr)
  case (1 node u)
  have "authority_good s u"
    using inv by (intro revoke_write_good [OF _ 1(1,3)]) (simp add: fabric_inv_def)
  then have "fabric_good s u" by (rule authority_fabric [OF inv]) (simp add: 1(3) data_of_def routes_of_def objects_of_def)
  then have "fabric_good s t" unfolding 1(4) by (rule fabric_good_revision)
  then show ?thesis by (simp add: fabric_good_def fabric_ext_def 1(4) sat_add_ge)
qed

lemma status_good:
  assumes inv: "fabric_inv s"
    and f: "set_node_administrative_status cp actor g n rv st now s = (Inr r, t)"
  shows "fabric_inv t \<and> fabric_ext s t"
proof -
  obtain node u where get: "bt_get (nodes s) n = Some node"
    and st: "node_administrative_status node \<noteq> NodeIsRevoked" "st \<noteq> NodeIsRevoked"
    and u: "u = s\<lparr>nodes := bt_insert n (node\<lparr>node_administrative_status := st,
                 node_revision := sat_add (node_revision node) 1, node_updated_at_unix_ms := now\<rparr>) (nodes s)\<rparr>"
    and t: "t = u\<lparr>revision := sat_add (revision s) 1\<rparr>"
    using f by (auto simp: set_node_administrative_status_def gated_Inr check_eq_Inr Let_def administered_node_Inr)
  have "gateway_bound u m h" if "gateway_bound s m h" for m h
    using that get st by (auto simp: gateway_bound_def u split: option.splits if_split_asm)
  then have "authority_good s u"
    using inv by (intro node_row_touch [OF _ get]) (use st in \<open>auto simp: u fabric_inv_def\<close>)
  then have "fabric_good s u" by (rule authority_fabric [OF inv]) (simp add: u data_of_def routes_of_def objects_of_def)
  then have "fabric_good s t" unfolding t by (rule fabric_good_revision)
  then show ?thesis by (simp add: fabric_good_def fabric_ext_def t sat_add_ge)
qed

text \<open>The artifact operations touch the objects only, whatever keys their instance holds.\<close>

lemma artifact_fabric:
  assumes step: "artifact_step cd v limits s t" and inv: "fabric_inv s"
  shows "fabric_inv t \<and> fabric_ext s t"
proof -
  obtain r a e c where r: "revision s \<le> r"
    and t: "t = s\<lparr>revision := r, artifacts := a, encrypted_artifacts := e, consumed_capabilities := c\<rparr>"
    using artifact_step_objects [OF step] unfolding objects_only_def by blast
  have "object_good s t" using step inv artifact_step_good by (simp add: fabric_inv_def)
  moreover have "authority_good s t"
    by (rule same_authority_good) (use inv in \<open>simp_all add: fabric_inv_def same_authority_def t\<close>)
  moreover have "route_inv t"
    by (rule route_inv_frame [of s]) (use inv in \<open>auto simp: fabric_inv_def gateway_bound_def t split: option.splits\<close>)
  moreover have "history_ext s t" by (simp add: history_ext_def t)
  ultimately show ?thesis using r by (simp add: fabric_inv_def fabric_ext_def object_good_def authority_good_def t)
qed

lemmas route_ops_good = accept_good retry_good target_persisted_good application_good mark_unknown_good
lemmas route_ops_same = accept_same retry_same persisted_same application_same unknown_same

lemma accept_fabric:
  "fabric_inv s \<Longrightarrow> accept_and_enqueue cd c g operation limits now s = (Inr r, t) \<Longrightarrow> fabric_good s t"
  using accept_good accept_same route_fabric by (simp add: fabric_inv_def)

lemma consume_fabric:
  "fabric_inv s \<Longrightarrow> consume_enrollment cd c tok n dn pf ser ex sb now s = (Inr r, t) \<Longrightarrow> fabric_good s t"
  by (cases r, rule authority_fabric)
    (auto simp: fabric_inv_def intro: consume_enrollment_good(1) consume_routes)

lemma consume_csr_fabric:
  "fabric_inv s \<Longrightarrow> consume_enrollment_csr cd c tok n dn fp csr ser ex sb now s = (Inr r, t) \<Longrightarrow> fabric_good s t"
  by (cases r, rule authority_fabric)
    (auto simp: fabric_inv_def intro: consume_csr_good(1) consume_csr_routes)

lemma fabric_step_good:
  assumes inv: "fabric_inv s" and step: "fabric_step cd csr limits s t"
  shows "fabric_inv t \<and> fabric_ext s t"
  using step
proof cases
  case (acquire cp l rv now r)
  then show ?thesis using inv acquire_good by blast
next
  case (renew cp g rv now r)
  then show ?thesis using inv renew_good by blast
next
  case (enroll cp actor g i tok nm caps d dg ex now r)
  then show ?thesis unfolding create_enrollment_bound_def
    by (rule gated_good) (use inv in \<open>auto simp: fabric_inv_def
        intro: authority_fabric [OF inv] create_enrollment_good create_routes\<close>)
next
  case (consume cp g tok n dn pf ser ex sb now r)
  then show ?thesis unfolding cp_consume_enrollment_def
    by (rule gated_good) (rule consume_fabric [OF inv])
next
  case (consume_csr cp g tok n dn pem ser ex sb now r)
  then obtain fp where "gated cp g now (consume_enrollment_csr cd (cp_company_id cp) tok n dn fp
      (sha256_hex cd pem) ser ex sb now) s = (Inr r, t)"
    by (auto simp: cp_consume_enrollment_csr_def check_eq_Inr)
  then show ?thesis by (rule gated_good) (rule consume_csr_fabric [OF inv])
next
  case (revoke_token cp actor g i rv now r)
  then show ?thesis unfolding cp_revoke_enrollment_def
    by (rule gated_good) (use inv in \<open>auto simp: fabric_inv_def
        intro: authority_fabric [OF inv] revoke_enrollment_good revoke_enrollment_routes\<close>)
next
  case (connect cp g peer hello hprf now r)
  then show ?thesis unfolding connect_gateway_def
    by (rule gated_good) (auto simp: connect_def check_eq_Inr intro: connect_fabric [OF inv])
next
  case (connect_mtls cp g peer hello now r)
  then show ?thesis unfolding connect_gateway_mtls_def connect_mtls_def
    by (rule gated_good) (rule connect_fabric [OF inv])
next
  case (beat cp g n gg d dg rv now r)
  then show ?thesis unfolding heartbeat_gateway_def
    by (rule gated_good) (use inv in \<open>auto simp: fabric_inv_def
        intro: authority_fabric [OF inv] heartbeat_authority heartbeat_routes\<close>)
next
  case (rotate cp g n gg d dg cur nxt rv pf ex now r)
  then show ?thesis unfolding rotate_node_certificate_def
    by (rule gated_good) (use inv in \<open>auto simp: fabric_inv_def check_eq_Inr
        intro: authority_fabric [OF inv] rotate_good rotate_routes\<close>)
next
  case (rotate_csr cp g n gg d dg cur nxt rv pem ex now r)
  then obtain fp where "gated cp g now (\<lambda>state.
       check (require_current_gateway state (cp_company_id cp) g n gg d dg now) (\<lambda>_.
         rotate_certificate_csr (cp_company_id cp) n cur nxt rv fp (sha256_hex cd pem) ex now) state) s
      = (Inr r, t)"
    by (auto simp: rotate_node_certificate_csr_def check_eq_Inr)
  then show ?thesis
    by (rule gated_good) (use inv in \<open>auto simp: fabric_inv_def check_eq_Inr
        intro: authority_fabric [OF inv] rotate_csr_good rotate_csr_routes\<close>)
next
  case (accept cp g fence actor operation now r)
  then have "gated cp g now (accept_and_enqueue cd (cp_company_id cp) g
      (operation\<lparr>op_actor := actor\<rparr>) limits now) s = (Inr r, t)"
    by (simp add: accept_operation_def check_eq_Inr)
  then show ?thesis by (rule gated_good) (rule accept_fabric [OF inv])
next
  case (accept_cp cp g actor operation now r)
  then have "gated cp g now (accept_and_enqueue cd (cp_company_id cp) g
      (operation\<lparr>op_actor := actor\<rparr>) limits now) s = (Inr r, t)"
    by (simp add: accept_control_plane_operation_def check_eq_Inr)
  then show ?thesis by (rule gated_good) (rule accept_fabric [OF inv])
next
  case (retry cp g i now r)
  then show ?thesis unfolding cp_retry_operation_def
    by (rule gated_good) (use inv in \<open>auto simp: fabric_inv_def intro: route_fabric [OF inv] retry_good retry_same\<close>)
next
  case (persisted cp g n gg d dg i rd seq now r)
  then show ?thesis unfolding cp_record_target_persisted_def
    by (rule gated_good) (use inv in \<open>auto simp: fabric_inv_def
        intro: route_fabric [OF inv] target_persisted_good persisted_same\<close>)
next
  case (applied cp g n gg d dg i rs res eff now r)
  then show ?thesis unfolding cp_record_application_receipt_def
    by (rule gated_good) (use inv in \<open>auto simp: fabric_inv_def
        intro: route_fabric [OF inv] application_good application_same\<close>)
next
  case (unknown cp g i now r)
  then show ?thesis unfolding cp_mark_unknown_def
    by (rule gated_good) (use inv in \<open>auto simp: fabric_inv_def
        intro: route_fabric [OF inv] mark_unknown_good unknown_same\<close>)
next
  case (reconciled cp g n gg d dg ids now r)
  then show ?thesis unfolding cp_reconcile_def
    by (rule gated_good)
      (use inv reconcile_state in \<open>fastforce simp: fabric_inv_def fabric_good_def dest: arg_cong [where f = snd]\<close>)
next
  case (revoke cp actor g n rv reason now r)
  then show ?thesis using inv revoke_good by blast
next
  case (administer cp actor g n rv st now r)
  then show ?thesis using inv status_good by blast
next
  case (artifact v)
  then show ?thesis using inv by (rule artifact_fabric)
qed

interpretation fabric: monotone_system "\<lambda>s. s = default_state" "fabric_step cd csr limits" fabric_inv fabric_ext
  for cd csr limits
proof unfold_locales
  show "s = default_state \<Longrightarrow> fabric_inv s" for s by (simp add: fabric_inv_def)
  show "fabric_inv s \<Longrightarrow> fabric_step cd csr limits s t \<Longrightarrow> fabric_inv t" for s t
    by (simp add: fabric_step_good)
  show "fabric_inv s \<Longrightarrow> fabric_step cd csr limits s t \<Longrightarrow> fabric_ext s t" for s t
    by (simp add: fabric_step_good)
  show "fabric_ext s t \<Longrightarrow> fabric_ext t u \<Longrightarrow> fabric_ext s u" for s t u by (rule fabric_ext_trans)
qed (rule fabric_ext_refl)

lemma reachable_inv_fabric: "reachable cd csr limits s \<Longrightarrow> fabric_inv s"
  unfolding reachable_def fabric_run_def by (rule fabric.reachable_inv [OF refl])

lemma run_ext_fabric: "reachable cd csr limits s \<Longrightarrow> fabric_run cd csr limits s t \<Longrightarrow> fabric_ext s t"
  using fabric.run_rel reachable_inv_fabric by (metis fabric_run_def)

lemma reachable_route: "reachable cd csr limits s \<Longrightarrow> route_inv s"
  using reachable_inv_fabric by (auto simp: fabric_inv_def)

lemma reachable_authority: "reachable cd csr limits s \<Longrightarrow> authority_inv s"
  using reachable_inv_fabric by (auto simp: fabric_inv_def)

lemma reachable_run: "reachable cd csr limits s \<Longrightarrow> fabric_run cd csr limits s t \<Longrightarrow> reachable cd csr limits t"
  by (auto simp: reachable_def fabric_run_def)

end
