(* ===== verification/Sample_Run.thy ===== *)
theory Sample_Run
  imports Fabric_Run
begin

text \<open>
  A concrete run: a Control Plane acquires its lease, enrolls a Node, the Node connects, an operation
  is accepted, persisted and applied. The packages behind the codec are instantiated by small total
  functions. Theorems about reachable states are applied to the states of this run.
\<close>

definition sample_hash :: "bytes \<Rightarrow> bytes" where
  "sample_hash bs = take 32 (take 3 bs @ replicate 32 (CHR 0x00))"

definition sample_codec :: codec where
  "sample_codec =
     \<lparr>sha256 = sample_hash, json_to_vec = (\<lambda>j. case j of JString s \<Rightarrow> Inr s | _ \<Rightarrow> Inr ''{}''),
      operation_to_value = (\<lambda>operation. Inr (JString (op_id operation))),
      operation_to_vec = (\<lambda>operation. Inr (op_id operation)),
      decode_probe = (\<lambda>_. Inr \<lparr>probe = ''ping''\<rparr>),
      decode_runtime_command = (\<lambda>_. Inl ''unsupported''),
      decode_message = (\<lambda>_. Inl ''unsupported''),
      decode_delivery_intent = (\<lambda>_. Inl ''unsupported''),
      decode_artifact = (\<lambda>_. Inl ''unsupported''),
      decode_collaboration = (\<lambda>_. Inl ''unsupported''),
      hello_to_value = (\<lambda>hello. Inr (JString (hello_node_id hello))),
      error_to_value = (\<lambda>error. Inr (JString (err_message error))),
      decode_error = (\<lambda>_. Inl ''unsupported''),
      ed25519_key = (\<lambda>_. True), ed25519_verify = (\<lambda>_ _ _. True)\<rparr>"

definition sample_csr :: csr_verifier where
  "sample_csr = (\<lambda>pem company nid. Inr (replicate 64 CHR ''a''))"

definition sample_cp :: ControlPlane where
  "sample_cp = \<lparr>cp_company_id = ''co'', cp_instance_id = ''cp1''\<rparr>"

definition sample_actor :: AuthenticatedActor where
  "sample_actor =
     \<lparr>act_company_id = ''co'', act_actor_id = ''ada'', act_actor_kind = ActorHuman,
      act_role_bindings = {''company_host'', ''fabric_submit''}, act_session_id = ''s'',
      act_issued_at_unix_ms = 0, act_expires_at_unix_ms = 1000000\<rparr>"

definition sample_token :: string where
  "sample_token = replicate 32 CHR ''t''"

definition sample_serial :: string where
  "sample_serial = ''c1''"

definition sample_hello :: "string \<Rightarrow> u64 \<Rightarrow> NodeHello" where
  "sample_hello serial dg =
     \<lparr>hello_company_id = ''co'', hello_node_id = ''n1'', hello_instance_id = ''i1'',
      hello_node_daemon_id = ''d'', hello_node_daemon_generation = dg,
      hello_protocol_min = 1, hello_protocol_max = 1, hello_schema_bundle_digest = ''sb'',
      hello_features = {''durable-routing''}, hello_build_sha = ''b'',
      hello_last_persisted_route_seq = 0, hello_unresolved_operation_ids = {},
      hello_certificate_serial = serial,
      hello_public_key_fingerprint = replicate 64 CHR ''a''\<rparr>"

definition sample_peer :: "string \<Rightarrow> VerifiedMtlsPeer" where
  "sample_peer serial =
     \<lparr>peer_company_id = ''co'', peer_node_id = ''n1'', peer_certificate_serial = serial,
      peer_public_key_fingerprint = replicate 64 CHR ''a'', peer_tls_version = ''TLS1.3'',
      peer_websocket_subprotocol = FABRIC_WEBSOCKET_SUBPROTOCOL\<rparr>"

definition sample_operation :: "string \<Rightarrow> RoutedOperation" where
  "sample_operation i =
     \<lparr>op_id = i, op_company_id = ''co'', op_kind = PROBE_OPERATION_KIND,
      op_source_authority = SourceControlPlane, op_source_node_id = None, op_target_node_id = ''n1'',
      op_source_gateway_generation = None, op_source_node_daemon_id = None,
      op_source_node_daemon_generation = None, op_control_plane_generation = 1,
      op_source_execution_space_id = None, op_target_execution_space_id = None,
      op_actor = sample_actor, op_actor_runtime_generation = None, op_authorization_context = [],
      op_idempotency_key = ''key-'' @ i, op_ordering_key = ''k'', op_correlation_id = ''x'',
      op_causation_id = None, op_expected_target_revision = None, op_body_schema = PROBE_BODY_SCHEMA,
      op_body = JString ''ping'', op_body_digest = bytes_to_hex (sample_hash ''ping''),
      op_priority = PriorityNormal, op_created_at_unix_ms = 0, op_expires_at_unix_ms = 50000,
      op_protocol_version = 1, op_schema_version = FABRIC_SCHEMA_VERSION,
      op_canonicalization_version = FABRIC_CANONICALIZATION_VERSION\<rparr>"

text \<open>The states of the run, one per committed operation.\<close>

definition run1 where
  "run1 = acquire_lease sample_cp ''l1'' 0 1000 default_state"
definition run2 where
  "run2 = create_enrollment_bound sample_codec sample_cp sample_actor 1 ''e1'' sample_token ''node''
     {''durable-routing''} ''d'' 1 100000 1001 (snd run1)"
definition run3 where
  "run3 = cp_consume_enrollment_csr sample_codec sample_csr sample_cp 1 sample_token ''n1'' ''Node''
     (replicate 32 CHR ''p'') sample_serial 500000 ''sb'' 1002 (snd run2)"
definition run4 where
  "run4 = connect_gateway_mtls sample_codec sample_cp 1 (sample_peer sample_serial)
     (sample_hello sample_serial 1) 1003 (snd run3)"
definition run5 where
  "run5 = accept_control_plane_operation sample_codec default_limits sample_cp 1 sample_actor
     (sample_operation ''op1'') 1004 (snd run4)"
definition run6 where
  "run6 = cp_record_target_persisted sample_codec sample_cp 1 ''n1'' 1 ''d'' 1 ''op1''
     (bytes_to_hex (sample_hash ''op1'')) 1 1005 (snd run5)"
definition run7 where
  "run7 = cp_record_application_receipt sample_codec sample_cp 1 ''n1'' 1 ''d'' 1 ''op1'' ''res''
     (JString ''done'') EffectApplied 1006 (snd run6)"

definition committed :: "('e + 'a) \<times> 's \<Rightarrow> bool" where
  "committed p = (case fst p of Inl _ \<Rightarrow> False | Inr _ \<Rightarrow> True)"

lemma committed_Inr: "committed p \<Longrightarrow> \<exists>x. p = (Inr x, snd p)"
  by (cases p; cases "fst p") (auto simp: committed_def)

text \<open>The value of the run after the operation was accepted, computed once for the later states.\<close>

lemma run5_value [code]: "run5 =
     (Inr (sample_operation ''op1'', \<lparr>att_id = ''route-attempt:op1:1'', att_company_id = ''co'',
     att_operation_id = ''op1'', att_attempt_no = 1, att_target_node_id = ''n1'',
     att_target_gateway_generation = 1, att_control_plane_generation = 1, att_route_seq = 1,
     att_ordering_seq = 1, att_state = AttemptQueued, att_error_code = None, att_effect = EffectNone,
     att_started_at_unix_ms = 1004, att_ended_at_unix_ms = None, att_schema_version =
     FABRIC_SCHEMA_VERSION\<rparr>, \<lparr>rcp_id = ''receipt:op1:ControlPlaneAccepted:1'',
     rcp_company_id = ''co'', rcp_operation_id = ''op1'', rcp_target_node_id = ''n1'',
     rcp_target_gateway_generation = 1, rcp_control_plane_generation = 1, rcp_route_seq = 1, rcp_kind =
     ControlPlaneAccepted, rcp_application_effect = None, rcp_result_schema = None, rcp_result = None,
     rcp_result_digest = None, rcp_error = None, rcp_created_at_unix_ms = 1004, rcp_schema_version =
     FABRIC_SCHEMA_VERSION\<rparr>, False), \<lparr>revision = 5, authority_company_id = Some ''co'',
     control_plane_leases = [(''co'', \<lparr>cpl_company_id = ''co'', cpl_lease_id = ''l1'',
     cpl_instance_id = ''cp1'', cpl_control_plane_generation = 1, cpl_revision = 1,
     cpl_acquired_at_unix_ms = 1000, cpl_expires_at_unix_ms = 31000, cpl_last_heartbeat_at_unix_ms =
     1000, cpl_schema_version = FABRIC_SCHEMA_VERSION\<rparr>)], enrollments = [(''e1'', \<lparr>enr_id
     = ''e1'', enr_company_id = ''co'', enr_token_digest =
     ''7474740000000000000000000000000000000000000000000000000000000000'', enr_requested_name =
     ''node'', enr_allowed_capabilities = {''durable-routing''}, enr_authorized_node_daemon_id = ''d'',
     enr_authorized_node_daemon_generation = 1, enr_created_by = ''ada'', enr_expires_at_unix_ms =
     100000, enr_consumed_at_unix_ms = Some 1002, enr_consumed_by_node_id = Some ''n1'', enr_status =
     EnrollmentIsConsumed, enr_revision = 2, enr_schema_version = FABRIC_SCHEMA_VERSION,
     enr_created_at_unix_ms = 1001, enr_updated_at_unix_ms = 1002\<rparr>)], nodes = [(''n1'',
     \<lparr>node_id = ''n1'', node_company_id = ''co'', node_display_name = ''Node'',
     node_public_key_fingerprint = replicate 64 CHR ''a'', node_certificate_serial = ''c1'',
     node_allowed_capabilities = {''durable-routing''}, node_administrative_status = NodeActive,
     node_revision = 1, node_enrolled_at_unix_ms = 1002, node_last_seen_at_unix_ms = Some 1003,
     node_revoked_at_unix_ms = None, node_revoke_reason = None, node_protocol_min = 1,
     node_protocol_max = 1, node_schema_bundle_digest = ''sb'', node_schema_version =
     FABRIC_SCHEMA_VERSION, node_created_at_unix_ms = 1002, node_updated_at_unix_ms = 1003\<rparr>)],
     certificates = [(''c1'', \<lparr>cert_serial = ''c1'', cert_company_id = ''co'', cert_node_id =
     ''n1'', cert_public_key_fingerprint = replicate 64 CHR ''a'', cert_node_daemon_id = ''d'',
     cert_node_daemon_generation = 1, cert_issued_at_unix_ms = 1002, cert_expires_at_unix_ms = 500000,
     cert_revoked_at_unix_ms = None, cert_proof_of_possession_digest =
     ''7070700000000000000000000000000000000000000000000000000000000000'', cert_schema_version =
     FABRIC_SCHEMA_VERSION\<rparr>)], revoked_certificate_serials = {}, gateway_leases = [(''n1'',
     \<lparr>gwl_company_id = ''co'', gwl_node_id = ''n1'', gwl_lease_id = ''gateway-lease:n1:1'',
     gwl_gateway_generation = 1, gwl_instance_id = ''i1'', gwl_node_daemon_id = ''d'',
     gwl_node_daemon_generation = 1, gwl_certificate_serial = ''c1'', gwl_revision = 1,
     gwl_control_plane_generation = 1, gwl_acquired_at_unix_ms = 1003, gwl_expires_at_unix_ms = 31003,
     gwl_last_heartbeat_at_unix_ms = 1003, gwl_protocol_version = 1, gwl_build_sha = ''b'',
     gwl_schema_bundle_digest = ''sb'', gwl_schema_version = FABRIC_SCHEMA_VERSION\<rparr>)],
     operations = [(''op1'', sample_operation ''op1'')], operation_idempotency =
     [(''co:control_plane:key-op1'', ''op1'')], attempts = [(''route-attempt:op1:1'', \<lparr>att_id =
     ''route-attempt:op1:1'', att_company_id = ''co'', att_operation_id = ''op1'', att_attempt_no = 1,
     att_target_node_id = ''n1'', att_target_gateway_generation = 1, att_control_plane_generation = 1,
     att_route_seq = 1, att_ordering_seq = 1, att_state = AttemptQueued, att_error_code = None,
     att_effect = EffectNone, att_started_at_unix_ms = 1004, att_ended_at_unix_ms = None,
     att_schema_version = FABRIC_SCHEMA_VERSION\<rparr>)], receipts =
     [(''receipt:op1:ControlPlaneAccepted:1'', \<lparr>rcp_id = ''receipt:op1:ControlPlaneAccepted:1'',
     rcp_company_id = ''co'', rcp_operation_id = ''op1'', rcp_target_node_id = ''n1'',
     rcp_target_gateway_generation = 1, rcp_control_plane_generation = 1, rcp_route_seq = 1, rcp_kind =
     ControlPlaneAccepted, rcp_application_effect = None, rcp_result_schema = None, rcp_result = None,
     rcp_result_digest = None, rcp_error = None, rcp_created_at_unix_ms = 1004, rcp_schema_version =
     FABRIC_SCHEMA_VERSION\<rparr>)], route_sequences = [(''n1'', 1)], ordering_sequences = [(''n1:k'',
     1)], rate_windows = [(''co:control_plane:ada'', \<lparr>win_company_id = ''co'',
     win_source_authority_key = ''control_plane'', win_actor_id = ''ada'',
     win_window_started_at_unix_ms = 0, win_accepted_count = 1, win_schema_version =
     FABRIC_SCHEMA_VERSION\<rparr>)], artifacts = [], encrypted_artifacts = [], consumed_capabilities =
     {}\<rparr>)"
  by code_simp

lemma committed1: "committed run1" by code_simp
lemma committed2: "committed run2" by code_simp
lemma committed3: "committed run3" by code_simp
lemma committed4: "committed run4" by code_simp
lemma committed5: "committed run5" by code_simp
lemma committed6: "committed run6" by code_simp
lemma committed7: "committed run7" by code_simp

lemma reach_step:
  "reachable cd csr limits s \<Longrightarrow> (\<And>x. p = (Inr x, snd p) \<Longrightarrow> fabric_step cd csr limits s (snd p)) \<Longrightarrow> committed p
     \<Longrightarrow> reachable cd csr limits (snd p)"
  unfolding reachable_def fabric_run_def using committed_Inr by (metis rtranclp.rtrancl_into_rtrancl)

abbreviation sample_reachable :: "FabricState \<Rightarrow> bool" where
  "sample_reachable \<equiv> reachable sample_codec sample_csr default_limits"

lemma reach0: "sample_reachable default_state"
  by (simp add: reachable_def fabric_run_def)

lemma reach1: "sample_reachable (snd run1)"
  by (rule reach_step [OF reach0 _ committed1], rule fabric_step.acquire) (simp add: run1_def)

lemma reach2: "sample_reachable (snd run2)"
  by (rule reach_step [OF reach1 _ committed2], rule fabric_step.enroll) (simp add: run2_def)

lemma reach3: "sample_reachable (snd run3)"
  by (rule reach_step [OF reach2 _ committed3], rule fabric_step.consume_csr) (simp add: run3_def)

lemma reach4: "sample_reachable (snd run4)"
  by (rule reach_step [OF reach3 _ committed4], rule fabric_step.connect_mtls) (simp add: run4_def)

lemma reach5: "sample_reachable (snd run5)"
  by (rule reach_step [OF reach4 _ committed5], rule fabric_step.accept_cp) (simp add: run5_def)

lemma reach6: "sample_reachable (snd run6)"
  by (rule reach_step [OF reach5 _ committed6], rule fabric_step.persisted) (simp add: run6_def)

lemma reach7: "sample_reachable (snd run7)"
  by (rule reach_step [OF reach6 _ committed7], rule fabric_step.applied) (simp add: run7_def)

text \<open>The accepting and applying steps are first-time writes, not replays.\<close>

lemma fresh3:
  assumes "committed p" and "\<not> snd (snd (projr (fst p)))"
  shows "\<exists>a q. p = (Inr (a, q, False), snd p)"
proof -
  obtain a q rp where "p = (Inr (a, q, rp), snd p)" using committed_Inr [OF assms(1)] by (metis prod.exhaust)
  then show ?thesis using assms(2) by (metis fst_conv snd_conv sum.sel(2))
qed

lemma fresh4:
  assumes "committed p" and "\<not> snd (snd (snd (projr (fst p))))"
  shows "\<exists>x a q. p = (Inr (x, a, q, False), snd p)"
proof -
  obtain x a q rp where "p = (Inr (x, a, q, rp), snd p)" using committed_Inr [OF assms(1)] by (metis prod.exhaust)
  then show ?thesis using assms(2) by (metis fst_conv snd_conv sum.sel(2))
qed

lemma run5_fresh: "\<exists>operation a q. run5 = (Inr (operation, a, q, False), snd run5)"
  by (rule fresh4 [OF committed5]) code_simp

lemma run7_fresh: "\<exists>a q. run7 = (Inr (a, q, False), snd run7)"
  by (rule fresh3 [OF committed7]) code_simp

text \<open>
  A second branch: the Node's lease runs out before it persisted the operation. The Control Plane
  renews, the Node is enrolled again under its next daemon generation and reconnects, and the queued
  operation moves to the new gateway generation.
\<close>

definition alt6 where
  "alt6 = heartbeat_lease sample_cp 1 1 30000 (snd run5)"
definition alt7 where
  "alt7 = create_enrollment_bound sample_codec sample_cp sample_actor 1 ''e2'' (replicate 32 CHR ''u'') ''node''
     {''durable-routing''} ''d'' 2 100000 31500 (snd alt6)"
definition alt8 where
  "alt8 = cp_consume_enrollment_csr sample_codec sample_csr sample_cp 1 (replicate 32 CHR ''u'') ''n1'' ''Node''
     (replicate 32 CHR ''q'') ''c2'' 500000 ''sb'' 31501 (snd alt7)"
definition alt9 where
  "alt9 = connect_gateway_mtls sample_codec sample_cp 1 (sample_peer ''c2'') (sample_hello ''c2'' 2) 31502 (snd alt8)"
definition alt10 where
  "alt10 = revoke_node sample_cp sample_actor 1 ''n1'' 2 ''lost'' 31503 (snd alt9)"

lemma alt9_value [code]: "alt9 =
     (Inr \<lparr>wel_company_id = ''co'', wel_node_id = ''n1'', wel_accepted_protocol_version = 1,
     wel_lease_id = ''gateway-lease:n1:2'', wel_gateway_generation = 2, wel_node_daemon_id = ''d'',
     wel_node_daemon_generation = 2, wel_control_plane_generation = 1, wel_next_route_seq = 3,
     wel_required_reconcile_ids = {}, wel_schema_version = FABRIC_SCHEMA_VERSION\<rparr>,
     \<lparr>revision = 9, authority_company_id = Some ''co'', control_plane_leases = [(''co'',
     \<lparr>cpl_company_id = ''co'', cpl_lease_id = ''l1'', cpl_instance_id = ''cp1'',
     cpl_control_plane_generation = 1, cpl_revision = 2, cpl_acquired_at_unix_ms = 1000,
     cpl_expires_at_unix_ms = 60000, cpl_last_heartbeat_at_unix_ms = 30000, cpl_schema_version =
     FABRIC_SCHEMA_VERSION\<rparr>)], enrollments = [(''e1'', \<lparr>enr_id = ''e1'', enr_company_id =
     ''co'', enr_token_digest = ''7474740000000000000000000000000000000000000000000000000000000000'',
     enr_requested_name = ''node'', enr_allowed_capabilities = {''durable-routing''},
     enr_authorized_node_daemon_id = ''d'', enr_authorized_node_daemon_generation = 1, enr_created_by =
     ''ada'', enr_expires_at_unix_ms = 100000, enr_consumed_at_unix_ms = Some 1002,
     enr_consumed_by_node_id = Some ''n1'', enr_status = EnrollmentIsConsumed, enr_revision = 2,
     enr_schema_version = FABRIC_SCHEMA_VERSION, enr_created_at_unix_ms = 1001, enr_updated_at_unix_ms
     = 1002\<rparr>), (''e2'', \<lparr>enr_id = ''e2'', enr_company_id = ''co'', enr_token_digest =
     ''7575750000000000000000000000000000000000000000000000000000000000'', enr_requested_name =
     ''node'', enr_allowed_capabilities = {''durable-routing''}, enr_authorized_node_daemon_id = ''d'',
     enr_authorized_node_daemon_generation = 2, enr_created_by = ''ada'', enr_expires_at_unix_ms =
     100000, enr_consumed_at_unix_ms = Some 31501, enr_consumed_by_node_id = Some ''n1'', enr_status =
     EnrollmentIsConsumed, enr_revision = 2, enr_schema_version = FABRIC_SCHEMA_VERSION,
     enr_created_at_unix_ms = 31500, enr_updated_at_unix_ms = 31501\<rparr>)], nodes = [(''n1'',
     \<lparr>node_id = ''n1'', node_company_id = ''co'', node_display_name = ''Node'',
     node_public_key_fingerprint = replicate 64 CHR ''a'', node_certificate_serial = ''c2'',
     node_allowed_capabilities = {''durable-routing''}, node_administrative_status = NodeActive,
     node_revision = 2, node_enrolled_at_unix_ms = 1002, node_last_seen_at_unix_ms = Some 31502,
     node_revoked_at_unix_ms = None, node_revoke_reason = None, node_protocol_min = 1,
     node_protocol_max = 1, node_schema_bundle_digest = ''sb'', node_schema_version =
     FABRIC_SCHEMA_VERSION, node_created_at_unix_ms = 1002, node_updated_at_unix_ms = 31502\<rparr>)],
     certificates = [(''c1'', \<lparr>cert_serial = ''c1'', cert_company_id = ''co'', cert_node_id =
     ''n1'', cert_public_key_fingerprint = replicate 64 CHR ''a'', cert_node_daemon_id = ''d'',
     cert_node_daemon_generation = 1, cert_issued_at_unix_ms = 1002, cert_expires_at_unix_ms = 500000,
     cert_revoked_at_unix_ms = Some 31501, cert_proof_of_possession_digest =
     ''7070700000000000000000000000000000000000000000000000000000000000'', cert_schema_version =
     FABRIC_SCHEMA_VERSION\<rparr>), (''c2'', \<lparr>cert_serial = ''c2'', cert_company_id = ''co'',
     cert_node_id = ''n1'', cert_public_key_fingerprint = replicate 64 CHR ''a'', cert_node_daemon_id =
     ''d'', cert_node_daemon_generation = 2, cert_issued_at_unix_ms = 31501, cert_expires_at_unix_ms =
     500000, cert_revoked_at_unix_ms = None, cert_proof_of_possession_digest =
     ''7171710000000000000000000000000000000000000000000000000000000000'', cert_schema_version =
     FABRIC_SCHEMA_VERSION\<rparr>)], revoked_certificate_serials = {''c1''}, gateway_leases =
     [(''n1'', \<lparr>gwl_company_id = ''co'', gwl_node_id = ''n1'', gwl_lease_id =
     ''gateway-lease:n1:2'', gwl_gateway_generation = 2, gwl_instance_id = ''i1'', gwl_node_daemon_id =
     ''d'', gwl_node_daemon_generation = 2, gwl_certificate_serial = ''c2'', gwl_revision = 2,
     gwl_control_plane_generation = 1, gwl_acquired_at_unix_ms = 31502, gwl_expires_at_unix_ms = 61502,
     gwl_last_heartbeat_at_unix_ms = 31502, gwl_protocol_version = 1, gwl_build_sha = ''b'',
     gwl_schema_bundle_digest = ''sb'', gwl_schema_version = FABRIC_SCHEMA_VERSION\<rparr>)],
     operations = [(''op1'', sample_operation ''op1'')], operation_idempotency =
     [(''co:control_plane:key-op1'', ''op1'')], attempts = [(''route-attempt:op1:1'', \<lparr>att_id =
     ''route-attempt:op1:1'', att_company_id = ''co'', att_operation_id = ''op1'', att_attempt_no = 1,
     att_target_node_id = ''n1'', att_target_gateway_generation = 1, att_control_plane_generation = 1,
     att_route_seq = 1, att_ordering_seq = 1, att_state = AttemptEnded, att_error_code = Some
     NodeStaleGeneration, att_effect = EffectNone, att_started_at_unix_ms = 1004, att_ended_at_unix_ms
     = Some 31502, att_schema_version = FABRIC_SCHEMA_VERSION\<rparr>), (''route-attempt:op1:2'',
     \<lparr>att_id = ''route-attempt:op1:2'', att_company_id = ''co'', att_operation_id = ''op1'',
     att_attempt_no = 2, att_target_node_id = ''n1'', att_target_gateway_generation = 2,
     att_control_plane_generation = 1, att_route_seq = 2, att_ordering_seq = 1, att_state =
     AttemptQueued, att_error_code = None, att_effect = EffectNone, att_started_at_unix_ms = 31502,
     att_ended_at_unix_ms = None, att_schema_version = FABRIC_SCHEMA_VERSION\<rparr>)], receipts =
     [(''receipt:op1:ControlPlaneAccepted:1'', \<lparr>rcp_id = ''receipt:op1:ControlPlaneAccepted:1'',
     rcp_company_id = ''co'', rcp_operation_id = ''op1'', rcp_target_node_id = ''n1'',
     rcp_target_gateway_generation = 1, rcp_control_plane_generation = 1, rcp_route_seq = 1, rcp_kind =
     ControlPlaneAccepted, rcp_application_effect = None, rcp_result_schema = None, rcp_result = None,
     rcp_result_digest = None, rcp_error = None, rcp_created_at_unix_ms = 1004, rcp_schema_version =
     FABRIC_SCHEMA_VERSION\<rparr>), (''receipt:op1:ControlPlaneAccepted:2'', \<lparr>rcp_id =
     ''receipt:op1:ControlPlaneAccepted:2'', rcp_company_id = ''co'', rcp_operation_id = ''op1'',
     rcp_target_node_id = ''n1'', rcp_target_gateway_generation = 2, rcp_control_plane_generation = 1,
     rcp_route_seq = 2, rcp_kind = ControlPlaneAccepted, rcp_application_effect = None,
     rcp_result_schema = None, rcp_result = None, rcp_result_digest = None, rcp_error = None,
     rcp_created_at_unix_ms = 31502, rcp_schema_version = FABRIC_SCHEMA_VERSION\<rparr>)],
     route_sequences = [(''n1'', 2)], ordering_sequences = [(''n1:k'', 1)], rate_windows =
     [(''co:control_plane:ada'', \<lparr>win_company_id = ''co'', win_source_authority_key =
     ''control_plane'', win_actor_id = ''ada'', win_window_started_at_unix_ms = 0, win_accepted_count =
     1, win_schema_version = FABRIC_SCHEMA_VERSION\<rparr>)], artifacts = [], encrypted_artifacts = [],
     consumed_capabilities = {}\<rparr>)"
  by code_simp

lemma alt_committed6: "committed alt6" by code_simp
lemma alt_committed7: "committed alt7" by code_simp
lemma alt_committed8: "committed alt8" by code_simp
lemma alt_committed9: "committed alt9" by code_simp
lemma alt_committed10: "committed alt10" by code_simp

lemma alt_reach6: "sample_reachable (snd alt6)"
  by (rule reach_step [OF reach5 _ alt_committed6], rule fabric_step.renew) (simp add: alt6_def)

lemma alt_reach7: "sample_reachable (snd alt7)"
  by (rule reach_step [OF alt_reach6 _ alt_committed7], rule fabric_step.enroll) (simp add: alt7_def)

lemma alt_reach8: "sample_reachable (snd alt8)"
  by (rule reach_step [OF alt_reach7 _ alt_committed8], rule fabric_step.consume_csr) (simp add: alt8_def)

lemma alt_reach9: "sample_reachable (snd alt9)"
  by (rule reach_step [OF alt_reach8 _ alt_committed9], rule fabric_step.connect_mtls) (simp add: alt9_def)

lemma alt_reach10: "sample_reachable (snd alt10)"
  by (rule reach_step [OF alt_reach9 _ alt_committed10], rule fabric_step.revoke) (simp add: alt10_def)

lemma run_refl: "fabric_run cd csr limits s s"
  by (simp add: fabric_run_def)

lemma run_step: "fabric_step cd csr limits s t \<Longrightarrow> fabric_run cd csr limits s t"
  by (simp add: fabric_run_def)

end
