(* ===== verification/Route_Properties.thy ===== *)
theory Route_Properties
  imports Sample_Run
begin

text \<open>
  What the routing of operations guarantees over every run of the Control Plane: outcomes are
  unique, final and evidenced, retries are safe, acceptance is idempotent and bounded.
\<close>

section \<open>Outcomes of routed operations\<close>

definition terminal_receipts :: "FabricState \<Rightarrow> string \<Rightarrow> RouteReceipt list" where
  "terminal_receipts s i =
     filter (\<lambda>r. rcp_operation_id r = i \<and> is_terminal_kind (rcp_kind r)) (bt_values (receipts s))"

text \<open>
  C1. In every reachable state of the Control Plane an operation has at most one terminal receipt:
  it is applied or rejected, never both and never twice, whatever retries, reconnections, expiries
  and late results the run contained.
\<close>

theorem one_terminal_outcome:
  assumes "reachable cd csr limits s"
  shows "length (terminal_receipts s i) \<le> 1"
proof -
  have inv: "route_inv s" by (rule reachable_route [OF assms])
  have "distinct (bt_values (receipts s))"
    using inv bt_keyed_keys(2) [of rcp_id "receipts s"] by (simp add: route_inv_def distinct_map)
  then show ?thesis unfolding terminal_receipts_def
    by (rule at_most_one_filter) (use inv in \<open>auto simp: route_inv_def route_rows_def\<close>)
qed

theorem one_terminal_outcome_witness:
  "sample_reachable (snd run7) \<and> length (terminal_receipts (snd run7) ''op1'') \<le> 1
     \<and> terminal_receipts (snd run7) ''op1'' \<noteq> []"
proof -
  have "terminal_receipts (snd run7) ''op1'' \<noteq> []" by code_simp
  then show ?thesis using reach7 one_terminal_outcome [OF reach7, of "''op1''"] by simp
qed

text \<open>
  C2. The record is append-only: an operation, a receipt or an idempotency entry present in a
  reachable state is present, unchanged, in every later state of the run.
\<close>

theorem history_append_only:
  assumes "reachable cd csr limits s" and "fabric_run cd csr limits s t"
  shows "bt_extends (operations s) (operations t) \<and> bt_extends (receipts s) (receipts t)
    \<and> bt_extends (operation_idempotency s) (operation_idempotency t)"
  using run_ext_fabric [OF assms] by (simp add: fabric_ext_def history_ext_def)

theorem history_append_only_witness:
  "bt_extends (receipts (snd run6)) (receipts (snd run7)) \<and> receipts (snd run6) \<noteq> []"
proof -
  have "fabric_run sample_codec sample_csr default_limits (snd run6) (snd run7)"
    using committed_Inr [OF committed7] fabric_step.applied unfolding run7_def fabric_run_def by blast
  moreover have "receipts (snd run6) \<noteq> []" by code_simp
  ultimately show ?thesis using history_append_only [OF reach6] by blast
qed

lemma terminal_receipts_mem:
  "r \<in> set (terminal_receipts s i) \<longleftrightarrow>
     r \<in> set (bt_values (receipts s)) \<and> rcp_operation_id r = i \<and> is_terminal_kind (rcp_kind r)"
  by (auto simp: terminal_receipts_def)

lemma terminal_has_receipt: "r \<in> set (terminal_receipts s i) \<Longrightarrow> has_receipt s i is_terminal_kind"
  by (auto simp: terminal_receipts_mem has_receipt_def list_ex_iff)

lemma terminal_receipts_run:
  assumes "reachable cd csr limits s" and "fabric_run cd csr limits s t" and "r \<in> set (terminal_receipts s i)"
  shows "r \<in> set (terminal_receipts t i)"
proof -
  have s: "route_inv s" by (rule reachable_route [OF assms(1)])
  have t: "route_inv t" by (rule reachable_route [OF reachable_run [OF assms(1,2)]])
  have "bt_get (receipts s) (rcp_id r) = Some r"
    using s assms(3) bt_keyed_vals [of rcp_id "receipts s"] by (simp add: route_inv_def terminal_receipts_mem)
  then have "bt_get (receipts t) (rcp_id r) = Some r"
    using run_ext_fabric [OF assms(1,2)] bt_extendsD by (auto simp: fabric_ext_def history_ext_def)
  then show ?thesis
    using t assms(3) bt_keyed_vals [of rcp_id "receipts t"] by (simp add: route_inv_def terminal_receipts_mem)
qed

lemma settled_application:
  assumes inv: "route_inv t" and r: "r \<in> set (terminal_receipts t i)"
    and f: "record_application_receipt cd c g n gg d dg i rs res eff now t = (Inr (a, q, rp), u)"
  shows "rp \<and> u = t \<and> bt_get (receipts t) (rcp_id q) = Some q \<and> rcp_operation_id q = i
    \<and> (if eff = EffectUnknown then rcp_kind q = ReceiptRecoveryRequired else q = r)"
  using f
proof (cases rule: application_cases)
  case (replay receipt kind digest)
  have q: "receipt = q" "rp" using replay(3) by (auto simp: replay_application_def bindR_eq_Inr)
  have mem: "receipt \<in> set (bt_values (receipts t))" and key: "rcp_id receipt = receipt_id i kind gg"
    using inv replay(2) bt.get_vals [of rcp_id "receipts t"] bt.get_key [of rcp_id "receipts t"]
    by (simp_all add: route_inv_def)
  then have row: "rcp_operation_id receipt = i" "rcp_kind receipt = kind"
    using route_receipt_row [OF inv mem] by (auto simp: receipt_row_def receipt_id_inj)
  have "receipt = r" if "eff \<noteq> EffectUnknown"
  proof -
    have "is_terminal_kind kind" using replay(1) that by (cases eff) (auto simp: is_terminal_kind_def)
    then show ?thesis
      using inv mem r row by (auto simp: route_inv_def route_rows_def terminal_receipts_mem)
  qed
  then show ?thesis using replay(1,2,4) q row key by auto
next
  case (new operation kind digest found attempt expired receipt)
  have "attempt = found" using new(5,8) inv route_attempt_mem route_same_attempt by metis
  then have "att_state attempt = AttemptEnded"
    using has_receipt_terminal_closed [OF inv terminal_has_receipt [OF r] new(5,6)] by simp
  then show ?thesis using new(9,10) by (simp add: expired_not_applied_def in_flight_def)
qed

text \<open>
  C3. A settled operation stays settled. Once an operation has a terminal receipt, in every later
  state all its route attempts are ended, a retry is refused, and a further application result writes
  nothing and is at most a replay: of that very receipt or, when it reports an unknown effect, of the
  recovery receipt that was recorded for the operation earlier.
\<close>

theorem settled_stays_settled:
  assumes "reachable cd csr limits s" and "r \<in> set (terminal_receipts s i)"
    and "fabric_run cd csr limits s t"
  shows "(\<forall>a \<in> set (operation_attempts t i). att_state a = AttemptEnded)
    \<and> (\<forall>x u. cp_retry_operation cp g i now t \<noteq> (Inr x, u))
    \<and> (\<forall>a q rp u. cp_record_application_receipt cd cp g n gg d dg i rs res eff now t = (Inr (a, q, rp), u) \<longrightarrow>
         rp \<and> u = t\<lparr>revision := revision u\<rparr> \<and> bt_get (receipts t) (rcp_id q) = Some q \<and> rcp_operation_id q = i
         \<and> (if eff = EffectUnknown then rcp_kind q = ReceiptRecoveryRequired else q = r))"
proof -
  have inv: "route_inv t" by (rule reachable_route [OF reachable_run [OF assms(1,3)]])
  have r: "r \<in> set (terminal_receipts t i)" by (rule terminal_receipts_run [OF assms(1,3,2)])
  note closed = terminal_has_receipt [OF r]
  have "cp_retry_operation cp g i now t \<noteq> (Inr x, u)" for x u
    using closed by (auto simp: cp_retry_operation_def gated_Inr retry_operation_def check_eq_Inr
        dest!: retry_admission_Inr(4))
  moreover have "rp \<and> u = t\<lparr>revision := revision u\<rparr> \<and> bt_get (receipts t) (rcp_id q) = Some q \<and> rcp_operation_id q = i
         \<and> (if eff = EffectUnknown then rcp_kind q = ReceiptRecoveryRequired else q = r)"
    if f: "cp_record_application_receipt cd cp g n gg d dg i rs res eff now t = (Inr (a, q, rp), u)" for a q rp u
  proof -
    obtain v where v: "record_application_receipt cd (cp_company_id cp) g n gg d dg i rs res eff now t
        = (Inr (a, q, rp), v)" "u = v\<lparr>revision := sat_add (revision t) 1\<rparr>"
      using f by (auto simp: cp_record_application_receipt_def gated_Inr)
    then show ?thesis using settled_application [OF inv r v(1)] by simp
  qed
  moreover have "\<forall>a \<in> set (operation_attempts t i). att_state a = AttemptEnded"
    using has_receipt_terminal_closed [OF inv closed] by (simp add: operation_attempts_mem)
  ultimately show ?thesis by blast
qed

definition sample_applied :: RouteReceipt where
  "sample_applied = hd (terminal_receipts (snd run7) ''op1'')"

theorem settled_stays_settled_witness:
  "sample_applied \<in> set (terminal_receipts (snd run7) ''op1'')
     \<and> list_all (\<lambda>a. att_state a = AttemptEnded) (operation_attempts (snd run7) ''op1'')
     \<and> operation_attempts (snd run7) ''op1'' \<noteq> []"
proof -
  have "terminal_receipts (snd run7) ''op1'' \<noteq> []" by code_simp
  then have r: "sample_applied \<in> set (terminal_receipts (snd run7) ''op1'')" by (simp add: sample_applied_def)
  have "fabric_run sample_codec sample_csr default_limits (snd run7) (snd run7)" by (simp add: fabric_run_def)
  note settled_stays_settled [OF reach7 r this]
  moreover have "operation_attempts (snd run7) ''op1'' \<noteq> []" by code_simp
  ultimately show ?thesis using r by (simp add: list_all_iff)
qed

text \<open>
  C4. An outcome is recorded only on evidence. A fresh application receipt belongs to an attempt of
  the operation, of the reporting gateway generation, that the target had persisted, or else it is the
  exact expiry proof: the effect is \<^verbatim>\<open>NotApplied\<close>, the operation's time is over, the attempt was
  still in flight, and the result carries the expiry schema and decodes to an error with the code
  \<^verbatim>\<open>OperationExpired\<close>. The receipt is stored; it names the operation, the target, both generations and
  the attempt's place in the route, and holds the reported result, its schema and effect, with the kind
  of that effect. The attempt ends unless the effect is unknown.
\<close>

theorem outcome_needs_evidence:
  assumes "reachable cd csr limits s"
    and "cp_record_application_receipt cd cp g n gg d dg i rs res eff now s = (Inr (a, q, False), t)"
  shows "(\<exists>old \<in> set (operation_attempts s i). att_slot old = att_slot a
        \<and> att_target_gateway_generation old = gg
        \<and> (att_state old = AttemptTargetPersisted
           \<or> eff = EffectNotApplied \<and> rs = EXPIRED_RESULT_SCHEMA \<and> in_flight (att_state old)
              \<and> (\<exists>error. decode_error cd res = Inr error \<and> err_code error = OperationExpired)
              \<and> (\<exists>operation. bt_get (operations s) i = Some operation
                    \<and> op_expires_at_unix_ms operation \<le> now)))
    \<and> receipt_kind_of eff = Inr (rcp_kind q) \<and> bt_get (receipts t) (rcp_id q) = Some q
    \<and> rcp_operation_id q = i \<and> rcp_target_node_id q = n \<and> rcp_target_gateway_generation q = gg
    \<and> rcp_control_plane_generation q = g \<and> rcp_route_seq q = att_route_seq a
    \<and> rcp_application_effect q = Some eff \<and> rcp_result_schema q = Some rs \<and> rcp_result q = Some res
    \<and> bt_get (attempts t) (att_id a) = Some a
    \<and> (att_state a = AttemptEnded \<longleftrightarrow> eff \<noteq> EffectUnknown)"
proof -
  have inv: "route_inv s" by (rule reachable_route [OF assms(1)])
  obtain u where u: "record_application_receipt cd (cp_company_id cp) g n gg d dg i rs res eff now s
      = (Inr (a, q, False), u)" "t = u\<lparr>revision := sat_add (revision s) 1\<rparr>"
    using assms(2) by (auto simp: cp_record_application_receipt_def gated_Inr)
  show ?thesis using u(1)
  proof (cases rule: application_cases)
    case (replay receipt kind digest)
    then show ?thesis by (simp add: replay_application_def bindR_eq_Inr)
  next
    case (new operation kind digest found attempt expired receipt)
    have found: "attempt = found" using new(5,8) inv route_attempt_mem route_same_attempt by metis
    have a: "a = settle_attempt eff now found" and q: "q = receipt" using new(12) found by auto
    have slot: "att_slot found = att_slot a" by (simp add: a)
    then have "att_id a = att_id found" by (simp add: att_slot_eq)
    moreover have "found \<in> set (operation_attempts s i)" using new(5,6) by (simp add: operation_attempts_mem)
    ultimately show ?thesis
      using new(1,2,7,9,10) slot found
      by (auto simp: u(2) new(11,13) a q att_state_settle expired_not_applied_def application_receipt_def
          settle_attempt_def split: sum.splits)
  qed
qed

theorem outcome_needs_evidence_witness:
  "\<exists>a q. cp_record_application_receipt sample_codec sample_cp 1 ''n1'' 1 ''d'' 1 ''op1'' ''res''
      (JString ''done'') EffectApplied 1006 (snd run6) = (Inr (a, q, False), snd run7)
    \<and> rcp_kind q = OperationApplied \<and> att_state a = AttemptEnded
    \<and> list_ex (\<lambda>old. att_state old = AttemptTargetPersisted) (operation_attempts (snd run6) ''op1'')"
proof -
  obtain a q where f: "cp_record_application_receipt sample_codec sample_cp 1 ''n1'' 1 ''d'' 1 ''op1'' ''res''
      (JString ''done'') EffectApplied 1006 (snd run6) = (Inr (a, q, False), snd run7)"
    using run7_fresh unfolding run7_def by metis
  from outcome_needs_evidence [OF reach6 f] show ?thesis using f by (auto simp: list_ex_iff)
qed

section \<open>Retry and admission\<close>

text \<open>
  C5. Retry never repeats work that may have been done. In every state that satisfies the route
  invariant (every reachable state, and the states inside a reconnection) it succeeds only when no
  receipt says that the target persisted, applied or rejected the operation. When it writes a new
  attempt, the previous one was in flight with no effect and is ended by the retry; the new attempt
  is bound to a strictly newer gateway generation and keeps the place of the operation in its order.
\<close>

theorem retry_is_safe:
  assumes inv: "route_inv s" and f: "retry_operation c g i now s = (Inr (a, q, replayed), t)"
  shows "\<not> has_receipt s i is_terminal_kind \<and> \<not> has_receipt s i (\<lambda>k. k = TargetPersisted)
    \<and> (if replayed then t = s
       else \<exists>prior. latest_attempt s i = Some prior \<and> att_effect prior = EffectNone
              \<and> in_flight (att_state prior) \<and> att_state a = AttemptQueued
              \<and> att_target_gateway_generation prior < att_target_gateway_generation a
              \<and> att_ordering_seq a = att_ordering_seq prior
              \<and> (att_id a \<noteq> att_id prior \<longrightarrow>
                   bt_get (attempts t) (att_id prior) = Some (end_superseded now prior))
              \<and> bt_get (attempts t) (att_id a) = Some a)"
  using f
proof (cases rule: retry_cases)
  case replay
  then show ?thesis using retry_admission_Inr(4,5) [OF replay(1)] by simp
next
  case (new operation gateway prior attempt receipt)
  note adm = retry_admission_Inr [OF new(1)]
  have "att_target_gateway_generation prior < gwl_gateway_generation gateway"
    using latest_below_lease(1) [OF inv adm(3) adm(1) adm(2)] new(2) by simp
  moreover have "bt_get (attempts s) (att_id prior) = Some prior"
    by (rule latest_attempt_Some(3) [OF inv adm(3)])
  ultimately show ?thesis using new adm(3,4,5)
    by (auto simp: retry_write_def Let_def)
qed

text \<open>The state inside the reconnection of the sample Node, before its queued operation is moved.\<close>

definition sample_reconnecting :: FabricState where
  "sample_reconnecting =
     (let s = snd alt8; lease = successor_lease (bt_get (gateway_leases s) ''n1'') ''co'' 1 (sample_hello ''c2'' 2) 31502
      in s\<lparr>gateway_leases := bt_insert ''n1'' lease (gateway_leases s)\<rparr>)"

lemma sample_reconnecting_inv: "route_inv sample_reconnecting"
proof (rule route_inv_frame)
  show "route_inv (snd alt8)" by (rule reachable_route [OF alt_reach8])
  fix n h assume b: "gateway_bound (snd alt8) n h"
  have "case bt_get (gateway_leases (snd alt8)) ''n1'' of None \<Rightarrow> False | Some p \<Rightarrow> gwl_gateway_generation p \<le> 2"
    by code_simp
  moreover have "case bt_get (gateway_leases sample_reconnecting) ''n1'' of None \<Rightarrow> False
      | Some p \<Rightarrow> gwl_gateway_generation p = 2"
    by code_simp
  moreover have "bt_get (gateway_leases sample_reconnecting) n = bt_get (gateway_leases (snd alt8)) n" if "n \<noteq> ''n1''"
    using that by (simp add: sample_reconnecting_def Let_def)
  moreover have "nodes sample_reconnecting = nodes (snd alt8)"
    by (simp add: sample_reconnecting_def Let_def)
  ultimately show "gateway_bound sample_reconnecting n h"
    using b by (cases "n = ''n1''") (auto simp: gateway_bound_def split: option.split_asm)
qed (simp_all add: sample_reconnecting_def Let_def)

definition sample_retried where
  "sample_retried = retry_operation ''co'' 1 ''op1'' 31502 sample_reconnecting"

lemma sample_retried_fresh: "\<exists>a q. sample_retried = (Inr (a, q, False), snd sample_retried)"
  by (rule fresh3) code_simp+

theorem retry_is_safe_witness:
  "\<exists>a q t prior. retry_operation ''co'' 1 ''op1'' 31502 sample_reconnecting = (Inr (a, q, False), t)
     \<and> latest_attempt sample_reconnecting ''op1'' = Some prior
     \<and> att_target_gateway_generation prior < att_target_gateway_generation a
     \<and> \<not> has_receipt sample_reconnecting ''op1'' (\<lambda>k. k = TargetPersisted)"
proof -
  obtain a q where f: "retry_operation ''co'' 1 ''op1'' 31502 sample_reconnecting
      = (Inr (a, q, False), snd sample_retried)"
    using sample_retried_fresh unfolding sample_retried_def by blast
  from retry_is_safe [OF sample_reconnecting_inv f]
  obtain prior where "latest_attempt sample_reconnecting ''op1'' = Some prior"
    "att_target_gateway_generation prior < att_target_gateway_generation a"
    "\<not> has_receipt sample_reconnecting ''op1'' (\<lambda>k. k = TargetPersisted)"
    unfolding if_False by blast
  with f show ?thesis by blast
qed

lemma validate_operation_frame:
  assumes "nodes t = nodes s" and "gateway_leases t = gateway_leases s"
    and "control_plane_leases t = control_plane_leases s"
  shows "validate_operation cd t c operation now = validate_operation cd s c operation now"
proof -
  have "validate_nodes t c cap ns = validate_nodes s c cap ns" for cap ns
    by (induction ns) (simp_all add: assms)
  moreover have "require_current_gateway t c g n gg d dg now = require_current_gateway s c g n gg d dg now"
    for g n gg d dg
    by (simp add: require_current_gateway_def assms)
  ultimately show ?thesis
    by (simp add: validate_operation_def validate_operation_scope_def assms(1,3) cong: OperationSourceAuthority.case_cong)
qed

lemma find_unique:
  assumes "x \<in> set xs" and "P x" and "\<And>y. y \<in> set xs \<Longrightarrow> P y \<Longrightarrow> y = x"
  shows "List.find P xs = Some x"
proof (cases "List.find P xs")
  case None
  then show ?thesis using assms(1,2) by (simp add: find_None_iff)
next
  case (Some y)
  then show ?thesis using find_SomeD [OF Some] assms(3) by blast
qed

text \<open>
  Accepting is idempotent. After an operation was accepted for the first time, submitting the
  same operation again, while it is still valid, returns the same attempt and receipt, says it is a
  replay and writes nothing.
\<close>

theorem accept_idempotent:
  assumes reach: "reachable cd csr limits s"
    and "accept_and_enqueue cd c g operation limits now s = (Inr (o1, a, q, False), t)"
    and "validate_operation cd s c operation later = Inr ()"
  shows "accept_and_enqueue cd c g operation limits later t = (Inr (o1, a, q, True), t)"
  using assms(2)
proof (cases rule: accept_cases)
  case (replay existing_id digest)
  then show ?thesis by (auto simp: replay_accepted_def bindR_eq_Inr)
next
  case (new gateway attempt receipt)
  note inv = reachable_route [OF reach]
  have good: "route_inv t" using accept_good [OF inv assms(2)] by (simp add: route_good_def)
  have fresh: "bt_get (operations s) (op_id operation) = None" by (rule admit_new_Inr(1) [OF new(3)])
  have t: "nodes t = nodes s" "gateway_leases t = gateway_leases s"
    "control_plane_leases t = control_plane_leases s"
    "bt_get (operations t) (op_id operation) = Some operation"
    "bt_get (operation_idempotency t) (idempotency_index c operation) = Some (op_id operation)"
    "attempts t = bt_insert (att_id a) a (attempts s)" "att_operation_id a = op_id operation"
    "bt_get (receipts t) (receipt_id (op_id operation) ControlPlaneAccepted (att_target_gateway_generation a)) = Some q"
    "o1 = operation"
    using new(4,5) by (auto simp: enqueue_def Let_def)
  have a: "a \<in> set (bt_values (attempts t))" using route_attempt_mem(1) [OF good, of "att_id a"] t(6) by simp
  have "List.find (\<lambda>b. att_operation_id b = op_id operation) (bt_values (attempts t)) = Some a"
  proof (rule find_unique [where P = "\<lambda>b. att_operation_id b = op_id operation", OF a t(7)])
    fix b assume b: "b \<in> set (bt_values (attempts t))" "att_operation_id b = op_id operation"
    have "b = a \<or> b \<in> set (bt_values (attempts s))"
      using b(1) bt.vals_ins [of att_id "attempts s" a] inv t(6) by (auto simp: route_inv_def)
    then show "b = a" using fresh_operation(1) [OF inv fresh] b(2) by blast
  qed
  moreover obtain digest where "operation_digest cd operation = Inr digest"
    using assms(2) by (auto simp: accept_and_enqueue_def check_eq_Inr)
  ultimately show ?thesis
    using assms(3) t by (simp add: accept_and_enqueue_def validate_operation_frame [OF t(1-3)]
        replay_accepted_def receipt_for_def)
qed

definition sample_accepted where
  "sample_accepted = accept_and_enqueue sample_codec ''co'' 1 (sample_operation ''op1'') default_limits 1004 (snd run4)"

lemma sample_accepted_fresh: "\<exists>x a q. sample_accepted = (Inr (x, a, q, False), snd sample_accepted)"
  by (rule fresh4) code_simp+

theorem accept_idempotent_witness:
  "\<exists>o1 a q t. accept_and_enqueue sample_codec ''co'' 1 (sample_operation ''op1'') default_limits 1004 (snd run4)
        = (Inr (o1, a, q, False), t)
     \<and> accept_and_enqueue sample_codec ''co'' 1 (sample_operation ''op1'') default_limits 2000 t
        = (Inr (o1, a, q, True), t)"
proof -
  obtain o1 a q where f: "accept_and_enqueue sample_codec ''co'' 1 (sample_operation ''op1'') default_limits 1004
      (snd run4) = (Inr (o1, a, q, False), snd sample_accepted)"
    using sample_accepted_fresh unfolding sample_accepted_def by blast
  have "validate_operation sample_codec (snd run4) ''co'' (sample_operation ''op1'') 2000 = Inr ()"
    by code_simp
  from accept_idempotent [OF reach4 f this] f show ?thesis by blast
qed

text \<open>
  An idempotency key names one request. When the key of an accepted operation is submitted again
  with a request of another digest, the call fails with an idempotency conflict and writes nothing.
\<close>

theorem idempotency_conflict:
  assumes "bt_get (operation_idempotency s) (idempotency_index c operation) = Some j"
    and "bt_get (operations s) j = Some existing"
    and "operation_digest cd existing = Inr old_digest" and "operation_digest cd operation = Inr new_digest"
    and "old_digest \<noteq> new_digest" and "validate_operation cd s c operation now = Inr ()"
  shows "fails_with (fst (accept_and_enqueue cd c g operation limits now s)) IdempotencyConflict
    \<and> snd (accept_and_enqueue cd c g operation limits now s) = s"
  using assms by (simp add: accept_and_enqueue_def replay_accepted_def)

theorem idempotency_conflict_witness:
  "fails_with (fst (accept_and_enqueue sample_codec ''co'' 1 (sample_operation ''op1''\<lparr>op_id := ''op2''\<rparr>)
      default_limits 1010 (snd run5))) IdempotencyConflict"
proof -
  let ?new = "sample_operation ''op1''\<lparr>op_id := ''op2''\<rparr>"
  have 1: "bt_get (operation_idempotency (snd run5)) (idempotency_index ''co'' ?new) = Some ''op1''" by code_simp
  have 2: "bt_get (operations (snd run5)) ''op1'' = Some (sample_operation ''op1'')" by code_simp
  have 3: "operation_digest sample_codec (sample_operation ''op1'') = Inr (bytes_to_hex (sample_hash ''op1''))"
    by code_simp
  have 4: "operation_digest sample_codec ?new = Inr (bytes_to_hex (sample_hash ''op2''))" by code_simp
  have 5: "bytes_to_hex (sample_hash ''op1'') \<noteq> bytes_to_hex (sample_hash ''op2'')" by code_simp
  have 6: "validate_operation sample_codec (snd run5) ''co'' ?new 1010 = Inr ()" by code_simp
  show ?thesis using idempotency_conflict [OF 1 2 3 4 5 6] by blast
qed

text \<open>
  The hint of a rate-limit error is usable: it is at most one minute and lands exactly on the
  end of the current window (or on the largest representable time), so it never underflows.
\<close>

theorem retry_after_in_window:
  "\<exists>wait. err_retry_after_ms (rate_limited_error now) = Some wait \<and> err_retryable (rate_limited_error now)
     \<and> unat wait \<le> 60000
     \<and> unat now + unat wait = min (unat (window_start now) + 60000) (2 ^ 64 - 1)"
proof -
  let ?w = "window_start now"
  have w: "unat ?w = unat now - unat now mod 60000"
    by (simp add: window_start_def unat_sub unat_mod word_le_nat_alt)
  have m: "unat now mod 60000 < 60000" by simp
  have le: "unat ?w \<le> unat now" using w by simp
  have end_: "unat (sat_add ?w 60000) = min (unat ?w + 60000) (2 ^ 64 - 1)"
    by (simp add: unat_sat_add)
  have "unat now \<le> 2 ^ 64 - 1" using unat_le_max [of now] by simp
  then have "unat now \<le> unat (sat_add ?w 60000)" using w m end_ by linarith
  then have "unat (sat_add ?w 60000 - now) = unat (sat_add ?w 60000) - unat now"
    by (simp add: unat_sub word_le_nat_alt)
  then show ?thesis using le end_ \<open>unat now \<le> unat (sat_add ?w 60000)\<close>
    by (auto simp: rate_limited_error_def)
qed

text \<open>
  Route numbers identify deliveries. In a reachable state, as long as the counter of a Node has
  not saturated, two different attempts for that Node carry different route sequence numbers, and
  none is above the counter.
\<close>

theorem route_numbers_distinct:
  assumes "reachable cd csr limits s" and "counter (route_sequences s) n \<noteq> - 1"
  shows "distinct (map att_route_seq (filter (\<lambda>a. att_target_node_id a = n) (bt_values (attempts s))))
    \<and> list_all (\<lambda>a. att_target_node_id a = n \<longrightarrow> att_route_seq a \<le> counter (route_sequences s) n)
         (bt_values (attempts s))"
proof -
  have inv: "route_inv s" by (rule reachable_route [OF assms(1)])
  have "distinct (bt_values (attempts s))"
    using inv bt_keyed_keys(2) [of att_id "attempts s"] by (simp add: route_inv_def distinct_map)
  moreover have "inj_on att_route_seq {a \<in> set (bt_values (attempts s)). att_target_node_id a = n}"
  proof (rule inj_onI)
    fix x y assume "x \<in> {a \<in> set (bt_values (attempts s)). att_target_node_id a = n}"
      and "y \<in> {a \<in> set (bt_values (attempts s)). att_target_node_id a = n}"
      and "att_route_seq x = att_route_seq y"
    then show "x = y"
      using route_attempt_order [OF inv, of x y] assms(2) by (auto simp: attempt_order_def)
  qed
  ultimately show ?thesis
    using route_attempt_row [OF inv] by (auto simp: distinct_map list_all_iff attempt_row_def)
qed

theorem route_numbers_distinct_witness:
  "distinct (map att_route_seq (filter (\<lambda>a. att_target_node_id a = ''n1'') (bt_values (attempts (snd alt9)))))
     \<and> length (bt_values (attempts (snd alt9))) = 2"
proof -
  have "counter (route_sequences (snd alt9)) ''n1'' \<noteq> - 1" by code_simp
  moreover have "length (bt_values (attempts (snd alt9))) = 2" by code_simp
  ultimately show ?thesis using route_numbers_distinct [OF alt_reach9, of "''n1''"] by blast
qed

end
