(* ===== verification/Local_Store.thy ===== *)
theory Local_Store
  imports Router Transport
begin

text \<open>
  The store of a Node (\<^verbatim>\<open>crates/firm-fabric/src/local_store.rs\<close>): the outbox of the operations it
  submits, the inbox of the operations routed to it, the results of their application and the
  tombstones of expired deliveries, all behind the gateway session the Node is bound to. As for the
  Control Plane, a transaction is modelled here on the state it holds; the journal file it is
  appended to is the subject of \<^verbatim>\<open>Journal\<close>.
\<close>

section \<open>State\<close>

record LocalApplicationResult =
  lar_operation_id :: string
  lar_result_schema :: string
  lar_result :: json
  lar_result_digest :: string
  lar_effect :: EffectCertainty
  lar_gateway_generation :: u64
  lar_completed_at_unix_ms :: u64
  lar_schema_version :: string

record LocalOrderingTombstone =
  tmb_operation_id :: string
  tmb_ordering_key :: string
  tmb_ordering_seq :: u64
  tmb_route_seq :: u64
  tmb_request_digest :: string
  tmb_reason :: FabricErrorCode
  tmb_gateway_generation :: u64
  tmb_control_plane_generation :: u64
  tmb_consumed_at_unix_ms :: u64
  tmb_schema_version :: string

record NodeLocalFabricState =
  loc_revision :: u64
  loc_authority_company_id :: "string option"
  loc_authority_node_id :: "string option"
  active_session :: "FabricSessionFence option"
  outboxes :: "LocalRemoteOutbox btree"
  inboxes :: "LocalRemoteInbox btree"
  persisted_ordering_sequences :: "u64 btree"
  ordering_tombstones :: "LocalOrderingTombstone btree"
  results :: "LocalApplicationResult btree"

definition default_local_state :: NodeLocalFabricState where
  "default_local_state =
     \<lparr>loc_revision = 0, loc_authority_company_id = None, loc_authority_node_id = None,
      active_session = None, outboxes = [], inboxes = [], persisted_ordering_sequences = [],
      ordering_tombstones = [], results = []\<rparr>"

text \<open>The identity a store was opened for.\<close>

record NodeLocalFabricStore =
  lst_company_id :: string
  lst_node_id :: string

type_synonym 'a local_action = "(NodeLocalFabricState, 'a) fabric_action"

section \<open>Transactions\<close>

definition bind_authority :: "NodeLocalFabricStore \<Rightarrow> NodeLocalFabricState \<Rightarrow> NodeLocalFabricState result" where
  "bind_authority st state =
     (case (loc_authority_company_id state, loc_authority_node_id state) of
        (None, None) \<Rightarrow>
          Inr (state\<lparr>loc_authority_company_id := Some (lst_company_id st),
                     loc_authority_node_id := Some (lst_node_id st)\<rparr>)
      | (Some company_id, Some nid) \<Rightarrow>
          if company_id = lst_company_id st \<and> nid = lst_node_id st then Inr state
          else Inl (FabricError_none WrongCompany
                 ''Node-local FabricStore authority binding is incomplete or mismatched'')
      | _ \<Rightarrow> Inl (FabricError_none WrongCompany
                 ''Node-local FabricStore authority binding is incomplete or mismatched''))"

definition local_transact :: "NodeLocalFabricStore \<Rightarrow> 'a local_action \<Rightarrow> 'a local_action" where
  "local_transact st operation state =
     (case bind_authority st state of
        Inl e \<Rightarrow> (Inl e, state)
      | Inr next_state \<Rightarrow>
          (case operation next_state of
             (Inl e, _) \<Rightarrow> (Inl e, state)
           | (Inr x, final) \<Rightarrow>
               (Inr x, final\<lparr>loc_revision := sat_add (loc_revision state) 1\<rparr>)))"

definition require_session :: "NodeLocalFabricStore \<Rightarrow> FabricSessionFence \<Rightarrow> unit result" where
  "require_session st session =
     bindR (reject_if (fen_company_id session \<noteq> lst_company_id st \<or> fen_node_id session \<noteq> lst_node_id st)
              (FabricError_none SourceMismatch
                 ''authenticated Fabric session does not own this Node-local Store'')) (\<lambda>_.
     reject_if (fen_gateway_generation session = 0
                \<or> blank (fen_node_daemon_id session)
                \<or> fen_node_daemon_generation session = 0
                \<or> fen_control_plane_generation session = 0)
       (FabricError_none NodeStaleGeneration
          ''authenticated Fabric session generations must be non-zero''))"

definition transact_session ::
    "NodeLocalFabricStore \<Rightarrow> FabricSessionFence \<Rightarrow> 'a local_action \<Rightarrow> 'a local_action" where
  "transact_session st session operation =
     check (require_session st session) (\<lambda>_.
     local_transact st (\<lambda>state.
       check (reject_if (active_session state \<noteq> Some session)
                (FabricError_none NodeStaleGeneration
                   ''Node-local mutation requires the exact current active gateway session''))
         (\<lambda>_. operation) state))"

section \<open>Sessions\<close>

definition session_regresses :: "FabricSessionFence \<Rightarrow> FabricSessionFence \<Rightarrow> bool" where
  "session_regresses session current \<longleftrightarrow>
     fen_control_plane_generation session < fen_control_plane_generation current
     \<or> fen_node_daemon_generation session < fen_node_daemon_generation current
     \<or> (fen_control_plane_generation session = fen_control_plane_generation current
         \<and> fen_gateway_generation session < fen_gateway_generation current)
     \<or> (fen_gateway_generation session = fen_gateway_generation current
         \<and> (fen_node_daemon_id session \<noteq> fen_node_daemon_id current
            \<or> fen_node_daemon_generation session \<noteq> fen_node_daemon_generation current))"

definition bind_gateway_session :: "NodeLocalFabricStore \<Rightarrow> FabricSessionFence \<Rightarrow> unit local_action" where
  "bind_gateway_session st session =
     check (reject_if (fen_company_id session \<noteq> lst_company_id st \<or> fen_node_id session \<noteq> lst_node_id st)
              (FabricError_none SourceMismatch
                 ''gateway session belongs to another Company or Node'')) (\<lambda>_.
     local_transact st (\<lambda>state.
       if active_session state = Some session then (Inr (), state)
       else check (reject_if (case active_session state of
                                None \<Rightarrow> False | Some current \<Rightarrow> session_regresses session current)
                     (FabricError_none NodeStaleGeneration
                        ''Node-local gateway session cannot move authority backwards or alias a generation''))
              (\<lambda>_ state. (Inr (), state\<lparr>active_session := Some session\<rparr>)) state))"

section \<open>Outbox\<close>

text \<open>Read-only: what is still to be settled, in order of the ids.\<close>

definition pending_outbox :: "LocalOutboxState \<Rightarrow> bool" where
  "pending_outbox s \<longleftrightarrow> s = OutboxQueuedForControlPlane \<or> s = OutboxSubmitted \<or> s = OutboxAccepted
     \<or> s = OutboxReconcileRequired"

definition pending_outbox_operations :: "NodeLocalFabricState \<Rightarrow> RoutedOperation list" where
  "pending_outbox_operations state =
     sort_key op_id (List.map_filter out_operation
       (filter (\<lambda>outbox. pending_outbox (out_local_state outbox)) (bt_values (outboxes state))))"

definition unaccepted :: "LocalOutboxState \<Rightarrow> bool" where
  "unaccepted s \<longleftrightarrow> s = OutboxQueuedForControlPlane \<or> s = OutboxSubmitted \<or> s = OutboxReconcileRequired"

definition source_generation_mismatch :: "FabricSessionFence \<Rightarrow> RoutedOperation \<Rightarrow> bool" where
  "source_generation_mismatch session operation \<longleftrightarrow>
     op_source_gateway_generation operation \<noteq> Some (fen_gateway_generation session)
     \<or> op_source_node_daemon_id operation \<noteq> Some (fen_node_daemon_id session)
     \<or> op_source_node_daemon_generation operation \<noteq> Some (fen_node_daemon_generation session)
     \<or> op_control_plane_generation operation \<noteq> fen_control_plane_generation session"

definition new_outbox :: "NodeLocalFabricStore \<Rightarrow> RoutedOperation \<Rightarrow> u64 \<Rightarrow> string \<Rightarrow> LocalRemoteOutbox" where
  "new_outbox st operation gateway_generation request_digest =
     \<lparr>out_company_id = lst_company_id st,
      out_node_id = lst_node_id st,
      out_operation_id = op_id operation,
      out_request_digest = request_digest,
      out_local_state = OutboxQueuedForControlPlane,
      out_gateway_generation = gateway_generation,
      out_control_plane_generation = op_control_plane_generation operation,
      out_attempt_count = 0,
      out_last_attempt_at_unix_ms = None,
      out_terminal_receipt_ref = None,
      out_operation = Some operation,
      out_schema_version = FABRIC_SCHEMA_VERSION\<rparr>"

text \<open>
  The \<^verbatim>\<open>expect\<close> on the operation's gateway generation follows the comparison with the session's
  and cannot fail: the generation is the session's.
\<close>

definition prepare_outbox ::
    "codec \<Rightarrow> NodeLocalFabricStore \<Rightarrow> FabricSessionFence \<Rightarrow> AuthenticatedActor \<Rightarrow> RoutedOperation
      \<Rightarrow> (LocalRemoteOutbox \<times> bool) local_action" where
  "prepare_outbox cd st session authenticated_actor operation =
     check (require_session st session) (\<lambda>_.
     check (reject_if (op_source_authority operation \<noteq> SourceNode
                       \<or> op_company_id operation \<noteq> lst_company_id st
                       \<or> op_source_node_id operation \<noteq> Some (lst_node_id st))
              (FabricError_none SourceMismatch
                 ''source outbox operation does not match this Node authority'')) (\<lambda>_.
     check (reject_if (authenticated_actor \<noteq> op_actor operation
                       \<or> act_company_id authenticated_actor \<noteq> lst_company_id st)
              (FabricError_none UnauthorizedActor
                 ''source outbox actor must be resolved by the authenticated Node session'')) (\<lambda>_.
     check (reject_if (source_generation_mismatch session operation)
              (FabricError_none NodeStaleGeneration
                 ''source outbox operation does not match the authenticated Fabric generation'')) (\<lambda>_.
     check (validate_digest cd operation) (\<lambda>_.
     check (closed_body cd operation) (\<lambda>_.
     check (operation_digest cd operation) (\<lambda>request_digest.
     transact_session st session (\<lambda>state.
       case bt_get (outboxes state) (op_id operation) of
         Some existing \<Rightarrow>
           check (reject_if (out_request_digest existing \<noteq> request_digest
                             \<or> Some (out_gateway_generation existing) \<noteq> op_source_gateway_generation operation
                             \<or> out_control_plane_generation existing \<noteq> op_control_plane_generation operation)
                    (FabricError_none IdempotencyConflict
                       ''source outbox replay changed its operation fingerprint''))
             (\<lambda>_ state. (Inr (existing, True), state)) state
       | None \<Rightarrow>
           (let outbox = new_outbox st operation (fen_gateway_generation session) request_digest
            in (Inr (outbox, False),
                state\<lparr>outboxes := bt_insert (op_id operation) outbox (outboxes state)\<rparr>))))))))))"

definition mark_outbox_submitted ::
    "codec \<Rightarrow> NodeLocalFabricStore \<Rightarrow> FabricSessionFence \<Rightarrow> AuthenticatedActor \<Rightarrow> RoutedOperation \<Rightarrow> u64
      \<Rightarrow> LocalRemoteOutbox local_action" where
  "mark_outbox_submitted cd st session authenticated_actor operation now_unix_ms =
     check (require_session st session) (\<lambda>_.
     check (reject_if (authenticated_actor \<noteq> op_actor operation
                       \<or> act_company_id authenticated_actor \<noteq> lst_company_id st)
              (FabricError_none UnauthorizedActor
                 ''outbox submit actor does not match the authenticated source identity'')) (\<lambda>_.
     check (reject_if (op_company_id operation \<noteq> lst_company_id st
                       \<or> op_source_authority operation \<noteq> SourceNode
                       \<or> op_source_node_id operation \<noteq> Some (lst_node_id st)
                       \<or> source_generation_mismatch session operation)
              (FabricError_none SourceMismatch
                 ''outbox submission does not match this authenticated source generation'')) (\<lambda>_.
     check (operation_digest cd operation) (\<lambda>request_digest.
     transact_session st session (\<lambda>state.
       check (ok_or (bt_get (outboxes state) (op_id operation))
                (FabricError_none OperationUnknown
                   ''operation must be durably queued before submission'')) (\<lambda>outbox.
       check (reject_if (out_request_digest outbox \<noteq> request_digest
                         \<or> out_gateway_generation outbox \<noteq> fen_gateway_generation session
                         \<or> out_control_plane_generation outbox \<noteq> fen_control_plane_generation session)
                (FabricError_none IdempotencyConflict
                   ''outbox submission changed its durable request fingerprint'')) (\<lambda>_ state.
       if out_local_state outbox = OutboxTerminal then (Inr outbox, state)
       else
         (let outbox = outbox\<lparr>out_local_state := OutboxSubmitted,
                              out_attempt_count := sat_add (out_attempt_count outbox) 1,
                              out_last_attempt_at_unix_ms := Some now_unix_ms\<rparr>
          in (Inr outbox,
              state\<lparr>outboxes := bt_insert (op_id operation) outbox (outboxes state)\<rparr>)))) state)))))"

definition rebound_operation :: "FabricSessionFence \<Rightarrow> RoutedOperation \<Rightarrow> RoutedOperation" where
  "rebound_operation session operation =
     operation\<lparr>op_source_gateway_generation := Some (fen_gateway_generation session),
               op_source_node_daemon_id := Some (fen_node_daemon_id session),
               op_source_node_daemon_generation := Some (fen_node_daemon_generation session),
               op_control_plane_generation := fen_control_plane_generation session\<rparr>"

definition rebind_unaccepted_outbox ::
    "codec \<Rightarrow> NodeLocalFabricStore \<Rightarrow> FabricSessionFence \<Rightarrow> string \<Rightarrow> RouteReceipt list
      \<Rightarrow> RoutedOperation local_action" where
  "rebind_unaccepted_outbox cd st session operation_id reconciled_receipts =
     check (require_session st session) (\<lambda>_.
     check (reject_if (list_ex (\<lambda>receipt. rcp_operation_id receipt = operation_id) reconciled_receipts)
              (FabricError_none IdempotencyConflict
                 ''accepted FabricStore operation cannot be rebound to a successor generation'')) (\<lambda>_.
     transact_session st session (\<lambda>state.
       check (ok_or (bt_get (outboxes state) operation_id)
                (FabricError_none OperationUnknown
                   ''successor rebind requires a durable source outbox'')) (\<lambda>outbox.
       check (reject_if (\<not> unaccepted (out_local_state outbox))
                (FabricError_none IdempotencyConflict
                   ''only an unaccepted source outbox can be rebound'')) (\<lambda>_.
       check (ok_or (out_operation outbox)
                (FabricError_none OperationUnknown
                   ''source outbox lost its pre-acceptance operation envelope'')) (\<lambda>found.
       let operation = rebound_operation session found in
       check (validate_digest cd operation) (\<lambda>_.
       check (closed_body cd operation) (\<lambda>_.
       check (operation_digest cd operation) (\<lambda>request_digest state.
         let outbox = outbox\<lparr>out_request_digest := request_digest,
                             out_gateway_generation := fen_gateway_generation session,
                             out_control_plane_generation := fen_control_plane_generation session,
                             out_local_state := OutboxQueuedForControlPlane,
                             out_operation := Some operation\<rparr>
         in (Inr operation,
             state\<lparr>outboxes := bt_insert operation_id outbox (outboxes state)\<rparr>))))))) state)))"

text \<open>
  The fast path of the source reads a snapshot before the transaction; here the snapshot is the
  state the call starts from.
\<close>

definition expire_unaccepted_outbox ::
    "NodeLocalFabricStore \<Rightarrow> FabricSessionFence \<Rightarrow> string \<Rightarrow> u64 \<Rightarrow> (LocalRemoteOutbox option) local_action" where
  "expire_unaccepted_outbox st session operation_id now_unix_ms current =
     check (require_session st session) (\<lambda>_.
     check (reject_if (active_session current \<noteq> Some session)
              (FabricError_none NodeStaleGeneration
                 ''Node-local expiry requires the exact current active gateway session'')) (\<lambda>_.
     let expire = transact_session st session (\<lambda>state.
           check (ok_or (bt_get (outboxes state) operation_id)
                    (FabricError_none OperationUnknown
                       ''source expiry requires a durable local outbox'')) (\<lambda>outbox.
           if out_local_state outbox = OutboxTerminal then (\<lambda>state. (Inr (Some outbox), state))
           else if out_local_state outbox = OutboxAccepted then (\<lambda>state. (Inr None, state))
           else
             check (reject_if (\<not> unaccepted (out_local_state outbox))
                      (FabricError_none IdempotencyConflict
                         ''a Control Plane-accepted outbox cannot be settled as locally expired'')) (\<lambda>_.
             check (ok_or (out_operation outbox)
                      (FabricError_none OperationUnknown
                         ''source outbox lost its pre-acceptance operation envelope'')) (\<lambda>operation.
             check (reject_if (op_expires_at_unix_ms operation > now_unix_ms)
                      (FabricError_none ExpectedRevisionConflict
                         ''unaccepted source outbox has not expired'')) (\<lambda>_ state.
               let outbox = outbox\<lparr>out_local_state := OutboxTerminal,
                                   out_terminal_receipt_ref :=
                                     Some (''local:not_applied:operation_expired:'' @ op_id operation)\<rparr>
               in (Inr (Some outbox),
                   state\<lparr>outboxes := bt_insert operation_id outbox (outboxes state)\<rparr>))))) state)
     in (case bt_get (outboxes current) operation_id of
           Some existing \<Rightarrow>
             if out_local_state existing = OutboxTerminal then (\<lambda>state. (Inr (Some existing), state))
             else if out_local_state existing = OutboxAccepted then (\<lambda>state. (Inr None, state))
             else expire
         | None \<Rightarrow> expire))) current"

definition outbox_after_receipt :: "RouteReceipt \<Rightarrow> LocalRemoteOutbox \<Rightarrow> LocalRemoteOutbox" where
  "outbox_after_receipt receipt outbox =
     (case rcp_kind receipt of
        ControlPlaneAccepted \<Rightarrow>
          if out_local_state outbox \<noteq> OutboxTerminal then outbox\<lparr>out_local_state := OutboxAccepted\<rparr> else outbox
      | TargetPersisted \<Rightarrow>
          if out_local_state outbox \<noteq> OutboxTerminal then outbox\<lparr>out_local_state := OutboxAccepted\<rparr> else outbox
      | ReceiptRecoveryRequired \<Rightarrow>
          outbox\<lparr>out_local_state := OutboxReconcileRequired, out_terminal_receipt_ref := None\<rparr>
      | OperationApplied \<Rightarrow>
          outbox\<lparr>out_local_state := OutboxTerminal, out_terminal_receipt_ref := Some (rcp_id receipt)\<rparr>
      | OperationRejected \<Rightarrow>
          outbox\<lparr>out_local_state := OutboxTerminal, out_terminal_receipt_ref := Some (rcp_id receipt)\<rparr>)"

definition mark_outbox_receipt ::
    "NodeLocalFabricStore \<Rightarrow> FabricSessionFence \<Rightarrow> RouteReceipt \<Rightarrow> LocalRemoteOutbox local_action" where
  "mark_outbox_receipt st session receipt =
     check (require_session st session) (\<lambda>_.
     check (reject_if (rcp_company_id receipt \<noteq> lst_company_id st)
              (FabricError_none WrongCompany ''route receipt belongs to another Company'')) (\<lambda>_.
     transact_session st session (\<lambda>state.
       check (ok_or (bt_get (outboxes state) (rcp_operation_id receipt))
                (FabricError_none OperationUnknown ''route receipt has no source outbox'')) (\<lambda>outbox state.
         let next_outbox = outbox_after_receipt receipt outbox
         in (Inr next_outbox,
             state\<lparr>outboxes := bt_insert (rcp_operation_id receipt) next_outbox (outboxes state)\<rparr>)) state)))"

section \<open>Inbox\<close>

definition delivery_mismatch :: "NodeLocalFabricStore \<Rightarrow> RoutedOperation \<Rightarrow> RouteAttempt \<Rightarrow> bool" where
  "delivery_mismatch st operation attempt \<longleftrightarrow>
     op_company_id operation \<noteq> lst_company_id st
     \<or> op_target_node_id operation \<noteq> lst_node_id st
     \<or> att_company_id attempt \<noteq> lst_company_id st
     \<or> att_target_node_id attempt \<noteq> lst_node_id st
     \<or> att_operation_id attempt \<noteq> op_id operation
     \<or> \<not> in_flight (att_state attempt)"

definition attempt_outside_session :: "FabricSessionFence \<Rightarrow> RouteAttempt \<Rightarrow> bool" where
  "attempt_outside_session session attempt \<longleftrightarrow>
     att_target_gateway_generation attempt \<noteq> fen_gateway_generation session
     \<or> att_control_plane_generation attempt \<noteq> fen_control_plane_generation session"

definition new_inbox :: "NodeLocalFabricStore \<Rightarrow> RoutedOperation \<Rightarrow> RouteAttempt \<Rightarrow> string \<Rightarrow> LocalRemoteInbox" where
  "new_inbox st operation attempt request_digest =
     \<lparr>inb_company_id = lst_company_id st,
      inb_node_id = lst_node_id st,
      inb_operation_id = op_id operation,
      inb_route_seq = att_route_seq attempt,
      inb_request_digest = request_digest,
      inb_state = InboxPersisted,
      inb_gateway_generation = att_target_gateway_generation attempt,
      inb_control_plane_generation = att_control_plane_generation attempt,
      inb_attempt_count = att_attempt_no attempt,
      inb_claim_generation = None,
      inb_result_digest = None,
      inb_schema_version = FABRIC_SCHEMA_VERSION\<rparr>"

definition persist_inbox ::
    "codec \<Rightarrow> NodeLocalFabricStore \<Rightarrow> FabricSessionFence \<Rightarrow> RoutedOperation \<Rightarrow> RouteAttempt \<Rightarrow> u64
      \<Rightarrow> (LocalRemoteInbox \<times> bool) local_action" where
  "persist_inbox cd st session operation attempt now_unix_ms =
     check (require_session st session) (\<lambda>_.
     check (validate_digest cd operation) (\<lambda>_.
     check (closed_body cd operation) (\<lambda>_.
     check (reject_if (op_expires_at_unix_ms operation \<le> now_unix_ms)
              (FabricError_none OperationExpired
                 ''expired routed operation cannot be persisted by the target'')) (\<lambda>_.
     check (reject_if (delivery_mismatch st operation attempt)
              (FabricError_none SourceMismatch
                 ''target inbox operation or attempt does not match this Node authority'')) (\<lambda>_.
     check (reject_if (attempt_outside_session session attempt)
              (FabricError_none NodeStaleGeneration
                 ''target inbox operation or attempt does not match the authenticated Fabric generation'')) (\<lambda>_.
     check (operation_digest cd operation) (\<lambda>request_digest.
     transact_session st session (\<lambda>state.
       case bt_get (inboxes state) (op_id operation) of
         Some existing \<Rightarrow>
           check (reject_if (inb_request_digest existing \<noteq> request_digest
                             \<or> inb_route_seq existing \<noteq> att_route_seq attempt
                             \<or> inb_gateway_generation existing \<noteq> att_target_gateway_generation attempt
                             \<or> inb_control_plane_generation existing \<noteq> att_control_plane_generation attempt)
                    (FabricError_none IdempotencyConflict
                       ''target inbox replay changed its operation fingerprint''))
             (\<lambda>_ state. (Inr (existing, True), state)) state
       | None \<Rightarrow>
           check (reject_if (att_ordering_seq attempt
                               \<noteq> sat_add (counter (persisted_ordering_sequences state)
                                            (op_ordering_key operation)) 1)
                    (FabricError_none ExpectedRevisionConflict
                       ''target inbox received an out-of-order operation for its ordering key'')) (\<lambda>_ state.
             let inbox = new_inbox st operation attempt request_digest
             in (Inr (inbox, False),
                 state\<lparr>persisted_ordering_sequences :=
                         bt_insert (op_ordering_key operation) (att_ordering_seq attempt)
                           (persisted_ordering_sequences state),
                       inboxes := bt_insert (op_id operation) inbox (inboxes state)\<rparr>)) state))))))))"

definition new_tombstone ::
    "FabricSessionFence \<Rightarrow> RoutedOperation \<Rightarrow> RouteAttempt \<Rightarrow> string \<Rightarrow> u64 \<Rightarrow> LocalOrderingTombstone" where
  "new_tombstone session operation attempt request_digest now_unix_ms =
     \<lparr>tmb_operation_id = op_id operation,
      tmb_ordering_key = op_ordering_key operation,
      tmb_ordering_seq = att_ordering_seq attempt,
      tmb_route_seq = att_route_seq attempt,
      tmb_request_digest = request_digest,
      tmb_reason = OperationExpired,
      tmb_gateway_generation = fen_gateway_generation session,
      tmb_control_plane_generation = fen_control_plane_generation session,
      tmb_consumed_at_unix_ms = now_unix_ms,
      tmb_schema_version = FABRIC_SCHEMA_VERSION\<rparr>"

definition consume_expired_ordering_tombstone ::
    "codec \<Rightarrow> NodeLocalFabricStore \<Rightarrow> FabricSessionFence \<Rightarrow> RoutedOperation \<Rightarrow> RouteAttempt \<Rightarrow> u64
      \<Rightarrow> (LocalOrderingTombstone \<times> bool) local_action" where
  "consume_expired_ordering_tombstone cd st session operation attempt now_unix_ms =
     check (require_session st session) (\<lambda>_.
     check (validate_digest cd operation) (\<lambda>_.
     check (closed_body cd operation) (\<lambda>_.
     check (reject_if (op_expires_at_unix_ms operation > now_unix_ms)
              (FabricError_none ExpectedRevisionConflict
                 ''ordering tombstone requires an expired routed operation'')) (\<lambda>_.
     check (reject_if (delivery_mismatch st operation attempt \<or> attempt_outside_session session attempt)
              (FabricError_none NodeStaleGeneration
                 ''expired ordering tombstone does not match the authenticated target generation'')) (\<lambda>_.
     check (operation_digest cd operation) (\<lambda>request_digest.
     transact_session st session (\<lambda>state.
       check (reject_if (bt_contains (inboxes state) (op_id operation)
                         \<or> bt_contains (results state) (op_id operation))
                (FabricError_none IdempotencyConflict
                   ''persisted or applied operation cannot become an ordering tombstone'')) (\<lambda>_ state.
       case bt_get (ordering_tombstones state) (op_id operation) of
         Some existing \<Rightarrow>
           check (reject_if (tmb_request_digest existing \<noteq> request_digest
                             \<or> tmb_ordering_key existing \<noteq> op_ordering_key operation
                             \<or> tmb_ordering_seq existing \<noteq> att_ordering_seq attempt
                             \<or> tmb_route_seq existing \<noteq> att_route_seq attempt
                             \<or> tmb_gateway_generation existing \<noteq> fen_gateway_generation session
                             \<or> tmb_control_plane_generation existing \<noteq> fen_control_plane_generation session)
                    (FabricError_none IdempotencyConflict
                       ''expired ordering tombstone replay changed its fingerprint''))
             (\<lambda>_ state. (Inr (existing, True), state)) state
       | None \<Rightarrow>
           check (reject_if (att_ordering_seq attempt
                               \<noteq> sat_add (counter (persisted_ordering_sequences state)
                                            (op_ordering_key operation)) 1)
                    (FabricError_none ExpectedRevisionConflict
                       ''expired ordering tombstone is out of order for its ordering key'')) (\<lambda>_ state.
             let tombstone = new_tombstone session operation attempt request_digest now_unix_ms
             in (Inr (tombstone, False),
                 state\<lparr>persisted_ordering_sequences :=
                         bt_insert (op_ordering_key operation) (att_ordering_seq attempt)
                           (persisted_ordering_sequences state),
                       ordering_tombstones :=
                         bt_insert (op_id operation) tombstone (ordering_tombstones state)\<rparr>)) state)
         state)))))))"

definition claim_inbox ::
    "codec \<Rightarrow> NodeLocalFabricStore \<Rightarrow> FabricSessionFence \<Rightarrow> RoutedOperation \<Rightarrow> u64 \<Rightarrow> LocalRemoteInbox local_action" where
  "claim_inbox cd st session operation now_unix_ms =
     check (require_session st session) (\<lambda>_.
     check (validate_digest cd operation) (\<lambda>_.
     check (closed_body cd operation) (\<lambda>_.
     check (reject_if (op_expires_at_unix_ms operation \<le> now_unix_ms)
              (FabricError_none OperationExpired
                 ''expired routed operation cannot cross the target application boundary'')) (\<lambda>_.
     transact_session st session (\<lambda>state.
       check (ok_or (bt_get (inboxes state) (op_id operation))
                (FabricError_none OperationUnknown
                   ''operation was not durably persisted in this Node inbox'')) (\<lambda>inbox.
       check (reject_if (inb_gateway_generation inbox \<noteq> fen_gateway_generation session
                         \<or> inb_control_plane_generation inbox \<noteq> fen_control_plane_generation session)
                (FabricError_none NodeStaleGeneration
                   ''inbox claim does not own the persisted Fabric generation'')) (\<lambda>_ state.
       (case inb_state inbox of
          InboxPersisted \<Rightarrow>
            let claimed = inbox\<lparr>inb_state := InboxClaimed,
                                inb_claim_generation := Some (fen_gateway_generation session)\<rparr>
            in (Inr claimed, state\<lparr>inboxes := bt_insert (op_id operation) claimed (inboxes state)\<rparr>)
        | InboxClaimed \<Rightarrow>
            (Inl (FabricError_unknown (op_id operation)
               ''operation was already claimed; native effect must be reconciled before retry''), state)
        | InboxRecoveryRequired \<Rightarrow>
            (Inl (FabricError_unknown (op_id operation)
               ''operation was already claimed; native effect must be reconciled before retry''), state)
        | InboxApplied \<Rightarrow>
            (Inl (FabricError_none IdempotencyConflict ''terminal inbox cannot be claimed again''), state)
        | InboxRejected \<Rightarrow>
            (Inl (FabricError_none IdempotencyConflict ''terminal inbox cannot be claimed again''), state)))) state)))))"

definition unresolved_operation_ids :: "NodeLocalFabricState \<Rightarrow> string set" where
  "unresolved_operation_ids state =
     inb_operation_id ` set (filter (\<lambda>inbox. inb_state inbox = InboxClaimed \<or> inb_state inbox = InboxRecoveryRequired)
       (bt_values (inboxes state)))"

fun inbox_state_of :: "EffectCertainty \<Rightarrow> LocalInboxState result" where
  "inbox_state_of EffectApplied = Inr InboxApplied"
| "inbox_state_of EffectNotApplied = Inr InboxRejected"
| "inbox_state_of EffectUnknown = Inr InboxRecoveryRequired"
| "inbox_state_of EffectNone =
     Inl (FabricError_none InvalidPayload
       ''a terminal application result must prove applied, not_applied, or unknown'')"

definition record_application_result ::
    "codec \<Rightarrow> NodeLocalFabricStore \<Rightarrow> FabricSessionFence \<Rightarrow> string \<Rightarrow> string \<Rightarrow> json \<Rightarrow> EffectCertainty \<Rightarrow> u64
      \<Rightarrow> (LocalRemoteInbox \<times> LocalApplicationResult \<times> bool) local_action" where
  "record_application_result cd st session operation_id result_schema result effect now_unix_ms =
     check (require_session st session) (\<lambda>_.
     check (canonical_digest cd (Inr result)) (\<lambda>result_digest.
     transact_session st session (\<lambda>state.
       case bt_get (results state) operation_id of
         Some existing \<Rightarrow>
           check (reject_if (lar_result_digest existing \<noteq> result_digest
                             \<or> lar_result_schema existing \<noteq> result_schema
                             \<or> lar_effect existing \<noteq> effect
                             \<or> lar_gateway_generation existing \<noteq> fen_gateway_generation session)
                    (FabricError_none IdempotencyConflict
                       ''application result replay changed its fingerprint'')) (\<lambda>_.
           check (ok_or (bt_get (inboxes state) operation_id)
                    (FabricError_none StoreUnavailable ''local application result has no inbox''))
             (\<lambda>inbox state. (Inr (inbox, existing, True), state))) state
       | None \<Rightarrow>
           check (ok_or (bt_get (inboxes state) operation_id)
                    (FabricError_none OperationUnknown
                       ''operation was not durably persisted in this Node inbox'')) (\<lambda>inbox.
           check (reject_if (inb_gateway_generation inbox \<noteq> fen_gateway_generation session
                             \<or> inb_control_plane_generation inbox \<noteq> fen_control_plane_generation session
                             \<or> inb_state inbox \<noteq> InboxClaimed)
                    (FabricError_none NodeStaleGeneration
                       ''application result requires the exact durably claimed inbox generation'')) (\<lambda>_.
           check (inbox_state_of effect) (\<lambda>next_state state.
             let next_inbox = inbox\<lparr>inb_state := next_state, inb_result_digest := Some result_digest\<rparr>;
                 local_result =
                   \<lparr>lar_operation_id = operation_id,
                    lar_result_schema = result_schema,
                    lar_result = result,
                    lar_result_digest = result_digest,
                    lar_effect = effect,
                    lar_gateway_generation = fen_gateway_generation session,
                    lar_completed_at_unix_ms = now_unix_ms,
                    lar_schema_version = FABRIC_SCHEMA_VERSION\<rparr>
             in (Inr (next_inbox, local_result, False),
                 state\<lparr>inboxes := bt_insert operation_id next_inbox (inboxes state),
                       results := bt_insert operation_id local_result (results state)\<rparr>)))) state)))"

end
