(* ===== verification/Local_Run.thy ===== *)
theory Local_Run
  imports Local_Store
begin

text \<open>
  Runs of a Node-local store. A step is one committed transaction of the store, with any arguments
  and under any session; failed transactions leave the store as it was. Reachable states satisfy the
  inbox invariant, and a run only moves inboxes, results, tombstones, ordering counters and the
  bound session forward.
\<close>

section \<open>Committed transactions\<close>

definition bound_to :: "NodeLocalFabricStore \<Rightarrow> NodeLocalFabricState \<Rightarrow> NodeLocalFabricState" where
  "bound_to st s = s\<lparr>loc_authority_company_id := Some (lst_company_id st),
                     loc_authority_node_id := Some (lst_node_id st)\<rparr>"

lemma bound_to_sel [simp]:
  "loc_revision (bound_to st s) = loc_revision s" "active_session (bound_to st s) = active_session s"
  "outboxes (bound_to st s) = outboxes s" "inboxes (bound_to st s) = inboxes s"
  "persisted_ordering_sequences (bound_to st s) = persisted_ordering_sequences s"
  "ordering_tombstones (bound_to st s) = ordering_tombstones s" "results (bound_to st s) = results s"
  by (simp_all add: bound_to_def)

lemma bind_authority_Inr: "bind_authority st s = Inr s0 \<Longrightarrow> s0 = bound_to st s"
  by (auto simp: bind_authority_def bound_to_def split: option.split_asm if_split_asm)

lemma local_transact_Inr:
  assumes "local_transact st f s = (Inr x, t)"
  obtains u where "f (bound_to st s) = (Inr x, u)" "t = u\<lparr>loc_revision := sat_add (loc_revision s) 1\<rparr>"
  using assms by (auto simp: local_transact_def split: sum.split_asm prod.split_asm dest!: bind_authority_Inr)

lemma local_transact_atomic: "atomic (local_transact st f)"
  by (auto simp: atomic_def local_transact_def split: sum.split_asm prod.split_asm)

lemma atomic_check: "(\<And>x. atomic (k x)) \<Longrightarrow> atomic (check r k)"
  by (cases r) (auto simp: atomic_def)

lemma transact_session_atomic: "atomic (transact_session st session f)"
  unfolding transact_session_def by (intro atomic_check local_transact_atomic)

lemma transact_session_Inr:
  assumes "transact_session st session f s = (Inr x, t)"
  obtains u where "require_session st session = Inr ()" "active_session s = Some session"
    "f (bound_to st s) = (Inr x, u)" "t = u\<lparr>loc_revision := sat_add (loc_revision s) 1\<rparr>"
proof -
  from assms have r: "require_session st session = Inr ()"
    and l: "local_transact st (\<lambda>state. check (reject_if (active_session state \<noteq> Some session)
              (FabricError_none NodeStaleGeneration
                 ''Node-local mutation requires the exact current active gateway session''))
            (\<lambda>_. f) state) s = (Inr x, t)"
    by (auto simp: transact_session_def check_eq_Inr)
  from local_transact_Inr [OF l] r that show thesis by (auto simp: check_eq_Inr)
qed

section \<open>Invariant and order\<close>

definition settled_inbox :: "LocalInboxState \<Rightarrow> bool" where
  "settled_inbox s \<longleftrightarrow> s = InboxApplied \<or> s = InboxRejected \<or> s = InboxRecoveryRequired"

definition inbox_row :: "LocalApplicationResult option \<Rightarrow> LocalRemoteInbox \<Rightarrow> bool" where
  "inbox_row result inbox \<longleftrightarrow>
     (inb_state inbox = InboxPersisted \<longleftrightarrow> inb_claim_generation inbox = None)
     \<and> (inb_state inbox \<noteq> InboxPersisted \<longrightarrow> inb_claim_generation inbox = Some (inb_gateway_generation inbox))
     \<and> (case result of
          None \<Rightarrow> \<not> settled_inbox (inb_state inbox) \<and> inb_result_digest inbox = None
        | Some r \<Rightarrow> inbox_state_of (lar_effect r) = Inr (inb_state inbox)
            \<and> inb_result_digest inbox = Some (lar_result_digest r)
            \<and> lar_gateway_generation r = inb_gateway_generation inbox)"

definition local_inv :: "NodeLocalFabricState \<Rightarrow> bool" where
  "local_inv s \<longleftrightarrow>
     bt_keyed inb_operation_id (inboxes s) \<and> bt_keyed lar_operation_id (results s)
     \<and> bt_keyed tmb_operation_id (ordering_tombstones s) \<and> bt_keyed out_operation_id (outboxes s)
     \<and> (\<forall>i inbox. bt_get (inboxes s) i = Some inbox \<longrightarrow> inbox_row (bt_get (results s) i) inbox)
     \<and> (\<forall>i. bt_get (inboxes s) i = None \<longrightarrow> bt_get (results s) i = None)"

text \<open>The life of an inbox row: persisted, claimed, settled.\<close>

definition inbox_le :: "LocalRemoteInbox \<Rightarrow> LocalRemoteInbox \<Rightarrow> bool" where
  "inbox_le a b \<longleftrightarrow>
     inb_operation_id b = inb_operation_id a \<and> inb_request_digest b = inb_request_digest a
     \<and> inb_route_seq b = inb_route_seq a \<and> inb_gateway_generation b = inb_gateway_generation a
     \<and> inb_control_plane_generation b = inb_control_plane_generation a
     \<and> (inb_state a \<noteq> InboxPersisted \<longrightarrow> inb_state b \<noteq> InboxPersisted)
     \<and> (settled_inbox (inb_state a) \<longrightarrow> b = a)"

definition session_le :: "FabricSessionFence \<Rightarrow> FabricSessionFence \<Rightarrow> bool" where
  "session_le a b \<longleftrightarrow>
     fen_control_plane_generation a \<le> fen_control_plane_generation b
     \<and> fen_node_daemon_generation a \<le> fen_node_daemon_generation b
     \<and> (fen_control_plane_generation a = fen_control_plane_generation b \<longrightarrow>
          fen_gateway_generation a \<le> fen_gateway_generation b)"

definition session_ext :: "FabricSessionFence option \<Rightarrow> FabricSessionFence option \<Rightarrow> bool" where
  "session_ext x y \<longleftrightarrow> (\<forall>a. x = Some a \<longrightarrow> (\<exists>b. y = Some b \<and> session_le a b))"

definition local_ext :: "NodeLocalFabricState \<Rightarrow> NodeLocalFabricState \<Rightarrow> bool" where
  "local_ext s t \<longleftrightarrow>
     (\<forall>i a. bt_get (inboxes s) i = Some a \<longrightarrow> (\<exists>b. bt_get (inboxes t) i = Some b \<and> inbox_le a b))
     \<and> bt_extends (results s) (results t) \<and> bt_extends (ordering_tombstones s) (ordering_tombstones t)
     \<and> (\<forall>k. counter (persisted_ordering_sequences s) k \<le> counter (persisted_ordering_sequences t) k)
     \<and> session_ext (active_session s) (active_session t)"

definition local_good :: "NodeLocalFabricState \<Rightarrow> NodeLocalFabricState \<Rightarrow> bool" where
  "local_good s t \<longleftrightarrow> local_inv t \<and> local_ext s t"

lemma inbox_le_refl [simp]: "inbox_le a a"
  by (simp add: inbox_le_def)

lemma inbox_le_trans: "inbox_le a b \<Longrightarrow> inbox_le b c \<Longrightarrow> inbox_le a c"
  by (auto simp: inbox_le_def)

lemma session_le_refl [simp]: "session_le a a"
  by (simp add: session_le_def)

lemma session_le_trans: "session_le a b \<Longrightarrow> session_le b c \<Longrightarrow> session_le a c"
  by (auto simp: session_le_def)

lemma session_ext_refl [simp]: "session_ext x x"
  by (simp add: session_ext_def)

lemma session_ext_trans: "session_ext x y \<Longrightarrow> session_ext y z \<Longrightarrow> session_ext x z"
  unfolding session_ext_def by (blast intro: session_le_trans)

lemma local_ext_refl: "local_ext s s"
  by (auto simp: local_ext_def)

lemma local_ext_trans:
  assumes "local_ext s t" and "local_ext t u"
  shows "local_ext s u"
proof -
  have "\<exists>c. bt_get (inboxes u) i = Some c \<and> inbox_le a c" if "bt_get (inboxes s) i = Some a" for i a
    using assms that unfolding local_ext_def by (meson inbox_le_trans)
  then show ?thesis using assms unfolding local_ext_def
    by (blast intro: bt_extends_trans session_ext_trans order_trans)
qed

lemma local_inv_default: "local_inv default_local_state"
  by (simp add: local_inv_def default_local_state_def)

lemma local_good_same:
  assumes "local_inv s" and "inboxes t = inboxes s" "results t = results s"
    "ordering_tombstones t = ordering_tombstones s"
    "persisted_ordering_sequences t = persisted_ordering_sequences s"
    "session_ext (active_session s) (active_session t)" "bt_keyed out_operation_id (outboxes t)"
  shows "local_good s t"
  using assms by (auto simp: local_good_def local_inv_def local_ext_def)

lemma session_not_regresses:
  "\<not> session_regresses b a \<Longrightarrow> session_le a b"
  by (auto simp: session_regresses_def session_le_def not_less)

section \<open>Every transaction keeps them\<close>

lemma outboxes_keyed: "local_inv s \<Longrightarrow> bt_keyed out_operation_id (outboxes s)"
  by (simp add: local_inv_def)

lemma outbox_key: "local_inv s \<Longrightarrow> bt_get (outboxes s) i = Some b \<Longrightarrow> out_operation_id b = i"
  by (simp add: local_inv_def bt_keyed_def)

lemma bind_session_good:
  assumes inv: "local_inv s" and f: "bind_gateway_session st session s = (Inr x, t)"
  shows "local_good s t"
proof -
  obtain u where u: "(if active_session s = Some session then (Inr (), bound_to st s)
      else check (reject_if (case active_session (bound_to st s) of
                               None \<Rightarrow> False | Some current \<Rightarrow> session_regresses session current)
                     (FabricError_none NodeStaleGeneration
                        ''Node-local gateway session cannot move authority backwards or alias a generation''))
             (\<lambda>_ state. (Inr (), state\<lparr>active_session := Some session\<rparr>)) (bound_to st s)) = (Inr x, u)"
    "t = u\<lparr>loc_revision := sat_add (loc_revision s) 1\<rparr>"
    using f unfolding bind_gateway_session_def check_eq_Inr by (auto elim!: local_transact_Inr)
  have "session_ext (active_session s) (active_session t)"
    using u by (auto simp: session_ext_def check_eq_Inr session_not_regresses split: if_split_asm option.split_asm)
  moreover have "inboxes t = inboxes s" "results t = results s"
    "ordering_tombstones t = ordering_tombstones s" "outboxes t = outboxes s"
    "persisted_ordering_sequences t = persisted_ordering_sequences s"
    using u by (auto simp: check_eq_Inr split: if_split_asm)
  ultimately show ?thesis using inv by (intro local_good_same) (simp_all add: local_inv_def)
qed

text \<open>A transaction that touches the outbox only.\<close>

definition outbox_write :: "NodeLocalFabricStore \<Rightarrow> NodeLocalFabricState \<Rightarrow> NodeLocalFabricState \<Rightarrow> bool" where
  "outbox_write st s t \<longleftrightarrow> t = s \<or> (\<exists>m. bt_keyed out_operation_id m
     \<and> t = (bound_to st s)\<lparr>outboxes := m, loc_revision := sat_add (loc_revision s) 1\<rparr>)"

lemma outbox_good: "local_inv s \<Longrightarrow> outbox_write st s t \<Longrightarrow> local_good s t"
  by (rule local_good_same) (auto simp: outbox_write_def outboxes_keyed)

lemma outbox_write_refl [simp]: "outbox_write st s s"
  by (simp add: outbox_write_def)

lemma outbox_write_simps:
  assumes "local_inv s"
  shows "outbox_write st s ((bound_to st s)\<lparr>loc_revision := sat_add (loc_revision s) 1\<rparr>)"
    and "out_operation_id b = i \<Longrightarrow> outbox_write st s
      ((bound_to st s)\<lparr>outboxes := bt_insert i b (outboxes s), loc_revision := sat_add (loc_revision s) 1\<rparr>)"
proof -
  have "(bound_to st s)\<lparr>loc_revision := sat_add (loc_revision s) 1\<rparr>
    = (bound_to st s)\<lparr>outboxes := outboxes s, loc_revision := sat_add (loc_revision s) 1\<rparr>"
    by (simp add: bound_to_def)
  then show "outbox_write st s ((bound_to st s)\<lparr>loc_revision := sat_add (loc_revision s) 1\<rparr>)"
    using outboxes_keyed [OF assms] unfolding outbox_write_def by blast
  show "out_operation_id b = i \<Longrightarrow> outbox_write st s
      ((bound_to st s)\<lparr>outboxes := bt_insert i b (outboxes s), loc_revision := sat_add (loc_revision s) 1\<rparr>)"
    unfolding outbox_write_def using bt_keyed_insert [OF outboxes_keyed [OF assms]] by blast
qed

lemma prepare_write:
  assumes inv: "local_inv s" and f: "prepare_outbox cd st session actor operation s = (Inr x, t)"
  shows "outbox_write st s t"
  using f by (auto simp: prepare_outbox_def check_eq_Inr Let_def new_outbox_def outbox_write_simps [OF inv]
      split: option.split_asm elim!: transact_session_Inr)

lemma submitted_write:
  assumes inv: "local_inv s" and f: "mark_outbox_submitted cd st session actor operation now s = (Inr x, t)"
  shows "outbox_write st s t"
  using f by (auto simp: mark_outbox_submitted_def check_eq_Inr Let_def outbox_write_simps [OF inv] outbox_key [OF inv]
      split: if_split_asm elim!: transact_session_Inr)

lemma rebind_write:
  assumes inv: "local_inv s" and f: "rebind_unaccepted_outbox cd st session i rs s = (Inr x, t)"
  shows "outbox_write st s t"
  using f by (auto simp: rebind_unaccepted_outbox_def check_eq_Inr Let_def outbox_write_simps [OF inv] outbox_key [OF inv]
      elim!: transact_session_Inr)

lemma expire_outbox_write:
  assumes inv: "local_inv s" and f: "expire_unaccepted_outbox st session i now s = (Inr x, t)"
  shows "outbox_write st s t"
  using f by (auto simp: expire_unaccepted_outbox_def check_eq_Inr Let_def outbox_write_simps [OF inv] outbox_key [OF inv]
      elim!: transact_session_Inr split: option.split_asm if_split_asm)

lemma receipt_write:
  assumes inv: "local_inv s" and f: "mark_outbox_receipt st session receipt s = (Inr x, t)"
  shows "outbox_write st s t"
proof -
  have "out_operation_id (outbox_after_receipt receipt b) = out_operation_id b" for b
    by (simp add: outbox_after_receipt_def split: ReceiptKind.split)
  then show ?thesis
    using f by (auto simp: mark_outbox_receipt_def check_eq_Inr Let_def outbox_write_simps [OF inv] outbox_key [OF inv]
      elim!: transact_session_Inr)
qed

text \<open>Inbox transactions, by the row they write.\<close>

lemma inbox_rowD: "local_inv s \<Longrightarrow> bt_get (inboxes s) i = Some b \<Longrightarrow> inbox_row (bt_get (results s) i) b"
  by (simp add: local_inv_def)

lemma inbox_key: "local_inv s \<Longrightarrow> bt_get (inboxes s) i = Some b \<Longrightarrow> inb_operation_id b = i"
  by (simp add: local_inv_def bt_keyed_def)

lemma persist_cases:
  assumes "persist_inbox cd st session operation attempt now s = (Inr (inbox, replayed), t)"
  obtains (replay) "replayed" "bt_get (inboxes s) (op_id operation) = Some inbox"
      "inb_route_seq inbox = att_route_seq attempt"
      "t = (bound_to st s)\<lparr>loc_revision := sat_add (loc_revision s) 1\<rparr>"
  | (new) digest where "\<not> replayed" "bt_get (inboxes s) (op_id operation) = None"
      "inbox = new_inbox st operation attempt digest" "operation_digest cd operation = Inr digest"
      "att_ordering_seq attempt
         = sat_add (counter (persisted_ordering_sequences s) (op_ordering_key operation)) 1"
      "now < op_expires_at_unix_ms operation" "active_session s = Some session"
      "\<not> delivery_mismatch st operation attempt" "\<not> attempt_outside_session session attempt"
      "t = (bound_to st s)\<lparr>persisted_ordering_sequences :=
               bt_insert (op_ordering_key operation) (att_ordering_seq attempt) (persisted_ordering_sequences s),
             inboxes := bt_insert (op_id operation) inbox (inboxes s),
             loc_revision := sat_add (loc_revision s) 1\<rparr>"
  using assms unfolding persist_inbox_def
  by (auto simp: check_eq_Inr Let_def not_le split: option.split_asm elim!: transact_session_Inr)

lemma persist_good:
  assumes inv: "local_inv s" and f: "persist_inbox cd st session operation attempt now s = (Inr (inbox, rp), t)"
  shows "local_good s t"
  using f
proof (cases rule: persist_cases)
  case replay
  then show ?thesis using outbox_good [OF inv outbox_write_simps(1) [OF inv]] by simp
next
  case (new digest)
  have none: "bt_get (results s) (op_id operation) = None" using inv new(2) by (simp add: local_inv_def)
  have "inbox_row None inbox" by (simp add: new(3) inbox_row_def new_inbox_def settled_inbox_def)
  moreover have "inb_operation_id inbox = op_id operation" by (simp add: new(3) new_inbox_def)
  ultimately have "local_inv t" using inv none
    by (auto simp: local_inv_def new(10) bt_keyed_insert)
  moreover have "local_ext s t" using new(2,5)
    by (auto simp: local_ext_def new(10) sat_add_ge)
  ultimately show ?thesis by (simp add: local_good_def)
qed

lemma tombstone_cases:
  assumes "consume_expired_ordering_tombstone cd st session operation attempt now s = (Inr (tomb, replayed), t)"
  obtains (replay) "replayed" "bt_get (ordering_tombstones s) (op_id operation) = Some tomb"
      "t = (bound_to st s)\<lparr>loc_revision := sat_add (loc_revision s) 1\<rparr>"
  | (new) digest where "\<not> replayed" "bt_get (ordering_tombstones s) (op_id operation) = None"
      "bt_get (inboxes s) (op_id operation) = None"
      "tomb = new_tombstone session operation attempt digest now"
      "att_ordering_seq attempt
         = sat_add (counter (persisted_ordering_sequences s) (op_ordering_key operation)) 1"
      "op_expires_at_unix_ms operation \<le> now" "active_session s = Some session"
      "\<not> delivery_mismatch st operation attempt" "\<not> attempt_outside_session session attempt"
      "t = (bound_to st s)\<lparr>persisted_ordering_sequences :=
               bt_insert (op_ordering_key operation) (att_ordering_seq attempt) (persisted_ordering_sequences s),
             ordering_tombstones := bt_insert (op_id operation) tomb (ordering_tombstones s),
             loc_revision := sat_add (loc_revision s) 1\<rparr>"
  using assms unfolding consume_expired_ordering_tombstone_def
  by (auto simp: check_eq_Inr Let_def not_less bt_contains_def split: option.split_asm elim!: transact_session_Inr)

lemma tombstone_good:
  assumes inv: "local_inv s"
    and f: "consume_expired_ordering_tombstone cd st session operation attempt now s = (Inr (tomb, rp), t)"
  shows "local_good s t"
  using f
proof (cases rule: tombstone_cases)
  case replay
  then show ?thesis using outbox_good [OF inv outbox_write_simps(1) [OF inv]] by simp
next
  case (new digest)
  have "tmb_operation_id tomb = op_id operation" by (simp add: new(4) new_tombstone_def)
  then have "local_inv t" using inv
    by (auto simp: local_inv_def new(10) bt_keyed_insert)
  moreover have "local_ext s t" using new(2,5)
    by (auto simp: local_ext_def new(10) sat_add_ge bt_extends_insert)
  ultimately show ?thesis by (simp add: local_good_def)
qed

lemma claim_Inr:
  assumes "claim_inbox cd st session operation now s = (Inr x, t)"
  obtains inbox where "bt_get (inboxes s) (op_id operation) = Some inbox" "inb_state inbox = InboxPersisted"
    "active_session s = Some session" "now < op_expires_at_unix_ms operation"
    "inb_gateway_generation inbox = fen_gateway_generation session"
    "inb_control_plane_generation inbox = fen_control_plane_generation session"
    "x = inbox\<lparr>inb_state := InboxClaimed, inb_claim_generation := Some (fen_gateway_generation session)\<rparr>"
    "t = (bound_to st s)\<lparr>inboxes := bt_insert (op_id operation) x (inboxes s),
             loc_revision := sat_add (loc_revision s) 1\<rparr>"
proof -
  have persisted: "b = InboxPersisted"
    if "b \<noteq> InboxClaimed" "b \<noteq> InboxApplied" "b \<noteq> InboxRejected" "b \<noteq> InboxRecoveryRequired" for b
    using that by (cases b) simp_all
  show thesis
    using assms that unfolding claim_inbox_def
    by (auto simp: check_eq_Inr Let_def not_le persisted split: LocalInboxState.split_asm
        elim!: transact_session_Inr)
qed

lemma claim_good:
  assumes inv: "local_inv s" and f: "claim_inbox cd st session operation now s = (Inr x, t)"
  shows "local_good s t"
  using f
proof (cases rule: claim_Inr)
  case (1 inbox)
  note row = inbox_rowD [OF inv 1(1)]
  have none: "bt_get (results s) (op_id operation) = None"
    using row 1(2) by (cases "bt_get (results s) (op_id operation)")
      (auto simp: inbox_row_def elim: inbox_state_of.elims)
  have "inbox_row None x" using row none 1(2,5) by (simp add: inbox_row_def 1(7) settled_inbox_def)
  moreover have "inb_operation_id x = op_id operation" using inbox_key [OF inv 1(1)] by (simp add: 1(7))
  ultimately have "local_inv t" using inv none by (auto simp: local_inv_def 1(8) bt_keyed_insert)
  moreover have "inbox_le inbox x" using 1(2) by (simp add: inbox_le_def 1(7) settled_inbox_def)
  then have "local_ext s t" using 1(1) by (auto simp: local_ext_def 1(8))
  ultimately show ?thesis by (simp add: local_good_def)
qed

lemma result_cases:
  assumes "record_application_result cd st session i schema result effect now s = (Inr (inbox, res, replayed), t)"
  obtains (replay) "replayed" "bt_get (results s) i = Some res" "bt_get (inboxes s) i = Some inbox"
      "lar_effect res = effect" "lar_result_schema res = schema"
      "t = (bound_to st s)\<lparr>loc_revision := sat_add (loc_revision s) 1\<rparr>"
  | (new) old next_state digest where "\<not> replayed" "bt_get (results s) i = None" "bt_get (inboxes s) i = Some old"
      "inb_state old = InboxClaimed" "inbox_state_of effect = Inr next_state"
      "inb_gateway_generation old = fen_gateway_generation session" "active_session s = Some session"
      "inbox = old\<lparr>inb_state := next_state, inb_result_digest := Some digest\<rparr>"
      "res = \<lparr>lar_operation_id = i, lar_result_schema = schema, lar_result = result,
              lar_result_digest = digest, lar_effect = effect,
              lar_gateway_generation = fen_gateway_generation session, lar_completed_at_unix_ms = now,
              lar_schema_version = FABRIC_SCHEMA_VERSION\<rparr>"
      "t = (bound_to st s)\<lparr>inboxes := bt_insert i inbox (inboxes s), results := bt_insert i res (results s),
             loc_revision := sat_add (loc_revision s) 1\<rparr>"
  using assms unfolding record_application_result_def
  by (auto simp: check_eq_Inr Let_def split: option.split_asm elim!: transact_session_Inr)

lemma result_good:
  assumes inv: "local_inv s"
    and f: "record_application_result cd st session i schema result effect now s = (Inr (inbox, res, rp), t)"
  shows "local_good s t"
  using f
proof (cases rule: result_cases)
  case replay
  then show ?thesis using outbox_good [OF inv outbox_write_simps(1) [OF inv]] by simp
next
  case (new old next_state digest)
  note row = inbox_rowD [OF inv new(3)]
  have settled: "settled_inbox next_state" "next_state \<noteq> InboxPersisted"
    using new(5) by (auto simp: settled_inbox_def elim: inbox_state_of.elims)
  have "inbox_row (Some res) inbox" using row new(4-6) settled
    by (auto simp: inbox_row_def new(8,9) new(2))
  moreover have "inb_operation_id inbox = i" using inbox_key [OF inv new(3)] by (simp add: new(8))
  moreover have "lar_operation_id res = i" by (simp add: new(9))
  ultimately have "local_inv t" using inv by (auto simp: local_inv_def new(10) bt_keyed_insert)
  moreover have "inbox_le old inbox" using new(4) settled(2) by (simp add: inbox_le_def new(8) settled_inbox_def)
  then have "local_ext s t" using new(2,3) by (auto simp: local_ext_def new(10) bt_extends_insert)
  ultimately show ?thesis by (simp add: local_good_def)
qed

section \<open>Runs\<close>

inductive local_step :: "codec \<Rightarrow> NodeLocalFabricStore \<Rightarrow> NodeLocalFabricState \<Rightarrow> NodeLocalFabricState \<Rightarrow> bool"
  for cd st where
  bind: "bind_gateway_session st session s = (Inr u, t) \<Longrightarrow> local_step cd st s t"
| prepare: "prepare_outbox cd st session actor operation s = (Inr r, t) \<Longrightarrow> local_step cd st s t"
| submit: "mark_outbox_submitted cd st session actor operation now s = (Inr b, t) \<Longrightarrow> local_step cd st s t"
| rebind: "rebind_unaccepted_outbox cd st session i reconciled s = (Inr operation, t) \<Longrightarrow> local_step cd st s t"
| expire: "expire_unaccepted_outbox st session i now s = (Inr b, t) \<Longrightarrow> local_step cd st s t"
| receipt: "mark_outbox_receipt st session receipt s = (Inr b, t) \<Longrightarrow> local_step cd st s t"
| persist: "persist_inbox cd st session operation attempt now s = (Inr (inbox, rp), t) \<Longrightarrow> local_step cd st s t"
| tombstone: "consume_expired_ordering_tombstone cd st session operation attempt now s = (Inr (tomb, rp), t)
    \<Longrightarrow> local_step cd st s t"
| claim: "claim_inbox cd st session operation now s = (Inr inbox, t) \<Longrightarrow> local_step cd st s t"
| result: "record_application_result cd st session i schema result effect now s = (Inr (inbox, res, rp), t)
    \<Longrightarrow> local_step cd st s t"

definition local_run :: "codec \<Rightarrow> NodeLocalFabricStore \<Rightarrow> NodeLocalFabricState \<Rightarrow> NodeLocalFabricState \<Rightarrow> bool" where
  "local_run cd st = (local_step cd st)\<^sup>*\<^sup>*"

definition local_reachable :: "codec \<Rightarrow> NodeLocalFabricStore \<Rightarrow> NodeLocalFabricState \<Rightarrow> bool" where
  "local_reachable cd st s \<longleftrightarrow> local_run cd st default_local_state s"

lemma local_step_good: "local_inv s \<Longrightarrow> local_step cd st s t \<Longrightarrow> local_good s t"
  by (erule local_step.cases)
    (blast intro: bind_session_good outbox_good prepare_write submitted_write rebind_write expire_outbox_write
      receipt_write persist_good tombstone_good claim_good result_good)+

interpretation node: monotone_system "\<lambda>s. s = default_local_state" "local_step cd st" local_inv local_ext
  for cd st
  by unfold_locales
    (auto simp: local_inv_default local_ext_refl intro: local_ext_trans dest: local_step_good
      simp: local_good_def)

lemma local_reachable_inv: "local_reachable cd st s \<Longrightarrow> local_inv s"
  unfolding local_reachable_def local_run_def using node.reachable_inv by blast

lemma local_reachable_run: "local_reachable cd st s \<Longrightarrow> local_run cd st s t \<Longrightarrow> local_reachable cd st t"
  unfolding local_reachable_def local_run_def by (rule rtranclp_trans)

lemma local_run_ext: "local_reachable cd st s \<Longrightarrow> local_run cd st s t \<Longrightarrow> local_ext s t"
  using local_reachable_inv unfolding local_run_def by (blast intro: node.run_rel)

text \<open>What a step does to the counters of the ordering keys.\<close>

lemma bind_session_sequences:
  "bind_gateway_session st session s = (Inr x, t) \<Longrightarrow>
     persisted_ordering_sequences t = persisted_ordering_sequences s"
  unfolding bind_gateway_session_def
  by (auto simp: check_eq_Inr elim!: local_transact_Inr split: if_split_asm)

lemma outbox_write_sequences:
  "outbox_write st s t \<Longrightarrow> persisted_ordering_sequences t = persisted_ordering_sequences s"
  by (auto simp: outbox_write_def)

lemma local_step_counter:
  assumes "local_inv s" and "local_step cd st s t"
  shows "counter (persisted_ordering_sequences t) k = counter (persisted_ordering_sequences s) k
    \<or> counter (persisted_ordering_sequences t) k = sat_add (counter (persisted_ordering_sequences s) k) 1"
  using assms(2)
proof cases
  case (persist session operation attempt now inbox rp)
  then show ?thesis by (cases rule: persist_cases) auto
next
  case (tombstone session operation attempt now tomb rp)
  then show ?thesis by (cases rule: tombstone_cases) auto
next
  case (claim session operation now inbox)
  then show ?thesis by (cases rule: claim_Inr) auto
next
  case (result session i schema result effect now inbox res rp)
  then show ?thesis by (cases rule: result_cases) auto
qed (use bind_session_sequences outbox_write_sequences prepare_write [OF assms(1)] submitted_write [OF assms(1)]
      rebind_write [OF assms(1)] expire_outbox_write [OF assms(1)] receipt_write [OF assms(1)] in \<open>metis\<close>)+

end
