(* ===== verification/Local_Properties.thy ===== *)
theory Local_Properties
  imports Local_Run Sample_Run
begin

text \<open>
  What the store of a Node guarantees over every run: an operation crosses the application boundary
  at most once, its result is final, deliveries of an ordering key are consumed one by one, and a
  superseded gateway session never writes again.
\<close>

section \<open>A sample run of a Node\<close>

text \<open>The Node of the sample run of the Control Plane receives the operation queued for it there.\<close>

definition node_store :: NodeLocalFabricStore where
  "node_store = \<lparr>lst_company_id = ''co'', lst_node_id = ''n1''\<rparr>"

definition node_session :: "u64 \<Rightarrow> FabricSessionFence" where
  "node_session g = \<lparr>fen_company_id = ''co'', fen_node_id = ''n1'', fen_gateway_generation = g,
     fen_node_daemon_id = ''d'', fen_node_daemon_generation = g, fen_control_plane_generation = 1\<rparr>"

definition node_attempt :: RouteAttempt where
  "node_attempt = hd (bt_values (attempts (snd run5)))"

definition node1 where "node1 = bind_gateway_session node_store (node_session 1) default_local_state"
definition node2 where
  "node2 = persist_inbox sample_codec node_store (node_session 1) (sample_operation ''op1'') node_attempt 1005 (snd node1)"
definition node3 where
  "node3 = claim_inbox sample_codec node_store (node_session 1) (sample_operation ''op1'') 1006 (snd node2)"
definition node4 where
  "node4 = record_application_result sample_codec node_store (node_session 1) ''op1'' ''res'' (JString ''done'')
     EffectApplied 1007 (snd node3)"
definition node5 where "node5 = bind_gateway_session node_store (node_session 2) (snd node4)"

abbreviation node_reachable :: "NodeLocalFabricState \<Rightarrow> bool" where
  "node_reachable \<equiv> local_reachable sample_codec node_store"

lemma node_step:
  "node_reachable s \<Longrightarrow> (\<And>x. p = (Inr x, snd p) \<Longrightarrow> local_step sample_codec node_store s (snd p)) \<Longrightarrow> committed p
     \<Longrightarrow> node_reachable (snd p)"
  unfolding local_reachable_def local_run_def using committed_Inr by (metis rtranclp.rtrancl_into_rtrancl)

lemma node_committed1: "committed node1" by code_simp
lemma node_committed2: "committed node2" by code_simp
lemma node_committed3: "committed node3" by code_simp
lemma node_committed4: "committed node4" by code_simp
lemma node_committed5: "committed node5" by code_simp

lemma node_reach1: "node_reachable (snd node1)"
proof (rule node_step [OF _ _ node_committed1])
  show "node_reachable default_local_state" by (simp add: local_reachable_def local_run_def)
qed (rule local_step.bind, simp add: node1_def)

lemma node_reach2: "node_reachable (snd node2)"
proof (rule node_step [OF node_reach1 _ node_committed2])
  fix x assume "node2 = (Inr x, snd node2)"
  then show "local_step sample_codec node_store (snd node1) (snd node2)"
    unfolding node2_def by (cases x) (blast intro: local_step.persist)
qed

lemma node_reach3: "node_reachable (snd node3)"
  by (rule node_step [OF node_reach2 _ node_committed3], rule local_step.claim) (simp add: node3_def)

lemma node_reach4: "node_reachable (snd node4)"
proof (rule node_step [OF node_reach3 _ node_committed4])
  fix x assume "node4 = (Inr x, snd node4)"
  then show "local_step sample_codec node_store (snd node3) (snd node4)"
    unfolding node4_def by (cases x) (blast intro: local_step.result)
qed

lemma node_step_run:
  "(\<And>x. p = (Inr x, snd p) \<Longrightarrow> local_step cd st s (snd p)) \<Longrightarrow> committed p \<Longrightarrow> local_run cd st s (snd p)"
  unfolding local_run_def using committed_Inr by (metis r_into_rtranclp)

lemma node_run45: "local_run sample_codec node_store (snd node4) (snd node5)"
  by (rule node_step_run [OF _ node_committed5], rule local_step.bind) (simp add: node5_def)

lemma node_run34: "local_run sample_codec node_store (snd node3) (snd node4)"
proof (rule node_step_run [OF _ node_committed4])
  fix x assume "node4 = (Inr x, snd node4)"
  then show "local_step sample_codec node_store (snd node3) (snd node4)"
    unfolding node4_def by (cases x) (blast intro: local_step.result)
qed

lemma node_run35: "local_run sample_codec node_store (snd node3) (snd node5)"
  using node_run34 node_run45 unfolding local_run_def by (rule rtranclp_trans)

lemma node3_claim:
  "\<exists>x. claim_inbox sample_codec node_store (node_session 1) (sample_operation ''op1'') 1006 (snd node2)
     = (Inr x, snd node3)"
  using committed_Inr [OF node_committed3] unfolding node3_def .

lemma node4_result:
  "\<exists>inbox res. record_application_result sample_codec node_store (node_session 1) ''op1'' ''res'' (JString ''done'')
     EffectApplied 1007 (snd node3) = (Inr (inbox, res, False), snd node4)"
proof -
  have "\<not> snd (snd (projr (fst node4)))" by code_simp
  from fresh3 [OF node_committed4 this] show ?thesis unfolding node4_def .
qed

lemma node_reach5: "node_reachable (snd node5)"
  by (rule node_step [OF node_reach4 _ node_committed5], rule local_step.bind) (simp add: node5_def)

section \<open>Application at most once\<close>

lemma claim_step:
  assumes "local_reachable cd st s" and "claim_inbox cd st session operation now s = (Inr x, t)"
  shows "local_reachable cd st t" and "bt_get (inboxes t) (op_id operation) = Some x"
    and "inb_state x = InboxClaimed"
proof -
  have "local_step cd st s t" by (rule local_step.claim [OF assms(2)])
  then show "local_reachable cd st t"
    by (intro local_reachable_run [OF assms(1)]) (simp add: local_run_def)
  show "bt_get (inboxes t) (op_id operation) = Some x" "inb_state x = InboxClaimed"
    using assms(2) by (auto elim!: claim_Inr)
qed

lemma claim_later:
  assumes "local_reachable cd st s" and "claim_inbox cd st session operation now s = (Inr x, t)"
    and "local_run cd st t u"
  obtains inbox where "bt_get (inboxes u) (op_id operation) = Some inbox" "inb_state inbox \<noteq> InboxPersisted"
proof -
  note t = claim_step [OF assms(1,2)]
  have "\<forall>i a. bt_get (inboxes t) i = Some a \<longrightarrow> (\<exists>b. bt_get (inboxes u) i = Some b \<and> inbox_le a b)"
    using local_run_ext [OF t(1) assms(3)] by (simp add: local_ext_def)
  then obtain b where "bt_get (inboxes u) (op_id operation) = Some b" "inbox_le x b" using t(2) by blast
  then show thesis using that t(3) by (simp add: inbox_le_def)
qed

text \<open>
  C6. An operation crosses the application boundary at most once. Once a Node has claimed the
  inbox of an operation, no later claim for that operation succeeds, in any later state of the
  store, under any session and whatever envelope carries the operation id.
\<close>

theorem claimed_at_most_once:
  assumes "local_reachable cd st s" and "claim_inbox cd st session operation now s = (Inr x, t)"
    and "local_run cd st t u" and "op_id again = op_id operation"
  shows "\<forall>y v. claim_inbox cd st later again now' u \<noteq> (Inr y, v)"
proof (intro allI notI)
  fix y v assume "claim_inbox cd st later again now' u = (Inr y, v)"
  then obtain inbox where "bt_get (inboxes u) (op_id again) = Some inbox" "inb_state inbox = InboxPersisted"
    by (rule claim_Inr)
  then show False using claim_later [OF assms(1-3)] assms(4) by force
qed

theorem claimed_at_most_once_witness:
  "committed node3 \<and> (\<forall>y v. claim_inbox sample_codec node_store (node_session 2) (sample_operation ''op1'') 1010
     (snd node5) \<noteq> (Inr y, v))"
proof -
  obtain x where x: "claim_inbox sample_codec node_store (node_session 1) (sample_operation ''op1'') 1006 (snd node2)
      = (Inr x, snd node3)"
    using node3_claim by blast
  show ?thesis using claimed_at_most_once [OF node_reach2 x node_run35] node_committed3 by simp
qed

text \<open>
  C7. An application result is final. Once recorded it is in the store of every later state, and a
  later report for the operation either fails or replays that very result and leaves the tables
  alone.
\<close>

theorem result_is_final:
  assumes "local_reachable cd st s"
    and "record_application_result cd st session i schema result effect now s = (Inr (inbox, res, False), t)"
    and "local_run cd st t u"
  shows "bt_get (results u) i = Some res
    \<and> (\<forall>inbox' res' rp v. record_application_result cd st session' i schema' result' effect' now' u
           = (Inr (inbox', res', rp), v) \<longrightarrow>
         rp \<and> res' = res \<and> inboxes v = inboxes u \<and> results v = results u)"
proof -
  have "local_step cd st s t" by (rule local_step.result [OF assms(2)])
  then have t: "local_reachable cd st t"
    by (intro local_reachable_run [OF assms(1)]) (simp add: local_run_def)
  have "bt_get (results t) i = Some res" using assms(2) by (cases rule: result_cases) simp_all
  then have u: "bt_get (results u) i = Some res"
    using local_run_ext [OF t assms(3)] by (auto simp: local_ext_def bt_extends_def)
  moreover have "rp \<and> res' = res \<and> inboxes v = inboxes u \<and> results v = results u"
    if f: "record_application_result cd st session' i schema' result' effect' now' u = (Inr (inbox', res', rp), v)"
    for inbox' res' rp v
    using f by (cases rule: result_cases) (simp_all add: u)
  ultimately show ?thesis by blast
qed

theorem result_is_final_witness:
  "\<exists>res. bt_get (results (snd node5)) ''op1'' = Some res \<and> bt_get (results (snd node4)) ''op1'' = Some res"
proof -
  obtain inbox res where r: "record_application_result sample_codec node_store (node_session 1) ''op1'' ''res''
      (JString ''done'') EffectApplied 1007 (snd node3) = (Inr (inbox, res, False), snd node4)"
    using node4_result by blast
  have "local_run sample_codec node_store (snd node4) (snd node4)" by (simp add: local_run_def)
  then show ?thesis
    using result_is_final [OF node_reach3 r node_run45] result_is_final [OF node_reach3 r] by blast
qed

text \<open>
  Nothing claimed is forgotten. From the claim of an operation on, in every later state the
  operation is among the unresolved ids the Node announces when it reconnects, unless a result that
  proves it applied or not applied has been recorded.
\<close>

theorem claimed_stays_unresolved:
  assumes "local_reachable cd st s" and "claim_inbox cd st session operation now s = (Inr x, t)"
    and "local_run cd st t u"
  shows "op_id operation \<in> unresolved_operation_ids u
    \<or> (\<exists>res. bt_get (results u) (op_id operation) = Some res
         \<and> (lar_effect res = EffectApplied \<or> lar_effect res = EffectNotApplied))"
proof -
  note t = claim_step [OF assms(1,2)]
  have inv: "local_inv u" by (rule local_reachable_inv [OF local_reachable_run [OF t(1) assms(3)]])
  obtain inbox where inbox: "bt_get (inboxes u) (op_id operation) = Some inbox" "inb_state inbox \<noteq> InboxPersisted"
    using claim_later [OF assms] .
  have mem: "inbox \<in> set (bt_values (inboxes u))" and key: "inb_operation_id inbox = op_id operation"
    using inv inbox(1) bt.get_vals [of inb_operation_id "inboxes u"] inbox_key [OF inv inbox(1)]
    by (simp_all add: local_inv_def)
  show ?thesis
  proof (cases "inb_state inbox = InboxClaimed \<or> inb_state inbox = InboxRecoveryRequired")
    case True
    then show ?thesis using mem key by (auto simp: unresolved_operation_ids_def intro: rev_image_eqI)
  next
    case False
    then have final: "inb_state inbox = InboxApplied \<or> inb_state inbox = InboxRejected"
      using inbox(2) by (cases "inb_state inbox") simp_all
    then obtain res where res: "bt_get (results u) (op_id operation) = Some res"
      "inbox_state_of (lar_effect res) = Inr (inb_state inbox)"
      using inbox_rowD [OF inv inbox(1)] by (auto simp: inbox_row_def settled_inbox_def split: option.split_asm)
    then show ?thesis using final by (cases "lar_effect res") auto
  qed
qed

theorem claimed_stays_unresolved_witness:
  "''op1'' \<in> unresolved_operation_ids (snd node3) \<and> committed node3"
proof -
  obtain x where x: "claim_inbox sample_codec node_store (node_session 1) (sample_operation ''op1'') 1006 (snd node2)
      = (Inr x, snd node3)"
    using node3_claim by blast
  have "local_run sample_codec node_store (snd node3) (snd node3)" by (simp add: local_run_def)
  from claimed_stays_unresolved [OF node_reach2 x this]
  have "op_id (sample_operation ''op1'') \<in> unresolved_operation_ids (snd node3)
      \<or> bt_get (results (snd node3)) (op_id (sample_operation ''op1'')) \<noteq> None"
    by auto
  moreover have "bt_get (results (snd node3)) ''op1'' = None" by code_simp
  ultimately show ?thesis using node_committed3 by (simp add: sample_operation_def)
qed

section \<open>Order of deliveries\<close>

text \<open>
  C19. The deliveries of an ordering key are consumed one by one. Every transaction of the store
  leaves the counter of a key where it was or moves it to its immediate successor; and a delivery
  that is not a replay is consumed, by its inbox or by its tombstone, exactly when its sequence
  number is that successor.
\<close>

theorem deliveries_in_order:
  assumes "local_reachable cd st s" and "local_step cd st s t"
  shows "counter (persisted_ordering_sequences t) k \<in>
      {counter (persisted_ordering_sequences s) k, sat_add (counter (persisted_ordering_sequences s) k) 1}
    \<and> (\<forall>session operation attempt now inbox.
         persist_inbox cd st session operation attempt now s = (Inr (inbox, False), t) \<longrightarrow>
           att_ordering_seq attempt = sat_add (counter (persisted_ordering_sequences s) (op_ordering_key operation)) 1
           \<and> counter (persisted_ordering_sequences t) (op_ordering_key operation) = att_ordering_seq attempt)
    \<and> (\<forall>session operation attempt now tomb.
         consume_expired_ordering_tombstone cd st session operation attempt now s = (Inr (tomb, False), t) \<longrightarrow>
           att_ordering_seq attempt = sat_add (counter (persisted_ordering_sequences s) (op_ordering_key operation)) 1
           \<and> counter (persisted_ordering_sequences t) (op_ordering_key operation) = att_ordering_seq attempt)"
  using local_step_counter [OF local_reachable_inv [OF assms(1)] assms(2), of k]
  by (auto elim!: persist_cases tombstone_cases)

theorem deliveries_in_order_witness:
  "counter (persisted_ordering_sequences (snd node2)) ''k'' = 1
     \<and> counter (persisted_ordering_sequences (snd node1)) ''k'' = 0
     \<and> local_step sample_codec node_store (snd node1) (snd node2)"
proof -
  obtain x where "node2 = (Inr x, snd node2)" using committed_Inr [OF node_committed2] by blast
  then have st: "local_step sample_codec node_store (snd node1) (snd node2)"
    unfolding node2_def by (cases x) (blast intro: local_step.persist)
  have "counter (persisted_ordering_sequences (snd node1)) ''k'' = 0" by code_simp
  moreover have "counter (persisted_ordering_sequences (snd node2)) ''k'' \<noteq> 0" by code_simp
  moreover have "sat_add 0 1 = (1 :: u64)" by code_simp
  ultimately show ?thesis using deliveries_in_order [OF node_reach1 st, of "''k''"] st by auto
qed

section \<open>Sessions\<close>

definition session_older :: "FabricSessionFence \<Rightarrow> FabricSessionFence \<Rightarrow> bool" where
  "session_older a b \<longleftrightarrow>
     fen_control_plane_generation a < fen_control_plane_generation b
     \<or> fen_node_daemon_generation a < fen_node_daemon_generation b
     \<or> (fen_control_plane_generation a = fen_control_plane_generation b
         \<and> fen_gateway_generation a < fen_gateway_generation b)"

lemma session_older_le: "session_older a b \<Longrightarrow> session_le b c \<Longrightarrow> session_older a c"
  by (auto simp: session_older_def session_le_def)

lemma session_older_regresses: "session_older a c \<Longrightarrow> session_regresses a c \<and> a \<noteq> c"
  by (auto simp: session_older_def session_regresses_def)

text \<open>
  A superseded gateway session is fenced for good. Once the store is bound to a session with a
  newer Control Plane, NodeDaemon or gateway generation, in every later state the older session can
  neither be bound again nor commit any transaction, and its attempts leave the store unchanged.
\<close>

theorem superseded_session_fenced:
  assumes "local_reachable cd st s" and "active_session s = Some b" and "session_older a b"
    and "local_run cd st s u"
  shows "(\<exists>e. bind_gateway_session st a u = (Inl e, u)) \<and> (\<exists>e. transact_session st a f u = (Inl e, u))"
proof -
  obtain c where c: "active_session u = Some c" "session_le b c"
    using local_run_ext [OF assms(1,4)] assms(2) by (auto simp: local_ext_def session_ext_def)
  have older: "session_regresses a c" "a \<noteq> c"
    using session_older_regresses [OF session_older_le [OF assms(3) c(2)]] by auto
  have "active_session (bound_to st u) = Some c" using c(1) by simp
  then have "bind_gateway_session st a u \<noteq> (Inr x, v)" for x v
    using older by (auto simp: bind_gateway_session_def check_eq_Inr c(1) elim!: local_transact_Inr)
  moreover have "transact_session st a f u \<noteq> (Inr x, v)" for x v
    using older c(1) by (auto elim!: transact_session_Inr)
  moreover have "atomic (bind_gateway_session st a)"
    unfolding bind_gateway_session_def by (intro atomic_check local_transact_atomic)
  ultimately show ?thesis
    using transact_session_atomic [of st a f] unfolding atomic_def
    by (metis prod.exhaust sum.exhaust)
qed

theorem superseded_session_fenced_witness:
  "\<exists>e. bind_gateway_session node_store (node_session 1) (snd node5) = (Inl e, snd node5)"
proof -
  have "active_session (snd node5) = Some (node_session 2)" by code_simp
  moreover have "session_older (node_session 1) (node_session 2)" by code_simp
  moreover have "local_run sample_codec node_store (snd node5) (snd node5)" by (simp add: local_run_def)
  ultimately show ?thesis using superseded_session_fenced [OF node_reach5] by blast
qed

end
