(* ===== verification/Journal_Loop.thy ===== *)
theory Journal_Loop
  imports Fabric_Error
begin

text \<open>
  Reading a journal of newline-terminated frames, the shape shared by the journal of the Control
  Plane and the journal of a Node. Given the unfolding of the loop, the locale shows what a loader
  returns: the fold of its step over the complete lines, whatever incomplete line follows them.
\<close>

text \<open>\<^verbatim>\<open>iter().position(p)\<close>.\<close>

fun position :: "('a \<Rightarrow> bool) \<Rightarrow> 'a list \<Rightarrow> nat option" where
  "position P [] = None"
| "position P (x # xs) = (if P x then Some 0 else map_option Suc (position P xs))"

definition newline :: char where
  "newline = CHR 0x0A"

lemma position_None: "position P xs = None \<longleftrightarrow> (\<forall>x \<in> set xs. \<not> P x)"
  by (induction xs) auto

lemma position_append:
  "(\<forall>x \<in> set xs. \<not> P x) \<Longrightarrow> P y \<Longrightarrow> position P (xs @ y # ys) = Some (length xs)"
  by (induction xs) auto

lemma position_Some:
  "position P xs = Some n \<Longrightarrow> \<exists>y. xs = take n xs @ y # drop (Suc n) xs \<and> P y \<and> (\<forall>x \<in> set (take n xs). \<not> P x)"
proof (induction xs arbitrary: n)
  case (Cons x xs)
  then show ?case by (cases n) (auto split: if_split_asm)
qed simp

lemma position_less: "position P xs = Some n \<Longrightarrow> n < length xs"
  by (induction xs arbitrary: n) (auto split: if_split_asm)

fun fold_lines :: "('a \<Rightarrow> bytes \<Rightarrow> 'a result) \<Rightarrow> 'a \<Rightarrow> bytes list \<Rightarrow> 'a result" where
  "fold_lines step acc [] = Inr acc"
| "fold_lines step acc (line # lines) = bindR (step acc line) (\<lambda>acc'. fold_lines step acc' lines)"

definition unlines :: "bytes list \<Rightarrow> bytes" where
  "unlines lines = concat (map (\<lambda>line. line @ [newline]) lines)"

definition one_line :: "bytes \<Rightarrow> bool" where
  "one_line line \<longleftrightarrow> newline \<notin> set line"

lemma unlines_simps [simp]:
  "unlines [] = []" "unlines (line # lines) = line @ newline # unlines lines"
  by (simp_all add: unlines_def)

lemma unlines_append [simp]: "unlines (xs @ ys) = unlines xs @ unlines ys"
  by (simp add: unlines_def)

lemma fold_lines_append:
  "fold_lines step acc (xs @ ys) = bindR (fold_lines step acc xs) (\<lambda>acc'. fold_lines step acc' ys)"
proof (induction xs arbitrary: acc)
  case (Cons x xs)
  then show ?case by (cases "step acc x") simp_all
qed simp

locale journal_loop =
  fixes load :: "bytes \<Rightarrow> nat \<Rightarrow> 'a \<Rightarrow> ('b \<times> nat) result"
    and step :: "'a \<Rightarrow> bytes \<Rightarrow> 'a result"
    and out :: "'a \<Rightarrow> 'b"
  assumes load_unfold: "load bs offset acc =
    (if offset < length bs then
       case position (\<lambda>b. b = newline) (drop offset bs) of
         None \<Rightarrow> Inr (out acc, offset)
       | Some n \<Rightarrow> bindR (step acc (take n (drop offset bs))) (load bs (offset + n + 1))
     else Inr (out acc, offset))"
begin

lemma load_tail:
  assumes "one_line torn"
  shows "load (pre @ torn) (length pre) acc = Inr (out acc, length pre)"
proof -
  have "position (\<lambda>b. b = newline) torn = None" using assms by (auto simp: one_line_def position_None)
  then show ?thesis by (subst load_unfold) simp
qed

lemma load_line:
  assumes "one_line line"
  shows "load (pre @ line @ newline # rest) (length pre) acc
    = bindR (step acc line) (load ((pre @ line @ [newline]) @ rest) (length (pre @ line @ [newline])))"
proof -
  have "position (\<lambda>b. b = newline) (line @ newline # rest) = Some (length line)"
    using assms by (intro position_append) (auto simp: one_line_def)
  then show ?thesis by (subst load_unfold) simp
qed

lemma load_lines:
  assumes "list_all one_line lines" and "one_line torn"
  shows "load (pre @ unlines lines @ torn) (length pre) acc
    = bindR (fold_lines step acc lines) (\<lambda>acc'. Inr (out acc', length pre + length (unlines lines)))"
  using assms(1)
proof (induction lines arbitrary: pre acc)
  case Nil
  then show ?case using load_tail [OF assms(2)] by simp
next
  case (Cons line lines)
  have "load (pre @ unlines (line # lines) @ torn) (length pre) acc
      = bindR (step acc line) (load ((pre @ line @ [newline]) @ unlines lines @ torn) (length (pre @ line @ [newline])))"
    using load_line [of line pre "unlines lines @ torn" acc] Cons.prems by simp
  moreover have "load ((pre @ line @ [newline]) @ unlines lines @ torn) (length (pre @ line @ [newline])) acc'
      = bindR (fold_lines step acc' lines) (\<lambda>acc''. Inr (out acc'', length (pre @ line @ [newline]) + length (unlines lines)))"
    for acc'
    using Cons.IH [of "pre @ line @ [newline]" acc'] Cons.prems by simp
  ultimately show ?case by (cases "step acc line") (simp_all add: add.assoc)
qed

lemmas load_whole = load_lines [where pre = "[]", simplified]

end

text \<open>Every journal is a list of complete lines followed by an incomplete one.\<close>

lemma journal_lines:
  obtains lines torn where "bs = unlines lines @ torn" "list_all one_line lines" "one_line torn"
proof -
  have "\<exists>lines torn. bs = unlines lines @ torn \<and> list_all one_line lines \<and> one_line torn"
  proof (induction "length bs" arbitrary: bs rule: less_induct)
    case less
    show ?case
    proof (cases "position (\<lambda>b. b = newline) bs")
      case None
      then have "bs = unlines [] @ bs \<and> list_all one_line [] \<and> one_line bs"
        by (auto simp: position_None one_line_def)
      then show ?thesis by blast
    next
      case (Some n)
      then have split: "bs = take n bs @ newline # drop (Suc n) bs" "one_line (take n bs)"
        using position_Some [OF Some] by (auto simp: one_line_def)
      have "length (drop (Suc n) bs) < length bs" using position_less [OF Some] by simp
      then obtain lines torn where rest: "drop (Suc n) bs = unlines lines @ torn"
        "list_all one_line lines" "one_line torn"
        using less by blast
      have "bs = unlines (take n bs # lines) @ torn" using split(1) rest(1) by simp
      moreover have "list_all one_line (take n bs # lines)" using split(2) rest(2) by simp
      ultimately show ?thesis using rest(3) by blast
    qed
  qed
  then show thesis using that by blast
qed

end
