(* ===== verification/Fabric_Journal.thy ===== *)
theory Fabric_Journal
  imports Control_Plane Journal_Loop
begin

text \<open>
  The durable store of the Control Plane (\<^verbatim>\<open>crates/firm-fabric/src/store.rs\<close>): an append-only
  journal with one frame per transaction, chained by digests, and a checkpoint that saves reading the
  journal from its start. The disk is part of the model, so a write can stop after any number of
  bytes and a store can be opened again on what is left. Directories, symbolic links and file locks
  are not modelled: reading a file or its metadata succeeds.
\<close>

section \<open>Files\<close>

record JournalFrameCore =
  jfc_transaction_sequence :: u64
  jfc_previous_digest :: string
  jfc_state :: FabricState

record JournalFrame =
  jfr_transaction_sequence :: u64
  jfr_previous_digest :: string
  jfr_state :: FabricState
  jfr_frame_digest :: string

record FabricCheckpointCore =
  cpt_schema_version :: string
  cpt_journal_offset :: u64
  cpt_journal_prefix_digest :: string
  cpt_transaction_sequence :: u64
  cpt_last_frame_digest :: string
  cpt_state :: FabricState

record FabricCheckpoint =
  cpt_core :: FabricCheckpointCore
  cpt_checkpoint_digest :: string

record FabricBackupManifest =
  bkp_schema_version :: string
  bkp_transaction_sequence :: u64
  bkp_state_digest :: string
  bkp_journal_digest :: string
  bkp_journal_bytes :: u64

text \<open>serde's conversions of these types.\<close>

record journal_codec = codec +
  core_to_value :: "JournalFrameCore \<Rightarrow> string + json"
  frame_to_line :: "JournalFrame \<Rightarrow> string + bytes"
  line_to_frame :: "bytes \<Rightarrow> string + JournalFrame"
  checkpoint_to_value :: "FabricCheckpointCore \<Rightarrow> string + json"
  checkpoint_to_vec :: "FabricCheckpoint \<Rightarrow> string + bytes"
  checkpoint_from_slice :: "bytes \<Rightarrow> string + FabricCheckpoint"
  state_to_value :: "FabricState \<Rightarrow> string + json"
  manifest_to_vec :: "FabricBackupManifest \<Rightarrow> string + bytes"
  manifest_from_slice :: "bytes \<Rightarrow> string + FabricBackupManifest"

text \<open>
  The disk: the journal (empty when the file does not exist), its modification time, and the
  checkpoint file. One call sees one outcome of the environment: how many bytes of the appended
  frame reached the file if the write failed, the error text, the modification time afterwards, and
  whether the checkpoint could be replaced.
\<close>

record disk =
  dsk_journal :: bytes
  dsk_modified :: "u64 option"
  dsk_checkpoint :: "bytes option"

record disk_outcome =
  io_written :: "nat option"
  io_error :: string
  io_modified :: "u64 option"
  io_checkpoint_written :: bool

record JournalStamp =
  stp_length :: nat
  stp_modified :: "u64 option"

definition journal_stamp :: "disk \<Rightarrow> JournalStamp" where
  "journal_stamp d = \<lparr>stp_length = length (dsk_journal d), stp_modified = dsk_modified d\<rparr>"

definition store_error :: "string \<Rightarrow> FabricError" where
  "store_error error = FabricError_none StoreUnavailable (''FabricStore I/O failed: '' @ error)"

section \<open>Reading the journal\<close>

definition core_of :: "JournalFrame \<Rightarrow> JournalFrameCore" where
  "core_of frame = \<lparr>jfc_transaction_sequence = jfr_transaction_sequence frame,
     jfc_previous_digest = jfr_previous_digest frame, jfc_state = jfr_state frame\<rparr>"

definition core_digest :: "journal_codec \<Rightarrow> JournalFrameCore \<Rightarrow> string result" where
  "core_digest jc core = canonical_digest jc (core_to_value jc core)"

definition frame_corrupt :: "JournalFrame \<Rightarrow> string \<Rightarrow> u64 \<Rightarrow> string \<Rightarrow> bool" where
  "frame_corrupt frame expected_previous expected_sequence actual_digest \<longleftrightarrow>
     jfr_transaction_sequence frame \<noteq> expected_sequence
     \<or> jfr_previous_digest frame \<noteq> expected_previous
     \<or> jfr_frame_digest frame \<noteq> actual_digest
     \<or> revision (jfr_state frame) \<noteq> jfr_transaction_sequence frame"

definition read_frame :: "journal_codec \<Rightarrow> string \<Rightarrow> u64 \<Rightarrow> bytes \<Rightarrow> JournalFrame result" where
  "read_frame jc expected_previous expected_sequence line =
     bindR (reject_if (line = [])
              (FabricError_none StoreUnavailable
                 ''FabricStore journal contains an empty committed frame'')) (\<lambda>_.
     bindR (map_err (\<lambda>error. FabricError_none StoreUnavailable
                       (''FabricStore committed frame is invalid: '' @ error)) (line_to_frame jc line)) (\<lambda>frame.
     bindR (core_digest jc (core_of frame)) (\<lambda>actual_digest.
     bindR (reject_if (frame_corrupt frame expected_previous expected_sequence actual_digest)
              (FabricError_none StoreUnavailable
                 ''FabricStore journal sequence or digest chain is corrupt'')) (\<lambda>_.
     Inr frame))))"

function parse_journal ::
    "journal_codec \<Rightarrow> bytes \<Rightarrow> nat \<Rightarrow> FabricState \<Rightarrow> string \<Rightarrow> u64 \<Rightarrow> (FabricState \<times> string \<times> nat) result" where
  "parse_journal jc bs offset state expected_previous expected_sequence =
     (if offset < length bs then
        (case position (\<lambda>b. b = newline) (drop offset bs) of
           None \<Rightarrow> Inr (state, expected_previous, offset)
         | Some relative_end \<Rightarrow>
             bindR (read_frame jc expected_previous expected_sequence (take relative_end (drop offset bs)))
               (\<lambda>frame. parse_journal jc bs (offset + relative_end + 1) (jfr_state frame)
                          (jfr_frame_digest frame) (sat_add expected_sequence 1)))
      else Inr (state, expected_previous, offset))"
  by pat_completeness auto

termination
  by (relation "measure (\<lambda>(jc, bs, offset, state, previous, sequence). length bs - offset)") auto

declare parse_journal.simps [simp del]

definition load_journal :: "journal_codec \<Rightarrow> bytes \<Rightarrow> (FabricState \<times> string \<times> nat) result" where
  "load_journal jc bs = parse_journal jc bs 0 default_state [] 1"

text \<open>A checkpoint file that does not decode is treated as absent.\<close>

definition read_checkpoint :: "journal_codec \<Rightarrow> disk \<Rightarrow> FabricCheckpoint option" where
  "read_checkpoint jc d =
     (case dsk_checkpoint d of
        None \<Rightarrow> None
      | Some bs \<Rightarrow> (case checkpoint_from_slice jc bs of Inl _ \<Rightarrow> None | Inr c \<Rightarrow> Some c))"

definition checkpoint_matches :: "journal_codec \<Rightarrow> bytes \<Rightarrow> FabricCheckpoint \<Rightarrow> bool result" where
  "checkpoint_matches jc bs checkpoint =
     (let core = cpt_core checkpoint; offset = unat (cpt_journal_offset core) in
      if cpt_schema_version core \<noteq> FABRIC_SCHEMA_VERSION then Inr False
      else bindR (canonical_digest jc (checkpoint_to_value jc core)) (\<lambda>digest.
        Inr (cpt_checkpoint_digest checkpoint = digest
             \<and> offset \<le> length bs
             \<and> (offset = 0 \<or> bs ! (offset - 1) = newline)
             \<and> sha256_hex jc (take offset bs) = cpt_journal_prefix_digest core
             \<and> revision (cpt_state core) = cpt_transaction_sequence core
             \<and> (cpt_transaction_sequence core = 0 \<and> cpt_last_frame_digest core = []
                \<or> cpt_transaction_sequence core > 0 \<and> cpt_last_frame_digest core \<noteq> []))))"

definition load_journal_from_checkpoint ::
    "journal_codec \<Rightarrow> disk \<Rightarrow> (FabricState \<times> string \<times> nat \<times> bool) result" where
  "load_journal_from_checkpoint jc d =
     (let bs = dsk_journal d;
          from_start = bindR (load_journal jc bs) (\<lambda>(state, digest, valid_length).
                         Inr (state, digest, valid_length, False)) in
      case read_checkpoint jc d of
        None \<Rightarrow> from_start
      | Some checkpoint \<Rightarrow>
          bindR (checkpoint_matches jc bs checkpoint) (\<lambda>valid.
          if valid then
            (let core = cpt_core checkpoint; offset = unat (cpt_journal_offset core) in
             bindR (parse_journal jc bs offset (cpt_state core) (cpt_last_frame_digest core)
                      (sat_add (cpt_transaction_sequence core) 1)) (\<lambda>(state, digest, valid_length).
             Inr (state, digest, valid_length, valid_length = offset)))
          else from_start))"

text \<open>The hasher is represented by the bytes it has absorbed.\<close>

definition journal_hasher :: "bytes \<Rightarrow> nat \<Rightarrow> bytes result" where
  "journal_hasher bs valid_length =
     (if valid_length > length bs \<or> (valid_length > 0 \<and> bs ! (valid_length - 1) \<noteq> newline)
      then Inl (FabricError_none StoreUnavailable
             ''FabricStore journal does not end at the validated frame boundary'')
      else Inr (take valid_length bs))"

definition journal_prefix_digest :: "journal_codec \<Rightarrow> bytes \<Rightarrow> nat \<Rightarrow> string result" where
  "journal_prefix_digest jc bs valid_length =
     bindR (journal_hasher bs valid_length) (\<lambda>absorbed. Inr (sha256_hex jc absorbed))"

section \<open>Writing\<close>

definition append_frame :: "journal_codec \<Rightarrow> disk_outcome \<Rightarrow> JournalFrame \<Rightarrow> disk \<Rightarrow> bytes result \<times> disk" where
  "append_frame jc io frame d =
     (case frame_to_line jc frame of
        Inl error \<Rightarrow>
          (Inl (FabricError_none StoreUnavailable
                  (''failed to encode FabricStore transaction: '' @ error)), d)
      | Inr line \<Rightarrow>
          (let encoded = line @ [newline] in
           case io_written io of
             None \<Rightarrow>
               (Inr encoded, d\<lparr>dsk_journal := dsk_journal d @ encoded, dsk_modified := io_modified io\<rparr>)
           | Some n \<Rightarrow>
               (Inl (store_error (io_error io)),
                d\<lparr>dsk_journal := dsk_journal d @ take n encoded, dsk_modified := io_modified io\<rparr>)))"

text \<open>
  The checkpoint is written to a temporary file and renamed, so it is replaced whole or not at all.
\<close>

definition new_checkpoint ::
    "journal_codec \<Rightarrow> FabricState \<Rightarrow> string \<Rightarrow> nat \<Rightarrow> string \<Rightarrow> FabricCheckpoint result" where
  "new_checkpoint jc state last_frame_digest journal_offset prefix_digest =
     (let core = \<lparr>cpt_schema_version = FABRIC_SCHEMA_VERSION,
                  cpt_journal_offset = of_nat journal_offset,
                  cpt_journal_prefix_digest = prefix_digest,
                  cpt_transaction_sequence = revision state,
                  cpt_last_frame_digest = last_frame_digest,
                  cpt_state = state\<rparr> in
      bindR (canonical_digest jc (checkpoint_to_value jc core)) (\<lambda>digest.
      Inr \<lparr>cpt_core = core, cpt_checkpoint_digest = digest\<rparr>))"

definition write_checkpoint ::
    "journal_codec \<Rightarrow> disk_outcome \<Rightarrow> FabricState \<Rightarrow> string \<Rightarrow> nat \<Rightarrow> string \<Rightarrow> disk \<Rightarrow> disk" where
  "write_checkpoint jc io state last_frame_digest journal_offset prefix_digest d =
     (case new_checkpoint jc state last_frame_digest journal_offset prefix_digest of
        Inl _ \<Rightarrow> d
      | Inr checkpoint \<Rightarrow>
          (case checkpoint_to_vec jc checkpoint of
             Inl _ \<Rightarrow> d
           | Inr encoded \<Rightarrow>
               if io_checkpoint_written io then d\<lparr>dsk_checkpoint := Some encoded\<rparr> else d))"

section \<open>The store of a process\<close>

record FabricStore =
  sto_state :: FabricState
  sto_last_frame_digest :: string
  sto_journal_hasher :: bytes
  sto_journal_stamp :: JournalStamp
  sto_available :: bool
  sto_fail_next_commit :: bool
  sto_fail_after_append :: bool

definition open_store :: "journal_codec \<Rightarrow> disk_outcome \<Rightarrow> disk \<Rightarrow> FabricStore result \<times> disk" where
  "open_store jc io d =
     (case load_journal_from_checkpoint jc d of
        Inl e \<Rightarrow> (Inl e, d)
      | Inr (state, last_frame_digest, valid_length, checkpoint_current) \<Rightarrow>
          (let d = (if length (dsk_journal d) > valid_length
                    then d\<lparr>dsk_journal := take valid_length (dsk_journal d), dsk_modified := io_modified io\<rparr>
                    else d) in
           case (if checkpoint_current then Inr d
                 else bindR (journal_prefix_digest jc (dsk_journal d) valid_length) (\<lambda>prefix_digest.
                        Inr (write_checkpoint jc io state last_frame_digest valid_length prefix_digest d))) of
             Inl e \<Rightarrow> (Inl e, d)
           | Inr d \<Rightarrow>
               (case journal_hasher (dsk_journal d) valid_length of
                  Inl e \<Rightarrow> (Inl e, d)
                | Inr absorbed \<Rightarrow>
                    (Inr \<lparr>sto_state = state, sto_last_frame_digest = last_frame_digest,
                          sto_journal_hasher = absorbed, sto_journal_stamp = journal_stamp d,
                          sto_available = True, sto_fail_next_commit = False,
                          sto_fail_after_append = False\<rparr>, d))))"

definition require_available :: "FabricStore \<Rightarrow> unit result" where
  "require_available store =
     reject_if (\<not> sto_available store)
       (FabricError_none StoreUnavailable ''FabricStore is unavailable'')"

text \<open>A process whose journal changed under it reads the journal again.\<close>

definition refresh :: "journal_codec \<Rightarrow> disk \<Rightarrow> (FabricStore, unit) fabric_action" where
  "refresh jc d store =
     (if journal_stamp d = sto_journal_stamp store then (Inr (), store)
      else
        (case load_journal_from_checkpoint jc d of
           Inl e \<Rightarrow> (Inl e, store)
         | Inr (state, last_frame_digest, valid_length, _) \<Rightarrow>
             (let store = store\<lparr>sto_state := state, sto_last_frame_digest := last_frame_digest\<rparr> in
              case journal_hasher (dsk_journal d) valid_length of
                Inl e \<Rightarrow> (Inl e, store)
              | Inr absorbed \<Rightarrow>
                  (Inr (), store\<lparr>sto_journal_hasher := absorbed, sto_journal_stamp := journal_stamp d\<rparr>))))"

definition next_frame :: "journal_codec \<Rightarrow> FabricStore \<Rightarrow> FabricState \<Rightarrow> JournalFrame result" where
  "next_frame jc store next_state =
     (let core = \<lparr>jfc_transaction_sequence = revision next_state,
                  jfc_previous_digest = sto_last_frame_digest store, jfc_state = next_state\<rparr> in
      bindR (core_digest jc core) (\<lambda>frame_digest.
      Inr \<lparr>jfr_transaction_sequence = revision next_state,
           jfr_previous_digest = sto_last_frame_digest store, jfr_state = next_state,
           jfr_frame_digest = frame_digest\<rparr>))"

definition commit_frame ::
    "journal_codec \<Rightarrow> disk_outcome \<Rightarrow> 'a \<Rightarrow> FabricState \<Rightarrow> JournalFrame \<Rightarrow> FabricStore \<times> disk
      \<Rightarrow> 'a result \<times> FabricStore \<times> disk" where
  "commit_frame jc io x next_state frame = (\<lambda>(store, d).
     case append_frame jc io frame d of
       (Inl e, d) \<Rightarrow> (Inl e, store, d)
     | (Inr appended, d) \<Rightarrow>
         if sto_fail_after_append store then
           (Inl (FabricError_unknown ''fabric-store-commit''
              ''durable append may have committed but its acknowledgement was lost; reopen and reconcile''),
            store\<lparr>sto_fail_after_append := False, sto_available := False\<rparr>, d)
         else
           (let store = store\<lparr>sto_state := next_state,
                              sto_last_frame_digest := jfr_frame_digest frame,
                              sto_journal_hasher := sto_journal_hasher store @ appended\<rparr>;
                d = write_checkpoint jc io next_state (jfr_frame_digest frame) (length (dsk_journal d))
                      (sha256_hex jc (sto_journal_hasher store)) d
            in (Inr x, store\<lparr>sto_journal_stamp := journal_stamp d\<rparr>, d)))"

definition store_transact ::
    "journal_codec \<Rightarrow> disk_outcome \<Rightarrow> (FabricState, 'a) fabric_action \<Rightarrow> FabricStore \<times> disk
      \<Rightarrow> 'a result \<times> FabricStore \<times> disk" where
  "store_transact jc io operation = (\<lambda>(store, d).
     case require_available store of
       Inl e \<Rightarrow> (Inl e, store, d)
     | Inr _ \<Rightarrow>
         (case refresh jc d store of
            (Inl e, store) \<Rightarrow> (Inl e, store, d)
          | (Inr _, store) \<Rightarrow>
              (case operation (sto_state store) of
                 (Inl e, _) \<Rightarrow> (Inl e, store, d)
               | (Inr x, changed) \<Rightarrow>
                   (let next_state = changed\<lparr>revision := sat_add (revision (sto_state store)) 1\<rparr> in
                    if sto_fail_next_commit store then
                      (Inl (FabricError_none StoreUnavailable
                              ''forced failure before durable transaction append''),
                       store\<lparr>sto_fail_next_commit := False\<rparr>, d)
                    else
                      (case next_frame jc store next_state of
                         Inl e \<Rightarrow> (Inl e, store, d)
                       | Inr frame \<Rightarrow> commit_frame jc io x next_state frame (store, d))))))"

definition store_snapshot ::
    "journal_codec \<Rightarrow> disk_outcome \<Rightarrow> FabricStore \<times> disk \<Rightarrow> FabricState result \<times> FabricStore \<times> disk" where
  "store_snapshot jc io = (\<lambda>(store, d).
     case require_available store of
       Inl e \<Rightarrow> (Inl e, store, d)
     | Inr _ \<Rightarrow>
         if journal_stamp d = sto_journal_stamp store then (Inr (sto_state store), store, d)
         else
           (case load_journal_from_checkpoint jc d of
              Inl e \<Rightarrow> (Inl e, store, d)
            | Inr (state, last_frame_digest, valid_length, checkpoint_current) \<Rightarrow>
                (case (if checkpoint_current then Inr d
                       else bindR (journal_prefix_digest jc (dsk_journal d) valid_length) (\<lambda>prefix_digest.
                              Inr (write_checkpoint jc io state last_frame_digest valid_length prefix_digest d))) of
                   Inl e \<Rightarrow> (Inl e, store, d)
                 | Inr d \<Rightarrow>
                     (let store = store\<lparr>sto_state := state, sto_last_frame_digest := last_frame_digest\<rparr> in
                      case journal_hasher (dsk_journal d) valid_length of
                        Inl e \<Rightarrow> (Inl e, store, d)
                      | Inr absorbed \<Rightarrow>
                          (Inr state,
                           store\<lparr>sto_journal_hasher := absorbed, sto_journal_stamp := journal_stamp d\<rparr>, d)))))"

section \<open>Backup\<close>

definition create_backup ::
    "journal_codec \<Rightarrow> FabricStore \<times> disk \<Rightarrow> (FabricBackupManifest \<times> bytes \<times> bytes) result" where
  "create_backup jc = (\<lambda>(store, d).
     bindR (require_available store) (\<lambda>_.
     bindR (load_journal jc (dsk_journal d)) (\<lambda>(state, _, valid_length).
     let journal_bytes = take valid_length (dsk_journal d) in
     bindR (canonical_digest jc (state_to_value jc state)) (\<lambda>state_digest.
     let manifest = \<lparr>bkp_schema_version = FABRIC_SCHEMA_VERSION,
                     bkp_transaction_sequence = revision state,
                     bkp_state_digest = state_digest,
                     bkp_journal_digest = sha256_hex jc journal_bytes,
                     bkp_journal_bytes = of_nat (length journal_bytes)\<rparr> in
     bindR (map_err (\<lambda>error. FabricError_none StoreUnavailable
                       (''failed to encode Fabric backup manifest: '' @ error)) (manifest_to_vec jc manifest))
       (\<lambda>manifest_bytes. Inr (manifest, journal_bytes, manifest_bytes))))))"

text \<open>Restoring gives the journal of a new store root from the two files of a backup.\<close>

definition restore_backup ::
    "journal_codec \<Rightarrow> disk_outcome \<Rightarrow> bytes \<Rightarrow> bytes \<Rightarrow> (FabricBackupManifest \<times> disk) result" where
  "restore_backup jc io journal_bytes manifest_bytes =
     bindR (map_err (\<lambda>error. FabricError_none StoreUnavailable
                       (''Fabric backup manifest is invalid: '' @ error)) (manifest_from_slice jc manifest_bytes)) (\<lambda>manifest.
     bindR (reject_if (bkp_schema_version manifest \<noteq> FABRIC_SCHEMA_VERSION)
              (FabricError_none ProtocolIncompatible ''Fabric backup schema version is unsupported'')) (\<lambda>_.
     bindR (reject_if (of_nat (length journal_bytes) \<noteq> bkp_journal_bytes manifest
                       \<or> sha256_hex jc journal_bytes \<noteq> bkp_journal_digest manifest)
              (FabricError_none StoreUnavailable ''Fabric backup journal digest or length changed'')) (\<lambda>_.
     bindR (load_journal jc journal_bytes) (\<lambda>(state, _, valid_length).
     bindR (if valid_length \<noteq> length journal_bytes \<or> revision state \<noteq> bkp_transaction_sequence manifest
            then Inr True
            else bindR (canonical_digest jc (state_to_value jc state)) (\<lambda>digest.
                   Inr (digest \<noteq> bkp_state_digest manifest))) (\<lambda>mismatch.
     bindR (reject_if mismatch
              (FabricError_none StoreUnavailable
                 ''Fabric backup does not end at its declared durable transaction boundary'')) (\<lambda>_.
     Inr (manifest, \<lparr>dsk_journal = journal_bytes, dsk_modified = io_modified io, dsk_checkpoint = None\<rparr>)))))))"

end
