(* ===== verification/Fabric_Recovery.thy ===== *)
theory Fabric_Recovery
  imports Fabric_Journal
begin

text \<open>
  The journal of the Control Plane implements its transactions: a committed transaction is on disk,
  a failed or interrupted one leaves the previous or the next state and nothing else, and reading
  from a checkpoint is the same as reading from the start.
\<close>

section \<open>What the codec promises\<close>

text \<open>
  serde writes a frame as one non-empty line (compact JSON escapes control characters) and reads it
  back; a checkpoint file is read back as it was written.
\<close>

definition frame_law :: "journal_codec \<Rightarrow> bool" where
  "frame_law jc \<longleftrightarrow> (\<forall>frame line. frame_to_line jc frame = Inr line \<longrightarrow>
     line \<noteq> [] \<and> one_line line \<and> line_to_frame jc line = Inr frame)"

definition checkpoint_law :: "journal_codec \<Rightarrow> bool" where
  "checkpoint_law jc \<longleftrightarrow> (\<forall>c bs. checkpoint_to_vec jc c = Inr bs \<longrightarrow> checkpoint_from_slice jc bs = Inr c)"

section \<open>The journal as a list of frames\<close>

definition journal_step ::
    "journal_codec \<Rightarrow> FabricState \<times> string \<times> u64 \<Rightarrow> bytes \<Rightarrow> (FabricState \<times> string \<times> u64) result" where
  "journal_step jc = (\<lambda>(state, previous, sequence) line.
     bindR (read_frame jc previous sequence line) (\<lambda>frame.
     Inr (jfr_state frame, jfr_frame_digest frame, sat_add sequence 1)))"

definition parse_at ::
    "journal_codec \<Rightarrow> bytes \<Rightarrow> nat \<Rightarrow> FabricState \<times> string \<times> u64 \<Rightarrow> ((FabricState \<times> string) \<times> nat) result" where
  "parse_at jc bs offset = (\<lambda>(state, previous, sequence).
     bindR (parse_journal jc bs offset state previous sequence) (\<lambda>(s, d, n). Inr ((s, d), n)))"

interpretation fj: journal_loop "parse_at jc" "journal_step jc" "\<lambda>(state, previous, sequence). (state, previous)"
  for jc
proof
  fix bs offset and acc :: "FabricState \<times> string \<times> u64"
  obtain state previous sequence where acc: "acc = (state, previous, sequence)" by (cases acc)
  show "parse_at jc bs offset acc =
    (if offset < length bs then
       case position (\<lambda>b. b = newline) (drop offset bs) of
         None \<Rightarrow> Inr ((\<lambda>(state, previous, sequence). (state, previous)) acc, offset)
       | Some n \<Rightarrow> bindR (journal_step jc acc (take n (drop offset bs))) (parse_at jc bs (offset + n + 1))
     else Inr ((\<lambda>(state, previous, sequence). (state, previous)) acc, offset))"
    unfolding acc parse_at_def journal_step_def
    by (subst parse_journal.simps)
      (auto simp: bindR_def split: option.split sum.split prod.split)
qed

lemma parse_at_Inr:
  "parse_journal jc bs offset state previous sequence = Inr (s, d, n) \<longleftrightarrow>
     parse_at jc bs offset (state, previous, sequence) = Inr ((s, d), n)"
  by (auto simp: parse_at_def bindR_eq_Inr)

lemma revision_default [simp]: "revision default_state = 0"
  by (simp add: default_state_def)

lemma sat_add_0_1 [simp]: "sat_add 0 (1 :: u64) = 1"
  by code_simp

text \<open>After a frame the next expected number is the successor of the state's revision.\<close>

lemma fold_sequence:
  "fold_lines (journal_step jc) acc lines = Inr acc' \<Longrightarrow>
     snd (snd acc) = sat_add (revision (fst acc)) 1 \<Longrightarrow> snd (snd acc') = sat_add (revision (fst acc')) 1"
proof (induction lines arbitrary: acc)
  case (Cons line lines)
  then obtain next_acc where n: "journal_step jc acc line = Inr next_acc"
    "fold_lines (journal_step jc) next_acc lines = Inr acc'"
    by (auto simp: bindR_eq_Inr)
  have "snd (snd next_acc) = sat_add (revision (fst next_acc)) 1"
    using n(1) Cons.prems(2)
    by (auto simp: journal_step_def read_frame_def frame_corrupt_def bindR_eq_Inr split: prod.split_asm)
  then show ?case using Cons.IH n(2) by blast
qed simp

abbreviation journal_start :: "FabricState \<times> string \<times> u64" where
  "journal_start \<equiv> (default_state, [], 1)"

definition durable :: "journal_codec \<Rightarrow> bytes \<Rightarrow> FabricState \<Rightarrow> string \<Rightarrow> bool" where
  "durable jc bs s d \<longleftrightarrow> load_journal jc bs = Inr (s, d, length bs)"

lemma load_journal_lines:
  assumes "list_all one_line lines" and "one_line torn"
  shows "load_journal jc (unlines lines @ torn) = Inr (s, d, n) \<longleftrightarrow>
    fold_lines (journal_step jc) journal_start lines = Inr (s, d, sat_add (revision s) 1)
    \<and> n = length (unlines lines)"
proof -
  have "fold_lines (journal_step jc) journal_start lines = Inr (s, d, q) \<Longrightarrow> q = sat_add (revision s) 1" for q
    using fold_sequence [of jc journal_start lines "(s, d, q)"] by simp
  then show ?thesis
    unfolding load_journal_def parse_at_Inr fj.load_whole [OF assms] by (auto simp: bindR_eq_Inr)
qed

lemma durable_lines:
  "durable jc bs s d \<longleftrightarrow> (\<exists>lines. bs = unlines lines \<and> list_all one_line lines
     \<and> fold_lines (journal_step jc) journal_start lines = Inr (s, d, sat_add (revision s) 1))"
proof
  assume d: "durable jc bs s d"
  obtain lines torn where split: "bs = unlines lines @ torn" "list_all one_line lines" "one_line torn"
    by (rule journal_lines)
  then show "\<exists>lines. bs = unlines lines \<and> list_all one_line lines
     \<and> fold_lines (journal_step jc) journal_start lines = Inr (s, d, sat_add (revision s) 1)"
    using d by (auto simp: durable_def load_journal_lines)
next
  assume "\<exists>lines. bs = unlines lines \<and> list_all one_line lines
     \<and> fold_lines (journal_step jc) journal_start lines = Inr (s, d, sat_add (revision s) 1)"
  then obtain lines where l: "bs = unlines lines @ []" "list_all one_line lines"
    "fold_lines (journal_step jc) journal_start lines = Inr (s, d, sat_add (revision s) 1)"
    by auto
  then show "durable jc bs s d"
    unfolding durable_def using load_journal_lines [of lines "[]" jc s d "length bs"] by (simp add: one_line_def)
qed

lemma durable_unique: "durable jc bs s d \<Longrightarrow> durable jc bs s' d' \<Longrightarrow> s' = s \<and> d' = d"
  by (simp add: durable_def)

lemma durable_torn:
  assumes "durable jc bs s d" and "one_line torn"
  shows "load_journal jc (bs @ torn) = Inr (s, d, length bs)"
  using assms by (auto simp: durable_lines load_journal_lines)

lemma durable_append:
  assumes law: "frame_law jc" and dur: "durable jc bs s d"
    and line: "frame_to_line jc frame = Inr line" and digest: "core_digest jc (core_of frame) = Inr (jfr_frame_digest frame)"
    and frame: "jfr_previous_digest frame = d" "jfr_transaction_sequence frame = sat_add (revision s) 1"
      "revision (jfr_state frame) = jfr_transaction_sequence frame"
  shows "durable jc (bs @ line @ [newline]) (jfr_state frame) (jfr_frame_digest frame)"
proof -
  obtain lines where l: "bs = unlines lines" "list_all one_line lines"
    "fold_lines (journal_step jc) journal_start lines = Inr (s, d, sat_add (revision s) 1)"
    using dur by (auto simp: durable_lines)
  have one: "line \<noteq> []" "one_line line" "line_to_frame jc line = Inr frame"
    using law line by (auto simp: frame_law_def)
  have "journal_step jc (s, d, sat_add (revision s) 1) line
      = Inr (jfr_state frame, jfr_frame_digest frame, sat_add (sat_add (revision s) 1) 1)"
    using one frame digest by (simp add: journal_step_def read_frame_def frame_corrupt_def)
  then have "fold_lines (journal_step jc) journal_start (lines @ [line])
      = Inr (jfr_state frame, jfr_frame_digest frame, sat_add (revision (jfr_state frame)) 1)"
    using l(3) frame by (simp add: fold_lines_append)
  moreover have "bs @ line @ [newline] = unlines (lines @ [line])" by (simp add: l(1))
  moreover have "list_all one_line (lines @ [line])" using l(2) one(2) by simp
  ultimately show ?thesis unfolding durable_lines by blast
qed

lemma durable_newline:
  assumes "durable jc bs s d" and "bs \<noteq> []"
  shows "bs ! (length bs - 1) = newline"
proof -
  obtain lines where l: "bs = unlines lines" using assms(1) by (auto simp: durable_lines)
  then have "lines \<noteq> []" using assms(2) by auto
  then obtain xs where "bs = xs @ [newline]" using l by (cases lines rule: rev_cases) auto
  then show ?thesis by simp
qed

lemma journal_hasher_durable:
  assumes "durable jc bs s d"
  shows "journal_hasher (bs @ torn) (length bs) = Inr bs"
proof (cases "bs = []")
  case False
  then have "(bs @ torn) ! (length bs - 1) = newline"
    using durable_newline [OF assms False] by (simp add: nth_append)
  then show ?thesis by (simp add: journal_hasher_def)
qed (simp add: journal_hasher_def)

section \<open>Checkpoints\<close>

text \<open>A checkpoint file that was written for a prefix of the journal.\<close>

definition honest :: "journal_codec \<Rightarrow> disk \<Rightarrow> bool" where
  "honest jc d \<longleftrightarrow> (\<forall>c. read_checkpoint jc d = Some c \<longrightarrow>
     (\<exists>n s digest. n \<le> length (dsk_journal d) \<and> n < 2 ^ 64 \<and> durable jc (take n (dsk_journal d)) s digest
        \<and> new_checkpoint jc s digest n (sha256_hex jc (take n (dsk_journal d))) = Inr c))"

lemma honest_append:
  assumes "honest jc d" and "read_checkpoint jc e = read_checkpoint jc d"
    and "dsk_journal e = dsk_journal d @ bs"
  shows "honest jc e"
  unfolding honest_def
proof (intro allI impI)
  fix c assume "read_checkpoint jc e = Some c"
  then obtain n s digest where "n \<le> length (dsk_journal d)" "n < 2 ^ 64"
    "durable jc (take n (dsk_journal d)) s digest"
    "new_checkpoint jc s digest n (sha256_hex jc (take n (dsk_journal d))) = Inr c"
    using assms(1,2) unfolding honest_def by auto
  then show "\<exists>n s digest. n \<le> length (dsk_journal e) \<and> n < 2 ^ 64 \<and> durable jc (take n (dsk_journal e)) s digest
      \<and> new_checkpoint jc s digest n (sha256_hex jc (take n (dsk_journal e))) = Inr c"
    unfolding assms(3) by (intro exI [of _ n] exI [of _ s] exI [of _ digest]) simp
qed

lemma parse_from_prefix:
  assumes "durable jc bs s digest"
  shows "parse_journal jc (bs @ rest) (length bs) s digest (sat_add (revision s) 1) = load_journal jc (bs @ rest)"
proof -
  obtain lines where l: "bs = unlines lines" "list_all one_line lines"
    "fold_lines (journal_step jc) journal_start lines = Inr (s, digest, sat_add (revision s) 1)"
    using assms by (auto simp: durable_lines)
  obtain more torn where m: "rest = unlines more @ torn" "list_all one_line more" "one_line torn"
    by (rule journal_lines)
  have "parse_at jc (bs @ unlines more @ torn) (length bs) (s, digest, sat_add (revision s) 1)
      = parse_at jc (unlines (lines @ more) @ torn) 0 journal_start"
    using fj.load_lines [OF m(2,3), of jc bs] fj.load_whole [of "lines @ more" torn jc journal_start] l m
    by (simp add: fold_lines_append)
  then have at: "parse_at jc (bs @ rest) (length bs) (s, digest, sat_add (revision s) 1)
      = parse_at jc (bs @ rest) 0 journal_start"
    by (simp add: l(1) m(1))
  have inj: "bindR p (\<lambda>(s, d, n). Inr ((s, d), n)) = bindR q (\<lambda>(s, d, n). Inr ((s, d), n)) \<Longrightarrow> p = q"
    for p q :: "(FabricState \<times> string \<times> nat) result"
    by (cases p; cases q) auto
  show ?thesis using at unfolding parse_at_def load_journal_def by (simp add: inj)
qed

text \<open>Reading from a checkpoint is reading from the start.\<close>

lemma load_from_checkpoint:
  assumes "honest jc d"
  obtains current where "load_journal_from_checkpoint jc d =
    bindR (load_journal jc (dsk_journal d)) (\<lambda>(s, digest, n). Inr (s, digest, n, current n))"
proof (cases "read_checkpoint jc d")
  case None
  then show thesis using that [of "\<lambda>_. False"] by (simp add: load_journal_from_checkpoint_def)
next
  case (Some c)
  then obtain n s digest where c: "n \<le> length (dsk_journal d)" "n < 2 ^ 64"
    "durable jc (take n (dsk_journal d)) s digest"
    "new_checkpoint jc s digest n (sha256_hex jc (take n (dsk_journal d))) = Inr c"
    using assms unfolding honest_def by blast
  have core: "unat (cpt_journal_offset (cpt_core c)) = n" "cpt_state (cpt_core c) = s"
    "cpt_last_frame_digest (cpt_core c) = digest" "cpt_transaction_sequence (cpt_core c) = revision s"
    using c(2,4) by (auto simp: new_checkpoint_def Let_def bindR_eq_Inr unsigned_of_nat take_bit_nat_eq_self)
  obtain valid where valid: "checkpoint_matches jc (dsk_journal d) c = Inr valid"
    using c(4) by (auto simp: new_checkpoint_def checkpoint_matches_def Let_def bindR_eq_Inr)
  have "parse_journal jc (dsk_journal d) n s digest (sat_add (revision s) 1) = load_journal jc (dsk_journal d)"
    using parse_from_prefix [OF c(3), of "drop n (dsk_journal d)"] c(1) by simp
  then show thesis
    using that [of "\<lambda>m. valid \<and> m = n"] Some valid core
    by (cases valid) (simp_all add: load_journal_from_checkpoint_def Let_def)
qed

lemma write_checkpoint_sel [simp]:
  "dsk_journal (write_checkpoint jc io s digest n h d) = dsk_journal d"
  "dsk_modified (write_checkpoint jc io s digest n h d) = dsk_modified d"
  by (simp_all add: write_checkpoint_def split: sum.split)

lemma honest_write:
  assumes "checkpoint_law jc" and "honest jc d" and "durable jc (dsk_journal d) s digest"
    and "length (dsk_journal d) < 2 ^ 64"
  shows "honest jc (write_checkpoint jc io s digest (length (dsk_journal d)) (sha256_hex jc (dsk_journal d)) d)"
proof (cases "\<exists>c bs. new_checkpoint jc s digest (length (dsk_journal d)) (sha256_hex jc (dsk_journal d)) = Inr c
    \<and> checkpoint_to_vec jc c = Inr bs \<and> io_checkpoint_written io")
  case True
  then obtain c bs where c: "new_checkpoint jc s digest (length (dsk_journal d)) (sha256_hex jc (dsk_journal d)) = Inr c"
    "checkpoint_to_vec jc c = Inr bs" "io_checkpoint_written io"
    by blast
  then have "checkpoint_from_slice jc bs = Inr c" using assms(1) by (simp add: checkpoint_law_def)
  then have "read_checkpoint jc (write_checkpoint jc io s digest (length (dsk_journal d))
      (sha256_hex jc (dsk_journal d)) d) = Some c"
    using c by (simp add: write_checkpoint_def read_checkpoint_def)
  moreover have "take (length (dsk_journal d)) (dsk_journal d) = dsk_journal d" by simp
  ultimately show ?thesis using c(1) assms(3,4)
    unfolding honest_def by (metis le_refl option.inject write_checkpoint_sel(1))
next
  case False
  then have "write_checkpoint jc io s digest (length (dsk_journal d)) (sha256_hex jc (dsk_journal d)) d = d"
    by (auto simp: write_checkpoint_def split: sum.split)
  then show ?thesis using assms(2) by simp
qed

lemma honest_truncate:
  assumes "honest jc d" and "dsk_journal d = good @ torn" and "one_line torn"
  shows "honest jc (d\<lparr>dsk_journal := good, dsk_modified := m\<rparr>)"
  unfolding honest_def
proof (intro allI impI)
  fix c assume "read_checkpoint jc (d\<lparr>dsk_journal := good, dsk_modified := m\<rparr>) = Some c"
  then have "read_checkpoint jc d = Some c" by (simp add: read_checkpoint_def)
  then obtain n s digest where n: "n \<le> length (dsk_journal d)" "n < 2 ^ 64"
    "durable jc (take n (dsk_journal d)) s digest"
    "new_checkpoint jc s digest n (sha256_hex jc (take n (dsk_journal d))) = Inr c"
    using assms(1) unfolding honest_def by blast
  have le: "n \<le> length good"
  proof (rule ccontr)
    assume "\<not> n \<le> length good"
    then have n': "length good < n" by simp
    then have ne: "take n (dsk_journal d) \<noteq> []" and len: "length (take n (dsk_journal d)) = n"
      using n(1) assms(2) by auto
    have "(good @ torn) ! (n - 1) = newline"
      using durable_newline [OF n(3) ne] n' unfolding len by (simp add: assms(2) del: take_append)
    moreover have "\<not> n - 1 < length good" using n' by simp
    ultimately have "torn ! (n - 1 - length good) = newline" by (simp only: nth_append if_False)
    moreover have "n - 1 - length good < length torn" using n' n(1) assms(2) by simp
    ultimately show False using assms(3) unfolding one_line_def by (metis nth_mem)
  qed
  then have "take n (dsk_journal d) = take n good" using assms(2) by simp
  then show "\<exists>n s digest. n \<le> length (dsk_journal (d\<lparr>dsk_journal := good, dsk_modified := m\<rparr>)) \<and> n < 2 ^ 64
      \<and> durable jc (take n (dsk_journal (d\<lparr>dsk_journal := good, dsk_modified := m\<rparr>))) s digest
      \<and> new_checkpoint jc s digest n
          (sha256_hex jc (take n (dsk_journal (d\<lparr>dsk_journal := good, dsk_modified := m\<rparr>)))) = Inr c"
    using n le by (intro exI [of _ n] exI [of _ s] exI [of _ digest]) simp
qed

section \<open>Stores and disks that hold a state\<close>

text \<open>What is left on disk: complete frames ending in the state, then possibly an unfinished one.\<close>

definition disk_holds :: "journal_codec \<Rightarrow> disk \<Rightarrow> FabricState \<Rightarrow> bool" where
  "disk_holds jc d s \<longleftrightarrow> honest jc d \<and> length (dsk_journal d) < 2 ^ 64
     \<and> (\<exists>good torn digest. dsk_journal d = good @ torn \<and> one_line torn \<and> durable jc good s digest)"

text \<open>A process in step with the disk.\<close>

definition store_holds :: "journal_codec \<Rightarrow> FabricStore \<times> disk \<Rightarrow> FabricState \<Rightarrow> bool" where
  "store_holds jc = (\<lambda>(store, d) s. honest jc d \<and> length (dsk_journal d) < 2 ^ 64
     \<and> durable jc (dsk_journal d) s (sto_last_frame_digest store) \<and> sto_state store = s
     \<and> sto_journal_hasher store = dsk_journal d \<and> sto_journal_stamp store = journal_stamp d)"

definition store_ready :: "FabricStore \<Rightarrow> bool" where
  "store_ready store \<longleftrightarrow> sto_available store \<and> \<not> sto_fail_next_commit store \<and> \<not> sto_fail_after_append store"

lemma store_disk_holds: "store_holds jc (store, d) s \<Longrightarrow> disk_holds jc d s"
  unfolding store_holds_def disk_holds_def
  by (clarsimp, rule exI [of _ "dsk_journal d"], rule exI [of _ "[]"]) (auto simp: one_line_def)

lemma open_store_holds:
  assumes law: "checkpoint_law jc" and holds: "disk_holds jc d s"
  obtains store d' where "open_store jc io d = (Inr store, d')" "store_holds jc (store, d') s" "store_ready store"
proof -
  obtain good torn digest where g: "honest jc d" "length (dsk_journal d) < 2 ^ 64"
    "dsk_journal d = good @ torn" "one_line torn" "durable jc good s digest"
    using holds by (auto simp: disk_holds_def)
  obtain cur where "load_journal_from_checkpoint jc d
      = bindR (load_journal jc (dsk_journal d)) (\<lambda>(s, digest, n). Inr (s, digest, n, cur n))"
    by (rule load_from_checkpoint [OF g(1)])
  then obtain current where load: "load_journal_from_checkpoint jc d = Inr (s, digest, length good, current)"
    using durable_torn [OF g(5,4)] g(3) by simp
  let ?d = "if length (dsk_journal d) > length good
    then d\<lparr>dsk_journal := take (length good) (dsk_journal d), dsk_modified := io_modified io\<rparr> else d"
  have d1: "dsk_journal ?d = good" using g(3) by auto
  have h1: "honest jc ?d"
    using honest_truncate [OF g(1,3,4)] g(1,3) by auto
  have dur: "durable jc (dsk_journal ?d) s digest" and len: "length (dsk_journal ?d) < 2 ^ 64"
    using g(2,3,5) d1 by auto
  define d2 where "d2 = (if current then ?d
    else write_checkpoint jc io s digest (length good) (sha256_hex jc good) ?d)"
  have d2: "dsk_journal d2 = good" "honest jc d2"
    using d1 h1 honest_write [OF law h1 dur len] by (simp_all add: d2_def)
  have hash: "journal_hasher good (length good) = Inr good"
    using journal_hasher_durable [OF g(5), of "[]"] by simp
  let ?store = "\<lparr>sto_state = s, sto_last_frame_digest = digest, sto_journal_hasher = good,
    sto_journal_stamp = journal_stamp d2, sto_available = True, sto_fail_next_commit = False,
    sto_fail_after_append = False\<rparr>"
  have "open_store jc io d = (Inr ?store, d2)"
    using load d1 d2(1) hash by (cases current)
      (simp_all add: open_store_def Let_def journal_prefix_digest_def d2_def)
  moreover have "store_holds jc (?store, d2) s"
    using d2 g(2,3,5) by (simp add: store_holds_def)
  moreover have "store_ready ?store" by (simp add: store_ready_def)
  ultimately show thesis by (rule that)
qed

section \<open>Transactions\<close>

lemma next_frame_Inr:
  assumes "next_frame jc store t = Inr frame"
  shows "jfr_state frame = t" "jfr_transaction_sequence frame = revision t"
    "jfr_previous_digest frame = sto_last_frame_digest store"
    "core_digest jc (core_of frame) = Inr (jfr_frame_digest frame)"
  using assms by (auto simp: next_frame_def Let_def bindR_eq_Inr core_of_def)

lemma refresh_current: "sto_journal_stamp store = journal_stamp d \<Longrightarrow> refresh jc d store = (Inr (), store)"
  by (simp add: refresh_def)

text \<open>What a committed frame leaves, and an interrupted one.\<close>

lemma frame_durable:
  assumes "frame_law jc" and "durable jc bs s (sto_last_frame_digest store)"
    and "next_frame jc store t = Inr frame" and "revision t = sat_add (revision s) 1"
    and "frame_to_line jc frame = Inr line"
  shows "durable jc (bs @ line @ [newline]) t (jfr_frame_digest frame)"
  using durable_append [OF assms(1,2,5) next_frame_Inr(4) [OF assms(3)]] next_frame_Inr [OF assms(3)] assms(4)
  by simp

lemma disk_holds_written:
  assumes law: "frame_law jc" and h: "store_holds jc (store, d) s"
    and frame: "next_frame jc store t = Inr frame" "revision t = sat_add (revision s) 1"
    and line: "frame_to_line jc frame = Inr line"
    and e: "read_checkpoint jc e = read_checkpoint jc d" "dsk_journal e = dsk_journal d @ take n (line @ [newline])"
      "length (dsk_journal e) < 2 ^ 64"
  shows "disk_holds jc e (if n \<le> length line then s else t)"
proof -
  have h': "honest jc d" "durable jc (dsk_journal d) s (sto_last_frame_digest store)"
    using h by (auto simp: store_holds_def)
  have hon: "honest jc e" by (rule honest_append [OF h'(1) e(1,2)])
  have one: "one_line line" using law line by (simp add: frame_law_def)
  show ?thesis
  proof (cases "n \<le> length line")
    case True
    then have "one_line (take n (line @ [newline]))"
      using one by (auto simp: one_line_def dest: in_set_takeD)
    then show ?thesis using True hon e(2,3) h'(2) unfolding disk_holds_def by auto
  next
    case False
    have "durable jc (dsk_journal d @ line @ [newline]) t (jfr_frame_digest frame)"
      by (rule frame_durable [OF law h'(2) frame line])
    moreover have "dsk_journal e = (dsk_journal d @ line @ [newline]) @ []" using False e(2) by simp
    moreover have "one_line []" by (simp add: one_line_def)
    ultimately have "\<exists>good torn digest. dsk_journal e = good @ torn \<and> one_line torn \<and> durable jc good t digest"
      by blast
    then show ?thesis using False hon e(3) unfolding disk_holds_def by auto
  qed
qed

lemma write_append:
  assumes "append_frame jc io frame d = (r, e)"
  shows "(\<exists>error. frame_to_line jc frame = Inl error \<and> (\<exists>err. r = Inl err) \<and> e = d)
    \<or> (\<exists>line n. frame_to_line jc frame = Inr line \<and> io_written io = Some n \<and> (\<exists>err. r = Inl err)
         \<and> e = d\<lparr>dsk_journal := dsk_journal d @ take n (line @ [newline]), dsk_modified := io_modified io\<rparr>)
    \<or> (\<exists>line. frame_to_line jc frame = Inr line \<and> io_written io = None \<and> r = Inr (line @ [newline])
         \<and> e = d\<lparr>dsk_journal := dsk_journal d @ line @ [newline], dsk_modified := io_modified io\<rparr>)"
  using assms by (auto simp: append_frame_def Let_def split: sum.split_asm option.split_asm)

lemma commit_frame_cases:
  assumes law: "frame_law jc" "checkpoint_law jc" and h: "store_holds jc (store, d) s"
    and frame: "next_frame jc store t = Inr frame" and rev: "revision t = sat_add (revision s) 1"
    and c: "commit_frame jc io x t frame (store, d) = (r, store', e)" and len: "length (dsk_journal e) < 2 ^ 64"
  obtains (encode) err where "r = Inl err" "e = d" "store' = store" "\<forall>line. frame_to_line jc frame \<noteq> Inr line"
  | (unacknowledged) err where "r = Inl err" "disk_holds jc e s \<or> disk_holds jc e t"
      "sto_fail_after_append store \<or> io_written io \<noteq> None"
  | (committed) "r = Inr x" "store_holds jc (store', e) t"
proof -
  have st: "durable jc (dsk_journal d) s (sto_last_frame_digest store)"
    "sto_journal_hasher store = dsk_journal d" "honest jc d"
    using h by (auto simp: store_holds_def)
  obtain w e1 where w: "append_frame jc io frame d = (w, e1)" by (cases "append_frame jc io frame d")
  from write_append [OF w] consider
      (none) error err where "frame_to_line jc frame = Inl error" "w = Inl err" "e1 = d"
    | (partial) line n err where "frame_to_line jc frame = Inr line" "io_written io = Some n" "w = Inl err"
        "e1 = d\<lparr>dsk_journal := dsk_journal d @ take n (line @ [newline]), dsk_modified := io_modified io\<rparr>"
    | (whole) line where "frame_to_line jc frame = Inr line" "w = Inr (line @ [newline])"
        "e1 = d\<lparr>dsk_journal := dsk_journal d @ line @ [newline], dsk_modified := io_modified io\<rparr>"
    by blast
  then show thesis
  proof cases
    case none
    then show thesis using c w encode by (auto simp: commit_frame_def)
  next
    case partial
    have "disk_holds jc e1 (if n \<le> length line then s else t)"
      using c w len by (intro disk_holds_written [OF law(1) h frame rev partial(1)])
        (auto simp: partial(3,4) commit_frame_def read_checkpoint_def)
    then show thesis using c w partial(2,3) unacknowledged by (auto simp: commit_frame_def split: if_split_asm)
  next
    case whole
    have dur: "durable jc (dsk_journal e1) t (jfr_frame_digest frame)"
      using frame_durable [OF law(1) st(1) frame rev whole(1)] by (simp add: whole(3))
    have hon: "honest jc e1"
      by (rule honest_append [OF st(3)]) (simp_all add: whole(3) read_checkpoint_def)
    show thesis
    proof (cases "sto_fail_after_append store")
      case True
      then have e: "e = e1" "\<exists>err. r = Inl err" using c w whole(2) by (auto simp: commit_frame_def)
      have "one_line []" by (simp add: one_line_def)
      then have "disk_holds jc e1 t"
        using dur hon len e(1) unfolding disk_holds_def by (metis append_Nil2)
      then show thesis using e True unacknowledged by blast
    next
      case False
      let ?store = "store\<lparr>sto_state := t, sto_last_frame_digest := jfr_frame_digest frame,
        sto_journal_hasher := dsk_journal e1\<rparr>"
      have e: "e = write_checkpoint jc io t (jfr_frame_digest frame) (length (dsk_journal e1))
          (sha256_hex jc (dsk_journal e1)) e1" and r: "r = Inr x"
        and s': "store' = ?store\<lparr>sto_journal_stamp := journal_stamp e\<rparr>"
        using c w whole(2,3) False st(2) by (auto simp: commit_frame_def Let_def)
      have len1: "length (dsk_journal e1) < 2 ^ 64" using len by (simp add: e)
      have "honest jc e" using honest_write [OF law(2) hon dur len1] by (simp add: e)
      then have "store_holds jc (store', e) t" using dur len1 by (simp add: store_holds_def s' e)
      then show thesis using r committed by blast
    qed
  qed
qed

text \<open>
  The outcomes of a transaction on a store in step with the disk: nothing was written; a frame was
  written in part or in full but not acknowledged; the transaction is committed.
\<close>

lemma store_transact_cases:
  assumes law: "frame_law jc" "checkpoint_law jc" and h: "store_holds jc (store, d) s"
    and f: "store_transact jc io f (store, d) = (r, store', e)" and len: "length (dsk_journal e) < 2 ^ 64"
  obtains (unwritten) err where "r = Inl err" "e = d" "store_holds jc (store', e) s"
      "store_ready store \<Longrightarrow> (\<exists>u. f s = (Inl err, u))
         \<or> (\<exists>x u. f s = (Inr x, u) \<and> (\<forall>frame line. next_frame jc store (u\<lparr>revision := sat_add (revision s) 1\<rparr>)
                = Inr frame \<longrightarrow> frame_to_line jc frame \<noteq> Inr line))"
  | (unacknowledged) err t x where "r = Inl err" "transact f s = (Inr x, t)"
      "disk_holds jc e s \<or> disk_holds jc e t" "\<not> store_ready store \<or> io_written io \<noteq> None"
  | (committed) x t where "r = Inr x" "transact f s = (Inr x, t)" "store_holds jc (store', e) t"
proof -
  have st: "sto_state store = s" "sto_journal_stamp store = journal_stamp d"
    using h by (auto simp: store_holds_def)
  obtain q u where fs: "f s = (q, u)" by (cases "f s")
  let ?t = "u\<lparr>revision := sat_add (revision s) 1\<rparr>"
  note unfold = store_transact_def require_available_def refresh_current [OF st(2)] Let_def st(1) fs
  consider (off) "\<not> sto_available store"
    | (refused) err where "sto_available store" "q = Inl err"
    | (forced) x where "sto_available store" "q = Inr x" "sto_fail_next_commit store"
    | (digest) x err where "sto_available store" "q = Inr x" "\<not> sto_fail_next_commit store"
        "next_frame jc store ?t = Inl err"
    | (frame) x frame where "sto_available store" "q = Inr x" "\<not> sto_fail_next_commit store"
        "next_frame jc store ?t = Inr frame"
    by (cases q; cases "next_frame jc store ?t") blast+
  then show thesis
  proof cases
    case off
    then show thesis using f h by (intro unwritten) (auto simp: unfold store_ready_def)
  next
    case refused
    then show thesis using f h by (intro unwritten) (auto simp: unfold)
  next
    case forced
    then have "r = Inl (FabricError_none StoreUnavailable ''forced failure before durable transaction append'')"
      "e = d" "store_holds jc (store', e) s"
      using f h by (auto simp: unfold store_holds_def)
    then show thesis using forced(3) unwritten by (auto simp: store_ready_def)
  next
    case digest
    then have "r = Inl err" "e = d" "store' = store" using f by (auto simp: unfold)
    then show thesis using h digest(2,4) fs unwritten by auto
  next
    case frame
    have c: "commit_frame jc io x ?t frame (store, d) = (r, store', e)"
      using f frame by (simp add: unfold)
    have tr: "transact f s = (Inr x, ?t)" using fs frame(2) by (simp add: transact_def)
    have rev: "revision ?t = sat_add (revision s) 1" by simp
    show thesis
    proof (cases rule: commit_frame_cases [OF law h frame(4) rev c len])
      case (1 err)
      then show thesis using h fs frame(2,4) unwritten by auto
    next
      case (2 err)
      then show thesis using tr unacknowledged unfolding store_ready_def by blast
    next
      case 3
      then show thesis using tr committed by blast
    qed
  qed
qed

end
