(* ===== verification/Journal_Properties.thy ===== *)
theory Journal_Properties
  imports Fabric_Recovery Sample_Run
begin

text \<open>
  The guarantees of the journal, and a sample disk on which they are exercised.
\<close>

section \<open>A sample store\<close>

definition sample_change :: "(FabricState, unit) fabric_action" where
  "sample_change s = (Inr (), s\<lparr>authority_company_id := Some ''co''\<rparr>)"

definition sample_next :: FabricState where
  "sample_next = default_state\<lparr>authority_company_id := Some ''co'', revision := 1\<rparr>"

definition sample_digest :: string where
  "sample_digest = bytes_to_hex (sample_hash ''v'')"

definition sample_frame :: JournalFrame where
  "sample_frame = \<lparr>jfr_transaction_sequence = 1, jfr_previous_digest = [], jfr_state = sample_next,
     jfr_frame_digest = sample_digest\<rparr>"

definition sample_line :: bytes where
  "sample_line = ''frame''"

definition sample_checkpoint :: FabricCheckpoint where
  "sample_checkpoint = \<lparr>cpt_core = \<lparr>cpt_schema_version = FABRIC_SCHEMA_VERSION, cpt_journal_offset = 6,
       cpt_journal_prefix_digest = bytes_to_hex (sample_hash (sample_line @ [newline])),
       cpt_transaction_sequence = 1, cpt_last_frame_digest = sample_digest, cpt_state = sample_next\<rparr>,
     cpt_checkpoint_digest = sample_digest\<rparr>"

definition sample_manifest :: FabricBackupManifest where
  "sample_manifest = \<lparr>bkp_schema_version = FABRIC_SCHEMA_VERSION, bkp_transaction_sequence = 1,
     bkp_state_digest = sample_digest,
     bkp_journal_digest = bytes_to_hex (sample_hash (sample_line @ [newline])), bkp_journal_bytes = 6\<rparr>"

definition sample_journal :: journal_codec where
  "sample_journal = codec.extend sample_codec (journal_codec.fields
     (\<lambda>_. Inr (JString ''v''))
     (\<lambda>frame. if frame = sample_frame then Inr sample_line else Inl ''unsupported'')
     (\<lambda>line. if line = sample_line then Inr sample_frame else Inl ''invalid'')
     (\<lambda>_. Inr (JString ''v''))
     (\<lambda>c. if c = sample_checkpoint then Inr ''checkpoint'' else Inl ''unsupported'')
     (\<lambda>bs. if bs = ''checkpoint'' then Inr sample_checkpoint else Inl ''invalid'')
     (\<lambda>_. Inr (JString ''v''))
     (\<lambda>m. if m = sample_manifest then Inr ''manifest'' else Inl ''unsupported'')
     (\<lambda>bs. if bs = ''manifest'' then Inr sample_manifest else Inl ''invalid''))"

definition blank_disk :: disk where
  "blank_disk = \<lparr>dsk_journal = [], dsk_modified = None, dsk_checkpoint = None\<rparr>"

definition whole_write :: disk_outcome where
  "whole_write = \<lparr>io_written = None, io_error = [], io_modified = Some 7, io_checkpoint_written = True\<rparr>"

definition torn_write :: disk_outcome where
  "torn_write = \<lparr>io_written = Some 2, io_error = ''disk full'', io_modified = Some 6, io_checkpoint_written = True\<rparr>"

lemma sample_frame_law: "frame_law sample_journal"
proof -
  have "one_line sample_line" "sample_line \<noteq> []" by code_simp+
  then show ?thesis
    by (simp add: frame_law_def sample_journal_def codec.defs journal_codec.defs)
qed

lemma sample_checkpoint_law: "checkpoint_law sample_journal"
  by (simp add: checkpoint_law_def sample_journal_def codec.defs journal_codec.defs)

definition opened where "opened = open_store sample_journal whole_write blank_disk"
definition transacted where
  "transacted = store_transact sample_journal whole_write sample_change (projr (fst opened), snd opened)"

lemma opened_ok: "committed opened" by code_simp
lemma transacted_ok: "committed transacted" by code_simp

lemma blank_disk_holds: "disk_holds sample_journal blank_disk default_state"
proof -
  have "durable sample_journal [] default_state []" unfolding durable_lines by (intro exI [of _ "[]"]) simp
  moreover have "honest sample_journal blank_disk"
    by (simp add: honest_def read_checkpoint_def blank_disk_def)
  moreover have "one_line []" by (simp add: one_line_def)
  ultimately show ?thesis unfolding disk_holds_def blank_disk_def by auto
qed

lemma opened_eq:
  obtains store d where "open_store sample_journal whole_write blank_disk = (Inr store, d)"
    "(projr (fst opened), snd opened) = (store, d)" "store_holds sample_journal (store, d) default_state"
    "store_ready store"
proof -
  obtain store d where o: "open_store sample_journal whole_write blank_disk = (Inr store, d)"
    "store_holds sample_journal (store, d) default_state" "store_ready store"
    by (rule open_store_holds [OF sample_checkpoint_law blank_disk_holds])
  then have "(projr (fst opened), snd opened) = (store, d)" by (simp add: opened_def)
  with o show thesis using that by blast
qed

lemma transacted_eq:
  obtains store e where "store_transact sample_journal whole_write sample_change (projr (fst opened), snd opened)
    = (Inr (), store, e)" "snd transacted = (store, e)" "length (dsk_journal e) < 2 ^ 64"
proof -
  obtain x where x: "transacted = (Inr x, snd transacted)" using committed_Inr [OF transacted_ok] ..
  obtain store e where p: "snd transacted = (store, e)" by (cases "snd transacted")
  have t: "transacted = (Inr (), store, e)" using x p by simp
  have "length (dsk_journal (snd (snd transacted))) = 6" by code_simp
  then show thesis using t that unfolding transacted_def by simp
qed

section \<open>Refinement\<close>

text \<open>
  C20. The journal implements the transactions of the Control Plane. On a store in step with its
  disk, when the environment lets the write through and the frame can be encoded, running an
  operation through the journal returns what the transaction on the state returns, and afterwards
  process and disk hold the state the transaction leaves.
\<close>

theorem journal_refines_transact:
  assumes "frame_law jc" and "checkpoint_law jc" and "store_holds jc (store, d) s" and "store_ready store"
    and "io_written io = None"
    and "\<And>x u. f s = (Inr x, u) \<Longrightarrow> \<exists>frame line. next_frame jc store (u\<lparr>revision := sat_add (revision s) 1\<rparr>) = Inr frame
           \<and> frame_to_line jc frame = Inr line"
    and "store_transact jc io f (store, d) = (r, store', e)" and "length (dsk_journal e) < 2 ^ 64"
  shows "r = fst (transact f s) \<and> store_holds jc (store', e) (snd (transact f s))"
proof (cases rule: store_transact_cases [OF assms(1-3,7,8)])
  case (1 err)
  then obtain u where "f s = (Inl err, u)" using assms(4,6) by blast
  then show ?thesis using 1 by (simp add: transact_def)
next
  case (2 err t x)
  then show ?thesis using assms(4,5) by simp
next
  case (3 x t)
  then show ?thesis by simp
qed

theorem journal_refines_transact_witness:
  "\<exists>store e. store_transact sample_journal whole_write sample_change (projr (fst opened), snd opened)
       = (Inr (), store, e)
     \<and> store_holds sample_journal (store, e) (snd (transact sample_change default_state))"
proof -
  obtain store d where o: "(projr (fst opened), snd opened) = (store, d)"
    "store_holds sample_journal (store, d) default_state" "store_ready store"
    by (rule opened_eq)
  obtain store' e where t: "store_transact sample_journal whole_write sample_change (store, d) = (Inr (), store', e)"
    "length (dsk_journal e) < 2 ^ 64"
    by (rule transacted_eq) (simp add: o(1))
  have w: "io_written whole_write = None" by (simp add: whole_write_def)
  have "next_frame sample_journal (projr (fst opened)) sample_next = Inr sample_frame" by code_simp
  moreover have "frame_to_line sample_journal sample_frame = Inr sample_line"
    by (simp add: sample_journal_def codec.defs journal_codec.defs)
  moreover have "default_state\<lparr>authority_company_id := Some ''co'', revision := sat_add (revision default_state) 1\<rparr>
      = sample_next"
    by (simp add: sample_next_def)
  ultimately have enc: "\<exists>frame line. next_frame sample_journal store (u\<lparr>revision := sat_add (revision default_state) 1\<rparr>)
        = Inr frame \<and> frame_to_line sample_journal frame = Inr line"
    if "sample_change default_state = (Inr x, u)" for x u
    using that o(1) by (auto simp: sample_change_def)
  from journal_refines_transact [OF sample_frame_law sample_checkpoint_law o(2,3) w enc t] t o(1)
  show ?thesis by auto
qed

text \<open>
  C21. A crash loses nothing that was acknowledged and invents nothing. Whatever happens during a
  transaction - the write stops after any number of bytes, the process is told to fail before or
  after the append, the checkpoint is not replaced - opening the store on what is left on disk
  succeeds and holds the state before the transaction or the state it leaves; the latter if the
  transaction was acknowledged.
\<close>

theorem crash_recovers_before_or_after:
  assumes "frame_law jc" and "checkpoint_law jc" and "store_holds jc (store, d) s"
    and "store_transact jc io f (store, d) = (r, store', e)" and "length (dsk_journal e) < 2 ^ 64"
  shows "\<exists>t store2 e2. open_store jc io2 e = (Inr store2, e2) \<and> store_holds jc (store2, e2) t
    \<and> (t = s \<or> t = snd (transact f s)) \<and> (\<forall>x. r = Inr x \<longrightarrow> transact f s = (Inr x, t))"
proof -
  obtain t where t: "disk_holds jc e t" "t = s \<or> t = snd (transact f s)" "\<forall>x. r = Inr x \<longrightarrow> transact f s = (Inr x, t)"
    by (cases rule: store_transact_cases [OF assms]) (auto dest: store_disk_holds)
  obtain store2 e2 where "open_store jc io2 e = (Inr store2, e2)" "store_holds jc (store2, e2) t"
    by (rule open_store_holds [OF assms(2) t(1)])
  then show ?thesis using t(2,3) by blast
qed

theorem crash_recovers_before_or_after_witness:
  "\<exists>store e t store2 e2. store_transact sample_journal torn_write sample_change (projr (fst opened), snd opened)
       = (Inl (store_error ''disk full''), store, e)
     \<and> dsk_journal e = ''fr'' \<and> open_store sample_journal whole_write e = (Inr store2, e2)
     \<and> store_holds sample_journal (store2, e2) t \<and> (t = default_state \<or> t = snd (transact sample_change default_state))"
proof -
  obtain store d where o: "(projr (fst opened), snd opened) = (store, d)"
    "store_holds sample_journal (store, d) default_state" "store_ready store"
    by (rule opened_eq)
  define p where "p = store_transact sample_journal torn_write sample_change (projr (fst opened), snd opened)"
  have p: "fst p = Inl (store_error ''disk full'') \<and> dsk_journal (snd (snd p)) = ''fr''"
    unfolding p_def by code_simp
  then have t: "store_transact sample_journal torn_write sample_change (store, d)
      = (Inl (store_error ''disk full''), fst (snd p), snd (snd p))"
    using o(1) by (simp add: p_def prod_eq_iff)
  have "length (dsk_journal (snd (snd p))) < 2 ^ 64" using p by simp
  from crash_recovers_before_or_after [OF sample_frame_law sample_checkpoint_law o(2) t this] p t o(1)
  show ?thesis by fastforce
qed

section \<open>Checkpoints and backups\<close>

text \<open>
  C22. A checkpoint only saves time. When the checkpoint file was written for a prefix of the
  journal, loading through it gives the state, the digest and the valid length that reading the
  whole journal gives, also when the journal has grown or ends in an unfinished frame since.
\<close>

theorem checkpoint_equivalent:
  assumes "honest jc d"
  shows "map_sum id (\<lambda>(s, digest, n, current). (s, digest, n)) (load_journal_from_checkpoint jc d)
    = load_journal jc (dsk_journal d)"
proof -
  obtain current where "load_journal_from_checkpoint jc d =
      bindR (load_journal jc (dsk_journal d)) (\<lambda>(s, digest, n). Inr (s, digest, n, current n))"
    by (rule load_from_checkpoint [OF assms])
  then show ?thesis by (cases "load_journal jc (dsk_journal d)") auto
qed

theorem checkpoint_equivalent_witness:
  "load_journal sample_journal (dsk_journal (snd (snd transacted))) = Inr (sample_next, sample_digest, 6)
     \<and> read_checkpoint sample_journal (snd (snd transacted)) = Some sample_checkpoint"
proof -
  obtain store d where o: "(projr (fst opened), snd opened) = (store, d)"
    "store_holds sample_journal (store, d) default_state" "store_ready store"
    by (rule opened_eq)
  obtain store' e where t: "store_transact sample_journal whole_write sample_change (store, d) = (Inr (), store', e)"
    "snd transacted = (store', e)" "length (dsk_journal e) < 2 ^ 64"
    by (rule transacted_eq) (simp add: o(1))
  have "honest sample_journal e"
    by (cases rule: store_transact_cases [OF sample_frame_law sample_checkpoint_law o(2) t(1,3)])
      (auto simp: store_holds_def)
  from checkpoint_equivalent [OF this]
  have "load_journal sample_journal (dsk_journal (snd (snd transacted)))
      = map_sum id (\<lambda>(s, digest, n, current). (s, digest, n))
          (load_journal_from_checkpoint sample_journal (snd (snd transacted)))"
    using t(2) by simp
  also have "\<dots> = Inr (sample_next, sample_digest, 6)" by code_simp
  finally show ?thesis by (rule conjI) code_simp
qed

definition manifest_law :: "journal_codec \<Rightarrow> bool" where
  "manifest_law jc \<longleftrightarrow> (\<forall>m bs. manifest_to_vec jc m = Inr bs \<longrightarrow> manifest_from_slice jc bs = Inr m)"

lemma create_backup_Inr:
  assumes "create_backup jc (store, d) = Inr (manifest, journal_bytes, manifest_bytes)"
    and "load_journal jc (dsk_journal d) = Inr (s, digest, n)"
  shows "journal_bytes = take n (dsk_journal d)" "bkp_schema_version manifest = FABRIC_SCHEMA_VERSION"
    "bkp_transaction_sequence manifest = revision s"
    "canonical_digest jc (state_to_value jc s) = Inr (bkp_state_digest manifest)"
    "bkp_journal_digest manifest = sha256_hex jc journal_bytes"
    "bkp_journal_bytes manifest = of_nat (length journal_bytes)"
    "manifest_to_vec jc manifest = Inr manifest_bytes"
  using assms by (auto simp: create_backup_def Let_def bindR_eq_Inr)

lemma restore_backup_exact:
  assumes "manifest_from_slice jc manifest_bytes = Inr manifest" and "durable jc journal_bytes s digest"
    and "bkp_schema_version manifest = FABRIC_SCHEMA_VERSION" and "bkp_transaction_sequence manifest = revision s"
    and "canonical_digest jc (state_to_value jc s) = Inr (bkp_state_digest manifest)"
    and "bkp_journal_digest manifest = sha256_hex jc journal_bytes"
    and "bkp_journal_bytes manifest = of_nat (length journal_bytes)"
  shows "restore_backup jc io journal_bytes manifest_bytes
    = Inr (manifest, \<lparr>dsk_journal = journal_bytes, dsk_modified = io_modified io, dsk_checkpoint = None\<rparr>)"
  using assms by (simp add: restore_backup_def durable_def)

text \<open>
  C23. A backup restores the store it was taken from: restoring the files of a backup gives a disk
  whose journal is the complete frames of the original, that loads to the same state, and it ends at
  the transaction the manifest names.
\<close>

theorem backup_round_trip:
  assumes "manifest_law jc" and "disk_holds jc d s"
    and "create_backup jc (store, d) = Inr (manifest, journal_bytes, manifest_bytes)"
  shows "\<exists>e. restore_backup jc io journal_bytes manifest_bytes = Inr (manifest, e) \<and> disk_holds jc e s
    \<and> bkp_transaction_sequence manifest = revision s"
proof -
  obtain good torn digest where g: "dsk_journal d = good @ torn" "one_line torn" "durable jc good s digest"
    "length (dsk_journal d) < 2 ^ 64"
    using assms(2) by (auto simp: disk_holds_def)
  have load: "load_journal jc (dsk_journal d) = Inr (s, digest, length good)"
    using durable_torn [OF g(3,2)] g(1) by simp
  note m = create_backup_Inr [OF assms(3) load]
  have j: "journal_bytes = good" using m(1) g(1) by simp
  have r: "manifest_from_slice jc manifest_bytes = Inr manifest"
    using assms(1) m(7) by (simp add: manifest_law_def)
  have dur: "durable jc journal_bytes s digest" using g(3) j by simp
  let ?e = "\<lparr>dsk_journal = journal_bytes, dsk_modified = io_modified io, dsk_checkpoint = None\<rparr>"
  have "honest jc ?e" by (simp add: honest_def read_checkpoint_def)
  moreover have "length (dsk_journal ?e) < 2 ^ 64" using g(1,4) j by simp
  moreover have "\<exists>good torn digest. dsk_journal ?e = good @ torn \<and> one_line torn \<and> durable jc good s digest"
    using dur by (intro exI [of _ journal_bytes] exI [of _ "[]"] exI [of _ digest]) (simp add: one_line_def)
  ultimately have "disk_holds jc ?e s" unfolding disk_holds_def by blast
  then show ?thesis using restore_backup_exact [OF r dur m(2-6)] m(3) by blast
qed

theorem backup_round_trip_witness:
  "\<exists>e. restore_backup sample_journal whole_write (sample_line @ [newline]) ''manifest'' = Inr (sample_manifest, e)
     \<and> disk_holds sample_journal e sample_next"
proof -
  obtain store d where o: "(projr (fst opened), snd opened) = (store, d)"
    "store_holds sample_journal (store, d) default_state" "store_ready store"
    by (rule opened_eq)
  obtain store' e where t: "store_transact sample_journal whole_write sample_change (store, d) = (Inr (), store', e)"
    "snd transacted = (store', e)" "length (dsk_journal e) < 2 ^ 64"
    by (rule transacted_eq) (simp add: o(1))
  have next_state: "transact sample_change default_state = (Inr (), sample_next)"
    by (simp add: transact_def sample_change_def sample_next_def)
  have h: "disk_holds sample_journal e sample_next"
  proof (cases rule: store_transact_cases [OF sample_frame_law sample_checkpoint_law o(2) t(1,3)])
    case (3 x u)
    then have "u = sample_next" using next_state by simp
    then show ?thesis using store_disk_holds 3(3) by simp
  qed simp_all
  have "create_backup sample_journal (snd transacted) = Inr (sample_manifest, sample_line @ [newline], ''manifest'')"
    by code_simp
  then have c: "create_backup sample_journal (store', e) = Inr (sample_manifest, sample_line @ [newline], ''manifest'')"
    by (simp only: t(2))
  have "manifest_law sample_journal"
    by (simp add: manifest_law_def sample_journal_def codec.defs journal_codec.defs)
  from backup_round_trip [OF this h c, of whole_write] obtain e' where
    "restore_backup sample_journal whole_write (sample_line @ [newline]) ''manifest'' = Inr (sample_manifest, e')"
    "disk_holds sample_journal e' sample_next" by (elim exE conjE)
  then show ?thesis by (intro exI conjI)
qed

section \<open>Integrity\<close>

lemma fold_revision:
  "fold_lines (journal_step jc) acc lines = Inr acc' \<Longrightarrow> snd (snd acc) = sat_add (revision (fst acc)) 1 \<Longrightarrow>
     unat (revision (fst acc')) = min (unat (revision (fst acc)) + length lines) (2 ^ 64 - 1)"
proof (induction lines arbitrary: acc)
  case Nil
  then show ?case using unat_le_max [of "revision (fst acc)"] by simp
next
  case (Cons line lines)
  then obtain next_acc where n: "journal_step jc acc line = Inr next_acc"
    "fold_lines (journal_step jc) next_acc lines = Inr acc'"
    by (auto simp: bindR_eq_Inr)
  have rev: "revision (fst next_acc) = sat_add (revision (fst acc)) 1"
    and seq: "snd (snd next_acc) = sat_add (revision (fst next_acc)) 1"
    using n(1) Cons.prems(2)
    by (auto simp: journal_step_def read_frame_def frame_corrupt_def bindR_eq_Inr split: prod.split_asm)
  show ?case using Cons.IH [OF n(2) seq] by (simp add: rev unat_sat_add)
qed

lemma count_unlines: "list_all one_line lines \<Longrightarrow> count_list (unlines lines) newline = length lines"
  by (induction lines) (auto simp: one_line_def count_list_0_iff)

text \<open>
  A journal that loads has no gaps: the revision of the state it holds is the number of
  complete frames before the valid length (up to the largest representable number), and the bytes
  after the valid length contain no complete frame.
\<close>

theorem journal_counts_transactions:
  assumes "load_journal jc bs = Inr (s, digest, n)"
  shows "unat (revision s) = min (count_list (take n bs) newline) (2 ^ 64 - 1)
    \<and> newline \<notin> set (drop n bs) \<and> n \<le> length bs"
proof -
  obtain lines torn where l: "bs = unlines lines @ torn" "list_all one_line lines" "one_line torn"
    by (rule journal_lines)
  have f: "fold_lines (journal_step jc) journal_start lines = Inr (s, digest, sat_add (revision s) 1)"
    and n: "n = length (unlines lines)"
    using assms load_journal_lines [OF l(2,3)] l(1) by auto
  have "unat (revision s) = min (length lines) (2 ^ 64 - 1)" using fold_revision [OF f] by simp
  then show ?thesis using l n by (simp add: count_unlines one_line_def)
qed

theorem journal_counts_transactions_witness:
  "load_journal sample_journal (sample_line @ newline # ''fr'') = Inr (sample_next, sample_digest, 6)
     \<and> unat (revision sample_next) = 1"
proof -
  have l: "load_journal sample_journal (sample_line @ newline # ''fr'') = Inr (sample_next, sample_digest, 6)" by code_simp
  moreover have "count_list (take 6 (sample_line @ newline # ''fr'')) newline = 1" by code_simp
  ultimately show ?thesis using journal_counts_transactions [OF l] by simp
qed

section \<open>Appending after a torn write\<close>

lemma load_corrupt:
  assumes "durable jc good s digest" and "one_line torn" and "one_line line"
    and "line_to_frame jc (torn @ line) = Inl err" and "torn \<noteq> []"
  shows "\<exists>err. load_journal jc (good @ torn @ line @ [newline]) = Inl err"
proof -
  have "one_line (torn @ line)" using assms(2,3) by (auto simp: one_line_def)
  then have "parse_at jc (good @ (torn @ line) @ newline # []) (length good) (s, digest, sat_add (revision s) 1)
      = bindR (journal_step jc (s, digest, sat_add (revision s) 1) (torn @ line))
          (parse_at jc ((good @ (torn @ line) @ [newline]) @ []) (length (good @ (torn @ line) @ [newline])))"
    by (rule fj.load_line)
  also have "\<exists>err. \<dots> = Inl err"
    using assms(4,5) by (simp add: journal_step_def read_frame_def)
  finally show ?thesis
    using parse_from_prefix [OF assms(1), of "torn @ line @ [newline]"]
    by (auto simp: parse_at_def bindR_eq_Inl)
qed

text \<open>A checkpoint whose digest is not that of the journal is not used.\<close>

lemma stale_checkpoint_ignored:
  assumes law: "checkpoint_law jc" and hon: "honest jc d" and len: "length (dsk_journal d) < 2 ^ 64"
    and digest: "sha256_hex jc (dsk_journal d) \<noteq> prefix_digest"
    and load: "load_journal jc (dsk_journal d) = Inl err"
  shows "\<exists>err. load_journal_from_checkpoint jc
    (write_checkpoint jc io t last_digest (length (dsk_journal d)) prefix_digest d) = Inl err"
proof (cases "\<exists>c bs. new_checkpoint jc t last_digest (length (dsk_journal d)) prefix_digest = Inr c
    \<and> checkpoint_to_vec jc c = Inr bs \<and> io_checkpoint_written io")
  case True
  then obtain c bs where c: "new_checkpoint jc t last_digest (length (dsk_journal d)) prefix_digest = Inr c"
    "checkpoint_to_vec jc c = Inr bs" "io_checkpoint_written io"
    by blast
  let ?e = "write_checkpoint jc io t last_digest (length (dsk_journal d)) prefix_digest d"
  have "checkpoint_from_slice jc bs = Inr c" using law c(2) by (simp add: checkpoint_law_def)
  then have r: "read_checkpoint jc ?e = Some c"
    using c by (simp add: write_checkpoint_def read_checkpoint_def)
  have "unat (cpt_journal_offset (cpt_core c)) = length (dsk_journal d)"
    "cpt_journal_prefix_digest (cpt_core c) = prefix_digest"
    "canonical_digest jc (checkpoint_to_value jc (cpt_core c)) = Inr (cpt_checkpoint_digest c)"
    using c(1) len by (auto simp: new_checkpoint_def Let_def bindR_eq_Inr unsigned_of_nat take_bit_nat_eq_self)
  then have "checkpoint_matches jc (dsk_journal d) c = Inr False"
    using digest by (simp add: checkpoint_matches_def Let_def)
  then show ?thesis using r load by (simp add: load_journal_from_checkpoint_def)
next
  case False
  then have e: "write_checkpoint jc io t last_digest (length (dsk_journal d)) prefix_digest d = d"
    by (auto simp: write_checkpoint_def split: sum.split)
  obtain cur where "load_journal_from_checkpoint jc d
      = bindR (load_journal jc (dsk_journal d)) (\<lambda>(s, digest, n). Inr (s, digest, n, cur n))"
    by (rule load_from_checkpoint [OF hon])
  then show ?thesis using load e by simp
qed

text \<open>A process that notices that the journal changed reads the complete frames.\<close>

lemma refresh_torn:
  assumes "honest jc d" and "dsk_journal d = good @ torn" and "one_line torn" and "durable jc good s digest"
    and "sto_journal_stamp store \<noteq> journal_stamp d"
  shows "refresh jc d store = (Inr (), store\<lparr>sto_state := s, sto_last_frame_digest := digest,
    sto_journal_hasher := good, sto_journal_stamp := journal_stamp d\<rparr>)"
proof -
  obtain cur where "load_journal_from_checkpoint jc d
      = bindR (load_journal jc (dsk_journal d)) (\<lambda>(s, digest, n). Inr (s, digest, n, cur n))"
    by (rule load_from_checkpoint [OF assms(1)])
  then have load: "load_journal_from_checkpoint jc d = Inr (s, digest, length good, cur (length good))"
    using durable_torn [OF assms(4,3)] assms(2) by simp
  have hash: "journal_hasher (dsk_journal d) (length good) = Inr good"
    using journal_hasher_durable [OF assms(4), of torn] assms(2) by simp
  have ne: "journal_stamp d \<noteq> sto_journal_stamp store" using assms(5) by simp
  show ?thesis by (simp add: refresh_def Let_def ne load hash)
qed

lemma commit_frame_value: "commit_frame jc io y t frame (store, d) = (Inr x, store', e) \<Longrightarrow> y = x"
  by (auto simp: commit_frame_def Let_def split: prod.split_asm sum.split_asm if_split_asm)

lemma commit_torn:
  assumes law: "frame_law jc" "checkpoint_law jc" and d: "dsk_journal d = good @ torn" "torn \<noteq> []" "one_line torn"
    and dur: "durable jc good s digest" and hon: "honest jc d"
    and store: "sto_journal_hasher store = good" "\<not> sto_fail_after_append store"
    and c: "commit_frame jc io x t frame (store, d) = (Inr x, store', e)" and len: "length (dsk_journal e) < 2 ^ 64"
    and reject: "\<And>line. dsk_journal e = good @ torn @ line @ [newline] \<Longrightarrow> \<exists>err. line_to_frame jc (torn @ line) = Inl err"
    and collision: "\<And>bs. dsk_journal e = good @ torn @ bs \<Longrightarrow> sha256_hex jc (dsk_journal e) \<noteq> sha256_hex jc (good @ bs)"
  shows "(\<exists>err. load_journal jc (dsk_journal e) = Inl err) \<and> (\<exists>err. load_journal_from_checkpoint jc e = Inl err)"
proof -
  obtain w e1 where w: "append_frame jc io frame d = (w, e1)" by (cases "append_frame jc io frame d")
  from write_append [OF w] c w obtain line where line: "frame_to_line jc frame = Inr line" "w = Inr (line @ [newline])"
    "e1 = d\<lparr>dsk_journal := dsk_journal d @ line @ [newline], dsk_modified := io_modified io\<rparr>"
    by (auto simp: commit_frame_def)
  have e: "e = write_checkpoint jc io t (jfr_frame_digest frame) (length (dsk_journal e1))
      (sha256_hex jc (good @ line @ [newline])) e1"
    using c w line(2) store by (auto simp: commit_frame_def Let_def)
  have j: "dsk_journal e1 = good @ torn @ line @ [newline]" "dsk_journal e = dsk_journal e1"
    using e line(3) d(1) by simp_all
  have "one_line line" using law(1) line(1) by (simp add: frame_law_def)
  then obtain err where l: "load_journal jc (dsk_journal e1) = Inl err"
    using load_corrupt [OF dur d(3)] reject [of line] j d(2) by auto
  have "honest jc e1" by (rule honest_append [OF hon]) (simp_all add: line(3) read_checkpoint_def)
  moreover have "length (dsk_journal e1) < 2 ^ 64" using len j by simp
  moreover have "sha256_hex jc (dsk_journal e1) \<noteq> sha256_hex jc (good @ line @ [newline])"
    using collision [of "line @ [newline]"] j by simp
  ultimately have "\<exists>err. load_journal_from_checkpoint jc e = Inl err"
    unfolding e using l by (rule stale_checkpoint_ignored [OF law(2)])
  then show ?thesis using l j by simp
qed

text \<open>
  C24. A process that keeps its store open after a torn write corrupts the journal with its next
  acknowledged transaction. When the journal ends in the beginning of a frame (an earlier append
  failed half way) and a process that notices the change commits a further transaction, the new
  frame is appended right after the torn bytes: the call is acknowledged, but the journal no longer
  loads, no backup can be taken, and the store cannot be opened again. The hypotheses on the
  packages are that the torn bytes followed by the new frame are not a frame and that the digests of
  the journal with and without the torn bytes differ.
\<close>

theorem append_after_torn_write_corrupts:
  assumes law: "frame_law jc" "checkpoint_law jc" and d: "dsk_journal d = good @ torn" "torn \<noteq> []" "one_line torn"
    and dur: "durable jc good s digest" and hon: "honest jc d"
    and store: "store_ready store" "sto_journal_stamp store \<noteq> journal_stamp d"
    and f: "store_transact jc io f (store, d) = (Inr x, store', e)" and len: "length (dsk_journal e) < 2 ^ 64"
    and reject: "\<And>line. dsk_journal e = good @ torn @ line @ [newline] \<Longrightarrow> \<exists>err. line_to_frame jc (torn @ line) = Inl err"
    and collision: "\<And>bs. dsk_journal e = good @ torn @ bs \<Longrightarrow> sha256_hex jc (dsk_journal e) \<noteq> sha256_hex jc (good @ bs)"
  shows "(\<exists>err. load_journal jc (dsk_journal e) = Inl err) \<and> (\<exists>err. create_backup jc (store', e) = Inl err)
    \<and> (\<exists>err. fst (open_store jc io2 e) = Inl err)"
proof -
  let ?store = "store\<lparr>sto_state := s, sto_last_frame_digest := digest,
    sto_journal_hasher := good, sto_journal_stamp := journal_stamp d\<rparr>"
  have ready: "sto_available store" "\<not> sto_fail_next_commit store" "\<not> sto_fail_after_append store"
    using store(1) by (simp_all add: store_ready_def)
  note refresh = refresh_torn [OF hon d(1,3) dur store(2)]
  obtain u frame where
    c: "commit_frame jc io x (u\<lparr>revision := sat_add (revision s) 1\<rparr>) frame (?store, d) = (Inr x, store', e)"
  proof -
    have f': "(case f s of (Inl e, _) \<Rightarrow> (Inl e, ?store, d)
        | (Inr x, u) \<Rightarrow>
            (case next_frame jc ?store (u\<lparr>revision := sat_add (revision s) 1\<rparr>) of
               Inl e \<Rightarrow> (Inl e, ?store, d)
             | Inr frame \<Rightarrow> commit_frame jc io x (u\<lparr>revision := sat_add (revision s) 1\<rparr>) frame (?store, d)))
        = (Inr x, store', e)"
      using f ready by (simp add: store_transact_def require_available_def refresh Let_def cong: sum.case_cong)
    obtain q u where fs: "f s = (q, u)" by (cases "f s")
    obtain y where q: "q = Inr y" using f' fs by (cases q) simp_all
    obtain frame where frame: "next_frame jc ?store (u\<lparr>revision := sat_add (revision s) 1\<rparr>) = Inr frame"
      using f' fs q by (cases "next_frame jc ?store (u\<lparr>revision := sat_add (revision s) 1\<rparr>)") simp_all
    have "commit_frame jc io y (u\<lparr>revision := sat_add (revision s) 1\<rparr>) frame (?store, d) = (Inr x, store', e)"
      using f' fs q frame by simp
    moreover from this have "y = x" by (rule commit_frame_value)
    ultimately show thesis using that by simp
  qed
  from commit_torn [OF law d dur hon _ _ c len reject collision] ready
  obtain err err2 where load: "load_journal jc (dsk_journal e) = Inl err" "load_journal_from_checkpoint jc e = Inl err2"
    by (simp, elim conjE exE)
  then have "\<exists>err. create_backup jc (store', e) = Inl err"
    by (cases "require_available store'") (simp_all add: create_backup_def)
  then show ?thesis using load by (simp add: open_store_def)
qed

definition torn_transacted where
  "torn_transacted = store_transact sample_journal torn_write sample_change (projr (fst opened), snd opened)"
definition glued where
  "glued = store_transact sample_journal whole_write sample_change (snd torn_transacted)"

lemma glued_ok: "committed glued" by code_simp

theorem append_after_torn_write_corrupts_witness:
  "dsk_journal (snd (snd torn_transacted)) = ''fr'' \<and> committed glued
     \<and> dsk_journal (snd (snd glued)) = ''frframe'' @ [newline]
     \<and> (\<exists>err. fst (open_store sample_journal whole_write (snd (snd glued))) = Inl err)"
proof -
  obtain store d where p: "snd torn_transacted = (store, d)" by (cases "snd torn_transacted")
  obtain store' e where q: "snd glued = (store', e)" by (cases "snd glued")
  have j: "dsk_journal (snd (snd torn_transacted)) = [] @ ''fr''"
    and k: "dsk_journal (snd (snd glued)) = ''frframe'' @ [newline]"
    and o: "one_line ''fr''" and r: "store_ready (fst (snd torn_transacted))"
    and st: "sto_journal_stamp (fst (snd torn_transacted)) \<noteq> journal_stamp (snd (snd torn_transacted))"
    by code_simp+
  have dur: "durable sample_journal [] default_state []" unfolding durable_lines by (intro exI [of _ "[]"]) simp
  obtain store0 d0 where o0: "(projr (fst opened), snd opened) = (store0, d0)"
    "store_holds sample_journal (store0, d0) default_state"
    by (rule opened_eq)
  have t0: "store_transact sample_journal torn_write sample_change (store0, d0) = (fst torn_transacted, store, d)"
    unfolding p [symmetric] torn_transacted_def o0(1) by simp
  have len0: "length (dsk_journal d) < 2 ^ 64" using j p by simp
  have hon: "honest sample_journal d"
    by (cases rule: store_transact_cases [OF sample_frame_law sample_checkpoint_law o0(2) t0 len0])
      (auto simp: store_holds_def disk_holds_def)
  have g: "store_transact sample_journal whole_write sample_change (store, d) = (Inr (), store', e)"
  proof -
    obtain x where "glued = (Inr x, snd glued)" using committed_Inr [OF glued_ok] ..
    then show ?thesis using p q unfolding glued_def by simp
  qed
  have e: "dsk_journal e = ''frframe'' @ [newline]" using k q by simp
  have "line = sample_line" if "dsk_journal e = [] @ ''fr'' @ line @ [newline]" for line
    using that e by (simp add: sample_line_def)
  moreover have "line_to_frame sample_journal (''fr'' @ sample_line) = Inl ''invalid''" by code_simp
  ultimately have reject: "\<exists>err. line_to_frame sample_journal (''fr'' @ line) = Inl err"
    if "dsk_journal e = [] @ ''fr'' @ line @ [newline]" for line using that by blast
  have sha: "sha256_hex sample_journal (''frframe'' @ [newline]) \<noteq> sha256_hex sample_journal ([] @ ''frame'' @ [newline])"
    by code_simp
  have collision: "sha256_hex sample_journal (dsk_journal e) \<noteq> sha256_hex sample_journal ([] @ bs)"
    if b: "dsk_journal e = [] @ ''fr'' @ bs" for bs
  proof -
    have "bs = ''frame'' @ [newline]" using b e by simp
    then show ?thesis using sha e by simp
  qed
  have "dsk_journal d = [] @ ''fr''" "store_ready store" "sto_journal_stamp store \<noteq> journal_stamp d"
    "length (dsk_journal e) < 2 ^ 64"
    using j r st p e by simp_all
  from append_after_torn_write_corrupts [OF sample_frame_law sample_checkpoint_law this(1) _ o dur hon this(2,3) g
      this(4) reject collision, of whole_write]
  show ?thesis using j k q glued_ok by simp
qed

end
