(* ===== verification/Authority_Properties.thy ===== *)
theory Authority_Properties
  imports Sample_Run
begin

text \<open>
  What the leases, enrollments, certificates and gateway generations guarantee over every run of the
  Control Plane: a party that lost its authority never gets a change through again.
\<close>

section \<open>Refusals\<close>

text \<open>An operation that fails and leaves the state as it was.\<close>

definition refused :: "(FabricError + 'a) \<times> FabricState \<Rightarrow> FabricState \<Rightarrow> bool" where
  "refused p s \<longleftrightarrow> (\<exists>e. p = (Inl e, s))"

lemma gated_refused:
  assumes "\<And>x u. f s \<noteq> (Inr x, u)"
  shows "refused (gated cp g now f s) s"
proof (cases "gated cp g now f s")
  case (Pair r t)
  show ?thesis
  proof (cases r)
    case (Inl e)
    then have "t = s" using atomicD [OF transact_atomic] Pair unfolding gated_def by blast
    then show ?thesis using Pair Inl by (simp add: refused_def)
  next
    case (Inr x)
    then show ?thesis using Pair assms by (auto simp: gated_Inr)
  qed
qed

lemma check_refused_all: "(\<And>x. refused (k x s) s) \<Longrightarrow> refused (check r k s) s"
  by (cases r) (simp_all add: refused_def)

section \<open>The lease of the Control Plane\<close>

text \<open>
  C25. Taking over the Control Plane excludes the predecessor for good. An instance acquires the lease
  only when the lease of the company has run out; from then on, in every later state, whatever
  gated operation the holder of the previous generation tries, at whatever time by its clock, fails
  with a stale generation and changes nothing. The generation must not have reached the largest
  representable number.
\<close>

theorem takeover_fences_predecessor:
  assumes "reachable cd csr limits s"
    and "bt_get (control_plane_leases s) (cp_company_id cp) = Some prior"
    and "cpl_control_plane_generation prior \<noteq> - 1"
    and "acquire_lease successor l rv now s = (Inr lease, t)" and "cp_company_id successor = cp_company_id cp"
    and "fabric_run cd csr limits t u"
  shows "cpl_expires_at_unix_ms prior \<le> now
    \<and> (\<exists>e. gated cp (cpl_control_plane_generation prior) later f u = (Inl e, u)
         \<and> err_code e = ControlPlaneStaleGeneration)"
proof -
  have new: "cpl_expires_at_unix_ms prior \<le> now"
    "cpl_control_plane_generation lease = sat_add (cpl_control_plane_generation prior) 1"
    using acquire_lease_Inr(4) [OF assms(4)] assms(2,5) by auto
  have t: "bt_get (control_plane_leases t) (cp_company_id cp) = Some lease"
    using acquire_lease_Inr(5) [OF assms(4)] assms(5) by simp
  have "reachable cd csr limits t"
    using reachable_run [OF assms(1)] fabric_step.acquire [OF assms(4)] by (simp add: fabric_run_def r_into_rtranclp)
  then have "company_ext t u" using run_ext_fabric assms(6) by (auto simp: fabric_ext_def authority_ext_def)
  then obtain lease' where u: "bt_get (control_plane_leases u) (cp_company_id cp) = Some lease'"
    "cpl_control_plane_generation lease \<le> cpl_control_plane_generation lease'"
    using t unfolding company_ext_def by blast
  have "cpl_control_plane_generation prior < cpl_control_plane_generation lease'"
    using sat_add_one_gt [OF assms(3)] new(2) u(2) by (simp add: order.strict_trans2)
  then have "require_active_control_plane u (cp_company_id cp) (cp_instance_id cp)
      (cpl_control_plane_generation prior) later \<noteq> Inr x" for x
    using u(1) by (auto simp: require_active_Inr)
  then obtain e where "require_active_control_plane u (cp_company_id cp) (cp_instance_id cp)
      (cpl_control_plane_generation prior) later = Inl e"
    by (cases "require_active_control_plane u (cp_company_id cp) (cp_instance_id cp)
      (cpl_control_plane_generation prior) later") auto
  then show ?thesis using new(1) gated_stale require_active_Inl by blast
qed

definition rival_cp :: ControlPlane where
  "rival_cp = \<lparr>cp_company_id = ''co'', cp_instance_id = ''cp2''\<rparr>"

definition takeover where
  "takeover = acquire_lease rival_cp ''l2'' 1 40000 (snd run5)"

lemma takeover_ok: "committed takeover" by code_simp

theorem takeover_fences_predecessor_witness:
  "\<exists>lease. fst takeover = Inr lease \<and> (\<exists>e. cp_retry_operation sample_cp 1 ''op1'' 40001 (snd takeover) = (Inl e, snd takeover)
     \<and> err_code e = ControlPlaneStaleGeneration)"
proof -
  define prior where "prior = projr (fst run1)"
  have p: "bt_get (control_plane_leases (snd run5)) (cp_company_id sample_cp) = Some prior"
    and g: "cpl_control_plane_generation prior = 1"
    unfolding prior_def by code_simp+
  obtain lease where l: "takeover = (Inr lease, snd takeover)" using committed_Inr [OF takeover_ok] ..
  then have t: "acquire_lease rival_cp ''l2'' 1 40000 (snd run5) = (Inr lease, snd takeover)"
    unfolding takeover_def by assumption
  have ne: "cpl_control_plane_generation prior \<noteq> - 1" by (simp add: g)
  have cp: "cp_company_id rival_cp = cp_company_id sample_cp" by (simp add: rival_cp_def sample_cp_def)
  from takeover_fences_predecessor [OF reach5 p ne t cp run_refl, of 40001
      "retry_operation ''co'' 1 ''op1'' 40001"]
  have "\<exists>e. gated sample_cp 1 40001 (retry_operation ''co'' 1 ''op1'' 40001) (snd takeover) = (Inl e, snd takeover)
      \<and> err_code e = ControlPlaneStaleGeneration"
    unfolding g by (rule conjunct2)
  moreover have "cp_company_id sample_cp = ''co''" by (simp add: sample_cp_def)
  moreover have "fst takeover = Inr lease" using arg_cong [OF l, of fst] by (simp only: fst_conv)
  ultimately show ?thesis unfolding cp_retry_operation_def by simp
qed

section \<open>Gateway generations\<close>

lemma superseded_generation:
  assumes "reachable cd csr limits s" and "bt_get (gateway_leases s) n = Some lease"
    and "gg < gwl_gateway_generation lease" and "fabric_run cd csr limits s t"
  obtains e where "require_current_gateway t c g n gg d dg now = Inl e" "err_code e = NodeStaleGeneration"
proof -
  have "gateway_bound s n (gwl_gateway_generation lease)" using assms(2) by (simp add: gateway_bound_def)
  then have "gateway_bound t n (gwl_gateway_generation lease)"
    using run_ext_fabric [OF assms(1,4)] by (simp add: fabric_ext_def authority_ext_def nodes_ext_def)
  then have "require_current_gateway t c g n gg d dg now \<noteq> Inr x" for x
    using assms(3) by (auto simp: gateway_bound_def require_current_gateway_Inr)
  then show thesis using that require_current_gateway_Inl
    by (cases "require_current_gateway t c g n gg d dg now") blast+
qed

text \<open>
  A superseded gateway session is cut off. Once a Node holds a gateway generation, a session of
  any earlier generation can never again, in any later state, confirm persistence, report a result,
  read receipts, send a heartbeat or rotate the certificate: each is refused and changes nothing.
\<close>

theorem superseded_gateway_fenced:
  assumes "reachable cd csr limits s" and "bt_get (gateway_leases s) n = Some lease"
    and "gg < gwl_gateway_generation lease" and "fabric_run cd csr limits s t"
  shows "refused (cp_record_target_persisted cd cp g n gg d dg i rd seq now t) t
    \<and> refused (cp_record_application_receipt cd cp g n gg d dg i rs res eff now t) t
    \<and> refused (cp_reconcile cp g n gg d dg ids now t) t
    \<and> refused (heartbeat_gateway cp g n gg d dg rv now t) t
    \<and> refused (rotate_node_certificate cd cp g n gg d dg cur nxt rv pf ex now t) t"
proof -
  obtain e where e: "require_current_gateway t (cp_company_id cp) g n gg d dg now = Inl e"
    by (rule superseded_generation [OF assms])
  have "heartbeat (cp_company_id cp) g n gg d dg rv now t \<noteq> (Inr x, u)" for x u
    using e by (auto simp: heartbeat_def require_current_gateway_def split: option.splits if_splits)
  then show ?thesis
    unfolding cp_record_target_persisted_def cp_record_application_receipt_def cp_reconcile_def
      heartbeat_gateway_def rotate_node_certificate_def
    by (intro conjI gated_refused)
      (simp_all add: e record_target_persisted_def record_application_receipt_def reconcile_def)
qed

theorem superseded_gateway_fenced_witness:
  "gwl_gateway_generation (the (bt_get (gateway_leases (snd alt9)) ''n1'')) = 2
     \<and> refused (cp_record_target_persisted sample_codec sample_cp 1 ''n1'' 1 ''d'' 1 ''op1''
          (bytes_to_hex (sample_hash ''op1'')) 1 31503 (snd alt9)) (snd alt9)"
proof -
  define lease where "lease = the (bt_get (gateway_leases (snd alt9)) ''n1'')"
  have "bt_get (gateway_leases (snd alt9)) ''n1'' \<noteq> None" by code_simp
  then have l: "bt_get (gateway_leases (snd alt9)) ''n1'' = Some lease" by (auto simp: lease_def)
  have g: "gwl_gateway_generation lease = 2" unfolding lease_def by code_simp
  then have "1 < gwl_gateway_generation lease" by simp
  from superseded_gateway_fenced [OF alt_reach9 l this run_refl] show ?thesis
    using g by (simp add: lease_def)
qed

section \<open>Nodes and certificates\<close>

lemma revoked_run:
  assumes "reachable cd csr limits s" and "bt_get (nodes s) n = Some node"
    and "node_administrative_status node = NodeIsRevoked" and "fabric_run cd csr limits s t"
  obtains node' where "bt_get (nodes t) n = Some node'" "node_administrative_status node' = NodeIsRevoked"
proof -
  have "nodes_ext s t" using run_ext_fabric [OF assms(1,4)] by (simp add: fabric_ext_def authority_ext_def)
  then show thesis using assms(2,3) that unfolding nodes_ext_def by blast
qed

lemma revoked_not_consumed:
  assumes "bt_get (nodes t) n = Some node" and "node_administrative_status node = NodeIsRevoked"
    and "enrollments_inv t"
  shows "consume_enrollment cd c tok n dn pf ser ex sb now t \<noteq> (Inr x, u)"
    and "consume_enrollment_csr cd c tok n dn fp csr ser ex sb now t \<noteq> (Inr x, u)"
  using assms
  by (auto simp: consume_enrollment_def consume_enrollment_csr_def check_eq_Inr andThen_eq_Inr Let_def
      bt_contains_def recovery_admission_def bindR_eq_Inr dest!: claim_enrollment_Inr(1))

text \<open>
  C26. Revocation is final. Once a Node is revoked, in every later state it can neither connect, by
  either protocol, nor be enrolled again under its id, by either way, nor be set active again, nor
  send a heartbeat.
\<close>

theorem revoked_node_stays_out:
  assumes "reachable cd csr limits s" and "bt_get (nodes s) n = Some node"
    and "node_administrative_status node = NodeIsRevoked" and "fabric_run cd csr limits s t"
    and "hello_node_id hello = n"
  shows "refused (connect_gateway cd cp g peer hello hprf now t) t
    \<and> refused (connect_gateway_mtls cd cp g peer hello now t) t
    \<and> refused (heartbeat_gateway cp g n gg d dg rv now t) t
    \<and> refused (cp_consume_enrollment cd cp g tok n dn pf ser ex sb now t) t
    \<and> refused (cp_consume_enrollment_csr cd csr cp g tok n dn pem ser ex sb now t) t
    \<and> refused (set_node_administrative_status cp actor g n rv NodeActive now t) t"
proof -
  obtain row where row: "bt_get (nodes t) n = Some row" "node_administrative_status row = NodeIsRevoked"
    by (rule revoked_run [OF assms(1-4)])
  have inv: "enrollments_inv t"
    using reachable_authority [OF reachable_run [OF assms(1,4)]] by (simp add: authority_inv_def)
  have "authenticate_hello t (cp_company_id cp) peer hello now \<noteq> Inr x" for x
    using row assms(5) authenticate_hello_Inr(1,2) by fastforce
  then have c: "connect_verified cd (cp_company_id cp) g peer hello now t \<noteq> (Inr x, u)" for x u
    by (auto elim: connect_verified_Inr)
  have h: "heartbeat (cp_company_id cp) g n gg d dg rv now t \<noteq> (Inr x, u)" for x u
    using row by (auto elim: heartbeat_Inr)
  have "refused (gated cp g now (consume_enrollment_csr cd (cp_company_id cp) tok n dn fp
      (sha256_hex cd pem) ser ex sb now) t) t" for fp
    by (rule gated_refused) (rule revoked_not_consumed(2) [OF row inv])
  then have csr: "refused (cp_consume_enrollment_csr cd csr cp g tok n dn pem ser ex sb now t) t"
    unfolding cp_consume_enrollment_csr_def by (rule check_refused_all)
  have st: "refused (set_node_administrative_status cp actor g n rv NodeActive now t) t"
    unfolding set_node_administrative_status_def
    by simp (rule gated_refused, use row in \<open>auto simp: check_eq_Inr administered_node_Inr\<close>)
  show ?thesis
    unfolding connect_gateway_def connect_gateway_mtls_def heartbeat_gateway_def cp_consume_enrollment_def
    by (intro conjI csr st gated_refused)
      (use c h revoked_not_consumed(1) [OF row inv] in \<open>auto simp: connect_def connect_mtls_def check_eq_Inr\<close>)
qed

theorem revoked_node_stays_out_witness:
  "node_administrative_status (the (bt_get (nodes (snd alt10)) ''n1'')) = NodeIsRevoked
     \<and> refused (connect_gateway_mtls sample_codec sample_cp 1 (sample_peer ''c2'') (sample_hello ''c2'' 3) 31504
          (snd alt10)) (snd alt10)"
proof -
  define node where "node = the (bt_get (nodes (snd alt10)) ''n1'')"
  have "bt_get (nodes (snd alt10)) ''n1'' \<noteq> None" by code_simp
  then have n: "bt_get (nodes (snd alt10)) ''n1'' = Some node" by (auto simp: node_def)
  have r: "node_administrative_status node = NodeIsRevoked" unfolding node_def by code_simp
  have h: "hello_node_id (sample_hello ''c2'' 3) = ''n1''" by (simp add: sample_hello_def)
  have "refused (connect_gateway_mtls sample_codec sample_cp 1 (sample_peer ''c2'') (sample_hello ''c2'' 3) 31504
      (snd alt10)) (snd alt10)"
    by (rule revoked_node_stays_out [OF alt_reach10 n r run_refl h, THEN conjunct2, THEN conjunct1])
  then show ?thesis using r unfolding node_def by (intro conjI)
qed

text \<open>
  C27. A Node has at most one live certificate. In every reachable state two unrevoked certificates
  of the same Node are the same, that certificate is the one the Node's row names, the Node is not
  revoked, and the revocation list holds exactly the serials of the revoked certificates.
\<close>

theorem one_live_certificate:
  assumes "reachable cd csr limits s"
    and "bt_get (certificates s) k = Some c" and "cert_revoked_at_unix_ms c = None"
    and "bt_get (certificates s) k' = Some c'" and "cert_revoked_at_unix_ms c' = None"
    and "cert_node_id c = cert_node_id c'"
  shows "k = k' \<and> c = c' \<and> (\<exists>node. bt_get (nodes s) (cert_node_id c) = Some node
      \<and> node_certificate_serial node = k \<and> node_administrative_status node \<noteq> NodeIsRevoked)
    \<and> k \<notin> revoked_certificate_serials s"
proof -
  have inv: "certificates_inv s" using reachable_authority [OF assms(1)] by (simp add: authority_inv_def)
  have key: "cert_serial c = k" "cert_serial c' = k'"
    using certificates_invD(3) [OF inv assms(2)] certificates_invD(3) [OF inv assms(4)] by simp_all
  have "current_certificate s c" "current_certificate s c'" "k \<notin> revoked_certificate_serials s"
    using certificates_invD(4,5) [OF inv assms(2)] certificates_invD(4) [OF inv assms(4)] assms(3,5) by simp_all
  moreover from this obtain node where node: "bt_get (nodes s) (cert_node_id c) = Some node"
    "node_certificate_serial node = k" "node_administrative_status node \<noteq> NodeIsRevoked"
    unfolding current_certificate_def key by (elim exE conjE)
  ultimately have kk: "k' = k" unfolding current_certificate_def key assms(6) by simp
  then have "c' = c" using assms(2,4) by simp
  then show ?thesis using node kk \<open>k \<notin> revoked_certificate_serials s\<close> by simp
qed

theorem one_live_certificate_witness:
  "cert_revoked_at_unix_ms (the (bt_get (certificates (snd alt9)) ''c1'')) \<noteq> None
     \<and> (\<exists>c node. bt_get (certificates (snd alt9)) ''c2'' = Some c \<and> cert_revoked_at_unix_ms c = None
          \<and> bt_get (nodes (snd alt9)) (cert_node_id c) = Some node \<and> node_certificate_serial node = ''c2'')"
proof -
  define c where "c = the (bt_get (certificates (snd alt9)) ''c2'')"
  have "bt_get (certificates (snd alt9)) ''c2'' \<noteq> None" by code_simp
  then have k: "bt_get (certificates (snd alt9)) ''c2'' = Some c" by (auto simp: c_def)
  have l: "cert_revoked_at_unix_ms c = None" unfolding c_def by code_simp
  have o: "cert_revoked_at_unix_ms (the (bt_get (certificates (snd alt9)) ''c1'')) \<noteq> None" by code_simp
  obtain node where "bt_get (nodes (snd alt9)) (cert_node_id c) = Some node" "node_certificate_serial node = ''c2''"
    using one_live_certificate [OF alt_reach9 k l k l refl] by (elim conjE exE)
  then show ?thesis using k l o by (intro conjI exI)
qed

text \<open>
  A retired certificate never authenticates again. A serial that is on the revocation list of a
  reachable state cannot be used to connect, by either protocol, in any later state.
\<close>

theorem retired_certificate_refused:
  assumes "reachable cd csr limits s" and "hello_certificate_serial hello \<in> revoked_certificate_serials s"
    and "fabric_run cd csr limits s t"
  shows "refused (connect_gateway cd cp g peer hello hprf now t) t
    \<and> refused (connect_gateway_mtls cd cp g peer hello now t) t"
proof -
  have "hello_certificate_serial hello \<in> revoked_certificate_serials t"
    using run_ext_fabric [OF assms(1,3)] assms(2) by (auto simp: fabric_ext_def authority_ext_def nodes_ext_def)
  then have "connect_verified cd (cp_company_id cp) g peer hello now t \<noteq> (Inr x, u)" for x u
    using authenticate_hello_Inr(6) by (auto elim!: connect_verified_Inr)
  then show ?thesis unfolding connect_gateway_def connect_gateway_mtls_def
    by (intro conjI gated_refused) (auto simp: connect_def connect_mtls_def check_eq_Inr)
qed

theorem retired_certificate_refused_witness:
  "refused (connect_gateway_mtls sample_codec sample_cp 1 (sample_peer ''c1'') (sample_hello ''c1'' 1) 31503
     (snd alt9)) (snd alt9)"
proof -
  have "''c1'' \<in> revoked_certificate_serials (snd alt9)" by code_simp
  then have "hello_certificate_serial (sample_hello ''c1'' 1) \<in> revoked_certificate_serials (snd alt9)"
    by (simp add: sample_hello_def)
  from retired_certificate_refused [OF alt_reach9 this run_refl] show ?thesis by (rule conjunct2)
qed

section \<open>Enrollment\<close>

text \<open>The outcome of either way of consuming a token.\<close>

lemma consumed_token:
  assumes "reachable cd csr limits s"
    and "cp_consume_enrollment cd cp g tok n dn pf ser ex sb now s = (Inr r, t)
      \<or> cp_consume_enrollment_csr cd csr cp g tok n dn pem ser ex sb now s = (Inr r, t)"
  obtains i e where "bt_get (enrollments t) i = Some e" "enr_token_digest e = sha256_hex cd tok"
    "enr_status e = EnrollmentIsConsumed" "fabric_step cd csr limits s t"
proof -
  have inv: "authority_inv s" by (rule reachable_authority [OF assms(1)])
  have step: "fabric_step cd csr limits s t"
    using assms(2) by (elim disjE) (erule fabric_step.consume, erule fabric_step.consume_csr)
  obtain node cert where r: "r = (node, cert)" by (cases r)
  have "\<exists>i e. bt_get (enrollments t) i = Some (consumed_by n now e) \<and> enr_token_digest e = sha256_hex cd tok"
    using assms(2)
  proof
    assume "cp_consume_enrollment cd cp g tok n dn pf ser ex sb now s = (Inr r, t)"
    then obtain u where "consume_enrollment cd (cp_company_id cp) tok n dn pf ser ex sb now s = (Inr (node, cert), u)"
      "enrollments t = enrollments u"
      by (auto simp: cp_consume_enrollment_def gated_Inr r)
    then show ?thesis using consume_enrollment_good(2) [OF inv] by fastforce
  next
    assume "cp_consume_enrollment_csr cd csr cp g tok n dn pem ser ex sb now s = (Inr r, t)"
    then obtain u fp where "consume_enrollment_csr cd (cp_company_id cp) tok n dn fp (sha256_hex cd pem) ser ex sb now s
        = (Inr (node, cert), u)" "enrollments t = enrollments u"
      by (auto simp: cp_consume_enrollment_csr_def gated_Inr check_eq_Inr r)
    then show ?thesis using consume_csr_good(2) [OF inv] by fastforce
  qed
  then obtain i e where "bt_get (enrollments t) i = Some (consumed_by n now e)" "enr_token_digest e = sha256_hex cd tok"
    by blast
  then show thesis using that [of i "consumed_by n now e"] step by simp
qed

lemma claim_consumed:
  assumes "enrollments_inv u" and "bt_get (enrollments u) i = Some e" and "enr_token_digest e = digest"
    and "enr_status e = EnrollmentIsConsumed"
  shows "claim_enrollment c digest now u \<noteq> (Inr x, v)"
proof
  assume f: "claim_enrollment c digest now u = (Inr x, v)"
  obtain j d where x: "x = (j, d)" by (cases x)
  note C = claim_enrollment_Inr [OF assms(1) f [unfolded x]]
  have k: "bt_keyed enr_id (enrollments u)" using assms(1) by (simp add: enrollments_inv_def)
  then have "d \<in> set (bt_values (enrollments u))" "e \<in> set (bt_values (enrollments u))"
    using C(2) assms(2) bt.get_vals [of enr_id "enrollments u"] by blast+
  then have "d = e" using assms(1,3) C(5) by (auto simp: enrollments_inv_def)
  then show False using C(4) assms(4) by simp
qed

text \<open>
  C28. An enrollment token enrolls one Node. After a token was consumed, by either way, no later
  attempt to consume it succeeds, for no Node, in no later state.
\<close>

theorem token_single_use:
  assumes "reachable cd csr limits s"
    and "cp_consume_enrollment cd cp g tok n dn pf ser ex sb now s = (Inr r, t)
      \<or> cp_consume_enrollment_csr cd csr cp g tok n dn pem ser ex sb now s = (Inr r, t)"
    and "fabric_run cd csr limits t u"
  shows "refused (cp_consume_enrollment cd cp' g' tok n' dn' pf' ser' ex' sb' now' u) u
    \<and> refused (cp_consume_enrollment_csr cd csr cp' g' tok n' dn' pem' ser' ex' sb' now' u) u"
proof -
  obtain i e where e: "bt_get (enrollments t) i = Some e" "enr_token_digest e = sha256_hex cd tok"
    "enr_status e = EnrollmentIsConsumed" "fabric_step cd csr limits s t"
    by (rule consumed_token [OF assms(1,2)])
  have t: "reachable cd csr limits t" using reachable_run [OF assms(1) run_step [OF e(4)]] .
  have "enrollments_ext t u" using run_ext_fabric [OF t assms(3)] by (simp add: fabric_ext_def authority_ext_def)
  then have "bt_get (enrollments u) i = Some e" using e(1,3) unfolding enrollments_ext_def by force
  moreover have "enrollments_inv u"
    using reachable_authority [OF reachable_run [OF t assms(3)]] by (simp add: authority_inv_def)
  ultimately have no: "claim_enrollment c (sha256_hex cd tok) now' u \<noteq> (Inr x, v)" for c x v
    using e(2,3) claim_consumed by blast
  have "refused (cp_consume_enrollment cd cp' g' tok n' dn' pf' ser' ex' sb' now' u) u"
    unfolding cp_consume_enrollment_def
    by (rule gated_refused) (auto simp: consume_enrollment_def check_eq_Inr andThen_eq_Inr no)
  moreover have "refused (gated cp' g' now' (consume_enrollment_csr cd (cp_company_id cp') tok n' dn' fp
      (sha256_hex cd pem') ser' ex' sb' now') u) u" for fp
    by (rule gated_refused) (auto simp: consume_enrollment_csr_def check_eq_Inr andThen_eq_Inr no)
  ultimately show ?thesis unfolding cp_consume_enrollment_csr_def by (intro conjI check_refused_all)
qed

theorem token_single_use_witness:
  "refused (cp_consume_enrollment_csr sample_codec sample_csr sample_cp 1 sample_token ''n2'' ''Node''
     (replicate 32 CHR ''p'') ''c9'' 500000 ''sb'' 1010 (snd run4)) (snd run4)"
proof -
  obtain r where "run3 = (Inr r, snd run3)" using committed_Inr [OF committed3] ..
  then have c: "cp_consume_enrollment_csr sample_codec sample_csr sample_cp 1 sample_token ''n1'' ''Node''
     (replicate 32 CHR ''p'') sample_serial 500000 ''sb'' 1002 (snd run2) = (Inr r, snd run3)"
    unfolding run3_def by assumption
  obtain w where "run4 = (Inr w, snd run4)" using committed_Inr [OF committed4] ..
  then have "connect_gateway_mtls sample_codec sample_cp 1 (sample_peer sample_serial)
     (sample_hello sample_serial 1) 1003 (snd run3) = (Inr w, snd run4)"
    unfolding run4_def by assumption
  from token_single_use [OF reach2 disjI2 [OF c] run_step [OF fabric_step.connect_mtls [OF this]]]
  show ?thesis by (rule conjunct2)
qed

end
