(* ===== verification/Gateway_Properties.thy ===== *)
theory Gateway_Properties
  imports Sample_Run
begin

text \<open>
  What a reconnecting Node finds: the work its dead gateway generation left behind is handed to the
  new one.
\<close>

section \<open>Handing over queued work\<close>

text \<open>An attempt that may still be delivered, but is addressed to another generation of the gateway.\<close>

definition stranded :: "FabricState \<Rightarrow> string \<Rightarrow> u64 \<Rightarrow> RouteAttempt \<Rightarrow> bool" where
  "stranded s n gg a \<longleftrightarrow> a \<in> set (bt_values (attempts s)) \<and> att_target_node_id a = n
     \<and> in_flight (att_state a) \<and> att_effect a = EffectNone \<and> att_target_gateway_generation a \<noteq> gg"

lemma in_flight_not_ended [simp]: "\<not> in_flight AttemptEnded"
  by (simp add: in_flight_def)

lemma retry_clears:
  assumes inv: "route_inv s" and gw: "bt_get (gateway_leases s) n = Some lease"
    and f: "retry_operation c g i now s = (Inr r, t)"
    and a: "stranded t n (gwl_gateway_generation lease) a"
  shows "stranded s n (gwl_gateway_generation lease) a \<and> att_operation_id a \<noteq> i"
  using f
proof (cases rule: retry_cases)
  case (replay operation gateway prior receipt)
  note adm = retry_admission_Inr [OF replay(1)]
  have "att_operation_id a \<noteq> i"
  proof
    assume i: "att_operation_id a = i"
    then have "a = prior"
      using latest_attempt_Some(4) [OF inv, of i prior a] adm a replay(5)
      by (auto simp: stranded_def)
    moreover have "gateway = lease"
      using adm i a latest_below_lease(2) [OF inv, of i prior operation gateway] calculation gw
      by (auto simp: stranded_def)
    ultimately show False using replay(2) a by (simp add: stranded_def)
  qed
  then show ?thesis using a replay(5) by simp
next
  case (new operation gateway prior attempt receipt)
  note adm = retry_admission_Inr [OF new(1)]
  note prior = latest_attempt_Some [OF inv adm(3)]
  have keyed: "bt_keyed att_id (attempts s)" using inv by (simp add: route_inv_def)
  have fresh: "att_target_node_id attempt = op_target_node_id operation"
    "att_target_gateway_generation attempt = gwl_gateway_generation gateway"
    and t: "attempts t = bt_insert (att_id attempt) attempt
              (bt_insert (att_id prior) (end_superseded now prior) (attempts s))"
    using new(5) prior(3) by (auto simp: retry_write_def Let_def bt_modify_def)
  have ended: "att_id (end_superseded now prior) = att_id prior"
    "att_state (end_superseded now prior) = AttemptEnded"
    by (simp_all add: end_superseded_def)
  have mid: "bt_keyed att_id (bt_insert (att_id prior) (end_superseded now prior) (attempts s))"
    using bt_keyed_insert [OF keyed, of "end_superseded now prior"] ended(1) by simp
  have "a \<in> set (bt_values (attempts t))" using a by (simp add: stranded_def)
  then have "a = attempt \<or> a \<in> set (bt_values (bt_insert (att_id (end_superseded now prior))
      (end_superseded now prior) (attempts s)))"
    unfolding t ended(1) bt.vals_ins [OF mid] by blast
  then consider "a = attempt" | "a = end_superseded now prior"
    | "a \<in> set (bt_values (attempts s))" "att_id a \<noteq> att_id prior"
    using bt.vals_ins [OF keyed, of "end_superseded now prior"] unfolding ended(1) by blast
  then show ?thesis
  proof cases
    case 1
    then have "gateway = lease" using a fresh(1) adm(2) gw by (simp add: stranded_def)
    then show ?thesis using a 1 fresh(2) by (simp add: stranded_def)
  next
    case 2
    then show ?thesis using a ended(2) by (simp add: stranded_def)
  next
    case 3
    then have "att_operation_id a = i \<Longrightarrow> att_state a = AttemptEnded" using prior(4) by blast
    then show ?thesis using a 3(1) by (auto simp: stranded_def)
  qed
qed

lemma has_receipt_mono:
  assumes "route_inv s" and "route_good s t" and "has_receipt s i P"
  shows "has_receipt t i P"
proof -
  obtain r where r: "r \<in> set (bt_values (receipts s))" "rcp_operation_id r = i" "P (rcp_kind r)"
    using assms(3) by (auto simp: has_receipt_def list_ex_iff)
  have "bt_get (receipts s) (rcp_id r) = Some r"
    using r(1) assms(1) bt_keyed_vals [of rcp_id "receipts s"] by (simp add: route_inv_def)
  then have "bt_get (receipts t) (rcp_id r) = Some r"
    using assms(2) bt_extendsD by (auto simp: route_good_def history_ext_def)
  then have "r \<in> set (bt_values (receipts t))"
    using assms(2) bt.get_vals [of rcp_id "receipts t"] by (simp add: route_good_def route_inv_def)
  then show ?thesis using r by (auto simp: has_receipt_def list_ex_iff)
qed

lemma retry_all_clears:
  assumes "route_inv s" and "bt_get (gateway_leases s) n = Some lease" and "retry_all c g now ids s = (Inr u, t)"
    and "stranded t n (gwl_gateway_generation lease) a"
  shows "stranded s n (gwl_gateway_generation lease) a \<and> att_operation_id a \<notin> set ids"
  using assms
proof (induction ids arbitrary: s)
  case (Cons i ids)
  obtain r v where one: "retry_operation c g i now s = (Inr r, v)" and rest: "retry_all c g now ids v = (Inr u, t)"
    using Cons.prems(3) by (auto simp: andThen_eq_Inr)
  have "route_inv v" using retry_good [OF Cons.prems(1) one] by (simp add: route_good_def)
  moreover have "bt_get (gateway_leases v) n = Some lease" using retry_frame [OF one] Cons.prems(2) by simp
  ultimately have "stranded v n (gwl_gateway_generation lease) a" "att_operation_id a \<notin> set ids"
    using Cons.IH rest Cons.prems(4) by blast+
  then show ?case using retry_clears [OF Cons.prems(1,2) one] by simp
qed simp

lemma stranded_rebindable:
  assumes inv: "route_inv s" and a: "stranded s n gg a"
    and op: "bt_get (operations s) (att_operation_id a) = Some operation" "op_company_id operation = c"
      "now < op_expires_at_unix_ms operation"
    and none: "\<not> has_receipt s (att_operation_id a) is_settled_kind"
  shows "att_operation_id a \<in> set (rebindable_operations s c n gg now)"
proof -
  let ?i = "att_operation_id a"
  have mem: "a \<in> set (bt_values (attempts s))" using a by (simp add: stranded_def)
  have "operation_attempts s ?i \<noteq> []" using mem operation_attempts_mem [of a s ?i] by auto
  then obtain l where l: "latest_attempt s ?i = Some l"
    unfolding latest_attempt_def by (cases "max_by_key att_attempt_no (operation_attempts s ?i)") auto
  have "a = l" using latest_attempt_Some(4) [OF inv l mem refl] a by (auto simp: stranded_def)
  moreover have row: "op_id operation = ?i" "operation \<in> set (bt_values (operations s))"
    using inv op(1) bt.get_key [of op_id "operations s"] bt.get_vals [of op_id "operations s"]
    by (simp_all add: route_inv_def)
  moreover have "op_target_node_id operation = n"
    using route_attempt_row [OF inv mem] op(1) a by (auto simp: stranded_def attempt_row_def)
  ultimately have "op_company_id operation = c \<and> op_target_node_id operation = n
      \<and> op_expires_at_unix_ms operation > now
      \<and> (case last_by_key att_attempt_no (operation_attempts s (op_id operation)) of
           None \<Rightarrow> False
         | Some latest \<Rightarrow> att_target_gateway_generation latest \<noteq> gg \<and> att_effect latest = EffectNone
             \<and> in_flight (att_state latest) \<and> \<not> has_receipt s (op_id operation) is_settled_kind)"
    using op(2,3) none a l by (simp add: latest_attempt_eq stranded_def)
  then show ?thesis using row unfolding rebindable_operations_def by force
qed

text \<open>
  C29. Reconnecting loses no work. After a Node connects under a new gateway generation, every attempt
  towards it that can still be delivered (queued or sent, without effect, of an unexpired operation
  that the target has not confirmed) is addressed to the generation the Node was welcomed with;
  nothing is left behind on a dead session.
\<close>

theorem connect_hands_over_queued_work:
  assumes "reachable cd csr limits s"
    and "connect_gateway_mtls cd cp g peer hello now s = (Inr w, t)"
    and "a \<in> set (bt_values (attempts t))" and "att_target_node_id a = hello_node_id hello"
    and "in_flight (att_state a)" and "att_effect a = EffectNone"
    and "bt_get (operations t) (att_operation_id a) = Some operation"
    and "op_company_id operation = cp_company_id cp" and "now < op_expires_at_unix_ms operation"
    and "\<not> has_receipt t (att_operation_id a) is_settled_kind"
  shows "att_target_gateway_generation a = wel_gateway_generation w"
proof -
  have inv: "route_inv s" by (rule reachable_route [OF assms(1)])
  obtain v where v: "connect_verified cd (cp_company_id cp) g peer hello now s = (Inr w, v)"
    and t: "t = v\<lparr>revision := sat_add (revision s) 1\<rparr>"
    using assms(2) by (auto simp: connect_gateway_mtls_def connect_mtls_def gated_Inr)
  from v show ?thesis
  proof (cases rule: connect_verified_Inr)
    case (1 node u v' rs lease)
    let ?n = "hello_node_id hello" and ?g = "gwl_gateway_generation lease"
    have u: "route_inv u" "bt_get (gateway_leases u) ?n = Some lease"
      using connect_expired_inv [OF inv 1(1,2,4)] by blast+
    have v': "attempts v' = attempts t" "receipts v' = receipts t" "operations v' = operations t"
      using 1(6) t by simp_all
    have good: "route_good u v'" using retry_all_good [OF u(1) 1(5)] by simp
    have w: "wel_gateway_generation w = ?g" using 1(7) by (simp add: gateway_welcome_def)
    show ?thesis
    proof (rule ccontr)
      assume "att_target_gateway_generation a \<noteq> wel_gateway_generation w"
      then have "stranded v' ?n ?g a" using assms(3-6) v'(1) w by (simp add: stranded_def)
      then have left: "stranded u ?n ?g a" "att_operation_id a
          \<notin> set (rebindable_operations u (cp_company_id cp) ?n ?g now)"
        using retry_all_clears [OF u 1(5)] by blast+
      obtain old where "bt_get (operations u) (att_operation_id a) = Some old"
        using route_attempt_row [OF u(1), of a] left(1) by (auto simp: stranded_def attempt_row_def)
      moreover from this have "bt_get (operations v') (att_operation_id a) = Some old"
        using good bt_extendsD by (auto simp: route_good_def history_ext_def)
      moreover have "\<not> has_receipt u (att_operation_id a) is_settled_kind"
      proof
        assume "has_receipt u (att_operation_id a) is_settled_kind"
        then have "has_receipt v' (att_operation_id a) is_settled_kind" by (rule has_receipt_mono [OF u(1) good])
        then show False using assms(10) v'(2) by (simp add: has_receipt_def)
      qed
      ultimately show False
        using stranded_rebindable [OF u(1) left(1)] left(2) assms(7-9) v'(3) by simp
    qed
  qed
qed

text \<open>The state in which the sample Node has just reconnected.\<close>

definition handed_over :: "NodeWelcome \<Rightarrow> FabricState \<Rightarrow> bool" where
  "handed_over w s \<longleftrightarrow>
     (case (bt_values (attempts s), bt_get (operations s) ''op1'') of
        ([old, a], Some operation) \<Rightarrow>
          wel_gateway_generation w = 2 \<and> att_target_gateway_generation old = 1
          \<and> att_target_node_id a = ''n1'' \<and> in_flight (att_state a) \<and> att_effect a = EffectNone
          \<and> att_operation_id a = ''op1'' \<and> op_company_id operation = ''co''
          \<and> 31502 < op_expires_at_unix_ms operation \<and> \<not> has_receipt s ''op1'' is_settled_kind
      | _ \<Rightarrow> False)"

lemma handed_over9: "handed_over (projr (fst alt9)) (snd alt9)" by code_simp

theorem connect_hands_over_queued_work_witness:
  "\<exists>old a. bt_values (attempts (snd alt9)) = [old, a] \<and> att_target_gateway_generation old = 1
     \<and> in_flight (att_state a) \<and> att_target_gateway_generation a = 2"
proof -
  obtain w where w: "alt9 = (Inr w, snd alt9)" using committed_Inr [OF alt_committed9] ..
  then have c: "connect_gateway_mtls sample_codec sample_cp 1 (sample_peer ''c2'') (sample_hello ''c2'' 2) 31502
      (snd alt8) = (Inr w, snd alt9)"
    unfolding alt9_def by assumption
  have "projr (fst alt9) = w" using arg_cong [OF w, of fst] by (simp only: fst_conv sum.sel)
  with handed_over9 have "handed_over w (snd alt9)" by (simp only:)
  then obtain old a operation where vals: "bt_values (attempts (snd alt9)) = [old, a]"
    and old: "att_target_gateway_generation old = 1" and g: "wel_gateway_generation w = 2"
    and a: "att_target_node_id a = ''n1''" "in_flight (att_state a)" "att_effect a = EffectNone" "att_operation_id a = ''op1''"
    and o: "bt_get (operations (snd alt9)) ''op1'' = Some operation" "op_company_id operation = ''co''"
      "31502 < op_expires_at_unix_ms operation"
    and r: "\<not> has_receipt (snd alt9) ''op1'' is_settled_kind"
    unfolding handed_over_def by (auto split: list.split_asm option.split_asm)
  have "a \<in> set (bt_values (attempts (snd alt9)))" unfolding vals by simp
  from connect_hands_over_queued_work [OF alt_reach8 c this _ a(2,3)] a o r g
  have "att_target_gateway_generation a = 2" by (simp add: sample_hello_def sample_cp_def)
  then show ?thesis using vals old a(2) by (intro exI conjI)
qed

end
