(* ===== verification/Artifact_Properties.thy ===== *)
theory Artifact_Properties
  imports Sample_Run
begin

text \<open>
  What the object store guarantees: an issued capability passes its own check, a completed artifact
  can be read back as it was written for as long as it is retained, and two ways in which a token
  that is spelled differently gets past the one-use rule or brings the check down.
\<close>

section \<open>Hexadecimal text\<close>

lemma hex_value_digit: "d < 16 \<Longrightarrow> hex_value (hex_digit d) = Some d"
  by (auto simp: hex_digit_def hex_value_def Let_def)

lemma hexdigit_plain: "ascii_hexdigit c \<Longrightarrow> c \<noteq> CHR ''+'' \<and> c \<noteq> CHR ''.'' \<and> \<not> continuation_byte c"
  by (auto simp: ascii_hexdigit_def continuation_byte_def Let_def)

lemma radix_pair_byte: "radix_pair (hex_digit (of_char b div 16)) (hex_digit (of_char b mod 16)) = Some b"
proof -
  have "char_of (16 * (of_char b div 16) + of_char b mod 16 :: nat) = b" by simp
  then show ?thesis
    using hexdigit_plain [OF hex_digit_ascii [OF byte_halves(1) [of b]]]
    by (simp add: radix_pair_def hex_value_digit byte_halves)
qed

lemma decode_pairs_hex: "decode_pairs (bytes_to_hex bs) = Inr (Some bs)"
proof (induction bs)
  case (Cons b bs)
  have "\<not> (bytes_to_hex bs \<noteq> [] \<and> continuation_byte (hd (bytes_to_hex bs)))"
    using hexdigit_plain bytes_to_hex_ascii hd_in_set by blast
  then show ?case using Cons radix_pair_byte [of b] by (simp add: bytes_to_hex_def)
qed (simp add: bytes_to_hex_def)

lemma decode_hex_of_bytes: "decode_hex (bytes_to_hex bs) = Inr (Some bs)"
  by (simp add: decode_hex_def decode_pairs_hex length_bytes_to_hex)

lemma hex_no_dot: "CHR ''.'' \<notin> set (bytes_to_hex bs)"
  using hexdigit_plain bytes_to_hex_ascii by blast

lemma split_once_first: "sep \<notin> set before \<Longrightarrow> split_once sep (before @ sep # after) = Some (before, after)"
  by (induction before) auto

section \<open>Capabilities\<close>

lemma canonical_digest_hex: "canonical_digest cd j = Inr d \<Longrightarrow> \<exists>bs. d = bytes_to_hex bs"
  by (auto simp: canonical_digest_def sha256_hex_def bindR_eq_Inr)

lemma verify_capability_Inr:
  assumes "cap_token capability = d @ ''.'' @ h" and "CHR ''.'' \<notin> set d"
  shows "verify_capability cd v s capability purpose now = Inr () \<longleftrightarrow>
     cap_purpose capability = purpose \<and> now < cap_expires_at_unix_ms capability
     \<and> sha256_hex cd (cap_token capability) \<notin> consumed_capabilities s
     \<and> canonical_digest cd (Inr (capability_claims capability)) = Inr d
     \<and> (\<exists>signature mac. decode_hex h = Inr (Some signature) \<and> signing_mac v = Inr mac \<and> signature = mac d)"
  using split_once_first [OF assms(2), of h]
  by (auto simp: verify_capability_def bindR_eq_Inr assms(1) not_le)

lemma issue_capability_Inr:
  assumes "issue_capability cd v m n purpose who now one_use = Inr capability"
  obtains d mac where "canonical_digest cd (Inr (capability_claims capability)) = Inr d" "signing_mac v = Inr mac"
    "cap_token capability = d @ ''.'' @ bytes_to_hex (mac d)" "cap_purpose capability = purpose"
    "cap_artifact_id capability = art_id m"
  using assms by (auto simp: issue_capability_def bindR_eq_Inr Let_def capability_claims_def)

lemma issued_capability_verifies:
  assumes "issue_capability cd v m n purpose who now one_use = Inr capability"
    and "later < cap_expires_at_unix_ms capability"
    and "sha256_hex cd (cap_token capability) \<notin> consumed_capabilities s"
  shows "verify_capability cd v s capability purpose later = Inr ()"
  using assms(1)
proof (cases rule: issue_capability_Inr)
  case (1 d mac)
  have "CHR ''.'' \<notin> set d" using canonical_digest_hex [OF 1(1)] hex_no_dot by auto
  then show ?thesis
    using verify_capability_Inr [OF 1(3)] 1(1,2,4) assms(2,3) decode_hex_of_bytes by blast
qed

lemma issue_download_Inr:
  assumes "issue_download_capability cd v cp actor g i n now s = (Inr capability, t)"
  obtains m where "bt_get (artifacts s) i = Some m" "art_deleted_at_unix_ms m = None"
    "issue_capability cd v m n PurposeDownload (act_actor_id actor) now True = Inr capability"
    "t = s\<lparr>revision := sat_add (revision s) 1\<rparr>"
  using assms
  by (auto simp: issue_download_capability_def issue_download_capability_from_state_def gated_Inr bindR_eq_Inr)

section \<open>Round trip\<close>

text \<open>The cipher gives back what it encrypted under the same key and nonce.\<close>

definition cipher_inverts :: "vault \<Rightarrow> bool" where
  "cipher_inverts v \<longleftrightarrow>
     (\<forall>key nonce plain cipher. cipher_encrypt v key nonce plain = Some cipher
        \<longrightarrow> cipher_decrypt v key nonce cipher = Some plain)"

lemma download_stored:
  assumes "key_for_company v (cp_company_id cp) = Inr k"
    and "require_active_control_plane s (cp_company_id cp) (cp_instance_id cp) g now = Inr lease"
    and "verify_capability cd v s cap PurposeDownload now = Inr ()"
    and "bt_get (artifacts s) (cap_artifact_id cap) = Some m"
    and "art_deleted_at_unix_ms m = None" and "\<not> retention_closed m now"
    and "bt_get (encrypted_artifacts s) (cap_artifact_id cap) = Some e"
    and "cipher_decrypt v k (enc_nonce e) (enc_ciphertext e) = Some bs" and "sha256_hex cd bs = art_sha256 m"
  shows "download_artifact cd v cp g cap now s
    = (Inr bs, (consume_capability cd cap s)\<lparr>revision := sat_add (revision s) 1\<rparr>)"
  using assms by (simp add: download_artifact_def guarded_def require_manifest_def artifact_manifest_def)

lemma completed_object_kept:
  assumes "reachable cd csr limits s" and "complete_artifact cd v cp g cap bs now s = (Inr m, t)"
    and "fabric_run cd csr limits t u"
  obtains k e m' where "key_for_company v (cp_company_id cp) = Inr k"
    "cipher_encrypt v k (enc_nonce e) bs = Some (enc_ciphertext e)"
    "bt_get (encrypted_artifacts u) (art_id m) = Some e"
    "bt_get (artifacts u) (art_id m) = Some m'" "art_sha256 m' = sha256_hex cd bs"
  using assms(2)
proof (cases rule: complete_artifact_Inr)
  case (1 k m0 c)
  have "fabric_step cd csr limits s t" using assms(2) fabric_step.artifact artifact_step.complete by blast
  then have "reachable cd csr limits t" using assms(1) by (auto simp: reachable_def fabric_run_def)
  then have ext: "object_ext t u" using run_ext_fabric assms(3) by (auto simp: fabric_ext_def)
  have t: "bt_get (encrypted_artifacts t) (art_id m) = Some \<lparr>enc_nonce = artifact_nonce cd m0, enc_ciphertext = c\<rparr>"
    "bt_get (artifacts t) (art_id m) = Some m"
    by (simp_all add: 1(6))
  obtain m' where m': "bt_get (artifacts u) (art_id m) = Some m'" "manifest_ext m m'"
    using ext t(2) unfolding object_ext_def by blast
  have "art_sha256 m' = sha256_hex cd bs"
    using m'(2) 1(3,5) by (simp add: manifest_ext_def upload_mismatch_def)
  then show thesis
    using that [of k "\<lparr>enc_nonce = artifact_nonce cd m0, enc_ciphertext = c\<rparr>"] ext t(1) m'(1) 1(1,4)
    by (simp add: object_ext_def)
qed

text \<open>
  C33. A completed artifact stays readable as it was written. In every later state of the run,
  whatever else happened, a download capability issued for it returns exactly the uploaded bytes
  while the capability is fresh, its token was not used and the artifact is retained, by a Control
  Plane whose lease is current. The cipher must invert its own encryption.
\<close>

theorem artifact_round_trip:
  assumes "cipher_inverts v" and "reachable cd csr limits s"
    and "complete_artifact cd v cp g cap bs now s = (Inr m, t)"
    and "fabric_run cd csr limits t u"
    and "issue_download_capability cd v cp actor g1 (art_id m) n issued u = (Inr download, w)"
    and "later < cap_expires_at_unix_ms download"
    and "sha256_hex cd (cap_token download) \<notin> consumed_capabilities w"
    and "require_active_control_plane w (cp_company_id cp) (cp_instance_id cp) g1 later = Inr lease"
    and "\<not> retention_closed (the (bt_get (artifacts w) (art_id m))) later"
  shows "\<exists>x. download_artifact cd v cp g1 download later w = (Inr bs, x)"
proof -
  obtain k e m' where o: "key_for_company v (cp_company_id cp) = Inr k"
    "cipher_encrypt v k (enc_nonce e) bs = Some (enc_ciphertext e)"
    "bt_get (encrypted_artifacts u) (art_id m) = Some e"
    "bt_get (artifacts u) (art_id m) = Some m'" "art_sha256 m' = sha256_hex cd bs"
    using completed_object_kept [OF assms(2,3,4)] .
  obtain m1 where i: "bt_get (artifacts u) (art_id m) = Some m1" "art_deleted_at_unix_ms m1 = None"
    "issue_capability cd v m1 n PurposeDownload (act_actor_id actor) issued True = Inr download"
    "w = u\<lparr>revision := sat_add (revision u) 1\<rparr>"
    using issue_download_Inr [OF assms(5)] .
  have "m1 = m'" using i(1) o(4) by simp
  have "object_inv u"
  proof -
    have "fabric_step cd csr limits s t" using assms(3) fabric_step.artifact artifact_step.complete by blast
    then have "reachable cd csr limits u"
      using assms(2,4) by (auto simp: reachable_def fabric_run_def)
    then show ?thesis using reachable_inv_fabric by (auto simp: fabric_inv_def)
  qed
  then have "art_id m1 = art_id m" using i(1) by (simp add: object_inv_def bt_keyed_def)
  then have a: "cap_artifact_id download = art_id m" using i(3) by (auto elim: issue_capability_Inr)
  have "cipher_decrypt v k (enc_nonce e) (enc_ciphertext e) = Some bs"
    using assms(1) o(2) unfolding cipher_inverts_def by blast
  then show ?thesis
    using download_stored [OF o(1) assms(8) issued_capability_verifies [OF i(3) assms(6,7)], of m' e bs]
      a i o assms(9) \<open>m1 = m'\<close> by simp
qed

section \<open>A sample object\<close>

text \<open>
  Small total functions for the packages: the hash and the signature keep the tail of their input,
  the cipher writes the nonce in front of the text.
\<close>

definition tail_of :: "nat \<Rightarrow> bytes \<Rightarrow> bytes" where
  "tail_of n bs = drop (length bs) (replicate n CHR ''-'' @ bs)"

definition object_codec :: codec where
  "object_codec = sample_codec\<lparr>sha256 := tail_of 32,
     json_to_vec := (\<lambda>j. case j of
        JString s \<Rightarrow> Inr s
      | JObject es \<Rightarrow> Inr (concat (map (\<lambda>e. case snd e of JString s \<Rightarrow> s | _ \<Rightarrow> []) es))
      | _ \<Rightarrow> Inr [])\<rparr>"

definition object_vault :: vault where
  "object_vault =
     \<lparr>capability_signing_key = replicate 32 CHR ''s'', mac_new = (\<lambda>key. Some (\<lambda>d. tail_of 15 d @ [CHR 0xAB])),
      key_for_company = in_memory_key_for_company (in_memory_insert ''co'' (replicate 32 CHR ''k'') []),
      cipher_encrypt = (\<lambda>key nonce plain. Some (nonce @ plain)),
      cipher_decrypt = (\<lambda>key nonce cipher.
        if take (length nonce) cipher = nonce then Some (drop (length nonce) cipher) else None)\<rparr>"

lemma object_cipher: "cipher_inverts object_vault"
  by (simp add: cipher_inverts_def object_vault_def)

definition object_actor :: AuthenticatedActor where
  "object_actor = sample_actor\<lparr>act_role_bindings := {''company_host'', ''artifact_write'', ''artifact_read''}\<rparr>"

definition object_bytes :: bytes where
  "object_bytes = ''the report''"

definition obj2 where
  "obj2 = create_enrollment_bound object_codec sample_cp object_actor 1 ''e1'' sample_token ''node''
     {''artifact-transfer''} ''d'' 1 100000 1001 (snd run1)"
definition obj3 where
  "obj3 = cp_consume_enrollment_csr object_codec sample_csr sample_cp 1 sample_token ''n1'' ''Node''
     (replicate 32 CHR ''p'') sample_serial 500000 ''sb'' 1002 (snd obj2)"
definition obj4 where
  "obj4 = initiate_artifact object_codec object_vault default_limits sample_cp object_actor 1 ''a1'' ''n1'' None
     ''text/plain'' 10 (sha256_hex object_codec object_bytes) CompanyInternal {''ada''} 1003 (snd obj3)"
definition obj5 where
  "obj5 = complete_artifact object_codec object_vault sample_cp 1 (snd (projr (fst obj4))) object_bytes 1004 (snd obj4)"
definition obj6 where
  "obj6 = issue_download_capability object_codec object_vault sample_cp object_actor 1 ''a1'' ''n1'' 1005 (snd obj5)"
definition obj7 where
  "obj7 = download_artifact object_codec object_vault sample_cp 1 (projr (fst obj6)) 1006 (snd obj6)"

text \<open>The values after the manifest was created and after the download capability was issued.\<close>

lemma obj4_value [code]: "obj4 =
     (Inr (\<lparr>art_id = ''a1'', art_company_id = ''co'', art_source_node_id = ''n1'',
     art_source_team_id = None, art_source_work_id = None, art_operation_id = None, art_media_type =
     ''text/plain'', art_size_bytes = 10, art_sha256 =
     ''2d2d2d2d2d2d2d2d2d2d2d2d2d2d2d2d2d2d2d2d2d2d746865207265706f7274'', art_classification =
     CompanyInternal, art_initiator = ''ada'', art_authorized_readers = {''ada''}, art_created_by =
     ''ada'', art_created_at_unix_ms = 1003, art_expires_at_unix_ms = None, art_completed_at_unix_ms
     = None, art_deleted_at_unix_ms = None, art_revision = 1, art_schema_version =
     FABRIC_SCHEMA_VERSION\<rparr>, \<lparr>cap_token =
     ''38363532303732363537303666373237346131636f6164616e3175706c6f6164.653331373537303663366636313634ab'',
     cap_company_id = ''co'', cap_node_id = ''n1'', cap_artifact_id = ''a1'', cap_artifact_digest =
     ''2d2d2d2d2d2d2d2d2d2d2d2d2d2d2d2d2d2d2d2d2d2d746865207265706f7274'', cap_purpose =
     PurposeUpload, cap_issued_to = ''ada'', cap_issued_at_unix_ms = 1003, cap_expires_at_unix_ms =
     301003, cap_one_use = True\<rparr>), \<lparr>revision = 4, authority_company_id = Some ''co'',
     control_plane_leases = [(''co'', \<lparr>cpl_company_id = ''co'', cpl_lease_id = ''l1'',
     cpl_instance_id = ''cp1'', cpl_control_plane_generation = 1, cpl_revision = 1,
     cpl_acquired_at_unix_ms = 1000, cpl_expires_at_unix_ms = 31000, cpl_last_heartbeat_at_unix_ms =
     1000, cpl_schema_version = FABRIC_SCHEMA_VERSION\<rparr>)], enrollments = [(''e1'',
     \<lparr>enr_id = ''e1'', enr_company_id = ''co'', enr_token_digest =
     ''7474747474747474747474747474747474747474747474747474747474747474'', enr_requested_name =
     ''node'', enr_allowed_capabilities = {''artifact-transfer''}, enr_authorized_node_daemon_id =
     ''d'', enr_authorized_node_daemon_generation = 1, enr_created_by = ''ada'',
     enr_expires_at_unix_ms = 100000, enr_consumed_at_unix_ms = Some 1002, enr_consumed_by_node_id =
     Some ''n1'', enr_status = EnrollmentIsConsumed, enr_revision = 2, enr_schema_version =
     FABRIC_SCHEMA_VERSION, enr_created_at_unix_ms = 1001, enr_updated_at_unix_ms = 1002\<rparr>)],
     nodes = [(''n1'', \<lparr>node_id = ''n1'', node_company_id = ''co'', node_display_name =
     ''Node'', node_public_key_fingerprint =
     ''aaaaaaaaaaaaaaaaaaaaaaaaaaaaaaaaaaaaaaaaaaaaaaaaaaaaaaaaaaaaaaaa'', node_certificate_serial =
     ''c1'', node_allowed_capabilities = {''artifact-transfer''}, node_administrative_status =
     NodeActive, node_revision = 1, node_enrolled_at_unix_ms = 1002, node_last_seen_at_unix_ms =
     None, node_revoked_at_unix_ms = None, node_revoke_reason = None, node_protocol_min = 1,
     node_protocol_max = 1, node_schema_bundle_digest = ''sb'', node_schema_version =
     FABRIC_SCHEMA_VERSION, node_created_at_unix_ms = 1002, node_updated_at_unix_ms =
     1002\<rparr>)], certificates = [(''c1'', \<lparr>cert_serial = ''c1'', cert_company_id =
     ''co'', cert_node_id = ''n1'', cert_public_key_fingerprint =
     ''aaaaaaaaaaaaaaaaaaaaaaaaaaaaaaaaaaaaaaaaaaaaaaaaaaaaaaaaaaaaaaaa'', cert_node_daemon_id =
     ''d'', cert_node_daemon_generation = 1, cert_issued_at_unix_ms = 1002, cert_expires_at_unix_ms
     = 500000, cert_revoked_at_unix_ms = None, cert_proof_of_possession_digest =
     ''7070707070707070707070707070707070707070707070707070707070707070'', cert_schema_version =
     FABRIC_SCHEMA_VERSION\<rparr>)], revoked_certificate_serials = {}, gateway_leases = [],
     operations = [], operation_idempotency = [], attempts = [], receipts = [], route_sequences =
     [], ordering_sequences = [], rate_windows = [], artifacts = [(''a1'', \<lparr>art_id = ''a1'',
     art_company_id = ''co'', art_source_node_id = ''n1'', art_source_team_id = None,
     art_source_work_id = None, art_operation_id = None, art_media_type = ''text/plain'',
     art_size_bytes = 10, art_sha256 =
     ''2d2d2d2d2d2d2d2d2d2d2d2d2d2d2d2d2d2d2d2d2d2d746865207265706f7274'', art_classification =
     CompanyInternal, art_initiator = ''ada'', art_authorized_readers = {''ada''}, art_created_by =
     ''ada'', art_created_at_unix_ms = 1003, art_expires_at_unix_ms = None, art_completed_at_unix_ms
     = None, art_deleted_at_unix_ms = None, art_revision = 1, art_schema_version =
     FABRIC_SCHEMA_VERSION\<rparr>)], encrypted_artifacts = [], consumed_capabilities = {}\<rparr>)"
  by code_simp

lemma obj6_value [code]: "obj6 =
     (Inr \<lparr>cap_token =
     ''3532303732363537303666373237346131636f6164616e31646f776e6c6f6164.343666373736653663366636313634ab'',
     cap_company_id = ''co'', cap_node_id = ''n1'', cap_artifact_id = ''a1'', cap_artifact_digest =
     ''2d2d2d2d2d2d2d2d2d2d2d2d2d2d2d2d2d2d2d2d2d2d746865207265706f7274'', cap_purpose =
     PurposeDownload, cap_issued_to = ''ada'', cap_issued_at_unix_ms = 1005, cap_expires_at_unix_ms
     = 301005, cap_one_use = True\<rparr>, \<lparr>revision = 6, authority_company_id = Some ''co'',
     control_plane_leases = [(''co'', \<lparr>cpl_company_id = ''co'', cpl_lease_id = ''l1'',
     cpl_instance_id = ''cp1'', cpl_control_plane_generation = 1, cpl_revision = 1,
     cpl_acquired_at_unix_ms = 1000, cpl_expires_at_unix_ms = 31000, cpl_last_heartbeat_at_unix_ms =
     1000, cpl_schema_version = FABRIC_SCHEMA_VERSION\<rparr>)], enrollments = [(''e1'',
     \<lparr>enr_id = ''e1'', enr_company_id = ''co'', enr_token_digest =
     ''7474747474747474747474747474747474747474747474747474747474747474'', enr_requested_name =
     ''node'', enr_allowed_capabilities = {''artifact-transfer''}, enr_authorized_node_daemon_id =
     ''d'', enr_authorized_node_daemon_generation = 1, enr_created_by = ''ada'',
     enr_expires_at_unix_ms = 100000, enr_consumed_at_unix_ms = Some 1002, enr_consumed_by_node_id =
     Some ''n1'', enr_status = EnrollmentIsConsumed, enr_revision = 2, enr_schema_version =
     FABRIC_SCHEMA_VERSION, enr_created_at_unix_ms = 1001, enr_updated_at_unix_ms = 1002\<rparr>)],
     nodes = [(''n1'', \<lparr>node_id = ''n1'', node_company_id = ''co'', node_display_name =
     ''Node'', node_public_key_fingerprint =
     ''aaaaaaaaaaaaaaaaaaaaaaaaaaaaaaaaaaaaaaaaaaaaaaaaaaaaaaaaaaaaaaaa'', node_certificate_serial =
     ''c1'', node_allowed_capabilities = {''artifact-transfer''}, node_administrative_status =
     NodeActive, node_revision = 1, node_enrolled_at_unix_ms = 1002, node_last_seen_at_unix_ms =
     None, node_revoked_at_unix_ms = None, node_revoke_reason = None, node_protocol_min = 1,
     node_protocol_max = 1, node_schema_bundle_digest = ''sb'', node_schema_version =
     FABRIC_SCHEMA_VERSION, node_created_at_unix_ms = 1002, node_updated_at_unix_ms =
     1002\<rparr>)], certificates = [(''c1'', \<lparr>cert_serial = ''c1'', cert_company_id =
     ''co'', cert_node_id = ''n1'', cert_public_key_fingerprint =
     ''aaaaaaaaaaaaaaaaaaaaaaaaaaaaaaaaaaaaaaaaaaaaaaaaaaaaaaaaaaaaaaaa'', cert_node_daemon_id =
     ''d'', cert_node_daemon_generation = 1, cert_issued_at_unix_ms = 1002, cert_expires_at_unix_ms
     = 500000, cert_revoked_at_unix_ms = None, cert_proof_of_possession_digest =
     ''7070707070707070707070707070707070707070707070707070707070707070'', cert_schema_version =
     FABRIC_SCHEMA_VERSION\<rparr>)], revoked_certificate_serials = {}, gateway_leases = [],
     operations = [], operation_idempotency = [], attempts = [], receipts = [], route_sequences =
     [], ordering_sequences = [], rate_windows = [], artifacts = [(''a1'', \<lparr>art_id = ''a1'',
     art_company_id = ''co'', art_source_node_id = ''n1'', art_source_team_id = None,
     art_source_work_id = None, art_operation_id = None, art_media_type = ''text/plain'',
     art_size_bytes = 10, art_sha256 =
     ''2d2d2d2d2d2d2d2d2d2d2d2d2d2d2d2d2d2d2d2d2d2d746865207265706f7274'', art_classification =
     CompanyInternal, art_initiator = ''ada'', art_authorized_readers = {''ada''}, art_created_by =
     ''ada'', art_created_at_unix_ms = 1003, art_expires_at_unix_ms = None, art_completed_at_unix_ms
     = Some 1004, art_deleted_at_unix_ms = None, art_revision = 2, art_schema_version =
     FABRIC_SCHEMA_VERSION\<rparr>)], encrypted_artifacts = [(''a1'', \<lparr>enc_nonce =
     ''2d2d2d2d2d2d'', enc_ciphertext = ''2d2d2d2d2d2dthe report''\<rparr>)], consumed_capabilities
     = {''3635333333313337333533373330333636333336363633363331333633346162''}\<rparr>)"
  by code_simp

lemma obj_committed2: "committed obj2" by code_simp
lemma obj_committed3: "committed obj3" by code_simp
lemma obj_committed4: "committed obj4" by code_simp
lemma obj_committed5: "committed obj5" by code_simp
lemma obj_committed6: "committed obj6" by code_simp
lemma obj_committed7: "committed obj7" by code_simp

abbreviation object_reachable :: "FabricState \<Rightarrow> bool" where
  "object_reachable \<equiv> reachable object_codec sample_csr default_limits"

lemma obj_reach1: "object_reachable (snd run1)"
proof (rule reach_step [OF _ _ committed1])
  show "object_reachable default_state" by (simp add: reachable_def fabric_run_def)
qed (rule fabric_step.acquire, simp add: run1_def)

lemma obj_reach2: "object_reachable (snd obj2)"
  by (rule reach_step [OF obj_reach1 _ obj_committed2], rule fabric_step.enroll) (simp add: obj2_def)

lemma obj_reach3: "object_reachable (snd obj3)"
  by (rule reach_step [OF obj_reach2 _ obj_committed3], rule fabric_step.consume_csr) (simp add: obj3_def)

lemma obj_reach4: "object_reachable (snd obj4)"
  by (rule reach_step [OF obj_reach3 _ obj_committed4], rule fabric_step.artifact, rule artifact_step.initiate)
    (simp add: obj4_def)

theorem artifact_round_trip_witness:
  "\<exists>x. download_artifact object_codec object_vault sample_cp 1 (projr (fst obj6)) 1006 (snd obj6) = (Inr object_bytes, x)"
proof -
  obtain m where m: "obj5 = (Inr m, snd obj5)" using committed_Inr [OF obj_committed5] ..
  have i: "art_id m = ''a1''"
  proof -
    have "art_id (projr (fst obj5)) = ''a1''" by code_simp
    then show ?thesis by (subst (asm) m) simp
  qed
  obtain c where c: "obj6 = (Inr c, snd obj6)" using committed_Inr [OF obj_committed6] ..
  have p: "projr (fst obj6) = c" by (subst c) simp
  have facts: "1006 < cap_expires_at_unix_ms (projr (fst obj6))"
    "sha256_hex object_codec (cap_token (projr (fst obj6))) \<notin> consumed_capabilities (snd obj6)"
    "\<not> retention_closed (the (bt_get (artifacts (snd obj6)) ''a1'')) 1006"
    by code_simp+
  have "committed (require_active_control_plane (snd obj6) (cp_company_id sample_cp) (cp_instance_id sample_cp) 1 1006, ())"
    by code_simp
  then obtain lease where
    l: "require_active_control_plane (snd obj6) (cp_company_id sample_cp) (cp_instance_id sample_cp) 1 1006 = Inr lease"
    unfolding committed_def by (cases "require_active_control_plane (snd obj6) (cp_company_id sample_cp)
      (cp_instance_id sample_cp) 1 1006") simp_all
  have t: "complete_artifact object_codec object_vault sample_cp 1 (snd (projr (fst obj4))) object_bytes 1004 (snd obj4)
      = (Inr m, snd obj5)"
    using m unfolding obj5_def by assumption
  have u: "issue_download_capability object_codec object_vault sample_cp object_actor 1 (art_id m) ''n1'' 1005 (snd obj5)
      = (Inr c, snd obj6)"
    using c unfolding obj6_def i by assumption
  have run: "fabric_run object_codec sample_csr default_limits (snd obj5) (snd obj5)" by (simp add: fabric_run_def)
  show ?thesis unfolding p
    by (rule artifact_round_trip [OF object_cipher obj_reach4 t run u _ _ l]) (use facts in \<open>simp_all only: p i not_False_eq_True\<close>)
qed

section \<open>Spelling of a token\<close>

lemma require_active_consume:
  "require_active_control_plane ((consume_capability cd cap s)\<lparr>revision := r\<rparr>) = require_active_control_plane s"
  by (intro ext) (simp add: require_active_control_plane_def consume_capability_def)

text \<open>
  C38. One use of a download capability does not use it up. After a download with a one-use
  capability, the same token is refused as consumed; but a token with the same claims whose
  signature is another spelling of the same bytes (the hexadecimal digits in upper case, say) is
  accepted and returns the artifact again, because consumption is recorded for the text of the token
  and the check decodes it. The digests of the two texts must differ, as those of SHA-256 do.
\<close>

theorem respelled_token_downloads_again:
  assumes "download_artifact cd v cp g cap now s = (Inr bs, t)" and "cap_one_use cap"
    and "cap_token cap = d @ ''.'' @ h" and "CHR ''.'' \<notin> set d" and "decode_hex h' = decode_hex h"
    and "sha256_hex cd (d @ ''.'' @ h') \<notin> consumed_capabilities t"
  shows "(\<exists>e. download_artifact cd v cp g cap now t = (Inl (Failed e), t) \<and> err_code e = CapabilityConsumed)
    \<and> (\<exists>u. download_artifact cd v cp g (cap\<lparr>cap_token := d @ ''.'' @ h'\<rparr>) now t = (Inr bs, u))"
  using assms(1)
proof (cases rule: download_artifact_Inr)
  case (1 k m e)
  let ?cap = "cap\<lparr>cap_token := d @ ''.'' @ h'\<rparr>"
  obtain lease where active: "require_active_control_plane s (cp_company_id cp) (cp_instance_id cp) g now = Inr lease"
    using assms(1) by (auto simp: download_artifact_def check_eq_Inr guarded_Inr)
  then have active': "require_active_control_plane t (cp_company_id cp) (cp_instance_id cp) g now = Inr lease"
    by (simp add: 1(9) require_active_consume)
  have verified: "cap_purpose cap = PurposeDownload" "now < cap_expires_at_unix_ms cap"
    "canonical_digest cd (Inr (capability_claims cap)) = Inr d"
    "\<exists>signature mac. decode_hex h = Inr (Some signature) \<and> signing_mac v = Inr mac \<and> signature = mac d"
    using 1(2) verify_capability_Inr [OF assms(3,4)] by blast+
  have "sha256_hex cd (cap_token cap) \<in> consumed_capabilities t"
    using assms(2) by (simp add: 1(9) consume_capability_def)
  then have "download_artifact cd v cp g cap now t
      = (Inl (Failed (FabricError_none CapabilityConsumed ''artifact capability was already consumed'')), t)"
    using verified(1) 1(1) active' linorder_not_le [THEN iffD2, OF verified(2)]
    by (simp add: download_artifact_def guarded_def verify_capability_def)
  moreover have "capability_claims ?cap = capability_claims cap" by (simp add: capability_claims_def)
  then have "verify_capability cd v t ?cap PurposeDownload now = Inr ()"
    using verify_capability_Inr [of ?cap d h'] assms(4,5,6) verified by simp
  then have "download_artifact cd v cp g ?cap now t
      = (Inr bs, (consume_capability cd ?cap t)\<lparr>revision := sat_add (revision t) 1\<rparr>)"
    by (rule download_stored [OF 1(1) active' _ _ 1(4,5) _ 1(7,8)]) (use 1(3,6) in \<open>simp_all add: 1(9)\<close>)
  ultimately show ?thesis by (auto simp: FabricError_none_def)
qed

definition ascii_upper :: "char \<Rightarrow> char" where
  "ascii_upper c = (let n = (of_char c :: nat) in if 97 \<le> n \<and> n \<le> 122 then char_of (n - 32) else c)"

definition object_claims :: string where
  "object_claims = fst (the (split_once CHR ''.'' (cap_token (projr (fst obj6)))))"

definition object_signature :: string where
  "object_signature = snd (the (split_once CHR ''.'' (cap_token (projr (fst obj6)))))"

theorem respelled_token_downloads_again_witness:
  "object_signature \<noteq> map ascii_upper object_signature
   \<and> (\<exists>e. download_artifact object_codec object_vault sample_cp 1 (projr (fst obj6)) 1006 (snd obj7)
          = (Inl (Failed e), snd obj7) \<and> err_code e = CapabilityConsumed)
   \<and> (\<exists>u. download_artifact object_codec object_vault sample_cp 1
          ((projr (fst obj6))\<lparr>cap_token := object_claims @ ''.'' @ map ascii_upper object_signature\<rparr>) 1006 (snd obj7)
          = (Inr object_bytes, u))"
proof -
  have b: "fst obj7 = Inr object_bytes" by code_simp
  then have "obj7 = (Inr object_bytes, snd obj7)" by (metis prod.collapse)
  then have d: "download_artifact object_codec object_vault sample_cp 1 (projr (fst obj6)) 1006 (snd obj6)
      = (Inr object_bytes, snd obj7)"
    unfolding obj7_def by assumption
  have facts: "cap_one_use (projr (fst obj6))"
    "cap_token (projr (fst obj6)) = object_claims @ ''.'' @ object_signature" "CHR ''.'' \<notin> set object_claims"
    "decode_hex (map ascii_upper object_signature) = decode_hex object_signature"
    "sha256_hex object_codec (object_claims @ ''.'' @ map ascii_upper object_signature) \<notin> consumed_capabilities (snd obj7)"
    "object_signature \<noteq> map ascii_upper object_signature"
    by code_simp+
  show ?thesis using respelled_token_downloads_again [OF d facts(1-5)] facts(6) by simp
qed

text \<open>
  A download request that is not signed at all can bring the check down. Whoever may present a
  capability can compute the digest of its own claims; with a signature text of even length whose
  bytes split a character at an even offset the check panics instead of returning an error, for every
  signing key, before any signature is compared.
\<close>

theorem malformed_signature_panics:
  assumes "key_for_company v (cp_company_id cp) = Inr k"
    and "require_active_control_plane s (cp_company_id cp) (cp_instance_id cp) g now = Inr lease"
    and "cap_purpose cap = PurposeDownload" and "now < cap_expires_at_unix_ms cap"
    and "canonical_digest cd (Inr (capability_claims cap)) = Inr d"
    and "cap_token cap = d @ ''.'' @ [CHR ''a'', CHR 0xC3, CHR 0xA9, CHR ''b'']"
    and "sha256_hex cd (cap_token cap) \<notin> consumed_capabilities s"
  shows "download_artifact cd v cp g cap now s = (Inl Panicked, s)"
proof -
  have "CHR ''.'' \<notin> set d" using canonical_digest_hex [OF assms(5)] hex_no_dot by auto
  then have "split_once (CHR ''.'') (cap_token cap) = Some (d, [CHR ''a'', CHR 0xC3, CHR 0xA9, CHR ''b''])"
    unfolding assms(6) using split_once_first by simp
  moreover have "decode_hex [CHR ''a'', CHR 0xC3, CHR 0xA9, CHR ''b''] = Inl Panicked" by code_simp
  ultimately have "verify_capability cd v s cap PurposeDownload now = Inl Panicked"
    using assms(3,5,7) linorder_not_le [THEN iffD2, OF assms(4)] by (simp add: verify_capability_def)
  then show ?thesis using assms(1,2) by (simp add: download_artifact_def guarded_def)
qed

definition forged_capability :: ArtifactCapability where
  "forged_capability = (projr (fst obj6))\<lparr>cap_token := object_claims @ ''.'' @ [CHR ''a'', CHR 0xC3, CHR 0xA9, CHR ''b'']\<rparr>"

theorem malformed_signature_panics_witness:
  "download_artifact object_codec object_vault sample_cp 1 forged_capability 1006 (snd obj6) = (Inl Panicked, snd obj6)"
proof -
  have "committed (key_for_company object_vault (cp_company_id sample_cp), ())" by code_simp
  then obtain k where k: "key_for_company object_vault (cp_company_id sample_cp) = Inr k"
    unfolding committed_def by (cases "key_for_company object_vault (cp_company_id sample_cp)") simp_all
  have "committed (require_active_control_plane (snd obj6) (cp_company_id sample_cp) (cp_instance_id sample_cp) 1 1006, ())"
    by code_simp
  then obtain lease where
    l: "require_active_control_plane (snd obj6) (cp_company_id sample_cp) (cp_instance_id sample_cp) 1 1006 = Inr lease"
    unfolding committed_def by (cases "require_active_control_plane (snd obj6) (cp_company_id sample_cp)
      (cp_instance_id sample_cp) 1 1006") simp_all
  have facts: "cap_purpose forged_capability = PurposeDownload" "1006 < cap_expires_at_unix_ms forged_capability"
    "canonical_digest object_codec (Inr (capability_claims forged_capability)) = Inr object_claims"
    "sha256_hex object_codec (cap_token forged_capability) \<notin> consumed_capabilities (snd obj6)"
    by code_simp+
  have "cap_token forged_capability = object_claims @ ''.'' @ [CHR ''a'', CHR 0xC3, CHR 0xA9, CHR ''b'']"
    by (simp add: forged_capability_def)
  then show ?thesis using malformed_signature_panics [OF k l facts(1-3) _ facts(4)] by simp
qed

end
