(* ===== verification/Socket.thy ===== *)
theory Socket
  imports Transport
begin

text \<open>
  One end of an authenticated WebSocket (\<^verbatim>\<open>read_frame\<close> and \<^verbatim>\<open>write_frame\<close> of
  \<^verbatim>\<open>crates/firm-fabric/src/transport.rs\<close>, \<^verbatim>\<open>send_payload\<close>, \<^verbatim>\<open>hello_frame\<close> and \<^verbatim>\<open>now_unix_ms\<close> of
  \<^verbatim>\<open>gateway_runtime.rs\<close>). The socket, the network behind it and the clock are outside the program:
  an endpoint holds what the socket will deliver, which sends fail and what the clock reads. A
  socket with nothing left to deliver is closed by its peer.
\<close>

datatype ws_message = WsBinary bytes | WsText bytes | WsPing bytes | WsPong bytes | WsClose | WsFrame

datatype read_failure = ReadTimeout | ReadError string

record 's endpoint =
  soc_incoming :: "(read_failure + ws_message) list"
  soc_outgoing :: "ws_message list"
  soc_send_error :: "nat \<Rightarrow> string option"
  soc_clock :: "nat \<Rightarrow> u64 option"
  soc_ticks :: nat
  soc_state :: 's

type_synonym ('s, 'a) io = "('s endpoint, FabricError, 'a) action"

definition transport_error :: "string \<Rightarrow> FabricError" where
  "transport_error message = FabricError_none StoreUnavailable message"

text \<open>\<^verbatim>\<open>socket.send\<close>: the message is on its way unless the send fails.\<close>

definition socket_send :: "string \<Rightarrow> ws_message \<Rightarrow> ('s, unit) io" where
  "socket_send context message s =
     (case soc_send_error s (length (soc_outgoing s)) of
        Some error \<Rightarrow> (Inl (transport_error (context @ error)), s)
      | None \<Rightarrow> (Inr (), s\<lparr>soc_outgoing := soc_outgoing s @ [message]\<rparr>))"

definition write_frame :: "wire \<Rightarrow> FabricFrame \<Rightarrow> ('s, unit) io" where
  "write_frame w frame =
     check (encode_frame w frame) (\<lambda>encoded.
     socket_send ''Fabric frame send failed: '' (WsBinary encoded))"

definition peer_closed :: FabricError where
  "peer_closed = FabricError_none TargetOffline ''Fabric peer closed before the next frame''"

text \<open>The size limit of a frame is compared in integers when a run is evaluated.\<close>

lemma exceeds_frame_limit [code_unfold]:
  "MAX_FABRIC_FRAME_BYTES < n \<longleftrightarrow> (262144 :: int) < int n"
  by (simp add: MAX_FABRIC_FRAME_BYTES_def)

text \<open>The loop of \<^verbatim>\<open>read_frame\<close> over the messages the socket delivers.\<close>

fun read_frame_loop :: "wire \<Rightarrow> (read_failure + ws_message) list \<Rightarrow> ('s, FabricFrame) io" where
  "read_frame_loop w [] s = (Inl peer_closed, s\<lparr>soc_incoming := []\<rparr>)"
| "read_frame_loop w (Inl ReadTimeout # rest) s =
     (Inl ((FabricError_none TargetOffline
              ''Fabric frame read timed out without changing connection authority'')\<lparr>err_retryable := True\<rparr>),
      s\<lparr>soc_incoming := rest\<rparr>)"
| "read_frame_loop w (Inl (ReadError error) # rest) s =
     (Inl (transport_error (''Fabric frame read failed: '' @ error)), s\<lparr>soc_incoming := rest\<rparr>)"
| "read_frame_loop w (Inr (WsBinary bytes) # rest) s = (decode_frame w bytes, s\<lparr>soc_incoming := rest\<rparr>)"
| "read_frame_loop w (Inr (WsText text) # rest) s = (decode_frame w text, s\<lparr>soc_incoming := rest\<rparr>)"
| "read_frame_loop w (Inr (WsPing payload) # rest) s =
     andThen (socket_send ''Fabric pong failed: '' (WsPong payload)) (\<lambda>_. read_frame_loop w rest)
       (s\<lparr>soc_incoming := rest\<rparr>)"
| "read_frame_loop w (Inr (WsPong payload) # rest) s = read_frame_loop w rest s"
| "read_frame_loop w (Inr WsClose # rest) s = (Inl peer_closed, s\<lparr>soc_incoming := rest\<rparr>)"
| "read_frame_loop w (Inr WsFrame # rest) s =
     (Inl (FabricError_none ProtocolIncompatible ''raw WebSocket frames are not an application message''),
      s\<lparr>soc_incoming := rest\<rparr>)"

definition read_frame :: "wire \<Rightarrow> ('s, FabricFrame) io" where
  "read_frame w s = read_frame_loop w (soc_incoming s) s"

definition read_clock :: "('s, u64) io" where
  "read_clock s =
     (case soc_clock s (soc_ticks s) of
        None \<Rightarrow> (Inl (FabricError_none StoreUnavailable ''system clock is before UNIX epoch''),
                 s\<lparr>soc_ticks := Suc (soc_ticks s)\<rparr>)
      | Some now \<Rightarrow> (Inr now, s\<lparr>soc_ticks := Suc (soc_ticks s)\<rparr>))"

text \<open>A transaction of the store behind the endpoint, and a read of its state.\<close>

definition on_state :: "('s, 'e, 'a) action \<Rightarrow> ('s endpoint, 'e, 'a) action" where
  "on_state f s = (case f (soc_state s) of (r, t) \<Rightarrow> (r, s\<lparr>soc_state := t\<rparr>))"

definition snapshot :: "('s endpoint, 'e, 's) action" where
  "snapshot s = (Inr (soc_state s), s)"

fun payload_kind :: "FabricPayload \<Rightarrow> string" where
  "payload_kind (PayloadHello _) = ''hello''"
| "payload_kind (PayloadWelcome _) = ''welcome''"
| "payload_kind (PayloadOperationSubmit _) = ''operation-submit''"
| "payload_kind (PayloadRoutedOperation _) = ''routed-operation''"
| "payload_kind (PayloadTargetPersisted _) = ''target-persisted''"
| "payload_kind (PayloadOperationResult _) = ''operation-result''"
| "payload_kind (PayloadReceipt _) = ''receipt''"
| "payload_kind (PayloadHeartbeat _) = ''heartbeat''"
| "payload_kind (PayloadHeartbeatAck _) = ''heartbeat-ack''"
| "payload_kind (PayloadPendingBatchComplete _) = ''pending-batch-complete''"
| "payload_kind (PayloadReconcileRequest _) = ''reconcile-request''"
| "payload_kind (PayloadReconcileResult _) = ''reconcile-result''"
| "payload_kind (PayloadArtifactCapabilityRequest _) = ''artifact-capability-request''"
| "payload_kind (PayloadArtifactCapabilityResponse _) = ''artifact-capability-response''"
| "payload_kind (PayloadArtifactDownloadRequest _) = ''artifact-download-request''"
| "payload_kind (PayloadArtifactDownloadChunk _) = ''artifact-download-chunk''"
| "payload_kind (PayloadLeaseFence _) = ''lease-fence''"
| "payload_kind (PayloadDrain _) = ''drain''"
| "payload_kind (PayloadProtocolShutdown _) = ''protocol-shutdown''"

definition session_frame ::
    "wire \<Rightarrow> FabricSessionFence \<Rightarrow> string \<Rightarrow> FabricPayload \<Rightarrow> u64 \<Rightarrow> FabricFrame result" where
  "session_frame w session correlation_id payload now_unix_ms =
     bindR (canonical_digest w (Inr (JArray [JString correlation_id, JNumber (PosInt now_unix_ms),
              JString (payload_kind payload)]))) (\<lambda>digest.
     FabricFrame_new w (''frame:'' @ payload_kind payload @ '':'' @ digest)
       (fen_company_id session) (fen_node_id session) (fen_gateway_generation session)
       (fen_node_daemon_id session) (fen_node_daemon_generation session)
       (fen_control_plane_generation session) now_unix_ms correlation_id payload)"

definition send_payload ::
    "wire \<Rightarrow> FabricSessionFence \<Rightarrow> string \<Rightarrow> FabricPayload \<Rightarrow> u64 \<Rightarrow> ('s, unit) io" where
  "send_payload w session correlation_id payload now_unix_ms =
     check (session_frame w session correlation_id payload now_unix_ms) (\<lambda>frame. write_frame w frame)"

definition hello_frame :: "wire \<Rightarrow> NodeHello \<Rightarrow> u64 \<Rightarrow> FabricFrame result" where
  "hello_frame w hello now_unix_ms =
     FabricFrame_new w (''frame:hello:'' @ hello_instance_id hello) (hello_company_id hello)
       (hello_node_id hello) 0 (hello_node_daemon_id hello) (hello_node_daemon_generation hello) 0
       now_unix_ms (''connect:'' @ hello_instance_id hello) (PayloadHello hello)"

section \<open>What the socket operations leave alone\<close>

lemma socket_send_state [simp]: "soc_state (snd (socket_send c m s)) = soc_state s"
  by (simp add: socket_send_def split: option.split)

lemma write_frame_state [simp]: "soc_state (snd (write_frame w f s)) = soc_state s"
  by (simp add: write_frame_def snd_check split: sum.split)

lemma send_payload_state [simp]: "soc_state (snd (send_payload w session c p now s)) = soc_state s"
  by (simp add: send_payload_def snd_check split: sum.split)

lemma read_clock_state [simp]: "soc_state (snd (read_clock s)) = soc_state s"
  by (simp add: read_clock_def split: option.split)

lemma read_frame_loop_state: "soc_state (snd (read_frame_loop w ms s)) = soc_state s"
proof (induction w ms s rule: read_frame_loop.induct)
  case (6 w payload rest s)
  have send: "soc_state (snd (socket_send ''Fabric pong failed: '' (WsPong payload) (s\<lparr>soc_incoming := rest\<rparr>)))
      = soc_state s"
    by simp
  show ?case unfolding read_frame_loop.simps
    by (rule andThen_pred [where P = "\<lambda>t. soc_state t = soc_state s"]) (use send 6 in \<open>auto dest: arg_cong [of _ _ snd]\<close>)
qed simp_all

lemma read_frame_state [simp]: "soc_state (snd (read_frame w s)) = soc_state s"
  by (simp add: read_frame_def read_frame_loop_state)

lemma on_state_snd [simp]: "soc_state (snd (on_state f s)) = snd (f (soc_state s))"
  by (simp add: on_state_def split: prod.split)

end
