(* ===== verification/Gateway_Client.thy ===== *)
theory Gateway_Client
  imports Socket Local_Store
begin

text \<open>
  The Node's side of a gateway session (\<^verbatim>\<open>NodeGatewayConnection\<close> of
  \<^verbatim>\<open>crates/firm-fabric/src/gateway_runtime.rs\<close>): the handshake, heartbeats, submission of its own
  operations, reconciliation, and \<^verbatim>\<open>apply_next\<close>, which takes one routed operation from the socket
  through the durable inbox to the application and back. The application is a trait of the
  embedding program: a record of functions on a state of its own.
\<close>

section \<open>The application of a Node\<close>

type_synonym application_outcome = "string \<times> json \<times> EffectCertainty"

record 'p NodeApplication =
  app_apply :: "RoutedOperation \<Rightarrow> 'p \<Rightarrow> application_outcome result \<times> 'p"
  app_apply_downloaded_artifact ::
    "RoutedOperation \<Rightarrow> string \<Rightarrow> string \<Rightarrow> bytes \<Rightarrow> 'p \<Rightarrow> application_outcome result \<times> 'p"
  app_replay_downloaded_artifact :: "RoutedOperation \<Rightarrow> 'p \<Rightarrow> application_outcome option result \<times> 'p"
  app_authorize_artifact_download :: "RoutedOperation \<Rightarrow> ArtifactCapability \<Rightarrow> 'p \<Rightarrow> unit result \<times> 'p"

record 'p node_side =
  ns_local :: NodeLocalFabricState
  ns_application :: 'p

record client =
  cli_wire :: wire
  cli_capability_from_value :: "json \<Rightarrow> string + ArtifactCapability"
  cli_store :: NodeLocalFabricStore

type_synonym ('p, 'a) node_io = "('p node_side, 'a) io"

definition cli_codec :: "client \<Rightarrow> codec" where
  "cli_codec cli = codec.truncate (cli_wire cli)"

definition on_local :: "'a local_action \<Rightarrow> ('p, 'a) node_io" where
  "on_local f = on_state (\<lambda>n. case f (ns_local n) of (r, l) \<Rightarrow> (r, n\<lparr>ns_local := l\<rparr>))"

definition on_application :: "('p \<Rightarrow> 'a result \<times> 'p) \<Rightarrow> ('p, 'a) node_io" where
  "on_application f = on_state (\<lambda>n. case f (ns_application n) of (r, p) \<Rightarrow> (r, n\<lparr>ns_application := p\<rparr>))"

text \<open>A closure whose error is kept as a value.\<close>

definition caught :: "('s, 'a) io \<Rightarrow> ('s, 'a result) io" where
  "caught f s = (case f s of (r, t) \<Rightarrow> (Inr r, t))"

section \<open>The default methods and the probe\<close>

definition probe_apply :: "codec \<Rightarrow> RoutedOperation \<Rightarrow> unit \<Rightarrow> application_outcome result \<times> unit" where
  "probe_apply cd operation p =
     (bindR (closed_body cd operation) (\<lambda>body.
      case body of
        BodyProbe b \<Rightarrow> Inr (''agentfirm.remote_fabric.probe_result.v1'',
                            JObject [(''echo'', JString (probe b))], EffectApplied)
      | BodyReconcileProbe b \<Rightarrow> Inr (''agentfirm.remote_fabric.probe_result.v1'',
                            JObject [(''echo'', JString (probe b))], EffectApplied)
      | _ \<Rightarrow> Inl (FabricError_none UnauthorizedActor
                ''probe application accepts only closed non-business probe operations'')), p)"

definition with_default_methods ::
    "(RoutedOperation \<Rightarrow> 'p \<Rightarrow> application_outcome result \<times> 'p) \<Rightarrow> 'p NodeApplication" where
  "with_default_methods apply_method =
     \<lparr>app_apply = apply_method,
      app_apply_downloaded_artifact = (\<lambda>operation artifact_id artifact_digest bytes. apply_method operation),
      app_replay_downloaded_artifact = (\<lambda>operation p. (Inr None, p)),
      app_authorize_artifact_download = (\<lambda>operation capability p. (Inr (), p))\<rparr>"

definition ProbeApplication :: "codec \<Rightarrow> unit NodeApplication" where
  "ProbeApplication cd = with_default_methods (probe_apply cd)"

section \<open>Connection\<close>

definition lease_fenced :: "string \<Rightarrow> FabricError" where
  "lease_fenced reason = FabricError_none NodeStaleGeneration reason"

definition welcome_of :: "FabricFrame \<Rightarrow> NodeWelcome result" where
  "welcome_of frame =
     (case frm_payload frame of
        PayloadWelcome payload \<Rightarrow> Inr payload
      | _ \<Rightarrow> Inl (FabricError_none ProtocolIncompatible ''Control Plane did not answer Hello with Welcome''))"

definition welcomed_session :: "NodeWelcome \<Rightarrow> FabricSessionFence" where
  "welcomed_session payload =
     \<lparr>fen_company_id = wel_company_id payload,
      fen_node_id = wel_node_id payload,
      fen_gateway_generation = wel_gateway_generation payload,
      fen_node_daemon_id = wel_node_daemon_id payload,
      fen_node_daemon_generation = wel_node_daemon_generation payload,
      fen_control_plane_generation = wel_control_plane_generation payload\<rparr>"

definition establish :: "wire \<Rightarrow> NodeFabricConfig \<Rightarrow> NodeHello \<Rightarrow> ('s, FabricSessionFence) io" where
  "establish w config hello =
     check (reject_if (hello_company_id hello \<noteq> cfg_company_id config
                       \<or> hello_node_id hello \<noteq> cfg_node_id config)
              (FabricError_none SourceMismatch
                 ''NodeHello disagrees with the outbound gateway configuration'')) (\<lambda>_.
     andThen read_clock (\<lambda>now.
     check (hello_frame w hello now) (\<lambda>frame.
     andThen (write_frame w frame) (\<lambda>_.
     andThen (read_frame w) (\<lambda>welcome_frame.
     check (welcome_of welcome_frame) (\<lambda>payload.
     check (validate_frame w (welcomed_session payload) welcome_frame) (\<lambda>_ s.
     (Inr (welcomed_session payload), s))))))))"

text \<open>Sending a payload stamped with the clock, and reading a frame of the session.\<close>

definition send_now :: "wire \<Rightarrow> FabricSessionFence \<Rightarrow> string \<Rightarrow> FabricPayload \<Rightarrow> ('s, unit) io" where
  "send_now w session correlation_id payload =
     andThen read_clock (\<lambda>now. send_payload w session correlation_id payload now)"

definition read_session_frame :: "wire \<Rightarrow> FabricSessionFence \<Rightarrow> ('s, FabricPayload) io" where
  "read_session_frame w session =
     andThen (read_frame w) (\<lambda>frame.
     check (validate_frame w session frame) (\<lambda>_ s. (Inr (frm_payload frame), s)))"

definition heartbeat_answer :: "FabricPayload \<Rightarrow> unit result" where
  "heartbeat_answer payload =
     (case payload of
        PayloadHeartbeatAck _ \<Rightarrow> Inr ()
      | PayloadLeaseFence reason \<Rightarrow> Inl (lease_fenced reason)
      | _ \<Rightarrow> Inl (FabricError_none ProtocolIncompatible ''heartbeat response was not HeartbeatAck''))"

definition client_heartbeat :: "wire \<Rightarrow> FabricSessionFence \<Rightarrow> ('s, unit) io" where
  "client_heartbeat w session =
     andThen read_clock (\<lambda>now.
     andThen (send_payload w session (''heartbeat:'' @ fen_node_id session) (PayloadHeartbeat now) now) (\<lambda>_.
     andThen (read_session_frame w session) (\<lambda>payload.
     check (heartbeat_answer payload) (\<lambda>_ s. (Inr (), s)))))"

definition receipt_of :: "FabricPayload \<Rightarrow> RouteReceipt result" where
  "receipt_of payload =
     (case payload of
        PayloadReceipt receipt \<Rightarrow> Inr receipt
      | PayloadLeaseFence reason \<Rightarrow> Inl (lease_fenced reason)
      | _ \<Rightarrow> Inl (FabricError_none ProtocolIncompatible ''expected a canonical route receipt''))"

definition read_receipt :: "wire \<Rightarrow> FabricSessionFence \<Rightarrow> ('s, RouteReceipt) io" where
  "read_receipt w session =
     andThen (read_session_frame w session) (\<lambda>payload.
     check (receipt_of payload) (\<lambda>receipt s. (Inr receipt, s)))"

definition submit_operation ::
    "client \<Rightarrow> FabricSessionFence \<Rightarrow> AuthenticatedActor \<Rightarrow> RoutedOperation \<Rightarrow> ('p, RouteReceipt) node_io" where
  "submit_operation cli session authenticated_actor operation =
     andThen read_clock (\<lambda>_.
     andThen (on_local (prepare_outbox (cli_codec cli) (cli_store cli) session authenticated_actor operation)) (\<lambda>_.
     andThen read_clock (\<lambda>now.
     andThen (on_local (mark_outbox_submitted (cli_codec cli) (cli_store cli) session authenticated_actor
                operation now)) (\<lambda>_.
     andThen (send_now (cli_wire cli) session (op_correlation_id operation)
                (PayloadOperationSubmit operation)) (\<lambda>_.
     andThen (read_receipt (cli_wire cli) session) (\<lambda>receipt.
     andThen (on_local (mark_outbox_receipt (cli_store cli) session receipt)) (\<lambda>_ s.
     (Inr receipt, s))))))))"

fun mark_receipts :: "client \<Rightarrow> FabricSessionFence \<Rightarrow> RouteReceipt list \<Rightarrow> ('p, unit) node_io" where
  "mark_receipts cli session [] s = (Inr (), s)"
| "mark_receipts cli session (receipt # rest) s =
     andThen (if bt_contains (outboxes (ns_local (soc_state s))) (rcp_operation_id receipt)
              then andThen (on_local (mark_outbox_receipt (cli_store cli) session receipt)) (\<lambda>_ s. (Inr (), s))
              else (\<lambda>s. (Inr (), s)))
       (\<lambda>_. mark_receipts cli session rest) s"

definition reconcile_answer :: "FabricPayload \<Rightarrow> RouteReceipt list result" where
  "reconcile_answer payload =
     (case payload of
        PayloadReconcileResult found \<Rightarrow> Inr found
      | PayloadLeaseFence reason \<Rightarrow> Inl (lease_fenced reason)
      | _ \<Rightarrow> Inl (FabricError_none ProtocolIncompatible ''reconciliation response was not ReconcileResult''))"

definition reconcile_operations ::
    "client \<Rightarrow> FabricSessionFence \<Rightarrow> string set \<Rightarrow> ('p, RouteReceipt list) node_io" where
  "reconcile_operations cli session operation_ids =
     andThen (send_now (cli_wire cli) session (''reconcile:'' @ fen_node_id session)
                (PayloadReconcileRequest operation_ids)) (\<lambda>_.
     andThen (read_session_frame (cli_wire cli) session) (\<lambda>payload.
     check (reconcile_answer payload) (\<lambda>found.
     andThen (mark_receipts cli session found) (\<lambda>_ s. (Inr found, s)))))"

definition capability_answer :: "FabricPayload \<Rightarrow> ArtifactCapability result" where
  "capability_answer payload =
     (case payload of
        PayloadArtifactCapabilityResponse capability \<Rightarrow> Inr capability
      | PayloadLeaseFence reason \<Rightarrow> Inl (lease_fenced reason)
      | _ \<Rightarrow> Inl (FabricError_none ProtocolIncompatible
                ''artifact capability response was not server-authoritative''))"

definition request_artifact_download :: "wire \<Rightarrow> FabricSessionFence \<Rightarrow> string \<Rightarrow> ('s, ArtifactCapability) io" where
  "request_artifact_download w session artifact_id =
     andThen (send_now w session (''artifact-capability:'' @ artifact_id)
                (PayloadArtifactCapabilityRequest \<lparr>acr_artifact_id = artifact_id, acr_purpose = PurposeDownload\<rparr>)) (\<lambda>_.
     andThen (read_session_frame w session) (\<lambda>payload.
     check (capability_answer payload) (\<lambda>capability s. (Inr capability, s))))"

section \<open>Downloading an artifact\<close>

definition json_get :: "string \<Rightarrow> json \<Rightarrow> json option" where
  "json_get key value = (case value of JObject entries \<Rightarrow> map_of entries key | _ \<Rightarrow> None)"

definition artifact_download_capability :: "client \<Rightarrow> RoutedOperation \<Rightarrow> ArtifactCapability option result" where
  "artifact_download_capability cli operation =
     bindR (closed_body (cli_codec cli) operation) (\<lambda>body.
     case body of
       BodyCollaborationBusiness reference \<Rightarrow>
         if cbr_business_kind reference \<noteq> ''artifact_grant'' then Inr None
         else
           bindR (ok_or (json_get ''read_capability'' (cbr_payload reference))
                    (FabricError_none InvalidPayload
                       ''artifact grant omitted the server-issued download capability'')) (\<lambda>value.
           map_err (\<lambda>error. FabricError_none InvalidPayload
                      (''artifact grant download capability is invalid: '' @ error))
             (bindR (cli_capability_from_value cli value) (\<lambda>capability. Inr (Some capability))))
     | _ \<Rightarrow> Inr None)"

text \<open>One chunk: the bytes so far, whether the stream is over, or the error that ends it.\<close>

definition take_chunk ::
    "codec \<Rightarrow> ArtifactCapability \<Rightarrow> bytes \<Rightarrow> FabricPayload \<Rightarrow> (bytes \<times> bool) result" where
  "take_chunk cd capability received payload =
     (case payload of
        PayloadArtifactDownloadChunk chunk \<Rightarrow>
          if adc_artifact_id chunk = cap_artifact_id capability
             \<and> adc_artifact_digest chunk = cap_artifact_digest capability
             \<and> adc_offset chunk = of_nat (length received)
             \<and> adc_total_size chunk \<le> 64 * 1024 * 1024
          then
            (let bytes = received @ adc_bytes chunk in
             bindR (reject_if (of_nat (length bytes) > adc_total_size chunk)
                      (FabricError_none ArtifactTampered ''artifact chunk exceeds declared total size'')) (\<lambda>_.
             bindR (reject_if (adc_terminal chunk
                               \<and> (of_nat (length bytes) \<noteq> adc_total_size chunk
                                  \<or> sha256_hex cd bytes \<noteq> cap_artifact_digest capability))
                      (FabricError_none ArtifactTampered
                         ''artifact chunk stream size or digest mismatch'')) (\<lambda>_.
             Inr (bytes, adc_terminal chunk))))
          else Inl (FabricError_none ProtocolIncompatible
                      ''artifact download chunk stream was not server-authoritative'')
      | PayloadLeaseFence reason \<Rightarrow> Inl (lease_fenced reason)
      | _ \<Rightarrow> Inl (FabricError_none ProtocolIncompatible
                ''artifact download chunk stream was not server-authoritative''))"

text \<open>The loop over the chunks as the code has it, without a bound: a loop that does not end is \<open>None\<close>.\<close>

partial_function (option) receive_loop ::
    "wire \<Rightarrow> codec \<Rightarrow> FabricSessionFence \<Rightarrow> ArtifactCapability \<Rightarrow> bytes \<Rightarrow> 's endpoint
      \<Rightarrow> ((FabricError + bytes) \<times> 's endpoint) option" where
  "receive_loop w cd session capability received s =
     (case read_session_frame w session s of
        (Inl error, t) \<Rightarrow> Some (Inl error, t)
      | (Inr payload, t) \<Rightarrow>
          (case take_chunk cd capability received payload of
             Inl error \<Rightarrow> Some (Inl error, t)
           | Inr (bytes, terminal) \<Rightarrow>
               if terminal then Some (Inr bytes, t) else receive_loop w cd session capability bytes t))"

text \<open>
  The same loop with a bound, in the form the rest of the model runs: it reads a message in every round,
  so the number of messages the socket delivers is enough, and a round past it finds the socket closed.
\<close>

fun receive_chunks ::
    "nat \<Rightarrow> wire \<Rightarrow> codec \<Rightarrow> FabricSessionFence \<Rightarrow> ArtifactCapability \<Rightarrow> bytes \<Rightarrow> ('s, bytes) io" where
  "receive_chunks 0 w cd session capability received s = (Inl peer_closed, s)"
| "receive_chunks (Suc rounds) w cd session capability received s =
     andThen (read_session_frame w session) (\<lambda>payload.
     check (take_chunk cd capability received payload) (\<lambda>(bytes, terminal).
     if terminal then (\<lambda>s. (Inr bytes, s))
     else receive_chunks rounds w cd session capability bytes)) s"

definition download_granted ::
    "client \<Rightarrow> 'p NodeApplication \<Rightarrow> FabricSessionFence \<Rightarrow> RoutedOperation \<Rightarrow> ArtifactCapability
      \<Rightarrow> ('p, bytes) node_io" where
  "download_granted cli app session operation capability =
     andThen (on_application (app_authorize_artifact_download app operation capability)) (\<lambda>_.
     andThen (send_now (cli_wire cli) session (''artifact-download:'' @ cap_artifact_id capability)
                (PayloadArtifactDownloadRequest \<lparr>adr_capability = capability\<rparr>)) (\<lambda>_ s.
     receive_chunks (Suc (length (soc_incoming s))) (cli_wire cli) (cli_codec cli) session capability [] s))"

section \<open>Applying a routed operation\<close>

definition delivery_of :: "FabricPayload \<Rightarrow> RoutedOperationDelivery result" where
  "delivery_of payload =
     (case payload of
        PayloadRoutedOperation delivery \<Rightarrow> Inr delivery
      | PayloadDrain reason \<Rightarrow> Inl (FabricError_none TargetNotPlaced reason)
      | PayloadLeaseFence reason \<Rightarrow> Inl (lease_fenced reason)
      | PayloadPendingBatchComplete _ \<Rightarrow>
          Inl (FabricError_none TargetOffline ''pending delivery batch is complete'')
      | _ \<Rightarrow> Inl (FabricError_none ProtocolIncompatible ''expected a server-routed operation''))"

definition expired_error :: FabricError where
  "expired_error = FabricError_none OperationExpired ''routed operation expired before target inbox persistence''"

definition report_expired ::
    "client \<Rightarrow> FabricSessionFence \<Rightarrow> RoutedOperationDelivery \<Rightarrow> u64 \<Rightarrow> ('p, RouteReceipt) node_io" where
  "report_expired cli session delivery persist_now =
     andThen (on_local (consume_expired_ordering_tombstone (cli_codec cli) (cli_store cli) session
                (rod_operation delivery) (rod_attempt delivery) persist_now)) (\<lambda>_.
     check (map_err (\<lambda>encode_error. FabricError_unknown ''expired-operation-result''
                       (''expired operation result could not be encoded: '' @ encode_error))
              (error_to_value (cli_codec cli) expired_error)) (\<lambda>result.
     andThen (send_now (cli_wire cli) session (op_correlation_id (rod_operation delivery))
                (PayloadOperationResult
                   \<lparr>tar_operation_id = op_id (rod_operation delivery),
                    tar_result_schema = ''agentfirm.remote_fabric.expired.v1'',
                    tar_result = result, tar_effect = EffectNotApplied\<rparr>)) (\<lambda>_.
     read_receipt (cli_wire cli) session)))"

definition persist_delivery ::
    "client \<Rightarrow> FabricSessionFence \<Rightarrow> RoutedOperationDelivery \<Rightarrow> u64 \<Rightarrow> ('p, unit) node_io" where
  "persist_delivery cli session delivery persist_now =
     andThen (on_local (persist_inbox (cli_codec cli) (cli_store cli) session (rod_operation delivery)
                (rod_attempt delivery) persist_now)) (\<lambda>(inbox, _).
     andThen (send_now (cli_wire cli) session (op_correlation_id (rod_operation delivery))
                (PayloadTargetPersisted
                   \<lparr>tpc_operation_id = op_id (rod_operation delivery),
                    tpc_request_digest = inb_request_digest inbox,
                    tpc_route_seq = att_route_seq (rod_attempt delivery)\<rparr>)) (\<lambda>_.
     andThen (read_receipt (cli_wire cli) session) (\<lambda>persisted_receipt.
     check (reject_if (rcp_kind persisted_receipt \<noteq> TargetPersisted)
              (FabricError_none ProtocolIncompatible
                 ''Control Plane did not acknowledge target persistence'')) (\<lambda>_.
     andThen read_clock (\<lambda>now.
     andThen (on_local (claim_inbox (cli_codec cli) (cli_store cli) session (rod_operation delivery) now))
       (\<lambda>_ s. (Inr (), s)))))))"

text \<open>The application runs on what the download gave; a failed download counts as an unknown effect.\<close>

definition run_application ::
    "client \<Rightarrow> 'p NodeApplication \<Rightarrow> FabricSessionFence \<Rightarrow> RoutedOperation
      \<Rightarrow> ('p, application_outcome result) node_io" where
  "run_application cli app session operation =
     andThen (on_application (app_replay_downloaded_artifact app operation)) (\<lambda>imported_replay.
     case imported_replay of
       Some replay \<Rightarrow> (\<lambda>s. (Inr (Inr replay), s))
     | None \<Rightarrow>
         check (artifact_download_capability cli operation) (\<lambda>granted.
         case granted of
           None \<Rightarrow> caught (on_application (app_apply app operation))
         | Some capability \<Rightarrow>
             andThen (caught (download_granted cli app session operation capability)) (\<lambda>downloaded.
             case downloaded of
               Inr bytes \<Rightarrow> caught (on_application (app_apply_downloaded_artifact app operation
                              (cap_artifact_id capability) (cap_artifact_digest capability) bytes))
             | Inl error \<Rightarrow> (\<lambda>s. (Inr (Inl (FabricError_unknown (op_id operation)
                   (''artifact capability may have been consumed before source import completed: ''
                      @ err_message error))), s)))))"

fun reported_effect :: "EffectCertainty \<Rightarrow> EffectCertainty" where
  "reported_effect EffectApplied = EffectApplied"
| "reported_effect EffectUnknown = EffectUnknown"
| "reported_effect _ = EffectNotApplied"

definition outcome_to_report ::
    "codec \<Rightarrow> RoutedOperation \<Rightarrow> application_outcome result \<Rightarrow> application_outcome result" where
  "outcome_to_report cd operation application_result =
     (case application_result of
        Inr outcome \<Rightarrow> Inr outcome
      | Inl error \<Rightarrow>
          bindR (map_err (\<lambda>encode_error. FabricError_unknown (op_id operation)
                    (''application error could not be journaled: '' @ encode_error))
                   (error_to_value cd error)) (\<lambda>result.
          Inr (''agentfirm.remote_fabric.application_error.v1'', result, reported_effect (err_effect error))))"

definition report_outcome ::
    "client \<Rightarrow> FabricSessionFence \<Rightarrow> RoutedOperation \<Rightarrow> application_outcome \<Rightarrow> ('p, RouteReceipt) node_io" where
  "report_outcome cli session operation = (\<lambda>(result_schema, result, effect).
     andThen read_clock (\<lambda>now.
     andThen (on_local (record_application_result (cli_codec cli) (cli_store cli) session (op_id operation)
                result_schema result effect now)) (\<lambda>_.
     andThen (send_now (cli_wire cli) session (op_correlation_id operation)
                (PayloadOperationResult
                   \<lparr>tar_operation_id = op_id operation, tar_result_schema = result_schema,
                    tar_result = result, tar_effect = effect\<rparr>)) (\<lambda>_.
     read_receipt (cli_wire cli) session))))"

definition apply_next ::
    "client \<Rightarrow> 'p NodeApplication \<Rightarrow> FabricSessionFence \<Rightarrow> ('p, RouteReceipt) node_io" where
  "apply_next cli app session =
     andThen (read_session_frame (cli_wire cli) session) (\<lambda>payload.
     check (delivery_of payload) (\<lambda>delivery.
     andThen read_clock (\<lambda>persist_now.
     if op_expires_at_unix_ms (rod_operation delivery) \<le> persist_now
     then report_expired cli session delivery persist_now
     else
       andThen (persist_delivery cli session delivery persist_now) (\<lambda>_.
       andThen (run_application cli app session (rod_operation delivery)) (\<lambda>application_result.
       check (outcome_to_report (cli_codec cli) (rod_operation delivery) application_result) (\<lambda>outcome.
       report_outcome cli session (rod_operation delivery) outcome))))))"

end
