(* ===== verification/Gateway_Server.thy ===== *)
theory Gateway_Server
  imports Socket Artifacts
begin

text \<open>
  The Control Plane's side of a Node gateway session
  (\<^verbatim>\<open>serve_control_plane_session_with_application\<close> of \<^verbatim>\<open>crates/firm-fabric/src/gateway_runtime.rs\<close>): the
  handshake and the loop that answers every frame of the Node. The business application the
  session folds its receipts into is a trait of the embedding program: a record of functions.
\<close>

section \<open>The business application\<close>

type_synonym AcceptedSourceOperation = "RoutedOperation \<times> RouteAttempt \<times> RouteReceipt \<times> bool"

record ControlPlaneFollowUp =
  cfu_authenticated_actor :: AuthenticatedActor
  cfu_operation :: RoutedOperation

record ControlPlaneReceiptApplication =
  admit_and_accept_source ::
    "RoutedOperation \<Rightarrow> AuthenticatedActor \<Rightarrow> (FabricState, AcceptedSourceOperation) fabric_action
      \<Rightarrow> (FabricState, AcceptedSourceOperation) fabric_action"
  fold_source_accepted :: "RoutedOperation \<Rightarrow> RouteReceipt \<Rightarrow> u64 \<Rightarrow> ControlPlaneFollowUp list result"
  fold_target_application ::
    "RoutedOperation \<Rightarrow> TargetApplicationResult \<Rightarrow> RouteReceipt \<Rightarrow> u64 \<Rightarrow> ControlPlaneFollowUp list result"

definition NoopControlPlaneReceiptApplication :: ControlPlaneReceiptApplication where
  "NoopControlPlaneReceiptApplication =
     \<lparr>admit_and_accept_source = (\<lambda>operation authenticated_actor accept. accept),
      fold_source_accepted = (\<lambda>operation receipt observed_at_unix_ms. Inr []),
      fold_target_application = (\<lambda>operation result receipt observed_at_unix_ms. Inr [])\<rparr>"

section \<open>A session\<close>

text \<open>What a session runs with: the codecs and keys, the limits, the instance and its generation.\<close>

record server =
  srv_wire :: wire
  srv_vault :: vault
  srv_limits :: FabricStoreLimits
  srv_control_plane :: ControlPlane
  srv_generation :: u64
  srv_application :: ControlPlaneReceiptApplication

type_synonym 'a serve = "(FabricState endpoint, abort, 'a) action"

definition srv_codec :: "server \<Rightarrow> codec" where
  "srv_codec srv = codec.truncate (srv_wire srv)"

text \<open>An operation that returns errors but does not panic.\<close>

definition failing :: "('s, FabricError, 'a) action \<Rightarrow> ('s, abort, 'a) action" where
  "failing f s = (case f s of (r, t) \<Rightarrow> (map_err Failed r, t))"

definition authenticated_node_actor :: "VerifiedMtlsPeer \<Rightarrow> u64 \<Rightarrow> AuthenticatedActor" where
  "authenticated_node_actor peer now_unix_ms =
     \<lparr>act_company_id = peer_company_id peer,
      act_actor_id = peer_node_id peer,
      act_actor_kind = ActorService,
      act_role_bindings = {''fabric_submit''},
      act_session_id = ''mtls:'' @ peer_certificate_serial peer,
      act_issued_at_unix_ms = now_unix_ms,
      act_expires_at_unix_ms = sat_add now_unix_ms 30000\<rparr>"

definition reply :: "server \<Rightarrow> FabricSessionFence \<Rightarrow> string \<Rightarrow> FabricPayload \<Rightarrow> u64 \<Rightarrow> unit serve" where
  "reply srv session correlation_id payload now_unix_ms =
     failing (send_payload (srv_wire srv) session correlation_id payload now_unix_ms)"

text \<open>The attempts of the session that are still to be delivered, in route order.\<close>

definition pending_attempts :: "FabricState \<Rightarrow> FabricSessionFence \<Rightarrow> RouteAttempt list" where
  "pending_attempts state session =
     sort_key att_route_seq
       (filter (\<lambda>attempt. att_target_node_id attempt = fen_node_id session
                  \<and> att_target_gateway_generation attempt = fen_gateway_generation session
                  \<and> att_control_plane_generation attempt = fen_control_plane_generation session
                  \<and> (att_state attempt = AttemptQueued \<or> att_state attempt = AttemptSent))
          (bt_values (attempts state)))"

definition send_pending :: "server \<Rightarrow> FabricSessionFence \<Rightarrow> u64 \<Rightarrow> bool serve" where
  "send_pending srv session now_unix_ms =
     andThen snapshot (\<lambda>state.
     case pending_attempts state session of
       [] \<Rightarrow> (\<lambda>s. (Inr False, s))
     | attempt # _ \<Rightarrow>
         check (map_err Failed (ok_or (bt_get (operations state) (att_operation_id attempt))
                  (FabricError_none StoreUnavailable ''route attempt has no canonical operation''))) (\<lambda>operation.
         andThen (reply srv session (op_correlation_id operation)
                    (PayloadRoutedOperation \<lparr>rod_operation = operation, rod_attempt = attempt\<rparr>) now_unix_ms)
           (\<lambda>_ s. (Inr True, s))))"

fun accept_follow_ups :: "server \<Rightarrow> u64 \<Rightarrow> ControlPlaneFollowUp list \<Rightarrow> unit serve" where
  "accept_follow_ups srv now_unix_ms [] s = (Inr (), s)"
| "accept_follow_ups srv now_unix_ms (follow_up # rest) s =
     andThen (failing (on_state (accept_control_plane_operation (srv_codec srv) (srv_limits srv)
                (srv_control_plane srv) (srv_generation srv) (cfu_authenticated_actor follow_up)
                (cfu_operation follow_up) now_unix_ms)))
       (\<lambda>_. accept_follow_ups srv now_unix_ms rest) s"

section \<open>Artifacts over the session\<close>

definition CHUNK_BYTES :: nat where
  "CHUNK_BYTES = 128 * 1024"

text \<open>\<^verbatim>\<open>slice::chunks\<close>: pieces of the given size, the last one shorter.\<close>

function chunks :: "nat \<Rightarrow> 'a list \<Rightarrow> 'a list list" where
  "chunks n xs = (if xs = [] \<or> n = 0 then [] else take n xs # chunks n (drop n xs))"
  by pat_completeness auto

termination by (relation "measure (\<lambda>(n, xs). length xs)") auto

declare chunks.simps [simp del]

definition download_chunk :: "ArtifactCapability \<Rightarrow> u64 \<Rightarrow> u64 \<Rightarrow> bytes \<Rightarrow> bool \<Rightarrow> ArtifactDownloadChunk" where
  "download_chunk capability offset total_size bytes terminal =
     \<lparr>adc_artifact_id = cap_artifact_id capability,
      adc_artifact_digest = cap_artifact_digest capability,
      adc_offset = offset,
      adc_total_size = total_size,
      adc_bytes = bytes,
      adc_terminal = terminal\<rparr>"

text \<open>The chunks of a download, with the offset each starts at.\<close>

fun chunk_payloads :: "ArtifactCapability \<Rightarrow> u64 \<Rightarrow> nat \<Rightarrow> bytes list \<Rightarrow> ArtifactDownloadChunk list" where
  "chunk_payloads capability total_size index [] = []"
| "chunk_payloads capability total_size index (chunk # rest) =
     (let offset = of_nat (index * CHUNK_BYTES) in
      download_chunk capability offset total_size chunk (offset + of_nat (length chunk) = total_size)
        # chunk_payloads capability total_size (Suc index) rest)"

definition download_payloads :: "ArtifactCapability \<Rightarrow> bytes \<Rightarrow> ArtifactDownloadChunk list" where
  "download_payloads capability bytes =
     (if bytes = [] then [download_chunk capability 0 0 [] True]
      else chunk_payloads capability (of_nat (length bytes)) 0 (chunks CHUNK_BYTES bytes))"

fun send_chunks ::
    "server \<Rightarrow> FabricSessionFence \<Rightarrow> string \<Rightarrow> u64 \<Rightarrow> ArtifactDownloadChunk list \<Rightarrow> unit serve" where
  "send_chunks srv session correlation_id now_unix_ms [] s = (Inr (), s)"
| "send_chunks srv session correlation_id now_unix_ms (chunk # rest) s =
     andThen (reply srv session correlation_id (PayloadArtifactDownloadChunk chunk) now_unix_ms)
       (\<lambda>_. send_chunks srv session correlation_id now_unix_ms rest) s"

definition serve_artifact_capability ::
    "server \<Rightarrow> VerifiedMtlsPeer \<Rightarrow> FabricSessionFence \<Rightarrow> string \<Rightarrow> ArtifactCapabilityRequest \<Rightarrow> u64 \<Rightarrow> unit serve" where
  "serve_artifact_capability srv peer session correlation_id request now_unix_ms =
     check (map_err Failed (reject_if (acr_purpose request \<noteq> PurposeDownload)
              (FabricError_none CapabilityInvalid
                 ''Node gateway v1 may request only a self-bound download capability''))) (\<lambda>_.
     let node_actor = authenticated_node_actor peer now_unix_ms;
         actor = node_actor\<lparr>act_role_bindings := insert ''artifact_read'' (act_role_bindings node_actor)\<rparr> in
     andThen (failing (on_state (issue_gateway_download_capability (srv_codec srv) (srv_vault srv)
                (srv_control_plane srv) actor (srv_generation srv) (fen_gateway_generation session)
                (fen_node_daemon_id session) (fen_node_daemon_generation session) (acr_artifact_id request)
                (fen_node_id session) now_unix_ms))) (\<lambda>capability.
     reply srv session correlation_id (PayloadArtifactCapabilityResponse capability) now_unix_ms))"

definition serve_artifact_download ::
    "server \<Rightarrow> FabricSessionFence \<Rightarrow> string \<Rightarrow> ArtifactDownloadRequest \<Rightarrow> u64 \<Rightarrow> unit serve" where
  "serve_artifact_download srv session correlation_id request now_unix_ms =
     (let capability = adr_capability request in
      check (map_err Failed (reject_if (cap_company_id capability \<noteq> fen_company_id session
                                        \<or> cap_node_id capability \<noteq> fen_node_id session
                                        \<or> cap_purpose capability \<noteq> PurposeDownload)
               (FabricError_none CapabilityInvalid
                  ''artifact capability is not bound to this authenticated target Node gateway''))) (\<lambda>_.
      andThen (on_state (download_artifact (srv_codec srv) (srv_vault srv) (srv_control_plane srv)
                 (srv_generation srv) capability now_unix_ms)) (\<lambda>bytes.
      send_chunks srv session correlation_id now_unix_ms (download_payloads capability bytes))))"

section \<open>Routing over the session\<close>

definition serve_heartbeat :: "server \<Rightarrow> FabricSessionFence \<Rightarrow> string \<Rightarrow> u64 \<Rightarrow> unit serve" where
  "serve_heartbeat srv session correlation_id now_unix_ms =
     andThen snapshot (\<lambda>current.
     check (map_err Failed (ok_or (bt_get (gateway_leases current) (fen_node_id session))
              (FabricError_none NodeStaleGeneration ''gateway heartbeat has no durable lease''))) (\<lambda>lease.
     andThen (failing (on_state (heartbeat_gateway (srv_control_plane srv) (srv_generation srv)
                (fen_node_id session) (fen_gateway_generation session) (fen_node_daemon_id session)
                (fen_node_daemon_generation session) (gwl_revision lease) now_unix_ms))) (\<lambda>_.
     andThen (reply srv session correlation_id (PayloadHeartbeatAck now_unix_ms) now_unix_ms) (\<lambda>_.
     andThen (send_pending srv session now_unix_ms) (\<lambda>sent.
     if sent then (\<lambda>s. (Inr (), s))
     else reply srv session correlation_id (PayloadPendingBatchComplete now_unix_ms) now_unix_ms)))))"

definition serve_submit ::
    "server \<Rightarrow> VerifiedMtlsPeer \<Rightarrow> FabricSessionFence \<Rightarrow> string \<Rightarrow> RoutedOperation \<Rightarrow> u64 \<Rightarrow> unit serve" where
  "serve_submit srv peer session correlation_id operation now_unix_ms =
     (let actor = authenticated_node_actor peer now_unix_ms;
          accept = accept_operation (srv_codec srv) (srv_limits srv) (srv_control_plane srv)
            (srv_generation srv) session actor operation now_unix_ms in
      andThen (failing (on_state (admit_and_accept_source (srv_application srv) operation actor accept)))
        (\<lambda>(accepted, _, receipt, _).
      check (map_err Failed (fold_source_accepted (srv_application srv) accepted receipt now_unix_ms)) (\<lambda>follow_ups.
      andThen (accept_follow_ups srv now_unix_ms follow_ups) (\<lambda>_.
      reply srv session correlation_id (PayloadReceipt receipt) now_unix_ms))))"

definition serve_target_persisted ::
    "server \<Rightarrow> FabricSessionFence \<Rightarrow> string \<Rightarrow> TargetPersistedClaim \<Rightarrow> u64 \<Rightarrow> unit serve" where
  "serve_target_persisted srv session correlation_id claim now_unix_ms =
     andThen (failing (on_state (cp_record_target_persisted (srv_codec srv) (srv_control_plane srv)
                (srv_generation srv) (fen_node_id session) (fen_gateway_generation session)
                (fen_node_daemon_id session) (fen_node_daemon_generation session) (tpc_operation_id claim)
                (tpc_request_digest claim) (tpc_route_seq claim) now_unix_ms))) (\<lambda>(_, receipt, _).
     reply srv session correlation_id (PayloadReceipt receipt) now_unix_ms)"

definition serve_operation_result ::
    "server \<Rightarrow> FabricSessionFence \<Rightarrow> string \<Rightarrow> TargetApplicationResult \<Rightarrow> u64 \<Rightarrow> unit serve" where
  "serve_operation_result srv session correlation_id result now_unix_ms =
     andThen snapshot (\<lambda>current.
     check (map_err Failed (ok_or (bt_get (operations current) (tar_operation_id result))
              (FabricError_none OperationUnknown
                 ''target application result references no accepted operation''))) (\<lambda>operation.
     andThen (failing (on_state (cp_record_application_receipt (srv_codec srv) (srv_control_plane srv)
                (srv_generation srv) (fen_node_id session) (fen_gateway_generation session)
                (fen_node_daemon_id session) (fen_node_daemon_generation session) (tar_operation_id result)
                (tar_result_schema result) (tar_result result) (tar_effect result) now_unix_ms)))
       (\<lambda>(_, receipt, _).
     check (map_err Failed (fold_target_application (srv_application srv) operation result receipt now_unix_ms))
       (\<lambda>follow_ups.
     andThen (accept_follow_ups srv now_unix_ms follow_ups) (\<lambda>_.
     reply srv session correlation_id (PayloadReceipt receipt) now_unix_ms)))))"

definition serve_reconcile ::
    "server \<Rightarrow> FabricSessionFence \<Rightarrow> string \<Rightarrow> string set \<Rightarrow> u64 \<Rightarrow> unit serve" where
  "serve_reconcile srv session correlation_id operation_ids now_unix_ms =
     andThen (failing (on_state (cp_reconcile (srv_control_plane srv) (srv_generation srv)
                (fen_node_id session) (fen_gateway_generation session) (fen_node_daemon_id session)
                (fen_node_daemon_generation session) (sorted_list_of_set operation_ids) now_unix_ms)))
       (\<lambda>receipts.
     reply srv session correlation_id (PayloadReconcileResult receipts) now_unix_ms)"

definition server_authority_frame :: FabricError where
  "server_authority_frame = FabricError_none ProtocolIncompatible ''Node sent a server-authority Fabric frame''"

fun serve_payload ::
    "server \<Rightarrow> VerifiedMtlsPeer \<Rightarrow> FabricSessionFence \<Rightarrow> string \<Rightarrow> u64 \<Rightarrow> FabricPayload \<Rightarrow> unit serve" where
  "serve_payload srv peer session corr now (PayloadHeartbeat _) = serve_heartbeat srv session corr now"
| "serve_payload srv peer session corr now (PayloadOperationSubmit operation) =
     serve_submit srv peer session corr operation now"
| "serve_payload srv peer session corr now (PayloadTargetPersisted claim) =
     serve_target_persisted srv session corr claim now"
| "serve_payload srv peer session corr now (PayloadOperationResult result) =
     serve_operation_result srv session corr result now"
| "serve_payload srv peer session corr now (PayloadReconcileRequest operation_ids) =
     serve_reconcile srv session corr operation_ids now"
| "serve_payload srv peer session corr now (PayloadArtifactCapabilityRequest request) =
     serve_artifact_capability srv peer session corr request now"
| "serve_payload srv peer session corr now (PayloadArtifactDownloadRequest request) =
     serve_artifact_download srv session corr request now"
| "serve_payload srv peer session corr now _ = (\<lambda>s. (Inl (Failed server_authority_frame), s))"

section \<open>The session loop\<close>

definition serve_frame ::
    "server \<Rightarrow> VerifiedMtlsPeer \<Rightarrow> FabricSessionFence \<Rightarrow> FabricFrame \<Rightarrow> unit serve" where
  "serve_frame srv peer session frame =
     check (map_err Failed (validate_frame (srv_wire srv) session frame)) (\<lambda>_.
     andThen (failing read_clock) (\<lambda>now.
     serve_payload srv peer session (frm_correlation_id frame) now (frm_payload frame)))"

text \<open>The loop of the code, which has no bound: a loop that does not end is \<open>None\<close>.\<close>

partial_function (option) serve_loop ::
    "server \<Rightarrow> VerifiedMtlsPeer \<Rightarrow> FabricSessionFence \<Rightarrow> FabricState endpoint
      \<Rightarrow> ((abort + unit) \<times> FabricState endpoint) option" where
  "serve_loop srv peer session s =
     (case read_frame (srv_wire srv) s of
        (Inl error, t) \<Rightarrow>
          Some (if err_code error = TargetOffline then (Inr (), t) else (Inl (Failed error), t))
      | (Inr frame, t) \<Rightarrow>
          (case serve_frame srv peer session frame t of
             (Inl failure, u) \<Rightarrow> Some (Inl failure, u)
           | (Inr _, u) \<Rightarrow> serve_loop srv peer session u))"

text \<open>
  The same loop with a bound, in the form the rest of the model runs: it reads a message in every round,
  so the number of messages the socket delivers is enough, and a round past it finds the socket closed.
\<close>

fun serve_rounds :: "nat \<Rightarrow> server \<Rightarrow> VerifiedMtlsPeer \<Rightarrow> FabricSessionFence \<Rightarrow> unit serve" where
  "serve_rounds 0 srv peer session s = (Inr (), s)"
| "serve_rounds (Suc rounds) srv peer session s =
     (case read_frame (srv_wire srv) s of
        (Inl error, t) \<Rightarrow>
          if err_code error = TargetOffline then (Inr (), t) else (Inl (Failed error), t)
      | (Inr frame, t) \<Rightarrow> andThen (serve_frame srv peer session frame)
          (\<lambda>_. serve_rounds rounds srv peer session) t)"

definition session_of :: "NodeWelcome \<Rightarrow> FabricSessionFence" where
  "session_of welcome_payload =
     \<lparr>fen_company_id = wel_company_id welcome_payload,
      fen_node_id = wel_node_id welcome_payload,
      fen_gateway_generation = wel_gateway_generation welcome_payload,
      fen_node_daemon_id = wel_node_daemon_id welcome_payload,
      fen_node_daemon_generation = wel_node_daemon_generation welcome_payload,
      fen_control_plane_generation = wel_control_plane_generation welcome_payload\<rparr>"

definition hello_of :: "FabricFrame \<Rightarrow> NodeHello result" where
  "hello_of frame =
     (case frm_payload frame of
        PayloadHello hello \<Rightarrow> Inr hello
      | _ \<Rightarrow> Inl (FabricError_none ProtocolIncompatible ''first Fabric frame must be hello''))"

definition open_session :: "server \<Rightarrow> VerifiedMtlsPeer \<Rightarrow> FabricSessionFence serve" where
  "open_session srv peer =
     andThen (failing (read_frame (srv_wire srv))) (\<lambda>frame.
     check (map_err Failed (hello_of frame)) (\<lambda>hello.
     check (map_err Failed (reject_if (frm_company_id frame \<noteq> peer_company_id peer
                                       \<or> frm_node_id frame \<noteq> peer_node_id peer
                                       \<or> frm_node_daemon_id frame \<noteq> hello_node_daemon_id hello
                                       \<or> frm_node_daemon_generation frame \<noteq> hello_node_daemon_generation hello)
              (FabricError_none SourceMismatch
                 ''pre-lease Hello frame disagrees with mTLS or NodeDaemon identity''))) (\<lambda>_.
     andThen (failing read_clock) (\<lambda>now.
     andThen (failing (on_state (connect_gateway_mtls (srv_codec srv) (srv_control_plane srv)
                (srv_generation srv) peer hello now))) (\<lambda>welcome_payload.
     andThen (reply srv (session_of welcome_payload) (frm_correlation_id frame)
                (PayloadWelcome welcome_payload) now) (\<lambda>_ s.
     (Inr (session_of welcome_payload), s)))))))"

definition serve_control_plane_session_with_application :: "server \<Rightarrow> VerifiedMtlsPeer \<Rightarrow> unit serve" where
  "serve_control_plane_session_with_application srv peer =
     andThen (open_session srv peer) (\<lambda>session s.
     serve_rounds (Suc (length (soc_incoming s))) srv peer session s)"

definition serve_control_plane_session :: "server \<Rightarrow> VerifiedMtlsPeer \<Rightarrow> unit serve" where
  "serve_control_plane_session srv peer =
     serve_control_plane_session_with_application
       (srv\<lparr>srv_application := NoopControlPlaneReceiptApplication\<rparr>) peer"

section \<open>The loop ends\<close>

text \<open>An action that reads nothing from the socket.\<close>

definition reads_nothing :: "('s endpoint, 'e, 'a) action \<Rightarrow> bool" where
  "reads_nothing f \<longleftrightarrow> (\<forall>s. soc_incoming (snd (f s)) = soc_incoming s)"

lemma reads_nothing_check [intro]: "(\<And>x. reads_nothing (k x)) \<Longrightarrow> reads_nothing (check r k)"
  by (cases r) (simp_all add: reads_nothing_def)

lemma reads_nothing_andThen [intro]:
  assumes "reads_nothing f" and "\<And>x. reads_nothing (k x)"
  shows "reads_nothing (andThen f k)"
  unfolding reads_nothing_def
proof
  fix s
  have "soc_incoming (snd (f s)) = soc_incoming s" using assms(1) by (simp add: reads_nothing_def)
  then show "soc_incoming (snd (andThen f k s)) = soc_incoming s"
    by (intro andThen_pred [where P = "\<lambda>t. soc_incoming t = soc_incoming s"])
      (use assms(2) in \<open>auto simp: reads_nothing_def\<close>)
qed

lemma reads_nothing_failing [intro]: "reads_nothing f \<Longrightarrow> reads_nothing (failing f)"
  by (simp add: reads_nothing_def failing_def split: prod.split)
    (metis snd_conv)

lemma reads_nothing_on_state [intro, simp]: "reads_nothing (on_state f)"
  by (simp add: reads_nothing_def on_state_def split: prod.split)

lemma reads_nothing_snapshot [intro, simp]: "reads_nothing snapshot"
  by (simp add: reads_nothing_def snapshot_def)

lemma reads_nothing_clock [intro, simp]: "reads_nothing read_clock"
  by (simp add: reads_nothing_def read_clock_def split: option.split)

lemma reads_nothing_return [intro, simp]: "reads_nothing (Pair r)"
  by (simp add: reads_nothing_def)

lemma reads_nothing_send [intro, simp]: "reads_nothing (send_payload w session c p now)"
  unfolding send_payload_def write_frame_def
  by (intro reads_nothing_check) (simp add: reads_nothing_def socket_send_def split: option.split)

lemma reads_nothing_reply [intro, simp]: "reads_nothing (reply srv session c p now)"
  unfolding reply_def by auto

lemma reads_nothing_follow_ups [intro, simp]: "reads_nothing (accept_follow_ups srv now fs)"
proof (induction fs)
  case Nil
  then show ?case by (simp add: reads_nothing_def)
next
  case (Cons f fs)
  have "accept_follow_ups srv now (f # fs) =
      andThen (failing (on_state (accept_control_plane_operation (srv_codec srv) (srv_limits srv)
        (srv_control_plane srv) (srv_generation srv) (cfu_authenticated_actor f) (cfu_operation f) now)))
      (\<lambda>_. accept_follow_ups srv now fs)"
    by (rule ext) simp
  then show ?case using Cons by auto
qed

lemma reads_nothing_chunks [intro, simp]: "reads_nothing (send_chunks srv session c now cs)"
proof (induction cs)
  case Nil
  then show ?case by (simp add: reads_nothing_def)
next
  case (Cons x cs)
  have "send_chunks srv session c now (x # cs) =
      andThen (reply srv session c (PayloadArtifactDownloadChunk x) now) (\<lambda>_. send_chunks srv session c now cs)"
    by (rule ext) simp
  then show ?case using Cons by auto
qed

lemma reads_nothing_pending [intro, simp]: "reads_nothing (send_pending srv session now)"
  unfolding send_pending_def
proof (intro reads_nothing_andThen reads_nothing_snapshot)
  fix state
  show "reads_nothing (case pending_attempts state session of
       [] \<Rightarrow> (\<lambda>s. (Inr False, s))
     | attempt # _ \<Rightarrow>
         check (map_err Failed (ok_or (bt_get (operations state) (att_operation_id attempt))
                  (FabricError_none StoreUnavailable ''route attempt has no canonical operation''))) (\<lambda>operation.
         andThen (reply srv session (op_correlation_id operation)
                    (PayloadRoutedOperation \<lparr>rod_operation = operation, rod_attempt = attempt\<rparr>) now)
           (\<lambda>_ s. (Inr True, s))))"
    by (cases "pending_attempts state session") (simp_all add: reads_nothing_check reads_nothing_andThen)
qed

lemma reads_nothing_payload: "reads_nothing (serve_payload srv peer session c now p)"
  by (cases p)
    (auto simp: serve_heartbeat_def serve_submit_def serve_target_persisted_def serve_operation_result_def
      serve_reconcile_def serve_artifact_capability_def serve_artifact_download_def Let_def
      intro!: reads_nothing_andThen reads_nothing_check split: prod.split)

lemma reads_nothing_frame: "reads_nothing (serve_frame srv peer session frame)"
  unfolding serve_frame_def by (intro reads_nothing_check reads_nothing_andThen reads_nothing_failing
      reads_nothing_clock reads_nothing_payload)

lemma read_frame_consumes:
  "read_frame_loop w ms s = (Inr frame, t) \<Longrightarrow> length (soc_incoming t) < length ms"
proof (induction w ms s rule: read_frame_loop.induct)
  case (6 w payload rest s)
  then show ?case by (auto simp: andThen_eq_Inr less_Suc_eq)
next
  case (7 w payload rest s)
  then show ?case by (auto simp: less_Suc_eq)
qed auto

text \<open>The unbounded loop returns, and what it returns.\<close>

lemma serve_loop_returns:
  "length (soc_incoming s) < rounds \<Longrightarrow> serve_loop srv peer session s = Some (serve_rounds rounds srv peer session s)"
proof (induction rounds arbitrary: s)
  case (Suc rounds)
  show ?case
  proof (cases "read_frame (srv_wire srv) s")
    case (Pair r t)
    show ?thesis
    proof (cases r)
      case (Inr frame)
      have t: "length (soc_incoming t) < length (soc_incoming s)"
        using Pair Inr read_frame_consumes by (auto simp: read_frame_def)
      have "serve_loop srv peer session u = Some (serve_rounds rounds srv peer session u)"
        if "serve_frame srv peer session frame t = (Inr x, u)" for x u
      proof (rule Suc.IH)
        have "soc_incoming u = soc_incoming t"
          using reads_nothing_frame that unfolding reads_nothing_def by (metis snd_conv)
        then show "length (soc_incoming u) < rounds" using t Suc.prems by simp
      qed
      then show ?thesis using Pair Inr
        by (auto simp: andThen_def serve_loop.simps [of srv peer session s] split: prod.split sum.split)
    qed (simp add: Pair serve_loop.simps)
  qed
qed simp

lemma serve_rounds_closed:
  "serve_rounds rounds srv peer session s = (Inr (), t) \<Longrightarrow> length (soc_incoming s) < rounds
    \<Longrightarrow> \<exists>u error. read_frame (srv_wire srv) u = (Inl error, t) \<and> err_code error = TargetOffline"
proof (induction rounds arbitrary: s)
  case (Suc rounds)
  show ?case
  proof (cases "read_frame (srv_wire srv) s")
    case (Pair r v)
    show ?thesis
    proof (cases r)
      case (Inl error)
      with Suc.prems(1) Pair show ?thesis by (auto split: if_splits)
    next
      case (Inr frame)
      with Pair Suc.prems(1) obtain u where
        u: "serve_frame srv peer session frame v = (Inr (), u)" "serve_rounds rounds srv peer session u = (Inr (), t)"
        by (auto simp: andThen_eq_Inr)
      have "length (soc_incoming v) < length (soc_incoming s)"
        using Pair Inr read_frame_consumes by (auto simp: read_frame_def)
      moreover have "soc_incoming u = soc_incoming v"
        using reads_nothing_frame u(1) unfolding reads_nothing_def by (metis snd_conv)
      ultimately show ?thesis using Suc.IH [OF u(2)] Suc.prems(2) by simp
    qed
  qed
qed simp

end
