(* ===== verification/Session_Properties.thy ===== *)
theory Session_Properties
  imports Gateway_Client Gateway_Server Local_Properties
begin

text \<open>
  What the Node's side of a gateway session guarantees: the application runs an operation at most
  once, whatever the socket delivers, whichever sends fail and however often the session is reopened.
\<close>

section \<open>Predicates kept by the node's actions\<close>

abbreviation keeps_state :: "('s \<Rightarrow> bool) \<Rightarrow> ('s, 'a) io \<Rightarrow> bool" where
  "keeps_state P f \<equiv> keeps (\<lambda>s. P (soc_state s)) f"

lemma keeps_check: "(\<And>x. keeps P (k x)) \<Longrightarrow> keeps P (check r k)"
  by (cases r) (simp_all add: keeps_def)

lemma keeps_andThen:
  assumes "keeps P f" and "\<And>x. keeps P (k x)"
  shows "keeps P (andThen f k)"
  unfolding keeps_def
proof (intro allI impI)
  fix s assume "P s"
  then have f: "P (snd (f s))" using assms(1) unfolding keeps_def by blast
  show "P (snd (andThen f k s))"
  proof (rule andThen_pred [where P = P and f = f and s = s])
    show "P (snd (f s))" by (rule f)
    fix x t assume "f s = (Inr x, t)"
    then have "P t" using f by simp
    then show "P (snd (k x t))" using assms(2) unfolding keeps_def by blast
  qed
qed

lemma keeps_if: "keeps P f \<Longrightarrow> keeps P g \<Longrightarrow> keeps P (if b then f else g)"
  by simp

lemma keeps_return: "keeps P (\<lambda>s. (r, s))"
  by (simp add: keeps_def)

lemma keeps_caught: "keeps P f \<Longrightarrow> keeps P (caught f)"
  unfolding keeps_def caught_def by (metis (mono_tags) case_prod_beta snd_conv)

lemma keeps_io:
  "keeps_state P read_clock" "keeps_state P (send_payload w session c p now)" "keeps_state P (read_frame w)"
  by (simp_all add: keeps_def)

lemma keeps_send_now: "keeps_state P (send_now w session c p)"
  unfolding send_now_def by (intro keeps_andThen keeps_io)

lemma keeps_read_session: "keeps_state P (read_session_frame w session)"
  unfolding read_session_frame_def by (intro keeps_andThen keeps_check keeps_io keeps_return)

lemma keeps_read_receipt: "keeps_state P (read_receipt w session)"
  unfolding read_receipt_def by (intro keeps_andThen keeps_check keeps_read_session keeps_return)

lemma keeps_receive_chunks: "keeps_state P (receive_chunks n w cd session cap received)"
proof (induction n arbitrary: received)
  case 0
  then show ?case by (simp add: keeps_def)
next
  case (Suc n)
  have "receive_chunks (Suc n) w cd session cap received =
     andThen (read_session_frame w session) (\<lambda>payload.
     check (take_chunk cd cap received payload) (\<lambda>(bytes, terminal).
     if terminal then (\<lambda>s. (Inr bytes, s)) else receive_chunks n w cd session cap bytes))"
    by (rule ext) simp
  moreover have "keeps_state P (case x of (bytes, terminal) \<Rightarrow>
     if terminal then (\<lambda>s. (Inr bytes, s)) else receive_chunks n w cd session cap bytes)" for x
    by (cases x) (simp add: keeps_return Suc)
  ultimately show ?case by (simp add: keeps_andThen keeps_check keeps_read_session)
qed

lemmas keeps_intros = keeps_andThen keeps_check keeps_if keeps_return keeps_caught keeps_io keeps_send_now
  keeps_read_session keeps_read_receipt

lemma keeps_on_local:
  "(\<And>n. P n \<Longrightarrow> P (n\<lparr>ns_local := snd (f (ns_local n))\<rparr>)) \<Longrightarrow> keeps_state P (on_local f)"
  by (auto simp: keeps_def on_local_def split: prod.split) (metis snd_conv)

lemma keeps_on_application:
  "(\<And>n. P n \<Longrightarrow> P (n\<lparr>ns_application := snd (f (ns_application n))\<rparr>)) \<Longrightarrow> keeps_state P (on_application f)"
  by (auto simp: keeps_def on_application_def split: prod.split) (metis snd_conv)

section \<open>Application at most once\<close>

text \<open>An application that notes the operations it runs, next to its own state.\<close>

definition noting ::
    "RoutedOperation \<Rightarrow> ('p \<Rightarrow> 'a \<times> 'p) \<Rightarrow> 'p \<times> string list \<Rightarrow> 'a \<times> 'p \<times> string list" where
  "noting operation f = (\<lambda>(p, log). case f p of (r, q) \<Rightarrow> (r, q, log @ [op_id operation]))"

definition silent :: "('p \<Rightarrow> 'a \<times> 'p) \<Rightarrow> 'p \<times> string list \<Rightarrow> 'a \<times> 'p \<times> string list" where
  "silent f = (\<lambda>(p, log). case f p of (r, q) \<Rightarrow> (r, q, log))"

definition logging :: "'p NodeApplication \<Rightarrow> ('p \<times> string list) NodeApplication" where
  "logging app =
     \<lparr>app_apply = (\<lambda>operation. noting operation (app_apply app operation)),
      app_apply_downloaded_artifact = (\<lambda>operation artifact_id artifact_digest bytes.
        noting operation (app_apply_downloaded_artifact app operation artifact_id artifact_digest bytes)),
      app_replay_downloaded_artifact = (\<lambda>operation. silent (app_replay_downloaded_artifact app operation)),
      app_authorize_artifact_download = (\<lambda>operation capability.
        silent (app_authorize_artifact_download app operation capability))\<rparr>"

text \<open>
  The life of a Node: it runs \<^verbatim>\<open>apply_next\<close> on any endpoint (any messages, failures and clock), with
  any result, and between two runs any transaction of its local store commits.
\<close>

inductive node_event ::
    "client \<Rightarrow> 'p NodeApplication \<Rightarrow> ('p \<times> string list) node_side \<Rightarrow> ('p \<times> string list) node_side \<Rightarrow> bool"
  for cli app where
  applied: "apply_next cli (logging app) session e = (r, e')
    \<Longrightarrow> node_event cli app (soc_state e) (soc_state e')"
| stored: "local_step (cli_codec cli) (cli_store cli) (ns_local n) l \<Longrightarrow> node_event cli app n (n\<lparr>ns_local := l\<rparr>)"

definition node_start :: "'p \<Rightarrow> ('p \<times> string list) node_side" where
  "node_start p = \<lparr>ns_local = default_local_state, ns_application = (p, [])\<rparr>"

definition crossed :: "NodeLocalFabricState \<Rightarrow> string \<Rightarrow> bool" where
  "crossed l i \<longleftrightarrow> (\<exists>inbox. bt_get (inboxes l) i = Some inbox \<and> inb_state inbox \<noteq> InboxPersisted)"

definition once :: "('p \<times> string list) node_side \<Rightarrow> bool" where
  "once n \<longleftrightarrow> local_inv (ns_local n) \<and> distinct (snd (ns_application n))
     \<and> (\<forall>i \<in> set (snd (ns_application n)). crossed (ns_local n) i)"

text \<open>The operation is claimed and was not run.\<close>

definition ready :: "string \<Rightarrow> ('p \<times> string list) node_side \<Rightarrow> bool" where
  "ready i n \<longleftrightarrow> once n \<and> crossed (ns_local n) i \<and> i \<notin> set (snd (ns_application n))"

lemma crossed_ext: "local_ext l l' \<Longrightarrow> crossed l i \<Longrightarrow> crossed l' i"
  unfolding crossed_def local_ext_def inbox_le_def by blast

lemma once_local: "once n \<Longrightarrow> local_good (ns_local n) l \<Longrightarrow> once (n\<lparr>ns_local := l\<rparr>)"
  by (auto simp: once_def local_good_def intro: crossed_ext)

lemma once_step:
  "once n \<Longrightarrow> local_step cd st (ns_local n) l \<Longrightarrow> once (n\<lparr>ns_local := l\<rparr>)"
  by (rule once_local) (simp_all add: once_def local_step_good)

lemma local_ops_atomic:
  "atomic (persist_inbox cd st session operation attempt now)"
  "atomic (consume_expired_ordering_tombstone cd st session operation attempt now)"
  "atomic (claim_inbox cd st session operation now)"
  "atomic (record_application_result cd st session i schema result effect now)"
  unfolding persist_inbox_def consume_expired_ordering_tombstone_def claim_inbox_def record_application_result_def
  by (intro atomic_check transact_session_atomic)+

lemma keeps_once_local:
  assumes "atomic f" and "\<And>l x l'. f l = (Inr x, l') \<Longrightarrow> local_step cd st l l'"
  shows "keeps_state once (on_local f)"
proof (rule keeps_on_local)
  fix n :: "('b \<times> string list) node_side"
  assume n: "once n"
  obtain r l where f: "f (ns_local n) = (r, l)" by (cases "f (ns_local n)")
  show "once (n\<lparr>ns_local := snd (f (ns_local n))\<rparr>)"
  proof (cases r)
    case (Inl e)
    then show ?thesis using n f atomicD [OF assms(1)] by (metis node_side.update_convs(1) node_side.surjective node_side.select_convs(1) snd_conv)
  next
    case (Inr x)
    then show ?thesis using once_step [OF n assms(2)] f by simp
  qed
qed

lemma once_apply: "ready (op_id operation) n \<Longrightarrow>
     once (n\<lparr>ns_application := snd (noting operation f (ns_application n))\<rparr>)"
  by (cases "ns_application n") (auto simp: noting_def ready_def once_def split: prod.split)

lemma once_silent: "once (n\<lparr>ns_application := snd (silent f (ns_application n))\<rparr>) \<longleftrightarrow> once n"
  by (cases "ns_application n") (simp add: silent_def once_def split: prod.split)

lemma ready_silent: "ready i (n\<lparr>ns_application := snd (silent f (ns_application n))\<rparr>) \<longleftrightarrow> ready i n"
  by (cases "ns_application n") (simp add: silent_def ready_def once_def split: prod.split)

lemma ready_once: "ready i n \<Longrightarrow> once n"
  by (simp add: ready_def)

text \<open>Claiming an inbox makes its operation ready: before the claim the row was persisted only.\<close>

lemma claim_ready:
  assumes "once n" and "claim_inbox cd st session operation now (ns_local n) = (Inr x, l)"
  shows "ready (op_id operation) (n\<lparr>ns_local := l\<rparr>)"
proof -
  have l: "once (n\<lparr>ns_local := l\<rparr>)" by (rule once_step [OF assms(1) local_step.claim [OF assms(2)]])
  obtain inbox where i: "bt_get (inboxes (ns_local n)) (op_id operation) = Some inbox"
    "inb_state inbox = InboxPersisted" "inb_state x = InboxClaimed" "bt_get (inboxes l) (op_id operation) = Some x"
    using assms(2) by (auto elim!: claim_Inr)
  then have "\<not> crossed (ns_local n) (op_id operation)" by (simp add: crossed_def)
  then have "op_id operation \<notin> set (snd (ns_application n))" using assms(1) by (auto simp: once_def)
  moreover have "crossed l (op_id operation)" using i(3,4) by (simp add: crossed_def)
  ultimately show ?thesis using l by (simp add: ready_def)
qed

lemma persist_keeps: "keeps_state once (on_local (persist_inbox cd st session operation attempt now))"
  by (rule keeps_once_local [where cd = cd and st = st, OF local_ops_atomic(1)]) (metis local_step.persist prod.exhaust)

lemma claim_keeps: "keeps_state once (on_local (claim_inbox cd st session operation now))"
  by (rule keeps_once_local [where cd = cd and st = st, OF local_ops_atomic(3)]) (rule local_step.claim)

lemma tombstone_keeps:
  "keeps_state once (on_local (consume_expired_ordering_tombstone cd st session operation attempt now))"
  by (rule keeps_once_local [where cd = cd and st = st, OF local_ops_atomic(2)]) (metis local_step.tombstone prod.exhaust)

lemma result_keeps:
  "keeps_state once (on_local (record_application_result cd st session i schema result effect now))"
  by (rule keeps_once_local [where cd = cd and st = st, OF local_ops_atomic(4)]) (metis local_step.result prod.exhaust)

lemma expired_keeps: "keeps_state once (report_expired cli session delivery now)"
  unfolding report_expired_def by (intro keeps_intros tombstone_keeps)

lemma persist_delivery_keeps: "keeps_state once (persist_delivery cli session delivery now)"
  unfolding persist_delivery_def
  by (intro keeps_andThen persist_keeps, unfold split_def) (intro keeps_intros claim_keeps)

lemma report_keeps: "keeps_state once (report_outcome cli session operation outcome)"
  unfolding report_outcome_def split_def by (intro keeps_intros result_keeps)

text \<open>What holds after a success, and what holds after any result.\<close>

definition ensures :: "('s \<Rightarrow> bool) \<Rightarrow> ('s, 'e, 'a) action \<Rightarrow> ('s \<Rightarrow> bool) \<Rightarrow> bool" where
  "ensures P f Q \<longleftrightarrow> (\<forall>s x t. P s \<longrightarrow> f s = (Inr x, t) \<longrightarrow> Q t)"

definition leads :: "('s \<Rightarrow> bool) \<Rightarrow> ('s, 'e, 'a) action \<Rightarrow> ('s \<Rightarrow> bool) \<Rightarrow> bool" where
  "leads P f Q \<longleftrightarrow> (\<forall>s. P s \<longrightarrow> Q (snd (f s)))"

lemma keepsD: "keeps P f \<Longrightarrow> P s \<Longrightarrow> f s = (r, t) \<Longrightarrow> P t"
  unfolding keeps_def by (metis snd_conv)

lemma ensures_check: "(\<And>x. ensures P (k x) Q) \<Longrightarrow> ensures P (check r k) Q"
  by (cases r) (simp_all add: ensures_def)

lemma ensures_then:
  assumes "keeps P f" and "\<And>x. ensures P (k x) Q"
  shows "ensures P (andThen f k) Q"
  using assms keepsD [OF assms(1)] unfolding ensures_def andThen_eq_Inr by blast

lemma ensures_return: "ensures P f Q \<Longrightarrow> ensures P (andThen f (\<lambda>x s. (r x, s))) Q"
  unfolding ensures_def andThen_eq_Inr by auto

lemma leads_then:
  assumes "ensures P f Q" "leads P f R" "\<And>x. leads Q (k x) R"
  shows "leads P (andThen f k) R"
  unfolding leads_def
proof (intro allI impI)
  fix s assume s: "P s"
  show "R (snd (andThen f k s))"
  proof (rule andThen_pred [where P = R and f = f and s = s])
    show "R (snd (f s))" using assms(2) s unfolding leads_def by blast
    fix x t assume "f s = (Inr x, t)"
    then have "Q t" using assms(1) s unfolding ensures_def by blast
    then show "R (snd (k x t))" using assms(3) unfolding leads_def by blast
  qed
qed

lemma keeps_ensures: "keeps P f \<Longrightarrow> ensures P f P"
  using keepsD unfolding ensures_def by metis

lemma keeps_leads: "keeps P f \<Longrightarrow> (\<And>s. P s \<Longrightarrow> Q s) \<Longrightarrow> leads P f Q"
  unfolding keeps_def leads_def by blast

lemma leads_after:
  "keeps P f \<Longrightarrow> (\<And>s. P s \<Longrightarrow> R s) \<Longrightarrow> (\<And>x. leads P (k x) R) \<Longrightarrow> leads P (andThen f k) R"
  by (rule leads_then [OF keeps_ensures keeps_leads])

lemma leads_check: "(\<And>x. leads P (k x) Q) \<Longrightarrow> (\<And>s. P s \<Longrightarrow> Q s) \<Longrightarrow> leads P (check r k) Q"
  by (cases r) (simp_all add: leads_def)

lemma leads_caught: "leads P f Q \<Longrightarrow> leads P (caught f) Q"
  unfolding leads_def caught_def by (metis (mono_tags) case_prod_beta snd_conv)

text \<open>After the delivery was persisted and claimed, its operation is ready.\<close>

lemma claim_ensures:
  "ensures (\<lambda>s. once (soc_state s)) (on_local (claim_inbox cd st session operation now))
     (\<lambda>s. ready (op_id operation) (soc_state s))"
  unfolding ensures_def
proof (intro allI impI)
  fix s x t
  assume "once (soc_state s)" "on_local (claim_inbox cd st session operation now) s = (Inr x, t)"
  then show "ready (op_id operation) (soc_state t)"
    using claim_ready [of "soc_state s"] by (auto simp: on_local_def on_state_def split: prod.split_asm)
qed

lemma persist_delivery_ensures:
  "ensures (\<lambda>s. once (soc_state s)) (persist_delivery cli session delivery now)
     (\<lambda>s. ready (op_id (rod_operation delivery)) (soc_state s))"
  unfolding persist_delivery_def split_def
  by (intro ensures_then persist_keeps ensures_check ensures_return claim_ensures keeps_send_now keeps_read_receipt
      keeps_io)

lemma keeps_silent: "keeps_state (ready i) (on_application (silent f))"
  by (rule keeps_on_application) (simp add: ready_silent)

lemma noting_leads:
  "leads (\<lambda>s. ready (op_id operation) (soc_state s)) (caught (on_application (noting operation f)))
     (\<lambda>s. once (soc_state s))"
proof (rule leads_caught)
  show "leads (\<lambda>s. ready (op_id operation) (soc_state s)) (on_application (noting operation f)) (\<lambda>s. once (soc_state s))"
    using once_apply [of operation _ f] by (auto simp: leads_def on_application_def on_state_def split: prod.split)
      (metis snd_conv)
qed

lemma download_keeps_ready: "keeps_state (ready i) (download_granted cli (logging app) session operation capability)"
proof -
  have "keeps_state (ready i) (\<lambda>s. receive_chunks (Suc (length (soc_incoming s))) (cli_wire cli) (cli_codec cli)
      session capability [] s)"
    using keeps_receive_chunks unfolding keeps_def by blast
  then show ?thesis unfolding download_granted_def logging_def
    by (simp only: NodeApplication.select_convs) (intro keeps_andThen keeps_silent keeps_send_now)
qed

lemma run_application_leads:
  "leads (\<lambda>s. ready (op_id operation) (soc_state s)) (run_application cli (logging app) session operation)
     (\<lambda>s. once (soc_state s))"
proof -
  let ?ready = "\<lambda>s. ready (op_id operation) (soc_state s)" and ?once = "\<lambda>s. once (soc_state s)"
  have ro: "?ready s \<Longrightarrow> ?once s" for s by (rule ready_once)
  have return: "leads ?ready (\<lambda>s. (r, s)) ?once" for r by (rule keeps_leads [OF keeps_return ro])
  have apply_op: "leads ?ready (caught (on_application (app_apply (logging app) operation))) ?once"
    "leads ?ready (caught (on_application (app_apply_downloaded_artifact (logging app) operation a d bs))) ?once"
    for a d bs by (simp_all add: logging_def noting_leads)
  have replay: "keeps ?ready (on_application (app_replay_downloaded_artifact (logging app) operation))"
    by (simp add: logging_def keeps_silent)
  have downloaded: "keeps ?ready (caught (download_granted cli (logging app) session operation capability))"
    for capability by (intro keeps_caught download_keeps_ready)
  have granted: "leads ?ready
      (case g of None \<Rightarrow> caught (on_application (app_apply (logging app) operation))
       | Some capability \<Rightarrow>
           andThen (caught (download_granted cli (logging app) session operation capability)) (\<lambda>downloaded.
           case downloaded of
             Inr bytes \<Rightarrow> caught (on_application (app_apply_downloaded_artifact (logging app) operation
                            (cap_artifact_id capability) (cap_artifact_digest capability) bytes))
           | Inl error \<Rightarrow> (\<lambda>s. (Inr (Inl (FabricError_unknown (op_id operation)
                 (''artifact capability may have been consumed before source import completed: ''
                    @ err_message error))), s)))) ?once" for g
  proof (cases g)
    case (Some capability)
    show ?thesis unfolding Some option.case
    proof (rule leads_after [OF downloaded ro])
      fix x show "leads ?ready
          (case x of
             Inr bytes \<Rightarrow> caught (on_application (app_apply_downloaded_artifact (logging app) operation
                            (cap_artifact_id capability) (cap_artifact_digest capability) bytes))
           | Inl error \<Rightarrow> (\<lambda>s. (Inr (Inl (FabricError_unknown (op_id operation)
                 (''artifact capability may have been consumed before source import completed: ''
                    @ err_message error))), s))) ?once"
        by (cases x) (simp_all only: sum.case apply_op return)
    qed
  qed (simp only: option.case apply_op)
  show ?thesis unfolding run_application_def
  proof (rule leads_after [OF replay ro])
    fix x show "leads ?ready
        (case x of Some replay \<Rightarrow> (\<lambda>s. (Inr (Inr replay), s))
         | None \<Rightarrow> check (artifact_download_capability cli operation) (\<lambda>granted.
             case granted of None \<Rightarrow> caught (on_application (app_apply (logging app) operation))
             | Some capability \<Rightarrow>
                 andThen (caught (download_granted cli (logging app) session operation capability)) (\<lambda>downloaded.
                 case downloaded of
                   Inr bytes \<Rightarrow> caught (on_application (app_apply_downloaded_artifact (logging app) operation
                                  (cap_artifact_id capability) (cap_artifact_digest capability) bytes))
                 | Inl error \<Rightarrow> (\<lambda>s. (Inr (Inl (FabricError_unknown (op_id operation)
                       (''artifact capability may have been consumed before source import completed: ''
                          @ err_message error))), s))))) ?once"
      by (cases x) (simp_all only: option.case return leads_check [OF granted ro])
  qed
qed

lemma apply_next_keeps: "keeps_state once (apply_next cli (logging app) session)"
proof -
  let ?once = "\<lambda>s. once (soc_state s)"
  have rest: "leads (\<lambda>s. ready (op_id operation) (soc_state s))
      (andThen (run_application cli (logging app) session operation) (\<lambda>application_result.
         check (outcome_to_report (cli_codec cli) operation application_result) (\<lambda>outcome.
         report_outcome cli session operation outcome))) ?once" for operation
  proof (rule leads_then [OF _ run_application_leads])
    show "ensures (\<lambda>s. ready (op_id operation) (soc_state s)) (run_application cli (logging app) session operation) ?once"
      using run_application_leads unfolding ensures_def leads_def by (metis snd_conv)
    fix x show "leads ?once (check (outcome_to_report (cli_codec cli) operation x) (\<lambda>outcome.
         report_outcome cli session operation outcome)) ?once"
      by (rule keeps_leads [OF keeps_check [OF report_keeps]])
  qed
  have delivered: "keeps ?once (andThen (persist_delivery cli session delivery now) (\<lambda>_.
       andThen (run_application cli (logging app) session (rod_operation delivery)) (\<lambda>application_result.
       check (outcome_to_report (cli_codec cli) (rod_operation delivery) application_result) (\<lambda>outcome.
       report_outcome cli session (rod_operation delivery) outcome))))" for delivery now
    using leads_then [OF persist_delivery_ensures keeps_leads [OF persist_delivery_keeps] rest]
    unfolding leads_def keeps_def by blast
  show ?thesis unfolding apply_next_def
    by (rule keeps_andThen [OF keeps_read_session], rule keeps_check, rule keeps_andThen [OF keeps_io(1)],
        rule keeps_if [OF expired_keeps delivered])
qed

lemma node_event_once: "once n \<Longrightarrow> node_event cli app n n' \<Longrightarrow> once n'"
  by (erule node_event.cases) (auto intro: once_step keepsD [OF apply_next_keeps])

text \<open>The life of a Node keeps the invariant, as any system of this development does.\<close>

interpretation node_life: invariant_system "\<lambda>n. \<exists>p. n = node_start p" "node_event cli app" once for cli app
proof unfold_locales
  fix n assume "\<exists>p. n = node_start p"
  then show "once n" by (auto simp: node_start_def once_def local_inv_default)
qed (rule node_event_once)

text \<open>
  C34. A Node runs an operation at most once. Over the whole life of a Node, with any messages on the
  socket, any failures and any clock, whatever \<^verbatim>\<open>apply_next\<close> returned each time and whatever its
  store committed in between, the application has not been run twice for one operation id, and an
  operation it was run for is claimed or settled in the durable inbox.
\<close>

theorem application_at_most_once:
  assumes "(node_event cli app)\<^sup>*\<^sup>* (node_start p) n"
  shows "distinct (snd (ns_application n))
    \<and> (\<forall>i \<in> set (snd (ns_application n)).
         \<exists>inbox. bt_get (inboxes (ns_local n)) i = Some inbox \<and> inb_state inbox \<noteq> InboxPersisted)"
  using node_life.reachable_inv [OF _ assms] by (auto simp: once_def crossed_def)

text \<open>A socket that delivers the operation of the sample run and the receipts for it.\<close>

definition sample_payload :: "bytes \<Rightarrow> FabricPayload" where
  "sample_payload bs =
     (if bs = ''d'' then PayloadRoutedOperation \<lparr>rod_operation = sample_operation ''op1'', rod_attempt = node_attempt\<rparr>
      else PayloadReceipt
        \<lparr>rcp_id = ''r'', rcp_company_id = ''co'', rcp_operation_id = ''op1'', rcp_target_node_id = ''n1'',
         rcp_target_gateway_generation = 1, rcp_control_plane_generation = 1, rcp_route_seq = 1,
         rcp_kind = TargetPersisted, rcp_application_effect = None, rcp_result_schema = None, rcp_result = None,
         rcp_result_digest = None, rcp_error = None, rcp_created_at_unix_ms = 1005,
         rcp_schema_version = FABRIC_SCHEMA_VERSION\<rparr>)"

definition sample_frame :: "bytes \<Rightarrow> FabricFrame" where
  "sample_frame bs =
     \<lparr>frm_frame_id = ''f'', frm_protocol_version = FABRIC_PROTOCOL_VERSION, frm_schema_version = FABRIC_SCHEMA_VERSION,
      frm_canonicalization_version = FABRIC_CANONICALIZATION_VERSION, frm_company_id = ''co'', frm_node_id = ''n1'',
      frm_gateway_generation = 1, frm_node_daemon_id = ''d'', frm_node_daemon_generation = 1,
      frm_control_plane_generation = 1, frm_sent_at_unix_ms = 1004, frm_correlation_id = ''x'',
      frm_payload = sample_payload bs, frm_payload_digest = bytes_to_hex (sample_hash ''p'')\<rparr>"

definition sample_wire :: wire where
  "sample_wire = codec.extend sample_codec
     \<lparr>payload_to_value = (\<lambda>payload. Inr (JString ''p'')), frame_to_vec = (\<lambda>frame. Inr ''frame''),
      frame_from_slice = (\<lambda>bs. Inr (sample_frame bs))\<rparr>"

definition sample_client :: client where
  "sample_client = \<lparr>cli_wire = sample_wire, cli_capability_from_value = (\<lambda>_. Inl ''none''), cli_store = node_store\<rparr>"

definition delivering :: "(unit \<times> string list) node_side \<Rightarrow> (unit \<times> string list) node_side endpoint" where
  "delivering n =
     \<lparr>soc_incoming = [Inr (WsBinary ''d''), Inr (WsPing []), Inr (WsBinary ''p''), Inr (WsBinary ''r'')],
      soc_outgoing = [], soc_send_error = (\<lambda>_. None), soc_clock = (\<lambda>tick. Some 1005), soc_ticks = 0, soc_state = n\<rparr>"

definition node_bound :: "(unit \<times> string list) node_side" where
  "node_bound = (node_start ())\<lparr>ns_local := snd node1\<rparr>"

definition node_applied :: "(unit \<times> string list) node_side" where
  "node_applied = soc_state (snd (apply_next sample_client (logging (ProbeApplication sample_codec)) (node_session 1)
     (delivering node_bound)))"

lemma node_applied_log: "snd (ns_application node_applied) = [''op1'']"
  by code_simp

theorem application_at_most_once_witness:
  "snd (ns_application node_applied) = [''op1''] \<and> distinct (snd (ns_application node_applied))
   \<and> (\<exists>inbox. bt_get (inboxes (ns_local node_applied)) ''op1'' = Some inbox \<and> inb_state inbox \<noteq> InboxPersisted)"
proof -
  have cd: "cli_codec sample_client = sample_codec"
    by (simp add: cli_codec_def sample_client_def sample_wire_def codec.defs)
  obtain u where "bind_gateway_session node_store (node_session 1) default_local_state = (Inr u, snd node1)"
    using committed_Inr [OF node_committed1] unfolding node1_def by blast
  then have "local_step (cli_codec sample_client) (cli_store sample_client) (ns_local (node_start ())) (snd node1)"
    by (simp add: cd sample_client_def node_start_def local_step.bind)
  then have "node_event sample_client (ProbeApplication sample_codec) (node_start ()) node_bound"
    unfolding node_bound_def by (rule node_event.stored)
  moreover have "node_event sample_client (ProbeApplication sample_codec) (soc_state (delivering node_bound)) node_applied"
    unfolding node_applied_def by (rule node_event.applied) (rule prod.collapse [symmetric])
  then have "node_event sample_client (ProbeApplication sample_codec) node_bound node_applied"
    by (simp add: delivering_def)
  ultimately have "(node_event sample_client (ProbeApplication sample_codec))\<^sup>*\<^sup>* (node_start ()) node_applied"
    by (meson rtranclp.rtrancl_into_rtrancl rtranclp.rtrancl_refl)
  from application_at_most_once [OF this] show ?thesis by (simp add: node_applied_log)
qed

end
