(* ===== verification/Download_Properties.thy ===== *)
theory Download_Properties
  imports Gateway_Client Gateway_Server Artifact_Properties
begin

text \<open>
  An artifact on its way over a gateway session, both ends together: the chunks the Control Plane
  sends are put together to the bytes of the artifact by the Node, and an artifact that fills one
  chunk never gets that far, because the frame of a full chunk is longer than a frame may be.
\<close>

section \<open>Frames that arrive\<close>

definition carries :: "wire \<Rightarrow> FabricSessionFence \<Rightarrow> ws_message \<Rightarrow> FabricPayload \<Rightarrow> bool" where
  "carries w session m p \<longleftrightarrow>
     (\<exists>bs f. m = WsBinary bs \<and> decode_frame w bs = Inr f \<and> validate_frame w session f = Inr () \<and> frm_payload f = p)"

lemma read_carried:
  "carries w session m p \<Longrightarrow> soc_incoming e = Inr m # rest
     \<Longrightarrow> read_session_frame w session e = (Inr p, e\<lparr>soc_incoming := rest\<rparr>)"
  by (auto simp: carries_def read_session_frame_def read_frame_def andThen_def)

lemma session_frame_Inr:
  assumes "session_frame w session c p now = Inr f"
  shows "frm_payload f = p" "frame_validate w f = Inr () \<Longrightarrow> validate_frame w session f = Inr ()"
  using assms by (auto simp: session_frame_def FabricFrame_new_def bindR_eq_Inr validate_frame_def)

lemma sent_payload_carried:
  assumes "frame_codec w" and "send_payload w session c p now s = (Inr (), t)"
  shows "\<exists>m. soc_outgoing t = soc_outgoing s @ [m] \<and> carries w session m p"
proof -
  obtain f bs where f: "session_frame w session c p now = Inr f" and bs: "encode_frame w f = Inr bs"
    and t: "soc_outgoing t = soc_outgoing s @ [WsBinary bs]"
    using assms(2) by (auto simp: send_payload_def write_frame_def check_eq_Inr socket_send_def split: option.splits)
  have "frame_validate w f = Inr ()" using bs by (simp add: encode_frame_Inr)
  then have "carries w session (WsBinary bs) p"
    using encode_decode_frame [OF assms(1) bs] session_frame_Inr [OF f] by (auto simp: carries_def)
  then show ?thesis using t by blast
qed

lemma reply_Inr: "reply srv session c p now s = (Inr u, t) \<longleftrightarrow> send_payload (srv_wire srv) session c p now s = (Inr u, t)"
  by (cases "send_payload (srv_wire srv) session c p now s", cases "fst (send_payload (srv_wire srv) session c p now s)")
    (auto simp: reply_def failing_def)

lemma sent_chunks_carried:
  assumes "frame_codec (srv_wire srv)"
  shows "send_chunks srv session c now cs s = (Inr (), t) \<Longrightarrow>
     \<exists>ms. soc_outgoing t = soc_outgoing s @ ms
       \<and> list_all2 (\<lambda>m chunk. carries (srv_wire srv) session m (PayloadArtifactDownloadChunk chunk)) ms cs"
proof (induction cs arbitrary: s)
  case (Cons chunk cs)
  then obtain u where u: "send_payload (srv_wire srv) session c (PayloadArtifactDownloadChunk chunk) now s = (Inr (), u)"
    and rest: "send_chunks srv session c now cs u = (Inr (), t)"
    by (auto simp: andThen_eq_Inr reply_Inr)
  obtain m where m: "soc_outgoing u = soc_outgoing s @ [m]"
    "carries (srv_wire srv) session m (PayloadArtifactDownloadChunk chunk)"
    using sent_payload_carried [OF assms u] by blast
  obtain ms where "soc_outgoing t = soc_outgoing u @ ms"
    "list_all2 (\<lambda>m chunk. carries (srv_wire srv) session m (PayloadArtifactDownloadChunk chunk)) ms cs"
    using Cons.IH [OF rest] by blast
  then show ?case using m by (intro exI [of _ "m # ms"]) simp
qed simp

section \<open>Chunks put together\<close>

lemma word_of_nat_inj: "a < 2 ^ 64 \<Longrightarrow> b < 2 ^ 64 \<Longrightarrow> (of_nat a :: u64) = of_nat b \<longleftrightarrow> a = b"
  by (auto simp: word_of_nat_eq_iff take_bit_eq_mod)

lemma word_of_nat_leq: "a < 2 ^ 64 \<Longrightarrow> b < 2 ^ 64 \<Longrightarrow> (of_nat a :: u64) \<le> of_nat b \<longleftrightarrow> a \<le> b"
  by (simp add: word_le_nat_alt unat_of_nat take_bit_eq_mod)

lemma take_sent_chunk:
  assumes "length received + length chunk \<le> tot" and "tot \<le> 64 * 1024 * 1024"
    and "length received + length chunk = tot \<Longrightarrow> sha256_hex cd (received @ chunk) = cap_artifact_digest cap"
  shows "take_chunk cd cap received (PayloadArtifactDownloadChunk
      (download_chunk cap (of_nat (length received)) (of_nat tot) chunk
        (of_nat (length received) + of_nat (length chunk) = (of_nat tot :: u64))))
    = Inr (received @ chunk, length received + length chunk = tot)"
proof -
  have "of_nat tot \<le> (64 * 1024 * 1024 :: u64)"
    using assms(2) word_of_nat_leq [of tot "64 * 1024 * 1024"] by simp
  moreover have "(of_nat (length received) + of_nat (length chunk) = (of_nat tot :: u64))
      \<longleftrightarrow> length received + length chunk = tot"
    using assms(1,2) word_of_nat_inj [of "length received + length chunk" tot] by simp
  moreover have "\<not> (of_nat tot :: u64) < of_nat (length (received @ chunk))"
    using assms(1,2) word_of_nat_leq [of "length (received @ chunk)" tot] by (simp add: not_less)
  ultimately show ?thesis using assms(3)
    by (auto simp: take_chunk_def download_chunk_def Let_def)
qed

lemma receive_sent_chunks:
  assumes "length (received @ remaining) \<le> 64 * 1024 * 1024" and "length received = index * CHUNK_BYTES"
    and "sha256_hex cd (received @ remaining) = cap_artifact_digest cap" and "remaining \<noteq> []"
    and "list_all2 (\<lambda>m chunk. carries w session m (PayloadArtifactDownloadChunk chunk)) ms
           (chunk_payloads cap (of_nat (length (received @ remaining))) index (chunks CHUNK_BYTES remaining))"
    and "soc_incoming e = map Inr ms @ rest" and "length ms \<le> rounds"
  shows "receive_chunks rounds w cd session cap received e = (Inr (received @ remaining), e\<lparr>soc_incoming := rest\<rparr>)"
  using assms
proof (induction "CHUNK_BYTES" remaining arbitrary: received index ms e rounds rule: chunks.induct)
  case (1 remaining)
  let ?chunk = "take CHUNK_BYTES remaining" and ?after = "drop CHUNK_BYTES remaining"
  have pos: "CHUNK_BYTES \<noteq> 0" by (simp add: CHUNK_BYTES_def)
  have index: "(of_nat (index * CHUNK_BYTES) :: u64) = of_nat (length received)" using 1(3) by simp
  obtain m ms' where ms: "ms = m # ms'"
    and m: "carries w session m (PayloadArtifactDownloadChunk (download_chunk cap (of_nat (length received))
        (of_nat (length (received @ remaining))) ?chunk
        (of_nat (length received) + of_nat (length ?chunk) = (of_nat (length (received @ remaining)) :: u64))))"
    and ms': "list_all2 (\<lambda>m chunk. carries w session m (PayloadArtifactDownloadChunk chunk)) ms'
        (chunk_payloads cap (of_nat (length (received @ remaining))) (Suc index) (chunks CHUNK_BYTES ?after))"
    using 1(6) 1(5) pos unfolding chunks.simps [of CHUNK_BYTES remaining]
    by (auto simp: list_all2_Cons2 Let_def index simp del: of_nat_mult of_nat_add length_append)
  obtain rounds' where rounds: "rounds = Suc rounds'" using 1(8) ms by (cases rounds) simp_all
  have after: "?after = [] \<longleftrightarrow> length received + length ?chunk = length (received @ remaining)" by auto
  have whole: "(received @ ?chunk) @ ?after = received @ remaining" by simp
  have taken: "take_chunk cd cap received (PayloadArtifactDownloadChunk (download_chunk cap (of_nat (length received))
        (of_nat (length (received @ remaining))) ?chunk
        (of_nat (length received) + of_nat (length ?chunk) = (of_nat (length (received @ remaining)) :: u64))))
      = Inr (received @ ?chunk, ?after = [])"
    unfolding after by (rule take_sent_chunk) (use 1(2,4) in auto)
  have "receive_chunks rounds w cd session cap received e
      = (if ?after = [] then (Inr (received @ ?chunk), e\<lparr>soc_incoming := map Inr ms' @ rest\<rparr>)
         else receive_chunks rounds' w cd session cap (received @ ?chunk) (e\<lparr>soc_incoming := map Inr ms' @ rest\<rparr>))"
    using read_carried [OF m, of e "map Inr ms' @ rest"] 1(7) taken
    by (simp add: rounds ms andThen_def)
  also have "\<dots> = (Inr (received @ remaining), e\<lparr>soc_incoming := rest\<rparr>)"
  proof (cases "?after = []")
    case True
    then have "ms' = []" using ms' by (simp add: chunks.simps)
    then show ?thesis using True by simp
  next
    case False
    then have "length ?chunk = CHUNK_BYTES" by simp
    then have "receive_chunks rounds' w cd session cap (received @ ?chunk) (e\<lparr>soc_incoming := map Inr ms' @ rest\<rparr>)
        = (Inr ((received @ ?chunk) @ ?after), e\<lparr>soc_incoming := map Inr ms' @ rest, soc_incoming := rest\<rparr>)"
      using 1(2-5,8) ms' False pos
      by (intro 1(1) [where index = "Suc index" and ms = ms']) (simp_all add: ms rounds)
    then show ?thesis using False by simp
  qed
  finally show ?case .
qed

text \<open>
  C35. What the Control Plane sends for a download, the Node puts together to the same bytes. When
  every chunk of an artifact of at most 64 MiB was sent and the messages reach the Node in order, the
  loop over the chunks returns exactly the artifact and reads nothing past its last chunk, given that
  its digest is the one the capability names and that serde decodes what it encoded.
\<close>

theorem sent_artifact_is_received:
  assumes "frame_codec (srv_wire srv)"
    and "send_chunks srv session c now (download_payloads cap bytes) s = (Inr (), t)"
    and "soc_incoming e = map Inr (drop (length (soc_outgoing s)) (soc_outgoing t)) @ rest"
    and "length bytes \<le> 64 * 1024 * 1024" and "sha256_hex cd bytes = cap_artifact_digest cap"
  shows "receive_chunks (Suc (length (soc_incoming e))) (srv_wire srv) cd session cap [] e
    = (Inr bytes, e\<lparr>soc_incoming := rest\<rparr>)"
proof -
  obtain ms where ms: "soc_incoming e = map Inr ms @ rest"
    "list_all2 (\<lambda>m chunk. carries (srv_wire srv) session m (PayloadArtifactDownloadChunk chunk)) ms
       (download_payloads cap bytes)"
    using sent_chunks_carried [OF assms(1,2)] assms(3) by auto
  show ?thesis
  proof (cases "bytes = []")
    case True
    then obtain m where "ms = [m]"
      "carries (srv_wire srv) session m (PayloadArtifactDownloadChunk (download_chunk cap 0 0 [] True))"
      using ms(2) by (auto simp: download_payloads_def list_all2_Cons2)
    moreover have "take_chunk cd cap [] (PayloadArtifactDownloadChunk (download_chunk cap 0 0 [] True)) = Inr ([], True)"
      using take_sent_chunk [of "[]" "[]" 0 cd cap] assms(5) True by simp
    ultimately show ?thesis using True read_carried [of "srv_wire srv" session m _ e rest] ms(1)
      by (simp add: andThen_def)
  next
    case False
    then show ?thesis
      using receive_sent_chunks [of "[]" bytes 0 cd cap "srv_wire srv" session ms e rest] assms(4,5) ms
      by (simp add: download_payloads_def del: receive_chunks.simps)
  qed
qed

section \<open>A chunk that does not fit\<close>

text \<open>
  serde writes the bytes of a chunk, a vector of numbers, as a JSON array: a digit at least and a
  separator for each of them.
\<close>

definition bytes_as_numbers :: "wire \<Rightarrow> bool" where
  "bytes_as_numbers w \<longleftrightarrow>
     (\<forall>f chunk encoded. frm_payload f = PayloadArtifactDownloadChunk chunk \<longrightarrow> frame_to_vec w f = Inr encoded
        \<longrightarrow> 2 * length (adc_bytes chunk) < length encoded)"

lemma full_chunk_not_encoded:
  assumes "bytes_as_numbers w" and "frm_payload f = PayloadArtifactDownloadChunk chunk"
    and "CHUNK_BYTES \<le> length (adc_bytes chunk)"
  shows "encode_frame w f \<noteq> Inr encoded"
proof
  assume "encode_frame w f = Inr encoded"
  then have "2 * length (adc_bytes chunk) < length encoded" "length encoded \<le> MAX_FABRIC_FRAME_BYTES"
    using assms(1,2) by (auto simp: encode_frame_Inr bytes_as_numbers_def)
  then show False using assms(3) by (simp add: CHUNK_BYTES_def MAX_FABRIC_FRAME_BYTES_def)
qed

lemma full_chunk_not_sent:
  assumes "bytes_as_numbers w" and "CHUNK_BYTES \<le> length (adc_bytes chunk)"
  shows "\<exists>e. send_payload w session c (PayloadArtifactDownloadChunk chunk) now s = (Inl e, s)"
proof (cases "session_frame w session c (PayloadArtifactDownloadChunk chunk) now")
  case (Inr f)
  then obtain e where "encode_frame w f = Inl e"
    using full_chunk_not_encoded [OF assms(1) session_frame_Inr(1) assms(2)] by (cases "encode_frame w f") blast+
  then show ?thesis using Inr by (simp add: send_payload_def write_frame_def)
qed (simp add: send_payload_def)

lemma first_payload_full:
  assumes "CHUNK_BYTES \<le> length bytes"
  obtains chunk rest where "download_payloads cap bytes = chunk # rest" "length (adc_bytes chunk) = CHUNK_BYTES"
proof -
  have "bytes \<noteq> []" "CHUNK_BYTES \<noteq> 0" using assms by (auto simp: CHUNK_BYTES_def)
  then show thesis using that assms
    by (simp add: download_payloads_def chunks.simps [of _ bytes] Let_def download_chunk_def)
qed

text \<open>
  C36. An artifact of 128 KiB or more cannot be downloaded over a gateway session. The Control Plane
  decrypts it and consumes the one-use capability, but the frame of its first chunk is longer than the
  256 KiB a frame may have: the request ends the session with an error, nothing was sent, and the
  capability is gone. The frame is serde's JSON, where a byte takes a digit and a separator.
\<close>

theorem large_artifact_never_delivered:
  assumes "bytes_as_numbers (srv_wire srv)"
    and "on_state (download_artifact (srv_codec srv) (srv_vault srv) (srv_control_plane srv) (srv_generation srv)
           cap now) s = (Inr bytes, t)"
    and "cap_company_id cap = fen_company_id session" and "cap_node_id cap = fen_node_id session"
    and "cap_one_use cap" and "CHUNK_BYTES \<le> length bytes"
  shows "(\<exists>e. serve_artifact_download srv session c \<lparr>adr_capability = cap\<rparr> now s = (Inl (Failed e), t))
    \<and> soc_outgoing t = soc_outgoing s
    \<and> sha256_hex (srv_codec srv) (cap_token cap) \<in> consumed_capabilities (soc_state t)"
proof -
  obtain u where u: "download_artifact (srv_codec srv) (srv_vault srv) (srv_control_plane srv) (srv_generation srv)
      cap now (soc_state s) = (Inr bytes, u)" and t: "t = s\<lparr>soc_state := u\<rparr>"
    using assms(2) by (auto simp: on_state_def split: prod.splits)
  have purpose: "cap_purpose cap = PurposeDownload"
    and used: "sha256_hex (srv_codec srv) (cap_token cap) \<in> consumed_capabilities u"
    using u assms(5)
    by (auto elim!: download_artifact_Inr simp: consume_capability_def verify_capability_def bindR_eq_Inr)
  obtain chunk rest where chunk: "download_payloads cap bytes = chunk # rest" "length (adc_bytes chunk) = CHUNK_BYTES"
    using first_payload_full [OF assms(6)] .
  obtain e where "send_payload (srv_wire srv) session c (PayloadArtifactDownloadChunk chunk) now t = (Inl e, t)"
    using full_chunk_not_sent [OF assms(1)] chunk(2) by (metis order_refl)
  then have "send_chunks srv session c now (download_payloads cap bytes) t = (Inl (Failed e), t)"
    by (simp add: chunk(1) andThen_def reply_def failing_def)
  then have "serve_artifact_download srv session c \<lparr>adr_capability = cap\<rparr> now s = (Inl (Failed e), t)"
    using assms(2-4) purpose by (simp add: serve_artifact_download_def Let_def andThen_def)
  then show ?thesis using t used by auto
qed

section \<open>Sample sessions\<close>

text \<open>The session of the Node that holds the download capability of the sample object.\<close>

definition object_capability :: ArtifactCapability where
  "object_capability = projr (fst obj6)"

definition download_session :: FabricSessionFence where
  "download_session = \<lparr>fen_company_id = ''co'', fen_node_id = ''n1'', fen_gateway_generation = 1,
     fen_node_daemon_id = ''d'', fen_node_daemon_generation = 1, fen_control_plane_generation = 1\<rparr>"

definition quiet :: "'s \<Rightarrow> 's endpoint" where
  "quiet state = \<lparr>soc_incoming = [], soc_outgoing = [], soc_send_error = (\<lambda>_. None), soc_clock = (\<lambda>tick. Some 1006),
     soc_ticks = 0, soc_state = state\<rparr>"

definition object_server :: "(FabricFrame \<Rightarrow> string + bytes) \<Rightarrow> (bytes \<Rightarrow> string + FabricFrame) \<Rightarrow> server" where
  "object_server encode decode =
     \<lparr>srv_wire = codec.extend object_codec
        \<lparr>payload_to_value = (\<lambda>payload. Inr (JString ''p'')), frame_to_vec = encode, frame_from_slice = decode\<rparr>,
      srv_vault = object_vault, srv_limits = default_limits, srv_control_plane = sample_cp, srv_generation = 1,
      srv_application = NoopControlPlaneReceiptApplication\<rparr>"

definition object_chunk :: ArtifactDownloadChunk where
  "object_chunk = download_chunk object_capability 0 10 object_bytes True"

lemma object_payloads: "download_payloads object_capability object_bytes = [object_chunk]"
  by (simp add: download_payloads_def chunks.simps CHUNK_BYTES_def object_bytes_def object_chunk_def Let_def)

text \<open>A wire that knows one frame, the chunk of the sample object.\<close>

definition frame_of_object :: FabricFrame where
  "frame_of_object =
     projr (session_frame (srv_wire (object_server (\<lambda>_. Inl []) (\<lambda>_. Inl []))) download_session ''x''
       (PayloadArtifactDownloadChunk object_chunk) 1006)"

definition one_frame :: server where
  "one_frame = object_server (\<lambda>f. if f = frame_of_object then Inr ''f'' else Inl ''unknown'')
     (\<lambda>bs. if bs = ''f'' then Inr frame_of_object else Inl ''unknown'')"

definition object_sent where
  "object_sent = send_chunks one_frame download_session ''x'' 1006 [object_chunk]
     (quiet default_state)"

lemma object_sent_committed: "committed object_sent" by code_simp

theorem sent_artifact_is_received_witness:
  "\<exists>e :: unit endpoint. soc_incoming e = map Inr (soc_outgoing (snd object_sent)) @ [Inr (WsPing [])]
     \<and> receive_chunks (Suc (length (soc_incoming e))) (srv_wire one_frame) object_codec download_session
         object_capability [] e = (Inr object_bytes, e\<lparr>soc_incoming := [Inr (WsPing [])]\<rparr>)"
proof -
  let ?e = "(quiet ())\<lparr>soc_incoming := map Inr (soc_outgoing (snd object_sent)) @ [Inr (WsPing [])]\<rparr>"
  obtain u where "object_sent = (Inr u, snd object_sent)" using committed_Inr [OF object_sent_committed] ..
  then have "send_chunks one_frame download_session ''x'' 1006 (download_payloads object_capability object_bytes)
      (quiet default_state) = (Inr (), snd object_sent)"
    unfolding object_payloads object_sent_def by simp
  moreover have "frame_codec (srv_wire one_frame)"
    by (simp add: frame_codec_def one_frame_def object_server_def codec.defs)
  moreover have "sha256_hex object_codec object_bytes = cap_artifact_digest object_capability" by code_simp
  ultimately have "receive_chunks (Suc (length (soc_incoming ?e))) (srv_wire one_frame) object_codec download_session
      object_capability [] ?e = (Inr object_bytes, ?e\<lparr>soc_incoming := [Inr (WsPing [])]\<rparr>)"
    by (intro sent_artifact_is_received [where s = "quiet default_state"]) (simp_all add: quiet_def object_bytes_def)
  then show ?thesis by (intro exI [of _ ?e] conjI) (simp_all del: receive_chunks.simps)
qed

text \<open>
  The same object in front of 128 KiB of padding, which the tail hash of the sample does not see, and
  a wire that encodes a chunk at the length serde's array of numbers has at least.
\<close>

definition large_bytes :: bytes where
  "large_bytes = replicate CHUNK_BYTES CHR ''-'' @ object_bytes"

definition large_object :: EncryptedArtifact where
  "large_object = \<lparr>enc_nonce = ''2d2d2d2d2d2d'', enc_ciphertext = ''2d2d2d2d2d2d'' @ large_bytes\<rparr>"

definition large_state :: FabricState where
  "large_state = (snd obj6)\<lparr>encrypted_artifacts := [(''a1'', large_object)]\<rparr>"

definition number_frames :: server where
  "number_frames = object_server
     (\<lambda>f. Inr (case frm_payload f of
        PayloadArtifactDownloadChunk chunk \<Rightarrow> replicate (2 * length (adc_bytes chunk) + 1) CHR ''0''
      | _ \<Rightarrow> ''f'')) (\<lambda>_. Inl ''unknown'')"

lemma verify_stored: "verify_capability cd v (s\<lparr>encrypted_artifacts := x\<rparr>) = verify_capability cd v s"
  by (intro ext) (simp add: verify_capability_def)

lemma active_stored:
  "require_active_control_plane (s\<lparr>encrypted_artifacts := x\<rparr>) = require_active_control_plane s"
  by (intro ext) (simp add: require_active_control_plane_def)

lemma large_hash: "sha256_hex object_codec large_bytes = sha256_hex object_codec object_bytes"
proof -
  have "tail_of 32 large_bytes = tail_of 32 object_bytes"
    by (simp add: tail_of_def large_bytes_def object_bytes_def CHUNK_BYTES_def flip: replicate_add append_assoc)
  then show ?thesis by (simp add: sha256_hex_def object_codec_def)
qed

lemma large_download:
  "\<exists>u. download_artifact object_codec object_vault sample_cp 1 object_capability 1006 large_state = (Inr large_bytes, u)"
proof -
  have b: "fst obj7 = Inr object_bytes" by code_simp
  then have d: "download_artifact object_codec object_vault sample_cp 1 object_capability 1006 (snd obj6)
      = (Inr object_bytes, snd obj7)"
    unfolding object_capability_def by (metis obj7_def prod.collapse)
  have id: "cap_artifact_id object_capability = ''a1''" by code_simp
  obtain lease where
    l: "require_active_control_plane (snd obj6) (cp_company_id sample_cp) (cp_instance_id sample_cp) 1 1006 = Inr lease"
    using d by (auto simp: download_artifact_def check_eq_Inr guarded_Inr)
  show ?thesis using d
  proof (cases rule: download_artifact_Inr)
    case (1 k m e)
    have "bt_get (encrypted_artifacts large_state) (cap_artifact_id object_capability) = Some large_object"
      by (simp add: large_state_def id bt_get_def)
    moreover have "cipher_decrypt object_vault k (enc_nonce large_object) (enc_ciphertext large_object) = Some large_bytes"
      by (simp add: large_object_def object_vault_def)
    ultimately show ?thesis
      using download_stored [OF 1(1), of large_state 1 1006 lease object_codec object_capability m large_object large_bytes]
        1(2-5,8) l large_hash
      by (simp add: large_state_def verify_stored active_stored)
  qed
qed

theorem large_artifact_never_delivered_witness:
  "\<exists>t. (\<exists>e. serve_artifact_download number_frames download_session ''x'' \<lparr>adr_capability = object_capability\<rparr> 1006
         (quiet large_state) = (Inl (Failed e), t))
     \<and> soc_outgoing t = []
     \<and> sha256_hex object_codec (cap_token object_capability) \<in> consumed_capabilities (soc_state t)"
proof -
  obtain u where u: "download_artifact object_codec object_vault sample_cp 1 object_capability 1006 large_state
      = (Inr large_bytes, u)"
    using large_download ..
  have srv: "srv_codec number_frames = object_codec" "srv_vault number_frames = object_vault"
    "srv_control_plane number_frames = sample_cp" "srv_generation number_frames = 1"
    by (simp_all add: srv_codec_def number_frames_def object_server_def codec.defs)
  have "bytes_as_numbers (srv_wire number_frames)"
    by (auto simp: bytes_as_numbers_def number_frames_def object_server_def codec.defs)
  moreover have "on_state (download_artifact (srv_codec number_frames) (srv_vault number_frames)
      (srv_control_plane number_frames) (srv_generation number_frames) object_capability 1006) (quiet large_state)
      = (Inr large_bytes, (quiet large_state)\<lparr>soc_state := u\<rparr>)"
    unfolding srv by (simp add: on_state_def u quiet_def)
  moreover have "cap_company_id object_capability = fen_company_id download_session"
    "cap_node_id object_capability = fen_node_id download_session" "cap_one_use object_capability"
    by code_simp+
  moreover have "CHUNK_BYTES \<le> length large_bytes" by (simp add: large_bytes_def)
  ultimately show ?thesis
    using large_artifact_never_delivered [of number_frames object_capability 1006 "quiet large_state" large_bytes
        "(quiet large_state)\<lparr>soc_state := u\<rparr>" download_session "''x''"]
    unfolding srv by (intro exI [of _ "(quiet large_state)\<lparr>soc_state := u\<rparr>"]) (simp add: quiet_def)
qed

section \<open>Both loops end\<close>

lemma read_session_consumes:
  "read_session_frame w session s = (Inr payload, t) \<Longrightarrow> length (soc_incoming t) < length (soc_incoming s)"
  by (auto simp: read_session_frame_def read_frame_def andThen_eq_Inr check_eq_Inr dest: read_frame_consumes)

lemma receive_loop_returns:
  "length (soc_incoming s) < rounds \<Longrightarrow>
     receive_loop w cd session cap received s = Some (receive_chunks rounds w cd session cap received s)"
proof (induction rounds arbitrary: s received)
  case (Suc rounds)
  have "receive_loop w cd session cap bytes t = Some (receive_chunks rounds w cd session cap bytes t)"
    if "read_session_frame w session s = (Inr payload, t)" for payload bytes t
    using Suc.IH Suc.prems read_session_consumes [OF that] by auto
  then show ?case
    by (cases "read_session_frame w session s")
      (auto simp: andThen_def check_def receive_loop.simps [of w cd session cap received s] split: sum.split prod.split)
qed simp

text \<open>
  C37. The two loops of a session return. The code bounds neither the loop that serves a Node nor the loop
  that receives the chunks of an artifact; whatever the socket still delivers before it closes, and
  whatever the store answers, both return, the receiving loop at the first error or refused chunk if it
  does not get the terminal one, the serving loop at the first error; the serving loop returns without an
  error only when a read failed with the code \<^verbatim>\<open>TargetOffline\<close>: the peer is gone or silent. The value they return is the one the rest of the model
  computes, with the number of delivered messages and one more as the bound.
\<close>

theorem session_loops_end:
  "serve_loop srv peer session s = Some (serve_rounds (Suc (length (soc_incoming s))) srv peer session s)
    \<and> receive_loop w cd session' cap received e
        = Some (receive_chunks (Suc (length (soc_incoming e))) w cd session' cap received e)
    \<and> (\<forall>t. serve_loop srv peer session s = Some (Inr (), t) \<longrightarrow>
         (\<exists>u error. read_frame (srv_wire srv) u = (Inl error, t) \<and> err_code error = TargetOffline))"
  using serve_rounds_closed [of "Suc (length (soc_incoming s))" srv peer session s]
  by (simp add: serve_loop_returns [OF lessI] receive_loop_returns [OF lessI] del: serve_rounds.simps receive_chunks.simps)

text \<open>A session in which the peer sends a ping and leaves.\<close>

theorem session_loops_end_witness:
  "\<exists>t. serve_loop one_frame (sample_peer ''n1'') download_session ((quiet (snd obj6))\<lparr>soc_incoming := [Inr (WsPing [])]\<rparr>)
       = Some (Inr (), t)
     \<and> (\<exists>u error. read_frame (srv_wire one_frame) u = (Inl error, t) \<and> err_code error = TargetOffline)"
proof -
  let ?s = "(quiet (snd obj6))\<lparr>soc_incoming := [Inr (WsPing [])]\<rparr>"
  have "\<exists>t. serve_rounds (Suc (length (soc_incoming ?s))) one_frame (sample_peer ''n1'') download_session ?s = (Inr (), t)"
    by (simp add: quiet_def read_frame_def andThen_def socket_send_def peer_closed_def)
  with session_loops_end [of one_frame "sample_peer ''n1''" download_session ?s] show ?thesis by metis
qed

end
