(* ===== verification/Work.thy ===== *)
theory Work
  imports Canonical_Json "HOL-Library.Product_Lexorder"
begin

text \<open>
  The Work of an Agent Team (\<^verbatim>\<open>crates/firm-core/src/work.rs\<close>, \<^verbatim>\<open>work/lifecycle.rs\<close>,
  \<^verbatim>\<open>work/journal.rs\<close>): the durable row, its creation from a draft, the validation every write
  passes, the lifecycle table, and the names of the transitions in the journal.
\<close>

section \<open>Validation errors\<close>

datatype ValidationError = RequiredField string | InvalidField string string

definition require_non_empty :: "string \<Rightarrow> string \<Rightarrow> ValidationError + unit" where
  "require_non_empty value field = reject_if (blank value) (RequiredField field)"

text \<open>An optional value must not be blank when it is present.\<close>

definition require_some_non_empty :: "string option \<Rightarrow> string \<Rightarrow> ValidationError + unit" where
  "require_some_non_empty value field =
     (case value of None \<Rightarrow> Inr () | Some v \<Rightarrow> require_non_empty v field)"

text \<open>The loop of \<^verbatim>\<open>validate_non_empty_unique_strings\<close>, with the set of values seen so far.\<close>

fun unique_strings_from :: "string set \<Rightarrow> string list \<Rightarrow> string \<Rightarrow> bool \<Rightarrow> ValidationError + unit" where
  "unique_strings_from seen [] field unique = Inr ()"
| "unique_strings_from seen (value # values) field unique =
     (if value = [] then Inl (RequiredField field)
      else if unique \<and> value \<in> seen
      then Inl (InvalidField field ''must not contain duplicate values'')
      else unique_strings_from (if unique then insert value seen else seen) values field unique)"

definition validate_non_empty_unique_strings :: "string list \<Rightarrow> string \<Rightarrow> bool \<Rightarrow> ValidationError + unit" where
  "validate_non_empty_unique_strings values field unique = unique_strings_from {} values field unique"

section \<open>Rows\<close>

datatype WorkPhase = PhaseOpen | PhaseActive | PhaseReview | PhaseClosed
datatype WorkCondition = ConditionNormal | ConditionBlocked
datatype WorkResolution = ResolutionAccepted | ResolutionCancelled
datatype WorkClaimMode = HostAssign | TeamClaim
datatype WorkPriority = WorkLow | WorkNormal | WorkHigh | WorkUrgent

datatype TeamActorKind =
  TeamHost | ProviderRuntimeProjection | TeamAgentMember | TeamOperator | TeamService

record TeamActorRef =
  tar_kind :: TeamActorKind
  tar_id :: string
  tar_display_name :: "string option"
  tar_authn_source :: "string option"

datatype GitHubLinkKind = LinkIssue | LinkPullRequest

record GitHubLink =
  ghl_kind :: GitHubLinkKind
  ghl_owner :: string
  ghl_repo :: string
  ghl_number :: u64
  ghl_url :: string
  ghl_status :: "string option"
  ghl_ci_status :: "string option"
  ghl_ci_url :: "string option"

record CurrentWorkDraft =
  drf_id :: string
  drf_team_run_id :: string
  drf_accountable_team_id :: string
  drf_title :: string
  drf_context_markdown :: string
  drf_completion_criteria_markdown :: string
  drf_claim_mode :: WorkClaimMode
  drf_priority :: WorkPriority
  drf_created_by_actor :: TeamActorRef
  drf_created_at :: string
  drf_assignee_membership_id :: "string option"
  drf_owner_member_id :: "string option"
  drf_active_member_run_id :: "string option"
  drf_eligible_member_ids :: "string list"
  drf_prerequisite_work_ids :: "string list"
  drf_created_by_member_id :: "string option"
  drf_artifact_refs :: "string list"
  drf_check_refs :: "string list"
  drf_github_links :: "GitHubLink list"

record Work =
  wrk_id :: string
  wrk_team_run_id :: string
  wrk_accountable_team_id :: "string option"
  wrk_assignee_membership_id :: "string option"
  wrk_legacy_containment_ref :: "string option"
  wrk_title :: string
  wrk_context_markdown :: string
  wrk_completion_criteria_markdown :: string
  wrk_phase :: WorkPhase
  wrk_condition :: WorkCondition
  wrk_resolution :: "WorkResolution option"
  wrk_owner_member_id :: "string option"
  wrk_active_member_run_id :: "string option"
  wrk_claim_mode :: WorkClaimMode
  wrk_eligible_member_ids :: "string list"
  wrk_prerequisite_work_ids :: "string list"
  wrk_priority :: WorkPriority
  wrk_created_by_actor :: TeamActorRef
  wrk_created_by_member_id :: "string option"
  wrk_result_summary :: "string option"
  wrk_blocker_reason :: "string option"
  wrk_artifact_refs :: "string list"
  wrk_check_refs :: "string list"
  wrk_github_links :: "GitHubLink list"
  wrk_version :: u64
  wrk_created_at :: string
  wrk_updated_at :: string

definition new_draft ::
    "string \<Rightarrow> string \<Rightarrow> string \<Rightarrow> string \<Rightarrow> string \<Rightarrow> string \<Rightarrow> WorkClaimMode \<Rightarrow> WorkPriority \<Rightarrow> TeamActorRef \<Rightarrow> string
      \<Rightarrow> CurrentWorkDraft" where
  "new_draft work_id team_run_id accountable_team_id title context_markdown completion_criteria_markdown
      claim_mode priority created_by_actor created_at =
     \<lparr>drf_id = work_id, drf_team_run_id = team_run_id, drf_accountable_team_id = accountable_team_id,
      drf_title = title, drf_context_markdown = context_markdown,
      drf_completion_criteria_markdown = completion_criteria_markdown, drf_claim_mode = claim_mode,
      drf_priority = priority, drf_created_by_actor = created_by_actor, drf_created_at = created_at,
      drf_assignee_membership_id = None, drf_owner_member_id = None, drf_active_member_run_id = None,
      drf_eligible_member_ids = [], drf_prerequisite_work_ids = [], drf_created_by_member_id = None,
      drf_artifact_refs = [], drf_check_refs = [], drf_github_links = []\<rparr>"

definition into_work :: "CurrentWorkDraft \<Rightarrow> Work" where
  "into_work draft =
     \<lparr>wrk_id = drf_id draft,
      wrk_team_run_id = drf_team_run_id draft,
      wrk_accountable_team_id = Some (drf_accountable_team_id draft),
      wrk_assignee_membership_id = drf_assignee_membership_id draft,
      wrk_legacy_containment_ref = None,
      wrk_title = drf_title draft,
      wrk_context_markdown = drf_context_markdown draft,
      wrk_completion_criteria_markdown = drf_completion_criteria_markdown draft,
      wrk_phase = PhaseOpen,
      wrk_condition = ConditionNormal,
      wrk_resolution = None,
      wrk_owner_member_id = drf_owner_member_id draft,
      wrk_active_member_run_id = drf_active_member_run_id draft,
      wrk_claim_mode = drf_claim_mode draft,
      wrk_eligible_member_ids = drf_eligible_member_ids draft,
      wrk_prerequisite_work_ids = drf_prerequisite_work_ids draft,
      wrk_priority = drf_priority draft,
      wrk_created_by_actor = drf_created_by_actor draft,
      wrk_created_by_member_id = drf_created_by_member_id draft,
      wrk_result_summary = None,
      wrk_blocker_reason = None,
      wrk_artifact_refs = drf_artifact_refs draft,
      wrk_check_refs = drf_check_refs draft,
      wrk_github_links = drf_github_links draft,
      wrk_version = 0,
      wrk_created_at = drf_created_at draft,
      wrk_updated_at = drf_created_at draft\<rparr>"

section \<open>Predicates\<close>

definition is_terminal :: "Work \<Rightarrow> bool" where
  "is_terminal work \<longleftrightarrow> wrk_phase work = PhaseClosed"

definition is_accepted :: "Work \<Rightarrow> bool" where
  "is_accepted work \<longleftrightarrow> wrk_phase work = PhaseClosed \<and> wrk_resolution work = Some ResolutionAccepted"

definition is_assigned :: "Work \<Rightarrow> bool" where
  "is_assigned work \<longleftrightarrow> wrk_assignee_membership_id work \<noteq> None \<or> wrk_owner_member_id work \<noteq> None"

text \<open>Collecting \<^verbatim>\<open>(id, row)\<close> pairs into a map: the last row of an id wins.\<close>

definition works_by_id :: "Work list \<Rightarrow> Work btree" where
  "works_by_id works = fold (\<lambda>work table. bt_insert (wrk_id work) work table) works []"

definition prerequisites_satisfied :: "Work \<Rightarrow> Work list \<Rightarrow> bool" where
  "prerequisites_satisfied work works \<longleftrightarrow>
     list_all (\<lambda>id. map_option is_accepted (bt_get (works_by_id works) id) = Some True)
       (wrk_prerequisite_work_ids work)"

definition is_claim_ready :: "Work \<Rightarrow> Work list \<Rightarrow> bool" where
  "is_claim_ready work works \<longleftrightarrow>
     wrk_phase work = PhaseOpen \<and> wrk_condition work = ConditionNormal \<and> prerequisites_satisfied work works"

section \<open>Validation of a row\<close>

definition validate_actor_metadata :: "TeamActorRef \<Rightarrow> string \<Rightarrow> ValidationError + unit" where
  "validate_actor_metadata actor field =
     reject_if (tar_display_name actor = Some [] \<or> tar_authn_source actor = Some [])
       (InvalidField field ''display_name and authn_source must not be empty when present'')"

fun validate_links :: "GitHubLink list \<Rightarrow> ValidationError + unit" where
  "validate_links [] = Inr ()"
| "validate_links (link # links) =
     bindR (reject_if (ghl_owner link = []) (RequiredField ''Work.github_links[].owner'')) (\<lambda>_.
     bindR (reject_if (ghl_repo link = []) (RequiredField ''Work.github_links[].repo'')) (\<lambda>_.
     bindR (reject_if (ghl_url link = []) (RequiredField ''Work.github_links[].url'')) (\<lambda>_.
     bindR (reject_if (ghl_number link = 0)
              (InvalidField ''Work.github_links[].number'' ''must be greater than zero'')) (\<lambda>_.
     validate_links links))))"

fun validate_status :: "WorkPhase \<Rightarrow> WorkCondition \<Rightarrow> WorkResolution option \<Rightarrow> ValidationError + unit" where
  "validate_status PhaseClosed ConditionNormal (Some _) = Inr ()"
| "validate_status PhaseClosed _ _ =
     Inl (InvalidField ''Work.condition'' ''closed Work must be normal and carry a resolution'')"
| "validate_status _ _ (Some _) =
     Inl (InvalidField ''Work.resolution'' ''resolution is only valid for closed Work'')"
| "validate_status _ _ None = Inr ()"

definition validate_work :: "Work \<Rightarrow> ValidationError + unit" where
  "validate_work work =
     bindR (require_non_empty (wrk_id work) ''Work.id'') (\<lambda>_.
     bindR (require_non_empty (wrk_team_run_id work) ''Work.team_run_id'') (\<lambda>_.
     bindR (require_non_empty (case wrk_accountable_team_id work of None \<Rightarrow> [] | Some t \<Rightarrow> t)
              ''Work.accountable_team_id'') (\<lambda>_.
     bindR (require_non_empty (wrk_title work) ''Work.title'') (\<lambda>_.
     bindR (require_non_empty (wrk_completion_criteria_markdown work)
              ''Work.completion_criteria_markdown'') (\<lambda>_.
     bindR (require_non_empty (tar_id (wrk_created_by_actor work)) ''Work.created_by_actor.id'') (\<lambda>_.
     bindR (validate_actor_metadata (wrk_created_by_actor work) ''Work.created_by_actor'') (\<lambda>_.
     bindR (require_non_empty (wrk_created_at work) ''Work.created_at'') (\<lambda>_.
     bindR (require_non_empty (wrk_updated_at work) ''Work.updated_at'') (\<lambda>_.
     bindR (require_some_non_empty (wrk_legacy_containment_ref work) ''Work.legacy_containment_ref'') (\<lambda>_.
     bindR (require_some_non_empty (wrk_assignee_membership_id work) ''Work.assignee_membership_id'') (\<lambda>_.
     bindR (require_some_non_empty (wrk_owner_member_id work) ''Work.owner_member_id'') (\<lambda>_.
     bindR (require_some_non_empty (wrk_active_member_run_id work) ''Work.active_member_run_id'') (\<lambda>_.
     bindR (require_some_non_empty (wrk_created_by_member_id work) ''Work.created_by_member_id'') (\<lambda>_.
     bindR (require_some_non_empty (wrk_blocker_reason work) ''Work.blocker_reason'') (\<lambda>_.
     bindR (validate_non_empty_unique_strings (wrk_eligible_member_ids work)
              ''Work.eligible_member_ids'' True) (\<lambda>_.
     bindR (validate_non_empty_unique_strings (wrk_prerequisite_work_ids work)
              ''Work.prerequisite_work_ids'' True) (\<lambda>_.
     bindR (validate_non_empty_unique_strings (wrk_artifact_refs work) ''Work.artifact_refs'' False) (\<lambda>_.
     bindR (validate_non_empty_unique_strings (wrk_check_refs work) ''Work.check_refs'' False) (\<lambda>_.
     bindR (validate_links (wrk_github_links work)) (\<lambda>_.
     bindR (reject_if (wrk_version work = 0)
              (InvalidField ''Work.version'' ''must be greater than zero'')) (\<lambda>_.
     validate_status (wrk_phase work) (wrk_condition work) (wrk_resolution work))))))))))))))))))))))"

section \<open>Lifecycle\<close>

datatype WorkEventKind =
  EventCreated | EventAssigned | EventClaimed | EventStarted | EventReleased | EventBlocked
| EventResumed | EventSubmitted | EventChangesRequested | EventAccepted | EventCancelled
| EventUpdated | EventDependenciesChanged | EventRebound | EventExecutionRetargeted
| EventExecutionRecovered

datatype WorkLifecycleError = TerminalWork string | InvalidTransition WorkEventKind

type_synonym work_status = "WorkPhase \<times> WorkCondition \<times> WorkResolution option"

definition status_of :: "Work \<Rightarrow> work_status" where
  "status_of work = (wrk_phase work, wrk_condition work, wrk_resolution work)"

fun transition_valid :: "WorkEventKind \<Rightarrow> work_status \<Rightarrow> work_status \<Rightarrow> bool" where
  "transition_valid EventStarted before after \<longleftrightarrow>
     before = (PhaseOpen, ConditionNormal, None) \<and> after = (PhaseActive, ConditionNormal, None)"
| "transition_valid EventBlocked before after \<longleftrightarrow>
     before = (PhaseActive, ConditionNormal, None) \<and> after = (PhaseActive, ConditionBlocked, None)"
| "transition_valid EventResumed before after \<longleftrightarrow>
     before = (PhaseActive, ConditionBlocked, None) \<and> after = (PhaseActive, ConditionNormal, None)"
| "transition_valid EventSubmitted before after \<longleftrightarrow>
     before = (PhaseActive, ConditionNormal, None) \<and> after = (PhaseReview, ConditionNormal, None)"
| "transition_valid EventChangesRequested before after \<longleftrightarrow>
     before = (PhaseReview, ConditionNormal, None) \<and> after = (PhaseOpen, ConditionNormal, None)"
| "transition_valid EventAccepted before after \<longleftrightarrow>
     before = (PhaseReview, ConditionNormal, None)
     \<and> after = (PhaseClosed, ConditionNormal, Some ResolutionAccepted)"
| "transition_valid EventCancelled before after \<longleftrightarrow>
     after = (PhaseClosed, ConditionNormal, Some ResolutionCancelled)"
| "transition_valid EventDependenciesChanged before after \<longleftrightarrow> before = after"
| "transition_valid EventAssigned before after \<longleftrightarrow> before = after"
| "transition_valid EventClaimed before after \<longleftrightarrow> before = after"
| "transition_valid EventReleased before after \<longleftrightarrow> before = after"
| "transition_valid EventUpdated before after \<longleftrightarrow> before = after"
| "transition_valid EventRebound before after \<longleftrightarrow> before = after"
| "transition_valid EventExecutionRetargeted before after \<longleftrightarrow> before = after"
| "transition_valid EventExecutionRecovered before after \<longleftrightarrow>
     (fst before = PhaseOpen \<or> fst before = PhaseActive) \<and> fst (snd before) = ConditionNormal
     \<and> after = (PhaseOpen, ConditionNormal, None)"
| "transition_valid EventCreated before after \<longleftrightarrow> False"

definition validate_work_transition :: "Work \<Rightarrow> Work \<Rightarrow> WorkEventKind \<Rightarrow> WorkLifecycleError + unit" where
  "validate_work_transition current next_work operation =
     (if is_terminal current then Inl (TerminalWork (wrk_id current))
      else if transition_valid operation (status_of current) (status_of next_work) then Inr ()
      else Inl (InvalidTransition operation))"

definition ensure_work_mutable :: "Work \<Rightarrow> WorkLifecycleError + unit" where
  "ensure_work_mutable work = reject_if (is_terminal work) (TerminalWork (wrk_id work))"

section \<open>Names of the transitions\<close>

fun canonical_transition :: "WorkEventKind \<Rightarrow> string" where
  "canonical_transition EventCreated = ''created''"
| "canonical_transition EventAssigned = ''assigned''"
| "canonical_transition EventClaimed = ''claimed''"
| "canonical_transition EventStarted = ''started''"
| "canonical_transition EventReleased = ''released''"
| "canonical_transition EventBlocked = ''blocked''"
| "canonical_transition EventResumed = ''resumed''"
| "canonical_transition EventSubmitted = ''submitted''"
| "canonical_transition EventChangesRequested = ''changes_requested''"
| "canonical_transition EventAccepted = ''accepted''"
| "canonical_transition EventCancelled = ''cancelled''"
| "canonical_transition EventUpdated = ''updated''"
| "canonical_transition EventDependenciesChanged = ''dependencies_changed''"
| "canonical_transition EventRebound = ''rebound''"
| "canonical_transition EventExecutionRetargeted = ''execution_retargeted''"
| "canonical_transition EventExecutionRecovered = ''execution_recovered''"

definition from_canonical_transition :: "string \<Rightarrow> WorkEventKind option" where
  "from_canonical_transition transition =
     (if transition = ''created'' then Some EventCreated
      else if transition = ''assigned'' then Some EventAssigned
      else if transition = ''claimed'' then Some EventClaimed
      else if transition = ''started'' then Some EventStarted
      else if transition = ''released'' then Some EventReleased
      else if transition = ''blocked'' then Some EventBlocked
      else if transition = ''resumed'' then Some EventResumed
      else if transition = ''submitted'' then Some EventSubmitted
      else if transition = ''changes_requested'' then Some EventChangesRequested
      else if transition = ''accepted'' then Some EventAccepted
      else if transition = ''cancelled'' then Some EventCancelled
      else if transition = ''updated'' then Some EventUpdated
      else if transition = ''dependencies_changed'' then Some EventDependenciesChanged
      else if transition = ''rebound'' then Some EventRebound
      else if transition = ''execution_retargeted'' then Some EventExecutionRetargeted
      else if transition = ''execution_recovered'' then Some EventExecutionRecovered
      else None)"

record WorkCausationRef =
  wcr_kind :: string
  wcr_id :: string

record WorkEvent =
  evt_id :: string
  evt_team_run_id :: string
  evt_work_id :: string
  evt_sequence :: u64
  evt_kind :: WorkEventKind
  evt_expected_version :: u64
  evt_resulting_version :: u64
  evt_performed_by_actor :: TeamActorRef
  evt_authority_actor :: "TeamActorRef option"
  evt_causation_ref :: "WorkCausationRef option"
  evt_idempotency_key :: string
  evt_payload :: json
  evt_created_at :: string
  evt_executed_by_member_run_id :: "string option"

definition executing_member_run_id :: "WorkEvent \<Rightarrow> string option" where
  "executing_member_run_id event =
     (case evt_executed_by_member_run_id event of
        Some member_run_id \<Rightarrow> Some member_run_id
      | None \<Rightarrow>
          if tar_kind (evt_performed_by_actor event) = ProviderRuntimeProjection
          then Some (tar_id (evt_performed_by_actor event)) else None)"

end
