(* ===== verification/Work_Graph.thy ===== *)
theory Work_Graph
  imports Work
begin

text \<open>
  The dependency kernel of Works (\<^verbatim>\<open>crates/firm-core/src/work/dependency.rs\<close>): replacing the
  prerequisites of a Work, the search for a cycle, and the readiness of a Work to be claimed.
\<close>

section \<open>Changing dependencies\<close>

record WorkDependenciesChangedPayload =
  wdc_previous_prerequisite_work_ids :: "string list"
  wdc_prerequisite_work_ids :: "string list"

datatype WorkDependencyError =
  DependencyTerminalWork string
| DuplicateDependency string
| SelfDependency string
| MissingPrerequisite string
| ScopeMismatch string
| DependencyCycle "string list"

text \<open>The first loop: no id twice, and not the Work itself.\<close>

fun check_proposed :: "string \<Rightarrow> string set \<Rightarrow> string list \<Rightarrow> WorkDependencyError + unit" where
  "check_proposed work_id seen [] = Inr ()"
| "check_proposed work_id seen (dependency # ids) =
     (if dependency \<in> seen then Inl (DuplicateDependency dependency)
      else if dependency = work_id then Inl (SelfDependency work_id)
      else check_proposed work_id (insert dependency seen) ids)"

text \<open>The second loop: every prerequisite exists, in the same accountable team.\<close>

fun check_scope :: "Work \<Rightarrow> Work btree \<Rightarrow> string list \<Rightarrow> WorkDependencyError + unit" where
  "check_scope work by_id [] = Inr ()"
| "check_scope work by_id (dependency # ids) =
     bindR (ok_or (bt_get by_id dependency) (MissingPrerequisite dependency)) (\<lambda>prerequisite.
     bindR (reject_if (wrk_accountable_team_id work = None
                       \<or> wrk_accountable_team_id prerequisite \<noteq> wrk_accountable_team_id work)
              (ScopeMismatch dependency)) (\<lambda>_.
     check_scope work by_id ids))"

text \<open>The prerequisites of an id after the change, as the search reads them.\<close>

definition dependencies_of :: "Work \<Rightarrow> string list \<Rightarrow> Work btree \<Rightarrow> string \<Rightarrow> string list" where
  "dependencies_of changed_work proposed by_id current_id =
     sort (if current_id = wrk_id changed_work then proposed
           else (case bt_get by_id current_id of None \<Rightarrow> [] | Some work \<Rightarrow> wrk_prerequisite_work_ids work))"

text \<open>
  The search, with its two mutable arguments: the ids being visited and the path walked. The loop
  over the dependencies of an id calls the search on each; it is the recursion over the list. The
  dependency lists come from a finite table; every other id has none.
\<close>


function (domintros) find_path_in ::
    "Work \<Rightarrow> string list \<Rightarrow> Work btree \<Rightarrow> string \<Rightarrow> string list \<Rightarrow> string set \<Rightarrow> string list
      \<Rightarrow> bool \<times> string set \<times> string list" where
  "find_path_in changed_work proposed by_id target_id [] visiting path = (False, visiting, path)"
| "find_path_in changed_work proposed by_id target_id (current_id # rest) visiting path =
     (if current_id = target_id then (True, visiting, path @ [current_id])
      else if current_id \<in> visiting
      then find_path_in changed_work proposed by_id target_id rest visiting path
      else
        (case find_path_in changed_work proposed by_id target_id
                (dependencies_of changed_work proposed by_id current_id)
                (insert current_id visiting) (path @ [current_id]) of
           (True, visiting', path') \<Rightarrow> (True, visiting', path')
         | (False, visiting', path') \<Rightarrow>
             find_path_in changed_work proposed by_id target_id rest
               (visiting' - {current_id}) (butlast path')))"
  by pat_completeness auto

text \<open>A search that finds nothing leaves both arguments as they were.\<close>

lemma find_path_restores:
  "find_path_in_dom (w, ps, m, tgt, ids, v, p) \<Longrightarrow> find_path_in w ps m tgt ids v p = (False, v', p') \<Longrightarrow>
     v' = v \<and> p' = p"
proof (induction w ps m tgt ids v p arbitrary: v' p' rule: find_path_in.pinduct)
  case (2 w ps m tgt x ids v p)
  show ?case
  proof (cases "x = tgt \<or> x \<in> v")
    case True
    then show ?thesis using 2 by (auto simp: find_path_in.psimps split: if_split_asm)
  next
    case False
    obtain b v1 p1 where r: "find_path_in w ps m tgt (dependencies_of w ps m x) (insert x v) (p @ [x]) = (b, v1, p1)"
      by (cases "find_path_in w ps m tgt (dependencies_of w ps m x) (insert x v) (p @ [x])")
    have b: "\<not> b" using 2(1,5) False r by (auto simp: find_path_in.psimps split: bool.split_asm)
    then have "v1 = insert x v" "p1 = p @ [x]" using 2(3) False r by auto
    then have "find_path_in w ps m tgt ids v p = (False, v', p')"
      using 2(1,5) False r b by (simp add: find_path_in.psimps)
    moreover have "(v1 - {x}, butlast p1) = (v, p)"
      using False \<open>v1 = insert x v\<close> \<open>p1 = p @ [x]\<close> by auto
    ultimately show ?thesis using 2(4) [of b "(v1, p1)" v1 p1] False r b by simp
  qed
qed (simp add: find_path_in.psimps)

termination find_path_in
proof (relation "inv_image (finite_psubset <*lex*> less_than)
    (\<lambda>(w, ps, m, tgt, ids, v, p). (insert (wrk_id w) (set (map fst m)) - v, length ids))")
  fix w :: Work and ps :: "string list" and m :: "Work btree" and tgt x :: string
    and ids :: "string list" and v :: "string set" and p :: "string list"
  assume x: "\<not> x = tgt" "x \<notin> v"
  show "((w, ps, m, tgt, dependencies_of w ps m x, insert x v, p @ [x]), w, ps, m, tgt, x # ids, v, p)
      \<in> inv_image (finite_psubset <*lex*> less_than)
          (\<lambda>(w, ps, m, tgt, ids, v, p). (insert (wrk_id w) (set (map fst m)) - v, length ids))"
  proof (cases "x \<in> insert (wrk_id w) (set (map fst m))")
    case True
    then show ?thesis using x(2) by (auto simp: finite_psubset_def)
  next
    case False
    then have "bt_get m x = None" by (simp add: bt_get_def map_of_eq_None_iff)
    then have "dependencies_of w ps m x = []" using False by (simp add: dependencies_of_def)
    moreover have "insert (wrk_id w) (set (map fst m)) - insert x v = insert (wrk_id w) (set (map fst m)) - v"
      using False by auto
    ultimately show ?thesis by simp
  qed
next
  fix w :: Work and ps :: "string list" and m :: "Work btree" and tgt x :: string
    and ids :: "string list" and v :: "string set" and p :: "string list" and b vp v1 p1
  assume x: "\<not> x = tgt" "x \<notin> v"
    and r: "(b, vp) = find_path_in w ps m tgt (dependencies_of w ps m x) (insert x v) (p @ [x])"
      "b = False" "(v1, p1) = vp"
    and d: "find_path_in_dom (w, ps, m, tgt, dependencies_of w ps m x, insert x v, p @ [x])"
  then have "v1 = insert x v" using find_path_restores [OF d, of v1 p1] by auto
  then have "v1 - {x} = v" using x(2) by auto
  then show "((w, ps, m, tgt, ids, v1 - {x}, butlast p1), w, ps, m, tgt, x # ids, v, p)
      \<in> inv_image (finite_psubset <*lex*> less_than)
          (\<lambda>(w, ps, m, tgt, ids, v, p). (insert (wrk_id w) (set (map fst m)) - v, length ids))"
    by simp
qed auto

lemma find_path_dom: "find_path_in_dom (w, ps, m, tgt, ids, v, p)"
proof (induction w ps m tgt ids v p rule: find_path_in.induct)
  case (2 w ps m tgt x ids v p)
  then show ?case by (intro find_path_in.domintros(2)) auto
qed (rule find_path_in.domintros(1))

lemmas find_path_unchanged = find_path_restores [OF find_path_dom]

definition find_path_to_target ::
    "string \<Rightarrow> string \<Rightarrow> Work \<Rightarrow> string list \<Rightarrow> Work btree \<Rightarrow> string set \<Rightarrow> string list
      \<Rightarrow> bool \<times> string set \<times> string list" where
  "find_path_to_target current_id target_id changed_work proposed by_id visiting path =
     find_path_in changed_work proposed by_id target_id [current_id] visiting path"

text \<open>The third loop: a fresh search from every prerequisite.\<close>

fun check_cycles :: "Work \<Rightarrow> string list \<Rightarrow> Work btree \<Rightarrow> string list \<Rightarrow> WorkDependencyError + unit" where
  "check_cycles work proposed by_id [] = Inr ()"
| "check_cycles work proposed by_id (prerequisite_id # ids) =
     (case find_path_to_target prerequisite_id (wrk_id work) work proposed by_id {} [wrk_id work] of
        (True, _, path) \<Rightarrow> Inl (DependencyCycle path)
      | (False, _, _) \<Rightarrow> check_cycles work proposed by_id ids)"

definition prepare_dependency_change ::
    "Work \<Rightarrow> string list \<Rightarrow> Work list \<Rightarrow> WorkDependencyError + WorkDependenciesChangedPayload" where
  "prepare_dependency_change work prerequisite_work_ids all_works =
     bindR (map_err (\<lambda>_. DependencyTerminalWork (wrk_id work)) (ensure_work_mutable work)) (\<lambda>_.
     bindR (check_proposed (wrk_id work) {} prerequisite_work_ids) (\<lambda>_.
     let proposed = sort prerequisite_work_ids; by_id = works_by_id all_works in
     bindR (check_scope work by_id proposed) (\<lambda>_.
     bindR (check_cycles work proposed by_id proposed) (\<lambda>_.
     Inr \<lparr>wdc_previous_prerequisite_work_ids = remdups_adj (sort (wrk_prerequisite_work_ids work)),
          wdc_prerequisite_work_ids = proposed\<rparr>))))"

section \<open>Readiness\<close>

datatype WorkReadinessReason =
  WorkNotOpen WorkPhase
| WorkConditionNotNormal WorkCondition
| PrerequisiteMissing string
| PrerequisitePending string WorkPhase WorkCondition
| PrerequisiteCancelled string

text \<open>The derived order: by variant, then by the fields.\<close>

fun phase_rank :: "WorkPhase \<Rightarrow> nat" where
  "phase_rank PhaseOpen = 0"
| "phase_rank PhaseActive = 1"
| "phase_rank PhaseReview = 2"
| "phase_rank PhaseClosed = 3"

fun condition_rank :: "WorkCondition \<Rightarrow> nat" where
  "condition_rank ConditionNormal = 0"
| "condition_rank ConditionBlocked = 1"

fun reason_rank :: "WorkReadinessReason \<Rightarrow> nat \<times> string \<times> nat \<times> nat" where
  "reason_rank (WorkNotOpen phase) = (0, [], phase_rank phase, 0)"
| "reason_rank (WorkConditionNotNormal condition) = (1, [], 0, condition_rank condition)"
| "reason_rank (PrerequisiteMissing work_id) = (2, work_id, 0, 0)"
| "reason_rank (PrerequisitePending work_id phase condition) =
     (3, work_id, phase_rank phase, condition_rank condition)"
| "reason_rank (PrerequisiteCancelled work_id) = (4, work_id, 0, 0)"

lemma reason_rank_inj: "reason_rank a = reason_rank b \<Longrightarrow> a = b"
proof -
  have phase: "p = q" if "phase_rank p = phase_rank q" for p q using that by (cases p; cases q) simp_all
  have condition: "c = d" if "condition_rank c = condition_rank d" for c d using that by (cases c; cases d) simp_all
  show "reason_rank a = reason_rank b \<Longrightarrow> a = b" by (cases a; cases b) (auto dest: phase condition)
qed

instantiation WorkReadinessReason :: linorder
begin

definition less_eq_WorkReadinessReason :: "WorkReadinessReason \<Rightarrow> WorkReadinessReason \<Rightarrow> bool" where
  "less_eq_WorkReadinessReason a b \<longleftrightarrow> reason_rank a \<le> reason_rank b"

definition less_WorkReadinessReason :: "WorkReadinessReason \<Rightarrow> WorkReadinessReason \<Rightarrow> bool" where
  "less_WorkReadinessReason a b \<longleftrightarrow> reason_rank a < reason_rank b"

instance
  by intro_classes
    (auto simp: less_eq_WorkReadinessReason_def less_WorkReadinessReason_def intro: reason_rank_inj)

end

record WorkReadiness =
  rdy_ready :: bool
  rdy_reasons :: "WorkReadinessReason list"

definition prerequisite_reason :: "Work btree \<Rightarrow> string \<Rightarrow> WorkReadinessReason list" where
  "prerequisite_reason by_id work_id =
     (case bt_get by_id work_id of
        None \<Rightarrow> [PrerequisiteMissing work_id]
      | Some prerequisite \<Rightarrow>
          if wrk_phase prerequisite = PhaseClosed \<and> wrk_resolution prerequisite = Some ResolutionAccepted then []
          else if wrk_phase prerequisite = PhaseClosed \<and> wrk_resolution prerequisite = Some ResolutionCancelled
          then [PrerequisiteCancelled work_id]
          else [PrerequisitePending work_id (wrk_phase prerequisite) (wrk_condition prerequisite)])"

definition work_readiness :: "Work \<Rightarrow> Work list \<Rightarrow> WorkReadiness" where
  "work_readiness work all_works =
     (let by_id = works_by_id all_works;
          reasons =
            (if wrk_phase work \<noteq> PhaseOpen then [WorkNotOpen (wrk_phase work)] else [])
            @ (if wrk_condition work \<noteq> ConditionNormal then [WorkConditionNotNormal (wrk_condition work)] else [])
            @ concat (map (prerequisite_reason by_id)
                (remdups_adj (sort (wrk_prerequisite_work_ids work))))
      in \<lparr>rdy_ready = reasons = [], rdy_reasons = sort reasons\<rparr>)"

definition derive_work_successor_ids :: "string \<Rightarrow> Work list \<Rightarrow> string list" where
  "derive_work_successor_ids work_id all_works =
     remdups_adj (sort (map wrk_id
       (filter (\<lambda>work. list_ex (\<lambda>prerequisite_id. prerequisite_id = work_id) (wrk_prerequisite_work_ids work))
          all_works)))"

end
