(* ===== verification/Work_Properties.thy ===== *)
theory Work_Properties
  imports Work_Graph
begin

text \<open>
  What the Work kernel guarantees: the search for cycles is exact, so the dependency graph stays
  acyclic; readiness is what it says; the lifecycle closes a Work once and accepts it only from
  review.
\<close>

section \<open>The search\<close>

declare find_path_in.simps(2) [simp del]
lemmas find_path_step = find_path_in.simps(2)

text \<open>Reaching the target along dependencies, starting nowhere in a set of ids being visited.\<close>

inductive reaches :: "(string \<Rightarrow> string list) \<Rightarrow> string \<Rightarrow> string set \<Rightarrow> string \<Rightarrow> bool"
  for deps tgt v where
  here: "reaches deps tgt v tgt"
| step: "x \<notin> v \<Longrightarrow> y \<in> set (deps x) \<Longrightarrow> reaches deps tgt v y \<Longrightarrow> reaches deps tgt v x"

inductive_cases reaches_visiting: "reaches deps tgt v x"

lemma reaches_mono: "reaches deps tgt v x \<Longrightarrow> u \<subseteq> v \<Longrightarrow> reaches deps tgt u x"
  by (induction rule: reaches.induct) (auto intro: reaches.intros)

text \<open>A walk that comes back to an id can be cut there.\<close>

lemma reaches_cut:
  "reaches deps tgt v y \<Longrightarrow> reaches deps tgt (insert x v) y \<or> (\<exists>z \<in> set (deps x). reaches deps tgt (insert x v) z)"
proof (induction rule: reaches.induct)
  case (step a b)
  then show ?case by (cases "a = x") (auto intro: reaches.intros)
qed (simp add: reaches.here)

lemma reaches_unfold:
  assumes "x \<noteq> tgt"
  shows "reaches deps tgt v x \<longleftrightarrow> x \<notin> v \<and> (\<exists>y \<in> set (deps x). reaches deps tgt (insert x v) y)"
proof
  assume "reaches deps tgt v x"
  then obtain y where y: "x \<notin> v" "y \<in> set (deps x)" "reaches deps tgt v y"
    using assms by (auto elim: reaches_visiting)
  then show "x \<notin> v \<and> (\<exists>y \<in> set (deps x). reaches deps tgt (insert x v) y)"
    using reaches_cut [OF y(3), of x] by blast
next
  assume "x \<notin> v \<and> (\<exists>y \<in> set (deps x). reaches deps tgt (insert x v) y)"
  then show "reaches deps tgt v x" by (auto intro: reaches.step reaches_mono)
qed

lemma reaches_rtrancl: "reaches deps tgt {} x \<longleftrightarrow> (\<lambda>a b. b \<in> set (deps a))\<^sup>*\<^sup>* x tgt"
proof
  assume "reaches deps tgt {} x"
  then show "(\<lambda>a b. b \<in> set (deps a))\<^sup>*\<^sup>* x tgt"
    by (induction rule: reaches.induct) (auto intro: converse_rtranclp_into_rtranclp)
next
  assume "(\<lambda>a b. b \<in> set (deps a))\<^sup>*\<^sup>* x tgt"
  then show "reaches deps tgt {} x"
    by (induction rule: converse_rtranclp_induct) (auto intro: reaches.intros)
qed

lemma find_path_found:
  "fst (find_path_in w ps m tgt ids v p) \<longleftrightarrow> (\<exists>x \<in> set ids. reaches (dependencies_of w ps m) tgt v x)"
proof (induction w ps m tgt ids v p rule: find_path_in.induct)
  case (2 w ps m tgt x ids v p)
  show ?case
  proof (cases "x = tgt \<or> x \<in> v")
    case True
    then show ?thesis using 2(1) reaches_unfold [of x tgt "dependencies_of w ps m" v]
      by (auto simp: find_path_step intro: reaches.here)
  next
    case False
    obtain b v1 p1 where r: "find_path_in w ps m tgt (dependencies_of w ps m x) (insert x v) (p @ [x]) = (b, v1, p1)"
      by (cases "find_path_in w ps m tgt (dependencies_of w ps m x) (insert x v) (p @ [x])")
    have x: "b \<longleftrightarrow> reaches (dependencies_of w ps m) tgt v x"
      using 2(2) False r reaches_unfold [of x tgt "dependencies_of w ps m" v] by auto
    show ?thesis
    proof (cases b)
      case True
      then show ?thesis using False r x by (simp add: find_path_step)
    next
      case nb: False
      have "v1 = insert x v \<and> p1 = p @ [x]" using find_path_unchanged r nb by simp
      then have "v1 - {x} = v" "butlast p1 = p" using False by auto
      then show ?thesis using False r nb x 2(3) [of b "(v1, p1)" v1 p1] by (simp add: find_path_step)
    qed
  qed
qed simp

lemma find_path_walk:
  "find_path_in w ps m tgt ids v p = (True, v', p') \<Longrightarrow>
     \<exists>x walk. x \<in> set ids \<and> p' = p @ x # walk \<and> last (x # walk) = tgt
       \<and> successively (\<lambda>a b. b \<in> set (dependencies_of w ps m a)) (x # walk)"
proof (induction w ps m tgt ids v p arbitrary: v' p' rule: find_path_in.induct)
  case (2 w ps m tgt x ids v p)
  show ?case
  proof (cases "x = tgt")
    case True
    then show ?thesis using 2(4) by (intro exI [of _ x] exI [of _ "[]"]) (auto simp: find_path_step)
  next
    case x: False
    show ?thesis
    proof (cases "x \<in> v")
      case True
      then have "find_path_in w ps m tgt ids v p = (True, v', p')" using 2(4) x by (simp add: find_path_step)
      from 2(1) [OF x True this] show ?thesis by (metis list.set_intros(2))
    next
      case False
      obtain b v1 p1 where r: "find_path_in w ps m tgt (dependencies_of w ps m x) (insert x v) (p @ [x]) = (b, v1, p1)"
        by (cases "find_path_in w ps m tgt (dependencies_of w ps m x) (insert x v) (p @ [x])")
      show ?thesis
      proof (cases b)
        case True
        then have "p1 = p'" using 2(4) x False r by (simp add: find_path_step)
        then have t: "find_path_in w ps m tgt (dependencies_of w ps m x) (insert x v) (p @ [x]) = (True, v1, p')"
          using r True by simp
        obtain y walk where y: "y \<in> set (dependencies_of w ps m x)" "p' = (p @ [x]) @ y # walk"
          "last (y # walk) = tgt" "successively (\<lambda>a b. b \<in> set (dependencies_of w ps m a)) (y # walk)"
          using 2(2) [OF x False t] by blast
        then show ?thesis by (intro exI [of _ x] exI [of _ "y # walk"]) simp
      next
        case nb: False
        have "v1 = insert x v \<and> p1 = p @ [x]" using find_path_unchanged r nb by simp
        then have same: "v1 - {x} = v" "butlast p1 = p" using False by auto
        then have "find_path_in w ps m tgt ids v p = (True, v', p')"
          using 2(4) x False r nb by (simp add: find_path_step)
        moreover have "(b, v1, p1) = find_path_in w ps m tgt (dependencies_of w ps m x) (insert x v) (p @ [x])"
          using r by simp
        ultimately show ?thesis
          using 2(3) [OF x False, of b "(v1, p1)" v1 p1 v' p'] nb unfolding same
          by (metis list.set_intros(2))
      qed
    qed
  qed
qed simp

section \<open>Dependency changes\<close>

definition dependency_edges :: "Work btree \<Rightarrow> (string \<times> string) set" where
  "dependency_edges table =
     {(x, y). \<exists>row. bt_get table x = Some row \<and> y \<in> set (wrk_prerequisite_work_ids row)}"

text \<open>The table after the prerequisites of a Work are replaced.\<close>

definition replace_prerequisites :: "Work \<Rightarrow> string list \<Rightarrow> Work btree \<Rightarrow> Work btree" where
  "replace_prerequisites work ids table =
     bt_insert (wrk_id work) (work\<lparr>wrk_prerequisite_work_ids := ids\<rparr>) table"

lemma dependencies_of_edges:
  "y \<in> set (dependencies_of w ps m x) \<longleftrightarrow> (x, y) \<in> dependency_edges (replace_prerequisites w ps m)"
proof (cases "x = wrk_id w")
  case False
  then show ?thesis
    by (cases "bt_get m x") (simp_all add: dependencies_of_def dependency_edges_def replace_prerequisites_def)
qed (simp add: dependencies_of_def dependency_edges_def replace_prerequisites_def)

lemma reaches_edges:
  "reaches (dependencies_of w ps m) tgt {} x \<longleftrightarrow> (x, tgt) \<in> (dependency_edges (replace_prerequisites w ps m))\<^sup>*"
  by (simp add: reaches_rtrancl dependencies_of_edges rtranclp_rtrancl_eq)

lemma check_proposed_Inr:
  "check_proposed work_id seen ids = Inr u \<longleftrightarrow> distinct ids \<and> set ids \<inter> seen = {} \<and> work_id \<notin> set ids"
  by (induction ids arbitrary: seen) auto

lemma check_proposed_Inl: "check_proposed work_id seen ids = Inl e \<Longrightarrow> e \<noteq> DependencyCycle path"
  by (induction ids arbitrary: seen) (auto split: if_split_asm)

lemma check_scope_Inr:
  "check_scope work by_id ids = Inr u \<longleftrightarrow> (\<forall>i \<in> set ids. \<exists>row. bt_get by_id i = Some row
     \<and> wrk_accountable_team_id work \<noteq> None \<and> wrk_accountable_team_id row = wrk_accountable_team_id work)"
  by (induction ids) (auto simp: bindR_eq_Inr)

lemma check_scope_Inl: "check_scope work by_id ids = Inl e \<Longrightarrow> e \<noteq> DependencyCycle path"
  by (induction ids) (auto simp: bindR_eq_Inl ok_or_def split: option.split_asm)

lemma check_cycles_Inr:
  "check_cycles work ps m ids = Inr u \<longleftrightarrow>
     (\<forall>i \<in> set ids. (i, wrk_id work) \<notin> (dependency_edges (replace_prerequisites work ps m))\<^sup>*)"
proof (induction ids)
  case (Cons i ids)
  have "fst (find_path_to_target i (wrk_id work) work ps m {} [wrk_id work]) \<longleftrightarrow>
      (i, wrk_id work) \<in> (dependency_edges (replace_prerequisites work ps m))\<^sup>*"
    by (simp add: find_path_to_target_def find_path_found reaches_edges)
  then show ?case using Cons
    by (cases "find_path_to_target i (wrk_id work) work ps m {} [wrk_id work]") (auto split: bool.split)
qed simp

lemma check_cycles_Inl:
  assumes "check_cycles work ps m ids = Inl e"
  obtains i walk where "e = DependencyCycle (wrk_id work # i # walk)" "i \<in> set ids" "last (i # walk) = wrk_id work"
    "successively (\<lambda>a b. (a, b) \<in> dependency_edges (replace_prerequisites work ps m)) (i # walk)"
  using assms
proof (induction ids arbitrary: thesis)
  case (Cons i ids)
  obtain b v p where r: "find_path_to_target i (wrk_id work) work ps m {} [wrk_id work] = (b, v, p)"
    by (cases "find_path_to_target i (wrk_id work) work ps m {} [wrk_id work]")
  show ?case
  proof (cases b)
    case True
    then have "find_path_in work ps m (wrk_id work) [i] {} [wrk_id work] = (True, v, p)"
      using r by (simp add: find_path_to_target_def)
    from find_path_walk [OF this] obtain walk where "p = wrk_id work # i # walk" "last (i # walk) = wrk_id work"
      "successively (\<lambda>a b. b \<in> set (dependencies_of work ps m a)) (i # walk)"
      by auto
    then show ?thesis using Cons.prems r True by (auto simp: dependencies_of_edges)
  next
    case False
    then have "check_cycles work ps m ids = Inl e" using Cons.prems(2) r by simp
    then show ?thesis using Cons.IH Cons.prems(1) by (metis list.set_intros(2))
  qed
qed simp

lemma prepare_Inr:
  "prepare_dependency_change work ids works = Inr payload \<longleftrightarrow>
     \<not> is_terminal work \<and> distinct ids \<and> wrk_id work \<notin> set ids
     \<and> (\<forall>i \<in> set ids. \<exists>row. bt_get (works_by_id works) i = Some row
          \<and> wrk_accountable_team_id work \<noteq> None \<and> wrk_accountable_team_id row = wrk_accountable_team_id work)
     \<and> (\<forall>i \<in> set ids. (i, wrk_id work)
          \<notin> (dependency_edges (replace_prerequisites work (sort ids) (works_by_id works)))\<^sup>*)
     \<and> payload = \<lparr>wdc_previous_prerequisite_work_ids = remdups_adj (sort (wrk_prerequisite_work_ids work)),
                   wdc_prerequisite_work_ids = sort ids\<rparr>"
  by (auto simp: prepare_dependency_change_def ensure_work_mutable_def bindR_eq_Inr Let_def
      check_proposed_Inr check_scope_Inr check_cycles_Inr)

lemma cycle_through:
  "(wrk_id work, wrk_id work) \<in> (dependency_edges (replace_prerequisites work ps m))\<^sup>+ \<longleftrightarrow>
     (\<exists>i \<in> set ps. (i, wrk_id work) \<in> (dependency_edges (replace_prerequisites work ps m))\<^sup>*)"
proof -
  have "(wrk_id work, i) \<in> dependency_edges (replace_prerequisites work ps m) \<longleftrightarrow> i \<in> set ps" for i
    by (simp add: dependency_edges_def replace_prerequisites_def)
  then show ?thesis by (auto simp: trancl_unfold_left)
qed

text \<open>The rows of the example: \<open>b\<close> depends on \<open>a\<close>, \<open>c\<close> on \<open>b\<close>.\<close>

definition sample_work :: "string \<Rightarrow> string list \<Rightarrow> Work" where
  "sample_work i ids =
     (into_work (new_draft i ''run'' ''team'' i [] ''done'' TeamClaim WorkNormal
        \<lparr>tar_kind = TeamHost, tar_id = ''host'', tar_display_name = None, tar_authn_source = None\<rparr> ''unix-ms:1''))
     \<lparr>wrk_prerequisite_work_ids := ids, wrk_version := 1\<rparr>"

definition sample_works :: "Work list" where
  "sample_works = [sample_work ''a'' [], sample_work ''b'' [''a''], sample_work ''c'' [''b'']]"

text \<open>
  C30. The dependency kernel accepts a change exactly when it is sound. Replacing the prerequisites of
  a Work succeeds if and only if the Work is not closed, the ids are distinct, none is the Work
  itself, each names an existing Work of the same accountable team, and the graph with the new edges
  has no cycle through the Work; the result carries both edge sets in sorted order.
\<close>

theorem dependency_change_exact:
  "prepare_dependency_change work ids works = Inr payload \<longleftrightarrow>
     \<not> is_terminal work \<and> distinct ids \<and> wrk_id work \<notin> set ids
     \<and> (\<forall>i \<in> set ids. \<exists>row. bt_get (works_by_id works) i = Some row
          \<and> wrk_accountable_team_id work \<noteq> None \<and> wrk_accountable_team_id row = wrk_accountable_team_id work)
     \<and> (wrk_id work, wrk_id work)
          \<notin> (dependency_edges (replace_prerequisites work (sort ids) (works_by_id works)))\<^sup>+
     \<and> payload = \<lparr>wdc_previous_prerequisite_work_ids = remdups_adj (sort (wrk_prerequisite_work_ids work)),
                   wdc_prerequisite_work_ids = sort ids\<rparr>"
  unfolding prepare_Inr cycle_through set_sort by blast

theorem dependency_change_exact_witness:
  "prepare_dependency_change (sample_work ''c'' [''b'']) [''b'', ''a''] sample_works
       = Inr \<lparr>wdc_previous_prerequisite_work_ids = [''b''], wdc_prerequisite_work_ids = [''a'', ''b'']\<rparr>
     \<and> (''c'', ''c'') \<notin> (dependency_edges (replace_prerequisites (sample_work ''c'' [''b'']) [''a'', ''b'']
          (works_by_id sample_works)))\<^sup>+"
proof -
  have p: "prepare_dependency_change (sample_work ''c'' [''b'']) [''b'', ''a''] sample_works
      = Inr \<lparr>wdc_previous_prerequisite_work_ids = [''b''], wdc_prerequisite_work_ids = [''a'', ''b'']\<rparr>"
    and s: "sort [''b'', ''a''] = [''a'', ''b'']" and i: "wrk_id (sample_work ''c'' [''b'']) = ''c''"
    by code_simp+
  have "(wrk_id (sample_work ''c'' [''b'']), wrk_id (sample_work ''c'' [''b'']))
      \<notin> (dependency_edges (replace_prerequisites (sample_work ''c'' [''b'']) (sort [''b'', ''a''])
          (works_by_id sample_works)))\<^sup>+"
    using dependency_change_exact [THEN iffD1, OF p] by (elim conjE)
  then show ?thesis using p unfolding s i by (rule conjI [rotated])
qed

text \<open>
  C31. The dependency graph stays acyclic. When the graph of the Works has no cycle and a change of
  prerequisites is accepted, the graph with the prerequisites replaced has no cycle either.
\<close>

theorem dependencies_stay_acyclic:
  assumes "acyclic (dependency_edges (works_by_id works))"
    and "prepare_dependency_change work ids works = Inr payload"
  shows "acyclic (dependency_edges (replace_prerequisites work (wdc_prerequisite_work_ids payload) (works_by_id works)))"
proof -
  let ?new = "dependency_edges (replace_prerequisites work (sort ids) (works_by_id works))"
  let ?old = "dependency_edges (works_by_id works)"
  have p: "\<forall>i \<in> set ids. (i, wrk_id work) \<notin> ?new\<^sup>*" "wdc_prerequisite_work_ids payload = sort ids"
    using assms(2) unfolding prepare_Inr by auto
  have w: "(wrk_id work, wrk_id work) \<notin> ?new\<^sup>+" using p(1) unfolding cycle_through by simp
  have old: "(x, y) \<in> ?old" if "(x, y) \<in> ?new" "x \<noteq> wrk_id work" for x y
    using that by (auto simp: dependency_edges_def replace_prerequisites_def)
  have "(x, y) \<in> ?old\<^sup>+ \<or> ((x, wrk_id work) \<in> ?new\<^sup>* \<and> (wrk_id work, y) \<in> ?new\<^sup>+)" if "(x, y) \<in> ?new\<^sup>+" for x y
    using that
  proof (induction rule: trancl_induct)
    case (base y)
    then show ?case using old by (cases "x = wrk_id work") auto
  next
    case (step y z)
    then show ?case using old trancl_into_rtrancl
      by (cases "y = wrk_id work") (auto intro: trancl_into_trancl)
  qed
  then have "(x, x) \<notin> ?new\<^sup>+" for x
    using w assms(1) by (meson acyclic_def rtrancl_trancl_trancl trancl_rtrancl_trancl)
  then show ?thesis unfolding p(2) by (simp add: acyclic_def)
qed

lemma sample_edges: "dependency_edges (works_by_id sample_works) = {(''b'', ''a''), (''c'', ''b'')}"
proof -
  have "works_by_id sample_works
      = [(''a'', sample_work ''a'' []), (''b'', sample_work ''b'' [''a'']), (''c'', sample_work ''c'' [''b''])]"
    by code_simp
  then show ?thesis by (auto simp: dependency_edges_def bt_get_def sample_work_def split: if_split_asm)
qed

theorem dependencies_stay_acyclic_witness:
  "acyclic (dependency_edges (works_by_id sample_works))
     \<and> acyclic (dependency_edges (replace_prerequisites (sample_work ''c'' [''b'']) [''a'', ''b'']
         (works_by_id sample_works)))"
proof -
  have "wf (measure (\<lambda>i :: string. if i = ''c'' then 2 else if i = ''b'' then 1 else 0))" by simp
  then have "acyclic ((measure (\<lambda>i :: string. if i = ''c'' then 2 else if i = ''b'' then 1 else 0))\<inverse>)"
    by (simp add: wf_acyclic acyclic_converse)
  then have a: "acyclic (dependency_edges (works_by_id sample_works))"
    by (rule acyclic_subset) (auto simp: sample_edges)
  have p: "prepare_dependency_change (sample_work ''c'' [''b'']) [''b'', ''a''] sample_works
      = Inr \<lparr>wdc_previous_prerequisite_work_ids = [''b''], wdc_prerequisite_work_ids = [''a'', ''b'']\<rparr>"
    by code_simp
  show ?thesis using a dependencies_stay_acyclic [OF a p] by simp
qed

text \<open>
  A refusal for a cycle shows one. The path in the error starts at the Work, goes to one of the
  proposed prerequisites, follows dependencies of the graph with the new edges at every further
  step, and ends at the Work.
\<close>

theorem cycle_error_is_a_cycle:
  assumes "prepare_dependency_change work ids works = Inl (DependencyCycle path)"
  shows "\<exists>i walk. path = wrk_id work # i # walk \<and> i \<in> set ids \<and> last (i # walk) = wrk_id work
    \<and> successively (\<lambda>a b. (a, b) \<in> dependency_edges (replace_prerequisites work (sort ids) (works_by_id works))) path"
proof -
  have no_cycle: "check_proposed (wrk_id work) {} ids \<noteq> Inl (DependencyCycle path)"
    "check_scope work (works_by_id works) (sort ids) \<noteq> Inl (DependencyCycle path)"
    by (metis check_proposed_Inl, metis check_scope_Inl)
  have "check_cycles work (sort ids) (works_by_id works) (sort ids) = Inl (DependencyCycle path)"
    using assms no_cycle
    by (auto simp: prepare_dependency_change_def bindR_eq_Inl Let_def ensure_work_mutable_def reject_if_def
        split: if_split_asm)
  then obtain i walk where i: "path = wrk_id work # i # walk" "i \<in> set ids" "last (i # walk) = wrk_id work"
    "successively (\<lambda>a b. (a, b) \<in> dependency_edges (replace_prerequisites work (sort ids) (works_by_id works))) (i # walk)"
    by (auto elim: check_cycles_Inl)
  moreover have "(wrk_id work, i) \<in> dependency_edges (replace_prerequisites work (sort ids) (works_by_id works))"
    using i(2) by (simp add: dependency_edges_def replace_prerequisites_def)
  ultimately show ?thesis by auto
qed

theorem cycle_error_is_a_cycle_witness:
  "\<exists>i walk. [''a'', ''c'', ''b'', ''a''] = ''a'' # i # walk \<and> i \<in> set [''c''] \<and> last (i # walk) = ''a''
     \<and> successively (\<lambda>a b. (a, b) \<in> dependency_edges
          (replace_prerequisites (sample_work ''a'' []) (sort [''c'']) (works_by_id sample_works))) [''a'', ''c'', ''b'', ''a'']"
proof -
  have p: "prepare_dependency_change (sample_work ''a'' []) [''c''] sample_works
      = Inl (DependencyCycle [''a'', ''c'', ''b'', ''a''])" and i: "wrk_id (sample_work ''a'' []) = ''a''"
    by code_simp+
  show ?thesis using cycle_error_is_a_cycle [OF p] unfolding i .
qed

section \<open>The lifecycle\<close>

text \<open>
  The Store appends an operation only when the lifecycle table admits it: a life of a Work is a
  sequence of events, each with the row it writes, every one admitted against the row before it.
\<close>

fun lifecycle_run :: "Work \<Rightarrow> (WorkEventKind \<times> Work) list \<Rightarrow> WorkLifecycleError + Work" where
  "lifecycle_run work [] = Inr work"
| "lifecycle_run work ((operation, next_work) # events) =
     bindR (validate_work_transition work next_work operation) (\<lambda>_. lifecycle_run next_work events)"

lemma lifecycle_run_snoc:
  "lifecycle_run work (events @ [(operation, next_work)]) = Inr row \<longleftrightarrow>
     (\<exists>current. lifecycle_run work events = Inr current
        \<and> validate_work_transition current next_work operation = Inr () \<and> row = next_work)"
  by (induction work events rule: lifecycle_run.induct) (auto simp: bindR_eq_Inr)

lemma validate_work_transition_Inr:
  "validate_work_transition current next_work operation = Inr () \<longleftrightarrow>
     \<not> is_terminal current \<and> transition_valid operation (status_of current) (status_of next_work)"
  by (simp add: validate_work_transition_def)

lemma is_terminal_status: "is_terminal work \<longleftrightarrow> fst (status_of work) = PhaseClosed"
  by (simp add: is_terminal_def status_of_def)

lemma is_accepted_status:
  "is_accepted work \<longleftrightarrow> fst (status_of work) = PhaseClosed \<and> snd (snd (status_of work)) = Some ResolutionAccepted"
  by (simp add: is_accepted_def status_of_def)

text \<open>The six states a Work can be in.\<close>

definition legal_statuses :: "work_status list" where
  "legal_statuses =
     [(PhaseOpen, ConditionNormal, None), (PhaseActive, ConditionNormal, None),
      (PhaseActive, ConditionBlocked, None), (PhaseReview, ConditionNormal, None),
      (PhaseClosed, ConditionNormal, Some ResolutionAccepted),
      (PhaseClosed, ConditionNormal, Some ResolutionCancelled)]"

lemma transition_keeps_legal:
  assumes "transition_valid operation before after" "before \<in> set legal_statuses" "fst before \<noteq> PhaseClosed"
  shows "after \<in> set legal_statuses"
  using assms by (cases operation) (auto simp: legal_statuses_def)

lemma status_of_update [simp]:
  "status_of (work\<lparr>wrk_phase := p, wrk_condition := c, wrk_resolution := r\<rparr>) = (p, c, r)"
  by (simp add: status_of_def)

lemma status_into_work [simp]: "status_of (into_work draft) = (PhaseOpen, ConditionNormal, None)"
  by (simp add: status_of_def into_work_def)

lemma lifecycle_run_legal:
  "lifecycle_run (into_work draft) events = Inr work \<Longrightarrow> status_of work \<in> set legal_statuses"
proof (induction events arbitrary: work rule: rev_induct)
  case Nil
  then show ?case by (auto simp: legal_statuses_def)
next
  case (snoc e events)
  then show ?case
    by (cases e) (auto simp: lifecycle_run_snoc validate_work_transition_Inr is_terminal_status
        intro: transition_keeps_legal)
qed

text \<open>A step of the lifecycle that the table admits extends a run by one event.\<close>

definition lifecycle_reaches :: "CurrentWorkDraft \<Rightarrow> work_status \<Rightarrow> bool" where
  "lifecycle_reaches draft st \<longleftrightarrow>
     (\<exists>events work. lifecycle_run (into_work draft) events = Inr work \<and> status_of work = st)"

lemma lifecycle_reaches_open: "lifecycle_reaches draft (PhaseOpen, ConditionNormal, None)"
  unfolding lifecycle_reaches_def by (intro exI [of _ "[]"]) simp

lemma lifecycle_reaches_step:
  assumes "lifecycle_reaches draft before" "transition_valid operation before (p, c, r)" "fst before \<noteq> PhaseClosed"
  shows "lifecycle_reaches draft (p, c, r)"
proof -
  obtain events work where run: "lifecycle_run (into_work draft) events = Inr work" "status_of work = before"
    using assms(1) unfolding lifecycle_reaches_def by blast
  let ?next = "work\<lparr>wrk_phase := p, wrk_condition := c, wrk_resolution := r\<rparr>"
  have "lifecycle_run (into_work draft) (events @ [(operation, ?next)]) = Inr ?next"
    using run assms(2,3) by (simp add: lifecycle_run_snoc validate_work_transition_Inr is_terminal_status)
  then show ?thesis unfolding lifecycle_reaches_def using status_of_update by blast
qed

lemma lifecycle_reaches_legal: "lifecycle_reaches draft st \<longleftrightarrow> st \<in> set legal_statuses"
proof
  show "lifecycle_reaches draft st \<Longrightarrow> st \<in> set legal_statuses"
    unfolding lifecycle_reaches_def using lifecycle_run_legal by blast
  note opened = lifecycle_reaches_open [of draft]
  have active: "lifecycle_reaches draft (PhaseActive, ConditionNormal, None)"
    by (rule lifecycle_reaches_step [OF opened, of EventStarted]) simp_all
  have blocked: "lifecycle_reaches draft (PhaseActive, ConditionBlocked, None)"
    by (rule lifecycle_reaches_step [OF active, of EventBlocked]) simp_all
  have review: "lifecycle_reaches draft (PhaseReview, ConditionNormal, None)"
    by (rule lifecycle_reaches_step [OF active, of EventSubmitted]) simp_all
  have accepted: "lifecycle_reaches draft (PhaseClosed, ConditionNormal, Some ResolutionAccepted)"
    by (rule lifecycle_reaches_step [OF review, of EventAccepted]) simp_all
  have cancelled: "lifecycle_reaches draft (PhaseClosed, ConditionNormal, Some ResolutionCancelled)"
    by (rule lifecycle_reaches_step [OF opened, of EventCancelled]) simp_all
  show "lifecycle_reaches draft st" if "st \<in> set legal_statuses"
    using that opened active blocked review accepted cancelled by (auto simp: legal_statuses_def)
qed

text \<open>
  The states a Work created from a draft can reach through admitted events are exactly six:
  open, active, blocked, in review, accepted and cancelled. In particular a resolution is present
  exactly on a closed Work and only an active Work is ever blocked.
\<close>

theorem lifecycle_states:
  "{status_of work | work events. lifecycle_run (into_work draft) events = Inr work}
     = {(PhaseOpen, ConditionNormal, None), (PhaseActive, ConditionNormal, None),
        (PhaseActive, ConditionBlocked, None), (PhaseReview, ConditionNormal, None),
        (PhaseClosed, ConditionNormal, Some ResolutionAccepted),
        (PhaseClosed, ConditionNormal, Some ResolutionCancelled)}"
proof -
  have "{status_of work | work events. lifecycle_run (into_work draft) events = Inr work}
      = {st. lifecycle_reaches draft st}"
    unfolding lifecycle_reaches_def by blast
  also have "\<dots> = set legal_statuses" by (simp add: lifecycle_reaches_legal)
  finally show ?thesis by (simp add: legal_statuses_def)
qed

text \<open>Events that leave the state as it is.\<close>

definition keeps_status :: "WorkEventKind \<Rightarrow> bool" where
  "keeps_status operation \<longleftrightarrow> operation \<in> {EventDependenciesChanged, EventAssigned, EventClaimed, EventReleased,
     EventUpdated, EventRebound, EventExecutionRetargeted}"

definition submitted_last :: "WorkEventKind list \<Rightarrow> bool" where
  "submitted_last operations \<longleftrightarrow>
     (\<exists>earlier since. operations = earlier @ EventSubmitted # since \<and> list_all keeps_status since)"

lemma submitted_last_keeps:
  "submitted_last operations \<Longrightarrow> keeps_status operation \<Longrightarrow> submitted_last (operations @ [operation])"
  unfolding submitted_last_def by (metis append.assoc append_Cons list_all_append list.pred_inject)

lemma review_after_submission:
  "lifecycle_run (into_work draft) events = Inr work \<Longrightarrow> status_of work = (PhaseReview, ConditionNormal, None) \<Longrightarrow>
     submitted_last (map fst events)"
proof (induction events arbitrary: work rule: rev_induct)
  case (snoc e events)
  obtain operation row where e: "e = (operation, row)" by (cases e)
  obtain current where c: "lifecycle_run (into_work draft) events = Inr current" "\<not> is_terminal current"
    "transition_valid operation (status_of current) (PhaseReview, ConditionNormal, None)"
    using snoc.prems by (auto simp: e lifecycle_run_snoc validate_work_transition_Inr)
  show ?case
  proof (cases "operation = EventSubmitted")
    case True
    have "map fst (events @ [e]) = map fst events @ EventSubmitted # []" by (simp add: e True)
    then show ?thesis unfolding submitted_last_def by (metis list.pred_inject(1))
  next
    case False
    then have "keeps_status operation" "status_of current = (PhaseReview, ConditionNormal, None)"
      using c(3) by (cases operation; simp add: keeps_status_def)+
    then show ?thesis using snoc.IH [OF c(1)] submitted_last_keeps by (simp add: e)
  qed
qed simp

text \<open>
  C32. A Work is accepted only out of review. When a life of admitted events ends accepted, its last
  event is the acceptance, and before it stands the submission under review: between the two no
  event changed the state, so no changes were requested and no execution was recovered since the
  submission.
\<close>

theorem acceptance_follows_submission:
  assumes "lifecycle_run (into_work draft) events = Inr work" "is_accepted work"
  shows "\<exists>earlier since. map fst events = earlier @ [EventSubmitted] @ since @ [EventAccepted]
    \<and> list_all keeps_status since"
proof (cases events rule: rev_cases)
  case Nil
  then show ?thesis using assms by (auto simp: is_accepted_status)
next
  case (snoc before e)
  obtain operation row where e: "e = (operation, row)" by (cases e)
  obtain current where c: "lifecycle_run (into_work draft) before = Inr current" "\<not> is_terminal current"
    "transition_valid operation (status_of current) (status_of work)" "status_of current \<in> set legal_statuses"
    using assms(1) by (auto simp: snoc e lifecycle_run_snoc validate_work_transition_Inr intro: lifecycle_run_legal)
  have "operation = EventAccepted" "status_of current = (PhaseReview, ConditionNormal, None)"
    using c(2,3,4) assms(2)
    by (cases operation; auto simp: is_accepted_status is_terminal_status legal_statuses_def)+
  then show ?thesis using review_after_submission [OF c(1)] by (force simp: submitted_last_def snoc e)
qed

definition sample_draft :: CurrentWorkDraft where
  "sample_draft = new_draft ''w'' ''run'' ''team'' ''t'' ''ctx'' ''done'' TeamClaim WorkNormal
     \<lparr>tar_kind = TeamHost, tar_id = ''host'', tar_display_name = None, tar_authn_source = None\<rparr> ''now''"

definition sample_life :: "(WorkEventKind \<times> Work) list" where
  "sample_life =
     (let w = into_work sample_draft in
      [(EventClaimed, w),
       (EventStarted, w\<lparr>wrk_phase := PhaseActive\<rparr>),
       (EventSubmitted, w\<lparr>wrk_phase := PhaseReview\<rparr>),
       (EventUpdated, w\<lparr>wrk_phase := PhaseReview, wrk_title := ''u''\<rparr>),
       (EventAccepted, w\<lparr>wrk_phase := PhaseClosed, wrk_resolution := Some ResolutionAccepted\<rparr>)])"

theorem acceptance_follows_submission_witness:
  "\<exists>earlier since. map fst sample_life = earlier @ [EventSubmitted] @ since @ [EventAccepted]
     \<and> list_all keeps_status since"
proof -
  have "lifecycle_run (into_work sample_draft) sample_life
      = Inr ((into_work sample_draft)\<lparr>wrk_phase := PhaseClosed, wrk_resolution := Some ResolutionAccepted\<rparr>)"
    by code_simp
  moreover have "is_accepted ((into_work sample_draft)\<lparr>wrk_phase := PhaseClosed, wrk_resolution := Some ResolutionAccepted\<rparr>)"
    by code_simp
  ultimately show ?thesis by (rule acceptance_follows_submission)
qed

section \<open>Names of the transitions\<close>

text \<open>
  The name a transition has in the journal reads back as that transition, and no other string
  reads as it: writing and reading the names are inverse to each other.
\<close>

lemma transition_names_roundtrip:
  "from_canonical_transition name = Some operation \<longleftrightarrow> name = canonical_transition operation"
proof
  show "from_canonical_transition name = Some operation" if "name = canonical_transition operation"
    using that by (cases operation) (simp_all add: from_canonical_transition_def)
  show "name = canonical_transition operation" if "from_canonical_transition name = Some operation"
    using that by (auto simp: from_canonical_transition_def split: if_split_asm)
qed

section \<open>Readiness\<close>

text \<open>The prerequisite a reason is about.\<close>

fun reason_work :: "WorkReadinessReason \<Rightarrow> string option" where
  "reason_work (PrerequisiteMissing work_id) = Some work_id"
| "reason_work (PrerequisitePending work_id _ _) = Some work_id"
| "reason_work (PrerequisiteCancelled work_id) = Some work_id"
| "reason_work _ = None"

definition accepted_in :: "Work btree \<Rightarrow> string \<Rightarrow> bool" where
  "accepted_in by_id work_id \<longleftrightarrow> map_option is_accepted (bt_get by_id work_id) = Some True"

lemma prerequisite_reason_empty: "prerequisite_reason by_id i = [] \<longleftrightarrow> accepted_in by_id i"
  by (simp add: prerequisite_reason_def accepted_in_def is_accepted_def split: option.split)

lemma prerequisite_reason_work:
  "List.map_filter reason_work (prerequisite_reason by_id i) = (if accepted_in by_id i then [] else [i])"
  by (simp add: prerequisite_reason_def accepted_in_def is_accepted_def map_filter_simps split: option.split)

lemma map_filter_append: "List.map_filter f (xs @ ys) = List.map_filter f xs @ List.map_filter f ys"
  by (simp add: List.map_filter_def)

lemma distinct_remdups_adj_sorted: "sorted xs \<Longrightarrow> distinct (remdups_adj xs)"
  for xs :: "'a :: linorder list"
  by (induction xs rule: remdups_adj.induct) auto

lemma distinct_remdups_adj_sort: "distinct (remdups_adj (sort xs))"
  for xs :: "'a :: linorder list"
  by (simp add: distinct_remdups_adj_sorted)

lemma prerequisite_reasons_work:
  "List.map_filter reason_work (concat (map (prerequisite_reason by_id) ids)) = filter (\<lambda>i. \<not> accepted_in by_id i) ids"
  by (induction ids) (simp_all add: map_filter_simps map_filter_append prerequisite_reason_work)

text \<open>
  The reasons before they are sorted, and what sorting keeps of them.
\<close>

definition readiness_reasons :: "Work \<Rightarrow> Work list \<Rightarrow> WorkReadinessReason list" where
  "readiness_reasons work works =
     (if wrk_phase work \<noteq> PhaseOpen then [WorkNotOpen (wrk_phase work)] else [])
     @ (if wrk_condition work \<noteq> ConditionNormal then [WorkConditionNotNormal (wrk_condition work)] else [])
     @ concat (map (prerequisite_reason (works_by_id works)) (remdups_adj (sort (wrk_prerequisite_work_ids work))))"

lemma work_readiness_reasons:
  "work_readiness work works
     = \<lparr>rdy_ready = readiness_reasons work works = [], rdy_reasons = sort (readiness_reasons work works)\<rparr>"
  by (simp only: work_readiness_def readiness_reasons_def Let_def)

lemma mset_map_filter: "mset xs = mset ys \<Longrightarrow> mset (List.map_filter f xs) = mset (List.map_filter f ys)"
  by (simp add: List.map_filter_def mset_map mset_filter)

lemma map_filter_readiness_reasons:
  "List.map_filter reason_work (readiness_reasons work works)
     = filter (\<lambda>i. \<not> accepted_in (works_by_id works) i) (remdups_adj (sort (wrk_prerequisite_work_ids work)))"
  by (simp add: readiness_reasons_def map_filter_append map_filter_simps prerequisite_reasons_work)

lemma distinct_prerequisite_reasons:
  "distinct ids \<Longrightarrow> distinct (concat (map (prerequisite_reason by_id) ids))"
proof (induction ids)
  case (Cons i ids)
  have "reason_work r = Some j" if "r \<in> set (prerequisite_reason by_id j)" for r j
    using that by (auto simp: prerequisite_reason_def split: option.split_asm if_split_asm)
  then have "set (prerequisite_reason by_id i) \<inter> set (prerequisite_reason by_id j) = {}" if "j \<in> set ids" for j
    using Cons.prems that by (metis disjoint_iff distinct.simps(2) option.inject)
  moreover have "distinct (prerequisite_reason by_id i)"
    by (simp add: prerequisite_reason_def split: option.split)
  ultimately show ?case using Cons by auto
qed simp

lemma distinct_readiness_reasons: "distinct (readiness_reasons work works)"
  using distinct_prerequisite_reasons [of "remdups_adj (sort (wrk_prerequisite_work_ids work))"]
  by (auto simp: readiness_reasons_def distinct_remdups_adj_sort prerequisite_reason_def
      split: option.split_asm if_split_asm)

text \<open>
  The readiness report agrees with the claim predicate and explains it: a Work is ready exactly
  when it may be claimed, the reasons come in their derived order without repetition and are empty
  exactly for a ready Work, and the prerequisites they name are, once each, exactly those that are
  not accepted in the same list of Works.
\<close>

theorem readiness_report_exact:
  "(rdy_ready (work_readiness work works) \<longleftrightarrow> is_claim_ready work works)
   \<and> (rdy_ready (work_readiness work works) \<longleftrightarrow> rdy_reasons (work_readiness work works) = [])
   \<and> sorted_wrt (<) (rdy_reasons (work_readiness work works))
   \<and> distinct (List.map_filter reason_work (rdy_reasons (work_readiness work works)))
   \<and> set (List.map_filter reason_work (rdy_reasons (work_readiness work works)))
       = {i \<in> set (wrk_prerequisite_work_ids work). \<not> accepted_in (works_by_id works) i}"
proof (intro conjI)
  let ?r = "readiness_reasons work works"
  show "rdy_ready (work_readiness work works) \<longleftrightarrow> is_claim_ready work works"
    by (auto simp: work_readiness_reasons readiness_reasons_def is_claim_ready_def prerequisites_satisfied_def
        prerequisite_reason_empty list_all_iff accepted_in_def)
  have "sort ?r = [] \<longleftrightarrow> ?r = []" by (metis set_empty set_sort)
  then show "rdy_ready (work_readiness work works) \<longleftrightarrow> rdy_reasons (work_readiness work works) = []"
    by (simp add: work_readiness_reasons)
  show "sorted_wrt (<) (rdy_reasons (work_readiness work works))"
    by (simp add: work_readiness_reasons strict_sorted_iff distinct_readiness_reasons)
  have m: "mset (List.map_filter reason_work (sort ?r)) = mset (List.map_filter reason_work ?r)"
    by (rule mset_map_filter) simp
  show "distinct (List.map_filter reason_work (rdy_reasons (work_readiness work works)))"
    using mset_eq_imp_distinct_iff [OF m]
    by (simp add: work_readiness_reasons map_filter_readiness_reasons distinct_remdups_adj_sort)
  show "set (List.map_filter reason_work (rdy_reasons (work_readiness work works)))
      = {i \<in> set (wrk_prerequisite_work_ids work). \<not> accepted_in (works_by_id works) i}"
    using mset_eq_setD [OF m] by (auto simp: work_readiness_reasons map_filter_readiness_reasons)
qed

end
