(* ===== verification/Runtime_Types.thy ===== *)
theory Runtime_Types
  imports Canonical_Json
begin

text \<open>
  The durable rows a runtime command is checked against: agent sessions and member runs
  (\<^verbatim>\<open>crates/firm-core/src/agentfirm_api/identity_session.rs\<close>), runtime commands
  (\<^verbatim>\<open>agentfirm_api/runtime_control.rs\<close>), the leases of Node daemons and team supervisors
  (\<^verbatim>\<open>team_runtime.rs\<close>) and the capability bindings of a provider (\<^verbatim>\<open>provider_integration.rs\<close>).
\<close>

section \<open>Actors and native sessions\<close>

datatype ActorKind = ActorHuman | ActorAgentMember | ActorExternal | ActorService

record ActorRef =
  act_kind :: ActorKind
  act_id :: string

datatype PermissionCeiling = CeilingReadOnly | CeilingWorkspaceWrite | CeilingFullAccess

datatype NativeSessionAvailability =
  NativeAvailable | NativeStale | NativeMissing | NativeIncompatible | NativeUnknown

record NativeSessionRef =
  nsr_provider :: string
  nsr_execution_mode :: string
  nsr_native_session_id :: string
  nsr_native_locator_kind :: string
  nsr_provider_version :: "string option"
  nsr_adapter_contract_version :: string
  nsr_availability :: NativeSessionAvailability
  nsr_supports_resume :: bool
  nsr_last_verified_at :: "string option"
  nsr_parent_native_session_id :: "string option"

definition same_identity_as :: "NativeSessionRef \<Rightarrow> NativeSessionRef \<Rightarrow> bool" where
  "same_identity_as self other \<longleftrightarrow>
     nsr_provider self = nsr_provider other
     \<and> nsr_execution_mode self = nsr_execution_mode other
     \<and> nsr_native_session_id self = nsr_native_session_id other
     \<and> nsr_native_locator_kind self = nsr_native_locator_kind other
     \<and> nsr_provider_version self = nsr_provider_version other
     \<and> nsr_adapter_contract_version self = nsr_adapter_contract_version other"

definition native_session_identity_matches_opt :: "NativeSessionRef option \<Rightarrow> NativeSessionRef option \<Rightarrow> bool" where
  "native_session_identity_matches_opt left right =
     (case (left, right) of
        (None, None) \<Rightarrow> True
      | (Some left, Some right) \<Rightarrow> same_identity_as left right
      | _ \<Rightarrow> False)"

definition native_session_admits_resume_seed :: "NativeSessionRef \<Rightarrow> NativeSessionRef \<Rightarrow> bool" where
  "native_session_admits_resume_seed observed expected_seed \<longleftrightarrow>
     nsr_provider_version observed \<noteq> None
     \<and> nsr_provider_version expected_seed = None
     \<and> nsr_provider observed = nsr_provider expected_seed
     \<and> nsr_execution_mode observed = nsr_execution_mode expected_seed
     \<and> nsr_native_session_id observed = nsr_native_session_id expected_seed
     \<and> nsr_native_locator_kind observed = nsr_native_locator_kind expected_seed
     \<and> nsr_adapter_contract_version observed = nsr_adapter_contract_version expected_seed"

section \<open>Agent sessions\<close>

datatype AgentSessionStatus =
    SessionCold | SessionIdle | SessionActive | SessionInterrupted | SessionRecoveryRequired | SessionClosed

datatype RuntimeResidency =
  ResidencyDetached | ResidencyAttaching | ResidencyAttached | ResidencyReleasing | ResidencyUnknown

datatype RuntimeActivity =
  ActivityIdle | ActivityRunning | ActivityWaitingInput | ActivityInterrupting | ActivityUnknown

datatype MemberExecutionDriver = HostDriven | UserDriven

datatype RuntimeDriverRef =
    DriverNodeDaemon (drv_node_daemon_id: string) (drv_node_daemon_generation: u64)
  | DriverTeamSupervisor (drv_team_run_id: string) (drv_team_supervisor_id: string)
      (drv_team_supervisor_generation: u64)
  | DriverUnknown

datatype DriverHandoffState =
  HandoffNone | PreparingHostToProvider | PreparingProviderToHost | HandoffRecoveryRequired | HandoffUnknown

datatype NativeContinuationPhase =
    ContinuationInactive | ContinuationActive | ContinuationPaused | ContinuationBlocked
  | ContinuationSatisfied | ContinuationUnknown

datatype NativeContinuationActivation =
    ActivationArmed (arm_runtime_generation: u64) (arm_driver_generation: u64)
  | ActivationDisarmed | ActivationUnknown

record NativeContinuationBudget =
  bud_remaining_cycles :: "u64 option"
  bud_remaining_tokens :: "u64 option"
  bud_deadline :: "string option"
  bud_provider_budget_ref :: "string option"

record NativeContinuationDefinition =
  ncd_continuation_ref :: "string option"
  ncd_revision :: "u64 option"
  ncd_phase :: NativeContinuationPhase
  ncd_budget :: "NativeContinuationBudget option"

record NativeContinuationProjection =
  ncp_definition :: NativeContinuationDefinition
  ncp_activation :: NativeContinuationActivation
  ncp_observed_at :: "string option"

record SessionSettlementIncomplete =
  ssi_node_id :: string
  ssi_node_daemon_id :: string
  ssi_node_daemon_generation :: u64
  ssi_instance_id :: string
  ssi_reason :: string
  ssi_observed_at :: string

record AgentSessionControlState =
  ctl_runtime_residency :: RuntimeResidency
  ctl_activity :: RuntimeActivity
  ctl_execution_driver :: MemberExecutionDriver
  ctl_driver_generation :: u64
  ctl_driver_ref :: RuntimeDriverRef
  ctl_handoff_state :: DriverHandoffState
  ctl_continuation :: NativeContinuationProjection
  ctl_composition_fingerprint :: "string option"
  ctl_capability_fingerprint :: "string option"
  ctl_last_reconciled_at :: "string option"
  ctl_settlement_incomplete :: "SessionSettlementIncomplete option"

record AgentSession =
  ses_id :: string
  ses_agent_member_id :: string
  ses_node_id :: string
  ses_execution_space_id :: string
  ses_node_daemon_id :: string
  ses_node_daemon_generation :: u64
  ses_provider_kind :: string
  ses_provider_profile_ref :: string
  ses_permission_envelope_ref :: string
  ses_effective_permission_ceiling :: PermissionCeiling
  ses_workspace_cwd :: "string option"
  ses_lifecycle :: AgentSessionStatus
  ses_runtime_generation :: u64
  ses_control_state :: AgentSessionControlState
  ses_native_session_ref :: "NativeSessionRef option"
  ses_current_cycle_marker :: "string option"
  ses_queued_input_count :: u64
  ses_version :: u64
  ses_opened_at :: string
  ses_last_active_at :: string
  ses_closed_at :: "string option"

definition is_at_terminal_cycle_boundary :: "AgentSession \<Rightarrow> bool" where
  "is_at_terminal_cycle_boundary self \<longleftrightarrow>
     ses_lifecycle self \<in> {SessionCold, SessionIdle, SessionInterrupted, SessionRecoveryRequired}
     \<and> ctl_activity (ses_control_state self) = ActivityIdle
     \<and> ses_current_cycle_marker self = None"

section \<open>Member runs\<close>

datatype MemberCoordinationStatus = CoordinationActive | CoordinationClosed | CoordinationRetired

datatype MemberRuntimeStatus =
    RuntimeStarting | RuntimeIdle | RuntimeQueued | RuntimeRunning | RuntimeWaiting | RuntimeDisconnected
  | RuntimeReviewing | RuntimeBlocked | RuntimeCompleted | RuntimeFailed | RuntimeStopped

record MemberRun =
  mrn_id :: string
  mrn_agent_member_id :: string
  mrn_team_run_id :: string
  mrn_role_snapshot :: string
  mrn_provider_profile_snapshot :: "string option"
  mrn_requested_controls :: json
  mrn_effective_controls :: json
  mrn_coordination_status :: MemberCoordinationStatus
  mrn_runtime_status :: MemberRuntimeStatus
  mrn_runtime_generation :: u64
  mrn_workspace_binding_id :: "string option"
  mrn_native_session :: "NativeSessionRef option"
  mrn_version :: u64
  mrn_started_at :: string
  mrn_last_event_at :: "string option"
  mrn_finished_at :: "string option"

definition status_has_live_runtime_authority :: "MemberRuntimeStatus \<Rightarrow> bool" where
  "status_has_live_runtime_authority self \<longleftrightarrow> self \<notin> {RuntimeCompleted, RuntimeFailed, RuntimeStopped}"

definition has_live_runtime_authority :: "MemberRun \<Rightarrow> bool" where
  "has_live_runtime_authority self \<longleftrightarrow>
     mrn_coordination_status self = CoordinationActive
     \<and> status_has_live_runtime_authority (mrn_runtime_status self)"

section \<open>Runtime commands\<close>

datatype RuntimeCommandKind =
    AuthorMessage | StartSession | StopSession | ResumeSession | DispatchProvider | CommandCancelProviderTurn
  | OpenRuntime | ResumeNativeSession | ReleaseRuntime | CloseMember | ReopenMember | RetireMember
  | DeleteNativeSession | CommandStartCycle | InjectCurrentCycle | QueueAtNativeBoundary | InterruptCurrentCycle
  | CancelPendingInput | InspectContinuation | ActivateContinuation | InhibitContinuationCommand
  | ResumeContinuation | ReplaceContinuationCondition | ClearContinuation | QuiesceExecutionLane | DrainRuntime
  | StopBackgroundTask | TransferExecutionDriver | InspectCommandEffect | ReconcileUnknownEffect
  | ReattachLiveRuntime | AbortIfNotApplied

record RuntimeCommandBinding =
  cbd_target_member_run_id :: "string option"
  cbd_target_member_run_generation :: "u64 option"
  cbd_target_session_id :: "string option"
  cbd_target_runtime_generation :: "u64 option"
  cbd_target_driver_generation :: "u64 option"
  cbd_target_driver :: RuntimeDriverRef
  cbd_native_session_ref :: "NativeSessionRef option"
  cbd_composition_fingerprint :: "string option"
  cbd_capability_fingerprint :: "string option"
  cbd_capability_profile_version :: "string option"
  cbd_permission_envelope_ref :: "string option"

record RuntimeNativeObjectRef =
  nor_id :: string
  nor_revision :: "u64 option"
  nor_fingerprint :: "string option"

datatype RuntimeSafePointRequirement =
  SafeImmediate | SafeCurrentCycle | SafeCycleBoundary | SafeRuntimeIdle | SafeExecutionLaneQuiesced | SafeUnknown

record RuntimeCommandPrecondition =
  pre_expected_session_version :: "u64 option"
  pre_expected_residency :: "RuntimeResidency option"
  pre_expected_activity :: "RuntimeActivity option"
  pre_expected_execution_driver :: "MemberExecutionDriver option"
  pre_expected_cycle_ref :: "RuntimeNativeObjectRef option"
  pre_expected_continuation_ref :: "RuntimeNativeObjectRef option"
  pre_expected_continuation_phase :: "NativeContinuationPhase option"
  pre_safe_point :: RuntimeSafePointRequirement

datatype RuntimeAcknowledgementLevel =
    AckCommandAdmitted | AckProviderReceipt | AckTargetNativeStateObserved | AckCurrentCycleTerminalObserved
  | AckContinuationInhibitedObserved | AckExecutionLaneQuiesced | AckStateReconciled
  | AckSemanticWorkOutcomeRecorded | AckUnknown

datatype RuntimeDesiredPostcondition =
    DesiredProviderAcknowledged | DesiredCycleStarted | DesiredCurrentCycleTerminal | DesiredPendingInputCancelled
  | DesiredContinuationActivated | DesiredContinuationInhibited | DesiredExecutionLaneQuiesced
  | DesiredRuntimeAttached | DesiredRuntimeReleased | DesiredDriverTransferred | DesiredStateReconciled
  | DesiredUnknown

datatype RuntimePostconditionStatus = PostSatisfied | PostUnsatisfied | PostUnknown

record RuntimeCommandPostcondition =
  pst_desired_ack_level :: RuntimeAcknowledgementLevel
  pst_desired_postcondition :: RuntimeDesiredPostcondition
  pst_status :: RuntimePostconditionStatus
  pst_evidence_refs :: "string list"

datatype RuntimeCommandPhase =
    PhasePrepared | PhaseDispatched | PhaseProviderAcknowledged | PhaseObserved | PhaseSettled | PhaseRejected
  | PhaseRecoveryRequired | PhaseUnknown

datatype RuntimeEffectCertainty = CertaintyNone | CertaintyNotApplied | CertaintyApplied | CertaintyUnknown

record ProviderCycleCorrelation =
  pcc_invocation_id :: string
  pcc_source_delivery_id :: "string option"
  pcc_provider_input_id :: string
  pcc_input_acceptance_receipt :: string
  pcc_terminal_provider_input_id :: "string option"
  pcc_exact_terminal_ref :: "string option"
  pcc_native_session_id :: string
  pcc_agent_session_generation :: u64
  pcc_provider_attempt :: u64
  pcc_interrupt_cause :: "string option"
  pcc_ending :: "string option"
  pcc_acceptance_id_provenance :: "string option"

record RuntimeCommandRecord =
  cmd_id :: string
  cmd_execution_space_id :: string
  cmd_target_node_id :: string
  cmd_target_node_daemon_id :: string
  cmd_target_node_daemon_generation :: u64
  cmd_authenticated_actor :: ActorRef
  cmd_command :: RuntimeCommandKind
  cmd_required_capability :: string
  cmd_idempotency_key :: string
  cmd_request_fingerprint :: string
  cmd_phase :: RuntimeCommandPhase
  cmd_effect_certainty :: RuntimeEffectCertainty
  cmd_postcondition_status :: RuntimePostconditionStatus
  cmd_binding :: RuntimeCommandBinding
  cmd_precondition :: RuntimeCommandPrecondition
  cmd_postcondition :: RuntimeCommandPostcondition
  cmd_target_session_id :: "string option"
  cmd_target_session_generation :: "u64 option"
  cmd_source_record_id :: "string option"
  cmd_provider_attempt :: "u64 option"
  cmd_result :: "json option"
  cmd_cycle_correlation :: "ProviderCycleCorrelation option"
  cmd_failure_code :: "string option"
  cmd_version :: u64
  cmd_created_at :: string
  cmd_updated_at :: string

definition has_unresolved_effect :: "RuntimeCommandRecord \<Rightarrow> bool" where
  "has_unresolved_effect self \<longleftrightarrow>
     cmd_effect_certainty self = CertaintyUnknown \<and> cmd_phase self \<notin> {PhaseSettled, PhaseRejected}"

section \<open>Leases\<close>

datatype NodeDaemonLeaseStatus = DaemonActive | DaemonDraining | DaemonReleased

record NodeDaemonLease =
  ndl_node_id :: string
  ndl_daemon_id :: string
  ndl_generation :: u64
  ndl_instance_id :: string
  ndl_status :: NodeDaemonLeaseStatus
  ndl_acquired_unix_ms :: u64
  ndl_renewed_unix_ms :: u64
  ndl_expires_unix_ms :: u64
  ndl_released_unix_ms :: "u64 option"

datatype TeamSupervisorLeaseStatus = SupervisorActive | SupervisorReleased

record TeamSupervisorLease =
  tsl_team_run_id :: string
  tsl_node_id :: string
  tsl_node_daemon_id :: string
  tsl_node_daemon_generation :: u64
  tsl_execution_space_id :: string
  tsl_project_binding_id :: string
  tsl_supervisor_id :: string
  tsl_generation :: u64
  tsl_owner_process_id :: "32 word"
  tsl_owner_locator :: string
  tsl_status :: TeamSupervisorLeaseStatus
  tsl_acquired_unix_ms :: u64
  tsl_heartbeat_unix_ms :: u64
  tsl_expires_unix_ms :: u64
  tsl_released_unix_ms :: "u64 option"

section \<open>Capability bindings\<close>

datatype ProviderCapabilityStatus = CapVerified | CapReviewRequired | CapDegraded | CapUnsupported

datatype ProviderBindingAdmission =
  AdmissionActive | AdmissionPendingDependency | AdmissionDegraded | AdmissionFailed

datatype ProviderCapabilityEvidenceKind =
  SourceReview | ProtocolProbe | DeterministicAcceptance | LiveCanary | ProviderDocumentation | EvidenceUnknown

record ProviderCapabilityEvidence =
  evd_kind :: ProviderCapabilityEvidenceKind
  evd_evidence_ref :: string
  evd_observed_at :: "string option"
  evd_note :: "string option"

record ProviderCapabilityBinding =
  pcb_capability :: string
  pcb_status :: ProviderCapabilityStatus
  pcb_admission :: ProviderBindingAdmission
  pcb_provider_version :: "string option"
  pcb_adapter_revision :: "string option"
  pcb_feature_fingerprint :: "string option"
  pcb_required_dependencies :: "string list"
  pcb_evidence :: "ProviderCapabilityEvidence list"

end
