(* ===== verification/Runtime_Capability.thy ===== *)
theory Runtime_Capability
  imports Runtime_Types
begin

text \<open>
  Admission of a provider effect (\<^verbatim>\<open>crates/firm-runtime-contract/src/provider_capabilities.rs\<close>,
  \<^verbatim>\<open>conformance.rs\<close>): the resolver that walks the required capabilities of an operation, the fence
  that binds a command to the exact runtime authority it was admitted for, the preflight that joins
  them, and the two process-local lifecycles of \<^verbatim>\<open>conformance.rs\<close>.
\<close>

datatype SemanticCapability =
  OpenOrResume | StartCycle | Interrupt | CloseRuntime | Observe | InspectEffect | Reconcile | Quiesce | Release

fun capability_as_str :: "SemanticCapability \<Rightarrow> string" where
  "capability_as_str OpenOrResume = ''open_or_resume''"
| "capability_as_str StartCycle = ''start_cycle''"
| "capability_as_str Interrupt = ''interrupt_current_cycle''"
| "capability_as_str CloseRuntime = ''close_runtime''"
| "capability_as_str Observe = ''observe''"
| "capability_as_str InspectEffect = ''inspect_effect''"
| "capability_as_str Reconcile = ''reconcile_effect''"
| "capability_as_str Quiesce = ''quiesce''"
| "capability_as_str Release = ''release''"

datatype QuiesceStep =
    FenceAdmission | InhibitContinuation | SettleActiveCycle | DrainNativeQueue | DrainWritableChildren
  | ObserveIdle | ConfirmFlush

datatype RuntimeContractError =
    InvalidCapabilityBindings string
  | CapabilityAdmissionDenied SemanticCapability ProviderBindingAdmission "string list"
  | FenceMismatch "string list"
  | QuiesceIncomplete "string list"
  | QuiesceOrder "QuiesceStep option" QuiesceStep
  | CompositionSwapRequiresQuiesce
  | ReleaseIncomplete
  | MemberCloseIncomplete "string list"
  | AlreadyReleased

section \<open>The resolver\<close>

record AdmissionDecision =
  dec_capability :: SemanticCapability
  dec_admission :: ProviderBindingAdmission
  dec_required_closure :: "string list"
  dec_reasons :: "string list"

definition allows_effect :: "AdmissionDecision \<Rightarrow> bool" where
  "allows_effect self \<longleftrightarrow> dec_admission self \<in> {AdmissionActive, AdmissionDegraded}"

type_synonym CapabilityResolver = "ProviderCapabilityBinding btree"

fun index_bindings ::
    "CapabilityResolver \<Rightarrow> ProviderCapabilityBinding list \<Rightarrow> RuntimeContractError + CapabilityResolver" where
  "index_bindings indexed [] = Inr indexed"
| "index_bindings indexed (binding # rest) =
     (if bt_contains indexed (pcb_capability binding)
      then Inl (InvalidCapabilityBindings (''duplicate capability binding: '' @ pcb_capability binding))
      else index_bindings (bt_insert (pcb_capability binding) binding indexed) rest)"

definition CapabilityResolver_new ::
    "ProviderCapabilityBinding list \<Rightarrow> RuntimeContractError + CapabilityResolver" where
  "CapabilityResolver_new bindings = index_bindings [] bindings"

datatype HardAdmission = HardVerified | HardPending | HardFailed

text \<open>What a walk updates: the names entered, the admission so far, whether it is degraded, the reasons.\<close>

record walk =
  wk_closure :: "string set"
  wk_hard :: HardAdmission
  wk_degraded :: bool
  wk_reasons :: "string list"

definition fresh_walk :: walk where
  "fresh_walk = \<lparr>wk_closure = {}, wk_hard = HardVerified, wk_degraded = False, wk_reasons = []\<rparr>"

definition deny :: "string \<Rightarrow> walk \<Rightarrow> walk" where
  "deny reason w = w\<lparr>wk_hard := HardFailed, wk_reasons := wk_reasons w @ [reason]\<rparr>"

definition postpone :: "string \<Rightarrow> walk \<Rightarrow> walk" where
  "postpone reason w =
     w\<lparr>wk_hard := (if wk_hard w = HardFailed then HardFailed else HardPending), wk_reasons := wk_reasons w @ [reason]\<rparr>"

fun show_capability_status :: "ProviderCapabilityStatus \<Rightarrow> string" where
  "show_capability_status CapVerified = ''Verified''"
| "show_capability_status CapReviewRequired = ''ReviewRequired''"
| "show_capability_status CapDegraded = ''Degraded''"
| "show_capability_status CapUnsupported = ''Unsupported''"

definition has_evidence :: "ProviderCapabilityEvidenceKind \<Rightarrow> ProviderCapabilityBinding \<Rightarrow> bool" where
  "has_evidence kind binding \<longleftrightarrow> list_ex (\<lambda>evidence. evd_kind evidence = kind) (pcb_evidence binding)"

definition lacks_reference :: "ProviderCapabilityBinding \<Rightarrow> bool" where
  "lacks_reference binding \<longleftrightarrow>
     pcb_evidence binding = [] \<or> list_all (\<lambda>item. blank (evd_evidence_ref item)) (pcb_evidence binding)"

definition lacks_acceptance :: "ProviderCapabilityBinding \<Rightarrow> bool" where
  "lacks_acceptance binding \<longleftrightarrow>
     pcb_admission binding = AdmissionActive
     \<and> (\<not> has_evidence DeterministicAcceptance binding \<or> \<not> has_evidence LiveCanary binding)"

text \<open>The checks of one binding: the updates of the walk, and whether its dependencies are walked.\<close>

definition gate_binding :: "string \<Rightarrow> ProviderCapabilityBinding \<Rightarrow> walk \<Rightarrow> walk \<times> bool" where
  "gate_binding capability binding w =
     (case pcb_status binding of
        CapReviewRequired \<Rightarrow>
          (postpone (''required capability '' @ capability @ '' awaits review'') w, False)
      | CapVerified \<Rightarrow>
          if lacks_reference binding
          then (deny (''verified capability '' @ capability @ '' has no evidence reference'') w, False)
          else if lacks_acceptance binding
          then (deny (''active capability '' @ capability
                        @ '' lacks deterministic acceptance or live canary evidence'') w, False)
          else
            (case pcb_admission binding of
               AdmissionActive \<Rightarrow> (w, True)
             | AdmissionDegraded \<Rightarrow> (w\<lparr>wk_degraded := True\<rparr>, True)
             | AdmissionPendingDependency \<Rightarrow>
                 (postpone (''required capability '' @ capability @ '' is pending dependency'') w, False)
             | AdmissionFailed \<Rightarrow>
                 (deny (''required capability '' @ capability @ '' failed admission'') w, False))
      | status \<Rightarrow>
          (deny (''required capability '' @ capability @ '' is '' @ show_capability_status status) w, False))"

definition join_arrow :: "string list \<Rightarrow> string" where
  "join_arrow names = concat (map (\<lambda>n. n @ '' -> '') (butlast names)) @ last names"

text \<open>Entering a capability: the walk afterwards, and the dependencies that are walked next.\<close>

definition enter :: "CapabilityResolver \<Rightarrow> string \<Rightarrow> string list \<Rightarrow> walk \<Rightarrow> walk \<times> string list option" where
  "enter bindings capability stack w =
     (if capability \<in> set stack
      then (deny (''required dependency cycle: ''
                    @ join_arrow (dropWhile (\<lambda>item. item \<noteq> capability) stack @ [capability])) w, None)
      else if capability \<in> wk_closure w then (w, None)
      else
        let w = w\<lparr>wk_closure := insert capability (wk_closure w)\<rparr> in
        case bt_get bindings capability of
          None \<Rightarrow> (deny (''required capability '' @ capability @ '' is missing'') w, None)
        | Some binding \<Rightarrow>
            (case gate_binding capability binding w of
               (w, False) \<Rightarrow> (w, None)
             | (w, True) \<Rightarrow> (w, Some (pcb_required_dependencies binding))))"

text \<open>The loop over the dependencies of a capability on the stack.\<close>

function (domintros) walk_dependencies ::
    "CapabilityResolver \<Rightarrow> string \<Rightarrow> string list \<Rightarrow> string list \<Rightarrow> walk \<Rightarrow> walk" where
  "walk_dependencies bindings capability [] stack w = w"
| "walk_dependencies bindings capability (dependency # rest) stack w =
     (if \<not> bt_contains bindings dependency
      then walk_dependencies bindings capability rest stack
             (deny (''required capability '' @ dependency @ '' for '' @ capability @ '' is missing'') w)
      else
        (case enter bindings dependency stack w of
           (w', None) \<Rightarrow> walk_dependencies bindings capability rest stack w'
         | (w', Some dependencies) \<Rightarrow>
             walk_dependencies bindings capability rest stack
               (walk_dependencies bindings dependency dependencies (stack @ [dependency]) w')))"
  by pat_completeness auto

lemma deny_closure [simp]: "wk_closure (deny r w) = wk_closure w"
  by (simp add: deny_def)

lemma postpone_closure [simp]: "wk_closure (postpone r w) = wk_closure w"
  by (simp add: postpone_def)

lemma gate_closure [simp]: "wk_closure (fst (gate_binding c b w)) = wk_closure w"
  by (simp add: gate_binding_def split: ProviderCapabilityStatus.split ProviderBindingAdmission.split)

lemma enter_closure: "wk_closure w \<subseteq> wk_closure (fst (enter bindings c stack w))"
  by (auto simp: enter_def Let_def split: option.split prod.split bool.split dest!: arg_cong [of _ _ fst])

lemma enter_Some:
  assumes "enter bindings c stack w = (w', Some ds)"
  shows "c \<notin> set stack" "c \<notin> wk_closure w" "wk_closure w' = insert c (wk_closure w)"
    "\<exists>b. bt_get bindings c = Some b \<and> ds = pcb_required_dependencies b
       \<and> gate_binding c b (w\<lparr>wk_closure := insert c (wk_closure w)\<rparr>) = (w', True)"
proof -
  show "c \<notin> set stack" "c \<notin> wk_closure w"
    "\<exists>b. bt_get bindings c = Some b \<and> ds = pcb_required_dependencies b
       \<and> gate_binding c b (w\<lparr>wk_closure := insert c (wk_closure w)\<rparr>) = (w', True)"
    using assms by (auto simp: enter_def Let_def split: if_splits option.splits prod.splits bool.splits)
  then obtain b where "gate_binding c b (w\<lparr>wk_closure := insert c (wk_closure w)\<rparr>) = (w', True)" by blast
  then show "wk_closure w' = insert c (wk_closure w)"
    using gate_closure [of c b "w\<lparr>wk_closure := insert c (wk_closure w)\<rparr>"] by simp
qed

lemma walk_closure_dom:
  "walk_dependencies_dom (bs, c, ds, stack, w) \<Longrightarrow> wk_closure w \<subseteq> wk_closure (walk_dependencies bs c ds stack w)"
proof (induction bs c ds stack w rule: walk_dependencies.pinduct)
  case (2 bs c d ds stack w)
  show ?case
  proof (cases "bt_contains bs d")
    case True
    obtain w' o' where e: "enter bs d stack w = (w', o')" by (cases "enter bs d stack w")
    have "wk_closure w \<subseteq> wk_closure w'" using enter_closure [of w bs d stack] e by simp
    then show ?thesis using 2 True e by (cases o') (force simp: walk_dependencies.psimps)+
  qed (use 2 in \<open>simp add: walk_dependencies.psimps\<close>)
qed (simp add: walk_dependencies.psimps)

abbreviation walk_order :: "((CapabilityResolver \<times> string \<times> string list \<times> string list \<times> walk) \<times>
    CapabilityResolver \<times> string \<times> string list \<times> string list \<times> walk) set" where
  "walk_order \<equiv> inv_image (finite_psubset <*lex*> less_than)
     (\<lambda>(bs, c, ds, stack, w). (set (map fst bs) - wk_closure w, length ds))"

lemma walk_rest_smaller:
  assumes "wk_closure w \<subseteq> wk_closure w'"
  shows "((bs, c, ds, stack, w'), (bs, c', d # ds, stack', w)) \<in> walk_order"
proof (cases "set (map fst bs) - wk_closure w' = set (map fst bs) - wk_closure w")
  case False
  then have "set (map fst bs) - wk_closure w' \<subset> set (map fst bs) - wk_closure w" using assms by blast
  then show ?thesis by (simp add: finite_psubset_def)
qed simp

lemma walk_entered_smaller:
  assumes e: "enter bs d stack w = (w', Some ds')"
  shows "((bs, d, ds', stack', w'), (bs, c, d # ds, stack, w)) \<in> walk_order"
proof -
  have "d \<in> set (map fst bs)"
    using enter_Some(4) [OF e] by (metis bt_get_def map_of_SomeD fst_conv image_eqI list.set_map)
  then have "set (map fst bs) - wk_closure w' \<subset> set (map fst bs) - wk_closure w"
    using enter_Some(2,3) [OF e] by blast
  then show ?thesis by (simp add: finite_psubset_def)
qed

termination walk_dependencies
proof (relation walk_order, goal_cases)
  case (2 bs c d ds stack w)
  then show ?case by (intro walk_rest_smaller) simp
next
  case (3 bs c d ds stack w w' o')
  then show ?case using enter_closure [of w bs d stack] by (intro walk_rest_smaller) (metis fst_conv)
next
  case (4 bs c d ds stack w w' o' ds')
  then show ?case by (intro walk_entered_smaller) simp
next
  case (5 bs c d ds stack w w' o' ds')
  then have e: "enter bs d stack w = (w', Some ds')" by simp
  have "wk_closure w \<subseteq> wk_closure (walk_dependencies bs d ds' (stack @ [d]) w')"
    using walk_closure_dom [OF 5(4)] enter_Some(3) [OF e] by blast
  then show ?case by (rule walk_rest_smaller)
qed auto

declare walk_dependencies.simps(2) [simp del]

definition walk_required :: "CapabilityResolver \<Rightarrow> string \<Rightarrow> string list \<Rightarrow> walk \<Rightarrow> walk" where
  "walk_required bindings capability stack w =
     (case enter bindings capability stack w of
        (w', None) \<Rightarrow> w'
      | (w', Some dependencies) \<Rightarrow> walk_dependencies bindings capability dependencies (stack @ [capability]) w')"

text \<open>The optional capabilities, each walked on its own: a gap lowers the result and adds a reason.\<close>

fun walk_optional :: "CapabilityResolver \<Rightarrow> SemanticCapability list \<Rightarrow> walk \<Rightarrow> walk" where
  "walk_optional bindings [] w = w"
| "walk_optional bindings (optional_capability # rest) w =
     (let optional_walk = walk_required bindings (capability_as_str optional_capability) [] fresh_walk in
      walk_optional bindings rest
        (if wk_hard optional_walk \<noteq> HardVerified \<or> wk_degraded optional_walk
         then w\<lparr>wk_degraded := True,
                wk_reasons := wk_reasons w @ [''optional capability '' @ capability_as_str optional_capability
                                                @ '' is not fully verified'']\<rparr>
         else w))"

definition admit :: "CapabilityResolver \<Rightarrow> SemanticCapability \<Rightarrow> SemanticCapability list \<Rightarrow> AdmissionDecision" where
  "admit bindings capability optional =
     (let required = walk_required bindings (capability_as_str capability) [] fresh_walk;
          w = (if wk_hard required = HardVerified then walk_optional bindings optional required else required) in
      \<lparr>dec_capability = capability,
       dec_admission =
         (case wk_hard w of
            HardVerified \<Rightarrow> if wk_degraded w then AdmissionDegraded else AdmissionActive
          | HardPending \<Rightarrow> AdmissionPendingDependency
          | HardFailed \<Rightarrow> AdmissionFailed),
       dec_required_closure = sorted_list_of_set (wk_closure w),
       dec_reasons = wk_reasons w\<rparr>)"

definition require_effect ::
    "CapabilityResolver \<Rightarrow> SemanticCapability \<Rightarrow> SemanticCapability list \<Rightarrow> RuntimeContractError + AdmissionDecision" where
  "require_effect bindings capability optional =
     (let decision = admit bindings capability optional in
      if allows_effect decision then Inr decision
      else Inl (CapabilityAdmissionDenied capability (dec_admission decision) (dec_reasons decision)))"

section \<open>The fence\<close>

record RuntimeBindingFence =
  fnc_command_id :: string
  fnc_binding :: RuntimeCommandBinding
  fnc_target_node_daemon_id :: string
  fnc_target_node_daemon_generation :: u64
  fnc_member_run_id :: string
  fnc_member_run_generation :: u64
  fnc_agent_session_generation :: u64
  fnc_driver_generation :: u64
  fnc_team_supervisor_generation :: "u64 option"

definition field_if :: "bool \<Rightarrow> string \<Rightarrow> string list" where
  "field_if mismatch field = (if mismatch then [field] else [])"

definition exact_mismatch_fields ::
    "RuntimeCommandBinding \<Rightarrow> string \<Rightarrow> u64 \<Rightarrow> AgentSession \<Rightarrow> string list" where
  "exact_mismatch_fields binding target_node_daemon_id target_node_daemon_generation session =
     (let control_state = ses_control_state session in
      field_if (cbd_target_session_id binding \<noteq> Some (ses_id session)) ''target_session_id''
      @ field_if (cbd_target_runtime_generation binding \<noteq> Some (ses_runtime_generation session))
          ''target_runtime_generation''
      @ field_if (cbd_target_driver_generation binding \<noteq> Some (ctl_driver_generation control_state))
          ''target_driver_generation''
      @ field_if (cbd_target_driver binding \<noteq> ctl_driver_ref control_state) ''target_driver''
      @ field_if (target_node_daemon_id \<noteq> ses_node_daemon_id session) ''target_node_daemon_id''
      @ field_if (target_node_daemon_generation \<noteq> ses_node_daemon_generation session)
          ''target_node_daemon_generation''
      @ field_if (cbd_composition_fingerprint binding \<noteq> ctl_composition_fingerprint control_state)
          ''composition_fingerprint''
      @ field_if (cbd_capability_fingerprint binding \<noteq> ctl_capability_fingerprint control_state)
          ''capability_fingerprint''
      @ field_if (cbd_permission_envelope_ref binding \<noteq> Some (ses_permission_envelope_ref session))
          ''permission_envelope_ref''
      @ field_if (cbd_native_session_ref binding \<noteq> ses_native_session_ref session) ''native_session_ref'')"

text \<open>The supervisor's lease is checked only when a supervisor drives the session.\<close>

definition supervisor_current ::
    "AgentSession \<Rightarrow> MemberRun \<Rightarrow> NodeDaemonLease \<Rightarrow> u64 \<Rightarrow> string \<Rightarrow> string \<Rightarrow> u64 \<Rightarrow> TeamSupervisorLease \<Rightarrow> bool" where
  "supervisor_current session member_run node_daemon now_unix_ms team_run_id team_supervisor_id
       team_supervisor_generation lease \<longleftrightarrow>
     tsl_status lease = SupervisorActive
     \<and> tsl_expires_unix_ms lease > now_unix_ms
     \<and> tsl_team_run_id lease = team_run_id
     \<and> tsl_team_run_id lease = mrn_team_run_id member_run
     \<and> tsl_supervisor_id lease = team_supervisor_id
     \<and> tsl_generation lease = team_supervisor_generation
     \<and> tsl_execution_space_id lease = ses_execution_space_id session
     \<and> tsl_node_id lease = ses_node_id session
     \<and> tsl_node_daemon_id lease = ndl_daemon_id node_daemon
     \<and> tsl_node_daemon_generation lease = ndl_generation node_daemon"

definition supervisor_generation ::
    "AgentSession \<Rightarrow> MemberRun \<Rightarrow> NodeDaemonLease \<Rightarrow> TeamSupervisorLease option \<Rightarrow> u64 \<Rightarrow> string list \<times> u64 option" where
  "supervisor_generation session member_run node_daemon team_supervisor now_unix_ms =
     (case ctl_driver_ref (ses_control_state session) of
        DriverTeamSupervisor team_run_id team_supervisor_id generation \<Rightarrow>
          (case team_supervisor of
             Some lease \<Rightarrow>
               if supervisor_current session member_run node_daemon now_unix_ms team_run_id team_supervisor_id
                    generation lease
               then if tsl_generation lease = 0 then ([''team_supervisor.generation''], None)
                    else ([], Some (tsl_generation lease))
               else ([''team_supervisor.current_lease''], None)
           | None \<Rightarrow> ([''team_supervisor.current_lease''], None))
      | _ \<Rightarrow> ([], None))"

definition admission_fields ::
    "RuntimeCommandRecord \<Rightarrow> AgentSession \<Rightarrow> MemberRun \<Rightarrow> NodeDaemonLease \<Rightarrow> u64 \<Rightarrow> string list" where
  "admission_fields command session member_run node_daemon now_unix_ms =
     field_if (cmd_phase command \<noteq> PhasePrepared \<or> cmd_effect_certainty command \<noteq> CertaintyUnknown)
       ''runtime_command.admission_state''
     @ field_if (cmd_target_session_id command \<noteq> Some (ses_id session)
                 \<or> cmd_target_session_generation command \<noteq> Some (ses_runtime_generation session))
         ''runtime_command.target_session''
     @ field_if (cbd_target_member_run_id (cmd_binding command) \<noteq> Some (mrn_id member_run)
                 \<or> cbd_target_member_run_generation (cmd_binding command) \<noteq> Some (mrn_runtime_generation member_run))
         ''runtime_command.target_member_run''
     @ field_if (cmd_execution_space_id command \<noteq> ses_execution_space_id session
                 \<or> cmd_target_node_id command \<noteq> ses_node_id session)
         ''runtime_command.session_scope''
     @ field_if (ndl_status node_daemon \<noteq> DaemonActive
                 \<or> ndl_expires_unix_ms node_daemon \<le> now_unix_ms
                 \<or> ndl_node_id node_daemon \<noteq> ses_node_id session
                 \<or> ndl_daemon_id node_daemon \<noteq> ses_node_daemon_id session
                 \<or> ndl_generation node_daemon \<noteq> ses_node_daemon_generation session
                 \<or> cmd_target_node_daemon_id command \<noteq> ndl_daemon_id node_daemon
                 \<or> cmd_target_node_daemon_generation command \<noteq> ndl_generation node_daemon)
         ''node_daemon.current_lease''
     @ field_if (mrn_coordination_status member_run \<noteq> CoordinationActive) ''member_run.coordination_status''
     @ field_if (mrn_agent_member_id member_run \<noteq> ses_agent_member_id session) ''member_run.agent_member_id''"

definition zero_generations :: "AgentSession \<Rightarrow> MemberRun \<Rightarrow> NodeDaemonLease \<Rightarrow> string list" where
  "zero_generations session member_run node_daemon =
     field_if (ndl_generation node_daemon = 0) ''node_daemon.generation''
     @ field_if (mrn_runtime_generation member_run = 0) ''member_run.runtime_generation''
     @ field_if (ses_runtime_generation session = 0) ''agent_session.runtime_generation''
     @ field_if (ctl_driver_generation (ses_control_state session) = 0) ''agent_session.driver_generation''"

definition from_admitted_command ::
    "RuntimeCommandRecord \<Rightarrow> AgentSession \<Rightarrow> MemberRun \<Rightarrow> NodeDaemonLease \<Rightarrow> TeamSupervisorLease option \<Rightarrow> u64
      \<Rightarrow> RuntimeContractError + RuntimeBindingFence" where
  "from_admitted_command command session member_run node_daemon team_supervisor now_unix_ms =
     (let (supervisor_fields, team_supervisor_generation) =
            supervisor_generation session member_run node_daemon team_supervisor now_unix_ms;
          fields = remdups_adj (sort
            (admission_fields command session member_run node_daemon now_unix_ms @ supervisor_fields
             @ zero_generations session member_run node_daemon
             @ exact_mismatch_fields (cmd_binding command) (cmd_target_node_daemon_id command)
                 (cmd_target_node_daemon_generation command) session)) in
      if fields \<noteq> [] then Inl (FenceMismatch fields)
      else Inr
        \<lparr>fnc_command_id = cmd_id command,
         fnc_binding = cmd_binding command,
         fnc_target_node_daemon_id = cmd_target_node_daemon_id command,
         fnc_target_node_daemon_generation = ndl_generation node_daemon,
         fnc_member_run_id = mrn_id member_run,
         fnc_member_run_generation = mrn_runtime_generation member_run,
         fnc_agent_session_generation = ses_runtime_generation session,
         fnc_driver_generation = ctl_driver_generation (ses_control_state session),
         fnc_team_supervisor_generation = team_supervisor_generation\<rparr>)"

definition validate_exact :: "RuntimeBindingFence \<Rightarrow> AgentSession \<Rightarrow> RuntimeContractError + unit" where
  "validate_exact self session =
     (let fields = exact_mismatch_fields (fnc_binding self) (fnc_target_node_daemon_id self)
            (fnc_target_node_daemon_generation self) session in
      if fields = [] then Inr () else Inl (FenceMismatch fields))"

section \<open>Preflight\<close>

record RuntimeDescription =
  rtd_binding_id :: string
  rtd_native_protocol :: string
  rtd_composition_fingerprint :: string
  rtd_capability_fingerprint :: string
  rtd_capability_bindings :: "ProviderCapabilityBinding list"

definition preflight_effect ::
    "RuntimeDescription \<Rightarrow> AgentSession \<Rightarrow> RuntimeBindingFence \<Rightarrow> SemanticCapability \<Rightarrow> SemanticCapability list
      \<Rightarrow> RuntimeContractError + AdmissionDecision" where
  "preflight_effect description session fence capability optional =
     bindR (validate_exact fence session) (\<lambda>_.
     bindR (reject_if (ctl_composition_fingerprint (ses_control_state session)
                         \<noteq> Some (rtd_composition_fingerprint description))
              (FenceMismatch [''description.composition_fingerprint''])) (\<lambda>_.
     bindR (reject_if (ctl_capability_fingerprint (ses_control_state session)
                         \<noteq> Some (rtd_capability_fingerprint description))
              (FenceMismatch [''description.capability_fingerprint''])) (\<lambda>_.
     bindR (CapabilityResolver_new (rtd_capability_bindings description)) (\<lambda>resolver.
     require_effect resolver capability optional))))"

end
