(* ===== verification/Runtime_Admission.thy ===== *)
theory Runtime_Admission
  imports Runtime_Capability
begin

text \<open>
  The walk over the required capabilities is exact: an effect is admitted when, and only when,
  everything its capability requires is verified and no dependency is circular.
\<close>

section \<open>The required capabilities\<close>

definition executable :: "ProviderCapabilityBinding \<Rightarrow> bool" where
  "executable b \<longleftrightarrow> pcb_status b = CapVerified \<and> \<not> lacks_reference b \<and> \<not> lacks_acceptance b
     \<and> pcb_admission b \<in> {AdmissionActive, AdmissionDegraded}"

definition requires :: "CapabilityResolver \<Rightarrow> string \<Rightarrow> string \<Rightarrow> bool" where
  "requires bs x y \<longleftrightarrow> (\<exists>b. bt_get bs x = Some b \<and> y \<in> set (pcb_required_dependencies b))"

definition sound_node :: "CapabilityResolver \<Rightarrow> string \<Rightarrow> bool" where
  "sound_node bs x \<longleftrightarrow> (\<exists>b. bt_get bs x = Some b \<and> executable b) \<and> \<not> (requires bs)\<^sup>+\<^sup>+ x x"

definition degraded_node :: "CapabilityResolver \<Rightarrow> string \<Rightarrow> bool" where
  "degraded_node bs x \<longleftrightarrow> (\<exists>b. bt_get bs x = Some b \<and> pcb_admission b = AdmissionDegraded)"

definition verified :: "CapabilityResolver \<Rightarrow> string \<Rightarrow> bool" where
  "verified bs c \<longleftrightarrow> (\<forall>x. (requires bs)\<^sup>*\<^sup>* c x \<longrightarrow> sound_node bs x)"

definition fully_verified :: "CapabilityResolver \<Rightarrow> string \<Rightarrow> bool" where
  "fully_verified bs c \<longleftrightarrow> (\<forall>x. (requires bs)\<^sup>*\<^sup>* c x \<longrightarrow> sound_node bs x \<and> \<not> degraded_node bs x)"

lemma deny_hard [simp]: "wk_hard (deny r w) = HardFailed"
  by (simp add: deny_def)

lemma postpone_hard [simp]: "wk_hard (postpone r w) \<noteq> HardVerified"
  by (simp add: postpone_def)

lemma gate_executable:
  "executable b \<Longrightarrow> gate_binding c b w
     = (if pcb_admission b = AdmissionDegraded then w\<lparr>wk_degraded := True\<rparr> else w, True)"
  by (auto simp: executable_def gate_binding_def)

lemma gate_refuses: "\<not> executable b \<Longrightarrow> \<exists>w'. gate_binding c b w = (w', False) \<and> wk_hard w' \<noteq> HardVerified"
  by (cases "pcb_status b"; cases "pcb_admission b") (auto simp: executable_def gate_binding_def)

text \<open>Entering: the capability was walked before, is refused, or is walked next.\<close>

lemma enter_seen: "c \<notin> set stack \<Longrightarrow> c \<in> wk_closure w \<Longrightarrow> enter bs c stack w = (w, None)"
  by (simp add: enter_def)

lemma enter_executable:
  assumes "c \<notin> set stack" "c \<notin> wk_closure w" "bt_get bs c = Some b" "executable b"
  shows "enter bs c stack w =
    (w\<lparr>wk_closure := insert c (wk_closure w), wk_degraded := wk_degraded w \<or> pcb_admission b = AdmissionDegraded\<rparr>,
     Some (pcb_required_dependencies b))"
  using assms by (cases w) (simp add: enter_def gate_executable Let_def)

lemma enter_refuses:
  assumes "c \<in> set stack \<or> c \<notin> wk_closure w \<and> (\<forall>b. bt_get bs c = Some b \<longrightarrow> \<not> executable b)"
  shows "\<exists>w'. enter bs c stack w = (w', None) \<and> wk_hard w' \<noteq> HardVerified"
proof (cases "c \<in> set stack \<or> bt_get bs c = None")
  case True
  then show ?thesis using assms by (auto simp: enter_def Let_def)
next
  case False
  then obtain b where b: "bt_get bs c = Some b" "\<not> executable b" using assms by blast
  then obtain w' where "gate_binding c b (w\<lparr>wk_closure := insert c (wk_closure w)\<rparr>) = (w', False)"
    "wk_hard w' \<noteq> HardVerified"
    using gate_refuses by blast
  then show ?thesis using False b assms by (simp add: enter_def)
qed

lemma enter_cases:
  obtains (seen) "c \<notin> set stack" "c \<in> wk_closure w" "enter bs c stack w = (w, None)"
    | (refused) w' where "enter bs c stack w = (w', None)" "wk_hard w' \<noteq> HardVerified"
    | (walked) b where "c \<notin> set stack" "c \<notin> wk_closure w" "bt_get bs c = Some b" "executable b"
      "enter bs c stack w =
        (w\<lparr>wk_closure := insert c (wk_closure w), wk_degraded := wk_degraded w \<or> pcb_admission b = AdmissionDegraded\<rparr>,
         Some (pcb_required_dependencies b))"
  using enter_seen enter_refuses enter_executable by metis

lemma enter_hard: "wk_hard w \<noteq> HardVerified \<Longrightarrow> wk_hard (fst (enter bs c stack w)) \<noteq> HardVerified"
  by (cases rule: enter_cases [of c stack w bs]) auto

lemma walk_step:
  "walk_dependencies bs c (d # ds) stack w =
     (if \<not> bt_contains bs d
      then walk_dependencies bs c ds stack
             (deny (''required capability '' @ d @ '' for '' @ c @ '' is missing'') w)
      else (case enter bs d stack w of
           (w', None) \<Rightarrow> walk_dependencies bs c ds stack w'
         | (w', Some ds') \<Rightarrow> walk_dependencies bs c ds stack (walk_dependencies bs d ds' (stack @ [d]) w')))"
  by (rule walk_dependencies.simps(2))

text \<open>Induction along a walk, by what happens to the next dependency.\<close>

definition entered :: "ProviderCapabilityBinding \<Rightarrow> string \<Rightarrow> walk \<Rightarrow> walk" where
  "entered b d w = w\<lparr>wk_closure := insert d (wk_closure w),
     wk_degraded := wk_degraded w \<or> pcb_admission b = AdmissionDegraded\<rparr>"

lemma entered_fields [simp]:
  "wk_closure (entered b d w) = insert d (wk_closure w)" "wk_hard (entered b d w) = wk_hard w"
  "wk_degraded (entered b d w) \<longleftrightarrow> wk_degraded w \<or> pcb_admission b = AdmissionDegraded"
  by (simp_all add: entered_def)

lemma walk_induct [case_names Nil missing seen refused walked]:
  assumes "\<And>c stack w. P c [] stack w"
    and "\<And>c d ds stack w w'. \<not> bt_contains bs d \<Longrightarrow> wk_hard w' = HardFailed \<Longrightarrow> wk_closure w' = wk_closure w \<Longrightarrow>
      walk_dependencies bs c (d # ds) stack w = walk_dependencies bs c ds stack w' \<Longrightarrow> P c ds stack w' \<Longrightarrow>
      P c (d # ds) stack w"
    and "\<And>c d ds stack w. d \<notin> set stack \<Longrightarrow> d \<in> wk_closure w \<Longrightarrow>
      walk_dependencies bs c (d # ds) stack w = walk_dependencies bs c ds stack w \<Longrightarrow> P c ds stack w \<Longrightarrow>
      P c (d # ds) stack w"
    and "\<And>c d ds stack w w'. enter bs d stack w = (w', None) \<Longrightarrow> wk_hard w' \<noteq> HardVerified \<Longrightarrow>
      walk_dependencies bs c (d # ds) stack w = walk_dependencies bs c ds stack w' \<Longrightarrow> P c ds stack w' \<Longrightarrow>
      P c (d # ds) stack w"
    and "\<And>c d ds stack w b u. d \<notin> set stack \<Longrightarrow> d \<notin> wk_closure w \<Longrightarrow> bt_get bs d = Some b \<Longrightarrow> executable b \<Longrightarrow>
      u = walk_dependencies bs d (pcb_required_dependencies b) (stack @ [d]) (entered b d w) \<Longrightarrow>
      walk_dependencies bs c (d # ds) stack w = walk_dependencies bs c ds stack u \<Longrightarrow>
      P d (pcb_required_dependencies b) (stack @ [d]) (entered b d w) \<Longrightarrow> P c ds stack u \<Longrightarrow>
      P c (d # ds) stack w"
  shows "P c ds stack w"
proof -
  have "bs' = bs \<Longrightarrow> P c ds stack w" for bs'
  proof (induction bs' c ds stack w rule: walk_dependencies.induct)
  case (2 bs' c d ds stack w)
  show ?case
  proof (cases "bt_contains bs d")
    case False
    then show ?thesis using 2(1,5) by (intro assms(2) [OF False]) (auto simp: walk_step)
  next
    case True
    show ?thesis
    proof (cases rule: enter_cases [of d stack w bs])
      case seen
      then show ?thesis using 2(2,5) True by (intro assms(3)) (auto simp: walk_step)
    next
      case (refused w')
      then show ?thesis using 2(2,5) True by (intro assms(4) [OF refused]) (auto simp: walk_step)
    next
      case (walked b)
      then show ?thesis using 2(3,4,5) True
        by (intro assms(5) [OF walked(1-4) refl]) (auto simp: walk_step entered_def)
    qed
  qed
  qed (simp_all add: assms(1))
  then show ?thesis by simp
qed

lemma walk_closure: "wk_closure w \<subseteq> wk_closure (walk_dependencies bs c ds stack w)"
proof (induction c ds stack w rule: walk_induct [where bs = bs])
  case (refused c d ds stack w w')
  then show ?case using enter_closure [of w bs d stack] by auto
qed auto

lemma walk_hard: "wk_hard w \<noteq> HardVerified \<Longrightarrow> wk_hard (walk_dependencies bs c ds stack w) \<noteq> HardVerified"
  by (induction c ds stack w rule: walk_induct [where bs = bs]) simp_all

text \<open>What is finished (entered and no longer on the stack) is sound and closed under requirements.\<close>

definition closed_sound :: "CapabilityResolver \<Rightarrow> string set \<Rightarrow> bool" where
  "closed_sound bs F \<longleftrightarrow> (\<forall>x\<in>F. sound_node bs x \<and> (\<forall>y. requires bs x y \<longrightarrow> y \<in> F))"

lemma closed_reaches:
  assumes "(requires bs)\<^sup>*\<^sup>* x y" and "closed_sound bs F" and "x \<in> F"
  shows "y \<in> F"
  using assms(1,3) by (induction rule: rtranclp_induct) (use assms(2) in \<open>auto simp: closed_sound_def\<close>)

lemma closed_insert:
  assumes "closed_sound bs F" "d \<notin> F" "bt_get bs d = Some b" "executable b" "set (pcb_required_dependencies b) \<subseteq> F"
  shows "closed_sound bs (insert d F)"
proof -
  have "\<not> (requires bs)\<^sup>+\<^sup>+ d d"
  proof
    assume "(requires bs)\<^sup>+\<^sup>+ d d"
    then obtain y where "requires bs d y" "(requires bs)\<^sup>*\<^sup>* y d" by (meson tranclpD)
    then show False using assms closed_reaches [of bs y d F] by (auto simp: requires_def)
  qed
  then have "sound_node bs d" using assms(3,4) by (simp add: sound_node_def)
  then show ?thesis using assms by (auto simp: closed_sound_def requires_def)
qed

lemma walk_sound:
  "wk_hard (walk_dependencies bs c ds stack w) = HardVerified \<Longrightarrow> set stack \<subseteq> wk_closure w \<Longrightarrow>
     closed_sound bs (wk_closure w - set stack) \<Longrightarrow>
   closed_sound bs (wk_closure (walk_dependencies bs c ds stack w) - set stack)
     \<and> set ds \<subseteq> wk_closure (walk_dependencies bs c ds stack w) - set stack"
proof (induction c ds stack w rule: walk_induct [where bs = bs])
  case (seen c d ds stack w)
  then show ?case using walk_closure [of w bs c ds stack] by auto
next
  case (walked c d ds stack w b u)
  have hard: "wk_hard u = HardVerified" using walked(6,9) walk_hard by metis
  have "insert d (wk_closure w) - set (stack @ [d]) = wk_closure w - set stack" using walked(2) by auto
  then have inner: "closed_sound bs (wk_closure u - set (stack @ [d]))"
    "set (pcb_required_dependencies b) \<subseteq> wk_closure u - set (stack @ [d])"
    using walked(5,7,10,11) hard by auto
  have grows: "insert d (wk_closure w) \<subseteq> wk_closure u" unfolding walked(5) using walk_closure [of "entered b d w"] by simp
  have set_eq: "wk_closure u - set stack = insert d (wk_closure u - set (stack @ [d]))" using grows walked(1) by auto
  have "closed_sound bs (wk_closure u - set stack)"
    unfolding set_eq by (rule closed_insert [OF inner(1) _ walked(3,4) inner(2)]) simp
  then show ?case using walked(1,6,8,9,10) grows walk_closure [of u bs c ds stack] by auto
qed (use walk_hard in auto)

lemma walk_complete:
  "wk_hard w = HardVerified \<Longrightarrow> (\<And>d x. d \<in> set ds \<Longrightarrow> (requires bs)\<^sup>*\<^sup>* d x \<Longrightarrow> sound_node bs x \<and> x \<notin> set stack) \<Longrightarrow>
   wk_hard (walk_dependencies bs c ds stack w) = HardVerified"
proof (induction c ds stack w rule: walk_induct [where bs = bs])
  case (missing c d ds stack w w')
  then show ?case using missing(7) [of d d] by (auto simp: sound_node_def bt_contains_def)
next
  case (refused c d ds stack w w')
  then have "sound_node bs d" "d \<notin> set stack" using refused(6) [of d d] by auto
  then show ?case using refused(1,2,5) enter_seen [of d stack w bs] enter_executable [of d stack w bs]
    unfolding sound_node_def by (cases "d \<in> wk_closure w") auto
next
  case (walked c d ds stack w b u)
  have d: "sound_node bs d" using walked(10) [of d d] by simp
  have "sound_node bs x \<and> x \<notin> set (stack @ [d])"
    if "e \<in> set (pcb_required_dependencies b)" "(requires bs)\<^sup>*\<^sup>* e x" for e x
  proof -
    have r: "requires bs d e" using that(1) walked(3) by (auto simp: requires_def)
    then have "(requires bs)\<^sup>*\<^sup>* d x" using that(2) by (rule converse_rtranclp_into_rtranclp)
    moreover have "x \<noteq> d"
      using d rtranclp_into_tranclp2 [OF r that(2)] by (auto simp: sound_node_def)
    ultimately show ?thesis using walked(10) [of d x] by simp
  qed
  then have "wk_hard u = HardVerified" using walked(5,7,9) by simp
  moreover have "sound_node bs x \<and> x \<notin> set stack" if "e \<in> set ds" "(requires bs)\<^sup>*\<^sup>* e x" for e x
    using walked(10) [of e x] that by simp
  ultimately show ?case using walked(6,8) by simp
next
  case (seen c d ds stack w)
  have "sound_node bs x \<and> x \<notin> set stack" if "e \<in> set ds" "(requires bs)\<^sup>*\<^sup>* e x" for e x
    using seen(6) [of e x] that by simp
  then show ?case using seen(3,4,5) by simp
qed simp

lemma gate_keeps_closure: "gate_binding c b w = (w', x) \<Longrightarrow> wk_closure w' = wk_closure w"
  using gate_closure [of c b w] by simp

lemma enter_closure_upper: "wk_closure (fst (enter bs d stack w)) \<subseteq> insert d (wk_closure w)"
  by (auto simp: enter_def Let_def split: option.splits prod.splits bool.splits dest: gate_keeps_closure)

lemma walk_reaches:
  "wk_closure (walk_dependencies bs c ds stack w) \<subseteq> wk_closure w \<union> {x. \<exists>d\<in>set ds. (requires bs)\<^sup>*\<^sup>* d x}"
proof (induction c ds stack w rule: walk_induct [where bs = bs])
  case (refused c d ds stack w w')
  then show ?case using enter_closure_upper [of bs d stack w] by auto
next
  case (walked c d ds stack w b u)
  have "(requires bs)\<^sup>*\<^sup>* d x" if "e \<in> set (pcb_required_dependencies b)" "(requires bs)\<^sup>*\<^sup>* e x" for e x
    using that walked(3) by (meson converse_rtranclp_into_rtranclp requires_def)
  then have "wk_closure u \<subseteq> wk_closure w \<union> {x. (requires bs)\<^sup>*\<^sup>* d x}" using walked(5,7) by auto
  then show ?case using walked(6,8) by auto
qed auto

lemma walk_degraded:
  "wk_hard (walk_dependencies bs c ds stack w) = HardVerified \<Longrightarrow>
   wk_degraded (walk_dependencies bs c ds stack w) \<longleftrightarrow>
     wk_degraded w \<or> (\<exists>x \<in> wk_closure (walk_dependencies bs c ds stack w) - wk_closure w. degraded_node bs x)"
proof (induction c ds stack w rule: walk_induct [where bs = bs])
  case (walked c d ds stack w b u)
  have hard: "wk_hard u = HardVerified" using walked(6,9) walk_hard by metis
  have d: "degraded_node bs d \<longleftrightarrow> pcb_admission b = AdmissionDegraded" using walked(3) by (simp add: degraded_node_def)
  have inner: "wk_degraded u \<longleftrightarrow> wk_degraded w \<or> degraded_node bs d
      \<or> (\<exists>x \<in> wk_closure u - insert d (wk_closure w). degraded_node bs x)"
    using walked(5,7) hard d by simp
  have "insert d (wk_closure w) \<subseteq> wk_closure u" "wk_closure u \<subseteq> wk_closure (walk_dependencies bs c ds stack u)"
    unfolding walked(5) using walk_closure [of "entered b d w"] walk_closure by simp_all
  then show ?case using walked(2,6,8,9) inner by auto
qed (use walk_hard in auto)

section \<open>Admission\<close>

lemma fresh_fields [simp]:
  "wk_closure fresh_walk = {}" "wk_hard fresh_walk = HardVerified" "\<not> wk_degraded fresh_walk"
  by (simp_all add: fresh_walk_def)

lemma root_closed:
  assumes hard: "wk_hard (walk_dependencies bs c (pcb_required_dependencies b) [c] (entered b c fresh_walk)) = HardVerified"
    and b: "bt_get bs c = Some b" "executable b"
  shows "closed_sound bs (wk_closure (walk_dependencies bs c (pcb_required_dependencies b) [c] (entered b c fresh_walk)))"
    (is "closed_sound bs ?C")
proof -
  have "closed_sound bs {}" by (simp add: closed_sound_def)
  then have F: "closed_sound bs (?C - {c})" "set (pcb_required_dependencies b) \<subseteq> ?C - {c}"
    using walk_sound [OF hard] by simp_all
  have "closed_sound bs (insert c (?C - {c}))" by (rule closed_insert [OF F(1) _ b F(2)]) simp
  moreover have "c \<in> ?C"
    using walk_closure [of "entered b c fresh_walk" bs c "pcb_required_dependencies b" "[c]"] by simp
  ultimately show ?thesis by (simp only: insert_Diff)
qed

lemma required_verified: "wk_hard (walk_required bs c [] fresh_walk) = HardVerified \<longleftrightarrow> verified bs c"
proof (cases rule: enter_cases [of c "[]" fresh_walk bs])
  case (refused w')
  then have "\<not> (\<exists>b. bt_get bs c = Some b \<and> executable b)" using enter_executable [of c "[]" fresh_walk bs] by auto
  then have "\<not> verified bs c" unfolding verified_def sound_node_def by (meson rtranclp.rtrancl_refl)
  then show ?thesis using refused by (simp add: walk_required_def)
next
  case (walked b)
  let ?u = "walk_dependencies bs c (pcb_required_dependencies b) [c] (entered b c fresh_walk)"
  have u: "walk_required bs c [] fresh_walk = ?u" using walked(5) by (simp add: walk_required_def entered_def)
  show ?thesis unfolding u
  proof
    assume hard: "wk_hard ?u = HardVerified"
    have "c \<in> wk_closure ?u"
      using walk_closure [of "entered b c fresh_walk" bs c "pcb_required_dependencies b" "[c]"] by simp
    then show "verified bs c"
      using root_closed [OF hard walked(3,4)] closed_reaches [of bs c _ "wk_closure ?u"]
      unfolding verified_def closed_sound_def by metis
  next
    assume v: "verified bs c"
    show "wk_hard ?u = HardVerified"
    proof (rule walk_complete)
      fix d x assume d: "d \<in> set (pcb_required_dependencies b)" "(requires bs)\<^sup>*\<^sup>* d x"
      have "requires bs c d" using d(1) walked(3) by (auto simp: requires_def)
      then have x: "(requires bs)\<^sup>+\<^sup>+ c x" using d(2) by (rule rtranclp_into_tranclp2)
      then have "sound_node bs x" using v tranclp_into_rtranclp unfolding verified_def by metis
      moreover have "x \<noteq> c" using x \<open>sound_node bs x\<close> unfolding sound_node_def by metis
      ultimately show "sound_node bs x \<and> x \<notin> set [c]" by simp
    qed simp
  qed
qed simp

lemma required_closure:
  assumes "verified bs c"
  shows "wk_closure (walk_required bs c [] fresh_walk) = {x. (requires bs)\<^sup>*\<^sup>* c x}"
    and "wk_degraded (walk_required bs c [] fresh_walk) \<longleftrightarrow> (\<exists>x. (requires bs)\<^sup>*\<^sup>* c x \<and> degraded_node bs x)"
proof -
  obtain b where b: "bt_get bs c = Some b" "executable b"
    using assms unfolding verified_def sound_node_def by (meson rtranclp.rtrancl_refl)
  let ?u = "walk_dependencies bs c (pcb_required_dependencies b) [c] (entered b c fresh_walk)"
  have u: "walk_required bs c [] fresh_walk = ?u"
    using enter_executable [of c "[]" fresh_walk bs b] b by (simp add: walk_required_def entered_def)
  have hard: "wk_hard ?u = HardVerified" using required_verified [of bs c] assms u by simp
  have c: "c \<in> wk_closure ?u"
    using walk_closure [of "entered b c fresh_walk" bs c "pcb_required_dependencies b" "[c]"] by simp
  note closed = root_closed [OF hard b]
  have "x \<in> wk_closure ?u" if "(requires bs)\<^sup>*\<^sup>* c x" for x using closed_reaches [OF that closed c] .
  moreover have "(requires bs)\<^sup>*\<^sup>* c x" if "x \<in> wk_closure ?u" for x
  proof -
    have "x = c \<or> (\<exists>d\<in>set (pcb_required_dependencies b). (requires bs)\<^sup>*\<^sup>* d x)"
      using walk_reaches [of bs c "pcb_required_dependencies b" "[c]" "entered b c fresh_walk"] that by auto
    then show ?thesis using b(1) by (metis converse_rtranclp_into_rtranclp requires_def rtranclp.rtrancl_refl)
  qed
  ultimately have closure: "wk_closure ?u = {x. (requires bs)\<^sup>*\<^sup>* c x}" by blast
  then show "wk_closure (walk_required bs c [] fresh_walk) = {x. (requires bs)\<^sup>*\<^sup>* c x}" unfolding u .
  have "degraded_node bs c \<longleftrightarrow> pcb_admission b = AdmissionDegraded" using b(1) by (simp add: degraded_node_def)
  then have "wk_degraded ?u \<longleftrightarrow> (\<exists>x \<in> wk_closure ?u. degraded_node bs x)"
    using walk_degraded [OF hard] c by (auto simp del: mem_Collect_eq)
  then show "wk_degraded (walk_required bs c [] fresh_walk) \<longleftrightarrow> (\<exists>x. (requires bs)\<^sup>*\<^sup>* c x \<and> degraded_node bs x)"
    unfolding u closure by simp
qed

lemma required_fully:
  "wk_hard (walk_required bs c [] fresh_walk) = HardVerified \<and> \<not> wk_degraded (walk_required bs c [] fresh_walk)
     \<longleftrightarrow> fully_verified bs c"
  using required_verified required_closure(2) unfolding verified_def fully_verified_def by blast

lemma walk_optional_fields:
  "wk_hard (walk_optional bs os w) = wk_hard w" "wk_closure (walk_optional bs os w) = wk_closure w"
  "wk_degraded (walk_optional bs os w) \<longleftrightarrow>
     wk_degraded w \<or> (\<exists>o' \<in> set os. \<not> fully_verified bs (capability_as_str o'))"
  by (induction os arbitrary: w) (auto simp: Let_def simp flip: required_fully)

text \<open>
  C39. An effect is admitted exactly when everything it needs is verified. The walk over the required
  capabilities allows an effect if and only if every capability reachable over required dependencies
  is bound, verified with evidence and admitted, and none of them requires itself, directly or around
  a cycle; it is fully active if and only if moreover none of them is degraded and the same holds for
  every optional capability. The closure an admitted decision reports is exactly the set of the
  capabilities reachable.
\<close>

theorem admission_exact:
  "(allows_effect (admit bs capability optional) \<longleftrightarrow> verified bs (capability_as_str capability))
   \<and> (dec_admission (admit bs capability optional) = AdmissionActive \<longleftrightarrow>
        fully_verified bs (capability_as_str capability)
        \<and> (\<forall>o' \<in> set optional. fully_verified bs (capability_as_str o')))
   \<and> (allows_effect (admit bs capability optional) \<longrightarrow>
        set (dec_required_closure (admit bs capability optional)) = {x. (requires bs)\<^sup>*\<^sup>* (capability_as_str capability) x})"
proof -
  let ?w = "walk_required bs (capability_as_str capability) [] fresh_walk"
  have allows: "allows_effect (admit bs capability optional) \<longleftrightarrow> verified bs (capability_as_str capability)"
    using required_verified [of bs "capability_as_str capability"]
    by (auto simp: admit_def allows_effect_def Let_def walk_optional_fields split: HardAdmission.split)
  have active: "dec_admission (admit bs capability optional) = AdmissionActive \<longleftrightarrow>
      wk_hard ?w = HardVerified \<and> \<not> wk_degraded ?w
      \<and> (\<forall>o' \<in> set optional. fully_verified bs (capability_as_str o'))"
    by (auto simp: admit_def Let_def walk_optional_fields split: HardAdmission.split)
  have closure: "set (dec_required_closure (admit bs capability optional)) = {x. (requires bs)\<^sup>*\<^sup>* (capability_as_str capability) x}"
    if v: "verified bs (capability_as_str capability)"
  proof -
    have "x \<in> set (map fst bs)" if r: "(requires bs)\<^sup>*\<^sup>* (capability_as_str capability) x" for x
    proof -
      obtain b where "map_of bs x = Some b" using v r by (auto simp: verified_def sound_node_def bt_get_def)
      then show ?thesis by (metis map_of_SomeD fst_conv image_eqI list.set_map)
    qed
    then have "finite {x. (requires bs)\<^sup>*\<^sup>* (capability_as_str capability) x}"
      by (intro finite_subset [OF _ finite_set [of "map fst bs"]]) blast
    then show ?thesis using required_closure(1) [OF v]
      by (simp add: admit_def Let_def walk_optional_fields)
  qed
  show ?thesis using allows active closure required_fully by blast
qed

section \<open>A sample profile\<close>

definition sample_evidence :: "ProviderCapabilityEvidence list" where
  "sample_evidence =
     [\<lparr>evd_kind = DeterministicAcceptance, evd_evidence_ref = ''run-1'', evd_observed_at = None, evd_note = None\<rparr>,
      \<lparr>evd_kind = LiveCanary, evd_evidence_ref = ''canary-1'', evd_observed_at = None, evd_note = None\<rparr>]"

definition sample_binding :: "string \<Rightarrow> ProviderBindingAdmission \<Rightarrow> string list \<Rightarrow> ProviderCapabilityBinding" where
  "sample_binding name admission dependencies =
     \<lparr>pcb_capability = name, pcb_status = CapVerified, pcb_admission = admission, pcb_provider_version = None,
      pcb_adapter_revision = None, pcb_feature_fingerprint = None, pcb_required_dependencies = dependencies,
      pcb_evidence = sample_evidence\<rparr>"

definition sample_resolver :: CapabilityResolver where
  "sample_resolver = projr (CapabilityResolver_new
     [sample_binding ''start_cycle'' AdmissionActive [''open_or_resume'', ''observe''],
      sample_binding ''open_or_resume'' AdmissionActive [''observe''],
      sample_binding ''observe'' AdmissionDegraded []])"

theorem admission_exact_witness:
  "allows_effect (admit sample_resolver StartCycle [])
   \<and> set (dec_required_closure (admit sample_resolver StartCycle []))
       = {x. (requires sample_resolver)\<^sup>*\<^sup>* ''start_cycle'' x}
   \<and> \<not> fully_verified sample_resolver ''start_cycle''"
proof -
  have "allows_effect (admit sample_resolver StartCycle [])"
    "dec_admission (admit sample_resolver StartCycle []) \<noteq> AdmissionActive"
    by code_simp+
  then show ?thesis using admission_exact [of sample_resolver StartCycle "[]"] by simp
qed

end
