(* ===== verification/Runtime_Cycle.thy ===== *)
theory Runtime_Cycle
  imports Runtime_Capability Rust_Text
begin

text \<open>
  One execution cycle of a provider runtime, from its control to its receipt
  (\<^verbatim>\<open>crates/firm-runtime-contract/src/cycle.rs\<close>, \<^verbatim>\<open>cycle_ending.rs\<close>, \<^verbatim>\<open>receipt_and_terminal.rs\<close>,
  \<^verbatim>\<open>control.rs\<close>, \<^verbatim>\<open>timeouts.rs\<close>, and the lifecycles of \<^verbatim>\<open>conformance.rs\<close>): what a finished cycle reports,
  the closed table of its endings, the receipt derived from it, and the receipts that must be complete
  before a runtime is closed, released or given another composition.
\<close>

section \<open>Control\<close>

text \<open>A \<^verbatim>\<open>Duration\<close> in nanoseconds.\<close>

type_synonym duration = nat

definition from_secs :: "nat \<Rightarrow> duration" where
  "from_secs secs = secs * 1000000000"

record CycleTimeouts =
  cto_input_acceptance :: duration
  cto_control_settle :: duration

definition default_timeouts :: CycleTimeouts where
  "default_timeouts = \<lparr>cto_input_acceptance = from_secs 300, cto_control_settle = from_secs 15\<rparr>"

definition control_path :: "duration \<Rightarrow> CycleTimeouts" where
  "control_path control_settle = default_timeouts\<lparr>cto_control_settle := control_settle\<rparr>"

definition with_input_acceptance :: "duration \<Rightarrow> CycleTimeouts" where
  "with_input_acceptance input_acceptance = default_timeouts\<lparr>cto_input_acceptance := input_acceptance\<rparr>"

datatype ControlIntent = IntentStartCycle (int_input: string) | IntentInterrupt

fun command_kind :: "ControlIntent \<Rightarrow> RuntimeCommandKind" where
  "command_kind (IntentStartCycle _) = CommandStartCycle"
| "command_kind IntentInterrupt = InterruptCurrentCycle"

fun intent_capability :: "ControlIntent \<Rightarrow> SemanticCapability" where
  "intent_capability (IntentStartCycle _) = StartCycle"
| "intent_capability IntentInterrupt = Interrupt"

section \<open>What a cycle reports\<close>

datatype InterruptCause = HostControl | ProviderInitiated (int_reason: string)

definition provider_initiated :: "string \<Rightarrow> InterruptCause option" where
  "provider_initiated reason = (if blank reason then None else Some (ProviderInitiated reason))"

record CycleRuntimeObservation =
  obs_transport_alive :: bool
  obs_process_alive :: bool
  obs_is_streaming :: "bool option"
  obs_pending_message_count :: "u64 option"
  obs_follow_up_mode :: "string option"
  obs_settled_boundary_observed :: bool

definition terminal_cycle_observed :: "CycleRuntimeObservation \<Rightarrow> bool" where
  "terminal_cycle_observed self \<longleftrightarrow>
     obs_transport_alive self \<and> obs_process_alive self \<and> obs_is_streaming self = Some False
     \<and> obs_settled_boundary_observed self"

record ControlTransportReceipt =
  ctr_command :: string
  ctr_response_id :: "string option"
  ctr_success :: bool

datatype AcceptanceIdProvenance = ProviderMinted | HarnessSynthesized | ProvenanceInferred

fun provenance_wire :: "AcceptanceIdProvenance \<Rightarrow> string" where
  "provenance_wire ProviderMinted = ''provider_minted''"
| "provenance_wire HarnessSynthesized = ''harness_synthesized''"
| "provenance_wire ProvenanceInferred = ''inferred''"

record NativeCycleCorrelation =
  ncc_provider_input_id :: string
  ncc_input_acceptance_receipt :: ControlTransportReceipt
  ncc_terminal_provider_input_id :: "string option"
  ncc_exact_terminal_ref :: "string option"
  ncc_acceptance_id_provenance :: AcceptanceIdProvenance

record ProviderTerminalFailure =
  ptf_reason :: string
  ptf_http_status :: "i64 option"

definition STATUS_PREFIX :: string where
  "STATUS_PREFIX = ''provider_terminal''"

definition to_provider_status :: "ProviderTerminalFailure \<Rightarrow> string" where
  "to_provider_status self =
     STATUS_PREFIX @ '':'' @ trim (ptf_reason self) @ '':''
       @ (case ptf_http_status self of None \<Rightarrow> ''-'' | Some code \<Rightarrow> show_i64 code)"

text \<open>\<^verbatim>\<open>str::rsplit_once\<close>: the text before and after the last separator.\<close>

definition rsplit_once :: "char \<Rightarrow> string \<Rightarrow> (string \<times> string) option" where
  "rsplit_once sep s =
     (if sep \<in> set s
      then Some (rev (tl (dropWhile (\<lambda>c. c \<noteq> sep) (rev s))), rev (takeWhile (\<lambda>c. c \<noteq> sep) (rev s)))
      else None)"

definition parse_terminal_failure :: "string \<Rightarrow> ProviderTerminalFailure option" where
  "parse_terminal_failure provider_status =
     (case strip_prefix STATUS_PREFIX provider_status of
        None \<Rightarrow> None
      | Some rest \<Rightarrow>
          (case strip_prefix '':'' rest of
             None \<Rightarrow> None
           | Some rest \<Rightarrow>
               (case rsplit_once (CHR '':'') rest of
                  None \<Rightarrow> None
                | Some (reason, status) \<Rightarrow>
                    Some \<lparr>ptf_reason = reason, ptf_http_status = parse_i64 status\<rparr>)))"

record ExecutionCycleOutcome =
  out_final_text :: string
  out_provider_terminal_failure :: "ProviderTerminalFailure option"
  out_interrupt :: "InterruptCause option"
  out_close_requested_by_harness :: bool
  out_tool_call_count :: "32 word"
  out_native_correlation :: NativeCycleCorrelation
  out_control_receipts :: "ControlTransportReceipt list"
  out_terminal_observation :: CycleRuntimeObservation

section \<open>The receipt of a cycle\<close>

datatype CycleTerminalStatus = TerminalObserved | TerminalNotObserved

datatype CycleInterruptSettlement = InterruptNone | InterruptSettled InterruptCause | InterruptUnsettled

record CycleSettlement =
  stl_correlation :: NativeCycleCorrelation
  stl_terminal :: CycleTerminalStatus
  stl_provider_terminal_failure :: "ProviderTerminalFailure option"
  stl_interrupt :: CycleInterruptSettlement

definition from_cycle_outcome :: "ExecutionCycleOutcome \<Rightarrow> CycleSettlement" where
  "from_cycle_outcome outcome =
     \<lparr>stl_correlation = out_native_correlation outcome,
      stl_terminal = (if terminal_cycle_observed (out_terminal_observation outcome) then TerminalObserved
                      else TerminalNotObserved),
      stl_provider_terminal_failure = out_provider_terminal_failure outcome,
      stl_interrupt = (case out_interrupt outcome of None \<Rightarrow> InterruptNone | Some cause \<Rightarrow> InterruptSettled cause)\<rparr>"

record EffectReceipt =
  efr_effect_id :: string
  efr_certainty :: RuntimeEffectCertainty
  efr_postcondition :: RuntimePostconditionStatus
  efr_admission :: ProviderBindingAdmission
  efr_native_evidence :: "string list"

fun cycle_postcondition :: "bool \<Rightarrow> CycleTerminalStatus \<Rightarrow> CycleInterruptSettlement \<Rightarrow> RuntimePostconditionStatus" where
  "cycle_postcondition True _ _ = PostUnsatisfied"
| "cycle_postcondition False TerminalNotObserved _ = PostUnknown"
| "cycle_postcondition False TerminalObserved InterruptUnsettled = PostUnknown"
| "cycle_postcondition False TerminalObserved InterruptNone = PostSatisfied"
| "cycle_postcondition False TerminalObserved (InterruptSettled _) = PostSatisfied"

fun interrupt_evidence :: "CycleInterruptSettlement \<Rightarrow> string list" where
  "interrupt_evidence InterruptNone = []"
| "interrupt_evidence (InterruptSettled HostControl) = [''interrupt=host_control'']"
| "interrupt_evidence (InterruptSettled (ProviderInitiated reason)) = [''interrupt=provider_initiated:'' @ reason]"
| "interrupt_evidence InterruptUnsettled = [''interrupt=unsettled'']"

definition for_cycle :: "string \<Rightarrow> ProviderBindingAdmission \<Rightarrow> CycleSettlement \<Rightarrow> EffectReceipt" where
  "for_cycle effect_id admission settlement =
     \<lparr>efr_effect_id = effect_id,
      efr_certainty = (case stl_terminal settlement of
          TerminalObserved \<Rightarrow> CertaintyApplied | TerminalNotObserved \<Rightarrow> CertaintyUnknown),
      efr_postcondition = cycle_postcondition (stl_provider_terminal_failure settlement \<noteq> None)
          (stl_terminal settlement) (stl_interrupt settlement),
      efr_admission = admission,
      efr_native_evidence =
        [''provider_input_id='' @ ncc_provider_input_id (stl_correlation settlement)]
        @ (case ncc_exact_terminal_ref (stl_correlation settlement) of
             None \<Rightarrow> [] | Some terminal_ref \<Rightarrow> [''exact_terminal_ref='' @ terminal_ref])
        @ (case stl_provider_terminal_failure settlement of
             None \<Rightarrow> [] | Some failure \<Rightarrow> [''provider_terminal_failure='' @ to_provider_status failure])
        @ interrupt_evidence (stl_interrupt settlement)\<rparr>"

definition with_native_evidence :: "EffectReceipt \<Rightarrow> string list \<Rightarrow> EffectReceipt" where
  "with_native_evidence self extra = self\<lparr>efr_native_evidence := efr_native_evidence self @ extra\<rparr>"

definition for_control ::
    "string \<Rightarrow> RuntimeEffectCertainty \<Rightarrow> RuntimePostconditionStatus \<Rightarrow> ProviderBindingAdmission \<Rightarrow> string list
      \<Rightarrow> EffectReceipt" where
  "for_control effect_id certainty postcondition admission native_evidence =
     \<lparr>efr_effect_id = effect_id, efr_certainty = certainty, efr_postcondition = postcondition,
      efr_admission = admission, efr_native_evidence = native_evidence\<rparr>"

section \<open>The endings of a cycle\<close>

datatype CycleEndingSettlement =
  AppliedSatisfied | AppliedUnsatisfied | RejectedNotApplied | RecoveryRequiredUnknown

datatype ProviderFailureCode =
  QuotaExhausted | Unauthorized | OutputLimit | Refusal | TurnRequestLimit | RunnerError | TurnFailed

definition classify :: "ProviderTerminalFailure \<Rightarrow> ProviderFailureCode" where
  "classify failure =
     (if ptf_http_status failure = Some 429 then QuotaExhausted
      else if ptf_http_status failure = Some 401 \<or> ptf_http_status failure = Some 403 then Unauthorized
      else
        let reason = to_ascii_lowercase (trim (ptf_reason failure)) in
        if reason \<in> {''rate_limit'', ''rate_limit_reached'', ''usage_limit_reached'', ''usage_limit_exceeded'',
                      ''usagelimitexceeded'', ''quota_exceeded'', ''credits_depleted''} then QuotaExhausted
        else if reason \<in> {''auth_error'', ''authentication_error'', ''forbidden'', ''unauthorized''} then Unauthorized
        else if reason \<in> {''max_tokens'', ''length''} then OutputLimit
        else if reason = ''refusal'' then Refusal
        else if reason = ''max_turn_requests'' then TurnRequestLimit
        else if reason \<in> {''runner_error'', ''error''} then RunnerError
        else TurnFailed)"

fun failure_wire :: "ProviderFailureCode \<Rightarrow> string" where
  "failure_wire QuotaExhausted = ''quota_exhausted''"
| "failure_wire Unauthorized = ''unauthorized''"
| "failure_wire OutputLimit = ''output_limit''"
| "failure_wire Refusal = ''refusal''"
| "failure_wire TurnRequestLimit = ''turn_request_limit''"
| "failure_wire RunnerError = ''runner_error''"
| "failure_wire TurnFailed = ''turn_failed''"

datatype CycleRefusalCode = RuntimeClosed | OneDriverViolation | ContinuationArmed | ProviderRejectedStart

fun refusal_wire :: "CycleRefusalCode \<Rightarrow> string" where
  "refusal_wire RuntimeClosed = ''runtime_closed''"
| "refusal_wire OneDriverViolation = ''one_driver_violation''"
| "refusal_wire ContinuationArmed = ''continuation_armed''"
| "refusal_wire ProviderRejectedStart = ''provider_rejected_start''"

datatype TerminalUnobservedCode = ProtocolViolation | TerminalMismatch | PostconditionUnknown | UnexpectedClose

fun unobserved_wire :: "TerminalUnobservedCode \<Rightarrow> string" where
  "unobserved_wire ProtocolViolation = ''protocol_violation''"
| "unobserved_wire TerminalMismatch = ''terminal_mismatch''"
| "unobserved_wire PostconditionUnknown = ''postcondition_unknown''"
| "unobserved_wire UnexpectedClose = ''unexpected_close''"

datatype CycleEnding =
    Completed
  | EmptyOutput
  | InterruptedByHost
  | InterruptedByProvider (end_reason: string)
  | Closed
  | ProviderFailed (end_code: ProviderFailureCode) (end_detail: string) (end_http_status: "i64 option")
  | TransportLost string
  | AcceptanceTimeout
  | ControlSettleTimeout
  | NotStarted CycleRefusalCode
  | HostAborted string
  | TerminalUnobserved TerminalUnobservedCode string

definition from_outcome :: "ExecutionCycleOutcome \<Rightarrow> CycleEnding" where
  "from_outcome outcome =
     (case out_provider_terminal_failure outcome of
        Some failure \<Rightarrow> ProviderFailed (classify failure) (ptf_reason failure) (ptf_http_status failure)
      | None \<Rightarrow>
          if out_close_requested_by_harness outcome then Closed
          else
            (case out_interrupt outcome of
               Some HostControl \<Rightarrow> InterruptedByHost
             | Some (ProviderInitiated reason) \<Rightarrow> InterruptedByProvider reason
             | None \<Rightarrow>
                 if blank (out_final_text outcome) \<and> out_tool_call_count outcome = 0 then EmptyOutput
                 else Completed))"

fun ending_wire :: "CycleEnding \<Rightarrow> string" where
  "ending_wire Completed = ''completed''"
| "ending_wire EmptyOutput = ''empty_output''"
| "ending_wire InterruptedByHost = ''interrupted_by_host''"
| "ending_wire (InterruptedByProvider _) = ''interrupted_by_provider''"
| "ending_wire Closed = ''closed''"
| "ending_wire (ProviderFailed code _ _) = ''provider_failed:'' @ failure_wire code"
| "ending_wire (TransportLost _) = ''transport_lost''"
| "ending_wire AcceptanceTimeout = ''acceptance_timeout''"
| "ending_wire ControlSettleTimeout = ''control_settle_timeout''"
| "ending_wire (NotStarted code) = ''not_started:'' @ refusal_wire code"
| "ending_wire (HostAborted _) = ''host_aborted''"
| "ending_wire (TerminalUnobserved code _) = ''terminal_unobserved:'' @ unobserved_wire code"

fun action_type :: "CycleEnding \<Rightarrow> string" where
  "action_type Completed = ''turn_completed''"
| "action_type EmptyOutput = ''empty_provider_round''"
| "action_type InterruptedByHost = ''interrupted''"
| "action_type (InterruptedByProvider _) = ''interrupted''"
| "action_type Closed = ''closed''"
| "action_type (ProviderFailed _ _ _) = ''provider_error''"
| "action_type (TransportLost _) = ''transport_lost''"
| "action_type AcceptanceTimeout = ''input_never_accepted''"
| "action_type ControlSettleTimeout = ''control_settle_timeout''"
| "action_type (NotStarted _) = ''cycle_not_started''"
| "action_type (HostAborted _) = ''host_aborted''"
| "action_type (TerminalUnobserved _ _) = ''terminal_unobserved''"

fun settlement :: "CycleEnding \<Rightarrow> bool \<Rightarrow> CycleEndingSettlement" where
  "settlement Completed input_accepted = AppliedSatisfied"
| "settlement EmptyOutput input_accepted = AppliedSatisfied"
| "settlement InterruptedByHost input_accepted = AppliedSatisfied"
| "settlement (InterruptedByProvider _) input_accepted = AppliedSatisfied"
| "settlement Closed input_accepted = AppliedSatisfied"
| "settlement (ProviderFailed _ _ _) input_accepted = AppliedUnsatisfied"
| "settlement (NotStarted _) input_accepted = RejectedNotApplied"
| "settlement AcceptanceTimeout input_accepted = RejectedNotApplied"
| "settlement (TransportLost _) input_accepted =
     (if input_accepted then RecoveryRequiredUnknown else RejectedNotApplied)"
| "settlement ControlSettleTimeout input_accepted =
     (if input_accepted then RecoveryRequiredUnknown else RejectedNotApplied)"
| "settlement (TerminalUnobserved _ _) input_accepted =
     (if input_accepted then RecoveryRequiredUnknown else RejectedNotApplied)"
| "settlement (HostAborted _) input_accepted =
     (if input_accepted then RecoveryRequiredUnknown else RejectedNotApplied)"

definition is_failure :: "CycleEnding \<Rightarrow> bool" where
  "is_failure self \<longleftrightarrow> (case self of Completed \<Rightarrow> False | _ \<Rightarrow> True)"

definition is_zero_output :: "CycleEnding \<Rightarrow> bool" where
  "is_zero_output self \<longleftrightarrow> (case self of EmptyOutput \<Rightarrow> True | _ \<Rightarrow> False)"

definition provider_terminal_failure :: "CycleEnding \<Rightarrow> ProviderTerminalFailure option" where
  "provider_terminal_failure self =
     (case self of
        ProviderFailed code detail http_status \<Rightarrow> Some \<lparr>ptf_reason = detail, ptf_http_status = http_status\<rparr>
      | _ \<Rightarrow> None)"

definition provider_status :: "CycleEnding \<Rightarrow> string" where
  "provider_status self =
     (case provider_terminal_failure self of
        Some failure \<Rightarrow> to_provider_status failure
      | None \<Rightarrow> ''cycle_ending:'' @ ending_wire self)"

fun title_text :: "CycleEnding \<Rightarrow> string" where
  "title_text Completed = ''completed''"
| "title_text EmptyOutput = ''completed without output''"
| "title_text InterruptedByHost = ''was interrupted by the Host''"
| "title_text (InterruptedByProvider _) = ''was interrupted by the provider''"
| "title_text Closed = ''ended under a Host Close''"
| "title_text (ProviderFailed _ _ _) = ''failed''"
| "title_text (TransportLost _) = ''lost its provider transport''"
| "title_text AcceptanceTimeout = ''was never accepted by the provider''"
| "title_text ControlSettleTimeout = ''left a control unsettled''"
| "title_text (NotStarted _) = ''never started''"
| "title_text (HostAborted _) = ''was ended by the Harness''"
| "title_text (TerminalUnobserved _ _) = ''ended without an observable terminal''"

definition action_title :: "CycleEnding \<Rightarrow> string \<Rightarrow> 32 word \<Rightarrow> string" where
  "action_title self display_name round =
     display_name @ '' provider round '' @ show_word round @ '' '' @ title_text self"

fun advice_text :: "CycleEnding \<Rightarrow> string" where
  "advice_text Completed = ''transcript remains provider-native''"
| "advice_text EmptyOutput = ''transcript remains provider-native''"
| "advice_text InterruptedByHost = ''the Host's control settled at the provider's exact terminal boundary''"
| "advice_text (InterruptedByProvider reason) = ''the provider attributed it to '' @ reason"
| "advice_text Closed = ''the member runtime is being disposed''"
| "advice_text (ProviderFailed code detail _) =
     ''the provider reported '' @ failure_wire code @ '' ('' @ detail @ ''); inspect the provider-native session''"
| "advice_text (TransportLost _) = ''the provider process or its transport died; no terminal was observed''"
| "advice_text AcceptanceTimeout = ''the input never crossed the provider boundary, so re-issuing it is safe''"
| "advice_text ControlSettleTimeout = ''the control was delivered but never acknowledged; the outcome is unproven''"
| "advice_text (NotStarted code) =
     ''the cycle was refused before the input crossed the provider boundary ('' @ refusal_wire code
       @ ''), so no provider session was touched and re-issuing it is safe''"
| "advice_text (HostAborted _) = ''the Harness ended this cycle itself; this is not a provider failure''"
| "advice_text (TerminalUnobserved code _) =
     ''a terminal was reported but could not be trusted ('' @ unobserved_wire code @ ''); the outcome is unproven''"

definition action_summary :: "CycleEnding \<Rightarrow> string \<Rightarrow> 32 word \<Rightarrow> string" where
  "action_summary self display_name round = action_title self display_name round @ ''; '' @ advice_text self"

end
