(* ===== verification/Runtime_Quiesce.thy ===== *)
theory Runtime_Quiesce
  imports Runtime_Capability
begin

text \<open>
  Shutting a runtime down (\<^verbatim>\<open>crates/firm-runtime-contract/src/receipt_and_terminal.rs\<close> and
  \<^verbatim>\<open>conformance.rs\<close>): the receipts of quiescing, closing and releasing it, the builder that records the
  quiesce steps in their order, and the lifecycles that accept a new composition only after a verified
  quiesce and dispose of the handle only once.
\<close>

section \<open>Receipts\<close>

fun show_postcondition :: "RuntimePostconditionStatus \<Rightarrow> string" where
  "show_postcondition PostSatisfied = ''Satisfied''"
| "show_postcondition PostUnsatisfied = ''Unsatisfied''"
| "show_postcondition PostUnknown = ''Unknown''"

text \<open>The macro \<^verbatim>\<open>satisfied!\<close>: the field with its value, unless it is satisfied.\<close>

definition unsatisfied_field :: "string \<Rightarrow> RuntimePostconditionStatus \<Rightarrow> string list" where
  "unsatisfied_field name status = field_if (status \<noteq> PostSatisfied) (name @ ''='' @ show_postcondition status)"

record QuiesceReceipt =
  qrc_admission_fenced :: RuntimePostconditionStatus
  qrc_continuation_inhibited :: RuntimePostconditionStatus
  qrc_active_cycle_terminal :: RuntimePostconditionStatus
  qrc_native_queue_empty :: RuntimePostconditionStatus
  qrc_writable_children_drained :: RuntimePostconditionStatus
  qrc_idle_observed :: RuntimePostconditionStatus
  qrc_flush_confirmed :: RuntimePostconditionStatus
  qrc_evidence :: "string list"

definition quiesce_verify :: "QuiesceReceipt \<Rightarrow> RuntimeContractError + unit" where
  "quiesce_verify self =
     (let fields =
            unsatisfied_field ''admission_fenced'' (qrc_admission_fenced self)
            @ unsatisfied_field ''continuation_inhibited'' (qrc_continuation_inhibited self)
            @ unsatisfied_field ''active_cycle_terminal'' (qrc_active_cycle_terminal self)
            @ unsatisfied_field ''native_queue_empty'' (qrc_native_queue_empty self)
            @ unsatisfied_field ''writable_children_drained'' (qrc_writable_children_drained self)
            @ unsatisfied_field ''idle_observed'' (qrc_idle_observed self)
            @ unsatisfied_field ''flush_confirmed'' (qrc_flush_confirmed self) in
      if fields = [] then Inr () else Inl (QuiesceIncomplete fields))"

record ReleaseReceipt =
  rel_native_runtime_released :: RuntimePostconditionStatus
  rel_live_handle_disposed :: RuntimePostconditionStatus
  rel_authority_detached :: RuntimePostconditionStatus
  rel_flush_confirmed :: RuntimePostconditionStatus
  rel_evidence :: "string list"

definition release_verify :: "ReleaseReceipt \<Rightarrow> RuntimeContractError + unit" where
  "release_verify self =
     (if rel_native_runtime_released self = PostSatisfied
         \<and> rel_live_handle_disposed self = PostSatisfied
         \<and> rel_authority_detached self = PostSatisfied
         \<and> rel_flush_confirmed self = PostSatisfied
      then Inr () else Inl ReleaseIncomplete)"

record MemberRuntimeCloseReceipt =
  mcr_control_acknowledged :: RuntimePostconditionStatus
  mcr_current_cycle_terminal :: RuntimePostconditionStatus
  mcr_managed_runtime_released :: RuntimePostconditionStatus
  mcr_live_handle_disposed :: RuntimePostconditionStatus
  mcr_native_session_retained :: RuntimePostconditionStatus
  mcr_evidence :: "string list"

definition close_verify :: "MemberRuntimeCloseReceipt \<Rightarrow> RuntimeContractError + unit" where
  "close_verify self =
     (let fields =
            unsatisfied_field ''control_acknowledged'' (mcr_control_acknowledged self)
            @ unsatisfied_field ''current_cycle_terminal'' (mcr_current_cycle_terminal self)
            @ unsatisfied_field ''managed_runtime_released'' (mcr_managed_runtime_released self)
            @ unsatisfied_field ''live_handle_disposed'' (mcr_live_handle_disposed self)
            @ unsatisfied_field ''native_session_retained'' (mcr_native_session_retained self) in
      if fields = [] then Inr () else Inl (MemberCloseIncomplete fields))"

section \<open>Recording a quiesce\<close>

definition ORDER :: "QuiesceStep list" where
  "ORDER = [FenceAdmission, InhibitContinuation, SettleActiveCycle, DrainNativeQueue, DrainWritableChildren,
     ObserveIdle, ConfirmFlush]"

record QuiesceReceiptBuilder =
  qrb_next :: nat
  qrb_conditions :: "RuntimePostconditionStatus list"
  qrb_evidence :: "string list"

definition builder_new :: QuiesceReceiptBuilder where
  "builder_new = \<lparr>qrb_next = 0, qrb_conditions = replicate 7 PostUnknown, qrb_evidence = []\<rparr>"

definition builder_record ::
    "QuiesceStep \<Rightarrow> RuntimePostconditionStatus \<Rightarrow> string \<Rightarrow> (QuiesceReceiptBuilder, RuntimeContractError, unit) action" where
  "builder_record step condition evidence self =
     (let expected = (if qrb_next self < length ORDER then Some (ORDER ! qrb_next self) else None) in
      if expected \<noteq> Some step then (Inl (QuiesceOrder expected step), self)
      else (Inr (), self\<lparr>qrb_conditions := (qrb_conditions self)[qrb_next self := condition],
                         qrb_evidence := qrb_evidence self @ [evidence],
                         qrb_next := qrb_next self + 1\<rparr>))"

definition builder_finish :: "QuiesceReceiptBuilder \<Rightarrow> QuiesceReceipt" where
  "builder_finish self =
     \<lparr>qrc_admission_fenced = qrb_conditions self ! 0,
      qrc_continuation_inhibited = qrb_conditions self ! 1,
      qrc_active_cycle_terminal = qrb_conditions self ! 2,
      qrc_native_queue_empty = qrb_conditions self ! 3,
      qrc_writable_children_drained = qrb_conditions self ! 4,
      qrc_idle_observed = qrb_conditions self ! 5,
      qrc_flush_confirmed = qrb_conditions self ! 6,
      qrc_evidence = qrb_evidence self\<rparr>"

section \<open>Changing the composition\<close>

record CompositionLifecycle =
  cpl_composition_fingerprint :: string
  cpl_capability_fingerprint :: string
  cpl_verified_quiesce :: bool

definition lifecycle_new :: "string \<Rightarrow> string \<Rightarrow> CompositionLifecycle" where
  "lifecycle_new composition capability =
     \<lparr>cpl_composition_fingerprint = composition, cpl_capability_fingerprint = capability,
      cpl_verified_quiesce = False\<rparr>"

definition mark_effect_started :: "CompositionLifecycle \<Rightarrow> CompositionLifecycle" where
  "mark_effect_started self = self\<lparr>cpl_verified_quiesce := False\<rparr>"

definition record_quiesce :: "QuiesceReceipt \<Rightarrow> (CompositionLifecycle, RuntimeContractError, unit) action" where
  "record_quiesce receipt =
     check (quiesce_verify receipt) (\<lambda>_ self. (Inr (), self\<lparr>cpl_verified_quiesce := True\<rparr>))"

definition require_quiesced :: "CompositionLifecycle \<Rightarrow> RuntimeContractError + unit" where
  "require_quiesced self = (if cpl_verified_quiesce self then Inr () else Inl CompositionSwapRequiresQuiesce)"

definition composition_swap :: "string \<Rightarrow> string \<Rightarrow> (CompositionLifecycle, RuntimeContractError, unit) action" where
  "composition_swap composition capability self =
     check (require_quiesced self) (\<lambda>_ self.
       (Inr (), \<lparr>cpl_composition_fingerprint = composition, cpl_capability_fingerprint = capability,
                 cpl_verified_quiesce = False\<rparr>)) self"

section \<open>Disposing of a handle\<close>

text \<open>
  The closure that disposes of a handle acts outside the program; the model counts how often it was
  called.
\<close>

record OneShotDisposer =
  osd_disposer :: bool
  osd_explicit_release_succeeded :: bool
  osd_calls :: nat

definition disposer_new :: OneShotDisposer where
  "disposer_new = \<lparr>osd_disposer = True, osd_explicit_release_succeeded = False, osd_calls = 0\<rparr>"

definition finish_release :: "ReleaseReceipt \<Rightarrow> (OneShotDisposer, RuntimeContractError, unit) action" where
  "finish_release receipt =
     check (release_verify receipt) (\<lambda>_ self.
       if \<not> osd_disposer self then (Inl AlreadyReleased, self)
       else (Inr (), self\<lparr>osd_disposer := False, osd_calls := osd_calls self + 1,
                          osd_explicit_release_succeeded := True\<rparr>))"

definition disposer_drop :: "OneShotDisposer \<Rightarrow> OneShotDisposer" where
  "disposer_drop self =
     (if osd_disposer self then self\<lparr>osd_disposer := False, osd_calls := osd_calls self + 1\<rparr> else self)"

end
