(* ===== verification/Runtime_Properties.thy ===== *)
theory Runtime_Properties
  imports Runtime_Cycle Runtime_Quiesce
begin

text \<open>
  What the runtime contract guarantees of a cycle and of the end of a runtime: the receipt and the
  ending of a cycle agree, the status column can be read back, a quiesce is verified only in order and
  a composition replaced only after it, a fence is exact and a handle is disposed of once.
\<close>

section \<open>The receipt and the ending of a cycle\<close>

text \<open>How each class of the table of endings settles, on the two axes of a receipt.\<close>

fun settled_as :: "CycleEndingSettlement \<Rightarrow> RuntimeEffectCertainty \<times> RuntimePostconditionStatus" where
  "settled_as AppliedSatisfied = (CertaintyApplied, PostSatisfied)"
| "settled_as AppliedUnsatisfied = (CertaintyApplied, PostUnsatisfied)"
| "settled_as RejectedNotApplied = (CertaintyNotApplied, PostUnsatisfied)"
| "settled_as RecoveryRequiredUnknown = (CertaintyUnknown, PostUnknown)"

text \<open>
  The two derivations of how a finished cycle settled agree exactly on trusted terminals. For
  every outcome, the receipt derived from its settlement and the class of its ending in the closed
  table say the same of effect and postcondition if and only if the terminal boundary was observed;
  and the receipt claims a satisfied postcondition exactly when the boundary was observed and the
  provider reported no failure.
\<close>

theorem cycle_settlements_agree:
  "((efr_certainty (for_cycle i admission (from_cycle_outcome outcome)),
     efr_postcondition (for_cycle i admission (from_cycle_outcome outcome)))
      = settled_as (settlement (from_outcome outcome) accepted)
    \<longleftrightarrow> terminal_cycle_observed (out_terminal_observation outcome))
   \<and> (efr_postcondition (for_cycle i admission (from_cycle_outcome outcome)) = PostSatisfied
      \<longleftrightarrow> terminal_cycle_observed (out_terminal_observation outcome) \<and> out_provider_terminal_failure outcome = None)"
  by (auto simp: for_cycle_def from_cycle_outcome_def from_outcome_def split: option.split InterruptCause.split)

lemma rsplit_once_last: "sep \<notin> set b \<Longrightarrow> rsplit_once sep (a @ sep # b) = Some (a, b)"
  by (simp add: rsplit_once_def dropWhile_append takeWhile_append)

lemma status_suffix:
  defines "status h \<equiv> (case h of None \<Rightarrow> ''-'' | Some code \<Rightarrow> show_i64 code)"
  shows "CHR '':'' \<notin> set (status h)" and "parse_i64 (status h) = h"
  by (cases h; simp add: status_def show_i64_no_colon parse_show_i64; simp add: parse_i64_def parse_nat_def)+

lemma parse_to_provider_status:
  "parse_terminal_failure (to_provider_status f) = Some (f\<lparr>ptf_reason := trim (ptf_reason f)\<rparr>)"
proof -
  let ?status = "case ptf_http_status f of None \<Rightarrow> ''-'' | Some code \<Rightarrow> show_i64 code"
  have "rsplit_once (CHR '':'') (trim (ptf_reason f) @ CHR '':'' # ?status) = Some (trim (ptf_reason f), ?status)"
    by (rule rsplit_once_last) (rule status_suffix(1))
  moreover have "strip_prefix STATUS_PREFIX (to_provider_status f) = Some ('':'' @ trim (ptf_reason f) @ '':'' @ ?status)"
    unfolding strip_prefix_Some to_provider_status_def ..
  moreover have "strip_prefix '':'' ('':'' @ trim (ptf_reason f) @ '':'' @ ?status)
      = Some (trim (ptf_reason f) @ '':'' @ ?status)"
    unfolding strip_prefix_Some ..
  ultimately show ?thesis
    by (cases f) (simp add: parse_terminal_failure_def status_suffix(2))
qed

lemma classify_trimmed: "classify (f\<lparr>ptf_reason := trim (ptf_reason f)\<rparr>) = classify f"
  by (simp add: classify_def)

text \<open>
  The status column of a cycle can be read back. For every ending, parsing its provider status
  gives the provider's terminal failure with the reason trimmed, and nothing for an ending that is not
  a provider failure; so the failure code of a finished cycle can be recovered from the column.
\<close>

theorem provider_status_roundtrip:
  "parse_terminal_failure (provider_status ending)
     = map_option (\<lambda>f. f\<lparr>ptf_reason := trim (ptf_reason f)\<rparr>) (provider_terminal_failure ending)
   \<and> map_option classify (parse_terminal_failure (provider_status (from_outcome outcome)))
     = map_option classify (out_provider_terminal_failure outcome)"
proof -
  have other: "parse_terminal_failure (''cycle_ending:'' @ t) = None" for t
    by (simp add: parse_terminal_failure_def STATUS_PREFIX_def)
  have read: "parse_terminal_failure (provider_status e)
      = map_option (\<lambda>f. f\<lparr>ptf_reason := trim (ptf_reason f)\<rparr>) (provider_terminal_failure e)" for e
    by (cases "provider_terminal_failure e")
      (simp_all only: provider_status_def option.case option.map other parse_to_provider_status)
  moreover have "provider_terminal_failure (from_outcome outcome) = out_provider_terminal_failure outcome"
    by (auto simp: from_outcome_def provider_terminal_failure_def split: option.split InterruptCause.split)
  ultimately show ?thesis by (simp add: option.map_comp comp_def classify_trimmed)
qed

section \<open>Quiescing\<close>

text \<open>A sequence of calls to the builder, and those of them that were accepted.\<close>

fun builder_run ::
    "(QuiesceStep \<times> RuntimePostconditionStatus \<times> string) list \<Rightarrow> QuiesceReceiptBuilder \<Rightarrow> QuiesceReceiptBuilder" where
  "builder_run [] b = b"
| "builder_run ((step, condition, evidence) # calls) b = builder_run calls (snd (builder_record step condition evidence b))"

fun recorded ::
    "(QuiesceStep \<times> RuntimePostconditionStatus \<times> string) list \<Rightarrow> QuiesceReceiptBuilder
      \<Rightarrow> (QuiesceStep \<times> RuntimePostconditionStatus) list" where
  "recorded [] b = []"
| "recorded ((step, condition, evidence) # calls) b =
     (case builder_record step condition evidence b of
        (Inl _, b') \<Rightarrow> recorded calls b'
      | (Inr _, b') \<Rightarrow> (step, condition) # recorded calls b')"

lemma ORDER_length [simp]: "length ORDER = 7"
  by (simp add: ORDER_def)

lemma builder_record_Inr:
  "builder_record step condition evidence b = (Inr u, b') \<longleftrightarrow>
     qrb_next b < 7 \<and> ORDER ! qrb_next b = step
     \<and> b' = b\<lparr>qrb_conditions := (qrb_conditions b)[qrb_next b := condition], qrb_evidence := qrb_evidence b @ [evidence],
              qrb_next := qrb_next b + 1\<rparr>"
  by (auto simp: builder_record_def Let_def)

lemma builder_record_Inl: "builder_record step condition evidence b = (Inl e, b') \<Longrightarrow> b' = b"
  by (auto simp: builder_record_def Let_def split: if_splits)

lemma builder_run_recorded:
  "length (qrb_conditions b) = 7 \<Longrightarrow> qrb_next b \<le> 7 \<Longrightarrow>
   qrb_conditions (builder_run calls b)
     = take (qrb_next b) (qrb_conditions b) @ map snd (recorded calls b)
       @ drop (qrb_next b + length (recorded calls b)) (qrb_conditions b)
   \<and> qrb_next b + length (recorded calls b) \<le> 7
   \<and> map fst (recorded calls b) = take (length (recorded calls b)) (drop (qrb_next b) ORDER)"
proof (induction calls b rule: builder_run.induct)
  case (2 step condition evidence calls b)
  show ?case
  proof (cases "builder_record step condition evidence b")
    case (Pair r b')
    show ?thesis
    proof (cases r)
      case (Inl e)
      then show ?thesis using 2 Pair builder_record_Inl by fastforce
    next
      case (Inr u)
      then have b': "qrb_next b < 7" "ORDER ! qrb_next b = step" "qrb_next b' = qrb_next b + 1"
        "qrb_conditions b' = (qrb_conditions b)[qrb_next b := condition]"
        using Pair by (auto simp: builder_record_Inr)
      have "take (qrb_next b + 1) (qrb_conditions b') = take (qrb_next b) (qrb_conditions b) @ [condition]"
        using b' 2(2) by (simp add: take_Suc_conv_app_nth)
      moreover have "drop (qrb_next b) ORDER = step # drop (qrb_next b + 1) ORDER"
        using b'(1,2) by (metis Cons_nth_drop_Suc ORDER_length Suc_eq_plus1)
      moreover have "drop (qrb_next b + 1 + length (recorded calls b')) (qrb_conditions b')
          = drop (qrb_next b + 1 + length (recorded calls b')) (qrb_conditions b)"
        using b'(4) by simp
      ultimately show ?thesis using 2(1) 2(2) b' Pair Inr by simp
    qed
  qed
qed simp

lemma quiesce_verify_finish:
  "quiesce_verify (builder_finish b) = Inr () \<longleftrightarrow> (\<forall>i \<in> {0, 1, 2, 3, 4, 5, 6}. qrb_conditions b ! i = PostSatisfied)"
  by (auto simp: quiesce_verify_def builder_finish_def unsatisfied_field_def field_if_def Let_def)

lemma below_seven: "i \<in> {0, 1, 2, 3, 4, 5, 6} \<longleftrightarrow> i < (7 :: nat)"
  by auto

text \<open>
  A quiesce receipt is verified exactly when all its steps were recorded in order. Whatever calls
  were made to a new builder, accepted or refused, the receipt it finishes with passes verification if
  and only if the accepted calls are the seven steps in their safe order, each one satisfied.
\<close>

theorem quiesce_verified_in_order:
  "quiesce_verify (builder_finish (builder_run calls builder_new)) = Inr ()
     \<longleftrightarrow> recorded calls builder_new = map (\<lambda>step. (step, PostSatisfied)) ORDER"
proof -
  let ?r = "recorded calls builder_new" and ?c = "qrb_conditions (builder_run calls builder_new)"
  have c: "?c = map snd ?r @ replicate (7 - length ?r) PostUnknown" "length ?r \<le> 7" "map fst ?r = take (length ?r) ORDER"
    using builder_run_recorded [of builder_new calls] by (simp_all add: builder_new_def)
  have "quiesce_verify (builder_finish (builder_run calls builder_new)) = Inr () \<longleftrightarrow> (\<forall>i<7. ?c ! i = PostSatisfied)"
    unfolding quiesce_verify_finish by (simp only: below_seven Ball_def)
  also have "\<dots> \<longleftrightarrow> length ?r = 7 \<and> (\<forall>x \<in> set ?r. snd x = PostSatisfied)"
  proof (cases "length ?r = 7")
    case True
    then have "(\<forall>i<7. ?c ! i = PostSatisfied) \<longleftrightarrow> (\<forall>i<length ?r. snd (?r ! i) = PostSatisfied)" using c(1) by simp
    then show ?thesis using True by (simp add: all_set_conv_all_nth)
  next
    case False
    then have "?c ! length ?r = PostUnknown" "length ?r < 7" using c(1,2) by (simp_all add: nth_append)
    then show ?thesis using False by (metis RuntimePostconditionStatus.distinct(3))
  qed
  also have "\<dots> \<longleftrightarrow> ?r = map (\<lambda>step. (step, PostSatisfied)) ORDER"
  proof
    assume all: "length ?r = 7 \<and> (\<forall>x \<in> set ?r. snd x = PostSatisfied)"
    then have "?r = map (\<lambda>step. (step, PostSatisfied)) (map fst ?r)" by (auto intro!: nth_equalityI simp: prod_eq_iff)
    then show "?r = map (\<lambda>step. (step, PostSatisfied)) ORDER" using c(3) all by simp
  next
    assume r: "?r = map (\<lambda>step. (step, PostSatisfied)) ORDER"
    show "length ?r = 7 \<and> (\<forall>x \<in> set ?r. snd x = PostSatisfied)" unfolding r by auto
  qed
  finally show ?thesis .
qed

datatype lifecycle_event = EffectStarted | QuiesceOffered QuiesceReceipt | SwapRequested string string

fun lifecycle_step :: "lifecycle_event \<Rightarrow> CompositionLifecycle \<Rightarrow> CompositionLifecycle" where
  "lifecycle_step EffectStarted l = mark_effect_started l"
| "lifecycle_step (QuiesceOffered receipt) l = snd (record_quiesce receipt l)"
| "lifecycle_step (SwapRequested composition capability) l = snd (composition_swap composition capability l)"

lemma record_quiesce_flag:
  "cpl_verified_quiesce (snd (record_quiesce receipt l)) \<longleftrightarrow>
     cpl_verified_quiesce l \<or> quiesce_verify receipt = Inr ()"
  by (cases "quiesce_verify receipt") (auto simp: record_quiesce_def)

lemma swap_flag: "\<not> cpl_verified_quiesce (snd (composition_swap composition capability l))"
  by (auto simp: composition_swap_def require_quiesced_def)

lemma swap_succeeds: "(\<exists>l'. composition_swap composition capability l = (Inr (), l')) \<longleftrightarrow> cpl_verified_quiesce l"
  by (auto simp: composition_swap_def require_quiesced_def)

text \<open>
  C40. A composition is replaced exactly after a verified quiesce. After any history of effects,
  offered receipts and swap requests, a swap succeeds if and only if a receipt that verifies was
  offered and neither an effect was started nor a swap requested since.
\<close>

theorem swap_exactly_after_quiesce:
  "(\<exists>l. composition_swap composition capability (fold lifecycle_step events (lifecycle_new c k)) = (Inr (), l))
   \<longleftrightarrow> (\<exists>before receipt after. events = before @ QuiesceOffered receipt # after \<and> quiesce_verify receipt = Inr ()
        \<and> (\<forall>e \<in> set after. \<exists>r. e = QuiesceOffered r))"
  unfolding swap_succeeds
proof (induction events rule: rev_induct)
  case Nil
  then show ?case by (simp add: lifecycle_new_def)
next
  case (snoc e events)
  let ?l = "fold lifecycle_step events (lifecycle_new c k)"
  have split: "(\<exists>before receipt after. events @ [e] = before @ QuiesceOffered receipt # after
        \<and> quiesce_verify receipt = Inr () \<and> (\<forall>e \<in> set after. \<exists>r. e = QuiesceOffered r))
      \<longleftrightarrow> (\<exists>r. e = QuiesceOffered r) \<and> (quiesce_verify (case e of QuiesceOffered r \<Rightarrow> r) = Inr ()
        \<or> (\<exists>before receipt after. events = before @ QuiesceOffered receipt # after
            \<and> quiesce_verify receipt = Inr () \<and> (\<forall>e \<in> set after. \<exists>r. e = QuiesceOffered r)))" (is "?L = ?R")
  proof
    assume ?L
    then obtain before receipt after where a: "events @ [e] = before @ QuiesceOffered receipt # after"
      "quiesce_verify receipt = Inr ()" "\<forall>e \<in> set after. \<exists>r. e = QuiesceOffered r" by blast
    show ?R
    proof (cases after rule: rev_cases)
      case Nil
      then show ?thesis using a by simp
    next
      case (snoc init x)
      then have "events = before @ QuiesceOffered receipt # init" "e = x" using a(1) by simp_all
      then show ?thesis using a(2,3) snoc by (metis Un_iff list.set_intros(1) set_append)
    qed
  next
    assume r: ?R
    then obtain q where q: "e = QuiesceOffered q" by blast
    show ?L
    proof (cases "quiesce_verify q = Inr ()")
      case True
      then show ?thesis using q by (intro exI [of _ events] exI [of _ q] exI [of _ "[]"]) simp
    next
      case False
      then obtain before receipt after where "events = before @ QuiesceOffered receipt # after"
        "quiesce_verify receipt = Inr ()" "\<forall>e \<in> set after. \<exists>r. e = QuiesceOffered r" using r q by auto
      then show ?thesis using q by (intro exI [of _ before] exI [of _ receipt] exI [of _ "after @ [e]"]) auto
    qed
  qed
  show ?case unfolding split snoc.IH [symmetric]
    by (cases e) (auto simp: mark_effect_started_def record_quiesce_flag swap_flag)
qed

section \<open>The fence\<close>

text \<open>What of a session a fence binds a command to.\<close>

definition runtime_identity ::
    "AgentSession \<Rightarrow> (string \<times> u64 \<times> u64 \<times> RuntimeDriverRef) \<times> (string \<times> u64) \<times> (string option \<times> string option)
      \<times> string \<times> NativeSessionRef option" where
  "runtime_identity s =
     ((ses_id s, ses_runtime_generation s, ctl_driver_generation (ses_control_state s), ctl_driver_ref (ses_control_state s)),
      (ses_node_daemon_id s, ses_node_daemon_generation s),
      (ctl_composition_fingerprint (ses_control_state s), ctl_capability_fingerprint (ses_control_state s)),
      ses_permission_envelope_ref s, ses_native_session_ref s)"

lemma exact_fields_empty:
  "exact_mismatch_fields b d g s = [] \<longleftrightarrow>
     cbd_target_session_id b = Some (ses_id s) \<and> cbd_target_runtime_generation b = Some (ses_runtime_generation s)
     \<and> cbd_target_driver_generation b = Some (ctl_driver_generation (ses_control_state s))
     \<and> cbd_target_driver b = ctl_driver_ref (ses_control_state s)
     \<and> d = ses_node_daemon_id s \<and> g = ses_node_daemon_generation s
     \<and> cbd_composition_fingerprint b = ctl_composition_fingerprint (ses_control_state s)
     \<and> cbd_capability_fingerprint b = ctl_capability_fingerprint (ses_control_state s)
     \<and> cbd_permission_envelope_ref b = Some (ses_permission_envelope_ref s)
     \<and> cbd_native_session_ref b = ses_native_session_ref s"
  by (simp add: exact_mismatch_fields_def field_if_def Let_def)

lemma validate_exact_Inr:
  "validate_exact f s = Inr () \<longleftrightarrow>
     exact_mismatch_fields (fnc_binding f) (fnc_target_node_daemon_id f) (fnc_target_node_daemon_generation f) s = []"
  by (simp add: validate_exact_def Let_def)

lemma sort_empty: "sort (names :: string list) = [] \<longleftrightarrow> names = []"
  by (metis set_empty set_sort)

lemma fence_Inr:
  assumes "from_admitted_command command session member_run node_daemon team_supervisor now = Inr fence"
  shows "admission_fields command session member_run node_daemon now = []"
    "zero_generations session member_run node_daemon = []"
    "exact_mismatch_fields (cmd_binding command) (cmd_target_node_daemon_id command)
       (cmd_target_node_daemon_generation command) session = []"
    "fnc_binding fence = cmd_binding command" "fnc_target_node_daemon_id fence = cmd_target_node_daemon_id command"
    "fnc_target_node_daemon_generation fence = ndl_generation node_daemon"
  using assms unfolding from_admitted_command_def Let_def
  by (auto split: prod.splits if_splits simp: sort_empty)

text \<open>
  A fence holds for the runtime it was made for and no other. When a command was admitted, its
  fence is valid for the session it was admitted against, under an unexpired lease of the daemon and
  with no generation zero; and it is valid for a session later exactly when session, runtime and driver
  generation, driver, daemon, fingerprints, permission envelope and native session are all the same.
\<close>

theorem fence_is_exact:
  assumes "from_admitted_command command session member_run node_daemon team_supervisor now = Inr fence"
  shows "validate_exact fence session = Inr ()
    \<and> (validate_exact fence later = Inr () \<longleftrightarrow> runtime_identity later = runtime_identity session)
    \<and> ndl_status node_daemon = DaemonActive \<and> now < ndl_expires_unix_ms node_daemon
    \<and> ses_runtime_generation session \<noteq> 0 \<and> ctl_driver_generation (ses_control_state session) \<noteq> 0
    \<and> ses_node_daemon_generation session \<noteq> 0 \<and> mrn_runtime_generation member_run \<noteq> 0"
proof -
  note f = fence_Inr [OF assms]
  have g: "ndl_generation node_daemon = ses_node_daemon_generation session"
    "ndl_status node_daemon = DaemonActive" "now < ndl_expires_unix_ms node_daemon"
    "cmd_target_node_daemon_generation command = ndl_generation node_daemon"
    using f(1) by (auto simp: admission_fields_def field_if_def not_le split: if_splits)
  have z: "ses_runtime_generation session \<noteq> 0" "ctl_driver_generation (ses_control_state session) \<noteq> 0"
    "ndl_generation node_daemon \<noteq> 0" "mrn_runtime_generation member_run \<noteq> 0"
    using f(2) by (auto simp: zero_generations_def field_if_def split: if_splits)
  have exact: "exact_mismatch_fields (cmd_binding command) (cmd_target_node_daemon_id command)
      (ndl_generation node_daemon) session = []"
    using f(3) g(4) by simp
  have "validate_exact fence later = Inr () \<longleftrightarrow> runtime_identity later = runtime_identity session"
    using exact unfolding validate_exact_Inr f(4-6) exact_fields_empty runtime_identity_def by auto
  then show ?thesis using exact g z unfolding validate_exact_Inr f(4-6) by simp
qed

section \<open>Disposal\<close>

text \<open>A handle that is dropped in the end was disposed of exactly once, whatever releases were tried before.\<close>

lemma disposed_exactly_once:
  "osd_calls (disposer_drop (fold (\<lambda>receipt d. snd (finish_release receipt d)) attempts disposer_new)) = 1"
proof -
  have "osd_calls d = (if osd_disposer d then 0 else 1) \<Longrightarrow>
      osd_calls (disposer_drop (fold (\<lambda>receipt d. snd (finish_release receipt d)) attempts d)) = 1" for d
  proof (induction attempts arbitrary: d)
    case (Cons receipt attempts)
    then show ?case by (cases "release_verify receipt") (auto simp: finish_release_def)
  qed (simp add: disposer_drop_def)
  then show ?thesis by (simp add: disposer_new_def)
qed

section \<open>Samples\<close>

definition full_quiesce :: QuiesceReceipt where
  "full_quiesce = builder_finish (builder_run (map (\<lambda>step. (step, PostSatisfied, [])) ORDER) builder_new)"

theorem swap_exactly_after_quiesce_witness:
  "\<exists>l. composition_swap ''c2'' ''k2'' (fold lifecycle_step [EffectStarted, QuiesceOffered full_quiesce] (lifecycle_new ''c'' ''k''))
     = (Inr (), l)"
proof -
  have "[EffectStarted, QuiesceOffered full_quiesce] = [EffectStarted] @ QuiesceOffered full_quiesce # []" by simp
  moreover have "quiesce_verify full_quiesce = Inr ()" by code_simp
  ultimately show ?thesis unfolding swap_exactly_after_quiesce by (metis empty_iff empty_set)
qed

definition sample_session :: AgentSession where
  "sample_session =
     \<lparr>ses_id = ''s1'', ses_agent_member_id = ''m1'', ses_node_id = ''n1'', ses_execution_space_id = ''x1'',
      ses_node_daemon_id = ''d1'', ses_node_daemon_generation = 2, ses_provider_kind = ''codex'',
      ses_provider_profile_ref = ''p1'', ses_permission_envelope_ref = ''e1'',
      ses_effective_permission_ceiling = CeilingWorkspaceWrite, ses_workspace_cwd = None, ses_lifecycle = SessionIdle,
      ses_runtime_generation = 3,
      ses_control_state =
        \<lparr>ctl_runtime_residency = ResidencyAttached, ctl_activity = ActivityIdle, ctl_execution_driver = HostDriven,
         ctl_driver_generation = 4, ctl_driver_ref = DriverTeamSupervisor ''t1'' ''v1'' 5,
         ctl_handoff_state = HandoffNone,
         ctl_continuation =
           \<lparr>ncp_definition = \<lparr>ncd_continuation_ref = None, ncd_revision = None, ncd_phase = ContinuationInactive,
              ncd_budget = None\<rparr>, ncp_activation = ActivationDisarmed, ncp_observed_at = None\<rparr>,
         ctl_composition_fingerprint = Some ''c'', ctl_capability_fingerprint = Some ''k'',
         ctl_last_reconciled_at = None, ctl_settlement_incomplete = None\<rparr>,
      ses_native_session_ref = None, ses_current_cycle_marker = None, ses_queued_input_count = 0, ses_version = 1,
      ses_opened_at = ''t0'', ses_last_active_at = ''t0'', ses_closed_at = None\<rparr>"

definition sample_command :: RuntimeCommandRecord where
  "sample_command =
     \<lparr>cmd_id = ''c1'', cmd_execution_space_id = ''x1'', cmd_target_node_id = ''n1'', cmd_target_node_daemon_id = ''d1'',
      cmd_target_node_daemon_generation = 2, cmd_authenticated_actor = \<lparr>act_kind = ActorHuman, act_id = ''ada''\<rparr>,
      cmd_command = CommandStartCycle, cmd_required_capability = ''start_cycle'', cmd_idempotency_key = ''i1'',
      cmd_request_fingerprint = ''f'', cmd_phase = PhasePrepared, cmd_effect_certainty = CertaintyUnknown,
      cmd_postcondition_status = PostUnknown,
      cmd_binding =
        \<lparr>cbd_target_member_run_id = Some ''r1'', cbd_target_member_run_generation = Some 6,
         cbd_target_session_id = Some ''s1'', cbd_target_runtime_generation = Some 3,
         cbd_target_driver_generation = Some 4, cbd_target_driver = DriverTeamSupervisor ''t1'' ''v1'' 5,
         cbd_native_session_ref = None, cbd_composition_fingerprint = Some ''c'',
         cbd_capability_fingerprint = Some ''k'', cbd_capability_profile_version = None,
         cbd_permission_envelope_ref = Some ''e1''\<rparr>,
      cmd_precondition =
        \<lparr>pre_expected_session_version = None, pre_expected_residency = None, pre_expected_activity = None,
         pre_expected_execution_driver = None, pre_expected_cycle_ref = None, pre_expected_continuation_ref = None,
         pre_expected_continuation_phase = None, pre_safe_point = SafeImmediate\<rparr>,
      cmd_postcondition =
        \<lparr>pst_desired_ack_level = AckProviderReceipt, pst_desired_postcondition = DesiredCycleStarted,
         pst_status = PostUnknown, pst_evidence_refs = []\<rparr>,
      cmd_target_session_id = Some ''s1'', cmd_target_session_generation = Some 3, cmd_source_record_id = None,
      cmd_provider_attempt = None, cmd_result = None, cmd_cycle_correlation = None, cmd_failure_code = None,
      cmd_version = 1, cmd_created_at = ''t0'', cmd_updated_at = ''t0''\<rparr>"

definition sample_member_run :: MemberRun where
  "sample_member_run =
     \<lparr>mrn_id = ''r1'', mrn_agent_member_id = ''m1'', mrn_team_run_id = ''t1'', mrn_role_snapshot = ''dev'',
      mrn_provider_profile_snapshot = None, mrn_requested_controls = JNull, mrn_effective_controls = JNull,
      mrn_coordination_status = CoordinationActive, mrn_runtime_status = RuntimeIdle, mrn_runtime_generation = 6,
      mrn_workspace_binding_id = None, mrn_native_session = None, mrn_version = 1, mrn_started_at = ''t0'',
      mrn_last_event_at = None, mrn_finished_at = None\<rparr>"

definition sample_daemon :: NodeDaemonLease where
  "sample_daemon =
     \<lparr>ndl_node_id = ''n1'', ndl_daemon_id = ''d1'', ndl_generation = 2, ndl_instance_id = ''i'', ndl_status = DaemonActive,
      ndl_acquired_unix_ms = 1, ndl_renewed_unix_ms = 1, ndl_expires_unix_ms = 100, ndl_released_unix_ms = None\<rparr>"

definition sample_supervisor :: TeamSupervisorLease where
  "sample_supervisor =
     \<lparr>tsl_team_run_id = ''t1'', tsl_node_id = ''n1'', tsl_node_daemon_id = ''d1'', tsl_node_daemon_generation = 2,
      tsl_execution_space_id = ''x1'', tsl_project_binding_id = ''b1'', tsl_supervisor_id = ''v1'', tsl_generation = 5,
      tsl_owner_process_id = 7, tsl_owner_locator = ''l'', tsl_status = SupervisorActive, tsl_acquired_unix_ms = 1,
      tsl_heartbeat_unix_ms = 1, tsl_expires_unix_ms = 100, tsl_released_unix_ms = None\<rparr>"

definition sample_fence where
  "sample_fence = from_admitted_command sample_command sample_session sample_member_run sample_daemon
     (Some sample_supervisor) 50"

theorem fence_is_exact_witness:
  "\<exists>fence. sample_fence = Inr fence \<and> validate_exact fence sample_session = Inr ()
     \<and> validate_exact fence (sample_session\<lparr>ses_runtime_generation := 4\<rparr>) \<noteq> Inr ()"
proof -
  have "\<not> isl sample_fence" by code_simp
  then obtain fence where f: "sample_fence = Inr fence" by (metis sum.collapse(2))
  have "validate_exact fence sample_session = Inr ()"
    "validate_exact fence (sample_session\<lparr>ses_runtime_generation := 4\<rparr>) = Inr () \<longleftrightarrow>
       runtime_identity (sample_session\<lparr>ses_runtime_generation := 4\<rparr>) = runtime_identity sample_session"
    using fence_is_exact [OF f [unfolded sample_fence_def]] by blast+
  moreover have "runtime_identity (sample_session\<lparr>ses_runtime_generation := 4\<rparr>) \<noteq> runtime_identity sample_session"
    by (simp add: runtime_identity_def sample_session_def)
  ultimately show ?thesis using f by blast
qed

end
