(* ===== verification/Cycle_Assertions.thy ===== *)
theory Cycle_Assertions
  imports Runtime_Cycle Runtime_Quiesce
begin

text \<open>
  The shared assertions every provider adapter is tested against
  (\<^verbatim>\<open>crates/firm-runtime-contract/src/cycle_assertions.rs\<close>). A fixture scripts the
  transport; each assertion reads what the fixture reported (\<^verbatim>\<open>Inl\<close> is the fixture's own error, as text).
\<close>

record CycleConformanceError =
  cfe_assertion :: string
  cfe_detail :: string

definition assertion_fails :: "string \<Rightarrow> string \<Rightarrow> CycleConformanceError + 'a" where
  "assertion_fails assertion detail = Inl \<lparr>cfe_assertion = assertion, cfe_detail = detail\<rparr>"

datatype CycleFailureDisposition = InputNeverAccepted | AcceptedOutcomeUnknown

fun show_disposition :: "CycleFailureDisposition \<Rightarrow> string" where
  "show_disposition InputNeverAccepted = ''InputNeverAccepted''"
| "show_disposition AcceptedOutcomeUnknown = ''AcceptedOutcomeUnknown''"

datatype CycleConformanceResult = ResultOutcome ExecutionCycleOutcome | ResultFailed CycleFailureDisposition

record CycleConformanceOutcome =
  cco_result :: CycleConformanceResult
  cco_interrupt :: "InterruptCause option"
  cco_control_unproven :: bool

definition fixture_outcome ::
    "string \<Rightarrow> string + CycleConformanceOutcome \<Rightarrow> CycleConformanceError + CycleConformanceOutcome" where
  "fixture_outcome assertion run =
     map_err (\<lambda>error. \<lparr>cfe_assertion = assertion, cfe_detail = ''fixture error: '' @ error\<rparr>) run"

definition assert_a1_accepted_input_survives_silence ::
    "string + CycleConformanceOutcome \<Rightarrow> CycleConformanceError + unit" where
  "assert_a1_accepted_input_survives_silence run =
     bindR (fixture_outcome ''A1'' run) (\<lambda>outcome.
     case cco_result outcome of
       ResultOutcome cycle \<Rightarrow>
         if out_provider_terminal_failure cycle \<noteq> None
         then assertion_fails ''A1''
                ''accepted input turned into a provider terminal failure by silence alone''
         else if cco_interrupt outcome \<noteq> None
         then assertion_fails ''A1'' ''a silent accepted cycle was interrupted by the adapter''
         else Inr ()
     | ResultFailed disposition \<Rightarrow>
         assertion_fails ''A1''
           (''accepted input became a cycle failure by time alone: '' @ show_disposition disposition))"

definition assert_a2_delivery_timeout_fails_closed ::
    "string + CycleConformanceOutcome \<Rightarrow> CycleConformanceError + unit" where
  "assert_a2_delivery_timeout_fails_closed run =
     bindR (fixture_outcome ''A2'' run) (\<lambda>outcome.
     case cco_result outcome of
       ResultFailed InputNeverAccepted \<Rightarrow> Inr ()
     | ResultFailed disposition \<Rightarrow>
         assertion_fails ''A2''
           (''a never-accepted input must stay replay-safe, got '' @ show_disposition disposition)
     | ResultOutcome _ \<Rightarrow>
         assertion_fails ''A2'' ''a cycle without any acceptance receipt produced an outcome'')"

definition assert_a3_transport_death_fails_closed ::
    "string + CycleConformanceOutcome \<Rightarrow> CycleConformanceError + unit" where
  "assert_a3_transport_death_fails_closed run =
     bindR (fixture_outcome ''A3'' run) (\<lambda>outcome.
     case cco_result outcome of
       ResultFailed AcceptedOutcomeUnknown \<Rightarrow> Inr ()
     | ResultFailed InputNeverAccepted \<Rightarrow>
         assertion_fails ''A3''
           ''transport death after acceptance mapped to replay-safe, which would duplicate provider input''
     | ResultOutcome _ \<Rightarrow> assertion_fails ''A3'' ''a dead transport produced a cycle outcome'')"

definition assert_a5_control_settle_only_bounds_control ::
    "string + CycleConformanceOutcome \<Rightarrow> CycleConformanceError + unit" where
  "assert_a5_control_settle_only_bounds_control run =
     bindR (fixture_outcome ''A5'' run) (\<lambda>outcome.
     if \<not> cco_control_unproven outcome
     then assertion_fails ''A5'' ''an unacknowledged Interrupt did not end unproven after control_settle''
     else
       (case cco_result outcome of
          ResultFailed AcceptedOutcomeUnknown \<Rightarrow> Inr ()
        | ResultOutcome cycle \<Rightarrow>
            if out_provider_terminal_failure cycle = None then Inr ()
            else assertion_fails ''A5''
              ''control_settle expiry was attributed to a cycle failure (provider_terminal_failure present)''
        | ResultFailed InputNeverAccepted \<Rightarrow>
            assertion_fails ''A5''
              ''control_settle expiry was attributed to an unaccepted input (replay-safe)''))"

text \<open>The derived \<^verbatim>\<open>Debug\<close> text of a cause, which only an error message shows, is an argument.\<close>

definition assert_b1_host_interrupt_attribution ::
    "(InterruptCause option \<Rightarrow> string) \<Rightarrow> string + CycleConformanceOutcome \<Rightarrow> CycleConformanceError + unit" where
  "assert_b1_host_interrupt_attribution debug run =
     bindR (fixture_outcome ''B1'' run) (\<lambda>outcome.
     case cco_interrupt outcome of
       Some HostControl \<Rightarrow> Inr ()
     | other \<Rightarrow> assertion_fails ''B1'' (''a Host control interrupt was attributed to '' @ debug other))"

definition assert_c1_terminal_failure_unsatisfied :: "EffectReceipt \<Rightarrow> CycleConformanceError + unit" where
  "assert_c1_terminal_failure_unsatisfied receipt =
     (if efr_postcondition receipt = PostUnsatisfied then Inr ()
      else assertion_fails ''C1''
        (''a cycle with provider_terminal_failure settled as '' @ show_postcondition (efr_postcondition receipt)))"

definition assert_c2_clean_terminal_satisfied :: "EffectReceipt \<Rightarrow> CycleConformanceError + unit" where
  "assert_c2_clean_terminal_satisfied receipt =
     (if efr_postcondition receipt = PostSatisfied then Inr ()
      else assertion_fails ''C2''
        (''a clean terminal cycle settled as '' @ show_postcondition (efr_postcondition receipt)))"

fun show_certainty :: "RuntimeEffectCertainty \<Rightarrow> string" where
  "show_certainty CertaintyNone = ''None''"
| "show_certainty CertaintyNotApplied = ''NotApplied''"
| "show_certainty CertaintyApplied = ''Applied''"
| "show_certainty CertaintyUnknown = ''Unknown''"

definition assert_c3_unobserved_terminal_unknown :: "EffectReceipt \<Rightarrow> CycleConformanceError + unit" where
  "assert_c3_unobserved_terminal_unknown receipt =
     (if efr_postcondition receipt \<noteq> PostUnknown
      then assertion_fails ''C3''
        (''an unobserved terminal settled as '' @ show_postcondition (efr_postcondition receipt))
      else if efr_certainty receipt \<noteq> CertaintyUnknown
      then assertion_fails ''C3''
        (''an unobserved terminal claims certainty '' @ show_certainty (efr_certainty receipt))
      else Inr ())"

definition assert_c4_postcondition_derives_only_from_settlement ::
    "CycleSettlement \<Rightarrow> CycleSettlement \<Rightarrow> CycleConformanceError + unit" where
  "assert_c4_postcondition_derives_only_from_settlement first second =
     (let derive = (\<lambda>stl. efr_postcondition (for_cycle ''conformance-c4'' AdmissionActive stl)) in
      if derive first = derive second then Inr ()
      else assertion_fails ''C4''
        (''settlements equal on every D5 axis derived different postconditions: ''
           @ show_postcondition (derive first) @ '' vs '' @ show_postcondition (derive second)))"

section \<open>The receipts of the contract pass\<close>

text \<open>
  The assertions about receipts hold for every settlement, not only for those an adapter's tests
  happen to script.
\<close>

lemma receipt_assertions_hold:
  assumes "receipt = for_cycle i admission stl"
  shows "stl_provider_terminal_failure stl \<noteq> None \<Longrightarrow> assert_c1_terminal_failure_unsatisfied receipt = Inr ()"
    and "stl_provider_terminal_failure stl = None \<Longrightarrow> stl_terminal stl = TerminalObserved \<Longrightarrow>
      stl_interrupt stl = InterruptNone \<Longrightarrow> assert_c2_clean_terminal_satisfied receipt = Inr ()"
    and "stl_provider_terminal_failure stl = None \<Longrightarrow> stl_terminal stl = TerminalNotObserved \<Longrightarrow>
      assert_c3_unobserved_terminal_unknown receipt = Inr ()"
  using assms
  by (auto simp: for_cycle_def assert_c1_terminal_failure_unsatisfied_def assert_c2_clean_terminal_satisfied_def
      assert_c3_unobserved_terminal_unknown_def)

lemma receipts_read_only_the_axes:
  assumes "(stl_provider_terminal_failure first = None) = (stl_provider_terminal_failure second = None)"
    and "stl_terminal first = stl_terminal second" and "stl_interrupt first = stl_interrupt second"
  shows "assert_c4_postcondition_derives_only_from_settlement first second = Inr ()"
  using assms by (simp add: assert_c4_postcondition_derives_only_from_settlement_def for_cycle_def Let_def del: not_None_eq)

end
