(* ===== verification/Collaboration_Capability.thy ===== *)
theory Collaboration_Capability
  imports Canonical_Json
begin

text \<open>
  The bearer capability an agent's tools carry
  (\<^verbatim>\<open>crates/firm-runtime-contract/src/collaboration_capability.rs\<close>): a secret bound to the exact
  generations of a member's runtime, handed out as a closed environment.
\<close>

datatype CollaborationCapabilityScope = ExactSelfRoleActions

datatype CollaborationCapabilityMechanism =
    DirectAgentToolEnvironment | ClaudeSdkToolEnvironment | KimiAcpToolEnvironment | PiRpcToolEnvironment
  | DeepSeekCordisShellEnv

datatype CollaborationCapabilityExpiry = LiveSupervisorRegistration

datatype CollaborationCapabilityError = InvalidSecret | CapabilityExpired | BindingMismatch | MechanismMismatch

record CollaborationCapabilityBinding =
  ccb_team_run_id :: string
  ccb_member_run_id :: string
  ccb_member_run_generation :: u64
  ccb_agent_session_id :: string
  ccb_agent_session_generation :: u64
  ccb_node_daemon_id :: string
  ccb_node_daemon_generation :: u64
  ccb_supervisor_id :: string
  ccb_supervisor_generation :: u64

datatype CollaborationCapabilitySecret = Secret (expose: string)

definition secret_new :: "string \<Rightarrow> CollaborationCapabilityError + CollaborationCapabilitySecret" where
  "secret_new value =
     (if length value \<noteq> 64 \<or> \<not> list_all ascii_hexdigit value then Inl InvalidSecret else Inr (Secret value))"

definition fingerprint :: "('z) crypto_scheme \<Rightarrow> CollaborationCapabilitySecret \<Rightarrow> string" where
  "fingerprint cd self = ''sha256:'' @ sha256_hex cd (expose self)"

record CollaborationCapabilityEnvelope =
  cce_secret :: CollaborationCapabilitySecret
  cce_binding :: CollaborationCapabilityBinding
  cce_scope :: CollaborationCapabilityScope
  cce_expiry :: CollaborationCapabilityExpiry
  cce_fingerprint :: string
  cce_mechanism :: CollaborationCapabilityMechanism

definition envelope_new ::
    "('z) crypto_scheme \<Rightarrow> CollaborationCapabilitySecret \<Rightarrow> CollaborationCapabilityBinding
      \<Rightarrow> CollaborationCapabilityMechanism \<Rightarrow> CollaborationCapabilityError + CollaborationCapabilityEnvelope" where
  "envelope_new cd secret binding mechanism =
     Inr \<lparr>cce_secret = secret, cce_binding = binding, cce_scope = ExactSelfRoleActions,
          cce_expiry = LiveSupervisorRegistration, cce_fingerprint = fingerprint cd secret, cce_mechanism = mechanism\<rparr>"

type_synonym environment = "(string \<times> string) list"

definition provider_environment :: "CollaborationCapabilityEnvelope \<Rightarrow> environment" where
  "provider_environment self =
     [(''FIRM_TEAM_RUN_ID'', ccb_team_run_id (cce_binding self)),
      (''FIRM_MEMBER_RUN_ID'', ccb_member_run_id (cce_binding self)),
      (''FIRM_MEMBER_ROLE_ACTION_TOKEN'', expose (cce_secret self))]"

definition extend_non_secret :: "environment \<Rightarrow> environment \<Rightarrow> environment" where
  "extend_non_secret self values = self @ values"

definition agent_tool_environment ::
    "CollaborationCapabilityEnvelope \<Rightarrow> CollaborationCapabilityMechanism
      \<Rightarrow> CollaborationCapabilityError + environment" where
  "agent_tool_environment self expected_mechanism =
     (if cce_mechanism self \<noteq> expected_mechanism then Inl MechanismMismatch else Inr (provider_environment self))"

definition validate_current ::
    "CollaborationCapabilityEnvelope \<Rightarrow> CollaborationCapabilityBinding \<Rightarrow> bool \<Rightarrow> CollaborationCapabilityError + unit" where
  "validate_current self expected supervisor_registration_live =
     (if \<not> supervisor_registration_live then Inl CapabilityExpired
      else if cce_binding self \<noteq> expected then Inl BindingMismatch
      else Inr ())"

text \<open>Text shown for debugging: the secret and the values of an environment are left out.\<close>

definition secret_debug :: "CollaborationCapabilitySecret \<Rightarrow> string" where
  "secret_debug self = ''CollaborationCapabilitySecret([REDACTED])''"

section \<open>The secret stays with its runtime\<close>

lemma secret_debug_closed: "secret_debug a = secret_debug b"
  by (simp add: secret_debug_def)

text \<open>Tools of another mechanism get nothing; those of the right one get the secret and two ids.\<close>

lemma environment_only_for_mechanism:
  "agent_tool_environment e m = Inr env \<longleftrightarrow> cce_mechanism e = m \<and> env = provider_environment e"
  by (auto simp: agent_tool_environment_def)

lemma valid_only_for_binding:
  "validate_current e expected live = Inr () \<longleftrightarrow> live \<and> cce_binding e = expected"
  by (auto simp: validate_current_def)

end
