(* ===== verification/Store_Error.thy ===== *)
theory Store_Error
  imports Runtime_Types Rust_Text
begin

text \<open>
  Errors of the single-machine store (\<^verbatim>\<open>crates/firm-store/src/lib.rs\<close>, \<^verbatim>\<open>trust_kernel.rs\<close>) and the
  typed refusals of its trust kernel (\<^verbatim>\<open>crates/firm-core/src/agentfirm_api/work_trust.rs\<close>). The program
  carries a typed refusal as the JSON text of a \<^verbatim>\<open>Conflict\<close> and reads it back with \<^verbatim>\<open>trust_error()\<close>; the
  model keeps the typed value, as \<open>TrustConflict\<close>.
\<close>

datatype TrustErrorCode =
    TrustVersionConflict | TrustIdempotencyKeyReused | UnauthorizedActor | InvalidStateTransition
  | AgentMemberPaused | AgentMemberRetired | MemberRunClosed | MemberRunRetired | MemberRunGenerationFenced
  | SupervisorGenerationFenced | NativeSessionMissing | NativeSessionIncompatible | DeliveryClaimConflict
  | DeliveryNotDispatched | DeliveryReceiptMissing | DeliveryRecoveryUncertain | RuntimeEffectUnknown
  | WorkRevisionStale | WorkExecutionBindingActive | WorkspacePathUnsafe | WorkspaceRepositoryMismatch
  | WorkspaceLinkEscape | WorkspaceGenerationFenced | WorkspaceDirty | WorkspaceConflicted
  | WorkspaceCleanupBlocked | ModuleConfigInvalid | ModuleLifecycleViolation | GateDependencyCycle
  | GateRequirementStale | GateEvaluationRequired | GateWaiverUnauthorized | ReportEvidenceMissing
  | FailureAnalysisMissing | MachineLeaseUnresolved | NodeDaemonGenerationFenced

record TrustError =
  ter_code :: TrustErrorCode
  ter_message :: string
  ter_retryable :: bool
  ter_resource_kind :: string
  ter_resource_id :: string
  ter_current_version :: "u64 option"

datatype StoreError =
    StoreIo string
  | StoreJson string
  | StoreLockTimeout string
  | StoreSnapshotUnstable
  | TrustConflict TrustError
  | StoreConflict string
  | StoreCompanyOsValidation string
  | StoreCompanyOsMissingReference string

type_synonym 'a store_result = "StoreError + 'a"

definition trust_error_of :: "StoreError \<Rightarrow> TrustError option" where
  "trust_error_of self = (case self of TrustConflict error \<Rightarrow> Some error | _ \<Rightarrow> None)"

definition trust_error :: "TrustErrorCode \<Rightarrow> string \<Rightarrow> string \<Rightarrow> string \<Rightarrow> u64 option \<Rightarrow> StoreError" where
  "trust_error code message resource_kind resource_id current_version =
     TrustConflict \<lparr>ter_code = code, ter_message = message, ter_retryable = False,
       ter_resource_kind = resource_kind, ter_resource_id = resource_id, ter_current_version = current_version\<rparr>"

definition required :: "string \<Rightarrow> string \<Rightarrow> unit store_result" where
  "required text field =
     reject_if (blank text)
       (trust_error InvalidStateTransition (field @ '' must not be empty'') ''request'' field None)"

text \<open>The code of a refusal.\<close>

definition refused_with :: "TrustErrorCode \<Rightarrow> 'a store_result \<Rightarrow> bool" where
  "refused_with code r \<longleftrightarrow> (\<exists>error. r = Inl (TrustConflict error) \<and> ter_code error = code)"

lemma required_Inr [simp]: "required text field = Inr u \<longleftrightarrow> \<not> blank text"
  by (simp add: required_def)

lemma refused_with_simps [simp]:
  "refused_with code (Inl (trust_error c message kind i version)) \<longleftrightarrow> c = code"
  "\<not> refused_with code (Inr x)"
  by (auto simp: refused_with_def trust_error_def)

end
