(* ===== verification/Line_Files.thy ===== *)
theory Line_Files
  imports Journal_Loop Canonical_Json
begin

text \<open>
  Files of newline-terminated rows as the single-machine store keeps them
  (\<^verbatim>\<open>crates/firm-store\<close>): splitting a file into its complete lines, reading the rows that are not
  blank, and what reading gives back of rows that were written.
\<close>

text \<open>\<^verbatim>\<open>split(|byte| *byte == b'\n')\<close>; the last piece is what follows the last newline.\<close>

fun split_newline :: "bytes \<Rightarrow> bytes list" where
  "split_newline [] = [[]]"
| "split_newline (c # bs) =
     (if c = newline then [] # split_newline bs
      else (c # hd (split_newline bs)) # tl (split_newline bs))"

definition complete_lines :: "bytes \<Rightarrow> bytes list" where
  "complete_lines bs = butlast (split_newline bs)"

text \<open>\<^verbatim>\<open>u8::is_ascii_whitespace\<close> of every byte.\<close>

definition ascii_blank :: "bytes \<Rightarrow> bool" where
  "ascii_blank row \<longleftrightarrow> list_all (\<lambda>b. (of_char b :: nat) \<in> {9, 10, 12, 13, 32}) row"

text \<open>The rows of the complete lines, the first error of the decoder if there is one.\<close>

definition read_rows :: "(bytes \<Rightarrow> bool) \<Rightarrow> (bytes \<Rightarrow> 'e + 'a) \<Rightarrow> bytes \<Rightarrow> 'e + 'a list" where
  "read_rows skip decode bs = collect (map decode (filter (\<lambda>row. \<not> skip row) (complete_lines bs)))"

lemma split_newline_nonempty [simp]: "split_newline bs \<noteq> []"
  by (cases bs) auto

lemma split_newline_one_line: "one_line bs \<Longrightarrow> split_newline bs = [bs]"
  by (induction bs) (auto simp: one_line_def)

lemma split_newline_line: "one_line line \<Longrightarrow> split_newline (line @ newline # bs) = line # split_newline bs"
  by (induction line) (auto simp: one_line_def)

lemma complete_lines_unlines:
  assumes "list_all one_line lines" and "one_line torn"
  shows "complete_lines (unlines lines @ torn) = lines"
proof -
  have "split_newline (unlines lines @ torn) = lines @ [torn]"
    using assms by (induction lines) (auto simp: split_newline_line split_newline_one_line)
  then show ?thesis by (simp add: complete_lines_def)
qed

lemma collect_append:
  "collect (xs @ ys) = bindR (collect xs) (\<lambda>as. bindR (collect ys) (\<lambda>bs. Inr (as @ bs)))"
proof (induction xs)
  case Nil
  then show ?case by (cases "collect ys") simp_all
next
  case (Cons x xs)
  then show ?case by (cases x; cases "collect xs"; cases "collect ys") simp_all
qed

lemma collect_map_Inr: "(\<And>x. x \<in> set xs \<Longrightarrow> f x = Inr (g x)) \<Longrightarrow> collect (map f xs) = Inr (map g xs)"
  by (induction xs) auto

lemma collect_Inl: "Inl e \<in> set rs \<Longrightarrow> \<exists>e'. collect rs = Inl e'"
proof (induction rs)
  case (Cons r rs)
  then show ?case by (cases r; cases "collect rs") auto
qed simp

text \<open>A torn last line is ignored by a reader, but a row appended to it makes one bad line of both.\<close>

lemma read_rows_torn:
  assumes "list_all one_line lines" and "one_line torn"
  shows "read_rows skip decode (unlines lines @ torn) = read_rows skip decode (unlines lines)"
  using complete_lines_unlines [OF assms] complete_lines_unlines [OF assms(1), of "[]"]
  by (simp add: read_rows_def one_line_def)

lemma read_rows_written:
  assumes "\<And>r. r \<in> set rows \<Longrightarrow> one_line (encode r) \<and> \<not> skip (encode r) \<and> decode (encode r) = Inr r"
  shows "read_rows skip decode (unlines (map encode rows)) = Inr rows"
proof -
  have "complete_lines (unlines (map encode rows) @ []) = map encode rows"
    using assms by (intro complete_lines_unlines) (auto simp: list_all_iff one_line_def)
  moreover have "filter (\<lambda>row. \<not> skip row) (map encode rows) = map encode rows"
    using assms by (auto simp: filter_id_conv)
  moreover have "collect (map (\<lambda>r. decode (encode r)) rows) = Inr (map (\<lambda>r. r) rows)"
    using assms by (intro collect_map_Inr) auto
  ultimately show ?thesis by (simp add: read_rows_def comp_def)
qed

lemma split_newline_unlines: "list_all one_line lines \<Longrightarrow> split_newline (unlines lines @ rest) = lines @ split_newline rest"
  by (induction lines) (simp_all add: split_newline_line)

text \<open>A line that does not decode, whatever follows it.\<close>

lemma read_rows_bad_line:
  assumes "list_all one_line lines" and "one_line line" and "\<not> skip line" "decode line = Inl e"
  shows "\<exists>e'. read_rows skip decode (unlines lines @ line @ newline # rest) = Inl e'"
proof -
  have "complete_lines (unlines lines @ line @ newline # rest) = lines @ line # butlast (split_newline rest)"
    using assms(1,2) by (simp add: complete_lines_def split_newline_unlines split_newline_line butlast_append)
  then have "Inl e \<in> set (map decode (filter (\<lambda>row. \<not> skip row) (complete_lines (unlines lines @ line @ newline # rest))))"
    using assms(3,4) by simp
  from collect_Inl [OF this] show ?thesis unfolding read_rows_def .
qed

lemma unlines_snoc: "unlines (map f xs) @ f x @ [newline] = unlines (map f (xs @ [x]))"
  by simp

end
