(* ===== verification/Machine_Lease.thy ===== *)
theory Machine_Lease
  imports Store_Error Line_Files
begin

text \<open>
  The machine lease (\<^verbatim>\<open>crates/firm-store/src/store_machine_lease.rs\<close>, \<^verbatim>\<open>node_lease_document.rs\<close>,
  \<^verbatim>\<open>node_lease_history.rs\<close>): one document per Node that says which daemon generation owns the machine,
  replaced atomically, and beside it one history row per transition. A node directory is the contents
  of these two files; serde is the record \<open>lease_codec\<close>, the clock, the process id and the outcome of
  taking the file lock are arguments.
\<close>

section \<open>Documents and rows\<close>

record NodeDaemonLeaseDocument =
  doc_schema_version :: u32
  doc_owner_pid :: u32
  doc_lease :: NodeDaemonLease

record NodeDaemonLeaseHistoryRow =
  row_schema_version :: u32
  row_recorded_unix_ms :: u64
  row_lease :: NodeDaemonLease

record lease_codec =
  encode_document :: "NodeDaemonLeaseDocument \<Rightarrow> bytes"
  decode_document :: "bytes \<Rightarrow> string + NodeDaemonLeaseDocument"
  encode_row :: "NodeDaemonLeaseHistoryRow \<Rightarrow> bytes"
  decode_row :: "bytes \<Rightarrow> string + NodeDaemonLeaseHistoryRow"

record node_dir =
  nd_home :: string
  nd_document :: "bytes option"
  nd_history :: "bytes option"

definition NODE_LEASE_DOCUMENT_SCHEMA_VERSION :: u32 where
  "NODE_LEASE_DOCUMENT_SCHEMA_VERSION = 1"

definition document_new :: "NodeDaemonLease \<Rightarrow> u32 \<Rightarrow> NodeDaemonLeaseDocument" where
  "document_new lease owner_pid =
     \<lparr>doc_schema_version = NODE_LEASE_DOCUMENT_SCHEMA_VERSION, doc_owner_pid = owner_pid, doc_lease = lease\<rparr>"

lemma doc_lease_new [simp]: "doc_lease (document_new l pid) = l"
  by (simp add: document_new_def)

definition lease_document_path :: "node_dir \<Rightarrow> string" where
  "lease_document_path dir = nd_home dir @ ''/node-daemon-lease.json''"

definition lease_history_path :: "node_dir \<Rightarrow> string" where
  "lease_history_path dir = nd_home dir @ ''/node-daemon-lease-history.jsonl''"

fun show_daemon_status :: "NodeDaemonLeaseStatus \<Rightarrow> string" where
  "show_daemon_status DaemonActive = ''Active''"
| "show_daemon_status DaemonDraining = ''Draining''"
| "show_daemon_status DaemonReleased = ''Released''"

definition document_invalid :: "string \<Rightarrow> StoreError" where
  "document_invalid detail = StoreConflict (''MACHINE_LEASE_DOCUMENT_INVALID: '' @ detail)"

definition node_daemon_generation_fenced :: "string \<Rightarrow> string \<Rightarrow> StoreError" where
  "node_daemon_generation_fenced node_id detail =
     trust_error NodeDaemonGenerationFenced (''NODE_DAEMON_GENERATION_FENCED: '' @ detail)
       ''node_daemon_lease'' node_id None"

definition machine_lease_unresolved :: "string \<Rightarrow> string \<Rightarrow> StoreError" where
  "machine_lease_unresolved node_id detail =
     trust_error MachineLeaseUnresolved (''MACHINE_LEASE_FILE_UNRESOLVED: '' @ detail)
       ''node_daemon_lease'' node_id None"

section \<open>The document\<close>

definition require_document_belongs_here ::
    "NodeDaemonLeaseDocument \<Rightarrow> string \<Rightarrow> string \<Rightarrow> unit store_result" where
  "require_document_belongs_here document node_id path =
     bindR (reject_if (doc_schema_version document > NODE_LEASE_DOCUMENT_SCHEMA_VERSION)
              (document_invalid (path @ '' was written by schema_version '' @ show_word (doc_schema_version document)
                 @ '' and this build understands at most '' @ show_word NODE_LEASE_DOCUMENT_SCHEMA_VERSION))) (\<lambda>_.
     reject_if (ndl_node_id (doc_lease document) \<noteq> node_id)
       (document_invalid (path @ '' holds Node '' @ ndl_node_id (doc_lease document)
          @ '' but sits in the directory of Node '' @ node_id)))"

definition read_lease_document ::
    "('z) lease_codec_scheme \<Rightarrow> string \<Rightarrow> node_dir \<Rightarrow> NodeDaemonLeaseDocument option store_result" where
  "read_lease_document c node_id dir =
     (case nd_document dir of
        None \<Rightarrow> Inr None
      | Some bytes \<Rightarrow>
          if bytes = [] then Inr None
          else
            bindR (map_err (\<lambda>error. document_invalid (lease_document_path dir
                     @ '' does not decode as a machine lease document: '' @ error)) (decode_document c bytes))
              (\<lambda>document.
            bindR (require_document_belongs_here document node_id (lease_document_path dir))
              (\<lambda>_. Inr (Some document))))"

definition require_forward_only ::
    "NodeDaemonLeaseDocument option \<Rightarrow> NodeDaemonLeaseDocument \<Rightarrow> string \<Rightarrow> unit store_result" where
  "require_forward_only current next node_home =
     (case current of
        None \<Rightarrow> Inr ()
      | Some current \<Rightarrow>
          let old = doc_lease current; new = doc_lease next in
          bindR (reject_if (ndl_generation new < ndl_generation old)
                   (document_invalid (''refusing to move Node '' @ ndl_node_id new @ '' from generation ''
                      @ show_word (ndl_generation old) @ '' back to '' @ show_word (ndl_generation new)
                      @ '' in '' @ node_home))) (\<lambda>_.
          reject_if (ndl_generation new = ndl_generation old \<and> ndl_status new = ndl_status old
                     \<and> ndl_expires_unix_ms new < ndl_expires_unix_ms old)
            (document_invalid (''refusing to move Node '' @ ndl_node_id new @ '' generation ''
               @ show_word (ndl_generation old) @ '' '' @ show_daemon_status (ndl_status old)
               @ '' expiry back from '' @ show_word (ndl_expires_unix_ms old) @ '' to ''
               @ show_word (ndl_expires_unix_ms new) @ '' in '' @ node_home))))"

definition atomic_replace :: "('z) lease_codec_scheme \<Rightarrow> NodeDaemonLeaseDocument \<Rightarrow> node_dir \<Rightarrow> node_dir" where
  "atomic_replace c document dir = dir\<lparr>nd_document := Some (encode_document c document @ [newline])\<rparr>"

text \<open>The closure also reports, in captured variables, whether it kept the document as it was.\<close>

definition publish_lease_document ::
    "('z) lease_codec_scheme \<Rightarrow> string \<Rightarrow> u64
      \<Rightarrow> (NodeDaemonLeaseDocument option \<Rightarrow> u64 \<Rightarrow> (NodeDaemonLeaseDocument \<times> 'k) store_result)
      \<Rightarrow> (node_dir, StoreError, NodeDaemonLeaseDocument \<times> 'k) action" where
  "publish_lease_document c node_id clock_now next dir =
     check (read_lease_document c node_id dir) (\<lambda>current.
     check (next current clock_now) (\<lambda>(document, kept).
     check (require_document_belongs_here document node_id (lease_document_path dir)) (\<lambda>_.
     check (require_forward_only current document (nd_home dir)) (\<lambda>_ dir.
       (Inr (document, kept), atomic_replace c document dir))))) dir"

section \<open>The history\<close>

text \<open>A carriage return before the newline belongs to the line ending, as in \<^verbatim>\<open>str::lines\<close>.\<close>

definition strip_cr :: "bytes \<Rightarrow> bytes" where
  "strip_cr line = (if line \<noteq> [] \<and> last line = CHR 0x0D then butlast line else line)"

definition history_bytes :: "node_dir \<Rightarrow> bytes" where
  "history_bytes dir = (case nd_history dir of None \<Rightarrow> [] | Some bytes \<Rightarrow> bytes)"

definition read_lease_history ::
    "('z) lease_codec_scheme \<Rightarrow> node_dir \<Rightarrow> NodeDaemonLeaseHistoryRow list store_result" where
  "read_lease_history c dir =
     read_rows (\<lambda>line. blank (strip_cr line))
       (\<lambda>line. map_err (\<lambda>error. document_invalid (lease_history_path dir
                  @ '' holds an undecodable history row: '' @ error)) (decode_row c (strip_cr line)))
       (history_bytes dir)"

definition history_row :: "NodeDaemonLeaseDocument \<Rightarrow> u64 \<Rightarrow> NodeDaemonLeaseHistoryRow" where
  "history_row document recorded_unix_ms =
     \<lparr>row_schema_version = doc_schema_version document, row_recorded_unix_ms = recorded_unix_ms,
      row_lease = doc_lease document\<rparr>"

definition append_lease_history ::
    "('z) lease_codec_scheme \<Rightarrow> NodeDaemonLeaseDocument \<Rightarrow> u64 \<Rightarrow> node_dir \<Rightarrow> node_dir" where
  "append_lease_history c document recorded_unix_ms dir =
     dir\<lparr>nd_history := Some (history_bytes dir @ encode_row c (history_row document recorded_unix_ms) @ [newline])\<rparr>"

definition read_lease_history_tail ::
    "('z) lease_codec_scheme \<Rightarrow> node_dir \<Rightarrow> NodeDaemonLease option store_result" where
  "read_lease_history_tail c dir =
     bindR (read_lease_history c dir) (\<lambda>rows. Inr (if rows = [] then None else Some (row_lease (last rows))))"

definition matches_generation :: "string \<Rightarrow> string \<Rightarrow> u64 \<Rightarrow> NodeDaemonLease \<Rightarrow> bool" where
  "matches_generation node_id daemon_id generation lease \<longleftrightarrow>
     ndl_node_id lease = node_id \<and> ndl_daemon_id lease = daemon_id \<and> ndl_generation lease = generation"

definition generation_was_released ::
    "('z) lease_codec_scheme \<Rightarrow> string \<Rightarrow> string \<Rightarrow> u64 \<Rightarrow> node_dir \<Rightarrow> bool store_result" where
  "generation_was_released c node_id daemon_id generation dir =
     bindR (read_lease_document c node_id dir) (\<lambda>document.
       case document of
         Some document \<Rightarrow>
           if matches_generation node_id daemon_id generation (doc_lease document)
           then Inr (ndl_status (doc_lease document) = DaemonReleased)
           else bindR (read_lease_history c dir) (\<lambda>rows.
             Inr (case List.find (\<lambda>row. matches_generation node_id daemon_id generation (row_lease row)) (rev rows) of
                    None \<Rightarrow> False
                  | Some row \<Rightarrow> ndl_status (row_lease row) = DaemonReleased))
       | None \<Rightarrow> bindR (read_lease_history c dir) (\<lambda>rows.
             Inr (case List.find (\<lambda>row. matches_generation node_id daemon_id generation (row_lease row)) (rev rows) of
                    None \<Rightarrow> False
                  | Some row \<Rightarrow> ndl_status (row_lease row) = DaemonReleased)))"

section \<open>Writes under the lease lock\<close>

text \<open>What a write passes on as the next document, and whether that is the current one.\<close>

definition write_next ::
    "string \<Rightarrow> u32 \<Rightarrow> (NodeDaemonLeaseDocument option \<Rightarrow> u64 \<Rightarrow> NodeDaemonLease option store_result)
      \<Rightarrow> NodeDaemonLeaseDocument option \<Rightarrow> u64 \<Rightarrow> (NodeDaemonLeaseDocument \<times> bool) store_result" where
  "write_next node_id pid next current now =
     bindR (next current now) (\<lambda>decided.
       case decided of
         Some lease \<Rightarrow> Inr (document_new lease pid, False)
       | None \<Rightarrow> bindR (ok_or current (node_daemon_generation_fenced node_id
                    (node_id @ '' has no machine lease to keep''))) (\<lambda>unchanged. Inr (unchanged, True)))"

definition write_machine_lease ::
    "('z) lease_codec_scheme \<Rightarrow> unit store_result \<Rightarrow> u32 \<Rightarrow> u64 \<Rightarrow> string
      \<Rightarrow> (NodeDaemonLeaseDocument option \<Rightarrow> u64 \<Rightarrow> NodeDaemonLease option store_result)
      \<Rightarrow> (node_dir, StoreError, NodeDaemonLease) action" where
  "write_machine_lease c lock pid clock_now node_id next =
     check lock (\<lambda>_.
     andThen (publish_lease_document c node_id clock_now (write_next node_id pid next))
       (\<lambda>(document, settled) dir.
         if settled then (Inr (doc_lease document), dir)
         else check (read_lease_history_tail c dir) (\<lambda>tail dir.
           if (case tail of
                 None \<Rightarrow> True
               | Some newest \<Rightarrow> ndl_generation newest \<noteq> ndl_generation (doc_lease document)
                   \<or> ndl_status newest \<noteq> ndl_status (doc_lease document))
           then (Inr (doc_lease document), append_lease_history c document clock_now dir)
           else (Inr (doc_lease document), dir)) dir))"

definition require_exact_generation ::
    "NodeDaemonLeaseDocument option \<Rightarrow> string \<Rightarrow> string \<Rightarrow> u64 \<Rightarrow> string \<Rightarrow> NodeDaemonLease store_result" where
  "require_exact_generation current node_id daemon_id generation instance_id =
     bindR (ok_or (map_option doc_lease current) (node_daemon_generation_fenced node_id node_id)) (\<lambda>lease.
     bindR (reject_if (ndl_daemon_id lease \<noteq> daemon_id \<or> ndl_generation lease \<noteq> generation
                       \<or> ndl_instance_id lease \<noteq> instance_id)
              (node_daemon_generation_fenced node_id (''stale daemon cannot write Node '' @ node_id)))
       (\<lambda>_. Inr lease))"

text \<open>The largest generation the execution spaces issued before the first document.\<close>

definition newest_generation :: "u64 list \<Rightarrow> u64" where
  "newest_generation generations = (case max_by_key id generations of None \<Rightarrow> 0 | Some g \<Rightarrow> g)"

definition acquire_decision ::
    "string \<Rightarrow> string \<Rightarrow> string \<Rightarrow> u64 \<Rightarrow> u64 list \<Rightarrow> NodeDaemonLeaseDocument option \<Rightarrow> u64
      \<Rightarrow> NodeDaemonLease option store_result" where
  "acquire_decision node_id daemon_id instance_id ttl_ms previous_space_generations current now =
     (let advance = (\<lambda>generation.
            if generation = - 1
            then Inl (StoreConflict (''NODE_DAEMON_GENERATION_CEILING: Node '' @ node_id
                   @ '' cannot advance past generation '' @ show_word (generation :: u64)))
            else Inr (Some
              \<lparr>ndl_node_id = node_id, ndl_daemon_id = daemon_id, ndl_generation = generation + 1,
               ndl_instance_id = instance_id, ndl_status = DaemonActive, ndl_acquired_unix_ms = now,
               ndl_renewed_unix_ms = now, ndl_expires_unix_ms = sat_add now (max ttl_ms 1),
               ndl_released_unix_ms = None\<rparr>)) in
      case current of
        None \<Rightarrow> advance (newest_generation previous_space_generations)
      | Some document \<Rightarrow>
          let lease = doc_lease document;
              mine = (ndl_daemon_id lease = daemon_id \<and> ndl_instance_id lease = instance_id) in
          if ndl_status lease \<noteq> DaemonReleased then
            if mine \<and> ndl_status lease = DaemonActive \<and> ndl_expires_unix_ms lease > now then Inr None
            else Inl (StoreConflict
              ((if mine then ''NODE_DAEMON_PREDECESSOR_SETTLEMENT_REQUIRED''
                else ''NODE_DAEMON_PREDECESSOR_RECOVERY_REQUIRED'')
               @ '': Node '' @ node_id @ '' generation '' @ show_word (ndl_generation lease) @ '' owned by daemon ''
               @ ndl_daemon_id lease @ '' instance '' @ ndl_instance_id lease @ '' is ''
               @ show_daemon_status (ndl_status lease) @ '', not explicitly Released''))
          else advance (ndl_generation lease))"

definition acquire_machine_lease ::
    "('z) lease_codec_scheme \<Rightarrow> unit store_result \<Rightarrow> u32 \<Rightarrow> u64 \<Rightarrow> string \<Rightarrow> string \<Rightarrow> string \<Rightarrow> u64 \<Rightarrow> u64 list
      \<Rightarrow> (node_dir, StoreError, NodeDaemonLease) action" where
  "acquire_machine_lease c lock pid clock_now node_id daemon_id instance_id ttl_ms previous_space_generations =
     write_machine_lease c lock pid clock_now node_id
       (acquire_decision node_id daemon_id instance_id ttl_ms previous_space_generations)"

definition renew_decision ::
    "string \<Rightarrow> string \<Rightarrow> u64 \<Rightarrow> string \<Rightarrow> u64 \<Rightarrow> NodeDaemonLeaseDocument option \<Rightarrow> u64
      \<Rightarrow> NodeDaemonLease option store_result" where
  "renew_decision node_id daemon_id generation instance_id ttl_ms current now =
     bindR (require_exact_generation current node_id daemon_id generation instance_id) (\<lambda>lease.
     bindR (reject_if (ndl_status lease \<noteq> DaemonActive \<or> ndl_expires_unix_ms lease \<le> now)
              (node_daemon_generation_fenced node_id (daemon_id @ '' generation '' @ show_word generation
                 @ '' no longer owns Node '' @ node_id))) (\<lambda>_.
     Inr (Some (lease\<lparr>ndl_renewed_unix_ms := now, ndl_expires_unix_ms := sat_add now (max ttl_ms 1)\<rparr>))))"

definition renew_machine_lease ::
    "('z) lease_codec_scheme \<Rightarrow> unit store_result \<Rightarrow> u32 \<Rightarrow> u64 \<Rightarrow> string \<Rightarrow> string \<Rightarrow> u64 \<Rightarrow> string \<Rightarrow> u64
      \<Rightarrow> (node_dir, StoreError, NodeDaemonLease) action" where
  "renew_machine_lease c lock pid clock_now node_id daemon_id generation instance_id ttl_ms =
     write_machine_lease c lock pid clock_now node_id (renew_decision node_id daemon_id generation instance_id ttl_ms)"

definition drain_decision ::
    "string \<Rightarrow> string \<Rightarrow> u64 \<Rightarrow> string \<Rightarrow> u64 \<Rightarrow> NodeDaemonLeaseDocument option \<Rightarrow> u64
      \<Rightarrow> NodeDaemonLease option store_result" where
  "drain_decision node_id daemon_id generation instance_id drain_ttl_ms current now =
     bindR (require_exact_generation current node_id daemon_id generation instance_id) (\<lambda>lease.
     if ndl_status lease = DaemonDraining then Inr None
     else
       bindR (reject_if (ndl_status lease \<noteq> DaemonActive)
                (node_daemon_generation_fenced node_id (''Node '' @ node_id
                   @ '' cannot enter predecessor settlement from '' @ show_daemon_status (ndl_status lease)))) (\<lambda>_.
       Inr (Some (lease\<lparr>ndl_status := DaemonDraining, ndl_renewed_unix_ms := now,
                        ndl_expires_unix_ms := sat_add now (max drain_ttl_ms 1)\<rparr>))))"

definition drain_machine_lease ::
    "('z) lease_codec_scheme \<Rightarrow> unit store_result \<Rightarrow> u32 \<Rightarrow> u64 \<Rightarrow> string \<Rightarrow> string \<Rightarrow> u64 \<Rightarrow> string \<Rightarrow> u64
      \<Rightarrow> (node_dir, StoreError, NodeDaemonLease) action" where
  "drain_machine_lease c lock pid clock_now node_id daemon_id generation instance_id drain_ttl_ms =
     write_machine_lease c lock pid clock_now node_id (drain_decision node_id daemon_id generation instance_id drain_ttl_ms)"

definition release_decision ::
    "string \<Rightarrow> string \<Rightarrow> u64 \<Rightarrow> string \<Rightarrow> NodeDaemonLeaseDocument option \<Rightarrow> u64
      \<Rightarrow> NodeDaemonLease option store_result" where
  "release_decision node_id daemon_id generation instance_id current now =
     bindR (require_exact_generation current node_id daemon_id generation instance_id) (\<lambda>lease.
     Inr (if ndl_status lease = DaemonReleased then None
          else Some (lease\<lparr>ndl_status := DaemonReleased, ndl_renewed_unix_ms := now, ndl_expires_unix_ms := now,
                           ndl_released_unix_ms := Some now\<rparr>)))"

definition release_machine_lease ::
    "('z) lease_codec_scheme \<Rightarrow> unit store_result \<Rightarrow> u32 \<Rightarrow> u64 \<Rightarrow> string \<Rightarrow> string \<Rightarrow> u64 \<Rightarrow> string
      \<Rightarrow> (node_dir, StoreError, NodeDaemonLease) action" where
  "release_machine_lease c lock pid clock_now node_id daemon_id generation instance_id =
     write_machine_lease c lock pid clock_now node_id (release_decision node_id daemon_id generation instance_id)"

section \<open>Who owns the machine\<close>

datatype MachineLeaseSource = NodeFile | LegacySpaceRow

definition authorizes_provider_effect :: "MachineLeaseSource \<Rightarrow> bool" where
  "authorizes_provider_effect self \<longleftrightarrow> self = NodeFile"

fun source_as_str :: "MachineLeaseSource \<Rightarrow> string" where
  "source_as_str NodeFile = ''node_file''"
| "source_as_str LegacySpaceRow = ''legacy_space_row''"

text \<open>\<^verbatim>\<open>latest_by_id(rows).remove(node_id)\<close>: the last row of the node.\<close>

definition latest_node_daemon_lease :: "NodeDaemonLease list \<Rightarrow> string \<Rightarrow> NodeDaemonLease option" where
  "latest_node_daemon_lease rows node_id = List.find (\<lambda>lease. ndl_node_id lease = node_id) (rev rows)"

text \<open>The directory is the outcome of \<^verbatim>\<open>node_home\<close>; the rows are the pre-cutover leases of the store.\<close>

definition current_machine_lease ::
    "('z) lease_codec_scheme \<Rightarrow> node_dir store_result \<Rightarrow> NodeDaemonLease list \<Rightarrow> string
      \<Rightarrow> (NodeDaemonLease \<times> MachineLeaseSource) option store_result" where
  "current_machine_lease c node_home legacy_rows node_id =
     bindR node_home (\<lambda>dir.
     bindR (read_lease_document c node_id dir) (\<lambda>document.
       Inr (case document of
              Some document \<Rightarrow> Some (doc_lease document, NodeFile)
            | None \<Rightarrow> map_option (\<lambda>lease. (lease, LegacySpaceRow)) (latest_node_daemon_lease legacy_rows node_id))))"

definition not_authoritative :: "string \<Rightarrow> MachineLeaseSource \<Rightarrow> StoreError" where
  "not_authoritative node_id source =
     machine_lease_unresolved node_id (''MACHINE_LEASE_NOT_AUTHORITATIVE: Node '' @ node_id @ '' resolved from ''
       @ source_as_str source
       @ '' and cannot authorize a provider effect; this Store predates the machine lease cutover'')"

definition authoritative_machine_lease ::
    "('z) lease_codec_scheme \<Rightarrow> node_dir store_result \<Rightarrow> NodeDaemonLease list \<Rightarrow> string \<Rightarrow> NodeDaemonLease store_result" where
  "authoritative_machine_lease c node_home legacy_rows node_id =
     bindR (current_machine_lease c node_home legacy_rows node_id) (\<lambda>current.
       case current of
         Some (lease, source) \<Rightarrow>
           if authorizes_provider_effect source then Inr lease else Inl (not_authoritative node_id source)
       | None \<Rightarrow> Inl (machine_lease_unresolved node_id
             (''MACHINE_LEASE_NOT_AUTHORITATIVE: Node '' @ node_id @ '' has no machine lease'')))"

definition current_authorized_machine_lease ::
    "('z) lease_codec_scheme \<Rightarrow> node_dir store_result \<Rightarrow> NodeDaemonLease list \<Rightarrow> string
      \<Rightarrow> NodeDaemonLease option store_result" where
  "current_authorized_machine_lease c node_home legacy_rows node_id =
     bindR (current_machine_lease c node_home legacy_rows node_id) (\<lambda>current.
       case current of
         Some (lease, source) \<Rightarrow>
           if authorizes_provider_effect source then Inr (Some lease) else Inl (not_authoritative node_id source)
       | None \<Rightarrow> Inr None)"

definition is_node_daemon_generation_fenced :: "StoreError \<Rightarrow> bool" where
  "is_node_daemon_generation_fenced self =
     (case trust_error_of self of
        Some error \<Rightarrow> ter_code error = NodeDaemonGenerationFenced
      | None \<Rightarrow> (case self of
            StoreConflict message \<Rightarrow> strip_prefix ''NODE_DAEMON_GENERATION_FENCED:'' message \<noteq> None
          | _ \<Rightarrow> False))"

lemma authoritative_Inr:
  "authoritative_machine_lease c node_home rows node_id = Inr lease \<longleftrightarrow>
     (\<exists>dir document. node_home = Inr dir \<and> read_lease_document c node_id dir = Inr (Some document)
        \<and> lease = doc_lease document)"
proof (cases node_home)
  case (Inr dir)
  show ?thesis
  proof (cases "read_lease_document c node_id dir")
    case (Inr current)
    then show ?thesis using \<open>node_home = Inr dir\<close>
      by (cases current; cases "latest_node_daemon_lease rows node_id")
        (auto simp: authoritative_machine_lease_def current_machine_lease_def authorizes_provider_effect_def)
  qed (simp add: Inr authoritative_machine_lease_def current_machine_lease_def)
qed (simp add: authoritative_machine_lease_def current_machine_lease_def)

end
