(* ===== verification/Lease_Properties.thy ===== *)
theory Lease_Properties
  imports Machine_Lease
begin

text \<open>
  What the machine lease guarantees: over any sequence of calls by any daemons, at any clock readings
  and with writes interrupted anywhere between and inside the two file operations, ownership moves
  forward and changes hands only after an explicit release; without interruptions the history answers
  exactly which generation was released.
\<close>

section \<open>Calls and interrupted calls\<close>

datatype lease_call =
    CallAcquire (call_daemon: string) (call_instance: string) (call_ttl: u64) (call_spaces: "u64 list")
  | CallRenew (call_daemon: string) (call_generation: u64) (call_instance: string) (call_ttl: u64)
  | CallDrain (call_daemon: string) (call_generation: u64) (call_instance: string) (call_ttl: u64)
  | CallRelease (call_daemon: string) (call_generation: u64) (call_instance: string)

fun lease_call_run ::
    "('z) lease_codec_scheme \<Rightarrow> unit store_result \<Rightarrow> u32 \<Rightarrow> u64 \<Rightarrow> string \<Rightarrow> lease_call
      \<Rightarrow> (node_dir, StoreError, NodeDaemonLease) action" where
  "lease_call_run c lock pid now node_id (CallAcquire daemon inst ttl spaces) =
     acquire_machine_lease c lock pid now node_id daemon inst ttl spaces"
| "lease_call_run c lock pid now node_id (CallRenew daemon generation inst ttl) =
     renew_machine_lease c lock pid now node_id daemon generation inst ttl"
| "lease_call_run c lock pid now node_id (CallDrain daemon generation inst ttl) =
     drain_machine_lease c lock pid now node_id daemon generation inst ttl"
| "lease_call_run c lock pid now node_id (CallRelease daemon generation inst) =
     release_machine_lease c lock pid now node_id daemon generation inst"

text \<open>
  A call that ends, and one that is stopped after the document was replaced: the history then holds
  what it held before and some part of the bytes the call was to append.
\<close>

inductive lease_step :: "('z) lease_codec_scheme \<Rightarrow> string \<Rightarrow> node_dir \<Rightarrow> node_dir \<Rightarrow> bool"
  for c :: "('z) lease_codec_scheme" and node_id :: string where
  call: "lease_step c node_id d (snd (lease_call_run c lock pid now node_id call d))"
| interrupted: "t = snd (lease_call_run c lock pid now node_id call d) \<Longrightarrow> length (history_bytes d) \<le> n
     \<Longrightarrow> lease_step c node_id d (t\<lparr>nd_history := Some (take n (history_bytes t))\<rparr>)"

inductive whole_step :: "('z) lease_codec_scheme \<Rightarrow> string \<Rightarrow> node_dir \<Rightarrow> node_dir \<Rightarrow> bool"
  for c :: "('z) lease_codec_scheme" and node_id :: string where
  whole: "whole_step c node_id d (snd (lease_call_run c lock pid now node_id call d))"

definition lease_codec_ok :: "('z) lease_codec_scheme \<Rightarrow> bool" where
  "lease_codec_ok c \<longleftrightarrow>
     (\<forall>d. decode_document c (encode_document c d @ [newline]) = Inr d)
     \<and> (\<forall>r. one_line (encode_row c r) \<and> \<not> blank (encode_row c r) \<and> strip_cr (encode_row c r) = encode_row c r
            \<and> decode_row c (encode_row c r) = Inr r)"

text \<open>The document a reader finds.\<close>

definition held :: "('z) lease_codec_scheme \<Rightarrow> string \<Rightarrow> node_dir \<Rightarrow> NodeDaemonLeaseDocument option" where
  "held c node_id d = (case read_lease_document c node_id d of Inr document \<Rightarrow> document | Inl _ \<Rightarrow> None)"

section \<open>One write\<close>

lemma held_replaced:
  assumes "lease_codec_ok c" and "require_document_belongs_here document node_id path = Inr ()"
  shows "held c node_id (d\<lparr>nd_document := Some (encode_document c document @ [newline])\<rparr>) = Some document"
  using assms by (auto simp: held_def read_lease_document_def lease_codec_ok_def require_document_belongs_here_def
      bindR_eq_Inr)

lemma held_alt:
  "held c node_id d =
     (case nd_document d of
        None \<Rightarrow> None
      | Some bytes \<Rightarrow>
          if bytes = [] then None
          else (case decode_document c bytes of
                  Inl _ \<Rightarrow> None
                | Inr document \<Rightarrow>
                    if doc_schema_version document > NODE_LEASE_DOCUMENT_SCHEMA_VERSION
                       \<or> ndl_node_id (doc_lease document) \<noteq> node_id
                    then None else Some document))"
  by (simp add: held_def read_lease_document_def require_document_belongs_here_def reject_if_def
      split: option.split sum.split)

lemma held_read: "held c node_id d = Some document \<Longrightarrow> read_lease_document c node_id d = Inr (Some document)"
  by (auto simp: held_def split: sum.splits)

lemma held_cong: "nd_document d = nd_document d' \<Longrightarrow> held c node_id d = held c node_id d'"
  by (simp add: held_alt)

lemma write_next_Inr:
  "write_next node_id pid next current now = Inr (document, kept) \<longleftrightarrow>
     (\<exists>lease. next current now = Inr (Some lease) \<and> document = document_new lease pid \<and> \<not> kept)
     \<or> next current now = Inr None \<and> current = Some document \<and> kept"
  by (cases "next current now"; cases current) (auto simp: write_next_def split: option.splits)

text \<open>
  The states a write can leave: the old one; the new document with the history as it was (kept, no
  transition, or the history could not be read); or the new document with its row.
\<close>

lemma write_cases:
  assumes w: "write_machine_lease c lock pid now node_id next d = (r, t)"
  obtains (unchanged) e where "r = Inl e" "t = d"
  | (published) current document kept where
      "lock = Inr ()" "read_lease_document c node_id d = Inr current"
      "write_next node_id pid next current now = Inr (document, kept)"
      "require_document_belongs_here document node_id (lease_document_path d) = Inr ()"
      "require_forward_only current document (nd_home d) = Inr ()"
      "t = atomic_replace c document d \<or> t = append_lease_history c document now (atomic_replace c document d)"
proof (cases "\<exists>x s. publish_lease_document c node_id now (write_next node_id pid next) d = (Inr x, s) \<and> lock = Inr ()")
  case True
  then obtain document kept s where
    p: "publish_lease_document c node_id now (write_next node_id pid next) d = (Inr (document, kept), s)"
    and l: "lock = Inr ()" by (metis surj_pair)
  from p obtain current where
    c: "read_lease_document c node_id d = Inr current" "write_next node_id pid next current now = Inr (document, kept)"
      "require_document_belongs_here document node_id (lease_document_path d) = Inr ()"
      "require_forward_only current document (nd_home d) = Inr ()" "s = atomic_replace c document d"
    by (auto simp: publish_lease_document_def check_eq_Inr split: prod.splits)
  have "t = s \<or> t = append_lease_history c document now s"
    using w p l unfolding write_machine_lease_def
    by (cases "read_lease_history_tail c s") (auto simp: andThen_def split: if_splits)
  then show thesis using published [OF l c(1-4)] c(5) by blast
next
  case False
  have "fst (publish_lease_document c node_id now (write_next node_id pid next) d) = Inl e
      \<Longrightarrow> snd (publish_lease_document c node_id now (write_next node_id pid next) d) = d" for e
    by (auto simp: publish_lease_document_def check_def split: sum.splits prod.splits)
  moreover obtain x s where "publish_lease_document c node_id now (write_next node_id pid next) d = (x, s)"
    by fastforce
  ultimately show thesis
    using w False unchanged unfolding write_machine_lease_def
    by (cases lock; cases x) (auto simp: andThen_def)
qed

section \<open>Decisions\<close>

fun lease_decision ::
    "string \<Rightarrow> lease_call \<Rightarrow> NodeDaemonLeaseDocument option \<Rightarrow> u64 \<Rightarrow> NodeDaemonLease option store_result" where
  "lease_decision node_id (CallAcquire daemon inst ttl spaces) current now =
     acquire_decision node_id daemon inst ttl spaces current now"
| "lease_decision node_id (CallRenew daemon generation inst ttl) current now =
     renew_decision node_id daemon generation inst ttl current now"
| "lease_decision node_id (CallDrain daemon generation inst ttl) current now =
     drain_decision node_id daemon generation inst ttl current now"
| "lease_decision node_id (CallRelease daemon generation inst) current now =
     release_decision node_id daemon generation inst current now"

lemma lease_call_run_write:
  "lease_call_run c lock pid now node_id call
     = write_machine_lease c lock pid now node_id (lease_decision node_id call)"
proof -
  have "lease_decision node_id call = (\<lambda>current now. lease_decision node_id call current now)" by simp
  then show ?thesis
    by (cases call) (simp_all add: acquire_machine_lease_def renew_machine_lease_def drain_machine_lease_def
        release_machine_lease_def)
qed

fun status_rank :: "NodeDaemonLeaseStatus \<Rightarrow> nat" where
  "status_rank DaemonActive = 0"
| "status_rank DaemonDraining = 1"
| "status_rank DaemonReleased = 2"

lemma status_rank_le [simp]: "status_rank s \<le> 2"
  by (cases s) auto

lemma status_rank_released: "2 \<le> status_rank s \<longleftrightarrow> s = DaemonReleased"
  by (cases s) auto

text \<open>
  A later lease: of a larger generation; or of the same one, then with the same owner, a status that
  has not gone back, and while the status is the same an expiry that has not either.
\<close>

definition lease_forward :: "NodeDaemonLease \<Rightarrow> NodeDaemonLease \<Rightarrow> bool" where
  "lease_forward l l' \<longleftrightarrow>
     ndl_generation l < ndl_generation l'
     \<or> ndl_generation l = ndl_generation l' \<and> ndl_daemon_id l = ndl_daemon_id l' \<and> ndl_instance_id l = ndl_instance_id l'
       \<and> ndl_acquired_unix_ms l = ndl_acquired_unix_ms l' \<and> status_rank (ndl_status l) \<le> status_rank (ndl_status l')
       \<and> (ndl_status l = ndl_status l' \<longrightarrow> ndl_expires_unix_ms l \<le> ndl_expires_unix_ms l')"

lemma lease_forward_refl [simp]: "lease_forward l l"
  by (simp add: lease_forward_def)

lemma lease_forward_trans: "lease_forward l l' \<Longrightarrow> lease_forward l' l'' \<Longrightarrow> lease_forward l l''"
proof -
  have "status_rank x \<le> status_rank y \<Longrightarrow> status_rank y \<le> status_rank x \<Longrightarrow> x = y" for x y
    by (cases x; cases y) auto
  moreover assume "lease_forward l l'" "lease_forward l' l''"
  ultimately show ?thesis
    unfolding lease_forward_def by (smt (verit) dual_order.trans less_trans)
qed

lemma plus_one_greater: "(g :: 'a::len word) \<noteq> - 1 \<Longrightarrow> g < g + 1"
proof -
  assume g: "g \<noteq> - 1"
  have "unat g \<noteq> 2 ^ LENGTH('a) - 1" using g by (metis unat_max_word word_unat_eq_iff)
  moreover have "unat g < 2 ^ LENGTH('a)" by simp
  ultimately have "unat g + 1 < 2 ^ LENGTH('a)" by linarith
  then show ?thesis by (simp add: word_less_nat_alt unat_word_ariths)
qed

lemma decision_Some:
  assumes "lease_decision node_id call (Some document) now = Inr (Some lease)"
    and "require_forward_only (Some document) (document_new lease pid) home = Inr ()"
  shows "lease_forward (doc_lease document) lease
    \<and> (ndl_generation lease \<noteq> ndl_generation (doc_lease document) \<longrightarrow>
        ndl_status (doc_lease document) = DaemonReleased \<and> ndl_generation lease = ndl_generation (doc_lease document) + 1)"
  using assms
  by (cases call)
    (auto simp: acquire_decision_def renew_decision_def drain_decision_def release_decision_def
      require_exact_generation_def require_forward_only_def document_new_def Let_def bindR_eq_Inr lease_forward_def
      plus_one_greater split: if_splits)

section \<open>Runs\<close>

text \<open>A step keeps the document or replaces it by what a decision gave.\<close>

lemma call_held:
  assumes c: "lease_codec_ok c" and t: "t = snd (lease_call_run c lock pid now node_id call d)"
  obtains (kept) "held c node_id t = held c node_id d"
  | (moved) lease where "lease_decision node_id call (held c node_id d) now = Inr (Some lease)"
      "require_forward_only (held c node_id d) (document_new lease pid) (nd_home d) = Inr ()"
      "held c node_id t = Some (document_new lease pid)"
proof -
  obtain r where "write_machine_lease c lock pid now node_id (lease_decision node_id call) d = (r, t)"
    using t unfolding lease_call_run_write by (metis prod.collapse)
  then show thesis
  proof (cases rule: write_cases)
    case unchanged
    then show thesis using kept by simp
  next
    case (published current document kept')
    have current: "held c node_id d = current" using published(2) by (simp add: held_def)
    have "held c node_id t = held c node_id (atomic_replace c document d)"
      using published(6) by (intro held_cong) (auto simp: append_lease_history_def)
    then have t: "held c node_id t = Some document"
      using held_replaced [OF c published(4)] by (simp add: atomic_replace_def)
    from published(3) consider
      lease where "lease_decision node_id call current now = Inr (Some lease)" "document = document_new lease pid"
      | "current = Some document" unfolding write_next_Inr by blast
    then show thesis
    proof cases
      case 1
      then show thesis using moved published(5) t current by metis
    next
      case 2
      then show thesis using kept t current by simp
    qed
  qed
qed

definition document_forward :: "('z) lease_codec_scheme \<Rightarrow> string \<Rightarrow> node_dir \<Rightarrow> node_dir \<Rightarrow> bool" where
  "document_forward c node_id d d' \<longleftrightarrow>
     (\<forall>document. held c node_id d = Some document \<longrightarrow>
        (\<exists>document'. held c node_id d' = Some document' \<and> lease_forward (doc_lease document) (doc_lease document')))"

lemma step_call:
  assumes "lease_step c node_id d d'"
  obtains lock pid now call where
    "held c node_id d' = held c node_id (snd (lease_call_run c lock pid now node_id call d))"
  using assms
proof cases
  case (call lock pid now call)
  then show thesis using that by blast
next
  case (interrupted t lock pid now call n)
  have "held c node_id d' = held c node_id t" using interrupted(1) by (intro held_cong) simp
  then show thesis using that interrupted(2) by blast
qed

lemma step_moves:
  assumes c: "lease_codec_ok c" and s: "lease_step c node_id d d'" and h: "held c node_id d = Some document"
  obtains document' where "held c node_id d' = Some document'" "lease_forward (doc_lease document) (doc_lease document')"
    "ndl_generation (doc_lease document') \<noteq> ndl_generation (doc_lease document) \<longrightarrow>
       ndl_status (doc_lease document) = DaemonReleased
       \<and> ndl_generation (doc_lease document') = ndl_generation (doc_lease document) + 1"
proof -
  from s obtain lock pid now call where
    d': "held c node_id d' = held c node_id (snd (lease_call_run c lock pid now node_id call d))" by (rule step_call)
  show thesis
  proof (rule call_held [OF c refl, of node_id lock pid now call d])
    assume "held c node_id (snd (lease_call_run c lock pid now node_id call d)) = held c node_id d"
    then show thesis using that d' h by simp
  next
    fix lease
    assume l: "lease_decision node_id call (held c node_id d) now = Inr (Some lease)"
      "require_forward_only (held c node_id d) (document_new lease pid) (nd_home d) = Inr ()"
      "held c node_id (snd (lease_call_run c lock pid now node_id call d)) = Some (document_new lease pid)"
    show thesis
      using that [of "document_new lease pid"] decision_Some [of node_id call document now lease pid "nd_home d"] l d' h
      by (simp add: document_new_def)
  qed
qed

interpretation lease: monotone_system "\<lambda>_. lease_codec_ok c" "lease_step c node_id" "\<lambda>_. lease_codec_ok c"
    "document_forward c node_id" for c node_id
proof
  show "document_forward c node_id s s" for s
    by (simp add: document_forward_def)
  show "document_forward c node_id s u" if "document_forward c node_id s t" "document_forward c node_id t u" for s t u
    using that lease_forward_trans unfolding document_forward_def by blast
  show "document_forward c node_id s t" if "lease_codec_ok c" "lease_step c node_id s t" for s t
    using step_moves [OF that] unfolding document_forward_def by metis
qed

section \<open>Ownership\<close>

text \<open>
  C15. A machine generation has one owner, and ownership only moves forward. Whatever calls any daemons
  make, at whatever clock readings, and however their writes are interrupted: a document that is held
  is followed by a document of a larger generation, or of the same generation with the same daemon,
  instance and time of acquisition, a status that has not gone back (active, draining, released), and,
  while the status is the same, an expiry that has not been shortened. A generation changes only from
  one that was explicitly released, which was then held on the way.
\<close>

theorem machine_generation_has_one_owner:
  assumes "lease_codec_ok c" and run: "(lease_step c node_id)\<^sup>*\<^sup>* d d'" and "held c node_id d = Some document"
  shows "\<exists>document'. held c node_id d' = Some document' \<and> lease_forward (doc_lease document) (doc_lease document')
    \<and> (ndl_generation (doc_lease document') \<noteq> ndl_generation (doc_lease document) \<longrightarrow>
        (\<exists>m released. (lease_step c node_id)\<^sup>*\<^sup>* d m \<and> (lease_step c node_id)\<^sup>*\<^sup>* m d' \<and> held c node_id m = Some released
           \<and> ndl_generation (doc_lease released) = ndl_generation (doc_lease document)
           \<and> ndl_status (doc_lease released) = DaemonReleased))"
proof -
  from lease.run_rel [OF run assms(1)] assms(3) obtain document' where
    d': "held c node_id d' = Some document'" "lease_forward (doc_lease document) (doc_lease document')"
    unfolding document_forward_def by blast
  have "\<exists>m released. (lease_step c node_id)\<^sup>*\<^sup>* d m \<and> (lease_step c node_id)\<^sup>*\<^sup>* m d' \<and> held c node_id m = Some released
           \<and> ndl_generation (doc_lease released) = ndl_generation (doc_lease document)
           \<and> ndl_status (doc_lease released) = DaemonReleased"
    if "ndl_generation (doc_lease document') \<noteq> ndl_generation (doc_lease document)"
    using run d'(1) that
  proof (induction arbitrary: document' rule: rtranclp_induct)
    case base
    then show ?case using assms(3) by simp
  next
    case (step t u)
    from lease.run_rel [OF step.hyps(1) assms(1)] assms(3) obtain x where
      x: "held c node_id t = Some x" unfolding document_forward_def by blast
    show ?case
    proof (cases "ndl_generation (doc_lease x) = ndl_generation (doc_lease document)")
      case True
      have "ndl_status (doc_lease x) = DaemonReleased"
        using step_moves [OF assms(1) step.hyps(2) x] step.prems True by (metis option.inject)
      then show ?thesis using step.hyps x True by (meson r_into_rtranclp)
    next
      case False
      then show ?thesis using step.IH [OF x] step.hyps(2) by (meson rtranclp.rtrancl_into_rtrancl)
    qed
  qed
  then show ?thesis using d' by blast
qed

lemma exact_generation_fenced:
  assumes "ndl_generation (doc_lease document) \<noteq> generation"
  shows "require_exact_generation (Some document) node_id daemon generation inst
    = Inl (node_daemon_generation_fenced node_id (''stale daemon cannot write Node '' @ node_id))"
  using assms by (simp add: require_exact_generation_def)

lemma write_refused:
  assumes "read_lease_document c node_id d = Inr current" and "next current now = Inl e"
  shows "write_machine_lease c (Inr ()) pid now node_id next d = (Inl e, d)"
  using assms by (simp add: write_machine_lease_def andThen_def publish_lease_document_def write_next_def)

lemma superseded_stays:
  assumes "lease_codec_ok c" and "(lease_step c node_id)\<^sup>*\<^sup>* d d'" and "(lease_step c node_id)\<^sup>*\<^sup>* d' d''"
    and "held c node_id d = Some document" and "held c node_id d' = Some document'"
    and "ndl_generation (doc_lease document') \<noteq> ndl_generation (doc_lease document)"
  shows "\<exists>document''. held c node_id d'' = Some document''
    \<and> ndl_generation (doc_lease document'') \<noteq> ndl_generation (doc_lease document)"
proof -
  have "ndl_generation (doc_lease document) < ndl_generation (doc_lease document')"
    using lease.run_rel [OF assms(2,1)] assms(4-6) by (auto simp: document_forward_def lease_forward_def)
  moreover obtain document'' where "held c node_id d'' = Some document''"
    "lease_forward (doc_lease document') (doc_lease document'')"
    using lease.run_rel [OF assms(3,1)] assms(5) unfolding document_forward_def by blast
  ultimately show ?thesis by (auto simp: lease_forward_def)
qed

text \<open>
  C16. A daemon that has lost the machine is fenced for good. When a later document has another
  generation than the one a daemon was given, renewing, draining and releasing with the old generation
  are all refused as generation-fenced and change nothing, in every state after that.
\<close>

theorem superseded_daemon_fenced:
  assumes "lease_codec_ok c" and "(lease_step c node_id)\<^sup>*\<^sup>* d d'" and "(lease_step c node_id)\<^sup>*\<^sup>* d' d''"
    and "held c node_id d = Some document" and "held c node_id d' = Some document'"
    and "ndl_generation (doc_lease document') \<noteq> ndl_generation (doc_lease document)"
  shows "\<exists>e. is_node_daemon_generation_fenced e
    \<and> renew_machine_lease c (Inr ()) pid now node_id daemon (ndl_generation (doc_lease document)) inst ttl d'' = (Inl e, d'')
    \<and> drain_machine_lease c (Inr ()) pid now node_id daemon (ndl_generation (doc_lease document)) inst ttl d'' = (Inl e, d'')
    \<and> release_machine_lease c (Inr ()) pid now node_id daemon (ndl_generation (doc_lease document)) inst d'' = (Inl e, d'')"
proof -
  obtain document'' where d'': "held c node_id d'' = Some document''"
    and newer: "ndl_generation (doc_lease document'') \<noteq> ndl_generation (doc_lease document)"
    using superseded_stays [OF assms] by blast
  have read: "read_lease_document c node_id d'' = Inr (Some document'')"
    using d'' by (rule held_read)
  let ?e = "node_daemon_generation_fenced node_id (''stale daemon cannot write Node '' @ node_id)"
  have "is_node_daemon_generation_fenced ?e"
    by (simp add: is_node_daemon_generation_fenced_def node_daemon_generation_fenced_def trust_error_def trust_error_of_def)
  then show ?thesis
    unfolding renew_machine_lease_def drain_machine_lease_def release_machine_lease_def
    by (intro exI [of _ ?e] conjI write_refused [OF read])
      (simp_all add: renew_decision_def drain_decision_def release_decision_def exact_generation_fenced [OF newer])
qed

section \<open>The history without interruptions\<close>

definition history_of :: "('z) lease_codec_scheme \<Rightarrow> node_dir \<Rightarrow> NodeDaemonLeaseHistoryRow list \<Rightarrow> bool" where
  "history_of c d rows \<longleftrightarrow> history_bytes d = unlines (map (encode_row c) rows)"

lemma read_history:
  assumes "lease_codec_ok c" and "history_of c d rows"
  shows "read_lease_history c d = Inr rows"
proof -
  let ?decode = "\<lambda>line. map_err (\<lambda>error. document_invalid (lease_history_path d
                  @ '' holds an undecodable history row: '' @ error)) (decode_row c (strip_cr line))"
  have "read_rows (\<lambda>line. blank (strip_cr line)) ?decode (unlines (map (encode_row c) rows)) = Inr rows"
    using assms(1) by (intro read_rows_written) (auto simp: lease_codec_ok_def)
  then show ?thesis using assms(2) by (simp add: read_lease_history_def history_of_def)
qed

lemma history_append:
  "history_of c d rows \<Longrightarrow> history_of c (append_lease_history c document now d) (rows @ [history_row document now])"
  by (simp add: history_of_def append_lease_history_def history_bytes_def)

lemma history_of_replace: "history_of c (atomic_replace c document d) rows \<longleftrightarrow> history_of c d rows"
  by (simp add: history_of_def atomic_replace_def history_bytes_def)

text \<open>The history ends with the transition that led to the held document.\<close>

definition transition_of :: "NodeDaemonLease \<Rightarrow> string \<times> string \<times> u64 \<times> NodeDaemonLeaseStatus" where
  "transition_of l = (ndl_node_id l, ndl_daemon_id l, ndl_generation l, ndl_status l)"

definition history_current :: "('z) lease_codec_scheme \<Rightarrow> string \<Rightarrow> node_dir \<Rightarrow> NodeDaemonLeaseHistoryRow list \<Rightarrow> bool" where
  "history_current c node_id d rows \<longleftrightarrow>
     history_of c d rows \<and> (\<exists>current. read_lease_document c node_id d = Inr current)
     \<and> (case held c node_id d of
          None \<Rightarrow> rows = []
        | Some document \<Rightarrow> rows \<noteq> [] \<and> transition_of (row_lease (last rows)) = transition_of (doc_lease document))"

lemma whole_is_step: "whole_step c node_id d d' \<Longrightarrow> lease_step c node_id d d'"
  by (auto elim: whole_step.cases intro: lease_step.call)

lemma whole_run: "(whole_step c node_id)\<^sup>*\<^sup>* d d' \<Longrightarrow> (lease_step c node_id)\<^sup>*\<^sup>* d d'"
  using whole_is_step by (metis mono_rtranclp)

lemma decision_node:
  assumes "lease_decision node_id call current now = Inr (Some lease)"
    and "\<And>document. current = Some document \<Longrightarrow> ndl_node_id (doc_lease document) = node_id"
  shows "ndl_node_id lease = node_id"
  using assms
  by (cases call; cases current)
    (auto simp: acquire_decision_def renew_decision_def drain_decision_def release_decision_def
      require_exact_generation_def Let_def bindR_eq_Inr split: if_splits)

lemma held_node: "held c node_id d = Some document \<Longrightarrow> ndl_node_id (doc_lease document) = node_id"
  by (auto simp: held_alt split: option.splits sum.splits if_splits)

lemma write_published:
  assumes "lease_codec_ok c" and "history_of c d rows"
    and "read_lease_document c node_id d = Inr current" and "write_next node_id pid next current now = Inr (document, kept)"
    and "require_document_belongs_here document node_id (lease_document_path d) = Inr ()"
    and "require_forward_only current document (nd_home d) = Inr ()"
  shows "write_machine_lease c (Inr ()) pid now node_id next d =
    (Inr (doc_lease document),
     if kept \<or> rows \<noteq> [] \<and> ndl_generation (row_lease (last rows)) = ndl_generation (doc_lease document)
               \<and> ndl_status (row_lease (last rows)) = ndl_status (doc_lease document)
     then atomic_replace c document d
     else append_lease_history c document now (atomic_replace c document d))"
proof -
  have "read_lease_history_tail c (atomic_replace c document d)
      = Inr (if rows = [] then None else Some (row_lease (last rows)))"
    using read_history [OF assms(1), of "atomic_replace c document d" rows] assms(2)
    by (simp add: read_lease_history_tail_def history_of_replace)
  then show ?thesis
    using assms(3-6) by (auto simp: write_machine_lease_def andThen_def publish_lease_document_def)
qed

text \<open>A call adds the row of the document it leaves, or leaves the history alone.\<close>

lemma history_step:
  assumes c: "lease_codec_ok c" and i: "history_current c node_id d rows"
    and t: "t = snd (lease_call_run c lock pid now node_id call d)"
  shows "history_current c node_id t rows
    \<or> (\<exists>document. held c node_id t = Some document \<and> history_current c node_id t (rows @ [history_row document now]))"
proof -
  obtain r where w: "write_machine_lease c lock pid now node_id (lease_decision node_id call) d = (r, t)"
    using t unfolding lease_call_run_write by (metis prod.collapse)
  from w show ?thesis
  proof (cases rule: write_cases)
    case unchanged
    then show ?thesis using i by simp
  next
    case (published current document kept)
    let ?p = "atomic_replace c document d"
    have h: "history_of c d rows" and cur: "held c node_id d = current"
      using i published(2) by (simp_all add: history_current_def held_def)
    have p: "held c node_id ?p = Some document"
      using held_replaced [OF c published(4)] by (simp add: atomic_replace_def)
    then have a: "held c node_id (append_lease_history c document now ?p) = Some document"
      using held_cong [of "append_lease_history c document now ?p" ?p c node_id] by (simp add: append_lease_history_def)
    let ?same = "kept \<or> rows \<noteq> [] \<and> ndl_generation (row_lease (last rows)) = ndl_generation (doc_lease document)
               \<and> ndl_status (row_lease (last rows)) = ndl_status (doc_lease document)"
    have t': "t = (if ?same then ?p else append_lease_history c document now ?p)"
      using write_published [OF c h published(2-5)] w published(1) by simp
    show ?thesis
    proof (cases ?same)
      case False
      then have tt: "t = append_lease_history c document now ?p" using t' by (simp only: if_False)
      have "history_current c node_id t (rows @ [history_row document now])"
        using tt a held_read [OF a] history_append [of c ?p rows document now] h
        by (simp add: history_current_def history_of_replace history_row_def)
      then show ?thesis using tt a by auto
    next
      case True
      have "rows \<noteq> [] \<and> transition_of (row_lease (last rows)) = transition_of (doc_lease document)"
      proof (cases "current = Some document")
        case True
        then show ?thesis using i cur by (simp add: history_current_def)
      next
        case False
        then obtain lease where l: "lease_decision node_id call current now = Inr (Some lease)" "document = document_new lease pid"
          "rows \<noteq> []" "ndl_generation (row_lease (last rows)) = ndl_generation (doc_lease document)"
          "ndl_status (row_lease (last rows)) = ndl_status (doc_lease document)"
          using True published(3) unfolding write_next_Inr by blast
        from i l(3) cur obtain x where x: "current = Some x"
          "transition_of (row_lease (last rows)) = transition_of (doc_lease x)"
          by (auto simp: history_current_def split: option.splits)
        have "lease_forward (doc_lease x) lease"
          using decision_Some [of node_id call x now lease pid "nd_home d"] l(1,2) published(5) x(1) by simp
        then show ?thesis
          using l(2-5) x cur held_node [of c node_id d x] decision_node [OF l(1)]
          by (auto simp: transition_of_def lease_forward_def document_new_def)
      qed
      moreover have "t = ?p" using t' True by (simp only: if_True)
      ultimately show ?thesis using p held_read [OF p] h by (simp add: history_current_def history_of_replace)
    qed
  qed
qed

text \<open>Every row is a transition that was held on the way, in order; every held document has its row.\<close>

definition history_tracks :: "('z) lease_codec_scheme \<Rightarrow> string \<Rightarrow> node_dir list \<Rightarrow> NodeDaemonLeaseHistoryRow list \<Rightarrow> bool" where
  "history_tracks c node_id path rows \<longleftrightarrow>
     history_current c node_id (last path) rows
     \<and> (\<forall>r \<in> set rows. \<exists>m \<in> set path. \<exists>x. held c node_id m = Some x \<and> row_lease r = doc_lease x)
     \<and> (\<forall>m \<in> set path. \<forall>x. held c node_id m = Some x \<longrightarrow>
          transition_of (doc_lease x) \<in> (\<lambda>r. transition_of (row_lease r)) ` set rows)
     \<and> sorted_wrt (\<lambda>r r'. lease_forward (row_lease r) (row_lease r')) rows"

lemma path_run:
  "successively (whole_step c node_id) path \<Longrightarrow> m \<in> set path \<Longrightarrow> (lease_step c node_id)\<^sup>*\<^sup>* m (last path)"
proof (induction path rule: rev_induct)
  case (snoc d path)
  then show ?case
    by (cases "path = []") (auto simp: successively_append_iff dest: whole_is_step intro: rtranclp.rtrancl_into_rtrancl)
qed simp

lemma path_forward:
  assumes "lease_codec_ok c" "successively (whole_step c node_id) path" "m \<in> set path"
    and "held c node_id m = Some x" "held c node_id (last path) = Some y"
  shows "lease_forward (doc_lease x) (doc_lease y)"
  using lease.run_rel [OF path_run [OF assms(2,3)] assms(1)] assms(4,5) by (auto simp: document_forward_def)

lemma current_has_row:
  "history_current c node_id d rows \<Longrightarrow> held c node_id d = Some x
     \<Longrightarrow> transition_of (doc_lease x) \<in> (\<lambda>r. transition_of (row_lease r)) ` set rows"
  by (auto simp: history_current_def image_iff) (metis last_in_set)

lemma history_path:
  assumes c: "lease_codec_ok c" and "path \<noteq> []" and "nd_document (hd path) = None" "nd_history (hd path) = None"
    and "successively (whole_step c node_id) path"
  shows "\<exists>rows. history_tracks c node_id path rows"
  using assms(2-)
proof (induction path rule: rev_induct)
  case (snoc d path)
  show ?case
  proof (cases "path = []")
    case True
    then have "history_tracks c node_id (path @ [d]) []"
      using snoc.prems by (simp add: history_tracks_def history_current_def history_of_def history_bytes_def
          read_lease_document_def held_alt)
    then show ?thesis by blast
  next
    case False
    then have path: "successively (whole_step c node_id) path" "whole_step c node_id (last path) d"
      using snoc.prems(4) by (auto simp: successively_append_iff)
    obtain rows where rows: "history_tracks c node_id path rows" using snoc.IH path(1) snoc.prems False by auto
    from path(2) obtain lock pid now call where
      d: "d = snd (lease_call_run c lock pid now node_id call (last path))" by cases
    have old: "\<exists>m \<in> set (path @ [d]). \<exists>x. held c node_id m = Some x \<and> row_lease r = doc_lease x" if "r \<in> set rows" for r
      using rows that by (auto simp: history_tracks_def)
    have seen: "transition_of (doc_lease x) \<in> (\<lambda>r. transition_of (row_lease r)) ` set rows"
      if "m \<in> set path" "held c node_id m = Some x" for m x
      using rows that unfolding history_tracks_def by blast
    from history_step [OF c _ d, of rows] rows consider
      "history_current c node_id d rows"
      | x where "held c node_id d = Some x" "history_current c node_id d (rows @ [history_row x now])"
      unfolding history_tracks_def by blast
    then show ?thesis
    proof cases
      case 1
      have "history_tracks c node_id (path @ [d]) rows"
        unfolding history_tracks_def using 1 rows old seen current_has_row [OF 1] by (auto simp: history_tracks_def)
      then show ?thesis by blast
    next
      case (2 x)
      have "lease_forward (row_lease r) (row_lease (history_row x now))" if r: "r \<in> set rows" for r
      proof -
        obtain m y where m: "m \<in> set (path @ [d])" "held c node_id m = Some y" "row_lease r = doc_lease y"
          using old [OF r] by blast
        then show ?thesis
          using path_forward [OF c snoc.prems(4) m(1,2), of x] 2(1) by (simp add: history_row_def)
      qed
      then have "history_tracks c node_id (path @ [d]) (rows @ [history_row x now])"
        unfolding history_tracks_def using 2 rows old seen
        by (auto simp: history_tracks_def sorted_wrt_append history_row_def)
      then show ?thesis by blast
    qed
  qed
qed simp

lemma find_rev_Some:
  "List.find P (rev xs) = Some r \<Longrightarrow> \<exists>ys zs. xs = ys @ r # zs \<and> P r \<and> (\<forall>z \<in> set zs. \<not> P z)"
proof (induction xs rule: rev_induct)
  case (snoc x xs)
  show ?case
  proof (cases "P x")
    case False
    then obtain ys zs where "xs = ys @ r # zs" "P r" "\<forall>z \<in> set zs. \<not> P z" using snoc by auto
    then have "xs @ [x] = ys @ r # (zs @ [x])" "P r" "\<forall>z \<in> set (zs @ [x]). \<not> P z" using False by auto
    then show ?thesis by blast
  next
    case True
    then have "xs @ [x] = xs @ r # []" "P r" using snoc.prems by auto
    then show ?thesis by (metis empty_iff list.set(1))
  qed
qed simp

text \<open>The newest row of a generation is a release exactly when one of the documents on the way was.\<close>

lemma newest_row_released:
  fixes daemon :: string and generation :: u64
  assumes rows: "history_tracks c node_id path rows"
  defines "match \<equiv> matches_generation node_id daemon generation"
  shows "(case List.find (\<lambda>row. match (row_lease row)) (rev rows) of
      None \<Rightarrow> False | Some row \<Rightarrow> ndl_status (row_lease row) = DaemonReleased)
    \<longleftrightarrow> (\<exists>m \<in> set path. \<exists>x. held c node_id m = Some x \<and> match (doc_lease x) \<and> ndl_status (doc_lease x) = DaemonReleased)"
    (is "_ \<longleftrightarrow> ?released")
proof (cases "List.find (\<lambda>row. match (row_lease row)) (rev rows)")
  case None
  then have none: "\<not> match (row_lease r)" if "r \<in> set rows" for r using that by (auto simp: find_None_iff)
  have "\<not> match (doc_lease x)" if m: "m \<in> set path" "held c node_id m = Some x" for m x
  proof -
    obtain r where "r \<in> set rows" "transition_of (doc_lease x) = transition_of (row_lease r)"
      using rows m unfolding history_tracks_def by blast
    then show ?thesis using none [of r] by (simp add: transition_of_def match_def matches_generation_def)
  qed
  then show ?thesis using None by auto
next
  case (Some r)
  then obtain ys zs where split: "rows = ys @ r # zs" "match (row_lease r)" "\<forall>z \<in> set zs. \<not> match (row_lease z)"
    by (auto dest: find_rev_Some)
  have "ndl_status (row_lease r) = DaemonReleased"
    if m: "m \<in> set path" "held c node_id m = Some x" "match (doc_lease x)" "ndl_status (doc_lease x) = DaemonReleased" for m x
  proof -
    obtain r' where r': "r' \<in> set rows" "transition_of (doc_lease x) = transition_of (row_lease r')"
      using rows m(1,2) unfolding history_tracks_def by blast
    then have s': "match (row_lease r')" "ndl_status (row_lease r') = DaemonReleased"
      using m(3,4) by (auto simp: transition_of_def match_def matches_generation_def)
    have "sorted_wrt (\<lambda>r r'. lease_forward (row_lease r) (row_lease r')) rows" using rows by (simp add: history_tracks_def)
    then have "lease_forward (row_lease r') (row_lease r)"
      using split r'(1) s'(1) by (auto simp: sorted_wrt_append)
    then show ?thesis
      using s' split(2) status_rank_released [of "ndl_status (row_lease r)"]
      by (auto simp: lease_forward_def match_def matches_generation_def)
  qed
  moreover have "?released" if "ndl_status (row_lease r) = DaemonReleased"
  proof -
    have "r \<in> set rows" using split(1) by simp
    then obtain m x where "m \<in> set path" "held c node_id m = Some x" "row_lease r = doc_lease x"
      using rows unfolding history_tracks_def by blast
    then show ?thesis using that split(2) by auto
  qed
  ultimately show ?thesis using Some by auto
qed

text \<open>
  C17. Without interruptions the release receipt is exact. After any sequence of calls on a node directory
  that started empty, asking whether a generation of a daemon was released never fails and is answered
  with yes exactly when a document with that daemon and generation and the status released was held
  somewhere along the way, no matter how many generations followed.
\<close>

theorem release_receipt_exact:
  assumes c: "lease_codec_ok c" and "path \<noteq> []" and "nd_document (hd path) = None" "nd_history (hd path) = None"
    and path: "successively (whole_step c node_id) path"
  shows "generation_was_released c node_id daemon generation (last path) =
    Inr (\<exists>m \<in> set path. \<exists>x. held c node_id m = Some x \<and> matches_generation node_id daemon generation (doc_lease x)
           \<and> ndl_status (doc_lease x) = DaemonReleased)"
    (is "_ = Inr ?released")
proof -
  let ?match = "matches_generation node_id daemon generation"
  obtain rows where rows: "history_tracks c node_id path rows" using history_path [OF assms] by blast
  then have cur: "history_current c node_id (last path) rows" by (simp add: history_tracks_def)
  have hist: "read_lease_history c (last path) = Inr rows"
    using cur by (intro read_history [OF c]) (simp add: history_current_def)
  note last_row = newest_row_released [OF rows, of daemon generation]
  show ?thesis
  proof (cases "held c node_id (last path)")
    case None
    then have "read_lease_document c node_id (last path) = Inr None"
      using cur by (auto simp: history_current_def held_def)
    then show ?thesis using hist last_row by (simp add: generation_was_released_def)
  next
    case (Some x)
    have "ndl_status (doc_lease x) = DaemonReleased \<longleftrightarrow> ?released" if match: "?match (doc_lease x)"
    proof
      show ?released if "ndl_status (doc_lease x) = DaemonReleased"
        using that match Some \<open>path \<noteq> []\<close> last_in_set by blast
      assume ?released
      then obtain m y where m: "m \<in> set path" "held c node_id m = Some y" "?match (doc_lease y)"
        "ndl_status (doc_lease y) = DaemonReleased" by blast
      then show "ndl_status (doc_lease x) = DaemonReleased"
        using path_forward [OF c path m(1,2) Some] match status_rank_released [of "ndl_status (doc_lease x)"]
        by (auto simp: lease_forward_def matches_generation_def)
    qed
    then show ?thesis using hist last_row held_read [OF Some] by (simp add: generation_was_released_def)
  qed
qed

section \<open>The history after an interruption\<close>

text \<open>Part of a row, which is not a row, nor is it one together with a row that follows it.\<close>

definition torn_row :: "('z) lease_codec_scheme \<Rightarrow> bytes \<Rightarrow> bool" where
  "torn_row c torn \<longleftrightarrow> one_line torn
     \<and> (\<forall>r. \<not> blank (torn @ encode_row c r) \<and> strip_cr (torn @ encode_row c r) = torn @ encode_row c r
           \<and> (\<exists>e. decode_row c (torn @ encode_row c r) = Inl e))"

lemma history_damaged:
  assumes "lease_codec_ok c" and "torn_row c torn" and "list_all one_line lines"
    and "history_bytes d = unlines lines @ torn @ encode_row c r @ newline # rest"
  shows "\<exists>e. read_lease_history c d = Inl e"
proof -
  let ?line = "torn @ encode_row c r"
  obtain e where e: "\<not> blank (strip_cr ?line)" "decode_row c (strip_cr ?line) = Inl e"
    using assms(2) by (fastforce simp: torn_row_def)
  have "one_line ?line"
    using assms(1,2) by (auto simp: torn_row_def lease_codec_ok_def one_line_def)
  then show ?thesis
    using read_rows_bad_line [of lines ?line "\<lambda>line. blank (strip_cr line)"
        "\<lambda>line. map_err (\<lambda>error. document_invalid (lease_history_path d
                  @ '' holds an undecodable history row: '' @ error)) (decode_row c (strip_cr line))"
        "document_invalid (lease_history_path d @ '' holds an undecodable history row: '' @ e)" rest] e assms(3,4)
    by (simp add: read_lease_history_def)
qed

text \<open>The history file only grows, also when a call is interrupted.\<close>

lemma call_history: "\<exists>more. history_bytes (snd (lease_call_run c lock pid now node_id call d)) = history_bytes d @ more"
proof -
  obtain r t where w: "write_machine_lease c lock pid now node_id (lease_decision node_id call) d = (r, t)" by (rule prod.exhaust)
  then have "\<exists>more. history_bytes t = history_bytes d @ more"
    by (rule write_cases) (auto simp: append_lease_history_def atomic_replace_def history_bytes_def)
  with w show ?thesis by (simp add: lease_call_run_write)
qed

lemma steps_history:
  assumes "(lease_step c node_id)\<^sup>*\<^sup>* d d'"
  shows "\<exists>more. history_bytes d' = history_bytes d @ more"
  using assms
proof (induction rule: rtranclp_induct)
  case (step m u)
  from step.hyps(2) have "\<exists>more. history_bytes u = history_bytes m @ more"
  proof cases
    case call
    then show ?thesis using call_history by simp
  next
    case (interrupted t lock pid now call n)
    obtain more where "history_bytes t = history_bytes m @ more"
      using call_history [of c lock pid now node_id call m] interrupted(2) by blast
    with interrupted(1,3) have "nd_history u = Some (history_bytes m @ take (n - length (history_bytes m)) more)" by simp
    then show ?thesis by (simp add: history_bytes_def [of u])
  qed
  with step.IH show ?case by auto
qed simp

lemma renew_decides:
  assumes "ndl_status (doc_lease document) = DaemonActive" and "now < ndl_expires_unix_ms (doc_lease document)"
  shows "renew_decision node_id (ndl_daemon_id (doc_lease document)) (ndl_generation (doc_lease document))
      (ndl_instance_id (doc_lease document)) ttl (Some document) now
    = Inr (Some ((doc_lease document)\<lparr>ndl_renewed_unix_ms := now, ndl_expires_unix_ms := sat_add now (max ttl 1)\<rparr>))"
  using assms by (auto simp: renew_decision_def require_exact_generation_def bindR_eq_Inr not_le)

abbreviation renewed_lease :: "u64 \<Rightarrow> u64 \<Rightarrow> NodeDaemonLease \<Rightarrow> NodeDaemonLease" where
  "renewed_lease now ttl l \<equiv> l\<lparr>ndl_renewed_unix_ms := now, ndl_expires_unix_ms := sat_add now (max ttl 1)\<rparr>"

abbreviation renew_own ::
    "('z) lease_codec_scheme \<Rightarrow> u32 \<Rightarrow> u64 \<Rightarrow> string \<Rightarrow> NodeDaemonLease \<Rightarrow> u64 \<Rightarrow> (node_dir, StoreError, NodeDaemonLease) action" where
  "renew_own c pid now node_id l ttl \<equiv>
     renew_machine_lease c (Inr ()) pid now node_id (ndl_daemon_id l) (ndl_generation l) (ndl_instance_id l) ttl"

text \<open>The lease is live at a time and its renewal would not shorten it.\<close>

abbreviation renewable :: "u64 \<Rightarrow> u64 \<Rightarrow> NodeDaemonLease \<Rightarrow> bool" where
  "renewable now ttl l \<equiv> ndl_status l = DaemonActive \<and> now < ndl_expires_unix_ms l
     \<and> ndl_expires_unix_ms l \<le> sat_add now (max ttl 1)"

lemma renew_writes:
  assumes "held c node_id d = Some document" and "renewable now ttl (doc_lease document)"
  shows "renew_own c pid now node_id (doc_lease document) ttl d =
    (let next = document_new (renewed_lease now ttl (doc_lease document)) pid; p = atomic_replace c next d in
     check (read_lease_history_tail c p) (\<lambda>tail dir.
       if (case tail of None \<Rightarrow> True | Some newest \<Rightarrow> ndl_generation newest \<noteq> ndl_generation (doc_lease document)
             \<or> ndl_status newest \<noteq> ndl_status (doc_lease document))
       then (Inr (doc_lease next), append_lease_history c next now dir) else (Inr (doc_lease next), dir)) p)"
proof -
  let ?next = "document_new (renewed_lease now ttl (doc_lease document)) pid"
  have "read_lease_document c node_id d = Inr (Some document)" using assms(1) by (rule held_read)
  moreover have "write_next node_id pid (renew_decision node_id (ndl_daemon_id (doc_lease document))
      (ndl_generation (doc_lease document)) (ndl_instance_id (doc_lease document)) ttl) (Some document) now = Inr (?next, False)"
    using renew_decides [of document now node_id ttl] assms(2) by (simp add: write_next_def)
  moreover have "require_document_belongs_here ?next node_id path = Inr ()" for path
    using held_node [OF assms(1)] by (simp add: require_document_belongs_here_def document_new_def)
  moreover have "require_forward_only (Some document) ?next home = Inr ()" for home
    using assms(2) by (auto simp: require_forward_only_def document_new_def Let_def bindR_eq_Inr not_less)
  ultimately show ?thesis
    by (cases "read_lease_history_tail c (atomic_replace c ?next d)")
      (simp_all add: renew_machine_lease_def write_machine_lease_def andThen_def publish_lease_document_def Let_def
        split: option.split)
qed

lemma history_frame: "read_lease_history c (atomic_replace c' document d) = read_lease_history c d"
  by (simp add: read_lease_history_def atomic_replace_def history_bytes_def lease_history_path_def)

lemma damaged_renewal:
  assumes c: "lease_codec_ok c" and e: "read_lease_history c d = Inl e"
    and held: "held c node_id d = Some document" and live: "renewable now ttl (doc_lease document)"
  shows "\<exists>t. renew_own c pid now node_id (doc_lease document) ttl d = (Inl e, t)
    \<and> held c node_id t = Some (document_new (renewed_lease now ttl (doc_lease document)) pid)"
proof -
  let ?next = "document_new (renewed_lease now ttl (doc_lease document)) pid"
  have "read_lease_history_tail c (atomic_replace c ?next d) = Inl e"
    by (simp add: read_lease_history_tail_def history_frame e)
  then have "renew_own c pid now node_id (doc_lease document) ttl d = (Inl e, atomic_replace c ?next d)"
    using renew_writes [OF held live, of pid] by (simp add: Let_def)
  moreover have "require_document_belongs_here ?next node_id path = Inr ()" for path
    using held_node [OF held] by (simp add: require_document_belongs_here_def document_new_def)
  then have "held c node_id (atomic_replace c ?next d) = Some ?next"
    using held_replaced [OF c] by (simp add: atomic_replace_def)
  ultimately show ?thesis by blast
qed

text \<open>
  C18. A history row that was torn by a crash blocks the lease of the machine. The next transition row is
  appended to the torn bytes, so both become one line that is no row: the renewal that appends it still
  succeeds, but in every later state of the directory, whatever calls any daemons make and however their
  writes are interrupted, the history is unreadable, and a renewal by the rightful owner of a live lease
  replaces the document and reports an error to the daemon all the same.
\<close>

theorem torn_history_blocks_renewal:
  assumes c: "lease_codec_ok c" and "torn_row c torn" and "list_all one_line lines"
    and "history_bytes d = unlines lines @ torn" and "read_lease_history c d = Inr rows"
    and held: "held c node_id d = Some document" and live: "renewable now ttl (doc_lease document)"
    and new: "rows = [] \<or> ndl_generation (row_lease (last rows)) \<noteq> ndl_generation (doc_lease document)"
  shows "\<exists>t. renew_own c pid now node_id (doc_lease document) ttl d = (Inr (renewed_lease now ttl (doc_lease document)), t)
    \<and> held c node_id t = Some (document_new (renewed_lease now ttl (doc_lease document)) pid)
    \<and> history_bytes t = unlines lines @ torn
        @ encode_row c (history_row (document_new (renewed_lease now ttl (doc_lease document)) pid) now) @ [newline]
    \<and> (\<forall>u. (lease_step c node_id)\<^sup>*\<^sup>* t u \<longrightarrow> (\<exists>e. read_lease_history c u = Inl e
        \<and> (\<forall>later pid' now' ttl'. held c node_id u = Some later \<longrightarrow> renewable now' ttl' (doc_lease later) \<longrightarrow>
             (\<exists>w. renew_own c pid' now' node_id (doc_lease later) ttl' u = (Inl e, w)
                \<and> held c node_id w = Some (document_new (renewed_lease now' ttl' (doc_lease later)) pid')))))"
proof -
  let ?next = "document_new (renewed_lease now ttl (doc_lease document)) pid"
  let ?t = "append_lease_history c ?next now (atomic_replace c ?next d)"
  have "read_lease_history_tail c (atomic_replace c ?next d)
      = Inr (if rows = [] then None else Some (row_lease (last rows)))"
    using assms(5) by (simp add: read_lease_history_tail_def history_frame)
  then have first: "renew_own c pid now node_id (doc_lease document) ttl d = (Inr (renewed_lease now ttl (doc_lease document)), ?t)"
    using renew_writes [OF held live, of pid] new by (auto simp: Let_def document_new_def)
  have joined: "history_bytes ?t = unlines lines @ torn @ encode_row c (history_row ?next now) @ [newline]"
    using assms(4) by (simp add: append_lease_history_def history_bytes_def atomic_replace_def)
  have "require_document_belongs_here ?next node_id path = Inr ()" for path
    using held_node [OF held] by (simp add: require_document_belongs_here_def document_new_def)
  then have "held c node_id (atomic_replace c ?next d) = Some ?next"
    using held_replaced [OF c] by (simp add: atomic_replace_def)
  then have t: "held c node_id ?t = Some ?next"
    using held_cong [of ?t "atomic_replace c ?next d" c node_id] by (simp add: append_lease_history_def)
  have "\<exists>e. read_lease_history c u = Inl e
      \<and> (\<forall>later pid' now' ttl'. held c node_id u = Some later \<longrightarrow> renewable now' ttl' (doc_lease later) \<longrightarrow>
           (\<exists>w. renew_own c pid' now' node_id (doc_lease later) ttl' u = (Inl e, w)
              \<and> held c node_id w = Some (document_new (renewed_lease now' ttl' (doc_lease later)) pid')))"
    if run: "(lease_step c node_id)\<^sup>*\<^sup>* ?t u" for u
  proof -
    obtain more where "history_bytes u = unlines lines @ torn @ encode_row c (history_row ?next now) @ newline # more"
      using steps_history [OF run] joined by auto
    then obtain e where "read_lease_history c u = Inl e" using history_damaged [OF c assms(2,3)] by blast
    with damaged_renewal [OF c this] show ?thesis by blast
  qed
  with first t joined show ?thesis by blast
qed

text \<open>
  A release whose history row was not written before a crash is forgotten by the next takeover: the
  receipt is found in the document until a successor replaces it, and then nowhere.
\<close>

theorem release_receipt_lost:
  assumes c: "lease_codec_ok c" and h: "history_of c d rows" and held: "held c node_id d = Some document"
    and "matches_generation node_id daemon generation (doc_lease document)" "ndl_status (doc_lease document) = DaemonReleased"
    and "\<forall>r \<in> set rows. \<not> (matches_generation node_id daemon generation (row_lease r) \<and> ndl_status (row_lease r) = DaemonReleased)"
    and "generation \<noteq> - 1"
  shows "generation_was_released c node_id daemon generation d = Inr True"
    and "generation_was_released c node_id daemon generation
      (snd (acquire_machine_lease c (Inr ()) pid now node_id daemon' inst' ttl spaces d)) = Inr False"
proof -
  have read: "read_lease_document c node_id d = Inr (Some document)" using held by (rule held_read)
  show "generation_was_released c node_id daemon generation d = Inr True"
    using read assms(4,5) by (simp add: generation_was_released_def)
  have g: "ndl_generation (doc_lease document) = generation" using assms(4) by (simp add: matches_generation_def)
  obtain lease where l: "acquire_decision node_id daemon' inst' ttl spaces (Some document) now = Inr (Some lease)"
    "ndl_generation lease = generation + 1" "ndl_node_id lease = node_id"
    using assms(5,7) g by (auto simp: acquire_decision_def Let_def)
  let ?next = "document_new lease pid"
  have nx: "write_next node_id pid (acquire_decision node_id daemon' inst' ttl spaces) (Some document) now = Inr (?next, False)"
    using l(1) by (simp add: write_next_def)
  have here: "require_document_belongs_here ?next node_id (lease_document_path d) = Inr ()"
    using l(3) by (simp add: require_document_belongs_here_def document_new_def)
  have less: "generation < generation + 1" using assms(7) by (rule plus_one_greater)
  have fwd: "require_forward_only (Some document) ?next (nd_home d) = Inr ()"
    using less g l(2) by (auto simp: require_forward_only_def document_new_def bindR_eq_Inr Let_def)
  let ?t = "snd (acquire_machine_lease c (Inr ()) pid now node_id daemon' inst' ttl spaces d)"
  have t: "?t = atomic_replace c ?next d \<or> ?t = append_lease_history c ?next now (atomic_replace c ?next d)"
    unfolding acquire_machine_lease_def write_published [OF c h read nx here fwd] by simp
  then have rows: "\<exists>more. history_of c ?t (rows @ more) \<and> (\<forall>r \<in> set more. row_lease r = lease)"
    using h history_append [of c "atomic_replace c ?next d" rows ?next now]
    by (auto simp: history_of_replace history_row_def document_new_def intro: exI [of _ "[]"])
  have p: "held c node_id (atomic_replace c ?next d) = Some ?next"
    using held_replaced [OF c here] by (simp add: atomic_replace_def)
  then have "held c node_id ?t = Some ?next"
    using t held_cong [of ?t "atomic_replace c ?next d" c node_id] by (auto simp: append_lease_history_def)
  then have "read_lease_document c node_id ?t = Inr (Some ?next)" by (rule held_read)
  moreover have "\<not> matches_generation node_id daemon generation (doc_lease ?next)"
    using l(2) less by (auto simp: matches_generation_def document_new_def)
  moreover obtain more where "read_lease_history c ?t = Inr (rows @ more)" "\<forall>r \<in> set more. row_lease r = lease"
    using rows read_history [OF c] by blast
  moreover have "\<not> (case List.find (\<lambda>row. matches_generation node_id daemon generation (row_lease row)) (rev (rows @ more)) of
      None \<Rightarrow> False | Some row \<Rightarrow> ndl_status (row_lease row) = DaemonReleased)"
    if "\<forall>r \<in> set more. row_lease r = lease" for more
  proof (cases "List.find (\<lambda>row. matches_generation node_id daemon generation (row_lease row)) (rev (rows @ more))")
    case (Some r)
    then have r: "r \<in> set rows \<union> set more" "matches_generation node_id daemon generation (row_lease r)"
      by (auto dest: find_SomeD)
    then have "r \<notin> set more" using that l(2) less by (auto simp: matches_generation_def)
    then show ?thesis using Some r assms(6) by auto
  qed simp
  ultimately show "generation_was_released c node_id daemon generation ?t = Inr False"
    by (simp add: generation_was_released_def)
qed

end
