(* ===== verification/Lease_Sample.thy ===== *)
theory Lease_Sample
  imports Lease_Properties
begin

text \<open>
  A concrete lease codec, used where a property of the machine lease is applied to a concrete node
  directory: a document or row is written as the decimal numbers of its fields, each followed by a
  comma. It obeys the laws the properties ask of serde.
\<close>

definition number_text :: "nat list \<Rightarrow> string" where
  "number_text ns = concat (map (\<lambda>n. show_nat n @ '','') ns)"

fun text_fields :: "string \<Rightarrow> string \<Rightarrow> string list" where
  "text_fields field [] = []"
| "text_fields field (c # s) =
     (if c = CHR '','' then field # text_fields [] s else text_fields (field @ [c]) s)"

definition text_numbers :: "string \<Rightarrow> nat list option" where
  "text_numbers s = those (map parse_nat (text_fields [] s))"

lemma show_nat_digits: "c \<in> set (show_nat n) \<Longrightarrow> \<exists>d < 10. c = digit d"
proof (induction n rule: show_nat.induct)
  case (1 n)
  show ?case
  proof (cases "n < 10")
    case True
    then show ?thesis using "1.prems" by (auto simp: show_nat.simps [of n])
  next
    case False
    then show ?thesis using 1 by (auto simp: show_nat.simps [of n] intro: exI [of _ "n mod 10"])
  qed
qed

lemma digit_code: "d < 10 \<Longrightarrow> (of_char (digit d) :: nat) = 48 + d"
  by (simp add: digit_def)

lemma digit_other: "d < 10 \<Longrightarrow> (of_char c :: nat) < 48 \<Longrightarrow> digit d \<noteq> c"
  using digit_code [of d] by (metis add_lessD1 less_irrefl_nat not_add_less1)

lemma digit_plain:
  assumes d: "d < 10"
  shows "digit d \<noteq> CHR '',''" "digit d \<noteq> newline" "digit d \<noteq> CHR 0x0D" "\<not> blank (digit d # s)"
proof -
  show "digit d \<noteq> CHR '',''" by (rule digit_other [OF d]) simp
  show "digit d \<noteq> newline" by (rule digit_other [OF d]) (simp add: newline_def)
  show "digit d \<noteq> CHR 0x0D" by (rule digit_other [OF d]) simp
  have "\<not> ws1 (48 + d)" "\<not> ws2 (48 + d) m" "\<not> ws3 (48 + d) m n" for m n
    using d by (auto simp: ws1_def ws2_def ws3_def)
  then show "\<not> blank (digit d # s)"
    using digit_code [OF d] by (cases s; cases "tl s") auto
qed

lemma digit_not_brace: "d < 10 \<Longrightarrow> digit d \<noteq> CHR ''{'' \<and> digit d \<noteq> CHR ''}''"
proof -
  assume d: "d < 10"
  have "(of_char (CHR ''{'') :: nat) = 123" "(of_char (CHR ''}'') :: nat) = 125" by simp_all
  moreover have "(of_char (digit d) :: nat) < 58" using digit_code [OF d] d by simp
  ultimately show ?thesis by auto
qed

lemma text_fields_number: "text_fields field (show_nat n @ CHR '','' # s) = (field @ show_nat n) # text_fields [] s"
proof -
  have "text_fields field (t @ CHR '','' # s) = (field @ t) # text_fields [] s" if "CHR '','' \<notin> set t" for t
    using that by (induction t arbitrary: field) auto
  then show ?thesis using show_nat_digits digit_plain(1) by metis
qed

lemma text_numbers_text: "text_numbers (number_text ns) = Some ns"
proof -
  have "text_fields [] (number_text ns) = map show_nat ns"
    by (induction ns) (auto simp: number_text_def text_fields_number)
  then have "text_numbers (number_text ns) = those (map (\<lambda>n. Some n) ns)"
    by (simp add: text_numbers_def comp_def parse_nat_show)
  also have "\<dots> = Some ns" by (induction ns) auto
  finally show ?thesis .
qed

lemma text_numbers_newline: "text_numbers (number_text ns @ [newline]) = Some ns"
proof -
  have "text_fields field (number_text ns @ [newline]) = text_fields field (number_text ns)" for field
    by (induction ns arbitrary: field) (auto simp: number_text_def text_fields_number newline_def)
  then show ?thesis using text_numbers_text by (simp add: text_numbers_def)
qed

lemma number_text_plain:
  assumes "c \<in> set (number_text ns)"
  shows "c = CHR '','' \<or> (\<exists>d < 10. c = digit d)"
proof -
  from assms obtain n where "c \<in> set (show_nat n) \<or> c = CHR '',''" by (auto simp: number_text_def split: if_splits)
  then show ?thesis using show_nat_digits by blast
qed

text \<open>A row is written in braces, as a JSON object is.\<close>

definition row_text :: "nat list \<Rightarrow> string" where
  "row_text ns = CHR ''{'' # number_text ns @ [CHR ''}'']"

definition text_row :: "string \<Rightarrow> nat list option" where
  "text_row s =
     (case s of
        [] \<Rightarrow> None
      | c # s' \<Rightarrow> if c = CHR ''{'' \<and> CHR ''{'' \<notin> set s' \<and> s' \<noteq> [] \<and> last s' = CHR ''}'' then text_numbers (butlast s') else None)"

lemma number_text_no_brace: "CHR ''{'' \<notin> set (number_text ns)"
  using number_text_plain [of "CHR ''{''" ns] digit_not_brace by fastforce

lemma text_row_text: "text_row (row_text ns) = Some ns"
  by (simp add: text_row_def row_text_def number_text_no_brace text_numbers_text)

lemma blank_brace: "\<not> blank (CHR ''{'' # s)"
  by (cases s; cases "tl s") (auto simp: ws1_def ws2_def ws3_def)

lemma row_text_line:
  shows "one_line (row_text ns)" "\<not> blank (row_text ns)" "strip_cr (row_text ns) = row_text ns"
proof -
  have "newline \<notin> set (number_text ns)"
  proof -
    have "newline \<noteq> CHR '',''" by (simp add: newline_def)
    then show ?thesis using number_text_plain [of newline ns] digit_plain(2) by metis
  qed
  then show "one_line (row_text ns)" by (simp add: one_line_def row_text_def newline_def)
  show "\<not> blank (row_text ns)" unfolding row_text_def by (rule blank_brace)
  show "strip_cr (row_text ns) = row_text ns" by (simp add: strip_cr_def row_text_def)
qed

text \<open>A row after the beginning of another one is not a row.\<close>

lemma text_row_torn: "CHR ''{'' \<in> set torn \<Longrightarrow> text_row (torn @ row_text ns) = None"
  by (cases torn) (auto simp: text_row_def row_text_def)

section \<open>The codec\<close>

definition string_numbers :: "string \<Rightarrow> nat list" where
  "string_numbers s = length s # map of_char s"

definition numbers_string :: "nat list \<Rightarrow> string \<times> nat list" where
  "numbers_string ns = (map char_of (take (hd ns) (tl ns)), drop (hd ns) (tl ns))"

lemma numbers_string_numbers [simp]: "numbers_string (string_numbers s @ ns) = (s, ns)"
  by (simp add: numbers_string_def string_numbers_def comp_def)

fun status_number :: "NodeDaemonLeaseStatus \<Rightarrow> nat" where
  "status_number DaemonActive = 0"
| "status_number DaemonDraining = 1"
| "status_number DaemonReleased = 2"

definition number_status :: "nat \<Rightarrow> NodeDaemonLeaseStatus" where
  "number_status n = (if n = 0 then DaemonActive else if n = 1 then DaemonDraining else DaemonReleased)"

lemma number_status_number [simp]: "number_status (status_number s) = s"
  by (cases s) (simp_all add: number_status_def)

definition lease_numbers :: "NodeDaemonLease \<Rightarrow> nat list" where
  "lease_numbers l =
     string_numbers (ndl_node_id l) @ string_numbers (ndl_daemon_id l) @ string_numbers (ndl_instance_id l)
     @ [unat (ndl_generation l), status_number (ndl_status l), unat (ndl_acquired_unix_ms l), unat (ndl_renewed_unix_ms l),
        unat (ndl_expires_unix_ms l)]
     @ (case ndl_released_unix_ms l of None \<Rightarrow> [] | Some t \<Rightarrow> [unat t])"

definition numbers_lease :: "nat list \<Rightarrow> NodeDaemonLease" where
  "numbers_lease ns =
     (let (node, ns) = numbers_string ns; (daemon, ns) = numbers_string ns; (inst, ns) = numbers_string ns in
      \<lparr>ndl_node_id = node, ndl_daemon_id = daemon, ndl_generation = of_nat (ns ! 0), ndl_instance_id = inst,
       ndl_status = number_status (ns ! 1), ndl_acquired_unix_ms = of_nat (ns ! 2), ndl_renewed_unix_ms = of_nat (ns ! 3),
       ndl_expires_unix_ms = of_nat (ns ! 4),
       ndl_released_unix_ms = (if length ns = 5 then None else Some (of_nat (ns ! 5)))\<rparr>)"

lemma numbers_lease_numbers: "numbers_lease (lease_numbers l) = l"
  by (cases "ndl_released_unix_ms l") (simp_all add: numbers_lease_def lease_numbers_def)

definition sample_lease_codec :: lease_codec where
  "sample_lease_codec =
     \<lparr>encode_document = (\<lambda>d. number_text (unat (doc_schema_version d) # unat (doc_owner_pid d) # lease_numbers (doc_lease d))),
      decode_document = (\<lambda>bytes. case text_numbers bytes of
        Some (v # pid # ns) \<Rightarrow> Inr \<lparr>doc_schema_version = of_nat v, doc_owner_pid = of_nat pid, doc_lease = numbers_lease ns\<rparr>
      | _ \<Rightarrow> Inl ''malformed''),
      encode_row = (\<lambda>r. row_text (unat (row_schema_version r) # unat (row_recorded_unix_ms r) # lease_numbers (row_lease r))),
      decode_row = (\<lambda>bytes. case text_row bytes of
        Some (v # t # ns) \<Rightarrow> Inr \<lparr>row_schema_version = of_nat v, row_recorded_unix_ms = of_nat t, row_lease = numbers_lease ns\<rparr>
      | _ \<Rightarrow> Inl ''malformed'')\<rparr>"

lemma sample_lease_codec_ok: "lease_codec_ok sample_lease_codec"
  by (simp add: lease_codec_ok_def sample_lease_codec_def text_row_text text_numbers_newline row_text_line
      numbers_lease_numbers)

section \<open>A Node\<close>

definition sample_node :: node_dir where
  "sample_node = \<lparr>nd_home = ''/firm/nodes/n1'', nd_document = None, nd_history = None\<rparr>"

definition sample_call :: "u64 \<Rightarrow> lease_call \<Rightarrow> node_dir \<Rightarrow> node_dir" where
  "sample_call now call d = snd (lease_call_run sample_lease_codec (Inr ()) 7 now ''n1'' call d)"

definition node_acquired :: node_dir where
  "node_acquired = sample_call 100 (CallAcquire ''d1'' ''i1'' 50 []) sample_node"

definition node_released :: node_dir where
  "node_released = sample_call 120 (CallRelease ''d1'' 1 ''i1'') node_acquired"

definition node_taken_over :: node_dir where
  "node_taken_over = sample_call 130 (CallAcquire ''d2'' ''i2'' 50 []) node_released"

definition sample_lease :: "string \<Rightarrow> string \<Rightarrow> u64 \<Rightarrow> NodeDaemonLeaseStatus \<Rightarrow> u64 \<Rightarrow> u64 \<Rightarrow> u64 \<Rightarrow> u64 option \<Rightarrow> NodeDaemonLease" where
  "sample_lease daemon inst generation status acquired renewed expires released =
     \<lparr>ndl_node_id = ''n1'', ndl_daemon_id = daemon, ndl_generation = generation, ndl_instance_id = inst,
      ndl_status = status, ndl_acquired_unix_ms = acquired, ndl_renewed_unix_ms = renewed,
      ndl_expires_unix_ms = expires, ndl_released_unix_ms = released\<rparr>"

definition sample_at :: "node_dir \<Rightarrow> NodeDaemonLeaseDocument option \<Rightarrow> bool" where
  "sample_at d x \<longleftrightarrow> (\<exists>rows. history_current sample_lease_codec ''n1'' d rows) \<and> held sample_lease_codec ''n1'' d = x"

lemma sample_call_moves:
  assumes "sample_at d x" and l: "lease_decision ''n1'' call x now = Inr (Some lease)" and n: "ndl_node_id lease = ''n1''"
    and f: "require_forward_only x (document_new lease 7) (nd_home d) = Inr ()"
  shows "sample_at (sample_call now call d) (Some (document_new lease 7))"
proof -
  let ?c = sample_lease_codec and ?document = "document_new lease 7"
  obtain rows where rows: "history_current ?c ''n1'' d rows" and x: "held ?c ''n1'' d = x"
    using assms(1) by (auto simp: sample_at_def)
  have h: "history_of ?c d rows" using rows by (simp add: history_current_def)
  have read: "read_lease_document ?c ''n1'' d = Inr x" using rows x by (auto simp: history_current_def held_def)
  have nx: "write_next ''n1'' 7 (lease_decision ''n1'' call) x now = Inr (?document, False)"
    using l by (simp add: write_next_def)
  have here: "require_document_belongs_here ?document ''n1'' (lease_document_path d) = Inr ()"
    using n by (simp add: require_document_belongs_here_def document_new_def)
  have "nd_document (sample_call now call d) = nd_document (atomic_replace ?c ?document d)"
    unfolding sample_call_def lease_call_run_write write_published [OF sample_lease_codec_ok h read nx here f]
    by (simp add: append_lease_history_def)
  then have "held ?c ''n1'' (sample_call now call d) = Some ?document"
    using held_cong held_replaced [OF sample_lease_codec_ok here] by (metis atomic_replace_def)
  moreover have "\<exists>rows. history_current ?c ''n1'' (sample_call now call d) rows"
    using history_step [OF sample_lease_codec_ok rows refl] unfolding sample_call_def by blast
  ultimately show ?thesis by (simp add: sample_at_def)
qed

lemma sample_states:
  "sample_at node_acquired (Some (document_new (sample_lease ''d1'' ''i1'' 1 DaemonActive 100 100 150 None) 7))"
  "sample_at node_released (Some (document_new (sample_lease ''d1'' ''i1'' 1 DaemonReleased 100 120 120 (Some 120)) 7))"
  "sample_at node_taken_over (Some (document_new (sample_lease ''d2'' ''i2'' 2 DaemonActive 130 130 180 None) 7))"
proof -
  have new: "sample_at sample_node None"
    by (auto simp: sample_at_def sample_node_def history_current_def history_of_def history_bytes_def held_alt
        read_lease_document_def intro!: exI [of _ "[]"])
  note eval = acquire_decision_def release_decision_def require_exact_generation_def require_forward_only_def
    newest_generation_def sample_lease_def document_new_def sat_add_code Let_def
  show a: "sample_at node_acquired (Some (document_new (sample_lease ''d1'' ''i1'' 1 DaemonActive 100 100 150 None) 7))"
    unfolding node_acquired_def by (rule sample_call_moves [OF new]) (simp_all add: eval)
  show r: "sample_at node_released (Some (document_new (sample_lease ''d1'' ''i1'' 1 DaemonReleased 100 120 120 (Some 120)) 7))"
    unfolding node_released_def by (rule sample_call_moves [OF a]) (simp_all add: eval)
  show "sample_at node_taken_over (Some (document_new (sample_lease ''d2'' ''i2'' 2 DaemonActive 130 130 180 None) 7))"
    unfolding node_taken_over_def by (rule sample_call_moves [OF r]) (simp_all add: eval)
qed

lemmas sample_held = sample_states [unfolded sample_at_def, THEN conjunct2]

lemma sample_steps:
  "whole_step sample_lease_codec ''n1'' d (sample_call now call d)"
  "lease_step sample_lease_codec ''n1'' d (sample_call now call d)"
  by (simp_all add: sample_call_def whole_step.whole lease_step.call)

lemma sample_run:
  "(lease_step sample_lease_codec ''n1'')\<^sup>*\<^sup>* node_acquired node_taken_over"
  unfolding node_taken_over_def node_released_def
  by (rule converse_rtranclp_into_rtranclp, rule sample_steps(2), rule r_into_rtranclp, rule sample_steps(2))

section \<open>The properties applied\<close>

lemma machine_generation_has_one_owner_witness:
  "\<exists>m. (lease_step sample_lease_codec ''n1'')\<^sup>*\<^sup>* node_acquired m
     \<and> (\<exists>x. held sample_lease_codec ''n1'' m = Some x \<and> ndl_generation (doc_lease x) = 1
            \<and> ndl_status (doc_lease x) = DaemonReleased)"
  using machine_generation_has_one_owner [OF sample_lease_codec_ok sample_run sample_held(1)] sample_held(3)
  by (auto simp: sample_lease_def)

lemma superseded_daemon_fenced_witness:
  "\<exists>e. is_node_daemon_generation_fenced e
    \<and> renew_machine_lease sample_lease_codec (Inr ()) 7 140 ''n1'' ''d1'' 1 ''i1'' 50 node_taken_over = (Inl e, node_taken_over)"
  using superseded_daemon_fenced [OF sample_lease_codec_ok sample_run rtranclp.rtrancl_refl sample_held(1,3), of 7 140 "''d1''" "''i1''" 50]
  by (auto simp: sample_lease_def)

lemma sample_path:
  "successively (whole_step sample_lease_codec ''n1'') [sample_node, node_acquired, node_released, node_taken_over]"
  by (simp add: node_acquired_def node_released_def node_taken_over_def sample_steps)

lemma release_receipt_exact_witness:
  "generation_was_released sample_lease_codec ''n1'' ''d1'' 1 node_taken_over = Inr True
   \<and> generation_was_released sample_lease_codec ''n1'' ''d2'' 2 node_taken_over = Inr False"
  using release_receipt_exact [OF sample_lease_codec_ok _ _ _ sample_path, of "''d1''" 1]
    release_receipt_exact [OF sample_lease_codec_ok _ _ _ sample_path, of "''d2''" 2] sample_held
  by (auto simp: sample_node_def held_alt matches_generation_def sample_lease_def)

definition node_torn :: node_dir where
  "node_torn = node_acquired\<lparr>nd_history := Some ''{1,1''\<rparr>"

lemma torn_sample: "torn_row sample_lease_codec ''{1,1''"
proof -
  have a: "text_row (''{1,1'' @ row_text ns) = None" for ns by (rule text_row_torn) simp
  have b: "\<not> blank (''{1,1'' @ row_text ns)" for ns using blank_brace by (simp del: blank.simps)
  have c: "strip_cr (''{1,1'' @ row_text ns) = ''{1,1'' @ row_text ns" for ns by (simp add: strip_cr_def row_text_def)
  have "encode_row sample_lease_codec r = row_text (unat (row_schema_version r) # unat (row_recorded_unix_ms r)
      # lease_numbers (row_lease r))" for r by (simp add: sample_lease_codec_def)
  moreover have "text_row bs = None \<Longrightarrow> decode_row sample_lease_codec bs = Inl ''malformed''" for bs
    by (simp add: sample_lease_codec_def)
  moreover have "one_line ''{1,1''" by (simp add: one_line_def newline_def)
  ultimately show ?thesis using a b c unfolding torn_row_def by metis
qed

lemma torn_history_blocks_renewal_witness:
  "\<exists>t e u. renew_machine_lease sample_lease_codec (Inr ()) 7 110 ''n1'' ''d1'' 1 ''i1'' 50 node_torn
      = (Inr (sample_lease ''d1'' ''i1'' 1 DaemonActive 100 110 160 None), t)
    \<and> renew_machine_lease sample_lease_codec (Inr ()) 7 120 ''n1'' ''d1'' 1 ''i1'' 50 t = (Inl e, u)
    \<and> held sample_lease_codec ''n1'' u = Some (document_new (sample_lease ''d1'' ''i1'' 1 DaemonActive 100 120 170 None) 7)"
proof -
  let ?l = "sample_lease ''d1'' ''i1'' 1 DaemonActive 100 100 150 None"
  have h: "held sample_lease_codec ''n1'' node_torn = Some (document_new ?l 7)"
    using sample_held(1) held_cong [of node_torn node_acquired sample_lease_codec "''n1''"] by (simp add: node_torn_def)
  have hist: "history_bytes node_torn = unlines [] @ ''{1,1''" by (simp add: node_torn_def history_bytes_def)
  have read: "read_lease_history sample_lease_codec node_torn = Inr []"
    using hist by (simp add: read_lease_history_def read_rows_def complete_lines_def newline_def)
  have live: "renewable 110 50 (doc_lease (document_new ?l 7))" by (simp add: sample_lease_def sat_add_code Let_def)
  have nil: "list_all one_line ([] :: bytes list)" by simp
  obtain t where t: "renew_own sample_lease_codec 7 110 ''n1'' ?l 50 node_torn = (Inr (renewed_lease 110 50 ?l), t)"
      "held sample_lease_codec ''n1'' t = Some (document_new (renewed_lease 110 50 ?l) 7)"
    and later: "\<forall>u. (lease_step sample_lease_codec ''n1'')\<^sup>*\<^sup>* t u \<longrightarrow> (\<exists>e. read_lease_history sample_lease_codec u = Inl e
        \<and> (\<forall>later pid' now' ttl'. held sample_lease_codec ''n1'' u = Some later \<longrightarrow> renewable now' ttl' (doc_lease later) \<longrightarrow>
             (\<exists>w. renew_own sample_lease_codec pid' now' ''n1'' (doc_lease later) ttl' u = (Inl e, w)
                \<and> held sample_lease_codec ''n1'' w = Some (document_new (renewed_lease now' ttl' (doc_lease later)) pid'))))"
    using torn_history_blocks_renewal [OF sample_lease_codec_ok torn_sample nil hist read h live disjI1 [OF refl], of 7]
    by (simp only: document_new_def NodeDaemonLeaseDocument.simps) blast
  have "renewable 120 50 (doc_lease (document_new (renewed_lease 110 50 ?l) 7))"
    by (simp add: sample_lease_def sat_add_code Let_def document_new_def)
  with later t(2) obtain e w where
    "renew_own sample_lease_codec 7 120 ''n1'' (doc_lease (document_new (renewed_lease 110 50 ?l) 7)) 50 t = (Inl e, w)"
    "held sample_lease_codec ''n1'' w = Some (document_new (renewed_lease 120 50 (doc_lease (document_new (renewed_lease 110 50 ?l) 7))) 7)"
    by blast
  with t show ?thesis by (simp add: sample_lease_def sat_add_code Let_def document_new_def)
qed

end
