(* ===== verification/Trust_Ledger.thy ===== *)
theory Trust_Ledger
  imports Store_Error Line_Files Work
begin

text \<open>
  The ledger of the trust kernel (\<^verbatim>\<open>crates/firm-store/src/trust_kernel.rs\<close>,
  \<^verbatim>\<open>trust_kernel/trust_foundation.rs\<close>): every canonical mutation of an execution space is one envelope
  with an event, the resulting projection and side records. A commit is admitted by its idempotency key
  and its expected version, and rewrites the ledger in one atomic replacement. serde and SHA-256 are the
  fields of \<open>trust_codec\<close>; a serialised projection type is given by its two conversions.
\<close>

section \<open>Events and envelopes\<close>

record MutationContext =
  mcx_execution_space_id :: string
  mcx_authenticated_actor :: ActorRef
  mcx_authority_actor :: "ActorRef option"
  mcx_command_name :: string
  mcx_idempotency_key :: string
  mcx_expected_version :: u64
  mcx_request_fingerprint :: "string option"

record CanonicalMutationEvent =
  mev_id :: string
  mev_aggregate_kind :: string
  mev_aggregate_id :: string
  mev_sequence :: u64
  mev_store_sequence :: u64
  mev_transition :: string
  mev_expected_version :: u64
  mev_resulting_version :: u64
  mev_performed_by_actor :: ActorRef
  mev_authority_actor :: "ActorRef option"
  mev_causation_ref :: "string option"
  mev_idempotency_key :: string
  mev_canonical_request_fingerprint :: string
  mev_payload :: json
  mev_created_at :: string

record CanonicalOperation =
  cop_event :: CanonicalMutationEvent
  cop_resulting_projection :: json
  cop_immutable_side_records :: "json list"
  cop_initial_outbox_records :: "json list"

record TrustOperationEnvelope =
  env_execution_space_id :: string
  env_authenticated_actor_kind :: ActorKind
  env_authenticated_actor_id :: string
  env_command_name :: string
  env_operation :: CanonicalOperation

record 'a CanonicalMutationResult =
  res_projection :: 'a
  res_event :: CanonicalMutationEvent
  res_replayed :: bool

record trust_codec =
  value_to_vec :: "json \<Rightarrow> bytes"
  digest_bytes :: "bytes \<Rightarrow> bytes"

abbreviation env_event :: "TrustOperationEnvelope \<Rightarrow> CanonicalMutationEvent" where
  "env_event e \<equiv> cop_event (env_operation e)"

text \<open>Object keys are sorted at every depth.\<close>

function trust_canonicalize :: "json \<Rightarrow> json" where
  "trust_canonicalize (JObject entries) =
     JObject (map (\<lambda>e. (fst e, trust_canonicalize (snd e))) (sort_key fst entries))"
| "trust_canonicalize (JArray values) = JArray (map trust_canonicalize values)"
| "trust_canonicalize JNull = JNull"
| "trust_canonicalize (JBool b) = JBool b"
| "trust_canonicalize (JNumber n) = JNumber n"
| "trust_canonicalize (JString s) = JString s"
  by pat_completeness auto
termination
proof (relation "measure size", goal_cases)
  case (2 es e)
  then show ?case using json_entry_size [of e es] by simp
next
  case (3 vs v)
  then show ?case by (simp add: less_Suc_eq_le size_list_estimation')
qed simp

definition canonical_json_fingerprint :: "('z) trust_codec_scheme \<Rightarrow> json \<Rightarrow> string" where
  "canonical_json_fingerprint c value =
     ''sha256:'' @ bytes_to_hex (digest_bytes c (value_to_vec c (trust_canonicalize value)))"

definition event_projection :: "(json \<Rightarrow> string + 'a) \<Rightarrow> TrustOperationEnvelope \<Rightarrow> 'a store_result" where
  "event_projection from_value envelope =
     map_err StoreJson (from_value (cop_resulting_projection (env_operation envelope)))"

section \<open>Reading the ledger\<close>

definition of_aggregate :: "string \<Rightarrow> string \<Rightarrow> string \<Rightarrow> TrustOperationEnvelope \<Rightarrow> bool" where
  "of_aggregate execution_space_id aggregate_kind aggregate_id envelope \<longleftrightarrow>
     env_execution_space_id envelope = execution_space_id
     \<and> mev_aggregate_kind (env_event envelope) = aggregate_kind
     \<and> mev_aggregate_id (env_event envelope) = aggregate_id"

text \<open>The latest envelope of every aggregate of a kind in a space, by aggregate id.\<close>

definition latest_trust_envelopes ::
    "TrustOperationEnvelope list \<Rightarrow> string \<Rightarrow> string \<Rightarrow> TrustOperationEnvelope btree" where
  "latest_trust_envelopes ledger execution_space_id aggregate_kind =
     fold (\<lambda>e m. bt_insert (mev_aggregate_id (env_event e)) e m)
       (filter (\<lambda>e. env_execution_space_id e = execution_space_id \<and> mev_aggregate_kind (env_event e) = aggregate_kind)
          ledger) []"

text \<open>The file: only newline-terminated rows are durable, a malformed one is an error.\<close>

definition trust_operation_envelopes ::
    "(bytes \<Rightarrow> string + TrustOperationEnvelope) \<Rightarrow> bytes option \<Rightarrow> TrustOperationEnvelope list store_result" where
  "trust_operation_envelopes decode file =
     (case file of
        None \<Rightarrow> Inr []
      | Some bytes \<Rightarrow> read_rows ascii_blank (\<lambda>row. map_err StoreJson (decode row)) bytes)"

definition write_trust_operation_envelopes ::
    "(TrustOperationEnvelope \<Rightarrow> bytes) \<Rightarrow> TrustOperationEnvelope list \<Rightarrow> bytes option" where
  "write_trust_operation_envelopes encode envelopes = Some (unlines (map encode envelopes))"

section \<open>Replays\<close>

definition PAIRED_KEY_SEPARATOR :: char where
  "PAIRED_KEY_SEPARATOR = CHR ''#''"

definition require_unreserved_idempotency_key :: "string \<Rightarrow> unit store_result" where
  "require_unreserved_idempotency_key idempotency_key =
     reject_if (PAIRED_KEY_SEPARATOR \<in> set idempotency_key)
       (trust_error InvalidStateTransition
          (''idempotency_key must not contain '' @ [CHR 0x27, PAIRED_KEY_SEPARATOR, CHR 0x27]
           @ '': the separator is reserved for the paired canonical Work transition a command may commit'')
          ''request'' ''idempotency_key'' None)"

text \<open>The scope of an idempotency key: the space, the authenticated actor, the command and the key.\<close>

type_synonym key_scope = "string \<times> ActorKind \<times> string \<times> string \<times> string"

definition envelope_scope :: "TrustOperationEnvelope \<Rightarrow> key_scope" where
  "envelope_scope e =
     (env_execution_space_id e, env_authenticated_actor_kind e, env_authenticated_actor_id e, env_command_name e,
      mev_idempotency_key (env_event e))"

definition context_scope :: "MutationContext \<Rightarrow> key_scope" where
  "context_scope context =
     (mcx_execution_space_id context, act_kind (mcx_authenticated_actor context), act_id (mcx_authenticated_actor context),
      mcx_command_name context, mcx_idempotency_key context)"

definition find_replay :: "TrustOperationEnvelope list \<Rightarrow> MutationContext \<Rightarrow> TrustOperationEnvelope option" where
  "find_replay existing context = List.find (\<lambda>e. envelope_scope e = context_scope context) existing"

definition replayed_result ::
    "(json \<Rightarrow> string + 'a) \<Rightarrow> TrustOperationEnvelope \<Rightarrow> 'a CanonicalMutationResult store_result" where
  "replayed_result from_value replay =
     bindR (event_projection from_value replay) (\<lambda>projection.
       Inr \<lparr>res_projection = projection, res_event = env_event replay, res_replayed = True\<rparr>)"

definition replay_trust_projection_in ::
    "(json \<Rightarrow> string + 'a) \<Rightarrow> TrustOperationEnvelope list \<Rightarrow> MutationContext \<Rightarrow> string \<Rightarrow> string \<Rightarrow> string
      \<Rightarrow> 'a CanonicalMutationResult option store_result" where
  "replay_trust_projection_in from_value existing context aggregate_kind aggregate_id fingerprint =
     (case find_replay existing context of
        None \<Rightarrow> Inr None
      | Some replay \<Rightarrow>
          bindR (reject_if (mev_canonical_request_fingerprint (env_event replay) \<noteq> fingerprint)
                   (trust_error TrustIdempotencyKeyReused
                      ''idempotency key was already used with a different canonical payload''
                      aggregate_kind aggregate_id (Some (mev_resulting_version (env_event replay))))) (\<lambda>_.
          bindR (reject_if (mev_aggregate_kind (env_event replay) \<noteq> aggregate_kind
                            \<or> mev_aggregate_id (env_event replay) \<noteq> aggregate_id)
                   (trust_error TrustIdempotencyKeyReused ''idempotent replay changed aggregate identity''
                      aggregate_kind aggregate_id None)) (\<lambda>_.
          bindR (replayed_result from_value replay) (\<lambda>r. Inr (Some r)))))"

section \<open>Commits\<close>

text \<open>A second aggregate written in the same replacement of the ledger.\<close>

record PairedWorkTransition =
  pwt_transition :: string
  pwt_kind :: WorkEventKind
  pwt_expected_version :: u64
  pwt_work :: Work

record PairedMemberRunProjection =
  pmr_transition :: string
  pmr_expected_version :: u64
  pmr_run :: MemberRun

datatype PairedAggregateTransition = PairedWork PairedWorkTransition | PairedMemberRun PairedMemberRunProjection

record WorkCausationRef =
  wcr_kind :: string
  wcr_id :: string

record WorkEvent =
  wev_id :: string
  wev_team_run_id :: string
  wev_work_id :: string
  wev_sequence :: u64
  wev_kind :: WorkEventKind
  wev_expected_version :: u64
  wev_resulting_version :: u64
  wev_performed_by_actor :: TeamActorRef
  wev_authority_actor :: "TeamActorRef option"
  wev_causation_ref :: "WorkCausationRef option"
  wev_idempotency_key :: string
  wev_payload :: json
  wev_created_at :: string
  wev_executed_by_member_run_id :: "string option"

text \<open>serde of the paired aggregates.\<close>

record paired_codec = trust_codec +
  work_to_value :: "Work \<Rightarrow> string + json"
  member_run_to_value :: "MemberRun \<Rightarrow> string + json"
  work_event_to_value :: "WorkEvent \<Rightarrow> string + json"

definition derived_actor :: "ActorRef \<Rightarrow> TeamActorRef" where
  "derived_actor actor =
     \<lparr>tar_kind = (case act_kind actor of
         ActorAgentMember \<Rightarrow> TeamAgentMember | ActorService \<Rightarrow> TeamService | _ \<Rightarrow> TeamOperator),
      tar_id = act_id actor, tar_display_name = None, tar_authn_source = Some ''canonical-work-event''\<rparr>"

definition derived_work_event :: "CanonicalMutationEvent \<Rightarrow> Work \<Rightarrow> WorkEventKind \<Rightarrow> u64 \<Rightarrow> WorkEvent" where
  "derived_work_event event work kind expected_version =
     \<lparr>wev_id = mev_id event, wev_team_run_id = wrk_team_run_id work, wev_work_id = wrk_id work,
      wev_sequence = wrk_version work, wev_kind = kind, wev_expected_version = expected_version,
      wev_resulting_version = wrk_version work, wev_performed_by_actor = derived_actor (mev_performed_by_actor event),
      wev_authority_actor = map_option derived_actor (mev_authority_actor event), wev_causation_ref = None,
      wev_idempotency_key = mev_idempotency_key event, wev_payload = mev_payload event,
      wev_created_at = mev_created_at event, wev_executed_by_member_run_id = None\<rparr>"

definition latest_of_aggregate ::
    "TrustOperationEnvelope list \<Rightarrow> string \<Rightarrow> string \<Rightarrow> string \<Rightarrow> TrustOperationEnvelope option" where
  "latest_of_aggregate existing execution_space_id aggregate_kind aggregate_id =
     max_by_key (\<lambda>e. mev_sequence (env_event e))
       (filter (of_aggregate execution_space_id aggregate_kind aggregate_id) existing)"

text \<open>\<^verbatim>\<open>map(..).max().unwrap_or(0)\<close>.\<close>

definition newest_store_sequence :: "TrustOperationEnvelope list \<Rightarrow> u64" where
  "newest_store_sequence existing =
     (case max_by_key id (map (\<lambda>e. mev_store_sequence (env_event e)) existing) of None \<Rightarrow> 0 | Some n \<Rightarrow> n)"

definition next_sequence :: "TrustOperationEnvelope option \<Rightarrow> u64" where
  "next_sequence latest = (case latest of None \<Rightarrow> 0 | Some e \<Rightarrow> mev_sequence (env_event e)) + 1"

definition current_version_of :: "TrustOperationEnvelope option \<Rightarrow> u64" where
  "current_version_of latest = (case latest of None \<Rightarrow> 0 | Some e \<Rightarrow> mev_resulting_version (env_event e))"

definition event_id :: "u64 \<Rightarrow> string" where
  "event_id store_sequence = ''trust-event-'' @ show_word store_sequence"

definition envelope_of :: "MutationContext \<Rightarrow> CanonicalOperation \<Rightarrow> TrustOperationEnvelope" where
  "envelope_of context operation =
     \<lparr>env_execution_space_id = mcx_execution_space_id context,
      env_authenticated_actor_kind = act_kind (mcx_authenticated_actor context),
      env_authenticated_actor_id = act_id (mcx_authenticated_actor context),
      env_command_name = mcx_command_name context,
      env_operation = operation\<rparr>"

definition primary_event ::
    "TrustOperationEnvelope list \<Rightarrow> MutationContext \<Rightarrow> string \<Rightarrow> string \<Rightarrow> string \<Rightarrow> string \<Rightarrow> json \<Rightarrow> string
      \<Rightarrow> CanonicalMutationEvent" where
  "primary_event existing context aggregate_kind aggregate_id transition fingerprint request_payload now =
     (let latest = latest_of_aggregate existing (mcx_execution_space_id context) aggregate_kind aggregate_id;
          store_sequence = newest_store_sequence existing + 1 in
      \<lparr>mev_id = event_id store_sequence, mev_aggregate_kind = aggregate_kind, mev_aggregate_id = aggregate_id,
       mev_sequence = next_sequence latest, mev_store_sequence = store_sequence, mev_transition = transition,
       mev_expected_version = current_version_of latest, mev_resulting_version = current_version_of latest + 1,
       mev_performed_by_actor = mcx_authenticated_actor context, mev_authority_actor = mcx_authority_actor context,
       mev_causation_ref = None, mev_idempotency_key = mcx_idempotency_key context,
       mev_canonical_request_fingerprint = fingerprint, mev_payload = request_payload, mev_created_at = now\<rparr>)"

text \<open>What the two kinds of pairs contribute.\<close>

fun paired_parts :: "('z) paired_codec_scheme \<Rightarrow> PairedAggregateTransition
      \<Rightarrow> string \<times> string \<times> string \<times> u64 \<times> u64 \<times> (string + json)" where
  "paired_parts c (PairedWork work) =
     (''work'', wrk_id (pwt_work work), pwt_transition work, pwt_expected_version work, wrk_version (pwt_work work),
      work_to_value c (pwt_work work))"
| "paired_parts c (PairedMemberRun run) =
     (''member_run'', mrn_id (pmr_run run), pmr_transition run, pmr_expected_version run, mrn_version (pmr_run run),
      member_run_to_value c (pmr_run run))"

definition paired_event ::
    "TrustOperationEnvelope list \<Rightarrow> MutationContext \<Rightarrow> CanonicalMutationEvent
      \<Rightarrow> string \<times> string \<times> string \<times> u64 \<times> u64 \<times> (string + json) \<Rightarrow> CanonicalMutationEvent" where
  "paired_event existing context event parts =
     (let (kind, identity, transition, expected, resulting, _) = parts;
          previous = latest_of_aggregate existing (mcx_execution_space_id context) kind identity;
          store_sequence = mev_store_sequence event + 1 in
      \<lparr>mev_id = event_id store_sequence, mev_aggregate_kind = kind, mev_aggregate_id = identity,
       mev_sequence = next_sequence previous, mev_store_sequence = store_sequence, mev_transition = transition,
       mev_expected_version = expected, mev_resulting_version = resulting,
       mev_performed_by_actor = mev_performed_by_actor event, mev_authority_actor = mev_authority_actor event,
       mev_causation_ref = None,
       mev_idempotency_key = mcx_idempotency_key context @ PAIRED_KEY_SEPARATOR # transition,
       mev_canonical_request_fingerprint = mev_canonical_request_fingerprint event, mev_payload = mev_payload event,
       mev_created_at = mev_created_at event\<rparr>)"

definition paired_side_records ::
    "('z) paired_codec_scheme \<Rightarrow> CanonicalMutationEvent \<Rightarrow> PairedAggregateTransition \<Rightarrow> json list store_result" where
  "paired_side_records c event paired =
     (case paired of
        PairedWork work \<Rightarrow>
          bindR (map_err StoreJson (work_event_to_value c
              (derived_work_event event (pwt_work work) (pwt_kind work) (pwt_expected_version work))))
            (\<lambda>value. Inr [value])
      | PairedMemberRun _ \<Rightarrow> Inr [])"

definition paired_operation ::
    "('z) paired_codec_scheme \<Rightarrow> TrustOperationEnvelope list \<Rightarrow> MutationContext \<Rightarrow> CanonicalMutationEvent
      \<Rightarrow> PairedAggregateTransition \<Rightarrow> CanonicalOperation store_result" where
  "paired_operation c existing context event paired =
     (let parts = paired_parts c paired; paired_event = paired_event existing context event parts;
          (_, _, _, _, _, value) = parts in
      bindR (map_err StoreJson value) (\<lambda>projection.
      bindR (paired_side_records c paired_event paired) (\<lambda>side_records.
        Inr \<lparr>cop_event = paired_event, cop_resulting_projection = projection,
             cop_immutable_side_records = side_records, cop_initial_outbox_records = []\<rparr>)))"

definition commit_arguments :: "MutationContext \<Rightarrow> string \<Rightarrow> string \<Rightarrow> unit store_result" where
  "commit_arguments context aggregate_kind aggregate_id =
     bindR (required (mcx_execution_space_id context) ''execution_space_id'') (\<lambda>_.
     bindR (required (act_id (mcx_authenticated_actor context)) ''authenticated_actor.id'') (\<lambda>_.
     bindR (required (mcx_command_name context) ''command_name'') (\<lambda>_.
     bindR (required (mcx_idempotency_key context) ''idempotency_key'') (\<lambda>_.
     bindR (required aggregate_kind ''aggregate_kind'') (\<lambda>_.
     bindR (required aggregate_id ''aggregate_id'') (\<lambda>_.
     require_unreserved_idempotency_key (mcx_idempotency_key context)))))))"

text \<open>
  The state is the list of envelopes the ledger file holds; the commit replaces it, or leaves it.
  \<open>now\<close> is the text of the clock.
\<close>

definition commit_trust_projection_with_paired_aggregate ::
    "('z) paired_codec_scheme \<Rightarrow> ('a \<Rightarrow> string + json) \<Rightarrow> (json \<Rightarrow> string + 'a) \<Rightarrow> string
      \<Rightarrow> MutationContext \<Rightarrow> string \<Rightarrow> string \<Rightarrow> string \<Rightarrow> json \<Rightarrow> 'a \<Rightarrow> json list \<Rightarrow> json list
      \<Rightarrow> PairedAggregateTransition option
      \<Rightarrow> (TrustOperationEnvelope list, StoreError, 'a CanonicalMutationResult) action" where
  "commit_trust_projection_with_paired_aggregate c to_value from_value now context aggregate_kind aggregate_id
       transition request_payload resulting_projection immutable_side_records initial_outbox_records paired existing =
     check (commit_arguments context aggregate_kind aggregate_id) (\<lambda>_ existing.
       let fingerprint = (case mcx_request_fingerprint context of
             Some fingerprint \<Rightarrow> fingerprint
           | None \<Rightarrow> canonical_json_fingerprint c request_payload);
           latest = latest_of_aggregate existing (mcx_execution_space_id context) aggregate_kind aggregate_id;
           current_version = current_version_of latest;
           event = primary_event existing context aggregate_kind aggregate_id transition fingerprint request_payload now in
       check (replay_trust_projection_in from_value existing context aggregate_kind aggregate_id fingerprint)
         (\<lambda>replay existing.
           case replay of
             Some replay \<Rightarrow> (Inr replay, existing)
           | None \<Rightarrow>
               check (reject_if (mcx_expected_version context \<noteq> current_version)
                        (trust_error TrustVersionConflict
                           (''expected version '' @ show_word (mcx_expected_version context)
                            @ '', current version is '' @ show_word current_version)
                           aggregate_kind aggregate_id (Some current_version))) (\<lambda>_.
               check (map_err StoreJson (to_value resulting_projection)) (\<lambda>value existing.
                 let operation = \<lparr>cop_event = event, cop_resulting_projection = value,
                       cop_immutable_side_records = immutable_side_records,
                       cop_initial_outbox_records = initial_outbox_records\<rparr>;
                     result = \<lparr>res_projection = resulting_projection, res_event = event, res_replayed = False\<rparr> in
                 case paired of
                   None \<Rightarrow> (Inr result, existing @ [envelope_of context operation])
                 | Some paired \<Rightarrow>
                     check (paired_operation c existing context event paired) (\<lambda>second existing.
                       (Inr result, existing @ [envelope_of context operation, envelope_of context second])) existing))
               existing) existing) existing"

definition commit_trust_projection ::
    "('z) paired_codec_scheme \<Rightarrow> ('a \<Rightarrow> string + json) \<Rightarrow> (json \<Rightarrow> string + 'a) \<Rightarrow> string
      \<Rightarrow> MutationContext \<Rightarrow> string \<Rightarrow> string \<Rightarrow> string \<Rightarrow> json \<Rightarrow> 'a \<Rightarrow> json list \<Rightarrow> json list
      \<Rightarrow> (TrustOperationEnvelope list, StoreError, 'a CanonicalMutationResult) action" where
  "commit_trust_projection c to_value from_value now context aggregate_kind aggregate_id transition request_payload
       resulting_projection immutable_side_records initial_outbox_records =
     commit_trust_projection_with_paired_aggregate c to_value from_value now context aggregate_kind aggregate_id
       transition request_payload resulting_projection immutable_side_records initial_outbox_records None"

section \<open>The Work writer\<close>

text \<open>
  The transitions of Works have a writer of their own. It compares the new revision with the expected one
  and not with the ledger. \<open>terminal_outbox\<close> is \<^verbatim>\<open>canonical_terminal_work_outbox_unlocked\<close>, the notices
  to the teams of a Work that was closed, which reads teams and Works and is not modelled here.
\<close>

record CurrentWorkMutation =
  cwm_context :: MutationContext
  cwm_transition :: string
  cwm_request_payload :: json
  cwm_work :: Work
  cwm_immutable_side_records :: "json list"
  cwm_initial_outbox_records :: "json list"

fun show_validation_error :: "ValidationError \<Rightarrow> string" where
  "show_validation_error (RequiredField field) = field @ '' is required''"
| "show_validation_error (InvalidField field reason) = field @ '' is invalid: '' @ reason"

definition staged_work_event ::
    "TrustOperationEnvelope list \<Rightarrow> CurrentWorkMutation \<Rightarrow> string \<Rightarrow> string \<Rightarrow> CanonicalMutationEvent" where
  "staged_work_event committed mutation fingerprint now =
     (primary_event committed (cwm_context mutation) ''work'' (wrk_id (cwm_work mutation)) (cwm_transition mutation)
        fingerprint (cwm_request_payload mutation) now)
       \<lparr>mev_expected_version := mcx_expected_version (cwm_context mutation),
        mev_resulting_version := wrk_version (cwm_work mutation)\<rparr>"

type_synonym terminal_outbox = "Work \<Rightarrow> CanonicalMutationEvent \<Rightarrow> json list store_result"

definition stage_current_work_mutation ::
    "('z) paired_codec_scheme \<Rightarrow> terminal_outbox \<Rightarrow> (json \<Rightarrow> string + Work) \<Rightarrow> string \<Rightarrow> CurrentWorkMutation
      \<Rightarrow> (TrustOperationEnvelope list, StoreError, Work CanonicalMutationResult) action" where
  "stage_current_work_mutation c terminal_outbox work_of_value now mutation committed =
     (let ctx = cwm_context mutation; work = cwm_work mutation;
          fingerprint = (case mcx_request_fingerprint ctx of
            Some fingerprint \<Rightarrow> fingerprint | None \<Rightarrow> canonical_json_fingerprint c (cwm_request_payload mutation));
          event = staged_work_event committed mutation fingerprint now in
      check (map_err (\<lambda>error. StoreConflict (''INVALID_WORK_PROJECTION: '' @ show_validation_error error))
               (validate_work work)) (\<lambda>_.
      check (require_unreserved_idempotency_key (mcx_idempotency_key ctx)) (\<lambda>_.
      check (reject_if (wrk_version work \<noteq> sat_add (mcx_expected_version ctx) 1)
               (trust_error TrustVersionConflict ''canonical Work mutation must advance the exact expected revision once''
                  ''work'' (wrk_id work) (Some (wrk_version work)))) (\<lambda>_.
      check (replay_trust_projection_in work_of_value committed ctx ''work'' (wrk_id work) fingerprint) (\<lambda>replay.
        case replay of
          Some replay \<Rightarrow> (\<lambda>committed. (Inr replay, committed))
        | None \<Rightarrow>
            check (terminal_outbox work event) (\<lambda>notices.
            check (map_err StoreJson (work_to_value c work)) (\<lambda>value committed.
              (Inr \<lparr>res_projection = work, res_event = event, res_replayed = False\<rparr>,
               committed @ [envelope_of ctx
                 \<lparr>cop_event = event, cop_resulting_projection = value,
                  cop_immutable_side_records = cwm_immutable_side_records mutation,
                  cop_initial_outbox_records = cwm_initial_outbox_records mutation @ notices\<rparr>]))))))) committed)"

definition commit_current_work_mutation ::
    "('z) paired_codec_scheme \<Rightarrow> terminal_outbox \<Rightarrow> (json \<Rightarrow> string + Work) \<Rightarrow> string \<Rightarrow> CurrentWorkMutation
      \<Rightarrow> (TrustOperationEnvelope list, StoreError, Work CanonicalMutationResult) action" where
  "commit_current_work_mutation c terminal_outbox work_of_value now mutation existing =
     (case stage_current_work_mutation c terminal_outbox work_of_value now mutation existing of
        (Inl error, _) \<Rightarrow> (Inl error, existing)
      | (Inr result, committed) \<Rightarrow> (Inr result, if res_replayed result then existing else committed))"

text \<open>A batch is staged on the growing ledger, each mutation at its own time, and written once or not at all.\<close>

fun stage_work_batch ::
    "('z) paired_codec_scheme \<Rightarrow> terminal_outbox \<Rightarrow> (json \<Rightarrow> string + Work) \<Rightarrow> (string \<times> CurrentWorkMutation) list
      \<Rightarrow> (TrustOperationEnvelope list, StoreError, Work list \<times> bool) action" where
  "stage_work_batch c terminal_outbox work_of_value [] = (\<lambda>committed. (Inr ([], False), committed))"
| "stage_work_batch c terminal_outbox work_of_value ((now, mutation) # mutations) =
     andThen (stage_current_work_mutation c terminal_outbox work_of_value now mutation) (\<lambda>result.
     andThen (stage_work_batch c terminal_outbox work_of_value mutations) (\<lambda>(projections, wrote) committed.
       (Inr (res_projection result # projections, \<not> res_replayed result \<or> wrote), committed)))"

definition commit_current_work_mutations_atomic ::
    "('z) paired_codec_scheme \<Rightarrow> terminal_outbox \<Rightarrow> (json \<Rightarrow> string + Work) \<Rightarrow> (string \<times> CurrentWorkMutation) list
      \<Rightarrow> (TrustOperationEnvelope list, StoreError, Work list) action" where
  "commit_current_work_mutations_atomic c terminal_outbox work_of_value mutations existing =
     (case stage_work_batch c terminal_outbox work_of_value mutations existing of
        (Inl error, _) \<Rightarrow> (Inl error, existing)
      | (Inr (projections, wrote), committed) \<Rightarrow> (Inr projections, if wrote then committed else existing))"

end
