(* ===== verification/Ledger_Properties.thy ===== *)
theory Ledger_Properties
  imports Trust_Ledger
begin

text \<open>
  What the ledger of the trust kernel keeps under any sequence of commits: store sequences without a
  gap, one row per idempotency scope, the version chain of every aggregate; and what a caller may rely
  on: exact replays, no reused keys, no lost updates. The ledger is the list of rows of its file. The
  steps are the commits of projections, alone or paired, and the commits of the Work writer, one by one or
  in batches. The other writers of the file, which create, migrate and re-form teams
  (\<^verbatim>\<open>fabric_teams.rs\<close>: kinds \<^verbatim>\<open>agent_team\<close> and \<^verbatim>\<open>team_membership\<close>) and admit member runs
  (\<^verbatim>\<open>trust_members.rs\<close>: kind \<^verbatim>\<open>member_run\<close>), are not steps of this run.
\<close>

section \<open>Runs of commits\<close>

record ledger_request =
  lrq_now :: string
  lrq_context :: MutationContext
  lrq_kind :: string
  lrq_id :: string
  lrq_transition :: string
  lrq_payload :: json
  lrq_projection :: json
  lrq_side_records :: "json list"
  lrq_outbox_records :: "json list"
  lrq_paired :: "PairedAggregateTransition option"

definition ledger_commit ::
    "('z) paired_codec_scheme \<Rightarrow> ledger_request \<Rightarrow> (TrustOperationEnvelope list, StoreError, json CanonicalMutationResult) action"
  where
  "ledger_commit c r =
     commit_trust_projection_with_paired_aggregate c Inr Inr (lrq_now r) (lrq_context r) (lrq_kind r) (lrq_id r)
       (lrq_transition r) (lrq_payload r) (lrq_projection r) (lrq_side_records r) (lrq_outbox_records r) (lrq_paired r)"

inductive work_commit :: "('z) paired_codec_scheme \<Rightarrow> TrustOperationEnvelope list \<Rightarrow> TrustOperationEnvelope list \<Rightarrow> bool"
  for c where
  one: "commit_current_work_mutation c outbox work_of_value now mutation s = (reply, t) \<Longrightarrow> work_commit c s t"
| batch: "commit_current_work_mutations_atomic c outbox work_of_value mutations s = (replies, t) \<Longrightarrow> work_commit c s t"

inductive ledger_step :: "('z) paired_codec_scheme \<Rightarrow> TrustOperationEnvelope list \<Rightarrow> TrustOperationEnvelope list \<Rightarrow> bool"
  for c where
  committed: "ledger_commit c r s = (reply, t) \<Longrightarrow> ledger_step c s t"
| works: "work_commit c s t \<Longrightarrow> ledger_step c s t"

section \<open>What one commit does\<close>

definition request_fingerprint_of :: "('z) trust_codec_scheme \<Rightarrow> MutationContext \<Rightarrow> json \<Rightarrow> string" where
  "request_fingerprint_of c context payload =
     (case mcx_request_fingerprint context of Some f \<Rightarrow> f | None \<Rightarrow> canonical_json_fingerprint c payload)"

text \<open>The rows of a commit that is not a replay.\<close>

definition commit_rows ::
    "('z) paired_codec_scheme \<Rightarrow> string \<Rightarrow> MutationContext \<Rightarrow> string \<Rightarrow> string \<Rightarrow> string \<Rightarrow> json \<Rightarrow> json \<Rightarrow> json list
      \<Rightarrow> json list \<Rightarrow> PairedAggregateTransition option \<Rightarrow> TrustOperationEnvelope list \<Rightarrow> TrustOperationEnvelope list \<Rightarrow> bool"
  where
  "commit_rows c now context kind i transition payload value sides outbox paired existing rows \<longleftrightarrow>
     (let event = primary_event existing context kind i transition (request_fingerprint_of c context payload) payload now;
          row = envelope_of context \<lparr>cop_event = event, cop_resulting_projection = value,
            cop_immutable_side_records = sides, cop_initial_outbox_records = outbox\<rparr> in
      case paired of
        None \<Rightarrow> rows = [row]
      | Some p \<Rightarrow> \<exists>second. paired_operation c existing context event p = Inr second
                 \<and> rows = [row, envelope_of context second])"

lemma commit_Inl:
  assumes "commit_trust_projection_with_paired_aggregate c tv fv now context kind i transition payload x sides outbox paired
             existing = (Inl e, t)"
  shows "t = existing"
  using assms unfolding commit_trust_projection_with_paired_aggregate_def
  by (auto simp: check_def Let_def split: sum.splits option.splits)

lemma commit_Inr:
  assumes "commit_trust_projection_with_paired_aggregate c tv fv now context kind i transition payload x sides outbox paired
             existing = (Inr result, t)"
  shows "commit_arguments context kind i = Inr ()
    \<and> (replay_trust_projection_in fv existing context kind i (request_fingerprint_of c context payload) = Inr (Some result)
         \<and> t = existing
       \<or> find_replay existing context = None
         \<and> mcx_expected_version context
             = current_version_of (latest_of_aggregate existing (mcx_execution_space_id context) kind i)
         \<and> (\<exists>value rows. tv x = Inr value
             \<and> commit_rows c now context kind i transition payload value sides outbox paired existing rows
             \<and> t = existing @ rows
             \<and> result = \<lparr>res_projection = x,
                  res_event = primary_event existing context kind i transition
                    (request_fingerprint_of c context payload) payload now, res_replayed = False\<rparr>))"
proof -
  have none: "find_replay existing context = None"
    if "replay_trust_projection_in fv existing context kind i f = Inr None" for f
    using that unfolding replay_trust_projection_in_def
    by (auto simp: bindR_eq_Inr split: option.splits)
  show ?thesis
    using assms unfolding commit_trust_projection_with_paired_aggregate_def
    by (auto simp: check_eq_Inr Let_def commit_rows_def request_fingerprint_of_def split: option.splits dest!: none)
qed

lemma commit_conflict:
  assumes "commit_arguments context kind i = Inr ()" and "find_replay existing context = None"
    and "mcx_expected_version context
           \<noteq> current_version_of (latest_of_aggregate existing (mcx_execution_space_id context) kind i)"
  shows "\<exists>e. commit_trust_projection_with_paired_aggregate c tv fv now context kind i transition payload x sides outbox paired
             existing = (Inl e, existing) \<and> refused_with TrustVersionConflict (Inl e :: unit store_result)"
  using assms unfolding commit_trust_projection_with_paired_aggregate_def replay_trust_projection_in_def
  by (auto simp: check_def Let_def reject_if_def)


lemma ledger_commit_cases:
  assumes "ledger_commit c r s = (reply, t)"
  shows "t = s \<or> (\<exists>rows. find_replay s (lrq_context r) = None
    \<and> PAIRED_KEY_SEPARATOR \<notin> set (mcx_idempotency_key (lrq_context r))
    \<and> mcx_expected_version (lrq_context r)
        = current_version_of (latest_of_aggregate s (mcx_execution_space_id (lrq_context r)) (lrq_kind r) (lrq_id r))
    \<and> commit_rows c (lrq_now r) (lrq_context r) (lrq_kind r) (lrq_id r) (lrq_transition r) (lrq_payload r)
        (lrq_projection r) (lrq_side_records r) (lrq_outbox_records r) (lrq_paired r) s rows
    \<and> t = s @ rows)"
proof (cases reply)
  case (Inl e)
  have "t = s" using assms unfolding ledger_commit_def Inl by (rule commit_Inl)
  then show ?thesis by simp
next
  case (Inr result)
  from assms [unfolded ledger_commit_def Inr, THEN commit_Inr] show ?thesis
    by (auto simp: commit_arguments_def bindR_eq_Inr require_unreserved_idempotency_key_def)
qed

text \<open>A commit of the Work writer appends rows of Works, one after the other, each under a new key.\<close>

definition work_row :: "TrustOperationEnvelope list \<Rightarrow> TrustOperationEnvelope list \<Rightarrow> bool" where
  "work_row s t \<longleftrightarrow> (\<exists>row context. t = s @ [row] \<and> find_replay s context = None
     \<and> PAIRED_KEY_SEPARATOR \<notin> set (mcx_idempotency_key context) \<and> envelope_scope row = context_scope context
     \<and> mev_store_sequence (env_event row) = newest_store_sequence s + 1 \<and> mev_aggregate_kind (env_event row) = ''work'')"

lemma stage_work_row:
  assumes "stage_current_work_mutation c outbox work_of_value now mutation s = (Inr result, t)"
  shows "res_replayed result \<and> t = s \<or> work_row s t"
proof -
  let ?ctx = "cwm_context mutation"
  from assms obtain replay fingerprint where
    key: "PAIRED_KEY_SEPARATOR \<notin> set (mcx_idempotency_key ?ctx)"
    and replay: "replay_trust_projection_in work_of_value s ?ctx ''work'' (wrk_id (cwm_work mutation)) fingerprint = Inr replay"
    and t: "case replay of Some r \<Rightarrow> result = r \<and> t = s
      | None \<Rightarrow> (\<exists>row. t = s @ [row] \<and> env_event row = staged_work_event s mutation fingerprint now
          \<and> envelope_scope row = context_scope ?ctx)"
    by (auto simp: stage_current_work_mutation_def Let_def check_eq_Inr require_unreserved_idempotency_key_def
        envelope_of_def envelope_scope_def context_scope_def staged_work_event_def primary_event_def
        split: option.splits if_splits)
  show ?thesis
  proof (cases replay)
    case None
    have "find_replay s ?ctx = None"
      using replay None by (auto simp: replay_trust_projection_in_def bindR_eq_Inr split: option.splits)
    with key t None have "work_row s t"
      by (auto simp: work_row_def staged_work_event_def primary_event_def Let_def intro!: exI [of _ ?ctx])
    then show ?thesis ..
  next
    case (Some r)
    with replay t show ?thesis
      by (auto simp: replay_trust_projection_in_def replayed_result_def bindR_eq_Inr split: option.splits)
  qed
qed

lemma stage_batch_rows:
  "stage_work_batch c outbox work_of_value mutations s = (Inr result, t) \<Longrightarrow> work_row\<^sup>*\<^sup>* s t"
proof (induction mutations arbitrary: s result)
  case (Cons m ms)
  obtain now mutation where m: "m = (now, mutation)" by (cases m)
  with Cons.prems obtain r u rest where r: "stage_current_work_mutation c outbox work_of_value now mutation s = (Inr r, u)"
    and rest: "stage_work_batch c outbox work_of_value ms u = (Inr rest, t)"
    by (auto simp: andThen_eq_Inr)
  show ?case using stage_work_row [OF r] Cons.IH [OF rest] by auto
qed simp

lemma work_commit_rows: "work_commit c s t \<Longrightarrow> work_row\<^sup>*\<^sup>* s t"
proof (erule work_commit.cases, goal_cases)
  case (1 outbox work_of_value now mutation s' reply t')
  then show ?case
    by (auto simp: commit_current_work_mutation_def split: prod.splits sum.splits if_splits dest: stage_work_row)
next
  case (2 outbox work_of_value mutations s' replies t')
  then show ?case
    by (auto simp: commit_current_work_mutations_atomic_def split: prod.splits sum.splits if_splits dest: stage_batch_rows)
qed

lemma work_rows_append: "work_row\<^sup>*\<^sup>* s t \<Longrightarrow> \<exists>rows. t = s @ rows"
  by (induction rule: rtranclp_induct) (auto simp: work_row_def)

lemma ledger_step_append: "ledger_step c s t \<Longrightarrow> \<exists>rows. t = s @ rows"
  by (erule ledger_step.cases) (auto dest: ledger_commit_cases work_commit_rows work_rows_append)

text \<open>The rows of a commit: the fields the ledger's order depends on.\<close>

lemma commit_rows_fields:
  assumes "commit_rows c now context kind i transition payload value sides outbox paired existing rows"
  obtains row where "rows = [row]"
      "env_event row = primary_event existing context kind i transition (request_fingerprint_of c context payload) payload now"
      "envelope_scope row = context_scope context" "cop_resulting_projection (env_operation row) = value"
      "env_execution_space_id row = mcx_execution_space_id context"
  | row second parts where "rows = [row, second]"
      "env_event row = primary_event existing context kind i transition (request_fingerprint_of c context payload) payload now"
      "envelope_scope row = context_scope context" "cop_resulting_projection (env_operation row) = value"
      "env_execution_space_id row = mcx_execution_space_id context"
      "env_event second = paired_event existing context (env_event row) parts" "fst parts \<in> {''work'', ''member_run''}"
      "env_execution_space_id second = mcx_execution_space_id context"
      "env_authenticated_actor_kind second = act_kind (mcx_authenticated_actor context)"
      "env_authenticated_actor_id second = act_id (mcx_authenticated_actor context)"
      "env_command_name second = mcx_command_name context"
proof -
  let ?event = "primary_event existing context kind i transition (request_fingerprint_of c context payload) payload now"
  let ?row = "envelope_of context \<lparr>cop_event = ?event, cop_resulting_projection = value,
            cop_immutable_side_records = sides, cop_initial_outbox_records = outbox\<rparr>"
  have row: "env_event ?row = ?event" "envelope_scope ?row = context_scope context"
    "cop_resulting_projection (env_operation ?row) = value" "env_execution_space_id ?row = mcx_execution_space_id context"
    by (simp_all add: envelope_of_def envelope_scope_def context_scope_def primary_event_def Let_def)
  show thesis
  proof (cases paired)
    case None
    with assms have "rows = [?row]" by (simp add: commit_rows_def Let_def)
    from that(1) [OF this row] show thesis .
  next
    case (Some p)
    with assms obtain second where second: "paired_operation c existing context ?event p = Inr second"
      "rows = [?row, envelope_of context second]"
      by (auto simp: commit_rows_def Let_def)
    have parts: "fst (paired_parts c p) \<in> {''work'', ''member_run''}" by (cases p) simp_all
    have ev: "env_event (envelope_of context second) = paired_event existing context (env_event ?row) (paired_parts c p)"
      using second(1) unfolding row(1)
      by (auto simp: paired_operation_def Let_def bindR_eq_Inr envelope_of_def split: prod.splits)
    from that(2) [OF second(2) row ev parts] show thesis by (simp add: envelope_of_def)
  qed
qed


section \<open>The order of the ledger\<close>

definition store_sequences :: "TrustOperationEnvelope list \<Rightarrow> u64 list" where
  "store_sequences s = map (\<lambda>e. mev_store_sequence (env_event e)) s"

definition gapless :: "TrustOperationEnvelope list \<Rightarrow> bool" where
  "gapless s \<longleftrightarrow> store_sequences s = map of_nat [1..<Suc (length s)]"

lemma max_by_key_last:
  fixes f :: "'a \<Rightarrow> 'k::linorder"
  assumes "xs \<noteq> []" and "\<And>y. y \<in> set xs \<Longrightarrow> f y \<le> f (last xs)"
  shows "max_by_key f xs = Some (last xs)"
  using assms
proof (induction xs)
  case (Cons x xs)
  show ?case
  proof (cases "xs = []")
    case False
    with Cons have "max_by_key f xs = Some (last xs)" "f x \<le> f (last xs)" by auto
    with False show ?thesis by (auto dest: leD)
  qed simp
qed simp

lemma unat_u64: "n < 2 ^ 64 \<Longrightarrow> unat (of_nat n :: u64) = n"
  by (simp add: unat_of_nat take_bit_nat_eq_self)

lemma of_nat_u64_le: "m \<le> n \<Longrightarrow> n < 2 ^ 64 \<Longrightarrow> (of_nat m :: u64) \<le> of_nat n"
  by (simp add: word_le_nat_alt unat_u64 del: unat_of_nat)

lemma of_nat_u64_inj: "m < 2 ^ 64 \<Longrightarrow> n < 2 ^ 64 \<Longrightarrow> (of_nat m :: u64) = of_nat n \<longleftrightarrow> m = n"
  using unat_u64 by metis

lemma newest_store_sequence_gapless:
  assumes "gapless s" and "length s < 2 ^ 64"
  shows "newest_store_sequence s = of_nat (length s)"
proof (cases "s = []")
  case True
  then show ?thesis by (simp add: newest_store_sequence_def)
next
  case False
  let ?xs = "map of_nat [1..<Suc (length s)] :: u64 list"
  have l: "last ?xs = of_nat (length s)" "?xs \<noteq> []" using False by (cases s; simp)+
  moreover have "\<And>y. y \<in> set ?xs \<Longrightarrow> y \<le> of_nat (length s)"
    using assms(2) by (auto intro!: of_nat_u64_le)
  ultimately have "max_by_key id ?xs = Some (last ?xs)" by (intro max_by_key_last) auto
  with assms(1) l show ?thesis by (simp add: newest_store_sequence_def gapless_def store_sequences_def)
qed

text \<open>
  A key with a separator is only ever that of a paired row, and the primary row of its key stands in
  the ledger. So one scope never has two rows.
\<close>

definition base_key :: "string \<Rightarrow> string" where
  "base_key key = takeWhile (\<lambda>x. x \<noteq> PAIRED_KEY_SEPARATOR) key"

definition primary_scope :: "key_scope \<Rightarrow> key_scope" where
  "primary_scope scope = (case scope of (space, kind, actor, command, key) \<Rightarrow> (space, kind, actor, command, base_key key))"

definition scopes_ok :: "TrustOperationEnvelope list \<Rightarrow> bool" where
  "scopes_ok s \<longleftrightarrow> distinct (map envelope_scope s) \<and> primary_scope ` envelope_scope ` set s \<subseteq> envelope_scope ` set s"

lemma base_key_simps [simp]:
  "PAIRED_KEY_SEPARATOR \<notin> set key \<Longrightarrow> base_key key = key"
  "PAIRED_KEY_SEPARATOR \<notin> set key \<Longrightarrow> base_key (key @ PAIRED_KEY_SEPARATOR # rest) = key"
  by (auto simp: base_key_def takeWhile_eq_all_conv takeWhile_append)

lemma find_replay_None: "find_replay s context = None \<longleftrightarrow> context_scope context \<notin> envelope_scope ` set s"
  by (auto simp: find_replay_def find_None_iff image_iff)

lemma scopes_ok_append:
  assumes ok: "scopes_ok s" and fresh: "find_replay s context = None"
    and key: "PAIRED_KEY_SEPARATOR \<notin> set (mcx_idempotency_key context)"
    and rows: "commit_rows c now context kind i transition payload value sides outbox paired s rows"
  shows "scopes_ok (s @ rows)"
  using rows
proof (cases rule: commit_rows_fields)
  case (1 row)
  have "primary_scope (context_scope context) = context_scope context"
    using key by (simp add: context_scope_def primary_scope_def)
  with 1(1,3) ok fresh show ?thesis
    unfolding scopes_ok_def find_replay_None by (simp add: image_Un) blast
next
  case (2 row second parts)
  have scope: "envelope_scope second = (mcx_execution_space_id context, act_kind (mcx_authenticated_actor context),
      act_id (mcx_authenticated_actor context), mcx_command_name context,
      mcx_idempotency_key context @ PAIRED_KEY_SEPARATOR # fst (snd (snd parts)))"
    using 2 by (simp add: envelope_scope_def paired_event_def Let_def split: prod.splits)
  have prim: "primary_scope (context_scope context) = context_scope context"
    "primary_scope (envelope_scope second) = context_scope context"
    using key by (simp_all add: context_scope_def primary_scope_def scope)
  have "envelope_scope second \<notin> envelope_scope ` set s"
    using ok fresh prim(2) unfolding scopes_ok_def find_replay_None by (metis image_subset_iff)
  moreover have "envelope_scope second \<noteq> context_scope context"
    by (simp add: scope context_scope_def)
  ultimately show ?thesis using 2(1,3) ok fresh prim
    unfolding scopes_ok_def find_replay_None by (simp add: image_Un) blast
qed

lemma gapless_append:
  assumes "gapless s" and "length (s @ rows) < 2 ^ 64"
    and rows: "commit_rows c now context kind i transition payload value sides outbox paired s rows"
  shows "gapless (s @ rows)"
proof -
  have newest: "newest_store_sequence s = of_nat (length s)"
    using assms(1,2) by (intro newest_store_sequence_gapless) auto
  from rows show ?thesis
  proof (cases rule: commit_rows_fields)
    case (1 row)
    with assms(1) newest show ?thesis
      by (simp add: gapless_def store_sequences_def primary_event_def Let_def)
  next
    case (2 row second parts)
    with assms(1) newest show ?thesis
      by (simp add: gapless_def store_sequences_def primary_event_def paired_event_def Let_def split: prod.splits)
  qed
qed


section \<open>The versions of an aggregate\<close>

text \<open>
  The kinds \<^verbatim>\<open>work\<close> and \<^verbatim>\<open>member_run\<close> have no version chain: the second half of a pair and the Work
  writer bring the versions of the caller.
\<close>

definition unpaired_kind :: "string \<Rightarrow> bool" where
  "unpaired_kind kind \<longleftrightarrow> kind \<noteq> ''work'' \<and> kind \<noteq> ''member_run''"

definition version_step :: "TrustOperationEnvelope \<Rightarrow> u64 \<times> u64 \<times> u64" where
  "version_step e = (mev_sequence (env_event e), mev_expected_version (env_event e), mev_resulting_version (env_event e))"

definition version_chain :: "TrustOperationEnvelope list \<Rightarrow> bool" where
  "version_chain rows \<longleftrightarrow> map version_step rows = map (\<lambda>n. (of_nat (Suc n), of_nat n, of_nat (Suc n))) [0..<length rows]"

definition chains_ok :: "TrustOperationEnvelope list \<Rightarrow> bool" where
  "chains_ok s \<longleftrightarrow> (\<forall>space kind i. unpaired_kind kind \<longrightarrow> version_chain (filter (of_aggregate space kind i) s))"

lemma version_chain_nth:
  assumes "version_chain rows" and "n < length rows"
  shows "version_step (rows ! n) = (of_nat (Suc n), of_nat n, of_nat (Suc n))"
proof -
  have "map version_step rows ! n = map (\<lambda>n. (of_nat (Suc n), of_nat n, of_nat (Suc n))) [0..<length rows] ! n"
    using assms(1) by (simp add: version_chain_def)
  with assms(2) show ?thesis by simp
qed

lemma version_chain_latest:
  assumes chain: "version_chain (filter (of_aggregate space kind i) s)" and len: "length s < 2 ^ 64"
  defines "n \<equiv> length (filter (of_aggregate space kind i) s)"
  shows "current_version_of (latest_of_aggregate s space kind i) = of_nat n"
    and "next_sequence (latest_of_aggregate s space kind i) = of_nat (Suc n)"
proof -
  let ?rows = "filter (of_aggregate space kind i) s"
  have small: "length ?rows < 2 ^ 64" using len by (rule le_less_trans [OF length_filter_le])
  have "current_version_of (latest_of_aggregate s space kind i) = of_nat n
      \<and> next_sequence (latest_of_aggregate s space kind i) = of_nat (Suc n)"
  proof (cases "?rows = []")
    case True
    then show ?thesis by (simp add: latest_of_aggregate_def current_version_of_def next_sequence_def n_def)
  next
    case False
    then have last: "version_step (last ?rows) = (of_nat n, of_nat (n - 1), of_nat n)" "n \<noteq> 0"
      using version_chain_nth [OF chain, of "n - 1"] by (simp_all add: last_conv_nth n_def)
    have "mev_sequence (env_event y) \<le> mev_sequence (env_event (last ?rows))" if y: "y \<in> set ?rows" for y
    proof -
      from y obtain k where k: "k < length ?rows" "y = ?rows ! k" by (metis in_set_conv_nth)
      have "version_step y = (of_nat (Suc k), of_nat k, of_nat (Suc k))"
        unfolding k(2) by (rule version_chain_nth [OF chain k(1)])
      moreover have "(of_nat (Suc k) :: u64) \<le> of_nat n"
        using k(1) small by (intro of_nat_u64_le) (simp_all add: n_def)
      ultimately show ?thesis using last by (simp add: version_step_def del: of_nat_Suc)
    qed
    then have "latest_of_aggregate s space kind i = Some (last ?rows)"
      unfolding latest_of_aggregate_def by (rule max_by_key_last [OF False])
    with last show ?thesis by (simp add: current_version_of_def next_sequence_def version_step_def)
  qed
  then show "current_version_of (latest_of_aggregate s space kind i) = of_nat n"
    "next_sequence (latest_of_aggregate s space kind i) = of_nat (Suc n)" by blast+
qed

lemma chains_ok_append:
  assumes ok: "chains_ok s" and len: "length s < 2 ^ 64"
    and rows: "commit_rows c now context kind i transition payload value sides outbox paired s rows"
  shows "chains_ok (s @ rows)"
  unfolding chains_ok_def
proof (intro allI impI)
  fix space k a
  assume k: "unpaired_kind k"
  let ?old = "filter (of_aggregate space k a) s"
  have chain: "version_chain ?old" using ok k by (simp add: chains_ok_def)
  note now_version = version_chain_latest [OF chain len]
  have primary: "version_chain (?old @ filter (of_aggregate space k a) [row])"
    if "env_event row = primary_event s context kind i transition (request_fingerprint_of c context payload) payload now"
      "env_execution_space_id row = mcx_execution_space_id context" for row
  proof (cases "of_aggregate space k a row")
    case True
    with that have eq: "space = mcx_execution_space_id context" "k = kind" "a = i"
      by (auto simp: of_aggregate_def primary_event_def Let_def)
    have "version_step row = (of_nat (Suc (length ?old)), of_nat (length ?old), of_nat (Suc (length ?old)))"
      using that now_version unfolding eq by (simp add: version_step_def primary_event_def Let_def)
    with chain True show ?thesis by (simp add: version_chain_def)
  qed (use chain in simp)
  from rows show "version_chain (filter (of_aggregate space k a) (s @ rows))"
  proof (cases rule: commit_rows_fields)
    case (1 row)
    with primary show ?thesis by simp
  next
    case (2 row second parts)
    have "\<not> of_aggregate space k a second"
      using 2(6,7) k by (auto simp: of_aggregate_def paired_event_def Let_def unpaired_kind_def split: prod.splits)
    then have "filter (of_aggregate space k a) (s @ rows) = ?old @ filter (of_aggregate space k a) [row]"
      using 2(1) by simp
    with primary [OF 2(2,5)] show ?thesis by (simp only:)
  qed
qed


section \<open>The invariant of the ledger\<close>

definition ledger_ok :: "TrustOperationEnvelope list \<Rightarrow> bool" where
  "ledger_ok s \<longleftrightarrow> scopes_ok s \<and> (length s < 2 ^ 64 \<longrightarrow> gapless s \<and> chains_ok s)"

definition ledger_extends :: "TrustOperationEnvelope list \<Rightarrow> TrustOperationEnvelope list \<Rightarrow> bool" where
  "ledger_extends s t \<longleftrightarrow> (\<exists>rows. t = s @ rows)"

lemma ledger_ok_append:
  assumes ok: "ledger_ok s" and new: "find_replay s context = None" "PAIRED_KEY_SEPARATOR \<notin> set (mcx_idempotency_key context)"
    and rows: "commit_rows c now context kind i transition payload value sides outbox paired s rows"
  shows "ledger_ok (s @ rows)"
proof -
  have "scopes_ok (s @ rows)" using ok new rows unfolding ledger_ok_def by (intro scopes_ok_append) auto
  moreover have "gapless (s @ rows) \<and> chains_ok (s @ rows)" if len: "length (s @ rows) < 2 ^ 64"
  proof -
    have s: "gapless s" "chains_ok s" "length s < 2 ^ 64" using ok len by (simp_all add: ledger_ok_def)
    from gapless_append [OF s(1) len rows] chains_ok_append [OF s(2,3) rows] show ?thesis ..
  qed
  ultimately show ?thesis by (simp add: ledger_ok_def)
qed

lemma ledger_ok_work_row:
  assumes ok: "ledger_ok s" and row: "work_row s t"
  shows "ledger_ok t"
proof -
  from row obtain row ctx where t: "t = s @ [row]" and new: "find_replay s ctx = None"
      "PAIRED_KEY_SEPARATOR \<notin> set (mcx_idempotency_key ctx)" "envelope_scope row = context_scope ctx"
    and sequence: "mev_store_sequence (env_event row) = newest_store_sequence s + 1"
    and kind: "mev_aggregate_kind (env_event row) = ''work''"
    unfolding work_row_def by blast
  have "primary_scope (context_scope ctx) = context_scope ctx"
    using new(2) by (simp add: context_scope_def primary_scope_def)
  with ok new have "scopes_ok t"
    unfolding ledger_ok_def scopes_ok_def find_replay_None t by (simp add: image_Un) blast
  moreover have "gapless t \<and> chains_ok t" if len: "length t < 2 ^ 64"
  proof
    have s: "gapless s" "chains_ok s" using ok len t by (simp_all add: ledger_ok_def)
    then have "newest_store_sequence s = of_nat (length s)"
      using len t by (intro newest_store_sequence_gapless) auto
    with s(1) sequence show "gapless t" by (simp add: t gapless_def store_sequences_def)
    show "chains_ok t"
      using s(2) kind by (auto simp: t chains_ok_def of_aggregate_def unpaired_kind_def)
  qed
  ultimately show ?thesis by (simp add: ledger_ok_def)
qed

lemma ledger_ok_step:
  assumes ok: "ledger_ok s" and step: "ledger_step c s t"
  shows "ledger_ok t"
  using step
proof cases
  case (committed r reply)
  from ledger_commit_cases [OF committed] ok ledger_ok_append show ?thesis by blast
next
  case works
  from work_commit_rows [OF works] ok show ?thesis
    by (induction rule: rtranclp_induct) (auto dest: ledger_ok_work_row)
qed

interpretation ledger: monotone_system "\<lambda>s. s = []" "ledger_step c" ledger_ok ledger_extends for c
proof
  show "ledger_ok s" if "s = []" for s
    using that by (simp add: ledger_ok_def scopes_ok_def gapless_def store_sequences_def chains_ok_def version_chain_def)
  show "ledger_ok t" if "ledger_ok s" "ledger_step c s t" for s t
    using that by (rule ledger_ok_step)
  show "ledger_extends s s" for s
    by (simp add: ledger_extends_def)
  show "ledger_extends s u" if "ledger_extends s t" "ledger_extends t u" for s t u
    using that by (auto simp: ledger_extends_def)
  show "ledger_extends s t" if "ledger_ok s" "ledger_step c s t" for s t
    using ledger_step_append [OF that(2)] by (simp add: ledger_extends_def)
qed

section \<open>Properties\<close>

text \<open>
  The ledger is totally ordered and has one row per idempotency scope: after any sequence of
  commits, the i-th row has the store sequence i + 1, and the store sequences and the scopes (space,
  actor, command, key) are distinct. This includes the second rows of paired commits, whose key is the
  caller's key with the separator and the transition: no caller's key can collide with it.
\<close>

theorem ledger_order:
  assumes "(ledger_step c)\<^sup>*\<^sup>* [] s" and "length s < 2 ^ 64"
  shows "store_sequences s = map of_nat [1..<Suc (length s)]
    \<and> distinct (store_sequences s) \<and> distinct (map envelope_scope s)"
proof -
  have "ledger_ok s" using ledger.reachable_inv [OF refl assms(1)] .
  then have g: "store_sequences s = map of_nat [1..<Suc (length s)]" and d: "distinct (map envelope_scope s)"
    using assms(2) by (simp_all add: ledger_ok_def gapless_def scopes_ok_def)
  have "inj_on (of_nat :: nat \<Rightarrow> u64) (set [1..<Suc (length s)])"
    using assms(2) of_nat_u64_inj by (auto simp: inj_on_def)
  with d show ?thesis by (simp add: g distinct_map)
qed

text \<open>
  C12. Optimistic concurrency loses no update: once a commit with an expected version has been written
  to an aggregate of a kind other than \<^verbatim>\<open>work\<close> and \<^verbatim>\<open>member_run\<close>, no later commit of that
  aggregate with the same expected version writes anything, whatever commits of projections, alone or
  paired, and whatever commits of the Work writer came in between, and whoever asks. For the two excluded
  kinds the versions are not the ledger's to count: a pair and the Work writer bring their own.
\<close>

theorem no_lost_update:
  assumes "(ledger_step c)\<^sup>*\<^sup>* [] s" and "ledger_commit c r s = (reply, s')" and "s' \<noteq> s"
    and "(ledger_step c)\<^sup>*\<^sup>* s' t" and "length t < 2 ^ 64"
    and "mcx_execution_space_id (lrq_context r') = mcx_execution_space_id (lrq_context r)"
    and "lrq_kind r' = lrq_kind r" and "lrq_id r' = lrq_id r" and "unpaired_kind (lrq_kind r)"
    and "mcx_expected_version (lrq_context r') = mcx_expected_version (lrq_context r)"
  shows "snd (ledger_commit c r' t) = t"
proof (rule ccontr)
  let ?of = "of_aggregate (mcx_execution_space_id (lrq_context r)) (lrq_kind r) (lrq_id r)"
  assume changed: "snd (ledger_commit c r' t) \<noteq> t"
  have s: "ledger_ok s" using ledger.reachable_inv [OF refl assms(1)] .
  have step: "ledger_step c s s'" using assms(2) by (rule committed)
  then have run: "(ledger_step c)\<^sup>*\<^sup>* [] t" using assms(1,4) by (blast intro: rtranclp_trans)
  have t: "ledger_ok t" using ledger.reachable_inv [OF refl run] .
  have ext: "ledger_extends s' t" using ledger.run_rel [OF assms(4)] ledger_ok_step [OF s step] .
  from ledger_commit_cases [OF assms(2)] assms(3) obtain rows where
    first: "mcx_expected_version (lrq_context r) = current_version_of (latest_of_aggregate s
        (mcx_execution_space_id (lrq_context r)) (lrq_kind r) (lrq_id r))"
      "commit_rows c (lrq_now r) (lrq_context r) (lrq_kind r) (lrq_id r) (lrq_transition r) (lrq_payload r)
        (lrq_projection r) (lrq_side_records r) (lrq_outbox_records r) (lrq_paired r) s rows"
      "s' = s @ rows" by metis
  have second: "mcx_expected_version (lrq_context r') = current_version_of (latest_of_aggregate t
        (mcx_execution_space_id (lrq_context r')) (lrq_kind r') (lrq_id r'))"
    using ledger_commit_cases [of c r' t "fst (ledger_commit c r' t)" "snd (ledger_commit c r' t)"] changed
    by (simp only: prod.collapse) blast
  from ext first(3) obtain more where t_eq: "t = s @ rows @ more" by (auto simp: ledger_extends_def)
  have "\<exists>row \<in> set rows. ?of row"
    using first(2) by (cases rule: commit_rows_fields) (simp_all add: of_aggregate_def primary_event_def Let_def)
  then have "filter ?of rows \<noteq> []" by (auto simp: filter_empty_conv)
  then have less: "length (filter ?of s) < length (filter ?of t)" unfolding t_eq by (cases "filter ?of rows") simp_all
  have len: "length s < 2 ^ 64" using assms(5) unfolding t_eq by simp
  have "current_version_of (latest_of_aggregate u (mcx_execution_space_id (lrq_context r)) (lrq_kind r) (lrq_id r))
      = of_nat (length (filter ?of u))" if "ledger_ok u" "length u < 2 ^ 64" for u
    using that assms(9) by (intro version_chain_latest(1)) (auto simp: ledger_ok_def chains_ok_def)
  with s t len assms(5) first(1) second assms(6-8,10)
  have "(of_nat (length (filter ?of s)) :: u64) = of_nat (length (filter ?of t))" by simp
  moreover have "length (filter ?of t) < 2 ^ 64" using assms(5) by (rule le_less_trans [OF length_filter_le])
  ultimately have "length (filter ?of s) = length (filter ?of t)" using less by (subst (asm) of_nat_u64_inj) linarith+
  with less show False by simp
qed


text \<open>
  C14. The version chain: the rows of an aggregate of a kind other than \<^verbatim>\<open>work\<close> and \<^verbatim>\<open>member_run\<close>,
  in ledger order, have the sequences 1, 2, 3, ..., and the n-th of them moves the aggregate from version
  n - 1 to version n, after any commits of projections, alone or paired, and of the Work writer. No
  revision is skipped, repeated or forked. The rows of the two excluded kinds carry versions that their
  caller brings, so the number of events of a Work does not follow its revisions.
\<close>

theorem aggregate_version_chain:
  assumes "(ledger_step c)\<^sup>*\<^sup>* [] s" and "length s < 2 ^ 64" and "unpaired_kind kind"
    and "n < length (filter (of_aggregate space kind i) s)"
  shows "(let event = env_event (filter (of_aggregate space kind i) s ! n) in
    mev_sequence event = of_nat (n + 1) \<and> mev_expected_version event = of_nat n
    \<and> mev_resulting_version event = of_nat (n + 1))"
proof -
  have "ledger_ok s" using ledger.reachable_inv [OF refl assms(1)] .
  with assms(2,3) have "version_chain (filter (of_aggregate space kind i) s)"
    by (simp add: ledger_ok_def chains_ok_def)
  from version_chain_nth [OF this assms(4)] show ?thesis by (simp add: version_step_def Let_def)
qed

section \<open>Replays\<close>

lemma find_replay_append:
  "find_replay s context = Some e \<Longrightarrow> find_replay (s @ rows) context = Some e"
  "find_replay s context = None \<Longrightarrow> envelope_scope row = context_scope context
     \<Longrightarrow> find_replay (s @ row # rows) context = Some row"
  by (induction s) (auto simp: find_replay_def split: if_splits)

text \<open>The row that answers the replays of an accepted commit.\<close>

lemma commit_leaves_replay:
  assumes "commit_trust_projection_with_paired_aggregate c tv fv now context kind i transition payload x sides outbox paired
             s = (Inr result, s')"
    and "\<And>value. tv x = Inr value \<Longrightarrow> fv value = Inr x"
  shows "\<exists>row. find_replay (s' @ rows) context = Some row \<and> env_event row = res_event result
    \<and> mev_canonical_request_fingerprint (env_event row) = request_fingerprint_of c context payload
    \<and> mev_aggregate_kind (env_event row) = kind \<and> mev_aggregate_id (env_event row) = i
    \<and> fv (cop_resulting_projection (env_operation row)) = Inr (res_projection result)"
  using commit_Inr [OF assms(1)]
proof (elim conjE disjE exE)
  assume "replay_trust_projection_in fv s context kind i (request_fingerprint_of c context payload) = Inr (Some result)"
    and "s' = s"
  then obtain row where "find_replay s context = Some row"
    "mev_canonical_request_fingerprint (env_event row) = request_fingerprint_of c context payload"
    "mev_aggregate_kind (env_event row) = kind" "mev_aggregate_id (env_event row) = i"
    "replayed_result fv row = Inr result" "s' = s"
    by (auto simp: replay_trust_projection_in_def bindR_eq_Inr split: option.splits)
  then show ?thesis
    using find_replay_append(1) [of s "context" row rows] by (auto simp: replayed_result_def bindR_eq_Inr event_projection_def)
next
  fix v new
  assume fresh: "find_replay s context = None" and serialised: "tv x = Inr v"
    and new: "commit_rows c now context kind i transition payload v sides outbox paired s new"
    and s': "s' = s @ new"
    and result: "result = \<lparr>res_projection = x, res_event = primary_event s context kind i transition
                  (request_fingerprint_of c context payload) payload now, res_replayed = False\<rparr>"
  obtain row more where row: "new = row # more"
      "env_event row = primary_event s context kind i transition (request_fingerprint_of c context payload) payload now"
      "envelope_scope row = context_scope context" "cop_resulting_projection (env_operation row) = v"
    using new by (cases rule: commit_rows_fields) auto
  have "find_replay (s @ row # more @ rows) context = Some row" using fresh row(3) by (rule find_replay_append(2))
  with row assms(2) [OF serialised] show ?thesis
    by (auto simp: s' result primary_event_def Let_def)
qed

text \<open>
  C13. A retry is answered exactly: after an accepted commit, and whatever was committed since, the same
  request (same context, aggregate and payload) writes nothing and returns the projection and the event
  of the first answer, marked as a replay. The clock, the transition, the new projection and the side
  records of the retry play no part, and its expected version is not compared again.
\<close>

theorem retry_replays:
  assumes "commit_trust_projection_with_paired_aggregate c to_value from_value now context kind i transition payload x
             sides outbox paired s = (Inr result, s')"
    and "\<And>value. to_value x = Inr value \<Longrightarrow> from_value value = Inr x"
    and "(ledger_step c)\<^sup>*\<^sup>* s' t"
  shows "commit_trust_projection_with_paired_aggregate c to_value from_value now' context kind i transition' payload x'
             sides' outbox' paired' t = (Inr (result\<lparr>res_replayed := True\<rparr>), t)"
proof -
  have "\<exists>rows. t = s' @ rows"
    using assms(3) by (induction rule: rtranclp_induct) (auto dest: ledger_step_append)
  then obtain rows where t: "t = s' @ rows" ..
  obtain row where row: "find_replay t context = Some row" "env_event row = res_event result"
      "mev_canonical_request_fingerprint (env_event row) = request_fingerprint_of c context payload"
      "mev_aggregate_kind (env_event row) = kind" "mev_aggregate_id (env_event row) = i"
      "from_value (cop_resulting_projection (env_operation row)) = Inr (res_projection result)"
    using commit_leaves_replay [OF assms(1,2), of rows] t by auto
  have "replay_trust_projection_in from_value t context kind i (request_fingerprint_of c context payload)
      = Inr (Some (result\<lparr>res_replayed := True\<rparr>))"
    using row by (simp add: replay_trust_projection_in_def replayed_result_def event_projection_def)
  moreover have "commit_arguments context kind i = Inr ()" using commit_Inr [OF assms(1)] by simp
  ultimately show ?thesis
    unfolding commit_trust_projection_with_paired_aggregate_def request_fingerprint_of_def by (simp add: Let_def)
qed

text \<open>
  A key is not reused: after an accepted commit, a request of the same scope with another
  fingerprint, or for another aggregate, is refused as a reused key and writes nothing.
\<close>

theorem reused_key_refused:
  assumes "commit_trust_projection_with_paired_aggregate c to_value from_value now context kind i transition payload x
             sides outbox paired s = (Inr result, s')"
    and "\<And>value. to_value x = Inr value \<Longrightarrow> from_value value = Inr x"
    and "(ledger_step c)\<^sup>*\<^sup>* s' t"
    and "context_scope context' = context_scope context" and "commit_arguments context' kind' i' = Inr ()"
    and "request_fingerprint_of c context' payload' \<noteq> request_fingerprint_of c context payload \<or> (kind', i') \<noteq> (kind, i)"
  shows "\<exists>e. commit_trust_projection_with_paired_aggregate c to_value from_value now' context' kind' i' transition' payload'
             x' sides' outbox' paired' t = (Inl e, t) \<and> refused_with TrustIdempotencyKeyReused (Inl e :: unit store_result)"
proof -
  have "\<exists>rows. t = s' @ rows"
    using assms(3) by (induction rule: rtranclp_induct) (auto dest: ledger_step_append)
  then obtain rows where t: "t = s' @ rows" ..
  obtain row where row: "find_replay t context' = Some row"
      "mev_canonical_request_fingerprint (env_event row) = request_fingerprint_of c context payload"
      "mev_aggregate_kind (env_event row) = kind" "mev_aggregate_id (env_event row) = i"
    using commit_leaves_replay [OF assms(1,2), of rows] t assms(4) unfolding find_replay_def by auto
  have "\<exists>e. replay_trust_projection_in from_value t context' kind' i' (request_fingerprint_of c context' payload') = Inl e
      \<and> refused_with TrustIdempotencyKeyReused (Inl e :: unit store_result)"
    using row assms(6) by (auto simp: replay_trust_projection_in_def reject_if_def)
  then obtain e where "replay_trust_projection_in from_value t context' kind' i' (request_fingerprint_of c context' payload')
      = Inl e" "refused_with TrustIdempotencyKeyReused (Inl e :: unit store_result)" by blast
  with assms(5) show ?thesis
    unfolding commit_trust_projection_with_paired_aggregate_def request_fingerprint_of_def by (simp add: Let_def)
qed

end
