(* ===== verification/Ledger_Sample.thy ===== *)
theory Ledger_Sample
  imports Ledger_Properties
begin

text \<open>
  A concrete ledger: two commits of one aggregate, the first paired with a member run, and a stale
  writer. The properties of the ledger are applied to it.
\<close>

definition sample_codec :: "paired_codec" where
  "sample_codec = \<lparr>value_to_vec = (\<lambda>_. []), digest_bytes = (\<lambda>b. b), work_to_value = (\<lambda>_. Inr JNull),
     member_run_to_value = (\<lambda>run. Inr (JString (mrn_id run))), work_event_to_value = (\<lambda>_. Inr JNull)\<rparr>"

definition paired_run :: MemberRun where
  "paired_run = \<lparr>mrn_id = ''m'', mrn_agent_member_id = ''a'', mrn_team_run_id = ''t'', mrn_role_snapshot = ''r'',
     mrn_provider_profile_snapshot = None, mrn_requested_controls = JNull, mrn_effective_controls = JNull,
     mrn_coordination_status = CoordinationActive, mrn_runtime_status = RuntimeFailed, mrn_runtime_generation = 1,
     mrn_workspace_binding_id = None, mrn_native_session = None, mrn_version = 2, mrn_started_at = ''n'',
     mrn_last_event_at = None, mrn_finished_at = None\<rparr>"

definition sample_context :: "string \<Rightarrow> u64 \<Rightarrow> MutationContext" where
  "sample_context key version =
     \<lparr>mcx_execution_space_id = ''s'', mcx_authenticated_actor = \<lparr>act_kind = ActorHuman, act_id = ''h''\<rparr>,
      mcx_authority_actor = None, mcx_command_name = ''c'', mcx_idempotency_key = key, mcx_expected_version = version,
      mcx_request_fingerprint = Some ''f''\<rparr>"

definition sample_request :: "string \<Rightarrow> u64 \<Rightarrow> PairedAggregateTransition option \<Rightarrow> ledger_request" where
  "sample_request key version paired =
     \<lparr>lrq_now = ''n'', lrq_context = sample_context key version, lrq_kind = ''native_session'', lrq_id = ''i'',
      lrq_transition = ''moved'', lrq_payload = JNull, lrq_projection = JString key, lrq_side_records = [],
      lrq_outbox_records = [], lrq_paired = paired\<rparr>"

definition sample_pair :: PairedAggregateTransition where
  "sample_pair = PairedMemberRun \<lparr>pmr_transition = ''projected'', pmr_expected_version = 1, pmr_run = paired_run\<rparr>"

definition sample_first :: ledger_request where "sample_first = sample_request ''k'' 0 (Some sample_pair)"
definition sample_second :: ledger_request where "sample_second = sample_request ''l'' 1 None"
definition sample_stale :: ledger_request where "sample_stale = sample_request ''x'' 0 None"

definition sample_ledger1 :: "TrustOperationEnvelope list" where
  "sample_ledger1 = snd (ledger_commit sample_codec sample_first [])"

definition sample_ledger2 :: "TrustOperationEnvelope list" where
  "sample_ledger2 = snd (ledger_commit sample_codec sample_second sample_ledger1)"

lemma sample_ledger1_rows:
  "map (\<lambda>e. (mev_store_sequence (env_event e), mev_aggregate_kind (env_event e), mev_idempotency_key (env_event e)))
     sample_ledger1 = [(1, ''native_session'', ''k''), (2, ''member_run'', ''k#projected'')]"
  by code_simp


lemma sample_ledger2_rows:
  "length sample_ledger2 = 3"
  "length (filter (of_aggregate ''s'' ''native_session'' ''i'') sample_ledger2) = 2"
  by code_simp+

lemma sample_accepted:
  "\<not> isl (fst (ledger_commit sample_codec sample_first []))"
  "commit_arguments (sample_context ''k'' 0\<lparr>mcx_request_fingerprint := Some ''g''\<rparr>) ''native_session'' ''i'' = Inr ()"
  by code_simp+

lemma sample_commits:
  "ledger_step sample_codec [] sample_ledger1" "ledger_step sample_codec sample_ledger1 sample_ledger2"
  by (auto intro!: ledger_step.committed [OF prod.collapse [symmetric]] simp: sample_ledger1_def sample_ledger2_def)

lemma sample_run2: "(ledger_step sample_codec)\<^sup>*\<^sup>* [] sample_ledger2"
  using sample_commits by (meson converse_rtranclp_into_rtranclp rtranclp.rtrancl_refl)

lemma sample_run1: "(ledger_step sample_codec)\<^sup>*\<^sup>* sample_ledger1 sample_ledger2"
  using sample_commits(2) ..

text \<open>The first commit, its row and the row of its pair.\<close>

lemma sample_first_reply:
  obtains result where "ledger_commit sample_codec sample_first [] = (Inr result, sample_ledger1)"
proof -
  obtain reply where "ledger_commit sample_codec sample_first [] = (reply, sample_ledger1)"
    unfolding sample_ledger1_def by (metis prod.collapse)
  with sample_accepted(1) that show thesis by (cases reply) auto
qed

lemma ledger_order_witness:
  "length sample_ledger2 = 3 \<and> store_sequences sample_ledger2 = map of_nat [1..<Suc (length sample_ledger2)]
    \<and> distinct (store_sequences sample_ledger2) \<and> distinct (map envelope_scope sample_ledger2)"
proof -
  have "length sample_ledger2 < 2 ^ 64" by (simp add: sample_ledger2_rows)
  from ledger_order [OF sample_run2 this] sample_ledger2_rows(1) show ?thesis by blast
qed

lemma aggregate_version_chain_witness:
  "(let event = env_event (filter (of_aggregate ''s'' ''native_session'' ''i'') sample_ledger2 ! 1) in
    mev_sequence event = of_nat (1 + 1) \<and> mev_expected_version event = of_nat 1
    \<and> mev_resulting_version event = of_nat (1 + 1))"
  by (rule aggregate_version_chain [OF sample_run2]) (simp_all add: sample_ledger2_rows unpaired_kind_def)

lemma no_lost_update_witness:
  "sample_ledger1 \<noteq> [] \<and> snd (ledger_commit sample_codec sample_stale sample_ledger2) = sample_ledger2"
proof -
  have new: "sample_ledger1 \<noteq> []" using sample_ledger1_rows by auto
  obtain result where first: "ledger_commit sample_codec sample_first [] = (Inr result, sample_ledger1)"
    by (rule sample_first_reply)
  have "snd (ledger_commit sample_codec sample_stale sample_ledger2) = sample_ledger2"
    by (rule no_lost_update [OF rtranclp.rtrancl_refl first new sample_run1])
      (simp_all add: sample_ledger2_rows sample_first_def sample_stale_def sample_request_def sample_context_def unpaired_kind_def)
  with new show ?thesis ..
qed

lemma retry_replays_witness:
  "\<exists>result. ledger_commit sample_codec sample_first [] = (Inr result, sample_ledger1)
    \<and> commit_trust_projection_with_paired_aggregate sample_codec Inr Inr ''later'' (sample_context ''k'' 0)
        ''native_session'' ''i'' ''other'' JNull (JString ''z'') [] [] None sample_ledger2
      = (Inr (result\<lparr>res_replayed := True\<rparr>), sample_ledger2)"
proof -
  obtain result where first: "ledger_commit sample_codec sample_first [] = (Inr result, sample_ledger1)"
    by (rule sample_first_reply)
  have "commit_trust_projection_with_paired_aggregate sample_codec Inr Inr ''n'' (sample_context ''k'' 0)
      ''native_session'' ''i'' ''moved'' JNull (JString ''k'') [] [] (Some sample_pair) [] = (Inr result, sample_ledger1)"
    using first by (simp add: ledger_commit_def sample_first_def sample_request_def)
  from retry_replays [OF this _ sample_run1] first show ?thesis by blast
qed

lemma reused_key_refused_witness:
  "\<exists>e. commit_trust_projection_with_paired_aggregate sample_codec Inr Inr ''later''
      (sample_context ''k'' 0\<lparr>mcx_request_fingerprint := Some ''g''\<rparr>) ''native_session'' ''i'' ''moved'' JNull
      (JString ''k'') [] [] None sample_ledger2 = (Inl e, sample_ledger2)
    \<and> refused_with TrustIdempotencyKeyReused (Inl e :: unit store_result)"
proof -
  obtain result where first: "ledger_commit sample_codec sample_first [] = (Inr result, sample_ledger1)"
    by (rule sample_first_reply)
  have "commit_trust_projection_with_paired_aggregate sample_codec Inr Inr ''n'' (sample_context ''k'' 0)
      ''native_session'' ''i'' ''moved'' JNull (JString ''k'') [] [] (Some sample_pair) [] = (Inr result, sample_ledger1)"
    using first by (simp add: ledger_commit_def sample_first_def sample_request_def)
  then show ?thesis
    by (rule reused_key_refused [OF _ _ sample_run1])
      (simp_all add: sample_accepted(2), simp_all add: sample_context_def context_scope_def request_fingerprint_of_def)
qed

end
