(* ===== verification/Command_Fence.thy ===== *)
theory Command_Fence
  imports Machine_Lease Trust_Ledger
begin

text \<open>
  The fences a runtime command passes in the trust kernel
  (\<^verbatim>\<open>crates/firm-store/src/trust_kernel/fabric_foundation.rs\<close>): the current daemon of the machine, the
  live binding of session, runtime and driver, and the precondition of the command; with the records
  they read (\<^verbatim>\<open>firm-core\<close>) and the reads of the latest sessions, members and bindings from the ledger.
\<close>

section \<open>Records\<close>

record ControlCommandEnvelope =
  cce_id :: string
  cce_execution_space_id :: string
  cce_target_node_id :: string
  cce_target_node_daemon_id :: string
  cce_target_node_daemon_generation :: u64
  cce_authenticated_actor :: ActorRef
  cce_command :: RuntimeCommandKind
  cce_required_capability :: string
  cce_idempotency_key :: string
  cce_expected_version :: u64
  cce_expires_unix_ms :: u64
  cce_binding :: RuntimeCommandBinding
  cce_precondition :: RuntimeCommandPrecondition
  cce_postcondition :: RuntimeCommandPostcondition
  cce_payload :: json
  cce_payload_fingerprint :: string
  cce_issued_at :: string

datatype AgentMemberOrganizationStatus = OrganizationActive | OrganizationPaused | OrganizationRetired

record AgentMember =
  agm_id :: string
  agm_name :: string
  agm_description :: string
  agm_role :: string
  agm_capabilities :: "string list"
  agm_skill_refs :: "string list"
  agm_provider_profile_ref :: "string option"
  agm_model_preference :: "string option"
  agm_workspace_policy :: string
  agm_permission_ceiling :: PermissionCeiling
  agm_organization_status :: AgentMemberOrganizationStatus
  agm_version :: u64
  agm_created_by :: ActorRef
  agm_created_at :: string
  agm_updated_at :: string

datatype WorkExecutionBindingStatus = BindingActive | BindingReleased

record WorkExecutionBinding =
  web_id :: string
  web_work_id :: string
  web_work_revision :: u64
  web_team_id :: string
  web_team_membership_id :: string
  web_agent_member_id :: string
  web_agent_session_id :: string
  web_agent_session_generation :: u64
  web_delivery_id :: string
  web_binding_generation :: u64
  web_status :: WorkExecutionBindingStatus
  web_version :: u64
  web_created_by :: ActorRef
  web_bound_at :: string
  web_ended_at :: "string option"

datatype NodeProjectRegistrationStatus = RegistrationActive | RegistrationDisabled

record NodeProjectRegistration =
  npr_node_id :: string
  npr_execution_space_id :: string
  npr_project_binding_id :: string
  npr_status :: NodeProjectRegistrationStatus
  npr_created_at :: string
  npr_updated_at :: string

datatype TeamRunStatus =
  TeamPlanning | TeamRunning | TeamWaiting | TeamReviewing | TeamCompleted | TeamFailed | TeamCancelled

datatype HostControlMode = HostManaged | HostExternalInteractive

text \<open>A double is kept as its bits.\<close>

record AgentTeamRun =
  atr_id :: string
  atr_agent_team_id :: string
  atr_execution_node_id :: string
  atr_project_binding_id :: string
  atr_previous_run_id :: "string option"
  atr_host_surface :: string
  atr_host_thread_id :: "string option"
  atr_host_actor :: "TeamActorRef option"
  atr_host_control_mode :: HostControlMode
  atr_objective :: string
  atr_execution_root :: "string option"
  atr_status :: TeamRunStatus
  atr_member_run_ids :: "string list"
  atr_budget_limit_usd :: "u64 option"
  atr_created_at :: string
  atr_updated_at :: string
  atr_completed_at :: "string option"

section \<open>What the checks read\<close>

text \<open>
  serde of the aggregates, and what the checks read besides the ledger: the node directories, the rows
  of the other files, the admissions closed in this process, and the clock. \<open>vw_pending_wake\<close> is the
  source of the acceptance wake that is pending for a member run, found from teams and Works, which
  are not modelled here.
\<close>

record command_codec = paired_codec +
  command_to_value :: "ControlCommandEnvelope \<Rightarrow> string + json"
  record_to_value :: "RuntimeCommandRecord \<Rightarrow> string + json"
  record_of_value :: "json \<Rightarrow> string + RuntimeCommandRecord"
  session_of_value :: "json \<Rightarrow> string + AgentSession"
  member_run_of_value :: "json \<Rightarrow> string + MemberRun"
  agent_member_of_value :: "json \<Rightarrow> string + AgentMember"
  work_binding_of_value :: "json \<Rightarrow> string + WorkExecutionBinding"
  correlation_to_value :: "ProviderCycleCorrelation \<Rightarrow> string + json"

record 'l store_view =
  vw_lease_codec :: 'l
  vw_node_home :: "string \<Rightarrow> node_dir store_result"
  vw_legacy_leases :: "NodeDaemonLease list"
  vw_registrations :: "NodeProjectRegistration list"
  vw_closed_admissions :: "(string \<times> string) list"
  vw_supervisor_leases :: "TeamSupervisorLease list"
  vw_team_runs :: "AgentTeamRun list"
  vw_pending_wake :: "string \<Rightarrow> string \<Rightarrow> string option store_result"
  vw_now :: u64

type_synonym view = "lease_codec store_view"

definition view_machine_lease :: "view \<Rightarrow> string \<Rightarrow> NodeDaemonLease store_result" where
  "view_machine_lease v node_id =
     authoritative_machine_lease (vw_lease_codec v) (vw_node_home v node_id) (vw_legacy_leases v) node_id"

text \<open>The latest row of every \<open>(node, space, project)\<close>: the rows no later row replaces.\<close>

definition registration_key :: "NodeProjectRegistration \<Rightarrow> string" where
  "registration_key r = npr_node_id r @ CHR 0x1F # npr_execution_space_id r @ CHR 0x1F # npr_project_binding_id r"

definition latest_node_project_registrations :: "view \<Rightarrow> NodeProjectRegistration list" where
  "latest_node_project_registrations v =
     bt_values (fold (\<lambda>r m. bt_insert (registration_key r) r m) (vw_registrations v) [])"

definition registered :: "view \<Rightarrow> string \<Rightarrow> string \<Rightarrow> bool" where
  "registered v node_id execution_space_id \<longleftrightarrow>
     list_ex (\<lambda>r. npr_node_id r = node_id \<and> npr_execution_space_id r = execution_space_id \<and> npr_status r = RegistrationActive)
       (latest_node_project_registrations v)"

definition latest_team_supervisor_lease :: "view \<Rightarrow> string \<Rightarrow> TeamSupervisorLease option" where
  "latest_team_supervisor_lease v team_run_id =
     List.find (\<lambda>lease. tsl_team_run_id lease = team_run_id) (rev (vw_supervisor_leases v))"

definition latest_projections ::
    "(json \<Rightarrow> string + 'a) \<Rightarrow> TrustOperationEnvelope list \<Rightarrow> string \<Rightarrow> string \<Rightarrow> 'a list store_result" where
  "latest_projections from_value ledger execution_space_id aggregate_kind =
     collect (map (event_projection from_value)
       (bt_values (latest_trust_envelopes ledger execution_space_id aggregate_kind)))"

definition fabric_agent_sessions ::
    "('z) command_codec_scheme \<Rightarrow> TrustOperationEnvelope list \<Rightarrow> string \<Rightarrow> AgentSession list store_result" where
  "fabric_agent_sessions c ledger space = latest_projections (session_of_value c) ledger space ''agent_session''"

definition trust_member_runs ::
    "('z) command_codec_scheme \<Rightarrow> TrustOperationEnvelope list \<Rightarrow> string \<Rightarrow> MemberRun list store_result" where
  "trust_member_runs c ledger space = latest_projections (member_run_of_value c) ledger space ''member_run''"

definition trust_agent_members ::
    "('z) command_codec_scheme \<Rightarrow> TrustOperationEnvelope list \<Rightarrow> string \<Rightarrow> AgentMember list store_result" where
  "trust_agent_members c ledger space = latest_projections (agent_member_of_value c) ledger space ''agent_member''"

definition runtime_commands ::
    "('z) command_codec_scheme \<Rightarrow> TrustOperationEnvelope list \<Rightarrow> string \<Rightarrow> RuntimeCommandRecord list store_result" where
  "runtime_commands c ledger space = latest_projections (record_of_value c) ledger space ''runtime_command''"

text \<open>
  The bindings of Works, as the read model folds them: every revision of the aggregate, and every side
  record that is a newer binding. A projection that does not decode makes every read fail.
\<close>

definition observe_bindings ::
    "(json \<Rightarrow> string + WorkExecutionBinding) \<Rightarrow> TrustOperationEnvelope
      \<Rightarrow> WorkExecutionBinding btree \<times> string option \<Rightarrow> WorkExecutionBinding btree \<times> string option" where
  "observe_bindings from_value e acc =
     (let operation = env_operation e;
          (m, invalid) = (if mev_aggregate_kind (cop_event operation) = ''work_execution_binding''
            then case from_value (cop_resulting_projection operation) of
                   Inr binding \<Rightarrow> (bt_insert (web_id binding) binding (fst acc), snd acc)
                 | Inl error \<Rightarrow> (fst acc, Some (case snd acc of None \<Rightarrow> error | Some first \<Rightarrow> first))
            else acc) in
      (fold (\<lambda>record m. case from_value record of
               Inl _ \<Rightarrow> m
             | Inr binding \<Rightarrow>
                 if (case bt_get m (web_id binding) of None \<Rightarrow> True | Some old \<Rightarrow> web_version binding > web_version old)
                 then bt_insert (web_id binding) binding m else m)
         (cop_immutable_side_records operation) m, invalid))"

definition fabric_work_execution_bindings ::
    "('z) command_codec_scheme \<Rightarrow> TrustOperationEnvelope list \<Rightarrow> string \<Rightarrow> WorkExecutionBinding list store_result" where
  "fabric_work_execution_bindings c ledger space =
     (case fold (observe_bindings (work_binding_of_value c)) (filter (\<lambda>e. env_execution_space_id e = space) ledger) ([], None) of
        (m, None) \<Rightarrow> Inr (bt_values m)
      | (_, Some error) \<Rightarrow> Inl (StoreJson error))"

text \<open>\<^verbatim>\<open>machine_lease_refusal_reason\<close>.\<close>

fun show_store_error :: "StoreError \<Rightarrow> string" where
  "show_store_error (StoreIo e) = ''io error: '' @ e"
| "show_store_error (StoreJson e) = ''json error: '' @ e"
| "show_store_error (StoreLockTimeout e) = ''timed out waiting for store write lock '' @ e"
| "show_store_error StoreSnapshotUnstable =
     ''CURRENT_WORK_DELIVERY_SNAPSHOT_UNSTABLE: canonical trust authority changed throughout the bounded stabilization window''"
| "show_store_error (TrustConflict e) = ter_message e"
| "show_store_error (StoreConflict e) = ''conflict: '' @ e"
| "show_store_error (StoreCompanyOsValidation e) = ''invalid company os record: '' @ e"
| "show_store_error (StoreCompanyOsMissingReference e) = ''company os reference not found: '' @ e"


section \<open>The daemon of the machine\<close>

definition admission_is_closed :: "view \<Rightarrow> string \<Rightarrow> string \<Rightarrow> bool" where
  "admission_is_closed v daemon_id instance_id \<longleftrightarrow> (daemon_id, instance_id) \<in> set (vw_closed_admissions v)"

definition unresolved_as :: "string \<Rightarrow> string \<Rightarrow> string \<Rightarrow> 'a store_result \<Rightarrow> 'a store_result" where
  "unresolved_as message resource_kind resource_id r =
     map_err (\<lambda>error. trust_error MachineLeaseUnresolved (message @ show_store_error error) resource_kind resource_id None) r"

definition require_current_node_daemon ::
    "view \<Rightarrow> string \<Rightarrow> string \<Rightarrow> string \<Rightarrow> u64 \<Rightarrow> ActorRef \<Rightarrow> string \<Rightarrow> string \<Rightarrow> unit store_result" where
  "require_current_node_daemon v execution_space_id node_id daemon_id daemon_generation actor resource_kind resource_id =
     bindR (reject_if (act_kind actor \<noteq> ActorService \<or> act_id actor \<noteq> daemon_id)
              (trust_error UnauthorizedActor ''runtime mutation requires the exact authenticated NodeDaemon service''
                 resource_kind resource_id None)) (\<lambda>_.
     bindR (unresolved_as ''NodeDaemon lease is not authoritative: '' resource_kind resource_id
              (view_machine_lease v node_id)) (\<lambda>lease.
     bindR (reject_if (admission_is_closed v (ndl_daemon_id lease) (ndl_instance_id lease))
              (trust_error SupervisorGenerationFenced
                 ''NodeDaemon process authority is permanently closed for new provider effects''
                 resource_kind resource_id None)) (\<lambda>_.
     reject_if (\<not> registered v node_id execution_space_id \<or> ndl_daemon_id lease \<noteq> daemon_id
                \<or> ndl_generation lease \<noteq> daemon_generation \<or> ndl_status lease \<noteq> DaemonActive
                \<or> ndl_expires_unix_ms lease \<le> vw_now v)
       (trust_error SupervisorGenerationFenced
          ''runtime mutation used a stale, foreign, or expired NodeDaemon generation'' resource_kind resource_id None))))"

definition require_node_daemon_settlement_authority ::
    "view \<Rightarrow> string \<Rightarrow> string \<Rightarrow> string \<Rightarrow> u64 \<Rightarrow> ActorRef \<Rightarrow> string \<Rightarrow> string \<Rightarrow> unit store_result" where
  "require_node_daemon_settlement_authority v execution_space_id node_id daemon_id daemon_generation actor
       resource_kind resource_id =
     bindR (reject_if (act_kind actor \<noteq> ActorService \<or> act_id actor \<noteq> daemon_id)
              (trust_error UnauthorizedActor ''runtime settlement requires the exact authenticated NodeDaemon service''
                 resource_kind resource_id None)) (\<lambda>_.
     bindR (unresolved_as ''NodeDaemon settlement lease is not authoritative: '' resource_kind resource_id
              (view_machine_lease v node_id)) (\<lambda>lease.
     bindR (reject_if (ndl_daemon_id lease \<noteq> daemon_id \<or> ndl_generation lease \<noteq> daemon_generation
                       \<or> ndl_status lease \<notin> {DaemonActive, DaemonDraining})
              (trust_error SupervisorGenerationFenced
                 ''runtime settlement used a released, successor, or foreign NodeDaemon generation''
                 resource_kind resource_id None)) (\<lambda>_.
     reject_if (\<not> registered v node_id execution_space_id)
       (trust_error SupervisorGenerationFenced ''runtime settlement belongs to an unregistered Execution Space''
          resource_kind resource_id None))))"

section \<open>The live binding\<close>

datatype RuntimeBindingAdmission =
    BindingInvocation
  | BindingRuntimeCommand (allow_native_session_attachment: bool) (settlement_only: bool)

text \<open>The member run a binding names, exactly one row of the space.\<close>

definition require_member_binding ::
    "('z) command_codec_scheme \<Rightarrow> TrustOperationEnvelope list \<Rightarrow> AgentSession \<Rightarrow> RuntimeCommandBinding \<Rightarrow> bool
      \<Rightarrow> (string \<Rightarrow> StoreError) \<Rightarrow> unit store_result" where
  "require_member_binding c ledger session binding require_member_run_binding fenced =
     (case (cbd_target_member_run_id binding, cbd_target_member_run_generation binding) of
        (Some member_run_id, Some generation) \<Rightarrow>
          bindR (trust_member_runs c ledger (ses_execution_space_id session)) (\<lambda>members.
            case filter (\<lambda>member. mrn_id member = member_run_id) members of
              [member] \<Rightarrow>
                if mrn_agent_member_id member = ses_agent_member_id session
                   \<and> mrn_runtime_generation member = generation \<and> has_live_runtime_authority member
                then reject_if (case ctl_driver_ref (ses_control_state session) of
                         DriverTeamSupervisor team_run_id _ _ \<Rightarrow> mrn_team_run_id member \<noteq> team_run_id
                       | _ \<Rightarrow> False)
                       (fenced ''provider effect MemberRun belongs to another TeamRun'')
                else Inl (fenced ''provider effect does not bind the exact active MemberRun identity and generation'')
            | _ \<Rightarrow> Inl (fenced ''provider effect does not bind the exact active MemberRun identity and generation''))
      | (None, None) \<Rightarrow>
          reject_if require_member_run_binding
            (fenced ''team-supervised provider effect requires an exact MemberRun identity and generation'')
      | _ \<Rightarrow> Inl (fenced ''provider effect carries a partial MemberRun binding''))"

definition fingerprint_matches :: "string option \<Rightarrow> string option \<Rightarrow> bool" where
  "fingerprint_matches current bound =
     (case current of None \<Rightarrow> False | Some text \<Rightarrow> \<not> blank text \<and> bound = Some text)"

definition native_session_matches :: "AgentSession \<Rightarrow> RuntimeCommandBinding \<Rightarrow> bool \<Rightarrow> bool" where
  "native_session_matches session binding allow_attachment \<longleftrightarrow>
     cbd_native_session_ref binding = ses_native_session_ref session
     \<or> (allow_attachment \<and> cbd_native_session_ref binding = None
        \<and> (case ses_native_session_ref session of
             None \<Rightarrow> False
           | Some native \<Rightarrow> nsr_provider native = ses_provider_kind session \<and> \<not> blank (nsr_native_session_id native)))"

definition exact_binding :: "AgentSession \<Rightarrow> RuntimeCommandBinding \<Rightarrow> bool \<Rightarrow> bool" where
  "exact_binding session binding allow_attachment \<longleftrightarrow>
     (let control = ses_control_state session in
      cbd_target_session_id binding = Some (ses_id session)
      \<and> cbd_target_runtime_generation binding = Some (ses_runtime_generation session)
      \<and> ctl_driver_generation control \<noteq> 0
      \<and> cbd_target_driver_generation binding = Some (ctl_driver_generation control)
      \<and> cbd_target_driver binding = ctl_driver_ref control
      \<and> native_session_matches session binding allow_attachment
      \<and> cbd_permission_envelope_ref binding = Some (ses_permission_envelope_ref session)
      \<and> fingerprint_matches (ctl_composition_fingerprint control) (cbd_composition_fingerprint binding)
      \<and> fingerprint_matches (ctl_capability_fingerprint control) (cbd_capability_fingerprint binding))"

definition continuation_armed :: "AgentSession \<Rightarrow> bool" where
  "continuation_armed session \<longleftrightarrow>
     (case ncp_activation (ctl_continuation (ses_control_state session)) of ActivationArmed _ _ \<Rightarrow> True | _ \<Rightarrow> False)"

text \<open>The driver that may start provider effects now.\<close>

definition require_live_driver ::
    "view \<Rightarrow> AgentSession \<Rightarrow> RuntimeDriverRef \<Rightarrow> (TrustErrorCode \<Rightarrow> string \<Rightarrow> StoreError) \<Rightarrow> unit store_result" where
  "require_live_driver v session target error =
     (let incompatible = error MemberRunGenerationFenced
            ''runtime driver reference is unknown or incompatible with the declared execution driver'' in
      case (ctl_execution_driver (ses_control_state session), target) of
        (HostDriven, DriverNodeDaemon daemon_id daemon_generation) \<Rightarrow>
          reject_if (\<not> (daemon_id = ses_node_daemon_id session \<and> daemon_generation = ses_node_daemon_generation session
                        \<and> \<not> continuation_armed session)) incompatible
      | (HostDriven, DriverTeamSupervisor team_run_id supervisor_id generation) \<Rightarrow>
          bindR (ok_or (latest_team_supervisor_lease v team_run_id)
                   (error SupervisorGenerationFenced ''runtime driver TeamSupervisor lease is missing'')) (\<lambda>lease.
          bindR (ok_or (List.find (\<lambda>run. atr_id run = team_run_id) (rev (vw_team_runs v)))
                   (error SupervisorGenerationFenced ''runtime driver TeamRun is missing'')) (\<lambda>team_run.
          reject_if (tsl_supervisor_id lease \<noteq> supervisor_id \<or> tsl_generation lease \<noteq> generation
                     \<or> tsl_status lease \<noteq> SupervisorActive \<or> tsl_expires_unix_ms lease \<le> vw_now v
                     \<or> tsl_execution_space_id lease \<noteq> ses_execution_space_id session
                     \<or> tsl_node_id lease \<noteq> ses_node_id session
                     \<or> tsl_node_daemon_id lease \<noteq> ses_node_daemon_id session
                     \<or> tsl_node_daemon_generation lease \<noteq> ses_node_daemon_generation session
                     \<or> atr_execution_node_id team_run \<noteq> ses_node_id session
                     \<or> atr_project_binding_id team_run \<noteq> tsl_project_binding_id lease
                     \<or> continuation_armed session)
            (error SupervisorGenerationFenced
               ''runtime effect used a stale, foreign, expired, or parent-fenced TeamSupervisor generation'')))
      | (UserDriven, _) \<Rightarrow> Inl (error UnauthorizedActor
            ''Harness cannot drive provider effects for a user-driven external runtime'')
      | _ \<Rightarrow> Inl incompatible)"

definition require_live_runtime_binding ::
    "('z) command_codec_scheme \<Rightarrow> view \<Rightarrow> TrustOperationEnvelope list \<Rightarrow> AgentSession \<Rightarrow> RuntimeCommandBinding
      \<Rightarrow> RuntimeBindingAdmission \<Rightarrow> string \<Rightarrow> string \<Rightarrow> u64 option \<Rightarrow> unit store_result" where
  "require_live_runtime_binding c v ledger session binding admission resource_kind resource_id current_version =
     (let error = (\<lambda>code message. trust_error code message resource_kind resource_id current_version);
          (member_required, allow_attachment, settlement) =
            (case admission of
               BindingInvocation \<Rightarrow> (False, False, False)
             | BindingRuntimeCommand allow settle \<Rightarrow>
                 ((case ctl_driver_ref (ses_control_state session) of DriverTeamSupervisor _ _ _ \<Rightarrow> True | _ \<Rightarrow> False),
                  allow, settle));
          daemon_actor = \<lparr>act_kind = ActorService, act_id = ses_node_daemon_id session\<rparr> in
      bindR (require_member_binding c ledger session binding member_required (error MemberRunGenerationFenced)) (\<lambda>_.
      bindR (reject_if (\<not> exact_binding session binding allow_attachment)
               (error MemberRunGenerationFenced
                  ''provider effect does not bind the exact current session/runtime/driver/native-session/composition/capability/permission state'')) (\<lambda>_.
      bindR ((if settlement then require_node_daemon_settlement_authority else require_current_node_daemon)
               v (ses_execution_space_id session) (ses_node_id session) (ses_node_daemon_id session)
               (ses_node_daemon_generation session) daemon_actor resource_kind resource_id) (\<lambda>_.
      require_live_driver v session (cbd_target_driver binding) error))))"

section \<open>The precondition of a command\<close>

datatype RuntimeCommandPoststate = PoststateNone | PoststateCommand | PoststateCommandWithNativeSessionAttachment

definition tolerated_advance :: "AgentSession \<Rightarrow> RuntimeCommandKind \<Rightarrow> RuntimeCommandPoststate \<Rightarrow> u64" where
  "tolerated_advance session command poststate =
     (if poststate \<noteq> PoststateNone
         \<and> (command, ses_lifecycle session) \<in> {(StopSession, SessionClosed), (ResumeSession, SessionCold)} then 1 else 0)
     + (if poststate = PoststateCommandWithNativeSessionAttachment then 1 else 0)"

text \<open>\<^verbatim>\<open>is_some_and(|expected| expected != actual)\<close>.\<close>

definition unmet :: "'a option \<Rightarrow> ('a \<Rightarrow> bool) \<Rightarrow> bool" where
  "unmet expected holds \<longleftrightarrow> (case expected of None \<Rightarrow> False | Some x \<Rightarrow> \<not> holds x)"

definition safe_point_satisfied :: "AgentSession \<Rightarrow> RuntimeSafePointRequirement \<Rightarrow> bool" where
  "safe_point_satisfied session safe_point =
     (let control = ses_control_state session; ended = ses_lifecycle session \<in> {SessionClosed, SessionRecoveryRequired} in
      case safe_point of
        SafeUnknown \<Rightarrow> True
      | SafeImmediate \<Rightarrow> True
      | SafeCurrentCycle \<Rightarrow> ses_lifecycle session = SessionActive \<and> ses_current_cycle_marker session \<noteq> None
          \<and> ctl_activity control \<in> {ActivityRunning, ActivityWaitingInput, ActivityInterrupting}
      | SafeCycleBoundary \<Rightarrow> ctl_activity control = ActivityIdle \<and> \<not> ended
      | SafeRuntimeIdle \<Rightarrow> ctl_runtime_residency control = ResidencyAttached \<and> ctl_activity control = ActivityIdle \<and> \<not> ended
      | SafeExecutionLaneQuiesced \<Rightarrow> False)"

definition require_runtime_command_precondition ::
    "AgentSession \<Rightarrow> RuntimeCommandKind \<Rightarrow> RuntimeCommandPrecondition \<Rightarrow> RuntimeCommandPoststate
      \<Rightarrow> string \<Rightarrow> string \<Rightarrow> u64 option \<Rightarrow> unit store_result" where
  "require_runtime_command_precondition session command precondition poststate resource_kind resource_id current_version =
     (let fenced = (\<lambda>message. trust_error MemberRunGenerationFenced message resource_kind resource_id current_version);
          control = ses_control_state session;
          definition = ncp_definition (ctl_continuation control) in
      bindR (reject_if (unmet (pre_expected_session_version precondition) (\<lambda>expected.
                 \<not> ses_version session < expected
                 \<and> ses_version session \<le> sat_add expected (tolerated_advance session command poststate)))
               (fenced ''RuntimeCommand expected_session_version no longer matches the canonical AgentSession'')) (\<lambda>_.
      bindR (reject_if (unmet (pre_expected_residency precondition) ((=) (ctl_runtime_residency control)))
               (fenced ''RuntimeCommand expected_residency no longer matches the canonical AgentSession'')) (\<lambda>_.
      bindR (reject_if (unmet (pre_expected_activity precondition) ((=) (ctl_activity control)))
               (fenced ''RuntimeCommand expected_activity no longer matches the canonical AgentSession'')) (\<lambda>_.
      bindR (reject_if (unmet (pre_expected_execution_driver precondition) ((=) (ctl_execution_driver control)))
               (fenced ''RuntimeCommand expected_execution_driver no longer matches the canonical AgentSession'')) (\<lambda>_.
      bindR (reject_if (unmet (pre_expected_cycle_ref precondition) (\<lambda>expected.
                 nor_revision expected = None \<and> nor_fingerprint expected = None))
               (fenced ''RuntimeCommand cycle revision/fingerprint cannot be proven from canonical AgentSession control state'')) (\<lambda>_.
      bindR (reject_if (unmet (pre_expected_cycle_ref precondition) (\<lambda>expected.
                 ses_current_cycle_marker session = Some (nor_id expected)))
               (fenced ''RuntimeCommand expected_cycle_ref no longer matches the current provider cycle'')) (\<lambda>_.
      bindR (reject_if (unmet (pre_expected_continuation_ref precondition) (\<lambda>expected.
                 nor_fingerprint expected = None \<and> ncd_continuation_ref definition = Some (nor_id expected)
                 \<and> \<not> unmet (nor_revision expected) (\<lambda>revision. ncd_revision definition = Some revision)))
               (fenced ''RuntimeCommand expected_continuation_ref cannot be proven against the current continuation definition'')) (\<lambda>_.
      bindR (reject_if (unmet (pre_expected_continuation_phase precondition) ((=) (ncd_phase definition)))
               (fenced ''RuntimeCommand expected_continuation_phase no longer matches the canonical continuation definition'')) (\<lambda>_.
      bindR (reject_if (\<not> safe_point_satisfied session (pre_safe_point precondition))
               (fenced ''RuntimeCommand safe_point is not proven by the current canonical AgentSession state'')) (\<lambda>_.
      reject_if (command \<in> {DispatchProvider, CommandStartCycle} \<and> ctl_execution_driver control \<noteq> HostDriven)
        (fenced ''Harness cannot start a provider cycle while the AgentSession is user-driven''))))))))))) "

end
