(* ===== verification/Runtime_Commands.thy ===== *)
theory Runtime_Commands
  imports Command_Fence
begin

text \<open>
  The journal of runtime commands
  (\<^verbatim>\<open>trust_kernel/fabric_runtime_commands.rs\<close>, \<^verbatim>\<open>fabric_runtime_command_settlement.rs\<close>): a command is
  prepared before its effect touches a provider, settled by the daemon that owns it, or closed through
  recovery. Every step is one commit of the ledger; the state is the ledger.
\<close>

section \<open>Kinds\<close>

fun runtime_command_capability :: "RuntimeCommandKind \<Rightarrow> string" where
  "runtime_command_capability AuthorMessage = ''message.author''"
| "runtime_command_capability StartSession = ''agent_session.start''"
| "runtime_command_capability StopSession = ''agent_session.stop''"
| "runtime_command_capability ResumeSession = ''agent_session.resume''"
| "runtime_command_capability DispatchProvider = ''provider.dispatch''"
| "runtime_command_capability CommandCancelProviderTurn = ''provider.cancel''"
| "runtime_command_capability OpenRuntime = ''runtime.open''"
| "runtime_command_capability ResumeNativeSession = ''runtime.native_session.resume''"
| "runtime_command_capability ReleaseRuntime = ''runtime.release''"
| "runtime_command_capability CloseMember = ''member.close''"
| "runtime_command_capability ReopenMember = ''member.reopen''"
| "runtime_command_capability RetireMember = ''member.retire''"
| "runtime_command_capability DeleteNativeSession = ''runtime.native_session.delete''"
| "runtime_command_capability CommandStartCycle = ''cycle.start''"
| "runtime_command_capability InjectCurrentCycle = ''cycle.inject_current''"
| "runtime_command_capability QueueAtNativeBoundary = ''cycle.queue_native_boundary''"
| "runtime_command_capability InterruptCurrentCycle = ''cycle.interrupt_current''"
| "runtime_command_capability CancelPendingInput = ''cycle.pending_input.cancel''"
| "runtime_command_capability InspectContinuation = ''continuation.inspect''"
| "runtime_command_capability ActivateContinuation = ''continuation.activate''"
| "runtime_command_capability InhibitContinuationCommand = ''continuation.inhibit''"
| "runtime_command_capability ResumeContinuation = ''continuation.resume''"
| "runtime_command_capability ReplaceContinuationCondition = ''continuation.condition.replace''"
| "runtime_command_capability ClearContinuation = ''continuation.clear''"
| "runtime_command_capability QuiesceExecutionLane = ''execution_lane.quiesce''"
| "runtime_command_capability DrainRuntime = ''runtime.drain''"
| "runtime_command_capability StopBackgroundTask = ''background_task.stop''"
| "runtime_command_capability TransferExecutionDriver = ''driver.transfer''"
| "runtime_command_capability InspectCommandEffect = ''command_effect.inspect''"
| "runtime_command_capability ReconcileUnknownEffect = ''command_effect.reconcile''"
| "runtime_command_capability ReattachLiveRuntime = ''runtime.reattach''"
| "runtime_command_capability AbortIfNotApplied = ''command_effect.abort_if_not_applied''"

definition FROZEN_RUNTIME_COMMAND_KINDS :: "RuntimeCommandKind list" where
  "FROZEN_RUNTIME_COMMAND_KINDS =
     [ReopenMember, RetireMember, DeleteNativeSession, InjectCurrentCycle, QueueAtNativeBoundary, CancelPendingInput,
      InspectContinuation, ActivateContinuation, InhibitContinuationCommand, ResumeContinuation,
      ReplaceContinuationCondition, ClearContinuation, StopBackgroundTask, TransferExecutionDriver,
      InspectCommandEffect, ReconcileUnknownEffect, AbortIfNotApplied]"

text \<open>The Debug name of a frozen kind, for the text of its refusal.\<close>

fun show_frozen_kind :: "RuntimeCommandKind \<Rightarrow> string" where
  "show_frozen_kind ReopenMember = ''ReopenMember''"
| "show_frozen_kind RetireMember = ''RetireMember''"
| "show_frozen_kind DeleteNativeSession = ''DeleteNativeSession''"
| "show_frozen_kind InjectCurrentCycle = ''InjectCurrentCycle''"
| "show_frozen_kind QueueAtNativeBoundary = ''QueueAtNativeBoundary''"
| "show_frozen_kind CancelPendingInput = ''CancelPendingInput''"
| "show_frozen_kind InspectContinuation = ''InspectContinuation''"
| "show_frozen_kind ActivateContinuation = ''ActivateContinuation''"
| "show_frozen_kind InhibitContinuationCommand = ''InhibitContinuation''"
| "show_frozen_kind ResumeContinuation = ''ResumeContinuation''"
| "show_frozen_kind ReplaceContinuationCondition = ''ReplaceContinuationCondition''"
| "show_frozen_kind ClearContinuation = ''ClearContinuation''"
| "show_frozen_kind StopBackgroundTask = ''StopBackgroundTask''"
| "show_frozen_kind TransferExecutionDriver = ''TransferExecutionDriver''"
| "show_frozen_kind InspectCommandEffect = ''InspectCommandEffect''"
| "show_frozen_kind ReconcileUnknownEffect = ''ReconcileUnknownEffect''"
| "show_frozen_kind AbortIfNotApplied = ''AbortIfNotApplied''"
| "show_frozen_kind _ = ''''"

definition runtime_command_requires_exact_binding :: "RuntimeCommandKind \<Rightarrow> bool" where
  "runtime_command_requires_exact_binding kind \<longleftrightarrow> kind \<noteq> AuthorMessage"

text \<open>A refusal about a command.\<close>

definition command_error :: "TrustErrorCode \<Rightarrow> string \<Rightarrow> string \<Rightarrow> u64 option \<Rightarrow> StoreError" where
  "command_error code message command_id version = trust_error code message ''runtime_command'' command_id version"

section \<open>JSON\<close>

fun value_get :: "json \<Rightarrow> string \<Rightarrow> json option" where
  "value_get (JObject entries) key = map_of entries key"
| "value_get _ key = None"

definition value_index :: "json \<Rightarrow> string \<Rightarrow> json" where
  "value_index value key = (case value_get value key of None \<Rightarrow> JNull | Some v \<Rightarrow> v)"

fun value_as_str :: "json \<Rightarrow> string option" where
  "value_as_str (JString s) = Some s"
| "value_as_str _ = None"

fun value_as_u64 :: "json \<Rightarrow> u64 option" where
  "value_as_u64 (JNumber (PosInt n)) = Some n"
| "value_as_u64 _ = None"

definition json_opt_str :: "string option \<Rightarrow> json" where
  "json_opt_str s = (case s of None \<Rightarrow> JNull | Some t \<Rightarrow> JString t)"

definition json_opt :: "json option \<Rightarrow> json" where
  "json_opt v = (case v of None \<Rightarrow> JNull | Some w \<Rightarrow> w)"

text \<open>\<^verbatim>\<open>join\<close>.\<close>

fun join_with :: "string \<Rightarrow> string list \<Rightarrow> string" where
  "join_with sep [] = []"
| "join_with sep [x] = x"
| "join_with sep (x # xs) = x @ sep @ join_with sep xs"

definition or_else :: "'a option \<Rightarrow> 'a option \<Rightarrow> 'a option" where
  "or_else a b = (case a of None \<Rightarrow> b | Some x \<Rightarrow> Some x)"

fun phase_text :: "RuntimeCommandPhase \<Rightarrow> string" where
  "phase_text PhasePrepared = ''prepared''"
| "phase_text PhaseDispatched = ''dispatched''"
| "phase_text PhaseProviderAcknowledged = ''provider_acknowledged''"
| "phase_text PhaseObserved = ''observed''"
| "phase_text PhaseSettled = ''settled''"
| "phase_text PhaseRejected = ''rejected''"
| "phase_text PhaseRecoveryRequired = ''recovery_required''"
| "phase_text PhaseUnknown = ''unknown''"

fun certainty_text :: "RuntimeEffectCertainty \<Rightarrow> string" where
  "certainty_text CertaintyNone = ''none''"
| "certainty_text CertaintyNotApplied = ''not_applied''"
| "certainty_text CertaintyApplied = ''applied''"
| "certainty_text CertaintyUnknown = ''unknown''"

datatype RuntimeRecoveryResolution = ConfirmApplied | ConfirmNotApplied | KeepRecoveryRequired

fun resolution_text :: "RuntimeRecoveryResolution \<Rightarrow> string" where
  "resolution_text ConfirmApplied = ''confirm_applied''"
| "resolution_text ConfirmNotApplied = ''confirm_not_applied''"
| "resolution_text KeepRecoveryRequired = ''keep_recovery_required''"

section \<open>Reading the commands\<close>

definition runtime_command_envelope_fingerprint ::
    "('z) command_codec_scheme \<Rightarrow> ControlCommandEnvelope \<Rightarrow> string store_result" where
  "runtime_command_envelope_fingerprint c command =
     bindR (map_err StoreJson (command_to_value c command)) (\<lambda>value.
       Inr (canonical_json_fingerprint c
         (case value of
            JObject entries \<Rightarrow>
              (let entries = bt_remove ''issued_at'' entries in
               JObject (if cce_command command = AuthorMessage then bt_remove ''expires_unix_ms'' entries else entries))
          | _ \<Rightarrow> value)))"

definition runtime_command_is_publicly_recoverable :: "view \<Rightarrow> RuntimeCommandRecord \<Rightarrow> u64 \<Rightarrow> bool" where
  "runtime_command_is_publicly_recoverable v record now_unix_ms =
     (if cmd_phase record = PhaseRecoveryRequired \<and> cmd_effect_certainty record = CertaintyUnknown then True
      else if cmd_phase record \<noteq> PhasePrepared \<or> cmd_effect_certainty record \<noteq> CertaintyUnknown then False
      else case cbd_target_driver (cmd_binding record) of
        DriverTeamSupervisor team_run_id supervisor_id generation \<Rightarrow>
          \<not> (case latest_team_supervisor_lease v team_run_id of
               None \<Rightarrow> False
             | Some lease \<Rightarrow>
                 tsl_execution_space_id lease = cmd_execution_space_id record
                 \<and> tsl_node_id lease = cmd_target_node_id record
                 \<and> tsl_node_daemon_id lease = cmd_target_node_daemon_id record
                 \<and> tsl_node_daemon_generation lease = cmd_target_node_daemon_generation record
                 \<and> tsl_supervisor_id lease = supervisor_id \<and> tsl_generation lease = generation
                 \<and> tsl_status lease = SupervisorActive \<and> tsl_expires_unix_ms lease > now_unix_ms)
      | _ \<Rightarrow> False)"

definition validate_runtime_command ::
    "('z) command_codec_scheme \<Rightarrow> view \<Rightarrow> ControlCommandEnvelope \<Rightarrow> u64 \<Rightarrow> unit store_result" where
  "validate_runtime_command c v command now_unix_ms =
     (let error = (\<lambda>code message. command_error code message (cce_id command) None) in
      bindR (required (cce_id command) ''ControlCommandEnvelope.id'') (\<lambda>_.
      bindR (required (cce_idempotency_key command) ''ControlCommandEnvelope.idempotency_key'') (\<lambda>_.
      bindR (required (cce_required_capability command) ''ControlCommandEnvelope.required_capability'') (\<lambda>_.
      bindR (reject_if (cce_payload_fingerprint command \<noteq> canonical_json_fingerprint c (cce_payload command))
               (error TrustIdempotencyKeyReused ''runtime command payload fingerprint is invalid'')) (\<lambda>_.
      bindR (reject_if (pst_status (cce_postcondition command) \<noteq> PostUnknown)
               (error InvalidStateTransition
                  ''a RuntimeCommand may request a postcondition but cannot claim it satisfied before provider observation'')) (\<lambda>_.
      bindR (reject_if (act_kind (cce_authenticated_actor command) = ActorExternal)
               (error UnauthorizedActor ''external actors cannot issue machine runtime commands'')) (\<lambda>_.
      bindR (reject_if (cce_expires_unix_ms command \<le> now_unix_ms)
               (error InvalidStateTransition ''runtime command expired before NodeDaemon admission'')) (\<lambda>_.
      bindR (unresolved_as ''RuntimeCommand requires an exact current NodeDaemon lease from the node file: ''
               ''runtime_command'' (cce_id command) (view_machine_lease v (cce_target_node_id command))) (\<lambda>lease.
      bindR (reject_if (ndl_daemon_id lease \<noteq> cce_target_node_daemon_id command
                        \<or> ndl_generation lease \<noteq> cce_target_node_daemon_generation command
                        \<or> ndl_status lease \<noteq> DaemonActive \<or> ndl_expires_unix_ms lease \<le> now_unix_ms)
               (command_error SupervisorGenerationFenced
                  ''RuntimeCommand cannot be admitted by an expired, released, or stale NodeDaemon generation''
                  (cce_id command) (Some (ndl_generation lease)))) (\<lambda>_.
      require_current_node_daemon v (cce_execution_space_id command) (cce_target_node_id command)
        (cce_target_node_daemon_id command) (cce_target_node_daemon_generation command)
        \<lparr>act_kind = ActorService, act_id = cce_target_node_daemon_id command\<rparr> ''runtime_command'' (cce_id command)))))))))))"

text \<open>The latest record of a command, in the map of its space.\<close>

definition find_command ::
    "('z) command_codec_scheme \<Rightarrow> TrustOperationEnvelope list \<Rightarrow> string \<Rightarrow> string \<Rightarrow> string \<Rightarrow> RuntimeCommandRecord store_result" where
  "find_command c ledger space command_id missing =
     bindR (ok_or (bt_get (latest_trust_envelopes ledger space ''runtime_command'') command_id)
              (command_error InvalidStateTransition missing command_id None))
       (event_projection (record_of_value c))"

text \<open>An idempotent replay of a step on a command, refused when the key was used for something else.\<close>

definition command_replay ::
    "TrustOperationEnvelope list \<Rightarrow> MutationContext \<Rightarrow> string \<Rightarrow> string \<Rightarrow> string \<Rightarrow> TrustOperationEnvelope option store_result" where
  "command_replay ledger context command_id fingerprint reused =
     (case find_replay ledger context of
        None \<Rightarrow> Inr None
      | Some replay \<Rightarrow>
          let event = env_event replay in
          bindR (reject_if (mev_canonical_request_fingerprint event \<noteq> fingerprint
                            \<or> mev_aggregate_kind event \<noteq> ''runtime_command'' \<or> mev_aggregate_id event \<noteq> command_id)
                   (command_error TrustIdempotencyKeyReused reused command_id (Some (mev_resulting_version event))))
            (\<lambda>_. Inr (Some replay)))"

definition commit_command ::
    "('z) command_codec_scheme \<Rightarrow> string \<Rightarrow> MutationContext \<Rightarrow> string \<Rightarrow> string \<Rightarrow> json \<Rightarrow> RuntimeCommandRecord
      \<Rightarrow> (TrustOperationEnvelope list, StoreError, RuntimeCommandRecord CanonicalMutationResult) action" where
  "commit_command c now context command_id transition payload record =
     commit_trust_projection c (record_to_value c) (record_of_value c) now context ''runtime_command'' command_id
       transition payload record [] []"


section \<open>Preparing a command\<close>

text \<open>The session a start command brings with it, and the session and generation the payload names.\<close>

definition requested_start_session ::
    "('z) command_codec_scheme \<Rightarrow> ControlCommandEnvelope \<Rightarrow> AgentSession option store_result" where
  "requested_start_session c command =
     (if cce_command command = StartSession \<and> value_get (cce_payload command) ''session'' \<noteq> None
      then bindR (map_err (\<lambda>error. command_error InvalidStateTransition (''StartSession payload is invalid: '' @ error)
               (cce_id command) None)
             (session_of_value c (value_index (cce_payload command) ''session''))) (\<lambda>session. Inr (Some session))
      else Inr None)"

definition target_session_id :: "ControlCommandEnvelope \<Rightarrow> AgentSession option \<Rightarrow> string option" where
  "target_session_id command requested =
     or_else (value_as_str (value_index (cce_payload command) ''session_id'')) (map_option ses_id requested)"

definition target_session_generation :: "ControlCommandEnvelope \<Rightarrow> AgentSession option \<Rightarrow> u64 option" where
  "target_session_generation command requested =
     or_else (value_as_u64 (value_index (cce_payload command) ''session_generation'')) (map_option ses_runtime_generation requested)"

definition find_session ::
    "('z) command_codec_scheme \<Rightarrow> TrustOperationEnvelope list \<Rightarrow> string \<Rightarrow> string \<Rightarrow> StoreError \<Rightarrow> AgentSession store_result" where
  "find_session c ledger space session_id missing =
     bindR (fabric_agent_sessions c ledger space) (\<lambda>sessions.
       ok_or (List.find (\<lambda>session. ses_id session = session_id) sessions) missing)"

definition targeted_session ::
    "('z) command_codec_scheme \<Rightarrow> TrustOperationEnvelope list \<Rightarrow> MutationContext \<Rightarrow> ControlCommandEnvelope
      \<Rightarrow> AgentSession option \<Rightarrow> AgentSession store_result" where
  "targeted_session c ledger context command requested =
     (case requested of
        Some session \<Rightarrow> Inr session
      | None \<Rightarrow>
          bindR (ok_or (target_session_id command requested)
                   (command_error InvalidStateTransition ''RuntimeCommand requires an exact target AgentSession''
                      (cce_id command) None)) (\<lambda>session_id.
          find_session c ledger (mcx_execution_space_id context) session_id
            (command_error InvalidStateTransition ''RuntimeCommand target AgentSession does not exist''
               (cce_id command) None)))"

text \<open>The lifecycle a kind of command needs its session to be in.\<close>

definition requires_live_cycle :: "RuntimeCommandKind \<Rightarrow> bool" where
  "requires_live_cycle kind \<longleftrightarrow> kind \<in> {CommandCancelProviderTurn, InterruptCurrentCycle, CancelPendingInput}"

definition lifecycle_guard ::
    "ControlCommandEnvelope \<Rightarrow> AgentSession \<Rightarrow> WorkExecutionBinding list \<Rightarrow> unit store_result" where
  "lifecycle_guard command session active_bindings =
     (let error = (\<lambda>message. command_error InvalidStateTransition message (cce_id command) (Some (ses_version session)));
          kind = cce_command command; lifecycle = ses_lifecycle session;
          stoppable = lifecycle \<in> {SessionCold, SessionActive, SessionIdle, SessionInterrupted} in
      if kind \<in> {DispatchProvider, CommandStartCycle} then
        reject_if (lifecycle \<noteq> SessionActive) (error ''provider dispatch requires the exact active AgentSession'')
      else if requires_live_cycle kind then
        reject_if (lifecycle \<noteq> SessionActive \<or> ses_current_cycle_marker session = None)
          (error ''provider cancel requires an exact active provider turn'')
      else if kind = StopSession then
        bindR (reject_if (\<not> stoppable) (error ''AgentSession stop cannot target a terminal session'')) (\<lambda>_.
        reject_if (active_bindings \<noteq> [])
          (trust_error WorkExecutionBindingActive
             (''AgentSession stop requires explicit release, rebind, or quiesce of active WorkExecutionBindings first: ''
              @ join_with '','' (map web_id active_bindings))
             ''agent_session'' (ses_id session) (Some (ses_version session))))
      else if kind \<in> {ReleaseRuntime, CloseMember, QuiesceExecutionLane, DrainRuntime} then
        reject_if (\<not> stoppable) (error ''AgentSession stop cannot target a terminal session'')
      else if kind \<in> {StartSession, ResumeSession, OpenRuntime, ResumeNativeSession, ReopenMember, ReattachLiveRuntime} then
        reject_if (lifecycle \<in> {SessionClosed, SessionRecoveryRequired})
          (error ''provider process start/resume cannot target a terminal or recovery-required AgentSession'')
      else Inr ())"

text \<open>An interruption may be prepared over the effect it interrupts.\<close>

definition interrupts :: "RuntimeCommandKind \<Rightarrow> RuntimeCommandKind \<Rightarrow> bool" where
  "interrupts command prior \<longleftrightarrow>
     command \<in> {CommandCancelProviderTurn, InterruptCurrentCycle, StopSession} \<and> prior \<in> {DispatchProvider, CommandStartCycle}"

definition ambiguous_with :: "ControlCommandEnvelope \<Rightarrow> AgentSession \<Rightarrow> RuntimeCommandRecord \<Rightarrow> bool" where
  "ambiguous_with command session prior \<longleftrightarrow>
     cmd_id prior \<noteq> cce_id command \<and> cmd_target_session_id prior = Some (ses_id session)
     \<and> has_unresolved_effect prior \<and> \<not> interrupts (cce_command command) (cmd_command prior)"

definition ACCEPTANCE_WAKE_SOURCE_PREFIX :: string where
  "ACCEPTANCE_WAKE_SOURCE_PREFIX = ''work-acceptance-wake:''"

text \<open>A cycle started for the acceptance of a Work needs exactly the wake that is pending.\<close>

definition require_pending_wake ::
    "view \<Rightarrow> MutationContext \<Rightarrow> ControlCommandEnvelope \<Rightarrow> AgentSession \<Rightarrow> unit store_result" where
  "require_pending_wake v context command session =
     (case value_as_str (value_index (cce_payload command) ''delivery_id'') of
        None \<Rightarrow> Inr ()
      | Some source \<Rightarrow>
          if strip_prefix ACCEPTANCE_WAKE_SOURCE_PREFIX source = None then Inr ()
          else
            bindR (case cbd_target_member_run_id (cce_binding command) of
                     None \<Rightarrow> Inr None
                   | Some member_run_id \<Rightarrow> vw_pending_wake v (mcx_execution_space_id context) member_run_id) (\<lambda>candidate.
            reject_if (cce_command command \<noteq> CommandStartCycle
                       \<or> ctl_execution_driver (ses_control_state session) \<noteq> HostDriven \<or> candidate \<noteq> Some source)
              (command_error InvalidStateTransition
                 ''WORK_ACCEPTANCE_WAKE_UNAVAILABLE: acceptance is stale, unrelated or already prepared; do not replay the effect''
                 (cce_id command) (Some (ses_version session)))))"

fun ceiling_rank :: "PermissionCeiling \<Rightarrow> nat" where
  "ceiling_rank CeilingReadOnly = 0"
| "ceiling_rank CeilingWorkspaceWrite = 1"
| "ceiling_rank CeilingFullAccess = 2"

definition require_permission_ceiling ::
    "('z) command_codec_scheme \<Rightarrow> TrustOperationEnvelope list \<Rightarrow> MutationContext \<Rightarrow> ControlCommandEnvelope
      \<Rightarrow> AgentSession option \<Rightarrow> unit store_result" where
  "require_permission_ceiling c ledger context command requested =
     (case requested of
        None \<Rightarrow> Inr ()
      | Some session \<Rightarrow>
          bindR (trust_agent_members c ledger (mcx_execution_space_id context)) (\<lambda>members.
          bindR (ok_or (List.find (\<lambda>member. agm_id member = ses_agent_member_id session) members)
                   (command_error InvalidStateTransition ''StartSession target AgentMember does not exist''
                      (cce_id command) None)) (\<lambda>member.
          reject_if (ceiling_rank (ses_effective_permission_ceiling session) > ceiling_rank (agm_permission_ceiling member))
            (command_error UnauthorizedActor ''StartSession cannot widen the frozen AgentMember permission ceiling''
               (cce_id command) None))))"

definition require_command_actor :: "ControlCommandEnvelope \<Rightarrow> AgentSession \<Rightarrow> unit store_result" where
  "require_command_actor command session =
     (let actor = cce_authenticated_actor command;
          exact_self = (act_kind actor = ActorAgentMember \<and> act_id actor = ses_agent_member_id session);
          exact_operator = (act_kind actor = ActorService
            \<and> (act_id actor = ses_node_id session \<or> act_id actor = ses_node_daemon_id session)) in
      reject_if (\<not> exact_self \<and> \<not> exact_operator)
        (command_error UnauthorizedActor
           ''AgentSession RuntimeCommand requires exact self or exact machine NodeDaemon/Operator authority; Team Host authority is Team-scoped only''
           (cce_id command) None))"

definition bound_to_generation :: "ControlCommandEnvelope \<Rightarrow> AgentSession \<Rightarrow> u64 option \<Rightarrow> bool" where
  "bound_to_generation command session generation \<longleftrightarrow>
     ses_node_id session = cce_target_node_id command
     \<and> ses_node_daemon_id session = cce_target_node_daemon_id command
     \<and> ses_node_daemon_generation session = cce_target_node_daemon_generation command
     \<and> generation = Some (ses_runtime_generation session)"

text \<open>The guards of a command on a session.\<close>

definition session_admission ::
    "('z) command_codec_scheme \<Rightarrow> view \<Rightarrow> TrustOperationEnvelope list \<Rightarrow> MutationContext \<Rightarrow> ControlCommandEnvelope
      \<Rightarrow> AgentSession option \<Rightarrow> unit store_result" where
  "session_admission c v ledger context command requested =
     (let space = mcx_execution_space_id context; id = cce_id command in
      bindR (targeted_session c ledger context command requested) (\<lambda>session.
      bindR (reject_if (\<not> bound_to_generation command session (target_session_generation command requested))
               (command_error MemberRunGenerationFenced
                  ''RuntimeCommand does not bind the exact current AgentSession and NodeDaemon generation''
                  id (Some (ses_version session)))) (\<lambda>_.
      bindR (if runtime_command_requires_exact_binding (cce_command command)
             then require_live_runtime_binding c v ledger session (cce_binding command) (BindingRuntimeCommand False False)
                    ''runtime_command'' id (Some (ses_version session))
             else Inr ()) (\<lambda>_.
      bindR (require_runtime_command_precondition session (cce_command command) (cce_precondition command) PoststateNone
               ''runtime_command'' id (Some (ses_version session))) (\<lambda>_.
      bindR (require_pending_wake v context command session) (\<lambda>_.
      bindR (require_command_actor command session) (\<lambda>_.
      bindR (require_permission_ceiling c ledger context command requested) (\<lambda>_.
      bindR (fabric_work_execution_bindings c ledger space) (\<lambda>bindings.
      bindR (lifecycle_guard command session
               (filter (\<lambda>b. web_agent_session_id b = ses_id session
                            \<and> web_agent_session_generation b = ses_runtime_generation session
                            \<and> web_status b = BindingActive) bindings)) (\<lambda>_.
      bindR (reject_if (cce_command command = CommandStartCycle
                        \<and> (case value_as_u64 (value_index (cce_payload command) ''provider_attempt'') of
                             None \<Rightarrow> True | Some attempt \<Rightarrow> attempt = 0))
               (command_error InvalidStateTransition
                  ''StartCycle requires a one-based provider_attempt before provider effect'' id (Some (ses_version session)))) (\<lambda>_.
      bindR (runtime_commands c ledger space) (\<lambda>priors.
      reject_if (list_ex (ambiguous_with command session) priors)
        (command_error RuntimeEffectUnknown
           ''AgentSession has an ambiguous in-flight RuntimeCommand; reconciliation is required'' id None)))))))))))))"

definition prepared_record ::
    "ControlCommandEnvelope \<Rightarrow> string \<Rightarrow> AgentSession option \<Rightarrow> string \<Rightarrow> RuntimeCommandRecord" where
  "prepared_record command fingerprint requested now =
     \<lparr>cmd_id = cce_id command, cmd_execution_space_id = cce_execution_space_id command,
      cmd_target_node_id = cce_target_node_id command, cmd_target_node_daemon_id = cce_target_node_daemon_id command,
      cmd_target_node_daemon_generation = cce_target_node_daemon_generation command,
      cmd_authenticated_actor = cce_authenticated_actor command, cmd_command = cce_command command,
      cmd_required_capability = cce_required_capability command, cmd_idempotency_key = cce_idempotency_key command,
      cmd_request_fingerprint = fingerprint, cmd_phase = PhasePrepared, cmd_effect_certainty = CertaintyUnknown,
      cmd_postcondition_status = PostUnknown, cmd_binding = cce_binding command,
      cmd_precondition = cce_precondition command, cmd_postcondition = cce_postcondition command,
      cmd_target_session_id = target_session_id command requested,
      cmd_target_session_generation = target_session_generation command requested,
      cmd_source_record_id = value_as_str (value_index (cce_payload command) ''delivery_id''),
      cmd_provider_attempt = value_as_u64 (value_index (cce_payload command) ''provider_attempt''),
      cmd_result = None, cmd_cycle_correlation = None, cmd_failure_code = None, cmd_version = 1,
      cmd_created_at = now, cmd_updated_at = now\<rparr>"

text \<open>
  \<^verbatim>\<open>now\<close> is the text the caller passes, \<open>clock\<close> the text the commit reads from the clock.
\<close>

definition prepare_fresh ::
    "('z) command_codec_scheme \<Rightarrow> view \<Rightarrow> MutationContext \<Rightarrow> ControlCommandEnvelope \<Rightarrow> u64 \<Rightarrow> string
      \<Rightarrow> TrustOperationEnvelope list \<Rightarrow> (RuntimeCommandRecord \<times> json) store_result" where
  "prepare_fresh c v context command now_unix_ms now ledger =
     (let error = (\<lambda>code message. command_error code message (cce_id command) None) in
      bindR (reject_if (cce_command command \<in> set FROZEN_RUNTIME_COMMAND_KINDS)
               (error InvalidStateTransition (''RUNTIME_COMMAND_KIND_FROZEN: '' @ show_frozen_kind (cce_command command)
                  @ '' has no production effect handler''))) (\<lambda>_.
      bindR (validate_runtime_command c v command now_unix_ms) (\<lambda>_.
      bindR (reject_if (cce_execution_space_id command \<noteq> mcx_execution_space_id context
                        \<or> cce_authenticated_actor command
                            \<noteq> (case mcx_authority_actor context of None \<Rightarrow> mcx_authenticated_actor context | Some a \<Rightarrow> a))
               (error UnauthorizedActor ''RuntimeCommand authority or fingerprint was not server-bound'')) (\<lambda>_.
      bindR (reject_if (cce_required_capability command \<noteq> runtime_command_capability (cce_command command))
               (error UnauthorizedActor
                  ''RuntimeCommand capability is not the server-owned capability for this command'')) (\<lambda>_.
      bindR (requested_start_session c command) (\<lambda>requested.
      bindR (if cce_command command = AuthorMessage then Inr ()
             else session_admission c v ledger context command requested) (\<lambda>_.
      bindR (runtime_command_envelope_fingerprint c command) (\<lambda>fingerprint.
      bindR (map_err StoreJson (command_to_value c command)) (\<lambda>payload.
        Inr (prepared_record command fingerprint requested now, payload))))))))))"

definition prepare_runtime_command ::
    "('z) command_codec_scheme \<Rightarrow> view \<Rightarrow> string \<Rightarrow> MutationContext \<Rightarrow> ControlCommandEnvelope \<Rightarrow> u64 \<Rightarrow> string
      \<Rightarrow> (TrustOperationEnvelope list, StoreError, RuntimeCommandRecord CanonicalMutationResult) action" where
  "prepare_runtime_command c v clock context command now_unix_ms now =
     (\<lambda>ledger.
       check (runtime_command_envelope_fingerprint c command) (\<lambda>fingerprint.
       check (reject_if (mcx_request_fingerprint context \<noteq> Some fingerprint)
                (command_error UnauthorizedActor ''RuntimeCommand full envelope fingerprint was not server-bound''
                   (cce_id command) None)) (\<lambda>_.
       check (command_replay ledger context (cce_id command) fingerprint
                ''RuntimeCommand idempotency key was reused with a different full envelope'') (\<lambda>replay.
         case replay of
           Some replay \<Rightarrow>
             check (replayed_result (record_of_value c)
                      (case latest_of_aggregate ledger (mcx_execution_space_id context) ''runtime_command'' (cce_id command) of
                         None \<Rightarrow> replay | Some latest \<Rightarrow> latest)) (\<lambda>r s. (Inr r, s))
         | None \<Rightarrow>
             check (prepare_fresh c v context command now_unix_ms now ledger) (\<lambda>(record, payload).
               commit_command c clock context (cmd_id record) ''accepted'' payload record)))) ledger)"


section \<open>Settling a command\<close>

text \<open>The target session of a record, still in the generation the command was admitted for.\<close>

definition owned_session ::
    "('z) command_codec_scheme \<Rightarrow> TrustOperationEnvelope list \<Rightarrow> MutationContext \<Rightarrow> RuntimeCommandRecord \<Rightarrow> string
      \<Rightarrow> StoreError \<Rightarrow> StoreError \<Rightarrow> StoreError \<Rightarrow> AgentSession store_result" where
  "owned_session c ledger context record session_id missing fenced no_generation =
     bindR (ok_or (cmd_target_session_generation record) no_generation) (\<lambda>generation.
     bindR (find_session c ledger (mcx_execution_space_id context) session_id missing) (\<lambda>session.
     bindR (reject_if (ses_runtime_generation session \<noteq> generation \<or> ses_node_id session \<noteq> cmd_target_node_id record
                       \<or> ses_node_daemon_id session \<noteq> cmd_target_node_daemon_id record
                       \<or> ses_node_daemon_generation session \<noteq> cmd_target_node_daemon_generation record) fenced)
       (\<lambda>_. Inr session)))"

text \<open>The state after the command a settlement tolerates: the native session may have been attached since.\<close>

definition settlement_poststate :: "RuntimeCommandRecord \<Rightarrow> AgentSession \<Rightarrow> RuntimeCommandPoststate" where
  "settlement_poststate record session =
     (if cbd_native_session_ref (cmd_binding record) = None \<and> ses_native_session_ref session \<noteq> None
      then PoststateCommandWithNativeSessionAttachment else PoststateCommand)"

definition settlement_binding ::
    "('z) command_codec_scheme \<Rightarrow> view \<Rightarrow> TrustOperationEnvelope list \<Rightarrow> MutationContext \<Rightarrow> string
      \<Rightarrow> RuntimeCommandRecord \<Rightarrow> unit store_result" where
  "settlement_binding c v ledger context command_id record =
     (let error = (\<lambda>code message. command_error code message command_id (Some (cmd_version record))) in
      if \<not> runtime_command_requires_exact_binding (cmd_command record) then Inr ()
      else
        bindR (ok_or (cmd_target_session_id record)
                 (error MemberRunGenerationFenced
                    ''provider-facing RuntimeCommand has no exact target AgentSession binding'')) (\<lambda>session_id.
        bindR (owned_session c ledger context record session_id
                 (error InvalidStateTransition ''RuntimeCommand target AgentSession disappeared before settlement'')
                 (error MemberRunGenerationFenced
                    ''RuntimeCommand settlement no longer owns the exact AgentSession/NodeDaemon generation'')
                 (error MemberRunGenerationFenced
                    ''provider-facing RuntimeCommand has no exact target runtime generation'')) (\<lambda>session.
        bindR (require_live_runtime_binding c v ledger session (cmd_binding record) (BindingRuntimeCommand True True)
                 ''runtime_command'' command_id (Some (cmd_version record))) (\<lambda>_.
        require_runtime_command_precondition session (cmd_command record) (cmd_precondition record)
          (settlement_poststate record session) ''runtime_command'' command_id (Some (cmd_version record))))))"

definition postcondition_combination_is_valid ::
    "RuntimePostconditionStatus \<Rightarrow> RuntimeCommandPhase \<Rightarrow> RuntimeEffectCertainty \<Rightarrow> json option \<Rightarrow> bool" where
  "postcondition_combination_is_valid status phase certainty result =
     (case status of
        PostSatisfied \<Rightarrow> phase = PhaseSettled \<and> certainty = CertaintyApplied \<and> result \<noteq> None
      | PostUnsatisfied \<Rightarrow> phase = PhaseRejected \<and> certainty = CertaintyNotApplied
      | PostUnknown \<Rightarrow> True)"

definition settled_record ::
    "RuntimeCommandRecord \<Rightarrow> RuntimeCommandPhase \<Rightarrow> RuntimeEffectCertainty \<Rightarrow> RuntimePostconditionStatus
      \<Rightarrow> json option \<Rightarrow> string option \<Rightarrow> string \<Rightarrow> RuntimeCommandRecord" where
  "settled_record record phase certainty status result failure_code now =
     record\<lparr>cmd_phase := phase, cmd_effect_certainty := certainty, cmd_postcondition_status := status,
       cmd_result := result, cmd_failure_code := failure_code, cmd_version := cmd_version record + 1,
       cmd_updated_at := now\<rparr>"

definition settlement_payload ::
    "RuntimeCommandPhase \<Rightarrow> RuntimeEffectCertainty \<Rightarrow> json option \<Rightarrow> string option \<Rightarrow> (string \<times> json) list" where
  "settlement_payload phase certainty result failure_code =
     [(''effect_certainty'', JString (certainty_text certainty)), (''failure_code'', json_opt_str failure_code),
      (''phase'', JString (phase_text phase)), (''result'', json_opt result)]"

text \<open>A settlement that was written under the old spelling of its request keeps its fingerprint.\<close>

definition legacy_status :: "RuntimeCommandPhase \<Rightarrow> string option" where
  "legacy_status phase =
     (case phase of
        PhaseSettled \<Rightarrow> Some ''applied'' | PhaseRejected \<Rightarrow> Some ''failed'' | PhaseObserved \<Rightarrow> Some ''quiesced''
      | PhaseRecoveryRequired \<Rightarrow> Some ''recovery_required'' | _ \<Rightarrow> None)"

definition legacy_settlement_replay_context ::
    "('z) command_codec_scheme \<Rightarrow> TrustOperationEnvelope list \<Rightarrow> MutationContext \<Rightarrow> RuntimeCommandRecord
      \<Rightarrow> (string \<times> json) list \<Rightarrow> MutationContext store_result" where
  "legacy_settlement_replay_context c ledger context record payload =
     (if mcx_request_fingerprint context \<noteq> None then Inr context
      else case legacy_status (cmd_phase record) of
        None \<Rightarrow> Inr context
      | Some status \<Rightarrow>
          let legacy_payload = JObject (bt_insert ''status'' (JString status) (bt_remove ''phase'' payload));
              legacy_fingerprint = canonical_json_fingerprint c legacy_payload in
          case List.find (\<lambda>e. envelope_scope e = context_scope context
                 \<and> mev_aggregate_kind (env_event e) = ''runtime_command''
                 \<and> mev_aggregate_id (env_event e) = cmd_id record
                 \<and> mev_transition (env_event e) = ''settled''
                 \<and> mev_payload (env_event e) = legacy_payload
                 \<and> mev_canonical_request_fingerprint (env_event e) = legacy_fingerprint) ledger of
            None \<Rightarrow> Inr context
          | Some e \<Rightarrow>
              bindR (event_projection (record_of_value c) e) (\<lambda>historical.
                Inr (if cmd_phase historical = cmd_phase record
                        \<and> cmd_postcondition_status historical = cmd_postcondition_status record
                     then context\<lparr>mcx_request_fingerprint := Some legacy_fingerprint\<rparr> else context)))"

definition settle_admission ::
    "('z) command_codec_scheme \<Rightarrow> view \<Rightarrow> TrustOperationEnvelope list \<Rightarrow> MutationContext \<Rightarrow> string
      \<Rightarrow> RuntimeCommandPhase \<Rightarrow> RuntimeEffectCertainty \<Rightarrow> RuntimePostconditionStatus \<Rightarrow> json option
      \<Rightarrow> RuntimeCommandRecord store_result" where
  "settle_admission c v ledger context command_id phase certainty status result =
     bindR (find_command c ledger (mcx_execution_space_id context) command_id
              ''RuntimeCommand was not durably accepted'') (\<lambda>record.
     let error = (\<lambda>code message. command_error code message command_id (Some (cmd_version record))) in
     bindR (require_node_daemon_settlement_authority v (mcx_execution_space_id context) (cmd_target_node_id record)
              (cmd_target_node_daemon_id record) (cmd_target_node_daemon_generation record)
              (mcx_authenticated_actor context) ''runtime_command'' command_id) (\<lambda>_.
     bindR (settlement_binding c v ledger context command_id record) (\<lambda>_.
     bindR (reject_if (cmd_target_node_daemon_id record \<noteq> act_id (mcx_authenticated_actor context)
                       \<or> act_kind (mcx_authenticated_actor context) \<noteq> ActorService
                       \<or> cmd_phase record \<notin> {PhasePrepared, PhaseObserved, PhaseRecoveryRequired})
              (error UnauthorizedActor ''only the exact target NodeDaemon can settle an admitted RuntimeCommand'')) (\<lambda>_.
     bindR (reject_if (phase \<notin> {PhaseSettled, PhaseRejected, PhaseRecoveryRequired, PhaseObserved})
              (error InvalidStateTransition ''invalid RuntimeCommand settlement'')) (\<lambda>_.
     bindR (reject_if (\<not> postcondition_combination_is_valid status phase certainty result)
              (error InvalidStateTransition
                 ''RuntimeCommand postcondition status is not proven by this settlement'')) (\<lambda>_.
     Inr record))))))"

definition settle_runtime_command_with_postcondition ::
    "('z) command_codec_scheme \<Rightarrow> view \<Rightarrow> string \<Rightarrow> MutationContext \<Rightarrow> string \<Rightarrow> RuntimeCommandPhase
      \<Rightarrow> RuntimeEffectCertainty \<Rightarrow> RuntimePostconditionStatus \<Rightarrow> json option \<Rightarrow> string option \<Rightarrow> string
      \<Rightarrow> (TrustOperationEnvelope list, StoreError, RuntimeCommandRecord CanonicalMutationResult) action" where
  "settle_runtime_command_with_postcondition c v clock context command_id phase certainty status result failure_code now =
     (\<lambda>ledger.
       check (settle_admission c v ledger context command_id phase certainty status result) (\<lambda>record.
         let settled = settled_record record phase certainty status result failure_code now;
             payload = settlement_payload phase certainty result failure_code in
         check (legacy_settlement_replay_context c ledger context settled payload) (\<lambda>compatible.
           commit_command c clock compatible command_id ''settled'' (JObject payload) settled)) ledger)"

definition settle_runtime_command ::
    "('z) command_codec_scheme \<Rightarrow> view \<Rightarrow> string \<Rightarrow> MutationContext \<Rightarrow> string \<Rightarrow> RuntimeCommandPhase
      \<Rightarrow> RuntimeEffectCertainty \<Rightarrow> json option \<Rightarrow> string option \<Rightarrow> string
      \<Rightarrow> (TrustOperationEnvelope list, StoreError, RuntimeCommandRecord CanonicalMutationResult) action" where
  "settle_runtime_command c v clock context command_id phase certainty result failure_code now =
     settle_runtime_command_with_postcondition c v clock context command_id phase certainty PostUnknown
       result failure_code now"

section \<open>Resolving an uncertain effect\<close>

definition recovery_fingerprint ::
    "('z) command_codec_scheme \<Rightarrow> MutationContext \<Rightarrow> string \<Rightarrow> string \<Rightarrow> string \<Rightarrow> u64 \<Rightarrow> RuntimeRecoveryResolution
      \<Rightarrow> string \<Rightarrow> string" where
  "recovery_fingerprint c context command_id node_id daemon_id daemon_generation resolution evidence_ref =
     canonical_json_fingerprint c (JObject
       [(''command_id'', JString command_id), (''daemon_generation'', JNumber (PosInt daemon_generation)),
        (''daemon_id'', JString daemon_id), (''evidence_ref'', JString evidence_ref), (''node_id'', JString node_id),
        (''resolution'', JString (resolution_text resolution)),
        (''transport_request_fingerprint'', json_opt_str (mcx_request_fingerprint context))])"

definition abandoned_prepared :: "view \<Rightarrow> RuntimeCommandRecord \<Rightarrow> bool" where
  "abandoned_prepared v record \<longleftrightarrow>
     cmd_phase record = PhasePrepared \<and> cmd_effect_certainty record = CertaintyUnknown
     \<and> runtime_command_is_publicly_recoverable v record (vw_now v)"

text \<open>An effect is confirmed only while its session and driver are still the ones it was prepared for.\<close>

definition confirm_applied_admission ::
    "('z) command_codec_scheme \<Rightarrow> view \<Rightarrow> TrustOperationEnvelope list \<Rightarrow> MutationContext \<Rightarrow> string
      \<Rightarrow> RuntimeCommandRecord \<Rightarrow> unit store_result" where
  "confirm_applied_admission c v ledger context command_id record =
     (let error = (\<lambda>code message. command_error code message command_id (Some (cmd_version record))) in
      bindR (reject_if (abandoned_prepared v record)
               (error InvalidStateTransition
                  ''an abandoned Prepared RuntimeCommand cannot be confirmed Applied without a provider receipt'')) (\<lambda>_.
      if \<not> runtime_command_requires_exact_binding (cmd_command record) then Inr ()
      else
        bindR (ok_or (cmd_target_session_id record)
                 (error MemberRunGenerationFenced
                    ''provider-facing RuntimeCommand recovery has no exact target AgentSession'')) (\<lambda>session_id.
        bindR (find_session c ledger (mcx_execution_space_id context) session_id
                 (error MemberRunGenerationFenced
                    ''RuntimeCommand target AgentSession disappeared before recovery resolution'')) (\<lambda>session.
        bindR (reject_if (cmd_target_session_generation record \<noteq> Some (ses_runtime_generation session)
                          \<or> ses_node_id session \<noteq> cmd_target_node_id record
                          \<or> ses_node_daemon_id session \<noteq> cmd_target_node_daemon_id record
                          \<or> ses_node_daemon_generation session \<noteq> cmd_target_node_daemon_generation record)
                 (error MemberRunGenerationFenced
                    ''RuntimeCommand recovery no longer owns the exact AgentSession/NodeDaemon generation'')) (\<lambda>_.
        bindR (require_live_runtime_binding c v ledger session (cmd_binding record) (BindingRuntimeCommand True False)
                 ''runtime_command'' command_id (Some (cmd_version record))) (\<lambda>_.
        require_runtime_command_precondition session (cmd_command record) (cmd_precondition record)
          (settlement_poststate record session) ''runtime_command'' command_id (Some (cmd_version record))))))))"

definition resolved_record ::
    "RuntimeCommandRecord \<Rightarrow> RuntimeRecoveryResolution \<Rightarrow> string \<Rightarrow> string \<Rightarrow> RuntimeCommandRecord" where
  "resolved_record record resolution evidence_ref updated_at =
     (let decided = (case resolution of
            ConfirmApplied \<Rightarrow> record\<lparr>cmd_phase := PhaseSettled, cmd_effect_certainty := CertaintyApplied,
              cmd_postcondition_status := PostUnknown, cmd_failure_code := None\<rparr>
          | ConfirmNotApplied \<Rightarrow> record\<lparr>cmd_phase := PhaseRejected, cmd_effect_certainty := CertaintyNotApplied,
              cmd_postcondition_status := PostUnsatisfied, cmd_failure_code := Some ''RECOVERY_CONFIRMED_NOT_APPLIED''\<rparr>
          | KeepRecoveryRequired \<Rightarrow> record\<lparr>cmd_phase := PhaseRecoveryRequired, cmd_effect_certainty := CertaintyUnknown,
              cmd_failure_code := Some ''RECOVERY_EVIDENCE_INSUFFICIENT''\<rparr>) in
      decided\<lparr>cmd_result := Some (JObject [(''blind_replay'', JBool False), (''evidence_ref'', JString evidence_ref),
                  (''resolution'', JString (resolution_text resolution))]),
              cmd_version := cmd_version record + 1, cmd_updated_at := updated_at\<rparr>)"

definition aggregate_version :: "TrustOperationEnvelope list \<Rightarrow> string \<Rightarrow> string \<Rightarrow> u64" where
  "aggregate_version ledger space command_id =
     (case max_by_key id (map (\<lambda>e. mev_resulting_version (env_event e))
             (filter (of_aggregate space ''runtime_command'' command_id) ledger)) of None \<Rightarrow> 0 | Some n \<Rightarrow> n)"

definition resolve_admission ::
    "('z) command_codec_scheme \<Rightarrow> view \<Rightarrow> TrustOperationEnvelope list \<Rightarrow> MutationContext \<Rightarrow> string \<Rightarrow> string
      \<Rightarrow> string \<Rightarrow> u64 \<Rightarrow> RuntimeRecoveryResolution \<Rightarrow> RuntimeCommandRecord store_result" where
  "resolve_admission c v ledger context command_id node_id daemon_id daemon_generation resolution =
     bindR (require_current_node_daemon v (mcx_execution_space_id context) node_id daemon_id daemon_generation
              (mcx_authenticated_actor context) ''runtime_command'' command_id) (\<lambda>_.
     bindR (reject_if (mcx_authority_actor context \<noteq> Some \<lparr>act_kind = ActorService, act_id = node_id\<rparr>)
              (command_error UnauthorizedActor ''RuntimeCommand recovery requires the exact Execution Node Operator''
                 command_id None)) (\<lambda>_.
     bindR (find_command c ledger (mcx_execution_space_id context) command_id
              ''RuntimeCommand recovery target does not exist'') (\<lambda>record.
     bindR (reject_if (cmd_target_node_id record \<noteq> node_id \<or> mcx_expected_version context \<noteq> cmd_version record)
              (command_error TrustVersionConflict
                 ''RuntimeCommand recovery requires the exact command Node and revision'' command_id (Some (cmd_version record)))) (\<lambda>_.
     bindR (reject_if (\<not> (cmd_phase record = PhaseRecoveryRequired \<and> cmd_effect_certainty record = CertaintyUnknown)
                       \<and> \<not> abandoned_prepared v record)
              (command_error InvalidStateTransition
                 ''only an Unknown RecoveryRequired or abandoned Prepared RuntimeCommand can be resolved''
                 command_id (Some (cmd_version record)))) (\<lambda>_.
     bindR (case resolution of
              ConfirmApplied \<Rightarrow> confirm_applied_admission c v ledger context command_id record
            | _ \<Rightarrow> Inr ()) (\<lambda>_.
     Inr record))))))"

definition resolve_runtime_command_recovery ::
    "('z) command_codec_scheme \<Rightarrow> view \<Rightarrow> string \<Rightarrow> MutationContext \<Rightarrow> string \<Rightarrow> string \<Rightarrow> string \<Rightarrow> u64
      \<Rightarrow> RuntimeRecoveryResolution \<Rightarrow> string \<Rightarrow> string
      \<Rightarrow> (TrustOperationEnvelope list, StoreError, RuntimeCommandRecord CanonicalMutationResult) action" where
  "resolve_runtime_command_recovery c v clock context command_id node_id daemon_id daemon_generation resolution
       evidence_ref updated_at =
     (\<lambda>ledger.
       let fingerprint = recovery_fingerprint c context command_id node_id daemon_id daemon_generation resolution evidence_ref in
       check (required evidence_ref ''RuntimeCommand recovery evidence_ref'') (\<lambda>_.
       check (command_replay ledger context command_id fingerprint
                ''RuntimeCommand recovery key was reused with different semantics'') (\<lambda>replay.
         case replay of
           Some replay \<Rightarrow> check (replayed_result (record_of_value c) replay) (\<lambda>r s. (Inr r, s))
         | None \<Rightarrow>
             check (resolve_admission c v ledger context command_id node_id daemon_id daemon_generation resolution) (\<lambda>record.
               commit_command c clock
                 (context\<lparr>mcx_expected_version := aggregate_version ledger (mcx_execution_space_id context) command_id,
                          mcx_request_fingerprint := Some fingerprint\<rparr>)
                 command_id ''recovery_resolved''
                 (JObject [(''daemon_generation'', JNumber (PosInt daemon_generation)), (''evidence_ref'', JString evidence_ref),
                    (''resolution'', JString (resolution_text resolution))])
                 (resolved_record record resolution evidence_ref updated_at)))) ledger)"

text \<open>A prepared command whose executor leaves before a receipt.\<close>

definition scope_exit_record :: "RuntimeCommandRecord \<Rightarrow> string \<Rightarrow> string \<Rightarrow> RuntimeCommandRecord" where
  "scope_exit_record record failure_code now =
     record\<lparr>cmd_phase := PhaseRecoveryRequired, cmd_effect_certainty := CertaintyUnknown,
       cmd_postcondition_status := PostUnknown, cmd_result := None, cmd_failure_code := Some failure_code,
       cmd_version := cmd_version record + 1, cmd_updated_at := now\<rparr>"

definition scope_exit_admission ::
    "('z) command_codec_scheme \<Rightarrow> TrustOperationEnvelope list \<Rightarrow> MutationContext \<Rightarrow> string \<Rightarrow> RuntimeCommandRecord store_result"
  where
  "scope_exit_admission c ledger context command_id =
     bindR (find_command c ledger (mcx_execution_space_id context) command_id
              ''RuntimeCommand was not durably accepted'') (\<lambda>record.
     bindR (reject_if (act_kind (mcx_authenticated_actor context) \<noteq> ActorService
                       \<or> act_id (mcx_authenticated_actor context) \<noteq> cmd_target_node_daemon_id record)
              (command_error UnauthorizedActor
                 ''only the exact admitted NodeDaemon identity can fail a prepared RuntimeCommand closed''
                 command_id (Some (cmd_version record)))) (\<lambda>_.
     bindR (reject_if (mcx_expected_version context \<noteq> cmd_version record \<or> cmd_phase record \<noteq> PhasePrepared
                       \<or> cmd_effect_certainty record \<noteq> CertaintyUnknown)
              (command_error InvalidStateTransition
                 ''only the exact current Accepted/Prepared/Unknown RuntimeCommand can enter scope-exit recovery''
                 command_id (Some (cmd_version record)))) (\<lambda>_.
     Inr record)))"

definition mark_prepared_runtime_command_recovery ::
    "('z) command_codec_scheme \<Rightarrow> string \<Rightarrow> MutationContext \<Rightarrow> string \<Rightarrow> string \<Rightarrow> string
      \<Rightarrow> (TrustOperationEnvelope list, StoreError, RuntimeCommandRecord CanonicalMutationResult) action" where
  "mark_prepared_runtime_command_recovery c clock context command_id failure_code now =
     (\<lambda>ledger.
       check (scope_exit_admission c ledger context command_id) (\<lambda>record.
       commit_command c clock context command_id ''prepared_scope_exit_recovery_required''
         (JObject [(''effect_certainty'', JString (certainty_text CertaintyUnknown)), (''failure_code'', JString failure_code)])
         (scope_exit_record record failure_code now)) ledger)"

section \<open>The terminal of a cycle\<close>

definition correlation_shape :: "string \<Rightarrow> ProviderCycleCorrelation \<Rightarrow> unit store_result" where
  "correlation_shape command_id correlation =
     (let error = (\<lambda>message. command_error InvalidStateTransition message command_id None);
          present = (\<lambda>text. case text of None \<Rightarrow> [] | Some t \<Rightarrow> t);
          empty_text = (\<lambda>text. case text of None \<Rightarrow> False | Some t \<Rightarrow> blank t) in
      bindR (required command_id ''ProviderCycleCorrelation.invocation_id'') (\<lambda>_.
      bindR (required (pcc_provider_input_id correlation) ''ProviderCycleCorrelation.provider_input_id'') (\<lambda>_.
      bindR (required (pcc_input_acceptance_receipt correlation) ''ProviderCycleCorrelation.input_acceptance_receipt'') (\<lambda>_.
      bindR (required (pcc_native_session_id correlation) ''ProviderCycleCorrelation.native_session_id'') (\<lambda>_.
      bindR (reject_if (blank (present (pcc_terminal_provider_input_id correlation)))
               (error ''provider cycle correlation requires terminal_provider_input_id'')) (\<lambda>_.
      bindR (required (present (pcc_exact_terminal_ref correlation)) ''ProviderCycleCorrelation.exact_terminal_ref'') (\<lambda>_.
      bindR (reject_if (pcc_agent_session_generation correlation = 0 \<or> pcc_provider_attempt correlation = 0)
               (error ''provider cycle generations and attempts are one-based'')) (\<lambda>_.
      reject_if (empty_text (pcc_exact_terminal_ref correlation) \<or> empty_text (pcc_source_delivery_id correlation))
        (error ''provider cycle optional references cannot be empty'')))))))))"

definition generation_or_zero :: "u64 option \<Rightarrow> u64" where
  "generation_or_zero g = (case g of None \<Rightarrow> 0 | Some n \<Rightarrow> n)"

definition accepted_receipt :: "RuntimeCommandRecord \<Rightarrow> string option" where
  "accepted_receipt record =
     (case cmd_result record of
        None \<Rightarrow> None
      | Some result \<Rightarrow>
          (case value_get result ''provider_receipt'' of
             None \<Rightarrow> None
           | Some receipt \<Rightarrow> (case value_get receipt ''response_id'' of None \<Rightarrow> None | Some v \<Rightarrow> value_as_str v)))"

definition correlation_admission ::
    "('z) command_codec_scheme \<Rightarrow> view \<Rightarrow> TrustOperationEnvelope list \<Rightarrow> MutationContext \<Rightarrow> string
      \<Rightarrow> ProviderCycleCorrelation \<Rightarrow> RuntimeCommandRecord store_result" where
  "correlation_admission c v ledger context command_id correlation =
     bindR (find_command c ledger (mcx_execution_space_id context) command_id
              ''provider cycle correlation has no durable RuntimeCommand'') (\<lambda>record.
     let error = (\<lambda>code message. command_error code message command_id (Some (cmd_version record))) in
     bindR (reject_if (act_kind (mcx_authenticated_actor context) \<noteq> ActorService
                       \<or> act_id (mcx_authenticated_actor context) \<noteq> cmd_target_node_daemon_id record)
              (error UnauthorizedActor ''only the exact target NodeDaemon may record provider cycle correlation'')) (\<lambda>_.
     bindR (require_node_daemon_settlement_authority v (mcx_execution_space_id context) (cmd_target_node_id record)
              (cmd_target_node_daemon_id record) (cmd_target_node_daemon_generation record)
              (mcx_authenticated_actor context) ''runtime_command'' command_id) (\<lambda>_.
     bindR (ok_or (cmd_target_session_id record)
              (error MemberRunGenerationFenced ''provider cycle command has no exact AgentSession'')) (\<lambda>session_id.
     bindR (find_session c ledger (mcx_execution_space_id context) session_id
              (error MemberRunGenerationFenced
                 ''provider cycle AgentSession disappeared before terminal correlation'')) (\<lambda>session.
     bindR (reject_if (ses_runtime_generation session \<noteq> generation_or_zero (cmd_target_session_generation record)
                       \<or> ses_node_id session \<noteq> cmd_target_node_id record
                       \<or> ses_node_daemon_id session \<noteq> cmd_target_node_daemon_id record
                       \<or> ses_node_daemon_generation session \<noteq> cmd_target_node_daemon_generation record)
              (error MemberRunGenerationFenced
                 ''provider cycle terminal no longer owns the current AgentSession generation'')) (\<lambda>_.
     bindR (require_live_runtime_binding c v ledger session (cmd_binding record) (BindingRuntimeCommand True True)
              ''runtime_command'' command_id (Some (cmd_version record))) (\<lambda>_.
     bindR (reject_if (mcx_expected_version context \<noteq> cmd_version record \<or> cmd_command record \<noteq> CommandStartCycle
                       \<or> cmd_phase record \<noteq> PhaseSettled \<or> cmd_effect_certainty record \<noteq> CertaintyApplied
                       \<or> cmd_postcondition_status record \<noteq> PostSatisfied)
              (error InvalidStateTransition
                 ''provider terminal correlation requires the exact settled StartCycle version'')) (\<lambda>_.
     bindR (reject_if (pcc_invocation_id correlation \<noteq> cmd_id record
                       \<or> pcc_agent_session_generation correlation \<noteq> generation_or_zero (cmd_target_session_generation record)
                       \<or> Some (pcc_provider_attempt correlation) \<noteq> cmd_provider_attempt record
                       \<or> map_option nsr_native_session_id (ses_native_session_ref session)
                           \<noteq> Some (pcc_native_session_id correlation))
              (error MemberRunGenerationFenced
                 ''provider cycle correlation does not match RuntimeCommand session/attempt authority'')) (\<lambda>_.
     bindR (reject_if (pcc_terminal_provider_input_id correlation \<noteq> Some (pcc_provider_input_id correlation))
              (error InvalidStateTransition ''provider terminal belongs to a different provider input'')) (\<lambda>_.
     bindR (reject_if (accepted_receipt record \<noteq> Some (pcc_input_acceptance_receipt correlation))
              (error InvalidStateTransition
                 ''provider terminal correlation does not match the durable input receipt'')) (\<lambda>_.
     bindR (reject_if (case pcc_source_delivery_id correlation of
                         None \<Rightarrow> False
                       | Some delivery_id \<Rightarrow>
                           (case cmd_source_record_id record of
                              None \<Rightarrow> True
                            | Some source \<Rightarrow> strip_prefix (delivery_id @ '':turn:'') source = None))
              (error InvalidStateTransition
                 ''provider cycle source delivery does not match the admitted command'')) (\<lambda>_.
     bindR (reject_if (cmd_cycle_correlation record \<noteq> None)
              (error InvalidStateTransition ''provider cycle terminal correlation was already recorded'')) (\<lambda>_.
     Inr record)))))))))))))"

definition correlated_record :: "RuntimeCommandRecord \<Rightarrow> ProviderCycleCorrelation \<Rightarrow> string \<Rightarrow> RuntimeCommandRecord" where
  "correlated_record record correlation now =
     record\<lparr>cmd_cycle_correlation := Some correlation, cmd_version := cmd_version record + 1, cmd_updated_at := now\<rparr>"

definition record_runtime_cycle_correlation ::
    "('z) command_codec_scheme \<Rightarrow> view \<Rightarrow> string \<Rightarrow> MutationContext \<Rightarrow> string \<Rightarrow> ProviderCycleCorrelation \<Rightarrow> string
      \<Rightarrow> (TrustOperationEnvelope list, StoreError, RuntimeCommandRecord CanonicalMutationResult) action" where
  "record_runtime_cycle_correlation c v clock context command_id correlation now =
     (\<lambda>ledger.
       check (correlation_shape command_id correlation) (\<lambda>_.
       check (map_err StoreJson (correlation_to_value c correlation)) (\<lambda>value.
         let fingerprint = canonical_json_fingerprint c (JObject [(''command_id'', JString command_id), (''correlation'', value)]) in
       check (command_replay ledger context command_id fingerprint
                ''provider cycle correlation key was reused with different semantics'') (\<lambda>replay.
         case replay of
           Some replay \<Rightarrow> check (replayed_result (record_of_value c) replay) (\<lambda>r s. (Inr r, s))
         | None \<Rightarrow>
             check (correlation_admission c v ledger context command_id correlation) (\<lambda>record.
               commit_command c clock (context\<lparr>mcx_request_fingerprint := Some fingerprint\<rparr>) command_id
                 ''cycle_terminal_correlated'' value (correlated_record record correlation now))))) ledger)"

section \<open>The author messages of a predecessor\<close>

text \<open>
  When a daemon recovers the Node of a predecessor, the authored messages the predecessor left uncertain
  are settled from the ledger itself. \<open>prove\<close> is \<^verbatim>\<open>prove_author_message\<close>, which compares the messages and
  deliveries of the history and is not modelled; the check of the file's last byte has no counterpart in a
  list of rows.
\<close>

fun show_phase :: "RuntimeCommandPhase \<Rightarrow> string" where
  "show_phase PhasePrepared = ''Prepared''"
| "show_phase PhaseDispatched = ''Dispatched''"
| "show_phase PhaseProviderAcknowledged = ''ProviderAcknowledged''"
| "show_phase PhaseObserved = ''Observed''"
| "show_phase PhaseSettled = ''Settled''"
| "show_phase PhaseRejected = ''Rejected''"
| "show_phase PhaseRecoveryRequired = ''RecoveryRequired''"
| "show_phase PhaseUnknown = ''Unknown''"

fun show_certainty :: "RuntimeEffectCertainty \<Rightarrow> string" where
  "show_certainty CertaintyNone = ''None''"
| "show_certainty CertaintyNotApplied = ''NotApplied''"
| "show_certainty CertaintyApplied = ''Applied''"
| "show_certainty CertaintyUnknown = ''Unknown''"

definition predecessor_unsettled :: "NodeDaemonLease \<Rightarrow> RuntimeCommandRecord \<Rightarrow> bool" where
  "predecessor_unsettled lease record \<longleftrightarrow>
     cmd_target_node_id record = ndl_node_id lease \<and> cmd_target_node_daemon_id record = ndl_daemon_id lease
     \<and> cmd_target_node_daemon_generation record = ndl_generation lease
     \<and> \<not> (cmd_phase record \<in> {PhaseSettled, PhaseRejected}
          \<and> cmd_effect_certainty record \<in> {CertaintyApplied, CertaintyNotApplied})"

definition uncertain_author_message :: "RuntimeCommandRecord \<Rightarrow> bool" where
  "uncertain_author_message record \<longleftrightarrow>
     cmd_command record = AuthorMessage \<and> cmd_phase record \<in> {PhasePrepared, PhaseRecoveryRequired}
     \<and> cmd_effect_certainty record = CertaintyUnknown"

fun pending_in_space :: "NodeDaemonLease \<Rightarrow> RuntimeCommandRecord list \<Rightarrow> RuntimeCommandRecord list store_result" where
  "pending_in_space lease [] = Inr []"
| "pending_in_space lease (record # records) =
     (if \<not> predecessor_unsettled lease record then pending_in_space lease records
      else if \<not> uncertain_author_message record
      then Inl (StoreConflict (''NODE_DAEMON_PREDECESSOR_RECOVERY_COMMAND_UNSETTLED: RuntimeCommand '' @ cmd_id record
             @ '' is '' @ show_phase (cmd_phase record) @ ''/'' @ show_certainty (cmd_effect_certainty record)))
      else bindR (pending_in_space lease records) (\<lambda>pending. Inr (record # pending)))"

fun pending_author_messages ::
    "('z) command_codec_scheme \<Rightarrow> TrustOperationEnvelope list \<Rightarrow> NodeDaemonLease \<Rightarrow> string list
      \<Rightarrow> RuntimeCommandRecord list store_result" where
  "pending_author_messages c ledger lease [] = Inr []"
| "pending_author_messages c ledger lease (space # spaces) =
     bindR (runtime_commands c ledger space) (\<lambda>records.
     bindR (pending_in_space lease records) (\<lambda>pending.
     bindR (pending_author_messages c ledger lease spaces) (\<lambda>others. Inr (pending @ others))))"

text \<open>The history has no gap; \<open>versions\<close> is the last sequence and version of every aggregate.\<close>

fun complete_history ::
    "(string \<times> string \<times> string \<Rightarrow> u64 \<times> u64) \<Rightarrow> u64 \<Rightarrow> TrustOperationEnvelope list \<Rightarrow> bool" where
  "complete_history versions len [] \<longleftrightarrow> True"
| "complete_history versions len (envelope # history) \<longleftrightarrow>
     (let event = env_event envelope;
          key = (env_execution_space_id envelope, mev_aggregate_kind event, mev_aggregate_id event);
          (prior_sequence, prior_version) = versions key in
      mev_store_sequence event = len + 1 \<and> mev_sequence event = prior_sequence + 1
      \<and> (mev_aggregate_kind event = ''work'' \<or> mev_expected_version event = prior_version)
      \<and> mev_expected_version event \<noteq> - 1 \<and> mev_resulting_version event = mev_expected_version event + 1
      \<and> complete_history (versions(key := (mev_sequence event, mev_resulting_version event))) (len + 1) history)"

definition unproven :: "string \<Rightarrow> StoreError" where
  "unproven reason = StoreConflict (''NODE_DAEMON_PREDECESSOR_MESSAGE_UNPROVEN: '' @ reason)"

definition reconcile_context :: "MutationContext \<Rightarrow> NodeDaemonLease \<Rightarrow> RuntimeCommandRecord \<Rightarrow> MutationContext" where
  "reconcile_context context lease record =
     context\<lparr>mcx_execution_space_id := cmd_execution_space_id record,
       mcx_command_name := ''node_daemon.predecessor_recovery.author_message'',
       mcx_idempotency_key := ''predecessor-author-message:'' @ ndl_node_id lease @ '':'' @ ndl_daemon_id lease @ '':''
         @ show_word (ndl_generation lease) @ '':'' @ ndl_instance_id lease @ '':'' @ cmd_id record,
       mcx_expected_version := cmd_version record, mcx_request_fingerprint := None\<rparr>"

definition reconciled_record ::
    "RuntimeCommandRecord \<Rightarrow> RuntimeEffectCertainty \<Rightarrow> string \<Rightarrow> string \<Rightarrow> RuntimeCommandRecord" where
  "reconciled_record record certainty evidence_ref updated_at =
     record\<lparr>cmd_phase := (if certainty = CertaintyApplied then PhaseSettled else PhaseRejected),
       cmd_effect_certainty := certainty, cmd_postcondition_status := PostUnknown,
       cmd_failure_code := (if certainty = CertaintyNotApplied then Some ''PREDECESSOR_MESSAGE_NOT_AUTHORED'' else None),
       cmd_result := Some (JObject [(''blind_replay'', JBool False), (''evidence_ref'', JString evidence_ref),
         (''local_authoring_only'', JBool True)]),
       cmd_version := cmd_version record + 1, cmd_updated_at := updated_at\<rparr>"

fun reconcile_outcomes ::
    "('z) command_codec_scheme \<Rightarrow> string \<Rightarrow> MutationContext \<Rightarrow> NodeDaemonLease \<Rightarrow> string \<Rightarrow> string
      \<Rightarrow> (RuntimeCommandRecord \<times> RuntimeEffectCertainty) list \<Rightarrow> (TrustOperationEnvelope list, StoreError, unit) action" where
  "reconcile_outcomes c clock context lease evidence_ref updated_at [] = (\<lambda>ledger. (Inr (), ledger))"
| "reconcile_outcomes c clock context lease evidence_ref updated_at ((record, certainty) # outcomes) =
     andThen (commit_command c clock (reconcile_context context lease record) (cmd_id record)
         ''predecessor_message_reconciled''
         (JObject [(''command_id'', JString (cmd_id record)), (''daemon_id'', JString (ndl_daemon_id lease)),
            (''effect_certainty'', JString (certainty_text certainty)), (''evidence_ref'', JString evidence_ref),
            (''generation'', JNumber (PosInt (ndl_generation lease))),
            (''instance_id'', JString (ndl_instance_id lease)), (''node_id'', JString (ndl_node_id lease)),
            (''request_fingerprint'', JString (cmd_request_fingerprint record))])
         (reconciled_record record certainty evidence_ref updated_at))
       (\<lambda>_. reconcile_outcomes c clock context lease evidence_ref updated_at outcomes)"

text \<open>Every outcome is proved before anything is appended.\<close>

definition reconcile_predecessor_author_messages ::
    "('z) command_codec_scheme \<Rightarrow> (TrustOperationEnvelope list \<Rightarrow> RuntimeCommandRecord \<Rightarrow> RuntimeEffectCertainty store_result)
      \<Rightarrow> string \<Rightarrow> MutationContext \<Rightarrow> string list \<Rightarrow> NodeDaemonLease \<Rightarrow> string \<Rightarrow> string
      \<Rightarrow> (TrustOperationEnvelope list, StoreError, unit) action" where
  "reconcile_predecessor_author_messages c prove clock context spaces lease evidence_ref updated_at ledger =
     check (pending_author_messages c ledger lease spaces) (\<lambda>pending.
       if pending = [] then (\<lambda>ledger. (Inr (), ledger))
       else
         check (reject_if (\<not> complete_history (\<lambda>_. (0, 0)) 0 ledger)
                  (unproven ''canonical history has a sequence/version gap'')) (\<lambda>_.
         check (collect (map (\<lambda>record. bindR (prove ledger record) (\<lambda>certainty. Inr (record, certainty))) pending))
           (\<lambda>outcomes. reconcile_outcomes c clock context lease evidence_ref updated_at outcomes))) ledger"

end
