(* ===== verification/Command_Run.thy ===== *)
theory Command_Run
  imports Runtime_Commands Ledger_Properties
begin

text \<open>
  Runs of the journal of runtime commands: the calls on commands and the recovery of a predecessor's
  authored messages, interleaved with the commits of every other aggregate of the ledger; what one step
  does to the latest record of a command; and that commands only move forward until their id is prepared
  again, the relation the locale \<open>monotone_system\<close> is interpreted with. The writers of the ledger that are
  not steps (\<open>Ledger_Properties\<close>) write no row of kind \<^verbatim>\<open>runtime_command\<close>.
\<close>

section \<open>Calls\<close>

datatype command_call =
    CallPrepare MutationContext ControlCommandEnvelope u64 string
  | CallSettle MutationContext string RuntimeCommandPhase RuntimeEffectCertainty RuntimePostconditionStatus
      "json option" "string option" string
  | CallResolve MutationContext string string string u64 RuntimeRecoveryResolution string string
  | CallScopeExit MutationContext string string string
  | CallCorrelate MutationContext string ProviderCycleCorrelation string

fun command_run :: "('z) command_codec_scheme \<Rightarrow> view \<Rightarrow> string \<Rightarrow> command_call
      \<Rightarrow> (TrustOperationEnvelope list, StoreError, RuntimeCommandRecord CanonicalMutationResult) action" where
  "command_run c v clock (CallPrepare context command now_ms now) =
     prepare_runtime_command c v clock context command now_ms now"
| "command_run c v clock (CallSettle context i phase certainty status result failure now) =
     settle_runtime_command_with_postcondition c v clock context i phase certainty status result failure now"
| "command_run c v clock (CallResolve context i node daemon generation resolution evidence now) =
     resolve_runtime_command_recovery c v clock context i node daemon generation resolution evidence now"
| "command_run c v clock (CallScopeExit context i failure now) =
     mark_prepared_runtime_command_recovery c clock context i failure now"
| "command_run c v clock (CallCorrelate context i correlation now) =
     record_runtime_cycle_correlation c v clock context i correlation now"

text \<open>
  A step is a call with any arguments, at any clock and in any surroundings, the recovery of a
  predecessor's messages, or a commit of an aggregate of another kind.
\<close>

inductive command_step :: "('z) command_codec_scheme \<Rightarrow> TrustOperationEnvelope list \<Rightarrow> TrustOperationEnvelope list \<Rightarrow> bool"
  for c where
  call: "command_run c v clock call s = (reply, t) \<Longrightarrow> command_step c s t"
| recovered: "reconcile_predecessor_author_messages c prove clock context spaces lease evidence_ref now s = (outcome, t)
    \<Longrightarrow> command_step c s t"
| other: "lrq_kind r \<noteq> ''runtime_command'' \<Longrightarrow> ledger_commit c r s = (reply, t) \<Longrightarrow> command_step c s t"
| works: "work_commit c s t \<Longrightarrow> command_step c s t"

lemma command_call_step: "command_step c s (snd (command_run c v clock call s))"
  by (rule command_step.call [OF prod.collapse [symmetric]])

lemma other_commit_step: "lrq_kind r \<noteq> ''runtime_command'' \<Longrightarrow> command_step c s (snd (ledger_commit c r s))"
  by (rule command_step.other [OF _ prod.collapse [symmetric]])

text \<open>What serde promises of the record: what was written reads back.\<close>

definition record_codec_ok :: "('z) command_codec_scheme \<Rightarrow> bool" where
  "record_codec_ok c \<longleftrightarrow> (\<forall>record value. record_to_value c record = Inr value \<longrightarrow> record_of_value c value = Inr record)"

section \<open>The latest record of a command\<close>

definition command_at ::
    "('z) command_codec_scheme \<Rightarrow> TrustOperationEnvelope list \<Rightarrow> string \<Rightarrow> string \<Rightarrow> RuntimeCommandRecord option" where
  "command_at c s space i =
     (case bt_get (latest_trust_envelopes s space ''runtime_command'') i of
        None \<Rightarrow> None
      | Some e \<Rightarrow> (case event_projection (record_of_value c) e of Inl _ \<Rightarrow> None | Inr record \<Rightarrow> Some record))"

lemma latest_trust_envelopes_snoc:
  "latest_trust_envelopes (s @ [e]) space kind =
     (if env_execution_space_id e = space \<and> mev_aggregate_kind (env_event e) = kind
      then bt_insert (mev_aggregate_id (env_event e)) e (latest_trust_envelopes s space kind)
      else latest_trust_envelopes s space kind)"
  by (simp add: latest_trust_envelopes_def)

lemma latest_trust_envelopes_Nil [simp]: "latest_trust_envelopes [] space kind = []"
  by (simp add: latest_trust_envelopes_def)

lemma command_at_Nil [simp]: "command_at c [] space i = None"
  by (simp add: command_at_def)

lemma command_at_snoc:
  "command_at c (s @ [e]) space i =
     (if of_aggregate space ''runtime_command'' i e
      then (case event_projection (record_of_value c) e of Inl _ \<Rightarrow> None | Inr record \<Rightarrow> Some record)
      else command_at c s space i)"
  by (simp add: command_at_def latest_trust_envelopes_snoc of_aggregate_def)

lemma command_at_Some:
  "command_at c s space i = Some r \<longleftrightarrow>
     (\<exists>e. bt_get (latest_trust_envelopes s space ''runtime_command'') i = Some e
        \<and> event_projection (record_of_value c) e = Inr r)"
  unfolding command_at_def
  by (cases "bt_get (latest_trust_envelopes s space ''runtime_command'') i") (auto split: sum.splits)

lemma find_command_Inr:
  "find_command c s space i missing = Inr record \<Longrightarrow> command_at c s space i = Some record"
  by (auto simp: find_command_def command_at_def bindR_eq_Inr)

lemma latest_id:
  "bt_get (latest_trust_envelopes s space kind) i = Some e \<Longrightarrow> e \<in> set s \<and> of_aggregate space kind i e"
  by (induction s rule: rev_induct)
    (auto simp: latest_trust_envelopes_snoc of_aggregate_def split: if_splits)

lemma latest_None: "bt_get (latest_trust_envelopes s space kind) i = None \<longleftrightarrow> filter (of_aggregate space kind i) s = []"
  by (induction s rule: rev_induct) (auto simp: latest_trust_envelopes_snoc of_aggregate_def)

text \<open>The latest records are what a reader gets.\<close>

lemma bt_ok_latest: "bt_ok (latest_trust_envelopes s space kind)"
  by (induction s rule: rev_induct) (auto simp: latest_trust_envelopes_snoc)

lemma list_all2_member:
  assumes "list_all2 R xs ys"
  shows "y \<in> set ys \<Longrightarrow> \<exists>x \<in> set xs. R x y" and "x \<in> set xs \<Longrightarrow> \<exists>y \<in> set ys. R x y"
  using assms by (induction rule: list_all2_induct) auto

lemma runtime_commands_Inr:
  assumes "runtime_commands c s space = Inr records"
  shows "r \<in> set records \<longleftrightarrow> (\<exists>i. command_at c s space i = Some r)"
proof -
  let ?m = "latest_trust_envelopes s space ''runtime_command''"
  have rows: "e \<in> set (bt_values ?m) \<longleftrightarrow> (\<exists>i. bt_get ?m i = Some e)" for e
    by (rule bt_values_get [OF bt_ok_latest])
  have "list_all2 (\<lambda>e r. event_projection (record_of_value c) e = Inr r) (bt_values ?m) records"
    using assms unfolding runtime_commands_def latest_projections_def by (simp add: collect_Inr)
  note member = list_all2_member [OF this]
  show ?thesis
    unfolding command_at_Some
  proof
    assume "r \<in> set records"
    from member(1) [OF this] rows show "\<exists>i e. bt_get ?m i = Some e \<and> event_projection (record_of_value c) e = Inr r"
      by blast
  next
    assume "\<exists>i e. bt_get ?m i = Some e \<and> event_projection (record_of_value c) e = Inr r"
    then obtain e where "e \<in> set (bt_values ?m)" "event_projection (record_of_value c) e = Inr r" using rows by blast
    from member(2) [OF this(1)] this(2) show "r \<in> set records" by auto
  qed
qed

section \<open>One step\<close>

text \<open>One row is appended, and it makes a record the latest of a command.\<close>

definition appends_record ::
    "('z) command_codec_scheme \<Rightarrow> TrustOperationEnvelope list \<Rightarrow> string \<Rightarrow> string \<Rightarrow> RuntimeCommandRecord
      \<Rightarrow> TrustOperationEnvelope list \<Rightarrow> bool" where
  "appends_record c s space i record t \<longleftrightarrow>
     (\<exists>e. t = s @ [e] \<and> of_aggregate space ''runtime_command'' i e \<and> event_projection (record_of_value c) e = Inr record)"

lemma appended_at:
  assumes "appends_record c s space i record t"
  shows "command_at c t space' j = (if space' = space \<and> j = i then Some record else command_at c s space' j)"
  using assms by (auto simp: appends_record_def command_at_snoc of_aggregate_def)

lemma commit_command_cases:
  assumes "commit_command c clock context i transition payload record s = (reply, t)" and codec: "record_codec_ok c"
  obtains "t = s"
  | "appends_record c s (mcx_execution_space_id context) i record t"
      "find_replay s context = None" "find_replay t context \<noteq> None"
      "mcx_expected_version context
         = current_version_of (latest_of_aggregate s (mcx_execution_space_id context) ''runtime_command'' i)"
proof (cases reply)
  case (Inl e)
  have "t = s" using assms(1) unfolding commit_command_def commit_trust_projection_def Inl by (rule commit_Inl)
  with that(1) show thesis .
next
  case (Inr result)
  note cases = commit_Inr [OF assms(1) [unfolded commit_command_def commit_trust_projection_def Inr]]
  show thesis
  proof (cases "t = s")
    case False
    with cases obtain v rows where
      new: "find_replay s context = None" "record_to_value c record = Inr v" "t = s @ rows"
        "mcx_expected_version context
           = current_version_of (latest_of_aggregate s (mcx_execution_space_id context) ''runtime_command'' i)"
      and rows: "commit_rows c clock context ''runtime_command'' i transition payload v [] [] None s rows"
      by blast
    from rows obtain e where e: "rows = [e]"
        "env_event e = primary_event s context ''runtime_command'' i transition (request_fingerprint_of c context payload) payload clock"
        "cop_resulting_projection (env_operation e) = v" "env_execution_space_id e = mcx_execution_space_id context"
        "envelope_scope e = context_scope context"
      by (auto simp: commit_rows_def Let_def envelope_of_def envelope_scope_def context_scope_def primary_event_def)
    show thesis
    proof (rule that(2))
      have "of_aggregate (mcx_execution_space_id context) ''runtime_command'' i e"
        using e by (simp add: of_aggregate_def primary_event_def Let_def)
      moreover have "event_projection (record_of_value c) e = Inr record"
        using e(3) new(2) codec by (simp add: event_projection_def record_codec_ok_def)
      ultimately show "appends_record c s (mcx_execution_space_id context) i record t"
        using new(3) e(1) by (auto simp: appends_record_def)
      show "find_replay t context \<noteq> None" using e(5) by (simp add: find_replay_None new(3) e(1))
    qed (use new(1,4) in simp_all)
  qed (rule that(1))
qed

lemma settle_admission_Inr:
  assumes "settle_admission c v s context i phase certainty status result = Inr record"
  shows "command_at c s (mcx_execution_space_id context) i = Some record"
    and "cmd_phase record \<in> {PhasePrepared, PhaseObserved, PhaseRecoveryRequired}"
  using assms by (auto simp: settle_admission_def bindR_eq_Inr Let_def dest: find_command_Inr)

lemma resolve_admission_Inr:
  assumes "resolve_admission c v s context i node daemon generation resolution = Inr record"
  shows "command_at c s (mcx_execution_space_id context) i = Some record"
    and "cmd_phase record \<in> {PhasePrepared, PhaseRecoveryRequired}" and "cmd_effect_certainty record = CertaintyUnknown"
  using assms by (auto simp: resolve_admission_def bindR_eq_Inr abandoned_prepared_def dest: find_command_Inr)

lemma scope_exit_admission_Inr:
  assumes "scope_exit_admission c s context i = Inr record"
  shows "command_at c s (mcx_execution_space_id context) i = Some record"
    and "cmd_phase record = PhasePrepared" and "cmd_effect_certainty record = CertaintyUnknown"
  using assms by (auto simp: scope_exit_admission_def bindR_eq_Inr dest: find_command_Inr)

lemma correlation_admission_Inr:
  assumes "correlation_admission c v s context i correlation = Inr record"
  shows "command_at c s (mcx_execution_space_id context) i = Some record"
    and "cmd_phase record = PhaseSettled" and "cmd_effect_certainty record = CertaintyApplied"
    and "cmd_postcondition_status record = PostSatisfied" and "cmd_cycle_correlation record = None"
  using assms by (auto simp: correlation_admission_def bindR_eq_Inr Let_def dest: find_command_Inr)

lemma prepare_fresh_Inr:
  assumes "prepare_fresh c v context command now_ms now s = Inr (record, payload)"
  shows "\<exists>fingerprint requested. record = prepared_record command fingerprint requested now
    \<and> requested_start_session c command = Inr requested
    \<and> (cce_command command \<noteq> AuthorMessage \<longrightarrow> session_admission c v s context command requested = Inr ())"
  using assms by (auto simp: prepare_fresh_def bindR_eq_Inr Let_def split: if_splits)

text \<open>What a call may have appended: the next record of a known command, or a command that was prepared.\<close>

fun call_target :: "command_call \<Rightarrow> string \<times> string" where
  "call_target (CallPrepare context command _ _) = (mcx_execution_space_id context, cce_id command)"
| "call_target (CallSettle context i _ _ _ _ _ _) = (mcx_execution_space_id context, i)"
| "call_target (CallResolve context i _ _ _ _ _ _) = (mcx_execution_space_id context, i)"
| "call_target (CallScopeExit context i _ _) = (mcx_execution_space_id context, i)"
| "call_target (CallCorrelate context i _ _) = (mcx_execution_space_id context, i)"

text \<open>The moves of a record: a settlement, a resolution, an executor's exit, the terminal of its cycle.\<close>

fun call_moves :: "command_call \<Rightarrow> RuntimeCommandRecord \<Rightarrow> RuntimeCommandRecord \<Rightarrow> bool" where
  "call_moves (CallPrepare _ _ _ _) old record \<longleftrightarrow> False"
| "call_moves (CallSettle _ _ phase certainty status result failure now) old record \<longleftrightarrow>
     cmd_phase old \<in> {PhasePrepared, PhaseObserved, PhaseRecoveryRequired}
     \<and> record = settled_record old phase certainty status result failure now"
| "call_moves (CallResolve _ _ _ _ _ resolution evidence now) old record \<longleftrightarrow>
     cmd_phase old \<in> {PhasePrepared, PhaseRecoveryRequired} \<and> cmd_effect_certainty old = CertaintyUnknown
     \<and> record = resolved_record old resolution evidence now"
| "call_moves (CallScopeExit _ _ failure now) old record \<longleftrightarrow>
     cmd_phase old = PhasePrepared \<and> cmd_effect_certainty old = CertaintyUnknown
     \<and> record = scope_exit_record old failure now"
| "call_moves (CallCorrelate _ _ correlation now) old record \<longleftrightarrow>
     cmd_phase old = PhaseSettled \<and> cmd_effect_certainty old = CertaintyApplied
     \<and> cmd_postcondition_status old = PostSatisfied \<and> cmd_cycle_correlation old = None
     \<and> record = correlated_record old correlation now"

definition call_row ::
    "('z) command_codec_scheme \<Rightarrow> view \<Rightarrow> command_call \<Rightarrow> TrustOperationEnvelope list \<Rightarrow> string \<Rightarrow> string
      \<Rightarrow> RuntimeCommandRecord \<Rightarrow> bool" where
  "call_row c v call s space i record \<longleftrightarrow>
     (\<exists>old. command_at c s space i = Some old \<and> call_moves call old record \<and> (space, i) = call_target call)
     \<or> (\<exists>context command now_ms now payload. call = CallPrepare context command now_ms now
          \<and> prepare_fresh c v context command now_ms now s = Inr (record, payload)
          \<and> space = mcx_execution_space_id context \<and> i = cce_id command
          \<and> mcx_expected_version context = current_version_of (latest_of_aggregate s space ''runtime_command'' i))"

definition call_appends ::
    "('z) command_codec_scheme \<Rightarrow> view \<Rightarrow> command_call \<Rightarrow> TrustOperationEnvelope list \<Rightarrow> TrustOperationEnvelope list \<Rightarrow> bool"
  where
  "call_appends c v call s t \<longleftrightarrow>
     (\<exists>space i record. appends_record c s space i record t \<and> call_row c v call s space i record)"

lemma commit_command_appends:
  assumes "commit_command c clock context i transition payload record s = (reply, t)" and "record_codec_ok c"
    and "mcx_expected_version context
           = current_version_of (latest_of_aggregate s (mcx_execution_space_id context) ''runtime_command'' i)
         \<Longrightarrow> call_row c v call s (mcx_execution_space_id context) i record"
  shows "t = s \<or> call_appends c v call s t"
  using commit_command_cases [OF assms(1,2)] assms(3) unfolding call_appends_def by metis

text \<open>Every call either leaves the ledger alone or reaches its commit.\<close>

lemma prepare_commits:
  assumes "prepare_runtime_command c v clock context command now_ms now s = (reply, t)"
  shows "t = s \<or> (\<exists>record payload. prepare_fresh c v context command now_ms now s = Inr (record, payload)
    \<and> commit_command c clock context (cmd_id record) ''accepted'' payload record s = (reply, t))"
  using assms unfolding prepare_runtime_command_def
  by (auto simp: check_def split: sum.splits option.splits prod.splits)

lemma settle_commits:
  assumes "settle_runtime_command_with_postcondition c v clock context i phase certainty status result failure now s = (reply, t)"
  shows "t = s \<or> (\<exists>record compatible. settle_admission c v s context i phase certainty status result = Inr record
    \<and> legacy_settlement_replay_context c s context (settled_record record phase certainty status result failure now)
         (settlement_payload phase certainty result failure) = Inr compatible
    \<and> commit_command c clock compatible i ''settled'' (JObject (settlement_payload phase certainty result failure))
         (settled_record record phase certainty status result failure now) s = (reply, t))"
  using assms unfolding settle_runtime_command_with_postcondition_def
  by (auto simp: check_def Let_def split: sum.splits)

lemma resolve_commits:
  assumes "resolve_runtime_command_recovery c v clock context i node daemon generation resolution evidence now s = (reply, t)"
  shows "t = s \<or> (\<exists>record fingerprint payload. resolve_admission c v s context i node daemon generation resolution = Inr record
    \<and> commit_command c clock
         (context\<lparr>mcx_expected_version := aggregate_version s (mcx_execution_space_id context) i,
                  mcx_request_fingerprint := Some fingerprint\<rparr>)
         i ''recovery_resolved'' payload (resolved_record record resolution evidence now) s = (reply, t))"
  using assms unfolding resolve_runtime_command_recovery_def
  by (auto simp: check_def Let_def split: sum.splits option.splits)

lemma scope_exit_commits:
  assumes "mark_prepared_runtime_command_recovery c clock context i failure now s = (reply, t)"
  shows "t = s \<or> (\<exists>record payload. scope_exit_admission c s context i = Inr record
    \<and> commit_command c clock context i ''prepared_scope_exit_recovery_required'' payload
         (scope_exit_record record failure now) s = (reply, t))"
  using assms unfolding mark_prepared_runtime_command_recovery_def
  by (auto simp: check_def split: sum.splits)

lemma correlate_commits:
  assumes "record_runtime_cycle_correlation c v clock context i correlation now s = (reply, t)"
  shows "t = s \<or> (\<exists>record fingerprint payload. correlation_admission c v s context i correlation = Inr record
    \<and> commit_command c clock (context\<lparr>mcx_request_fingerprint := Some fingerprint\<rparr>) i ''cycle_terminal_correlated''
         payload (correlated_record record correlation now) s = (reply, t))"
  using assms unfolding record_runtime_cycle_correlation_def
  by (auto simp: check_def Let_def split: sum.splits option.splits)

lemma legacy_context_space:
  "legacy_settlement_replay_context c s context record payload = Inr compatible
    \<Longrightarrow> mcx_execution_space_id compatible = mcx_execution_space_id context"
  by (auto simp: legacy_settlement_replay_context_def Let_def bindR_eq_Inr split: if_splits option.splits)

lemma call_row_update:
  "command_at c s space i = Some old \<Longrightarrow> call_moves call old record \<Longrightarrow> (space, i) = call_target call \<Longrightarrow> call_row c v call s space i record"
  unfolding call_row_def by blast

lemma command_run_appends:
  assumes "command_run c v clock call s = (reply, t)" and c: "record_codec_ok c"
  shows "t = s \<or> call_appends c v call s t"
proof (cases call)
  case (CallPrepare ctx command now_ms now)
  with assms(1) have "prepare_runtime_command c v clock ctx command now_ms now s = (reply, t)" by simp
  from prepare_commits [OF this] show ?thesis
  proof (elim disjE exE conjE)
    fix rcd payload
    assume fresh: "prepare_fresh c v ctx command now_ms now s = Inr (rcd, payload)"
      and commit: "commit_command c clock ctx (cmd_id rcd) ''accepted'' payload rcd s = (reply, t)"
    have "cmd_id rcd = cce_id command" using prepare_fresh_Inr [OF fresh] by (auto simp: prepared_record_def)
    with fresh CallPrepare show ?thesis
      by (intro commit_command_appends [OF commit c]) (auto simp: call_row_def)
  qed simp
next
  case (CallSettle ctx i phase certainty status result failure now)
  with assms(1) have
    "settle_runtime_command_with_postcondition c v clock ctx i phase certainty status result failure now s = (reply, t)"
    by simp
  from settle_commits [OF this] show ?thesis
  proof (elim disjE exE conjE)
    fix rcd compatible
    assume adm: "settle_admission c v s ctx i phase certainty status result = Inr rcd"
      and legacy: "legacy_settlement_replay_context c s ctx (settled_record rcd phase certainty status result failure now)
         (settlement_payload phase certainty result failure) = Inr compatible"
      and commit: "commit_command c clock compatible i ''settled'' (JObject (settlement_payload phase certainty result failure))
         (settled_record rcd phase certainty status result failure now) s = (reply, t)"
    have space: "mcx_execution_space_id compatible = mcx_execution_space_id ctx" using legacy by (rule legacy_context_space)
    show ?thesis
      by (rule commit_command_appends [OF commit c], unfold space, rule call_row_update [OF settle_admission_Inr(1) [OF adm]])
        (use settle_admission_Inr(2) [OF adm] CallSettle in \<open>auto\<close>)
  qed simp
next
  case (CallResolve ctx i node daemon generation resolution evidence now)
  with assms(1) have
    "resolve_runtime_command_recovery c v clock ctx i node daemon generation resolution evidence now s = (reply, t)" by simp
  from resolve_commits [OF this] show ?thesis
  proof (elim disjE exE conjE)
    fix rcd fingerprint payload
    let ?ctx = "ctx\<lparr>mcx_expected_version := aggregate_version s (mcx_execution_space_id ctx) i,
                  mcx_request_fingerprint := Some fingerprint\<rparr>"
    assume adm: "resolve_admission c v s ctx i node daemon generation resolution = Inr rcd"
      and commit: "commit_command c clock ?ctx i ''recovery_resolved'' payload (resolved_record rcd resolution evidence now) s = (reply, t)"
    show ?thesis
      by (rule commit_command_appends [OF commit c], rule call_row_update [of _ _ _ _ rcd])
        (use resolve_admission_Inr [OF adm] CallResolve in \<open>auto\<close>)
  qed simp
next
  case (CallScopeExit ctx i failure now)
  with assms(1) have "mark_prepared_runtime_command_recovery c clock ctx i failure now s = (reply, t)" by simp
  from scope_exit_commits [OF this] show ?thesis
  proof (elim disjE exE conjE)
    fix rcd payload
    assume adm: "scope_exit_admission c s ctx i = Inr rcd"
      and commit: "commit_command c clock ctx i ''prepared_scope_exit_recovery_required'' payload
         (scope_exit_record rcd failure now) s = (reply, t)"
    show ?thesis
      by (rule commit_command_appends [OF commit c], rule call_row_update [of _ _ _ _ rcd])
        (use scope_exit_admission_Inr [OF adm] CallScopeExit in \<open>auto\<close>)
  qed simp
next
  case (CallCorrelate ctx i correlation now)
  with assms(1) have "record_runtime_cycle_correlation c v clock ctx i correlation now s = (reply, t)" by simp
  from correlate_commits [OF this] show ?thesis
  proof (elim disjE exE conjE)
    fix rcd fingerprint payload
    let ?ctx = "ctx\<lparr>mcx_request_fingerprint := Some fingerprint\<rparr>"
    assume adm: "correlation_admission c v s ctx i correlation = Inr rcd"
      and commit: "commit_command c clock ?ctx i ''cycle_terminal_correlated'' payload
         (correlated_record rcd correlation now) s = (reply, t)"
    show ?thesis
      by (rule commit_command_appends [OF commit c], rule call_row_update [of _ _ _ _ rcd])
        (use correlation_admission_Inr [OF adm] CallCorrelate in \<open>auto\<close>)
  qed simp
qed


section \<open>Commands move forward\<close>

text \<open>What a command is never changes; what became of it is final once it is settled or rejected.\<close>

definition same_command :: "RuntimeCommandRecord \<Rightarrow> RuntimeCommandRecord \<Rightarrow> bool" where
  "same_command r r' \<longleftrightarrow>
     r'\<lparr>cmd_phase := cmd_phase r, cmd_effect_certainty := cmd_effect_certainty r,
        cmd_postcondition_status := cmd_postcondition_status r, cmd_result := cmd_result r,
        cmd_cycle_correlation := cmd_cycle_correlation r, cmd_failure_code := cmd_failure_code r,
        cmd_version := cmd_version r, cmd_updated_at := cmd_updated_at r\<rparr> = r"

definition final_command :: "RuntimeCommandRecord \<Rightarrow> bool" where
  "final_command r \<longleftrightarrow> cmd_phase r \<in> {PhaseSettled, PhaseRejected}"

definition command_outcome ::
    "RuntimeCommandRecord \<Rightarrow> RuntimeCommandPhase \<times> RuntimeEffectCertainty \<times> RuntimePostconditionStatus \<times> json option \<times> string option"
  where
  "command_outcome r =
     (cmd_phase r, cmd_effect_certainty r, cmd_postcondition_status r, cmd_result r, cmd_failure_code r)"

definition record_forward :: "RuntimeCommandRecord \<Rightarrow> RuntimeCommandRecord \<Rightarrow> bool" where
  "record_forward r r' \<longleftrightarrow>
     same_command r r' \<and> (final_command r \<longrightarrow> command_outcome r' = command_outcome r)
     \<and> (\<forall>correlation. cmd_cycle_correlation r = Some correlation \<longrightarrow> cmd_cycle_correlation r' = Some correlation)"

lemma same_command_fields:
  "same_command r r' \<longleftrightarrow>
     cmd_id r' = cmd_id r \<and> cmd_execution_space_id r' = cmd_execution_space_id r
     \<and> cmd_target_node_id r' = cmd_target_node_id r \<and> cmd_target_node_daemon_id r' = cmd_target_node_daemon_id r
     \<and> cmd_target_node_daemon_generation r' = cmd_target_node_daemon_generation r
     \<and> cmd_authenticated_actor r' = cmd_authenticated_actor r \<and> cmd_command r' = cmd_command r
     \<and> cmd_required_capability r' = cmd_required_capability r \<and> cmd_idempotency_key r' = cmd_idempotency_key r
     \<and> cmd_request_fingerprint r' = cmd_request_fingerprint r \<and> cmd_binding r' = cmd_binding r
     \<and> cmd_precondition r' = cmd_precondition r \<and> cmd_postcondition r' = cmd_postcondition r
     \<and> cmd_target_session_id r' = cmd_target_session_id r
     \<and> cmd_target_session_generation r' = cmd_target_session_generation r
     \<and> cmd_source_record_id r' = cmd_source_record_id r \<and> cmd_provider_attempt r' = cmd_provider_attempt r
     \<and> cmd_created_at r' = cmd_created_at r"
  by (cases r; cases r') (auto simp: same_command_def)

lemma record_forward_refl: "record_forward r r"
  by (simp add: record_forward_def same_command_fields)

lemma record_forward_trans: "record_forward r r' \<Longrightarrow> record_forward r' r'' \<Longrightarrow> record_forward r r''"
  by (auto simp: record_forward_def same_command_fields final_command_def command_outcome_def)

lemma call_moves_forward: "call_moves call r r' \<Longrightarrow> record_forward r r'"
  by (cases call)
    (auto simp: record_forward_def same_command_fields final_command_def command_outcome_def settled_record_def
      resolved_record_def scope_exit_record_def correlated_record_def Let_def split: RuntimeRecoveryResolution.split)

text \<open>A commit of another aggregate, its pair included, leaves every command as it is.\<close>

lemma other_keeps_commands:
  assumes "lrq_kind r \<noteq> ''runtime_command''" and "ledger_commit c r s = (reply, t)"
  shows "command_at c' t space i = command_at c' s space i"
  using ledger_commit_cases [OF assms(2)]
proof (elim disjE exE conjE)
  fix rows
  assume rows: "commit_rows c (lrq_now r) (lrq_context r) (lrq_kind r) (lrq_id r) (lrq_transition r) (lrq_payload r)
        (lrq_projection r) (lrq_side_records r) (lrq_outbox_records r) (lrq_paired r) s rows"
    and t: "t = s @ rows"
  from rows show ?thesis
  proof (cases rule: commit_rows_fields)
    case (1 row)
    with assms(1) have "\<not> of_aggregate space ''runtime_command'' i row"
      by (auto simp: of_aggregate_def primary_event_def Let_def)
    with 1(1) show ?thesis by (simp add: t command_at_snoc)
  next
    case (2 row second parts)
    with assms(1) have "\<not> of_aggregate space ''runtime_command'' i row" "\<not> of_aggregate space ''runtime_command'' i second"
      by (auto simp: of_aggregate_def primary_event_def paired_event_def Let_def split: prod.splits)
    then have "command_at c' (s @ [row] @ [second]) space i = command_at c' s space i"
      unfolding append_assoc [symmetric] by (simp only: command_at_snoc if_False)
    with 2(1) show ?thesis by (simp add: t)
  qed
qed simp

lemma works_keep_commands:
  assumes "work_commit c s t"
  shows "command_at c' t space i = command_at c' s space i"
  using work_commit_rows [OF assms]
  by (induction rule: rtranclp_induct) (auto simp: work_row_def command_at_snoc of_aggregate_def)

text \<open>A record names its command and its space.\<close>

definition commands_named :: "('z) command_codec_scheme \<Rightarrow> TrustOperationEnvelope list \<Rightarrow> bool" where
  "commands_named c s \<longleftrightarrow>
     (\<forall>space i r. command_at c s space i = Some r \<longrightarrow> cmd_id r = i \<and> cmd_execution_space_id r = space)"

lemma call_row_named:
  assumes "call_row c v call s space i rcd" and "commands_named c s"
  shows "cmd_id rcd = i \<and> cmd_execution_space_id rcd = space"
  using assms(1) unfolding call_row_def
proof (elim disjE exE conjE)
  fix old assume "command_at c s space i = Some old" "call_moves call old rcd"
  then show ?thesis
    using assms(2) call_moves_forward [of call old rcd] by (auto simp: commands_named_def record_forward_def same_command_fields)
next
  fix ctx command now_ms now payload
  assume "prepare_fresh c v ctx command now_ms now s = Inr (rcd, payload)" "space = mcx_execution_space_id ctx"
    "i = cce_id command"
  then show ?thesis by (auto simp: prepare_fresh_def prepared_record_def bindR_eq_Inr Let_def)
qed

lemma named_append:
  "commands_named c s \<Longrightarrow> appends_record c s space i rcd t \<Longrightarrow> cmd_id rcd = i \<Longrightarrow> cmd_execution_space_id rcd = space
    \<Longrightarrow> commands_named c t"
  by (simp add: commands_named_def appended_at)

section \<open>The recovery of a predecessor's messages\<close>

text \<open>A row of the recovery settles a message that was uncertain.\<close>

definition recovery_row :: "('z) command_codec_scheme \<Rightarrow> TrustOperationEnvelope list \<Rightarrow> TrustOperationEnvelope list \<Rightarrow> bool" where
  "recovery_row c s t \<longleftrightarrow>
     (\<exists>space i old certainty evidence_ref now. command_at c s space i = Some old \<and> uncertain_author_message old
        \<and> appends_record c s space i (reconciled_record old certainty evidence_ref now) t)"

lemma pending_in_space_mem:
  "pending_in_space lease records = Inr pending \<Longrightarrow> r \<in> set pending \<Longrightarrow> r \<in> set records \<and> uncertain_author_message r"
  by (induction records arbitrary: pending) (auto simp: bindR_eq_Inr split: if_splits)

lemma pending_author_messages_mem:
  "pending_author_messages c s lease spaces = Inr pending \<Longrightarrow> r \<in> set pending
    \<Longrightarrow> (\<exists>space i. command_at c s space i = Some r) \<and> uncertain_author_message r"
proof (induction spaces arbitrary: pending)
  case (Cons space spaces)
  then obtain records here others where
    "runtime_commands c s space = Inr records" "pending_in_space lease records = Inr here"
    "pending_author_messages c s lease spaces = Inr others" "r \<in> set here \<or> r \<in> set others"
    by (auto simp: bindR_eq_Inr)
  with Cons.IH pending_in_space_mem [of lease records here r] runtime_commands_Inr [of c s space records r] show ?case by blast
qed simp

text \<open>An outcome still waits: its record is the latest of its command, or it was written already.\<close>

definition awaits ::
    "('z) command_codec_scheme \<Rightarrow> MutationContext \<Rightarrow> NodeDaemonLease \<Rightarrow> TrustOperationEnvelope list \<Rightarrow> RuntimeCommandRecord \<Rightarrow> bool"
  where
  "awaits c context lease s r \<longleftrightarrow> uncertain_author_message r
     \<and> (command_at c s (cmd_execution_space_id r) (cmd_id r) = Some r \<or> find_replay s (reconcile_context context lease r) \<noteq> None)"

lemma awaits_after:
  assumes c: "record_codec_ok c" and r: "awaits c context lease s r" and q: "awaits c context lease s q"
    and commit: "commit_command c clock (reconcile_context context lease r) (cmd_id r) transition payload rcd s = (reply, t)"
  shows "awaits c context lease t q"
  using commit_command_cases [OF commit c]
proof cases
  case 1
  with q show ?thesis by simp
next
  case 2
  have space: "mcx_execution_space_id (reconcile_context context lease r) = cmd_execution_space_id r"
    by (simp add: reconcile_context_def)
  show ?thesis
  proof (cases "cmd_execution_space_id q = cmd_execution_space_id r \<and> cmd_id q = cmd_id r")
    case True
    then have "context_scope (reconcile_context context lease q) = context_scope (reconcile_context context lease r)"
      by (simp add: reconcile_context_def context_scope_def)
    with 2(3) have "find_replay t (reconcile_context context lease q) \<noteq> None" unfolding find_replay_None by simp
    with q show ?thesis by (simp add: awaits_def)
  next
    case False
    with 2(1) have "command_at c t (cmd_execution_space_id q) (cmd_id q) = command_at c s (cmd_execution_space_id q) (cmd_id q)"
      unfolding space by (auto simp: appended_at)
    moreover have "find_replay s (reconcile_context context lease q) \<noteq> None \<Longrightarrow> find_replay t (reconcile_context context lease q) \<noteq> None"
      using 2(1) by (auto simp: appends_record_def find_replay_None)
    ultimately show ?thesis using q by (auto simp: awaits_def)
  qed
qed

lemma reconcile_one_row:
  assumes c: "record_codec_ok c" and r: "awaits c context lease s r"
    and commit: "commit_command c clock (reconcile_context context lease r) (cmd_id r) transition payload
      (reconciled_record r certainty evidence_ref now) s = (reply, t)"
  shows "(recovery_row c)\<^sup>*\<^sup>* s t"
  using commit_command_cases [OF commit c]
proof cases
  case 2
  with r have "command_at c s (cmd_execution_space_id r) (cmd_id r) = Some r" "uncertain_author_message r"
    by (simp_all add: awaits_def)
  moreover from 2(1) have "appends_record c s (cmd_execution_space_id r) (cmd_id r) (reconciled_record r certainty evidence_ref now) t"
    by (simp add: reconcile_context_def)
  ultimately have "recovery_row c s t" unfolding recovery_row_def by blast
  then show ?thesis ..
qed simp

lemma reconcile_rows:
  "reconcile_outcomes c clock context lease evidence_ref now outcomes s = (reply, t) \<Longrightarrow> record_codec_ok c
    \<Longrightarrow> (\<And>r certainty. (r, certainty) \<in> set outcomes \<Longrightarrow> awaits c context lease s r) \<Longrightarrow> (recovery_row c)\<^sup>*\<^sup>* s t"
proof (induction outcomes arbitrary: s)
  case (Cons outcome outcomes)
  obtain r certainty where o: "outcome = (r, certainty)" by (cases outcome)
  let ?commit = "commit_command c clock (reconcile_context context lease r) (cmd_id r) ''predecessor_message_reconciled''
         (JObject [(''command_id'', JString (cmd_id r)), (''daemon_id'', JString (ndl_daemon_id lease)),
            (''effect_certainty'', JString (certainty_text certainty)), (''evidence_ref'', JString evidence_ref),
            (''generation'', JNumber (PosInt (ndl_generation lease))),
            (''instance_id'', JString (ndl_instance_id lease)), (''node_id'', JString (ndl_node_id lease)),
            (''request_fingerprint'', JString (cmd_request_fingerprint r))])
         (reconciled_record r certainty evidence_ref now)"
  obtain first u where u: "?commit s = (first, u)" by (rule prod.exhaust)
  have r: "awaits c context lease s r" by (rule Cons.prems(3) [of r certainty]) (simp add: o)
  have su: "(recovery_row c)\<^sup>*\<^sup>* s u" by (rule reconcile_one_row [OF Cons.prems(2) r u])
  show ?case
  proof (cases first)
    case (Inr result)
    with Cons.prems(1) u have "reconcile_outcomes c clock context lease evidence_ref now outcomes u = (reply, t)"
      by (simp add: o andThen_def)
    moreover have "awaits c context lease u q" if "(q, certainty') \<in> set outcomes" for q certainty'
      by (rule awaits_after [OF Cons.prems(2) r Cons.prems(3) [of q certainty'] u]) (simp add: that)
    ultimately have "(recovery_row c)\<^sup>*\<^sup>* u t" using Cons.prems(2) by (intro Cons.IH)
    with su show ?thesis by simp
  next
    case (Inl e)
    with Cons.prems(1) u su show ?thesis by (simp add: o andThen_def)
  qed
qed simp

lemma recovery_rows:
  assumes "reconcile_predecessor_author_messages c prove clock context spaces lease evidence_ref now s = (reply, t)"
    and c: "record_codec_ok c" and named: "commands_named c s"
  shows "(recovery_row c)\<^sup>*\<^sup>* s t"
proof -
  from assms(1) consider "t = s"
    | pending outcomes where "pending_author_messages c s lease spaces = Inr pending"
      "collect (map (\<lambda>rcd. bindR (prove s rcd) (\<lambda>certainty. Inr (rcd, certainty))) pending) = Inr outcomes"
      "reconcile_outcomes c clock context lease evidence_ref now outcomes s = (reply, t)"
    unfolding reconcile_predecessor_author_messages_def by (auto simp: check_def split: sum.splits if_splits)
  then show ?thesis
  proof cases
    case 2
    have waiting: "awaits c context lease s r" if "(r, certainty) \<in> set outcomes" for r certainty
    proof -
      have "r \<in> set pending"
        using list_all2_member(1) [OF 2(2) [unfolded collect_Inr] that] by (auto simp: bindR_eq_Inr)
      with pending_author_messages_mem [OF 2(1)] named show ?thesis by (auto simp: awaits_def commands_named_def)
    qed
    show ?thesis by (rule reconcile_rows [OF 2(3) c waiting])
  qed simp
qed

lemma recovery_row_forward:
  "recovery_row c s t \<Longrightarrow> command_at c s space i = Some r \<Longrightarrow> \<exists>r'. command_at c t space i = Some r' \<and> record_forward r r'"
  using record_forward_refl
  by (auto simp: recovery_row_def appended_at reconciled_record_def uncertain_author_message_def record_forward_def
      same_command_fields final_command_def)

lemma recovery_row_named: "recovery_row c s t \<Longrightarrow> commands_named c s \<Longrightarrow> commands_named c t"
proof -
  assume "recovery_row c s t" and named: "commands_named c s"
  then obtain space i old certainty evidence_ref now where "command_at c s space i = Some old"
    and append: "appends_record c s space i (reconciled_record old certainty evidence_ref now) t"
    unfolding recovery_row_def by blast
  with named have "cmd_id old = i \<and> cmd_execution_space_id old = space" by (simp add: commands_named_def)
  then show ?thesis by (intro named_append [OF named append]) (simp_all add: reconciled_record_def)
qed

section \<open>Runs\<close>

definition commands_inv :: "('z) command_codec_scheme \<Rightarrow> TrustOperationEnvelope list \<Rightarrow> bool" where
  "commands_inv c s \<longleftrightarrow> record_codec_ok c \<and> commands_named c s"

text \<open>
  A run from one ledger to another in which a command id was prepared by a call that wrote: under a key
  that is new, with the version the aggregate had by then.
\<close>

definition prepared_during ::
    "('z) command_codec_scheme \<Rightarrow> string \<Rightarrow> string \<Rightarrow> TrustOperationEnvelope list \<Rightarrow> TrustOperationEnvelope list \<Rightarrow> bool" where
  "prepared_during c space i s t \<longleftrightarrow>
     (\<exists>m m' v clock context command now_ms now reply. (command_step c)\<^sup>*\<^sup>* s m
        \<and> prepare_runtime_command c v clock context command now_ms now m = (reply, m') \<and> m' \<noteq> m
        \<and> mcx_execution_space_id context = space \<and> cce_id command = i \<and> find_replay m context = None
        \<and> mcx_expected_version context = current_version_of (latest_of_aggregate m space ''runtime_command'' i)
        \<and> (command_step c)\<^sup>*\<^sup>* m' t)"

definition command_forward ::
    "('z) command_codec_scheme \<Rightarrow> string \<Rightarrow> string \<Rightarrow> TrustOperationEnvelope list \<Rightarrow> TrustOperationEnvelope list \<Rightarrow> bool" where
  "command_forward c space i s t \<longleftrightarrow> (command_step c)\<^sup>*\<^sup>* s t
     \<and> ((\<forall>r. command_at c s space i = Some r \<longrightarrow> (\<exists>r'. command_at c t space i = Some r' \<and> record_forward r r'))
        \<or> prepared_during c space i s t)"

lemma prepared_during_run:
  "prepared_during c space i s t \<Longrightarrow> (command_step c)\<^sup>*\<^sup>* s' s \<Longrightarrow> (command_step c)\<^sup>*\<^sup>* t t' \<Longrightarrow> prepared_during c space i s' t'"
  unfolding prepared_during_def by (blast intro: rtranclp_trans)

lemma accepted_prepare:
  assumes "prepare_runtime_command c v clock ctx command now_ms now s = (reply, t)" and "t \<noteq> s" and c: "record_codec_ok c"
  shows "find_replay s ctx = None"
    and "mcx_expected_version ctx
      = current_version_of (latest_of_aggregate s (mcx_execution_space_id ctx) ''runtime_command'' (cce_id command))"
    and "\<exists>rcd payload. prepare_fresh c v ctx command now_ms now s = Inr (rcd, payload)
      \<and> command_at c t (mcx_execution_space_id ctx) (cce_id command) = Some rcd"
proof -
  from prepare_commits [OF assms(1)] assms(2) obtain rcd payload where
    fresh: "prepare_fresh c v ctx command now_ms now s = Inr (rcd, payload)"
    and commit: "commit_command c clock ctx (cmd_id rcd) ''accepted'' payload rcd s = (reply, t)" by blast
  have id: "cmd_id rcd = cce_id command" using prepare_fresh_Inr [OF fresh] by (auto simp: prepared_record_def)
  from commit_command_cases [OF commit c] assms(2)
  have "appends_record c s (mcx_execution_space_id ctx) (cce_id command) rcd t \<and> find_replay s ctx = None
    \<and> mcx_expected_version ctx
      = current_version_of (latest_of_aggregate s (mcx_execution_space_id ctx) ''runtime_command'' (cce_id command))"
    unfolding id by metis
  with fresh show "find_replay s ctx = None"
    "mcx_expected_version ctx
      = current_version_of (latest_of_aggregate s (mcx_execution_space_id ctx) ''runtime_command'' (cce_id command))"
    "\<exists>rcd payload. prepare_fresh c v ctx command now_ms now s = Inr (rcd, payload)
      \<and> command_at c t (mcx_execution_space_id ctx) (cce_id command) = Some rcd"
    by (auto simp: appended_at)
qed

lemma call_step_forward:
  assumes c: "record_codec_ok c" and run: "command_run c v clock call s = (reply, t)"
  shows "command_forward c space i s t"
proof -
  have step: "(command_step c)\<^sup>*\<^sup>* s t" using command_step.call [OF run] ..
  from command_run_appends [OF run c] show ?thesis
  proof
    assume "t = s"
    then show ?thesis using record_forward_refl by (auto simp: command_forward_def)
  next
    assume "call_appends c v call s t"
    then obtain space' i' rcd where append: "appends_record c s space' i' rcd t"
      and row: "call_row c v call s space' i' rcd" unfolding call_appends_def by blast
    from row [unfolded call_row_def] show ?thesis
    proof (elim disjE exE conjE)
      fix old assume "command_at c s space' i' = Some old" "call_moves call old rcd"
      then show ?thesis
        using step append call_moves_forward [of call old rcd] record_forward_refl
        by (auto simp: command_forward_def appended_at)
    next
      fix ctx command now_ms now payload
      assume prepare: "call = CallPrepare ctx command now_ms now" and at: "space' = mcx_execution_space_id ctx" "i' = cce_id command"
      have wrote: "t \<noteq> s" using append by (auto simp: appends_record_def)
      from run prepare have p: "prepare_runtime_command c v clock ctx command now_ms now s = (reply, t)" by simp
      show ?thesis
      proof (cases "space = space' \<and> i = i'")
        case True
        with at accepted_prepare(1,2) [OF p wrote c] p wrote have "prepared_during c space i s t"
          unfolding prepared_during_def by blast
        with step show ?thesis by (simp add: command_forward_def)
      next
        case False
        with append have "command_at c t space i = command_at c s space i" by (auto simp: appended_at)
        with step show ?thesis using record_forward_refl by (simp add: command_forward_def)
      qed
    qed
  qed
qed

lemma command_step_cases:
  assumes "command_step c s t" and "commands_inv c s"
  obtains (called) v clock call reply where "command_run c v clock call s = (reply, t)"
  | (rows) "(recovery_row c)\<^sup>*\<^sup>* s t"
  | (alone) "\<And>space i. command_at c t space i = command_at c s space i"
  using assms(1)
proof cases
  case call
  then show ?thesis by (rule that(1))
next
  case recovered
  with assms(2) recovery_rows show ?thesis by (intro that(2)) (auto simp: commands_inv_def)
next
  case other
  then show ?thesis using other_keeps_commands that(3) by blast
next
  case works
  then show ?thesis using works_keep_commands that(3) by blast
qed

lemma command_step_forward:
  assumes inv: "commands_inv c s" and step: "command_step c s t"
  shows "command_forward c space i s t"
  using step inv
proof (cases rule: command_step_cases)
  case called
  with inv call_step_forward show ?thesis by (auto simp: commands_inv_def)
next
  case rows
  then have "\<exists>r'. command_at c t space i = Some r' \<and> record_forward r r'" if "command_at c s space i = Some r" for r
    by (induction rule: rtranclp_induct) (use that record_forward_refl record_forward_trans recovery_row_forward in \<open>blast+\<close>)
  with step show ?thesis by (simp add: command_forward_def r_into_rtranclp)
next
  case alone
  with step record_forward_refl show ?thesis by (simp add: command_forward_def r_into_rtranclp)
qed

lemma command_step_inv:
  assumes inv: "commands_inv c s" and step: "command_step c s t"
  shows "commands_inv c t"
  using step inv
proof (cases rule: command_step_cases)
  case (called v clock call reply)
  from inv have c: "record_codec_ok c" and named: "commands_named c s" by (simp_all add: commands_inv_def)
  from command_run_appends [OF called c] show ?thesis
  proof
    assume "call_appends c v call s t"
    then obtain space i rcd where "appends_record c s space i rcd t" "call_row c v call s space i rcd"
      unfolding call_appends_def by blast
    with named_append [OF named] call_row_named [OF _ named] c show ?thesis by (simp add: commands_inv_def)
  qed (use inv in simp)
next
  case rows
  then have "commands_named c t"
    by (induction rule: rtranclp_induct) (use inv recovery_row_named in \<open>auto simp: commands_inv_def\<close>)
  with inv show ?thesis by (simp add: commands_inv_def)
next
  case alone
  with inv show ?thesis by (simp add: commands_inv_def commands_named_def)
qed

interpretation commands: monotone_system "\<lambda>s. record_codec_ok c \<and> s = []" "command_step c" "commands_inv c"
    "command_forward c space i" for c space i
proof
  show "commands_inv c s" if "record_codec_ok c \<and> s = []" for s
    using that by (simp add: commands_inv_def commands_named_def)
  show "commands_inv c t" if "commands_inv c s" "command_step c s t" for s t
    using that by (rule command_step_inv)
  show "command_forward c space i s s" for s
    using record_forward_refl by (auto simp: command_forward_def)
  show "command_forward c space i s u" if "command_forward c space i s t" "command_forward c space i t u" for s t u
  proof -
    have run: "(command_step c)\<^sup>*\<^sup>* s t" "(command_step c)\<^sup>*\<^sup>* t u" using that by (simp_all add: command_forward_def)
    then have "(command_step c)\<^sup>*\<^sup>* s u" by simp
    with that run show ?thesis
      unfolding command_forward_def by (blast intro: record_forward_trans prepared_during_run)
  qed
  show "command_forward c space i s t" if "commands_inv c s" "command_step c s t" for s t
    using that by (rule command_step_forward)
qed

end
