(* ===== verification/Command_Properties.thy ===== *)
theory Command_Properties
  imports Command_Run Lease_Properties
begin

text \<open>
  What the journal of runtime commands guarantees: what an accepted command is, that a command never
  changes into another and its outcome is final until its id is prepared again, that one session has one
  uncertain effect at a time, and that a daemon whose machine lease was superseded has no effect left.
  The last one composes with the machine lease: the lease is read from the node directory the daemons of
  \<open>Lease_Properties\<close> write.
\<close>

section \<open>Outcomes\<close>

text \<open>
  C9. A command keeps its identity and its outcome until its id is prepared again. After any calls on
  commands, any recovery of a predecessor's messages and any commits of other aggregates, an accepted
  command has the target, actor, kind, fingerprint, binding, session and conditions it was accepted with;
  once it is settled or rejected, its phase, certainty, postcondition, result and failure never change
  again, and a recorded terminal stays. The one other case is a preparation of the same id that wrote
  during the run, under a key that was new and with the version the aggregate had by then: callers choose
  the version they expect, so an id can be prepared over its own outcome.
\<close>

theorem command_outcome_is_final:
  assumes "record_codec_ok c" and "(command_step c)\<^sup>*\<^sup>* [] s" and "command_at c s space i = Some r"
    and "(command_step c)\<^sup>*\<^sup>* s t"
  shows "(\<exists>r'. command_at c t space i = Some r' \<and> same_command r r'
      \<and> (final_command r \<longrightarrow> command_outcome r' = command_outcome r)
      \<and> (\<forall>terminal. cmd_cycle_correlation r = Some terminal \<longrightarrow> cmd_cycle_correlation r' = Some terminal))
    \<or> prepared_during c space i s t"
proof -
  have "commands_inv c s" by (rule commands.reachable_inv [OF _ assms(2)]) (simp add: assms(1))
  with commands.run_rel [OF assms(4)] have "command_forward c space i s t" by blast
  with assms(3) show ?thesis by (auto simp: command_forward_def record_forward_def)
qed

section \<open>Acceptance\<close>

text \<open>
  C11. What an accepted command is. A preparation that writes under a key that is new, with the version
  its aggregate has, leaves as the latest record of its id a record that is Prepared, with an unknown
  effect and postcondition, no result, no failure and no terminal, at version 1; it carries the target,
  actor, kind, binding and conditions of the envelope and the fingerprint the server bound. Its kind has
  a production handler and it is valid for the daemon of the machine. The record before it does not
  matter: an id that was already settled is prepared again, and its outcome is forgotten.
\<close>

theorem accepted_command_is_prepared:
  assumes "record_codec_ok c" and "prepare_runtime_command c v clock ctx command now_ms now s = (reply, t)" and "t \<noteq> s"
  shows "\<exists>r. command_at c t (mcx_execution_space_id ctx) (cce_id command) = Some r
    \<and> cmd_phase r = PhasePrepared \<and> cmd_effect_certainty r = CertaintyUnknown \<and> cmd_postcondition_status r = PostUnknown
    \<and> cmd_result r = None \<and> cmd_failure_code r = None \<and> cmd_cycle_correlation r = None \<and> cmd_version r = 1
    \<and> cmd_id r = cce_id command \<and> cmd_execution_space_id r = mcx_execution_space_id ctx \<and> cmd_command r = cce_command command
    \<and> cmd_target_node_id r = cce_target_node_id command \<and> cmd_target_node_daemon_id r = cce_target_node_daemon_id command
    \<and> cmd_target_node_daemon_generation r = cce_target_node_daemon_generation command
    \<and> cmd_authenticated_actor r = cce_authenticated_actor command \<and> cmd_binding r = cce_binding command
    \<and> cmd_precondition r = cce_precondition command \<and> cmd_postcondition r = cce_postcondition command
    \<and> mcx_request_fingerprint ctx = Some (cmd_request_fingerprint r)
    \<and> runtime_command_envelope_fingerprint c command = Inr (cmd_request_fingerprint r)
    \<and> cce_command command \<notin> set FROZEN_RUNTIME_COMMAND_KINDS \<and> validate_runtime_command c v command now_ms = Inr ()
    \<and> find_replay s ctx = None
    \<and> mcx_expected_version ctx
         = current_version_of (latest_of_aggregate s (mcx_execution_space_id ctx) ''runtime_command'' (cce_id command))"
proof -
  note accepted = accepted_prepare [OF assms(2,3,1)]
  from accepted(3) obtain rcd payload where fresh: "prepare_fresh c v ctx command now_ms now s = Inr (rcd, payload)"
    and at: "command_at c t (mcx_execution_space_id ctx) (cce_id command) = Some rcd" by blast
  have bound: "\<exists>fingerprint. runtime_command_envelope_fingerprint c command = Inr fingerprint
      \<and> mcx_request_fingerprint ctx = Some fingerprint"
    using assms(2,3) unfolding prepare_runtime_command_def
    by (auto simp: check_def reject_if_def split: sum.splits if_splits)
  from fresh bound obtain fingerprint requested where
    rcd: "rcd = prepared_record command fingerprint requested now" "runtime_command_envelope_fingerprint c command = Inr fingerprint"
      "mcx_request_fingerprint ctx = Some fingerprint" "cce_execution_space_id command = mcx_execution_space_id ctx"
      "cce_command command \<notin> set FROZEN_RUNTIME_COMMAND_KINDS" "validate_runtime_command c v command now_ms = Inr ()"
    unfolding prepare_fresh_def by (auto simp: bindR_eq_Inr Let_def)
  with at accepted(1,2) show ?thesis by (auto simp: prepared_record_def)
qed

section \<open>One uncertain effect per session\<close>

text \<open>
  The two calls that let a session have two: the preparation of a start whose payload names another
  session than the one it brings, and a settlement that makes a resolved effect uncertain again.
\<close>

fun loosens :: "('z) command_codec_scheme \<Rightarrow> TrustOperationEnvelope list \<Rightarrow> command_call \<Rightarrow> bool" where
  "loosens c s (CallPrepare context command now_ms now) \<longleftrightarrow>
     (case requested_start_session c command of
        Inr (Some session) \<Rightarrow> target_session_id command (Some session) \<noteq> Some (ses_id session)
      | _ \<Rightarrow> False)"
| "loosens c s (CallSettle context i phase certainty status result failure now) \<longleftrightarrow>
     (case command_at c s (mcx_execution_space_id context) i of
        Some r \<Rightarrow> \<not> has_unresolved_effect r
          \<and> has_unresolved_effect (settled_record r phase certainty status result failure now)
      | None \<Rightarrow> False)"
| "loosens c s _ \<longleftrightarrow> False"

text \<open>Such a call wrote on the way to the ledger.\<close>

definition loosened :: "('z) command_codec_scheme \<Rightarrow> TrustOperationEnvelope list \<Rightarrow> bool" where
  "loosened c s \<longleftrightarrow>
     (\<exists>m m' v clock call reply. (command_step c)\<^sup>*\<^sup>* [] m \<and> command_run c v clock call m = (reply, m') \<and> m' \<noteq> m
        \<and> loosens c m call \<and> (command_step c)\<^sup>*\<^sup>* m' s)"

definition open_on :: "RuntimeCommandRecord \<Rightarrow> string \<Rightarrow> bool" where
  "open_on r session_id \<longleftrightarrow>
     has_unresolved_effect r \<and> cmd_command r \<noteq> AuthorMessage \<and> cmd_target_session_id r = Some session_id"

definition one_effect :: "('z) command_codec_scheme \<Rightarrow> TrustOperationEnvelope list \<Rightarrow> bool" where
  "one_effect c s \<longleftrightarrow>
     (\<forall>space i j r q session_id. command_at c s space i = Some r \<longrightarrow> command_at c s space j = Some q \<longrightarrow>
        open_on r session_id \<longrightarrow> open_on q session_id \<longrightarrow>
        i = j \<or> interrupts (cmd_command r) (cmd_command q) \<or> interrupts (cmd_command q) (cmd_command r))"

text \<open>A command prepared on a session meets no open effect there but one it interrupts.\<close>

lemma find_session_id: "find_session c s space session_id missing = Inr session \<Longrightarrow> ses_id session = session_id"
  by (auto simp: find_session_def bindR_eq_Inr dest: find_SomeD)

lemma session_admission_Inr:
  assumes "session_admission c v s context command requested = Inr ()"
    and requested: "requested_start_session c command = Inr requested" and "\<not> loosens c s (CallPrepare context command now_ms now)"
  obtains session where "target_session_id command requested = Some (ses_id session)"
    and "\<And>j q. command_at c s (mcx_execution_space_id context) j = Some q \<Longrightarrow> \<not> ambiguous_with command session q"
proof -
  from assms(1) obtain session priors where
    session: "targeted_session c s context command requested = Inr session"
    and priors: "runtime_commands c s (mcx_execution_space_id context) = Inr priors"
    and free: "\<not> list_ex (ambiguous_with command session) priors"
    unfolding session_admission_def Let_def by (auto simp: bindR_eq_Inr)
  have "target_session_id command requested = Some (ses_id session)"
  proof (cases requested)
    case None
    with session show ?thesis by (auto simp: targeted_session_def bindR_eq_Inr dest: find_session_id)
  next
    case (Some x)
    with session requested assms(3) show ?thesis by (simp add: targeted_session_def)
  qed
  moreover have "\<not> ambiguous_with command session q"
    if "command_at c s (mcx_execution_space_id context) j = Some q" for j q
    using free runtime_commands_Inr [OF priors, of q] that by (auto simp: list_ex_iff)
  ultimately show thesis by (rule that)
qed

text \<open>Only a settlement could make a resolved effect uncertain.\<close>

lemma open_move:
  assumes "call_moves call old rcd" and "open_on rcd session_id"
    and "\<not> loosens c s call" and "call_target call = (space, i)" and "command_at c s space i = Some old"
  shows "open_on old session_id" and "cmd_command rcd = cmd_command old"
proof -
  have "same_command old rcd" using call_moves_forward [OF assms(1)] by (simp add: record_forward_def)
  moreover have "has_unresolved_effect rcd" using assms(2) by (simp add: open_on_def)
  with assms have "has_unresolved_effect old"
    by (cases call) (auto simp: has_unresolved_effect_def scope_exit_record_def correlated_record_def)
  ultimately show "open_on old session_id" "cmd_command rcd = cmd_command old"
    using assms(2) by (simp_all add: open_on_def same_command_fields)
qed

lemma one_effect_append:
  assumes one: "one_effect c s" and append: "appends_record c s space i rcd t"
    and free: "\<And>j q session_id. command_at c s space j = Some q \<Longrightarrow> j \<noteq> i \<Longrightarrow> open_on rcd session_id
      \<Longrightarrow> open_on q session_id
      \<Longrightarrow> interrupts (cmd_command rcd) (cmd_command q) \<or> interrupts (cmd_command q) (cmd_command rcd)"
  shows "one_effect c t"
  unfolding one_effect_def appended_at [OF append]
proof (intro allI impI)
  fix space' j k r q session_id
  assume "(if space' = space \<and> j = i then Some rcd else command_at c s space' j) = Some r"
    "(if space' = space \<and> k = i then Some rcd else command_at c s space' k) = Some q"
    "open_on r session_id" "open_on q session_id"
  with one free show "j = k \<or> interrupts (cmd_command r) (cmd_command q) \<or> interrupts (cmd_command q) (cmd_command r)"
    unfolding one_effect_def by (smt (verit) option.inject)
qed

lemma one_effect_call:
  assumes c: "record_codec_ok c" and named: "commands_named c s" and one: "one_effect c s"
    and kept: "\<not> loosens c s call" and run: "command_run c v clock call s = (reply, t)"
  shows "one_effect c t"
  using command_run_appends [OF run c]
proof
  assume "call_appends c v call s t"
  then obtain space i r where append: "appends_record c s space i r t" and row: "call_row c v call s space i r"
    unfolding call_appends_def by blast
  from row [unfolded call_row_def] show ?thesis
  proof (elim disjE exE conjE)
    fix old assume old: "command_at c s space i = Some old" "call_moves call old r" "(space, i) = call_target call"
    show ?thesis
    proof (rule one_effect_append [OF one append])
      fix j q session_id
      assume q: "command_at c s space j = Some q" "j \<noteq> i" "open_on r session_id" "open_on q session_id"
      have "open_on old session_id" "cmd_command r = cmd_command old"
        using open_move [OF old(2) q(3) kept old(3) [symmetric] old(1)] by blast+
      with one old(1) q show "interrupts (cmd_command r) (cmd_command q) \<or> interrupts (cmd_command q) (cmd_command r)"
        unfolding one_effect_def by metis
    qed
  next
    fix ctx command now_ms now payload
    assume prep: "call = CallPrepare ctx command now_ms now"
        "prepare_fresh c v ctx command now_ms now s = Inr (r, payload)"
        "space = mcx_execution_space_id ctx" "i = cce_id command"
    from prepare_fresh_Inr [OF prep(2)] obtain fingerprint requested where
      r: "r = prepared_record command fingerprint requested now" and req: "requested_start_session c command = Inr requested"
      and adm: "cce_command command \<noteq> AuthorMessage \<longrightarrow> session_admission c v s ctx command requested = Inr ()"
      by blast
    show ?thesis
    proof (rule one_effect_append [OF one append])
      fix j q session_id
      assume q: "command_at c s space j = Some q" "j \<noteq> i" "open_on r session_id" "open_on q session_id"
      have "cce_command command \<noteq> AuthorMessage" using q(3) by (simp add: open_on_def r prepared_record_def)
      with adm have adm': "session_admission c v s ctx command requested = Inr ()" by simp
      from session_admission_Inr [OF adm' req kept [unfolded prep(1)]] obtain session where
        session: "target_session_id command requested = Some (ses_id session)"
        and free: "\<And>j q. command_at c s (mcx_execution_space_id ctx) j = Some q \<Longrightarrow> \<not> ambiguous_with command session q"
        by metis
      have "ses_id session = session_id" using q(3) session by (simp add: open_on_def r prepared_record_def)
      moreover have "cmd_id q \<noteq> cce_id command" using named q(1,2) prep(4) by (auto simp: commands_named_def)
      ultimately have "interrupts (cce_command command) (cmd_command q)"
        using free [of j q] q(1,4) prep(3) by (auto simp: ambiguous_with_def open_on_def)
      then show "interrupts (cmd_command r) (cmd_command q) \<or> interrupts (cmd_command q) (cmd_command r)"
        by (simp add: r prepared_record_def)
    qed
  qed
qed (use one in simp)

text \<open>A message is not an effect on a session.\<close>

lemma one_effect_recovery: "recovery_row c s t \<Longrightarrow> one_effect c s \<Longrightarrow> one_effect c t"
  unfolding recovery_row_def
  by (auto elim!: one_effect_append simp: open_on_def reconciled_record_def uncertain_author_message_def)

definition effects_inv :: "('z) command_codec_scheme \<Rightarrow> TrustOperationEnvelope list \<Rightarrow> bool" where
  "effects_inv c s \<longleftrightarrow> commands_inv c s \<and> (command_step c)\<^sup>*\<^sup>* [] s \<and> (one_effect c s \<or> loosened c s)"

lemma effects_step:
  assumes inv: "effects_inv c s" and step: "command_step c s t"
  shows "effects_inv c t"
proof -
  from inv have c: "commands_inv c s" "record_codec_ok c" "commands_named c s" and run: "(command_step c)\<^sup>*\<^sup>* [] s"
    by (simp_all add: effects_inv_def commands_inv_def)
  have "one_effect c t \<or> loosened c t" if one: "one_effect c s"
    using step c(1)
  proof (cases rule: command_step_cases)
    case (called v clock call reply)
    then show ?thesis
      using one one_effect_call [OF c(2,3) one _ called] run unfolding loosened_def by (metis rtranclp.rtrancl_refl)
  next
    case rows
    then have "one_effect c t" by (induction rule: rtranclp_induct) (use one one_effect_recovery in blast)+
    then show ?thesis ..
  next
    case alone
    with one show ?thesis by (simp add: one_effect_def)
  qed
  moreover have "loosened c t" if "loosened c s"
    using that step unfolding loosened_def by (meson rtranclp.rtrancl_into_rtrancl)
  ultimately show ?thesis
    using inv step command_step_inv [OF c(1) step] by (auto simp: effects_inv_def)
qed

interpretation effects: invariant_system "\<lambda>s. record_codec_ok c \<and> s = []" "command_step c" "effects_inv c" for c
proof
  show "effects_inv c s" if "record_codec_ok c \<and> s = []" for s
    using that by (simp add: effects_inv_def commands_inv_def commands_named_def one_effect_def)
  show "effects_inv c t" if "effects_inv c s" "command_step c s t" for s t
    using that by (rule effects_step)
qed

text \<open>
  C8. At most one uncertain effect per session. In every state the calls, the recovery and the commits of
  other aggregates reach, the commands whose effect is uncertain and that target the same session are the
  same command, or one of them interrupts the other: a cancellation, interruption or stop over a dispatch
  or a cycle. The one other case is that a call that loosens the rule wrote on the way: a start whose
  payload names another session than the one it brings, or a settlement that makes a resolved effect
  uncertain again; the code refuses neither. Authored messages are not provider effects on a session and
  are not counted.
\<close>

theorem one_uncertain_effect_per_session:
  assumes "record_codec_ok c" and "(command_step c)\<^sup>*\<^sup>* [] s"
    and "command_at c s space i = Some r" and "command_at c s space j = Some q"
    and "open_on r session_id" and "open_on q session_id"
  shows "i = j \<or> interrupts (cmd_command r) (cmd_command q) \<or> interrupts (cmd_command q) (cmd_command r)
    \<or> (\<exists>m m' v clock call reply. (command_step c)\<^sup>*\<^sup>* [] m \<and> command_run c v clock call m = (reply, m') \<and> m' \<noteq> m
          \<and> loosens c m call \<and> (command_step c)\<^sup>*\<^sup>* m' s)"
proof -
  have "one_effect c s \<or> loosened c s"
    using effects.reachable_inv [OF _ assms(2)] assms(1) by (simp add: effects_inv_def)
  with assms(3-6) show ?thesis unfolding one_effect_def loosened_def by blast
qed

section \<open>A daemon that lost the machine\<close>

text \<open>The lease is read from the node directory \<open>d\<close>.\<close>

definition reads_lease :: "view \<Rightarrow> lease_codec \<Rightarrow> string \<Rightarrow> node_dir \<Rightarrow> bool" where
  "reads_lease v lc node_id d \<longleftrightarrow> vw_lease_codec v = lc \<and> vw_node_home v node_id = Inr d"

text \<open>The call claims, or its command was admitted under, a generation of a node's daemon.\<close>

fun under_generation :: "('z) command_codec_scheme \<Rightarrow> TrustOperationEnvelope list \<Rightarrow> string \<Rightarrow> u64 \<Rightarrow> command_call \<Rightarrow> bool" where
  "under_generation c s node_id generation (CallPrepare context command _ _) \<longleftrightarrow>
     cce_target_node_id command = node_id \<and> cce_target_node_daemon_generation command = generation"
| "under_generation c s node_id generation (CallSettle context i _ _ _ _ _ _) \<longleftrightarrow>
     (\<exists>r. command_at c s (mcx_execution_space_id context) i = Some r
        \<and> cmd_target_node_id r = node_id \<and> cmd_target_node_daemon_generation r = generation)"
| "under_generation c s node_id generation (CallResolve context i node daemon g _ _ _) \<longleftrightarrow> node = node_id \<and> g = generation"
| "under_generation c s node_id generation (CallScopeExit context i _ _) \<longleftrightarrow>
     (\<exists>r. command_at c s (mcx_execution_space_id context) i = Some r
        \<and> cmd_target_node_id r = node_id \<and> cmd_target_node_daemon_generation r = generation)"
| "under_generation c s node_id generation (CallCorrelate context i _ _) \<longleftrightarrow>
     (\<exists>r. command_at c s (mcx_execution_space_id context) i = Some r
        \<and> cmd_target_node_id r = node_id \<and> cmd_target_node_daemon_generation r = generation)"

lemma held_is_authority:
  assumes "reads_lease v lc node_id d" and "held lc node_id d = Some document"
  shows "view_machine_lease v node_id = Inr (doc_lease document)"
proof -
  have "vw_node_home v node_id = Inr d" "read_lease_document (vw_lease_codec v) node_id d = Inr (Some document)"
    using assms held_read [OF assms(2)] by (auto simp: reads_lease_def)
  then show ?thesis unfolding view_machine_lease_def authoritative_Inr by blast
qed

lemma stale_generation_refused:
  assumes "view_machine_lease v node_id = Inr lease" and "ndl_generation lease \<noteq> generation"
  shows "require_current_node_daemon v space node_id daemon generation actor kind i \<noteq> Inr u"
    and "require_node_daemon_settlement_authority v space node_id daemon generation actor kind i \<noteq> Inr u"
  using assms by (auto simp: require_current_node_daemon_def require_node_daemon_settlement_authority_def
      unresolved_as_def bindR_eq_Inr)

text \<open>The executor's exit needs no lease: it parks the command as one that needs recovery.\<close>

definition parks :: "('z) command_codec_scheme \<Rightarrow> TrustOperationEnvelope list \<Rightarrow> command_call \<Rightarrow> TrustOperationEnvelope list \<Rightarrow> bool" where
  "parks c s call t \<longleftrightarrow>
     (\<exists>ctx i failure now r r'. call = CallScopeExit ctx i failure now
        \<and> command_at c s (mcx_execution_space_id ctx) i = Some r
        \<and> cmd_phase r = PhasePrepared \<and> cmd_effect_certainty r = CertaintyUnknown
        \<and> same_command r r' \<and> cmd_phase r' = PhaseRecoveryRequired \<and> cmd_effect_certainty r' = CertaintyUnknown
        \<and> (\<forall>space j. command_at c t space j
             = (if space = mcx_execution_space_id ctx \<and> j = i then Some r' else command_at c s space j)))"

lemma scope_exit_parks:
  assumes "record_codec_ok c" and "mark_prepared_runtime_command_recovery c clock ctx i failure now s = (reply, t)" and "t \<noteq> s"
  shows "parks c s (CallScopeExit ctx i failure now) t"
proof -
  from scope_exit_commits [OF assms(2)] assms(3) obtain r payload where
    adm: "scope_exit_admission c s ctx i = Inr r"
    and commit: "commit_command c clock ctx i ''prepared_scope_exit_recovery_required'' payload
         (scope_exit_record r failure now) s = (reply, t)" by blast
  have "appends_record c s (mcx_execution_space_id ctx) i (scope_exit_record r failure now) t"
    using commit_command_cases [OF commit assms(1)] assms(3) by metis
  with scope_exit_admission_Inr [OF adm] show ?thesis
    unfolding parks_def
    by (intro exI [of _ ctx] exI [of _ i] exI [of _ failure] exI [of _ now] exI [of _ r] exI [of _ "scope_exit_record r failure now"])
      (simp add: appended_at same_command_fields scope_exit_record_def)
qed

lemma stale_call_parks:
  assumes c: "record_codec_ok c" and lease: "view_machine_lease v node_id = Inr lease" and stale: "ndl_generation lease \<noteq> generation"
    and call: "under_generation c s node_id generation call"
    and run: "command_run c v clock call s = (reply, t)"
  shows "t = s \<or> parks c s call t"
proof -
  note refused = stale_generation_refused [OF lease stale]
  show ?thesis
  proof (cases call)
    case (CallPrepare ctx command now_ms now)
    have "prepare_fresh c v ctx command now_ms now s \<noteq> Inr x" for x
      using call CallPrepare lease stale
      by (cases x) (auto simp: prepare_fresh_def validate_runtime_command_def bindR_eq_Inr Let_def unresolved_as_def)
    with prepare_commits [of c v clock ctx command now_ms now s reply t] run CallPrepare show ?thesis by auto
  next
    case (CallSettle ctx i phase certainty status result failure now)
    have "settle_admission c v s ctx i phase certainty status result \<noteq> Inr r" for r
      using call CallSettle refused(2)
      by (auto simp: settle_admission_def bindR_eq_Inr Let_def dest!: find_command_Inr)
    with settle_commits [of c v clock ctx i phase certainty status result failure now s reply t] run CallSettle
    show ?thesis by auto
  next
    case (CallResolve ctx i node daemon g resolution evidence now)
    have "resolve_admission c v s ctx i node daemon g resolution \<noteq> Inr r" for r
      using call CallResolve refused(1) by (auto simp: resolve_admission_def bindR_eq_Inr)
    with resolve_commits [of c v clock ctx i node daemon g resolution evidence now s reply t] run CallResolve
    show ?thesis by auto
  next
    case (CallCorrelate ctx i terminal now)
    have "correlation_admission c v s ctx i terminal \<noteq> Inr r" for r
      using call CallCorrelate refused(2)
      by (auto simp: correlation_admission_def bindR_eq_Inr Let_def dest!: find_command_Inr)
    with correlate_commits [of c v clock ctx i terminal now s reply t] run CallCorrelate show ?thesis by auto
  next
    case (CallScopeExit ctx i failure now)
    with scope_exit_parks [OF c, of clock ctx i failure now s reply t] run show ?thesis by auto
  qed
qed

text \<open>
  C10. A daemon that lost the machine has no effect left. Once a successor's generation was published in
  the node directory, then in every later state of the directory a call under the old generation writes
  nothing to the ledger: nothing is prepared for the old generation, none of the commands it was
  admitted for is settled or given its terminal, and it resolves no recovery. The one exception needs no
  lease by design: its executor may still park a command that is Prepared with an unknown effect as one
  that needs recovery, which leaves the effect unknown and every other command as it is.
\<close>

theorem superseded_daemon_has_no_effect:
  assumes "lease_codec_ok lc" and "(lease_step lc node_id)\<^sup>*\<^sup>* d d'" and "(lease_step lc node_id)\<^sup>*\<^sup>* d' d''"
    and "held lc node_id d = Some document" and "held lc node_id d' = Some document'"
    and "ndl_generation (doc_lease document') \<noteq> ndl_generation (doc_lease document)"
    and "reads_lease v lc node_id d''" and "under_generation c s node_id (ndl_generation (doc_lease document)) call"
    and "record_codec_ok c" and "command_run c v clock call s = (reply, t)"
  shows "t = s
    \<or> (\<exists>ctx i failure now r r'. call = CallScopeExit ctx i failure now
        \<and> command_at c s (mcx_execution_space_id ctx) i = Some r
        \<and> cmd_phase r = PhasePrepared \<and> cmd_effect_certainty r = CertaintyUnknown
        \<and> same_command r r' \<and> cmd_phase r' = PhaseRecoveryRequired \<and> cmd_effect_certainty r' = CertaintyUnknown
        \<and> (\<forall>space j. command_at c t space j
             = (if space = mcx_execution_space_id ctx \<and> j = i then Some r' else command_at c s space j)))"
proof -
  obtain document'' where "held lc node_id d'' = Some document''"
    and "ndl_generation (doc_lease document'') \<noteq> ndl_generation (doc_lease document)"
    using superseded_stays [OF assms(1-6)] by blast
  with held_is_authority [OF assms(7)] have "t = s \<or> parks c s call t"
    using assms(8-10) by (metis stale_call_parks)
  then show ?thesis unfolding parks_def .
qed

end
