(* ===== verification/Command_Sample.thy ===== *)
theory Command_Sample
  imports Command_Properties Ledger_Sample Lease_Sample
begin

text \<open>
  A session with two commands: a cycle is started and interrupted, and the start is settled. The
  properties of the command journal are applied to it, and to the Node of \<open>Lease_Sample\<close> whose lease
  was taken over.
\<close>

section \<open>A session and its commands\<close>

definition command_daemon :: ActorRef where
  "command_daemon = \<lparr>act_kind = ActorService, act_id = ''d1''\<rparr>"

definition command_session :: AgentSession where
  "command_session =
     \<lparr>ses_id = ''ses'', ses_agent_member_id = ''a'', ses_node_id = ''n1'', ses_execution_space_id = ''s'',
      ses_node_daemon_id = ''d1'', ses_node_daemon_generation = 1, ses_provider_kind = ''p'',
      ses_provider_profile_ref = ''pp'', ses_permission_envelope_ref = ''pe'',
      ses_effective_permission_ceiling = CeilingReadOnly, ses_workspace_cwd = None, ses_lifecycle = SessionActive,
      ses_runtime_generation = 1,
      ses_control_state =
        \<lparr>ctl_runtime_residency = ResidencyAttached, ctl_activity = ActivityRunning, ctl_execution_driver = HostDriven,
         ctl_driver_generation = 1, ctl_driver_ref = DriverNodeDaemon ''d1'' 1, ctl_handoff_state = HandoffNone,
         ctl_continuation =
           \<lparr>ncp_definition = \<lparr>ncd_continuation_ref = None, ncd_revision = None, ncd_phase = ContinuationInactive,
              ncd_budget = None\<rparr>,
            ncp_activation = ActivationDisarmed, ncp_observed_at = None\<rparr>,
         ctl_composition_fingerprint = Some ''co'', ctl_capability_fingerprint = Some ''ca'',
         ctl_last_reconciled_at = None, ctl_settlement_incomplete = None\<rparr>,
      ses_native_session_ref = None, ses_current_cycle_marker = Some ''cycle'', ses_queued_input_count = 0,
      ses_version = 1, ses_opened_at = ''n'', ses_last_active_at = ''n'', ses_closed_at = None\<rparr>"

definition command_payload :: json where
  "command_payload = JObject [(''provider_attempt'', JNumber (PosInt 1)), (''session_generation'', JNumber (PosInt 1)),
     (''session_id'', JString ''ses'')]"

text \<open>The digest of \<open>sample_codec\<close> is constant, so every request has the same fingerprint.\<close>

definition sample_fingerprint :: string where
  "sample_fingerprint = canonical_json_fingerprint sample_codec JNull"

definition command_envelope :: "string \<Rightarrow> RuntimeCommandKind \<Rightarrow> ControlCommandEnvelope" where
  "command_envelope i kind =
     \<lparr>cce_id = i, cce_execution_space_id = ''s'', cce_target_node_id = ''n1'', cce_target_node_daemon_id = ''d1'',
      cce_target_node_daemon_generation = 1, cce_authenticated_actor = command_daemon, cce_command = kind,
      cce_required_capability = runtime_command_capability kind, cce_idempotency_key = i, cce_expected_version = 0,
      cce_expires_unix_ms = 1000,
      cce_binding =
        \<lparr>cbd_target_member_run_id = None, cbd_target_member_run_generation = None, cbd_target_session_id = Some ''ses'',
         cbd_target_runtime_generation = Some 1, cbd_target_driver_generation = Some 1,
         cbd_target_driver = DriverNodeDaemon ''d1'' 1, cbd_native_session_ref = None,
         cbd_composition_fingerprint = Some ''co'', cbd_capability_fingerprint = Some ''ca'',
         cbd_capability_profile_version = None, cbd_permission_envelope_ref = Some ''pe''\<rparr>,
      cce_precondition =
        \<lparr>pre_expected_session_version = None, pre_expected_residency = None, pre_expected_activity = None,
         pre_expected_execution_driver = None, pre_expected_cycle_ref = None, pre_expected_continuation_ref = None,
         pre_expected_continuation_phase = None, pre_safe_point = SafeImmediate\<rparr>,
      cce_postcondition =
        \<lparr>pst_desired_ack_level = AckProviderReceipt, pst_desired_postcondition = DesiredCycleStarted,
         pst_status = PostUnknown, pst_evidence_refs = []\<rparr>,
      cce_payload = command_payload, cce_payload_fingerprint = sample_fingerprint, cce_issued_at = ''n''\<rparr>"

definition start_record :: RuntimeCommandRecord where
  "start_record = prepared_record (command_envelope ''start'' CommandStartCycle) sample_fingerprint None ''n''"

definition interrupt_record :: RuntimeCommandRecord where
  "interrupt_record = prepared_record (command_envelope ''interrupt'' InterruptCurrentCycle) sample_fingerprint None ''n''"

definition started_record :: RuntimeCommandRecord where
  "started_record = settled_record start_record PhaseSettled CertaintyApplied PostSatisfied (Some JNull) None ''n''"

definition parked_record :: RuntimeCommandRecord where
  "parked_record = scope_exit_record start_record ''EXITED'' ''n''"

text \<open>The codec knows the records of this sample, each under a name, and refuses any other.\<close>

definition sample_records :: "(string \<times> RuntimeCommandRecord) list" where
  "sample_records = [(''start'', start_record), (''interrupt'', interrupt_record), (''started'', started_record),
     (''parked'', parked_record)]"

definition sample_command_codec :: command_codec where
  "sample_command_codec = paired_codec.extend sample_codec
     (command_codec.fields
        (\<lambda>command. Inr (JString (cce_id command)))
        (\<lambda>record. case List.find (\<lambda>(name, known). known = record) sample_records of
           None \<Rightarrow> Inl ''unknown'' | Some (name, _) \<Rightarrow> Inr (JString name))
        (\<lambda>value. case value of JString name \<Rightarrow> (case map_of sample_records name of None \<Rightarrow> Inl ''unknown'' | Some r \<Rightarrow> Inr r)
           | _ \<Rightarrow> Inl ''malformed'')
        (\<lambda>value. if value = JString ''ses'' then Inr command_session else Inl ''unknown'')
        (\<lambda>_. Inl ''none'') (\<lambda>_. Inl ''none'') (\<lambda>_. Inl ''none'') (\<lambda>_. Inr JNull))"

lemma sample_command_codec_ok: "record_codec_ok sample_command_codec"
proof -
  have "map_of sample_records name = Some r" if "List.find (\<lambda>(name, known). known = r) sample_records = Some (name, k)"
    for name r k
    using that unfolding sample_records_def by (auto split: if_splits)
  then show ?thesis
    by (auto simp: record_codec_ok_def sample_command_codec_def command_codec.defs paired_codec.defs
        split: option.splits)
qed

definition sample_view :: view where
  "sample_view =
     \<lparr>vw_lease_codec =
        \<lparr>encode_document = (\<lambda>_. []),
         decode_document = (\<lambda>_. Inr (document_new (sample_lease ''d1'' ''i1'' 1 DaemonActive 100 100 900 None) 7)),
         encode_row = (\<lambda>_. []), decode_row = (\<lambda>_. Inl ''none'')\<rparr>,
      vw_node_home = (\<lambda>_. Inr \<lparr>nd_home = ''h'', nd_document = Some [newline], nd_history = None\<rparr>),
      vw_legacy_leases = [],
      vw_registrations = [\<lparr>npr_node_id = ''n1'', npr_execution_space_id = ''s'', npr_project_binding_id = ''b'',
        npr_status = RegistrationActive, npr_created_at = ''n'', npr_updated_at = ''n''\<rparr>],
      vw_closed_admissions = [], vw_supervisor_leases = [], vw_team_runs = [], vw_pending_wake = (\<lambda>_ _. Inr None),
      vw_now = 200\<rparr>"

definition daemon_context :: "string \<Rightarrow> u64 \<Rightarrow> MutationContext" where
  "daemon_context key version =
     \<lparr>mcx_execution_space_id = ''s'', mcx_authenticated_actor = command_daemon, mcx_authority_actor = None,
      mcx_command_name = ''c'', mcx_idempotency_key = key, mcx_expected_version = version,
      mcx_request_fingerprint = Some sample_fingerprint\<rparr>"

section \<open>The run\<close>

definition session_row :: ledger_request where
  "session_row = (sample_request ''session'' 0 None)\<lparr>lrq_kind := ''agent_session'', lrq_id := ''ses'', lrq_projection := JString ''ses''\<rparr>"

definition start_call :: command_call where
  "start_call = CallPrepare (daemon_context ''start'' 0) (command_envelope ''start'' CommandStartCycle) 200 ''n''"

definition interrupt_call :: command_call where
  "interrupt_call = CallPrepare (daemon_context ''interrupt'' 0) (command_envelope ''interrupt'' InterruptCurrentCycle) 200 ''n''"

definition settle_call :: command_call where
  "settle_call = CallSettle (daemon_context ''settle'' 1) ''start'' PhaseSettled CertaintyApplied PostSatisfied (Some JNull) None ''n''"

definition commands_session :: "TrustOperationEnvelope list" where
  "commands_session = snd (ledger_commit sample_command_codec session_row [])"

definition commands_started :: "TrustOperationEnvelope list" where
  "commands_started = snd (command_run sample_command_codec sample_view ''n'' start_call commands_session)"

definition commands_interrupted :: "TrustOperationEnvelope list" where
  "commands_interrupted = snd (command_run sample_command_codec sample_view ''n'' interrupt_call commands_started)"

definition commands_settled :: "TrustOperationEnvelope list" where
  "commands_settled = snd (command_run sample_command_codec sample_view ''n'' settle_call commands_started)"

definition commands_later :: "TrustOperationEnvelope list" where
  "commands_later = snd (command_run sample_command_codec sample_view ''n'' interrupt_call commands_settled)"

definition again_call :: command_call where
  "again_call = CallPrepare (daemon_context ''again'' 2) (command_envelope ''start'' CommandStartCycle) 200 ''n''"

definition commands_again :: "TrustOperationEnvelope list" where
  "commands_again = snd (command_run sample_command_codec sample_view ''n'' again_call commands_settled)"

lemma sample_commands_before:
  "command_at sample_command_codec commands_interrupted ''s'' ''start'' = Some start_record
   \<and> command_at sample_command_codec commands_interrupted ''s'' ''interrupt'' = Some interrupt_record
   \<and> open_on start_record ''ses'' \<and> open_on interrupt_record ''ses''"
  by code_simp

lemma sample_commands_after:
  "command_at sample_command_codec commands_settled ''s'' ''start'' = Some started_record
   \<and> final_command started_record \<and> length commands_settled = 3 \<and> length commands_later = 4 \<and> length commands_again = 4"
  by code_simp

definition exit_call :: command_call where
  "exit_call = CallScopeExit (daemon_context ''exit'' 1) ''start'' ''EXITED'' ''n''"

lemma sample_command_again:
  "command_at sample_command_codec commands_again ''s'' ''start'' = Some start_record"
  by code_simp

lemma sample_command_steps:
  "command_step sample_command_codec [] commands_session"
  "command_step sample_command_codec commands_session commands_started"
  "command_step sample_command_codec commands_started commands_settled"
  "command_step sample_command_codec commands_settled commands_later"
  "command_step sample_command_codec commands_settled commands_again"
  "command_step sample_command_codec commands_started commands_interrupted"
  unfolding commands_session_def commands_started_def commands_settled_def commands_later_def commands_again_def
    commands_interrupted_def
  by (rule other_commit_step command_call_step, simp add: session_row_def)
    (rule command_call_step)+

lemma sample_command_runs:
  "(command_step sample_command_codec)\<^sup>*\<^sup>* [] commands_settled"
  "(command_step sample_command_codec)\<^sup>*\<^sup>* [] commands_interrupted"
  "(command_step sample_command_codec)\<^sup>*\<^sup>* commands_settled commands_later"
  "(command_step sample_command_codec)\<^sup>*\<^sup>* commands_settled commands_again"
  by (meson sample_command_steps r_into_rtranclp rtranclp_trans)+

section \<open>The properties applied\<close>

text \<open>The started cycle keeps its outcome; prepared again, it was prepared during the run.\<close>

lemma command_outcome_is_final_witness:
  "((\<exists>r'. command_at sample_command_codec commands_later ''s'' ''start'' = Some r'
       \<and> command_outcome r' = (PhaseSettled, CertaintyApplied, PostSatisfied, Some JNull, None))
     \<or> prepared_during sample_command_codec ''s'' ''start'' commands_settled commands_later)
   \<and> prepared_during sample_command_codec ''s'' ''start'' commands_settled commands_again"
proof -
  have outcome: "command_outcome started_record = (PhaseSettled, CertaintyApplied, PostSatisfied, Some JNull, None)"
    by (simp add: command_outcome_def started_record_def settled_record_def)
  have "command_outcome start_record \<noteq> command_outcome started_record"
    unfolding outcome by (simp add: command_outcome_def start_record_def prepared_record_def)
  with outcome sample_command_again sample_commands_after
    command_outcome_is_final [OF sample_command_codec_ok sample_command_runs(1) _ sample_command_runs(3), of "''s''" "''start''" started_record]
    command_outcome_is_final [OF sample_command_codec_ok sample_command_runs(1) _ sample_command_runs(4), of "''s''" "''start''" started_record]
  show ?thesis by auto
qed

lemma one_uncertain_effect_per_session_witness:
  "(''start'' :: string) = ''interrupt'' \<or> interrupts (cmd_command start_record) (cmd_command interrupt_record)
     \<or> interrupts (cmd_command interrupt_record) (cmd_command start_record)
     \<or> (\<exists>m m' v clock call reply. (command_step sample_command_codec)\<^sup>*\<^sup>* [] m
          \<and> command_run sample_command_codec v clock call m = (reply, m') \<and> m' \<noteq> m
          \<and> loosens sample_command_codec m call \<and> (command_step sample_command_codec)\<^sup>*\<^sup>* m' commands_interrupted)"
  by (rule one_uncertain_effect_per_session [OF sample_command_codec_ok sample_command_runs(2)])
    (use sample_commands_before in \<open>auto\<close>)

lemma accepted_command_is_prepared_witness:
  "command_at sample_command_codec commands_settled ''s'' ''start'' = Some started_record \<and> final_command started_record
   \<and> (\<exists>r. command_at sample_command_codec commands_again ''s'' ''start'' = Some r \<and> cmd_phase r = PhasePrepared
        \<and> cmd_effect_certainty r = CertaintyUnknown \<and> cmd_result r = None)"
proof -
  have new: "commands_again \<noteq> commands_settled" using sample_commands_after by auto
  obtain reply where "prepare_runtime_command sample_command_codec sample_view ''n'' (daemon_context ''again'' 2)
      (command_envelope ''start'' CommandStartCycle) 200 ''n'' commands_settled = (reply, commands_again)"
    unfolding commands_again_def again_call_def command_run.simps by (metis prod.collapse)
  from accepted_command_is_prepared [OF sample_command_codec_ok this new] sample_commands_after show ?thesis
    by (auto simp: daemon_context_def command_envelope_def)
qed

text \<open>The settlement by \<open>d1\<close>, and its executor's exit, after \<open>d2\<close> took the machine over.\<close>

definition superseded_view :: view where
  "superseded_view = sample_view\<lparr>vw_lease_codec := sample_lease_codec, vw_node_home := (\<lambda>_. Inr node_taken_over)\<rparr>"

lemma superseded_exit_writes:
  "snd (command_run sample_command_codec superseded_view ''n'' exit_call commands_started) \<noteq> commands_started"
proof -
  have "length (snd (command_run sample_command_codec sample_view ''n'' exit_call commands_started)) = 3
    \<and> length commands_started = 2" by code_simp
  moreover have "command_run sample_command_codec superseded_view ''n'' exit_call
    = command_run sample_command_codec sample_view ''n'' exit_call" by (simp add: exit_call_def fun_eq_iff)
  ultimately show ?thesis by auto
qed

lemma superseded_daemon_has_no_effect_witness:
  "snd (command_run sample_command_codec superseded_view ''n'' settle_call commands_started) = commands_started
   \<and> snd (command_run sample_command_codec sample_view ''n'' settle_call commands_started) \<noteq> commands_started
   \<and> (\<exists>r. command_at sample_command_codec (snd (command_run sample_command_codec superseded_view ''n'' exit_call
          commands_started)) ''s'' ''start'' = Some r \<and> cmd_phase r = PhaseRecoveryRequired \<and> cmd_effect_certainty r = CertaintyUnknown)"
proof (intro conjI)
  have started: "command_at sample_command_codec commands_started ''s'' ''start'' = Some start_record" by code_simp
  have reads: "reads_lease superseded_view sample_lease_codec ''n1'' node_taken_over"
    by (simp add: reads_lease_def superseded_view_def)
  note applied = superseded_daemon_has_no_effect [OF sample_lease_codec_ok sample_run rtranclp.rtrancl_refl
      sample_held(1,3) _ reads _ sample_command_codec_ok prod.collapse [symmetric], of commands_started]
  note defs = sample_lease_def settle_call_def exit_call_def daemon_context_def start_record_def prepared_record_def
    command_envelope_def
  show "snd (command_run sample_command_codec superseded_view ''n'' settle_call commands_started) = commands_started"
    using applied [of settle_call "''n''"] started by (auto simp: defs)
  show "\<exists>r. command_at sample_command_codec (snd (command_run sample_command_codec superseded_view ''n'' exit_call
      commands_started)) ''s'' ''start'' = Some r \<and> cmd_phase r = PhaseRecoveryRequired \<and> cmd_effect_certainty r = CertaintyUnknown"
    using applied [of exit_call "''n''"] started superseded_exit_writes by (auto simp: defs)
  show "snd (command_run sample_command_codec sample_view ''n'' settle_call commands_started) \<noteq> commands_started"
    using started sample_commands_after unfolding commands_settled_def [symmetric]
    by (auto simp: started_record_def settled_record_def start_record_def prepared_record_def)
qed

end
