(* ===== verification/Spec2Isabelle.thy ===== *)
theory Spec2Isabelle
  imports Route_Properties Local_Properties Journal_Properties Authority_Properties Gateway_Properties
    Artifact_Properties Session_Properties Download_Properties Work_Properties
    Runtime_Admission Runtime_Properties Cycle_Assertions Collaboration_Capability
    Lease_Sample Ledger_Sample Command_Sample
begin

text \<open>
  Verification of the Remote Node Fabric of the AgentFirm harness (\<^verbatim>\<open>crates/firm-fabric\<close>), of its
  Work kernel (\<^verbatim>\<open>crates/firm-core/src/work.rs\<close> and \<^verbatim>\<open>work/\<close>), of the contract of its agent
  runtimes (\<^verbatim>\<open>crates/firm-runtime-contract\<close>), and of the machine lease, the ledger and the journal of
  runtime commands of its single-machine store (\<^verbatim>\<open>crates/firm-store\<close>).

  \<^bold>\<open>The program.\<close> A company's Control Plane routes operations to Nodes, the machines on which its
  agents work. A Control Plane instance holds a lease with a generation number and changes its state
  only while the lease is current. Nodes are enrolled with one-use tokens, hold certificates, and
  connect through a gateway that gets a generation of its own with every connection. An operation is
  accepted (idempotently, within limits), queued as a route attempt of the gateway generation, sent,
  persisted in the Node's inbox, claimed, applied, and settled by a receipt; a reconnecting Node
  takes over what an earlier generation left. Artifacts are encrypted objects that are written and
  read under signed one-use capabilities. Both sides keep their state in an append-only journal of
  digest-chained frames. Independently of the fabric, Works are units of work of a team with a
  lifecycle and a graph of dependencies, and an agent runtime admits an effect by the capabilities of
  its provider, fences it by the generations of session, daemon and driver, and settles it by receipts.
  On one machine, the daemon of a Node owns the machine through a lease document with a generation,
  and every canonical mutation is a row of a ledger, admitted by idempotency key and version.

  \<^bold>\<open>Conventions.\<close> A Rust struct is a record whose fields carry a prefix, an enum is a datatype, a
  \<^verbatim>\<open>u64\<close> is a 64-bit word with saturation and wrap-around where the code has them, a \<^verbatim>\<open>String\<close> is the
  list of its UTF-8 bytes, a \<^verbatim>\<open>BTreeMap\<close> is an ordered association list with \<^verbatim>\<open>bt_get\<close> and
  \<^verbatim>\<open>bt_insert\<close>, a \<^verbatim>\<open>Result\<close> is a sum with the error on the left. An operation on a state is an action,
  a function from the state to result and state; \<^verbatim>\<open>transact\<close> discards the state of a failed one, as
  the stores do. serde, SHA-256, Ed25519, the MAC, the cipher, certificate requests, sockets and the
  clock are outside the repository: they are fields of the records \<^verbatim>\<open>codec\<close>, \<^verbatim>\<open>journal_codec\<close>,
  \<^verbatim>\<open>wire\<close>, \<^verbatim>\<open>vault\<close>, \<^verbatim>\<open>endpoint\<close> and of the disk of the journal, and the laws a theorem needs of them
  are its hypotheses (\<^verbatim>\<open>frame_codec\<close>, \<^verbatim>\<open>cipher_inverts\<close>, \<^verbatim>\<open>bytes_as_numbers\<close> and others).

  \<^bold>\<open>Shared theories.\<close> \<^verbatim>\<open>Prelude\<close> has the actions, the ordered maps, \<^verbatim>\<open>find\<close> and \<^verbatim>\<open>max_by_key\<close>, and three
  interfaces as locales: \<^verbatim>\<open>keyed_table\<close> (tables whose rows carry their key), \<^verbatim>\<open>invariant_system\<close> and
  \<^verbatim>\<open>monotone_system\<close> (steps that keep an invariant and an order). \<^verbatim>\<open>Journal_Loop\<close> has the locale
  \<^verbatim>\<open>journal_loop\<close>: what a loader of newline-terminated frames returns.

  \<^bold>\<open>The Control Plane.\<close>
  \<^item> \<^verbatim>\<open>Fabric_Error\<close>, \<^verbatim>\<open>Protocol\<close> (\<^verbatim>\<open>protocol.rs\<close>), \<^verbatim>\<open>Canonical_Json\<close> (\<^verbatim>\<open>lib.rs\<close>): errors, entities,
    closed bodies, canonical digests.
  \<^item> \<^verbatim>\<open>Fabric_State\<close> (\<^verbatim>\<open>store.rs\<close>): the durable tables and the limits.
  \<^item> \<^verbatim>\<open>Router\<close> (\<^verbatim>\<open>router.rs\<close>), \<^verbatim>\<open>Reconcile\<close> (\<^verbatim>\<open>reconcile.rs\<close>), \<^verbatim>\<open>Gateway_Fence\<close> and \<^verbatim>\<open>Node_Gateway\<close>
    (\<^verbatim>\<open>node_gateway.rs\<close>), \<^verbatim>\<open>Enrollment\<close> (\<^verbatim>\<open>enrollment.rs\<close>), \<^verbatim>\<open>Artifacts\<close> (\<^verbatim>\<open>artifacts.rs\<close>),
    \<^verbatim>\<open>Control_Plane\<close> (\<^verbatim>\<open>control_plane.rs\<close>): one definition per operation, behind the lease.
  \<^item> \<^verbatim>\<open>Route_Invariant\<close>, \<^verbatim>\<open>Route_Steps\<close>, \<^verbatim>\<open>Authority\<close>, \<^verbatim>\<open>Artifact_Steps\<close>: the invariants of the routing
    tables, the authority tables and the objects, and that every operation keeps them and only moves
    forward. \<^verbatim>\<open>Fabric_Run\<close> joins them: \<^verbatim>\<open>fabric_step\<close> has a constructor per public operation, and
    \<^verbatim>\<open>monotone_system\<close> is interpreted on it.
  \<^item> \<^verbatim>\<open>Route_Properties\<close>, \<^verbatim>\<open>Authority_Properties\<close>, \<^verbatim>\<open>Gateway_Properties\<close>, \<^verbatim>\<open>Artifact_Properties\<close>: an
    operation has one terminal outcome and it is evidenced and final, retries and acceptance are safe
    and bounded, authority that was lost is never regained, queued work is handed over, an artifact is
    read back as it was written; and two defects of the capability check. \<^verbatim>\<open>Sample_Run\<close> is a concrete
    run the properties are applied to.

  \<^bold>\<open>Durability.\<close> \<^verbatim>\<open>Fabric_Journal\<close> (\<^verbatim>\<open>store.rs\<close>) has the journal, checkpoint, recovery and backup on a
  model of the disk; \<^verbatim>\<open>Fabric_Recovery\<close> interprets \<^verbatim>\<open>journal_loop\<close> on its loader and shows that it
  refines \<^verbatim>\<open>transact\<close>; \<^verbatim>\<open>Journal_Properties\<close> states refinement, recovery after a crash, equivalence of
  reading from a checkpoint, the round trip of a backup, and the defect of a torn tail.

  \<^bold>\<open>The Node.\<close> \<^verbatim>\<open>Local_Store\<close> (\<^verbatim>\<open>local_store.rs\<close>) has every transaction of the Node's store, \<^verbatim>\<open>Local_Run\<close>
  its steps, invariant and order, \<^verbatim>\<open>Local_Properties\<close> what they guarantee: at most one claim, final
  results, ordered deliveries, fenced sessions.

  \<^bold>\<open>The session between them.\<close> \<^verbatim>\<open>Transport\<close> (\<^verbatim>\<open>transport.rs\<close>) has frames, their validation and codec;
  \<^verbatim>\<open>Socket\<close> reading and writing frames on an endpoint; \<^verbatim>\<open>Gateway_Server\<close> and \<^verbatim>\<open>Gateway_Client\<close>
  (\<^verbatim>\<open>gateway_runtime.rs\<close>) the two ends, composed of the operations above in the order of the code.
  \<^verbatim>\<open>Session_Properties\<close> shows that the application of a Node runs an operation at most once over any
  number of sessions; \<^verbatim>\<open>Download_Properties\<close> that both loops end, that a sent artifact is received, and
  that a full chunk does not fit into a frame.

  \<^bold>\<open>The Work kernel.\<close> \<^verbatim>\<open>Work\<close> (\<^verbatim>\<open>work.rs\<close>, \<^verbatim>\<open>work/lifecycle.rs\<close>, \<^verbatim>\<open>work/journal.rs\<close>) has the Work, its
  validation, creation and transitions, \<^verbatim>\<open>Work_Graph\<close> (\<^verbatim>\<open>work/dependency.rs\<close>) the dependency change with
  its search for cycles and readiness; \<^verbatim>\<open>Work_Properties\<close> shows that the search is exact, the graph
  stays acyclic, the reachable statuses, that acceptance follows submission, and what a readiness
  report says.

  \<^bold>\<open>The runtime contract.\<close> \<^verbatim>\<open>Runtime_Types\<close> has the records of \<^verbatim>\<open>firm-core\<close> the contract reads
  (\<^verbatim>\<open>identity_session.rs\<close>, \<^verbatim>\<open>runtime_control.rs\<close>, \<^verbatim>\<open>team_runtime.rs\<close>, \<^verbatim>\<open>provider_integration.rs\<close>),
  \<^verbatim>\<open>Rust_Text\<close> trimming and decimal numbers. \<^verbatim>\<open>Runtime_Capability\<close> (\<^verbatim>\<open>provider_capabilities.rs\<close>,
  \<^verbatim>\<open>conformance.rs\<close>) has the admission of a capability and the fence of a command, \<^verbatim>\<open>Runtime_Cycle\<close>
  (\<^verbatim>\<open>cycle.rs\<close>, \<^verbatim>\<open>cycle_ending.rs\<close>, \<^verbatim>\<open>receipt_and_terminal.rs\<close>, \<^verbatim>\<open>control.rs\<close>, \<^verbatim>\<open>timeouts.rs\<close>) outcomes,
  settlements and endings of a cycle, \<^verbatim>\<open>Runtime_Quiesce\<close> quiescing, swapping and releasing,
  \<^verbatim>\<open>Cycle_Assertions\<close> (\<^verbatim>\<open>cycle_assertions.rs\<close>) the conformance assertions,
  \<^verbatim>\<open>Collaboration_Capability\<close> (\<^verbatim>\<open>collaboration_capability.rs\<close>) the agent's own secret.
  \<^verbatim>\<open>Runtime_Admission\<close> shows that the depth-first admission is exact, \<^verbatim>\<open>Runtime_Properties\<close> that the fence is
  exact, that the two classifications of an outcome agree on observed terminals, that the status text
  is read back, and that quiescing is verified in order and precedes every swap.

  \<^bold>\<open>The single-machine store.\<close> \<^verbatim>\<open>Line_Files\<close> has files of newline-terminated rows, \<^verbatim>\<open>Store_Error\<close> the
  errors of the store (a typed refusal, which the code writes as JSON text, is kept as a value).
  \<^verbatim>\<open>Machine_Lease\<close> (\<^verbatim>\<open>store_machine_lease.rs\<close>, \<^verbatim>\<open>node_lease_document.rs\<close>, \<^verbatim>\<open>node_lease_history.rs\<close>) has
  the lease document, its history and every verb on them; \<^verbatim>\<open>Lease_Properties\<close> shows that a generation has
  one owner and a superseded daemon is fenced, also when writes are interrupted between the two files
  (\<^verbatim>\<open>lease_step\<close>), that the receipt of a release is exact when they are not, and two defects of the
  history; \<^verbatim>\<open>Lease_Sample\<close> applies it to a concrete codec and directory. \<^verbatim>\<open>Trust_Ledger\<close>
  (\<^verbatim>\<open>trust_kernel.rs\<close>, \<^verbatim>\<open>trust_kernel/trust_foundation.rs\<close>) has the commit of a projection, alone or paired
  with a second aggregate, and the writer of Works, alone or in batches, on the rows of the ledger file;
  the notices the Work writer attaches to a terminal Work are its argument \<^verbatim>\<open>terminal_outbox\<close>. The steps of
  \<^verbatim>\<open>Ledger_Properties\<close> are these commits; the writers that create, migrate and re-form teams and admit
  member runs are not modelled. It shows the order of the ledger, the version chain of an aggregate,
  exact replays and that no update is lost, for fewer than 2 to the 64 rows; the last two for the kinds
  of aggregate other than \<^verbatim>\<open>work\<close> and \<^verbatim>\<open>member_run\<close>, whose versions their callers bring
  (\<^verbatim>\<open>unpaired_kind\<close>). \<^verbatim>\<open>Ledger_Sample\<close> is a concrete ledger.

  \<^bold>\<open>The journal of runtime commands.\<close> A command is recorded in the ledger before its effect touches a
  provider, settled by the daemon that owns it or closed through recovery. \<^verbatim>\<open>Command_Fence\<close>
  (\<^verbatim>\<open>trust_kernel/fabric_foundation.rs\<close>) has the fences: the daemon that holds the machine lease, the live
  binding of session, runtime and driver, the precondition; a \<^verbatim>\<open>view\<close> holds what they read besides the
  ledger, the acceptance wake that is pending for a member run among it. \<^verbatim>\<open>Runtime_Commands\<close>
  (\<^verbatim>\<open>fabric_runtime_commands.rs\<close>, \<^verbatim>\<open>fabric_runtime_command_settlement.rs\<close>) has the five operations; each is
  an admission that computes the next record, and one commit of the ledger. It also has the recovery of
  the authored messages a predecessor left uncertain (\<^verbatim>\<open>node_daemon_predecessor/author_message.rs\<close>), whose
  proof that a message was authored, \<^verbatim>\<open>prove_author_message\<close>, is an argument, so what is shown holds for
  any. \<^verbatim>\<open>Command_Run\<close> interleaves all of them with the commits of all other aggregates and interprets
  \<^verbatim>\<open>monotone_system\<close>; \<^verbatim>\<open>Command_Properties\<close> shows that outcomes are final until the id is prepared again
  (\<^verbatim>\<open>prepared_during\<close>), that a session has one uncertain effect unless one of two calls wrote that the
  code does not refuse (\<^verbatim>\<open>loosens\<close>), and, composed with the machine lease, that a superseded daemon has no
  effect left: its executor's exit, which needs no lease, can only park a prepared command for recovery.
  \<^verbatim>\<open>Command_Sample\<close> is a session with a cycle that is started, interrupted, settled and prepared again.

  \<^bold>\<open>Loops and bounds.\<close> Loops over collections are structural recursions. The depth-first search for a
  cycle terminates because the visited ids grow within the ids of the graph, and so does the walk over required
  capabilities, whose closure grows within the bindings; the digest-chained
  loaders recurse on the rest of the file. The loop that serves a session and the loop that receives
  chunks have no bound in the code: \<^verbatim>\<open>serve_loop\<close> and \<^verbatim>\<open>receive_loop\<close> are these loops, with \<^verbatim>\<open>None\<close> for one
  that does not end. Each round reads a message and a socket delivers finitely many before it closes, so
  both return, with the value of the same loop bounded by that number and one more, the form the rest of
  the model runs (\<^verbatim>\<open>session_loops_end\<close>).

  \<^bold>\<open>Not modelled.\<close> Opening TCP and TLS connections, certificate and key files (\<^verbatim>\<open>transport.rs\<close>,
  \<^verbatim>\<open>pki.rs\<close>), directories, symbolic links and file locks (\<^verbatim>\<open>store.rs\<close>), the journal file of the Node's store
  and the read-only report of \<^verbatim>\<open>diagnostics.rs\<close>; interleavings of threads inside a transaction, which
  the locks of the stores exclude. Of the single-machine
  store the machine lease, the commit paths of the ledger and the runtime commands are modelled; its other
  aggregates (teams, messages, workspaces, gates) and their read models are not. The application layer, the
  command line, the Node daemon, the provider adapters and the hosts of agent runtimes are process
  control, I/O and serialisable data.
\<close>

end
